(* ===== verification/Pursers_Prelude.thy ===== *)
theory Pursers_Prelude
  imports Main "HOL-Library.AList" "HOL-Library.Multiset" "HOL-Library.Char_ord" "HOL-Library.List_Lexorder"
    "HOL-Library.Product_Lexorder" "HOL-Library.Option_ord"
begin

section \<open>Prelude: results, ordered dictionaries, text and time\<close>

text \<open>
  Generic material shared by every component of the Pursers model.

  \<^item> Python exceptions are values: a fallible operation returns \<open>error + 'a\<close>, \<open>Inl\<close> for the
    raised exception and \<open>Inr\<close> for the returned value.  \<open>bindE\<close> sequences such operations,
    \<open>foldE\<close>, \<open>filterE\<close> and \<open>anyE\<close> are the loops of the source that may raise in the middle.
  \<^item> A Python dict keeps insertion order, and assignment to a present key keeps its position:
    that is \<open>AList.update\<close>.  \<open>dget\<close>, \<open>dset\<close>, \<open>dpop\<close> are the dict operations; the locale
    \<open>ordered_dict\<close> states the laws that clients use.
  \<^item> Epoch seconds (floats in the source) are integer microseconds, the resolution of the ISO
    texts the source stores; \<open>secs\<close> converts whole seconds.
  \<^item> Text is ASCII: \<open>casefold\<close> and \<open>strip\<close> are Python's operations on ASCII strings.
\<close>

named_theorems result_simps \<open>evaluation of the result combinators\<close>
named_theorems frame_simps \<open>parts of the state an operation leaves alone\<close>

subsection \<open>Results\<close>

datatype error =
    PermissionError string
  | ValueError string
  | TypeError string
  | KeyError string
  | RuntimeError string
  | AttributeError string
  | AssertionError string
  | OverflowError string

type_synonym 'a result = "error + 'a"

definition bindE :: "'a result \<Rightarrow> ('a \<Rightarrow> 'b result) \<Rightarrow> 'b result" where
  "bindE x f = (case x of Inl e \<Rightarrow> Inl e | Inr a \<Rightarrow> f a)"

definition guardE :: "bool \<Rightarrow> error \<Rightarrow> unit result" where
  "guardE b e = (if b then Inr () else Inl e)"

lemma bindE_simps [simp, result_simps]:
  "bindE (Inl e) f = Inl e"
  "bindE (Inr a) f = f a"
  by (simp_all add: bindE_def)

lemma bindE_eq_Inr [simp]: "bindE x f = Inr b \<longleftrightarrow> (\<exists>a. x = Inr a \<and> f a = Inr b)"
  by (cases x) simp_all

lemma bindE_eq_Inl: "bindE x f = Inl e \<longleftrightarrow> x = Inl e \<or> (\<exists>a. x = Inr a \<and> f a = Inl e)"
  by (cases x) simp_all

text \<open>A sequence that returned: what its first step returned.\<close>

lemma bindE_Inr1E: "bindE m k = Inr r \<Longrightarrow> (\<And>a. m = Inr a \<Longrightarrow> k a = Inr r \<Longrightarrow> thesis) \<Longrightarrow> thesis"
  by (cases m) simp_all

lemma if_raise: "(if b then Inl e else x) = Inr r \<longleftrightarrow> \<not> b \<and> x = Inr r"
  by simp

lemma bindE_skip: "bindE m (\<lambda>_. k) = Inr r \<Longrightarrow> k = Inr r"
  by (cases m) simp_all

lemma bindE_Inr2E: "bindE m (\<lambda>(a, b). k a b) = Inr r \<Longrightarrow>
    (\<And>a b. m = Inr (a, b) \<Longrightarrow> k a b = Inr r \<Longrightarrow> thesis) \<Longrightarrow> thesis"
  by (cases m) auto

lemma bindE_Inr3E: "bindE m (\<lambda>(a, b, c). k a b c) = Inr r \<Longrightarrow>
    (\<And>a b c. m = Inr (a, b, c) \<Longrightarrow> k a b c = Inr r \<Longrightarrow> thesis) \<Longrightarrow> thesis"
  by (cases m) auto

lemma bindE_cong [fundef_cong]:
  "x = y \<Longrightarrow> (\<And>a. y = Inr a \<Longrightarrow> f a = g a) \<Longrightarrow> bindE x f = bindE y g"
  by (cases y) simp_all

lemma guardE_eq_Inr [simp]: "guardE b e = Inr u \<longleftrightarrow> b"
  by (simp add: guardE_def)

lemma guardE_eq_Inl [simp]: "guardE b e = Inl e' \<longleftrightarrow> \<not> b \<and> e' = e"
  by (auto simp: guardE_def)

lemma guardE_simps [simp, result_simps]:
  "guardE True e = Inr ()"
  "guardE False e = Inl e"
  by (simp_all add: guardE_def)

fun foldE :: "('a \<Rightarrow> 's \<Rightarrow> 's result) \<Rightarrow> 'a list \<Rightarrow> 's \<Rightarrow> 's result" where
  "foldE f [] s = Inr s"
| "foldE f (x # xs) s = bindE (f x s) (foldE f xs)"

fun filterE :: "('a \<Rightarrow> bool result) \<Rightarrow> 'a list \<Rightarrow> 'a list result" where
  "filterE p [] = Inr []"
| "filterE p (x # xs) =
     bindE (p x) (\<lambda>b. bindE (filterE p xs) (\<lambda>ys. Inr (if b then x # ys else ys)))"

fun anyE :: "('a \<Rightarrow> bool result) \<Rightarrow> 'a list \<Rightarrow> bool result" where
  "anyE p [] = Inr False"
| "anyE p (x # xs) = bindE (p x) (\<lambda>b. if b then Inr True else anyE p xs)"

text \<open>The rule every loop proof uses: an invariant of the body is an invariant of the loop.\<close>

lemma foldE_invariant:
  assumes "foldE f xs s = Inr s'" and "P s"
    and "\<And>x s s'. x \<in> set xs \<Longrightarrow> P s \<Longrightarrow> f x s = Inr s' \<Longrightarrow> P s'"
  shows "P s'"
  using assms
proof (induction xs arbitrary: s)
  case (Cons x xs)
  then obtain s1 where step: "f x s = Inr s1" and rest: "foldE f xs s1 = Inr s'" by auto
  have "P s1" using Cons.prems(2,3) step by (meson list.set_intros(1))
  with Cons.IH [OF rest] Cons.prems(3) show ?case by (meson list.set_intros(2))
qed simp

lemma foldE_append: "foldE f (xs @ ys) s = bindE (foldE f xs s) (foldE f ys)"
proof (induction xs arbitrary: s)
  case (Cons x xs)
  then show ?case by (cases "f x s") simp_all
qed simp

lemma filterE_set:
  "filterE p xs = Inr ys \<Longrightarrow> y \<in> set ys \<Longrightarrow> y \<in> set xs \<and> p y = Inr True"
  by (induction xs arbitrary: ys) (auto split: if_splits)

lemma filterE_complete:
  "filterE p xs = Inr ys \<Longrightarrow> x \<in> set xs \<Longrightarrow> x \<notin> set ys \<Longrightarrow> p x = Inr False"
  by (induction xs arbitrary: ys) (auto split: if_splits)

lemma filterE_total: "(\<And>x. x \<in> set xs \<Longrightarrow> p x = Inr (q x)) \<Longrightarrow> filterE p xs = Inr (filter q xs)"
  by (induction xs) auto

lemma anyE_False: "anyE p xs = Inr False \<longleftrightarrow> (\<forall>x \<in> set xs. p x = Inr False)"
  by (induction xs) (auto split: if_splits)

lemma anyE_True_D: "anyE p xs = Inr True \<Longrightarrow> \<exists>x \<in> set xs. p x = Inr True"
  by (induction xs) (auto split: if_splits)

text \<open>An operation that returns, with any value.\<close>

definition returns :: "'a result \<Rightarrow> bool" where
  "returns x = (case x of Inl _ \<Rightarrow> False | Inr _ \<Rightarrow> True)"

lemma returns_simps [simp]:
  "returns (Inr a)"
  "\<not> returns (Inl e)"
  "returns (bindE x f) \<longleftrightarrow> returns x \<and> (\<forall>a. x = Inr a \<longrightarrow> returns (f a))"
  by (cases x; simp add: returns_def)+

lemma returns_iff: "returns x \<longleftrightarrow> (\<exists>a. x = Inr a)"
  by (cases x) simp_all

lemma returnsD: "returns x \<Longrightarrow> \<exists>a. x = Inr a"
  by (simp add: returns_iff)

lemma anyE_returns: "(\<And>x. x \<in> set xs \<Longrightarrow> returns (p x)) \<Longrightarrow> returns (anyE p xs)"
  by (induction xs) simp_all

lemma filterE_returns: "(\<And>x. x \<in> set xs \<Longrightarrow> returns (p x)) \<Longrightarrow> returns (filterE p xs)"
  by (induction xs) simp_all

lemma foldE_returns:
  assumes "\<And>x s. P s \<Longrightarrow> returns (f x s)" and "\<And>x s s'. P s \<Longrightarrow> f x s = Inr s' \<Longrightarrow> P s'" and "P s"
  shows "returns (foldE f xs s)"
  using assms(3) by (induction xs arbitrary: s) (auto intro: assms(1,2))

subsection \<open>Ordered dictionaries\<close>

type_synonym ('k, 'v) odict = "('k \<times> 'v) list"

definition dget :: "('k, 'v) odict \<Rightarrow> 'k \<Rightarrow> 'v option" where
  "dget d k = map_of d k"

definition dset :: "'k \<Rightarrow> 'v \<Rightarrow> ('k, 'v) odict \<Rightarrow> ('k, 'v) odict" where
  "dset k v d = AList.update k v d"

definition dpop :: "'k \<Rightarrow> ('k, 'v) odict \<Rightarrow> ('k, 'v) odict" where
  "dpop k d = filter (\<lambda>(k', _). k' \<noteq> k) d"

definition dkeys :: "('k, 'v) odict \<Rightarrow> 'k list" where
  "dkeys d = map fst d"

definition dvalues :: "('k, 'v) odict \<Rightarrow> 'v list" where
  "dvalues d = map snd d"

definition dict_ok :: "('k, 'v) odict \<Rightarrow> bool" where
  "dict_ok d \<longleftrightarrow> distinct (dkeys d)"

lemma dget_Nil [simp]: "dget [] k = None"
  by (simp add: dget_def)

lemma dget_Cons [simp]: "dget ((k', v) # d) k = (if k' = k then Some v else dget d k)"
  by (simp add: dget_def)

lemma dget_dset [simp]: "dget (dset k v d) k' = (if k' = k then Some v else dget d k')"
  by (simp add: dget_def dset_def update_conv')

lemma dget_dpop [simp]: "dget (dpop k d) k' = (if k' = k then None else dget d k')"
  by (induction d) (auto simp: dget_def dpop_def)

lemma dget_in_keys: "dget d k \<noteq> None \<longleftrightarrow> k \<in> set (dkeys d)"
  by (induction d) (auto simp: dkeys_def)

lemma dkeys_dset_present [simp]: "k \<in> set (dkeys d) \<Longrightarrow> dkeys (dset k v d) = dkeys d"
  by (simp add: dkeys_def dset_def update_keys)

lemma dict_ok_dset [simp]: "dict_ok d \<Longrightarrow> dict_ok (dset k v d)"
  by (simp add: dict_ok_def dkeys_def dset_def distinct_update)

lemma dict_ok_dpop [simp]: "dict_ok d \<Longrightarrow> dict_ok (dpop k d)"
  by (induction d) (auto simp: dict_ok_def dkeys_def dpop_def)

lemma dget_in_values: "dget d k = Some v \<Longrightarrow> (k, v) \<in> set d"
  by (simp add: dget_def map_of_SomeD)

text \<open>Equality of dictionaries: the order of the keys does not matter.\<close>

definition dict_eq :: "('k, 'v) odict \<Rightarrow> ('k, 'v) odict \<Rightarrow> bool" where
  "dict_eq d e \<longleftrightarrow> list_all (\<lambda>k. dget d k = dget e k) (dkeys d @ dkeys e)"

lemma dict_eq_iff: "dict_eq d e \<longleftrightarrow> dget d = dget e"
proof
  assume eq: "dict_eq d e"
  show "dget d = dget e"
  proof
    fix k
    show "dget d k = dget e k"
    proof (cases "k \<in> set (dkeys d @ dkeys e)")
      case True
      then show ?thesis using eq by (simp only: dict_eq_def list_all_iff)
    next
      case False
      then have "dget d k = None" "dget e k = None"
        using dget_in_keys [of d k] dget_in_keys [of e k] by (simp_all only: set_append Un_iff) blast+
      then show ?thesis by simp
    qed
  qed
qed (simp add: dict_eq_def list_all_iff)

lemma dict_ok_lookup: "dict_ok d \<Longrightarrow> (k, v) \<in> set d \<Longrightarrow> dget d k = Some v"
  by (simp add: dict_ok_def dkeys_def dget_def)

lemma dset_same [simp]: "dget d k = Some v \<Longrightarrow> dset k v d = d"
  by (induction d) (auto simp: dset_def split: if_splits)

lemma set_dset:
  "dict_ok d \<Longrightarrow> p \<in> set (dset k v d) \<longleftrightarrow> p = (k, v) \<or> (p \<in> set d \<and> fst p \<noteq> k)"
  by (induction d) (auto simp: dset_def dict_ok_def dkeys_def rev_image_eqI)

text \<open>The contract of a dictionary, as its clients use it.\<close>

locale ordered_dict =
  fixes get :: "'d \<Rightarrow> 'k \<Rightarrow> 'v option"
    and put :: "'k \<Rightarrow> 'v \<Rightarrow> 'd \<Rightarrow> 'd"
    and pop :: "'k \<Rightarrow> 'd \<Rightarrow> 'd"
    and keys :: "'d \<Rightarrow> 'k list"
    and ok :: "'d \<Rightarrow> bool"
  assumes get_put: "get (put k v d) k' = (if k' = k then Some v else get d k')"
    and get_pop: "get (pop k d) k' = (if k' = k then None else get d k')"
    and get_keys: "get d k \<noteq> None \<longleftrightarrow> k \<in> set (keys d)"
    and keys_put: "k \<in> set (keys d) \<Longrightarrow> keys (put k v d) = keys d"
    and ok_put: "ok d \<Longrightarrow> ok (put k v d)"
    and ok_pop: "ok d \<Longrightarrow> ok (pop k d)"
begin

lemma get_put_same: "get (put k v d) k = Some v"
  by (simp add: get_put)

lemma get_put_other: "k' \<noteq> k \<Longrightarrow> get (put k v d) k' = get d k'"
  by (simp add: get_put)

text \<open>A sweep that rewrites entries in place touches no other entry and keeps the key order.\<close>

definition rewrite :: "('k \<Rightarrow> 'v \<Rightarrow> 'v) \<Rightarrow> 'k list \<Rightarrow> 'd \<Rightarrow> 'd" where
  "rewrite f ks d = fold (\<lambda>k d. case get d k of None \<Rightarrow> d | Some v \<Rightarrow> put k (f k v) d) ks d"

lemma rewrite_keys: "keys (rewrite f ks d) = keys d"
proof (induction ks arbitrary: d)
  case (Cons k ks)
  have "keys (case get d k of None \<Rightarrow> d | Some v \<Rightarrow> put k (f k v) d) = keys d"
    using get_keys [of d k] by (auto simp: keys_put split: option.split)
  with Cons show ?case by (simp add: rewrite_def)
qed (simp add: rewrite_def)

lemma rewrite_ok: "ok d \<Longrightarrow> ok (rewrite f ks d)"
proof (induction ks arbitrary: d)
  case (Cons k ks)
  then have "ok (case get d k of None \<Rightarrow> d | Some v \<Rightarrow> put k (f k v) d)"
    by (simp add: ok_put split: option.split)
  with Cons.IH show ?case by (simp add: rewrite_def)
qed (simp add: rewrite_def)

lemma rewrite_other: "k \<notin> set ks \<Longrightarrow> get (rewrite f ks d) k = get d k"
proof (induction ks arbitrary: d)
  case (Cons k' ks)
  then have "get (rewrite f ks (case get d k' of None \<Rightarrow> d | Some v \<Rightarrow> put k' (f k' v) d)) k
    = get (case get d k' of None \<Rightarrow> d | Some v \<Rightarrow> put k' (f k' v) d) k"
    by simp
  with Cons.prems show ?case
    by (auto simp: rewrite_def get_put split: option.split)
qed (simp add: rewrite_def)

end

interpretation od: ordered_dict dget dset dpop dkeys dict_ok
  by unfold_locales (simp_all only: dget_dset dget_dpop dget_in_keys dkeys_dset_present dict_ok_dset dict_ok_dpop)

subsection \<open>Text\<close>

definition lower_char :: "char \<Rightarrow> char" where
  "lower_char c = (let n = of_char c :: nat in if 65 \<le> n \<and> n \<le> 90 then char_of (n + 32) else c)"

definition casefold :: "string \<Rightarrow> string" where
  "casefold s = map lower_char s"

definition is_space :: "char \<Rightarrow> bool" where
  "is_space c = (let n = of_char c :: nat in (9 \<le> n \<and> n \<le> 13) \<or> (28 \<le> n \<and> n \<le> 32))"

definition strip :: "string \<Rightarrow> string" where
  "strip s = rev (dropWhile is_space (rev (dropWhile is_space s)))"

definition truthy :: "string option \<Rightarrow> bool" where
  "truthy s = (case s of None \<Rightarrow> False | Some t \<Rightarrow> t \<noteq> [])"

lemma truthy_simps [simp]: "\<not> truthy None" "truthy (Some t) \<longleftrightarrow> t \<noteq> []"
  by (simp_all add: truthy_def)

lemma truthyD: "truthy s \<Longrightarrow> \<exists>t. s = Some t"
  by (cases s) simp_all

definition alnum_char :: "char \<Rightarrow> bool" where
  "alnum_char c = (let n = of_char c :: nat in
     (48 \<le> n \<and> n \<le> 57) \<or> (65 \<le> n \<and> n \<le> 90) \<or> (97 \<le> n \<and> n \<le> 122))"

fun split_at :: "char \<Rightarrow> string \<Rightarrow> string list" where
  "split_at d [] = [[]]"
| "split_at d (c # cs) =
     (if c = d then [] # split_at d cs
      else (case split_at d cs of [] \<Rightarrow> [[c]] | p # ps \<Rightarrow> (c # p) # ps))"

definition starts_with :: "string \<Rightarrow> string \<Rightarrow> bool" where
  "starts_with p s \<longleftrightarrow> take (length p) s = p"

definition ends_with :: "string \<Rightarrow> string \<Rightarrow> bool" where
  "ends_with p s \<longleftrightarrow> starts_with (rev p) (rev s)"

fun contains_text :: "string \<Rightarrow> string \<Rightarrow> bool" where
  "contains_text p [] \<longleftrightarrow> p = []"
| "contains_text p (c # cs) \<longleftrightarrow> starts_with p (c # cs) \<or> contains_text p cs"

definition lstrip :: "string \<Rightarrow> string" where
  "lstrip s = dropWhile is_space s"

definition rstrip :: "string \<Rightarrow> string" where
  "rstrip s = rev (dropWhile is_space (rev s))"

text \<open>\<open>sep.join(xs)\<close>.\<close>

fun joined :: "string \<Rightarrow> string list \<Rightarrow> string" where
  "joined sep [] = []"
| "joined sep [x] = x"
| "joined sep (x # xs) = x @ sep @ joined sep xs"

text \<open>Decimal digits of a natural number, and the format \<open>{n:0kd}\<close>.\<close>

fun decimal :: "nat \<Rightarrow> string" where
  "decimal n = (if n < 10 then [char_of (48 + n)] else decimal (n div 10) @ [char_of (48 + n mod 10)])"

declare decimal.simps [simp del]

definition zero_padded :: "nat \<Rightarrow> nat \<Rightarrow> string" where
  "zero_padded k n = replicate (k - length (decimal n)) (CHR ''0'') @ decimal n"

text \<open>Python's \<open>a or b\<close> on optional texts.\<close>

definition text_or :: "string option \<Rightarrow> string option \<Rightarrow> string option" where
  "text_or a b = (if truthy a then a else b)"

lemma strip_idem_dropWhile: "dropWhile P (dropWhile P xs) = dropWhile P xs"
  by (induction xs) simp_all

lemma strip_strip: "strip (strip s) = strip s"
proof -
  let ?d = "dropWhile is_space"
  have fixpoint: "?d (rev (?d (rev xs))) = rev (?d (rev xs))" if "?d xs = xs" for xs
  proof (cases xs)
    case (Cons c cs)
    with that have c: "\<not> is_space c" by (metis dropWhile_eq_Cons_conv)
    have "?d (rev xs) = ?d (rev cs) @ [c] \<or> ?d (rev xs) = [c]"
      using Cons c by (auto simp: dropWhile_append)
    then have "\<exists>ys. rev (?d (rev xs)) = c # ys"
      by (elim disjE) (simp_all only: rev_append rev.simps append.simps, blast+)
    with c show ?thesis by auto
  qed simp
  show ?thesis
    unfolding strip_def
    by (simp add: fixpoint strip_idem_dropWhile)
qed

subsection \<open>Time\<close>

type_synonym time = int

definition secs :: "int \<Rightarrow> time" where
  "secs n = 1000000 * n"

lemma secs_mono [simp]: "secs a \<le> secs b \<longleftrightarrow> a \<le> b" "secs a < secs b \<longleftrightarrow> a < b"
  by (simp_all add: secs_def)

lemma secs_pos [simp]: "0 < secs a \<longleftrightarrow> 0 < a" "0 \<le> secs a \<longleftrightarrow> 0 \<le> a"
  by (simp_all add: secs_def)

text \<open>Stable selection: the first element of a stable sort is a minimum of the key.\<close>

lemma hd_sort_key_in: "xs \<noteq> [] \<Longrightarrow> hd (sort_key f xs) \<in> set xs"
  by (metis hd_in_set length_0_conv length_sort set_sort)

lemma hd_sort_key_min:
  assumes "y \<in> set xs"
  shows "f (hd (sort_key f xs)) \<le> f y"
proof -
  have ne: "sort_key f xs \<noteq> []"
    using assms by (metis length_0_conv length_sort list.set_cases neq_Nil_conv)
  have s: "sorted (map f (sort_key f xs))" by simp
  have "y \<in> set (sort_key f xs)" using assms by simp
  then show ?thesis
    using s ne by (cases "sort_key f xs") auto
qed

end
