(* ===== verification/Json_Values.thy ===== *)
theory Json_Values
  imports Complex_Main Pursers_Prelude
begin

section \<open>JSON values as Python sees them\<close>

text \<open>
  Values that reach the source unvalidated are JSON: what \<open>json.loads\<close> produces.  Floats are
  rationals, except the three non-finite ones.  \<open>py_eq\<close> is Python's \<open>==\<close> on them (booleans are the
  integers 0 and 1, numbers compare by value, dicts without regard to order), \<open>is_int_counter\<close> the
  source's test for a counter in a range, which refuses booleans.
\<close>

datatype json =
    J_Null
  | J_Bool bool
  | J_Int int
  | J_Float rat
  | J_Nonfinite string
  | J_Str string
  | J_List "json list"
  | J_Obj "(string \<times> json) list"

fun j_num :: "json \<Rightarrow> rat option" where
  "j_num (J_Bool b) = Some (if b then 1 else 0)"
| "j_num (J_Int n) = Some (of_int n)"
| "j_num (J_Float q) = Some q"
| "j_num _ = None"

fun py_eq :: "json \<Rightarrow> json \<Rightarrow> bool" where
  "py_eq J_Null y = (y = J_Null)"
| "py_eq (J_Str s) y = (y = J_Str s)"
| "py_eq (J_Nonfinite s) y = (y = J_Nonfinite s \<and> s \<noteq> ''nan'')"
| "py_eq (J_List xs) y = (case y of J_List ys \<Rightarrow> list_all2 py_eq xs ys | _ \<Rightarrow> False)"
| "py_eq (J_Obj xs) y =
     (case y of
        J_Obj ys \<Rightarrow> length xs = length ys \<and>
          list_all (\<lambda>p. case map_of ys (fst p) of None \<Rightarrow> False | Some w \<Rightarrow> py_eq (snd p) w) xs
      | _ \<Rightarrow> False)"
| "py_eq (J_Bool b) y = (j_num y = Some (if b then 1 else 0))"
| "py_eq (J_Int n) y = (j_num y = Some (of_int n))"
| "py_eq (J_Float q) y = (j_num y = Some q)"

fun j_get :: "json \<Rightarrow> string \<Rightarrow> json" where
  "j_get (J_Obj xs) k = (case map_of xs k of None \<Rightarrow> J_Null | Some v \<Rightarrow> v)"
| "j_get _ k = J_Null"

fun j_has :: "json \<Rightarrow> string \<Rightarrow> bool" where
  "j_has (J_Obj xs) k = (k \<in> set (map fst xs))"
| "j_has _ k = False"

fun is_obj :: "json \<Rightarrow> bool" where
  "is_obj (J_Obj _) = True"
| "is_obj _ = False"

fun is_int_counter :: "int \<Rightarrow> int \<Rightarrow> json \<Rightarrow> bool" where
  "is_int_counter lo hi (J_Int n) = (lo \<le> n \<and> n \<le> hi)"
| "is_int_counter lo hi _ = False"

fun j_int :: "json \<Rightarrow> int" where
  "j_int (J_Int n) = n"
| "j_int _ = 0"

fun j_str :: "json \<Rightarrow> string option" where
  "j_str (J_Str s) = Some s"
| "j_str _ = None"

fun j_items :: "json \<Rightarrow> (string \<times> json) list" where
  "j_items (J_Obj xs) = xs"
| "j_items _ = []"

fun j_list :: "json \<Rightarrow> json list" where
  "j_list (J_List xs) = xs"
| "j_list _ = []"

fun is_list :: "json \<Rightarrow> bool" where
  "is_list (J_List _) = True"
| "is_list _ = False"

fun is_str :: "json \<Rightarrow> bool" where
  "is_str (J_Str _) = True"
| "is_str _ = False"

definition j_keys :: "json \<Rightarrow> string set" where
  "j_keys v = set (map fst (j_items v))"

definition j_true :: "json \<Rightarrow> bool" where
  "j_true v \<longleftrightarrow> v = J_Bool True"

text \<open>\<open>value.get(key, default)\<close>.\<close>

definition get_or :: "json \<Rightarrow> string \<Rightarrow> json \<Rightarrow> json" where
  "get_or v k x = (if j_has v k then j_get v k else x)"

lemma is_int_counter_iff: "is_int_counter lo hi v \<longleftrightarrow> (\<exists>n. v = J_Int n \<and> lo \<le> n \<and> n \<le> hi)"
  by (cases v) simp_all

lemma j_str_iff [simp]: "j_str v = Some s \<longleftrightarrow> v = J_Str s"
  by (cases v) simp_all

lemma py_eq_Str [simp]: "py_eq v (J_Str s) \<longleftrightarrow> v = J_Str s"
  by (cases v) auto

end
