(* ===== verification/Board_State.thy ===== *)
theory Board_State
  imports Json_Values
begin

section \<open>The board document and the service around it\<close>

text \<open>
  The state of Pursers Central (\<^verbatim>\<open>packages/central/src/pursers_central/central.py\<close>): one board
  document with its config, members, principal memberships and tickets (\<open>CentralBoard._default\<close>),
  the archive documents that take the overflow of bounded histories
  (\<open>persist_history_overflow\<close>), and the in-memory liveness data of \<open>CentralBoard\<close>.

  Keys that may be absent are options.  The two lease expiry evidences are kept raw
  (\<open>epoch_val\<close>, \<open>text_val\<close>), because the source defends itself against malformed ones: an epoch
  value is what \<open>float()\<close> makes of it, a timestamp text is what \<open>datetime.fromisoformat\<close> makes of
  it.  The eleven keys that the source lists in \<open>WORK_LEASE_FIELDS\<close> form the nested record
  \<open>work_lease\<close>, since the source only ever drops them together.
\<close>

subsection \<open>Raw evidence\<close>

datatype epoch_val =
    E_Null            \<comment> \<open>missing key or JSON null\<close>
  | E_Bool bool
  | E_Num time        \<comment> \<open>a number, or a text that \<open>float()\<close> accepts\<close>
  | E_PosInf | E_NegInf | E_NaN
  | E_Text            \<comment> \<open>a text that is no number\<close>
  | E_Object          \<comment> \<open>a list or an object\<close>

datatype pyfloat = F_Num time | F_PosInf | F_NegInf | F_NaN

fun epoch_float :: "epoch_val \<Rightarrow> pyfloat result" where
  "epoch_float E_Null = Inl (TypeError ''float(None)'')"
| "epoch_float (E_Bool b) = Inr (F_Num (secs (if b then 1 else 0)))"
| "epoch_float (E_Num t) = Inr (F_Num t)"
| "epoch_float E_PosInf = Inr F_PosInf"
| "epoch_float E_NegInf = Inr F_NegInf"
| "epoch_float E_NaN = Inr F_NaN"
| "epoch_float E_Text = Inl (ValueError ''could not convert string to float'')"
| "epoch_float E_Object = Inl (TypeError ''float(object)'')"

fun float_gt :: "pyfloat \<Rightarrow> time \<Rightarrow> bool" where
  "float_gt (F_Num t) now = (now < t)"
| "float_gt F_PosInf now = True"
| "float_gt F_NegInf now = False"
| "float_gt F_NaN now = False"

fun float_finite :: "pyfloat \<Rightarrow> time option" where
  "float_finite (F_Num t) = Some t"
| "float_finite _ = None"

datatype text_val =
    T_Null            \<comment> \<open>missing key or JSON null\<close>
  | T_Instant time    \<comment> \<open>a text with a timezone\<close>
  | T_Naive time      \<comment> \<open>a text without a timezone; the instant is the local reading\<close>
  | T_Bad             \<comment> \<open>not an ISO text\<close>

definition parse_epoch :: "text_val \<Rightarrow> time option" where
  "parse_epoch v = (case v of T_Instant t \<Rightarrow> Some t | _ \<Rightarrow> None)"

subsection \<open>Offers, leases, histories\<close>

datatype kind = Work | Review

text \<open>A finite type, so that the fields that are functions of the kind can be compared.\<close>

instantiation kind :: enum
begin

definition enum_kind :: "kind list" where
  "enum_kind = [Work, Review]"

definition enum_all_kind :: "(kind \<Rightarrow> bool) \<Rightarrow> bool" where
  "enum_all_kind P \<longleftrightarrow> P Work \<and> P Review"

definition enum_ex_kind :: "(kind \<Rightarrow> bool) \<Rightarrow> bool" where
  "enum_ex_kind P \<longleftrightarrow> P Work \<or> P Review"

instance
proof
  have cover: "k = Work \<or> k = Review" for k by (cases k) simp_all
  then show "(UNIV :: kind set) = set enum_class.enum" by (auto simp: enum_kind_def)
  show "distinct (enum_class.enum :: kind list)" by (simp add: enum_kind_def)
  show "enum_class.enum_all P = Ball UNIV P" for P :: "kind \<Rightarrow> bool" using cover by (auto simp: enum_all_kind_def) metis
  show "enum_class.enum_ex P = Bex UNIV P" for P :: "kind \<Rightarrow> bool" using cover by (auto simp: enum_ex_kind_def) metis
qed

end

record work_lease =
  claimed_by_agent_id :: "string option"
  claimed_by_principal_id :: "string option"
  claimed_by :: "string option"
  claimed_at :: "time option"
  lease_expires_at_epoch :: epoch_val
  lease_expires_at :: text_val
  lease_renewed_at :: "time option"
  lease_renewal_source :: "string option"
  lease_last_model_renewed_at :: "time option"
  lease_keepalive_only_since :: "time option"
  ttl_s :: "int option"

definition no_work_lease :: work_lease where
  "no_work_lease = \<lparr> claimed_by_agent_id = None, claimed_by_principal_id = None,
     claimed_by = None, claimed_at = None, lease_expires_at_epoch = E_Null,
     lease_expires_at = T_Null, lease_renewed_at = None, lease_renewal_source = None,
     lease_last_model_renewed_at = None, lease_keepalive_only_since = None, ttl_s = None \<rparr>"

record review_lease =
  reviewer_agent_id :: "string option"
  reviewer_agent_name :: "string option"
  reviewer_principal_id :: "string option"
  rl_claimed_at :: "time option"
  rl_ttl_s :: "int option"
  expires_at_epoch :: "epoch_val option"   \<comment> \<open>\<open>None\<close>: the key is missing\<close>
  expires_at :: text_val
  renewed_at :: "time option"
  renewal_source :: "string option"
  last_model_renewed_at :: "time option"
  keepalive_only_since :: "time option"

datatype review_slot =
    RS_Absent                   \<comment> \<open>no key \<open>review_lease\<close>\<close>
  | RS_Other                    \<comment> \<open>a value that is no mapping\<close>
  | RS_Lease review_lease

record offer =
  o_ticket_id :: string
  o_kind :: kind
  o_agent_id :: string
  o_agent_name :: string
  o_offered_at :: time
  o_expires_at :: time
  o_expires_at_epoch :: time
  o_cycle :: int

text \<open>The value of \<open>dispatch_state\<close>, and an entry of \<open>dispatch_history\<close>.\<close>

record dispatch_entry =
  d_state :: string
  d_kind :: "kind option"
  d_reason :: "string option"
  d_at :: "time option"
  d_cycle :: "int option"
  d_agent_id :: "string option"
  d_agent_name :: "string option"
  d_ticket_id :: "string option"
  d_offered_at :: "time option"
  d_expires_at :: "time option"
  d_expires_at_epoch :: "time option"
  d_pin_unavailable_cycles :: "int option"
  d_previous_assigned :: "string option"
  d_prior_agent_id :: "string option"
  d_prior_principal_id :: "string option"
  d_request_id :: "string option"

definition entry0 :: "string \<Rightarrow> dispatch_entry" where
  "entry0 s = \<lparr> d_state = s, d_kind = None, d_reason = None, d_at = None, d_cycle = None,
     d_agent_id = None, d_agent_name = None, d_ticket_id = None, d_offered_at = None,
     d_expires_at = None, d_expires_at_epoch = None, d_pin_unavailable_cycles = None,
     d_previous_assigned = None, d_prior_agent_id = None, d_prior_principal_id = None,
     d_request_id = None \<rparr>"

text \<open>Model usage: one reported record, the totals per role, the summary on a ticket.\<close>

record usage_record =
  ur_role :: string
  ur_host :: "string option"
  ur_provider :: "string option"
  ur_model :: "string option"
  ur_agent_id :: string
  ur_principal_id :: string
  ur_at :: time
  ur_turns :: "int option"
  ur_reported_turns :: "int option"
  ur_input_tokens :: "int option"
  ur_output_tokens :: "int option"

record role_usage =
  ru_records :: int
  ru_turns :: "int option"
  ru_reported_turns :: "int option"
  ru_input_tokens :: "int option"
  ru_output_tokens :: "int option"
  ru_hosts :: "string list"
  ru_providers :: "string list"
  ru_models :: "string list"
  ru_hosts_truncated :: bool
  ru_providers_truncated :: bool
  ru_models_truncated :: bool

record usage_summary =
  us_roles :: "(string, role_usage) odict"
  us_total_tokens :: "int option"
  us_orchestrator_share :: "(int \<times> int) option"   \<comment> \<open>the quotient as numerator and denominator\<close>

record submission =
  s_summary :: string
  s_files_changed :: "string list"
  s_notes :: "string option"
  s_test_output :: string
  s_submitted_by_agent_id :: string
  s_submitted_by_principal_id :: string
  s_submitted_at :: time
  s_branch :: "string option"
  s_commit_hash :: "string option"
  s_preflight :: "(string \<times> string) option"    \<comment> \<open>branch and commit of \<open>submission_preflight\<close>\<close>
  s_usage :: usage_record

record review_record =
  v_verdict :: string
  v_review_notes :: string
  v_fix_instructions :: "string option"
  v_policy :: string
  v_label :: string
  v_submitted_by_agent_id :: string
  v_submitted_by_principal_id :: string
  v_reviewed_by_agent_id :: string
  v_reviewed_by_principal_id :: string
  v_reviewed_at :: time
  v_status_to :: string
  v_submission_commit :: string
  v_rejection_fingerprint :: string
  v_workflow_paused :: bool
  v_submitted_by_agent_name :: "string option"
  v_reviewed_by_agent_name :: string
  v_usage :: usage_record

text \<open>The progress of a worker, as it assesses it; \<open>p_revision\<close> is \<open>None\<close> where the stored value is no count.\<close>

record progress =
  p_revision :: "int option"
  p_attempt :: int
  p_low_percent :: int
  p_high_percent :: int
  p_confidence :: string
  p_evidence :: string
  p_assessed_at :: time
  p_fresh_until :: time
  p_agent_id :: string
  p_agent_name :: string
  p_principal_id :: string
  p_ended_at :: "time option"
  p_end_reason :: "string option"

datatype hfield = H_Dispatch | H_Submission | H_Review | H_Progress

datatype hentry =
    HE_Dispatch dispatch_entry
  | HE_Submission submission
  | HE_Review review_record
  | HE_Progress progress

text \<open>
  Groups of keys that the source writes together: who gave a ticket back, the last verdict, a
  cancellation, the pause of a workflow, an annotation, a question to a human and its answer.
\<close>

record unclaim_info =
  u_agent_id :: "string option"
  u_principal_id :: "string option"
  u_at :: "time option"

record verdict_info =
  vi_principal_id :: string
  vi_agent_name :: string
  vi_at :: time
  vi_notes :: string
  vi_policy :: string
  vi_label :: string
  vi_verdict :: string

record cancel_info =
  c_agent_id :: string
  c_principal_id :: string
  c_permission :: string
  c_at :: time
  c_reason :: "string option"

record annotation =
  a_id :: string
  a_kind :: string
  a_text :: string
  a_at :: time
  a_agent_id :: string
  a_agent_name :: string
  a_principal_id :: string

record resolution =
  r_action :: string
  r_content :: "json option"
  r_principal_id :: string
  r_at :: time
  r_note :: "string option"

record human_request =
  h_request_id :: string
  h_message :: string
  h_kind :: string
  h_requested_schema :: "json option"
  h_url :: "string option"
  h_asked_by_agent_id :: string
  h_asked_by_agent_name :: string
  h_asked_by_principal_id :: string
  h_asked_at :: time
  h_resolution :: "resolution option"

record scrub_audit =
  sa_profile :: string
  sa_rules :: "string list"
  sa_count :: int
  sa_at :: time
  sa_agent_id :: string

record assignment_info =
  as_op_key :: string
  as_reason :: string
  as_agent_id :: "string option"
  as_previous :: "string option"
  as_at :: time
  as_by :: string

subsection \<open>Tickets and members\<close>

record ticket =
  ticket_id :: string
  status :: string
  priority :: string
  created_at :: "time option"
  updated_at :: "time option"
  created_by_agent_id :: "string option"
  created_by_principal_id :: "string option"
  server_generated_id :: bool
  required_fields :: "string list"
  parked :: bool
  tier :: "int option"
  skills_required :: "string list"
  exclude_agents :: "string list"
  prefer_agents :: "string list"
  assigned_to :: "string option"
  assigned_to_agent_id :: "string option"
  assigned_to_kind :: "string option"
  work :: work_lease
  last_claimed_by_agent_id :: "string option"
  last_claimed_by_principal_id :: "string option"
  last_claimed_by :: "string option"
  last_claimed_at :: "time option"
  last_release_reason :: "string option"
  last_lease_expires_at :: text_val
  offers :: "kind \<Rightarrow> offer option"                \<comment> \<open>\<open>work_offer\<close>, \<open>review_offer\<close>\<close>
  offer_expirations :: "kind \<Rightarrow> int"             \<comment> \<open>\<open>work_offer_expirations\<close>, ...\<close>
  dispatch_cycle :: "kind \<Rightarrow> int"                \<comment> \<open>\<open>work_dispatch_cycle\<close>, ...\<close>
  last_offered_agent_id :: "kind \<Rightarrow> string option" \<comment> \<open>\<open>last_work_offered_agent_id\<close>, ...\<close>
  pin_unavailable_cycles :: "int option"
  pin_unavailable_last_at :: "time option"
  dispatch_state :: "dispatch_entry option"
  history :: "hfield \<Rightarrow> hentry list"             \<comment> \<open>\<open>dispatch_history\<close>, ...\<close>
  omitted_count :: "hfield \<Rightarrow> int"               \<comment> \<open>\<open>dispatch_history_omitted_count\<close>, ...\<close>
  review_lease :: review_slot
  submitted_by_agent_id :: "string option"
  submitted_by_principal_id :: "string option"
  submitted_at :: "time option"
  submission_notes :: "string option"       \<comment> \<open>the key \<open>notes\<close>\<close>
  commit_hash :: "string option"
  reviewed_by_agent_id :: "string option"
  last_review_released_by_agent_id :: "string option"
  rejection_count :: int
  progress :: "progress option"
  progress_updated_at :: "time option"
  work_attempt :: "int option"
  abandoned_count :: int
  last_abandoned_by :: "string option"
  last_abandoned_by_name :: "string option"
  last_abandoned_at :: "time option"
  unclaimed :: unclaim_info                 \<comment> \<open>\<open>last_unclaimed_by_agent_id\<close>, ...\<close>
  summary :: "string option"
  files_changed :: "string list"
  test_output :: "string option"
  branch :: "string option"
  submission_preflight :: "(string \<times> string) option"
  last_verdict :: "verdict_info option"
  fix_instructions :: "string option"
  workflow_blocker :: "(string \<times> time) option"
  annotations :: "annotation list"
  annotations_omitted_count :: int
  coordinator_assignment :: "assignment_info option"
  cancellation :: "cancel_info option"
  human_request :: "human_request option"
  model_usage :: "usage_summary option"
  runtime_model_usage :: "usage_record option"

record capabilities =
  cap_model :: "string option"
  cap_provider :: "string option"
  tier_max :: int
  skills :: "string list"
  can_review :: bool
  can_work :: bool
  cap_host :: "string option"
  legacy_tools :: "bool option"

record readiness =
  transport_connected :: bool
  session_idle :: bool
  foreground_running :: bool
  dispatch_ready :: bool
  managed_autonomous :: bool
  session_id :: string
  sequence :: int
  r_ttl_s :: int
  r_observed_at :: time
  r_expires_at_epoch :: time

record seat =
  agent_id :: string
  agent_name :: string
  agent_platform :: string
  principal_id :: string
  role :: string
  lifecycle_status :: string
  lifecycle_changed_at :: "time option"
  lifecycle_reason :: "string option"
  lifecycle_changed_by_agent_id :: "string option"
  capabilities_explicit :: bool
  caps :: "capabilities option"
  capabilities_updated_at :: "time option"
  seat_readiness :: "readiness option"
  readiness_updated_at :: "time option"
  last_activity_at :: text_val
  joined_at :: text_val
  last_offered_at :: "time option"
  last_work_at :: "time option"
  handed_off_at :: "time option"
  membership_role :: "string option"
  scopes :: "string list"

record membership =
  pm_role :: string
  pm_source :: string
  pm_created_at :: time
  pm_updated_at :: time
  pm_created_by :: string
  pm_updated_by :: "string option"
  pm_upgrade_source :: "string option"

subsection \<open>The board document, the archive, the service\<close>

record policy =
  offer_ttl_s :: int
  broadcast_reoffer_s :: int
  second_opinion :: bool
  fallback_broadcast :: bool
  default_tier :: "int option"
  worker_models_by_tier :: "(int, string list) odict"

record config =
  claim_ttl_s :: int
  stale_after_days :: int
  inline_history_limit :: int
  review_policy :: string
  ticket_progress_v1 :: bool
  dispatch_policy :: policy

record board =
  board_id :: string
  cfg :: config
  members :: "(string, seat) odict"
  principal_memberships :: "(string, membership) odict"
  tickets :: "(string, ticket) odict"
  next_annotation_seq :: int
  scrub_profile :: string                       \<comment> \<open>of the config, like the next two\<close>
  scrub_allow_counts :: "(string, int) odict"
  last_scrub_allow :: "scrub_audit option"

record world =
  brd :: board
  history_overflow :: "string \<Rightarrow> hfield \<Rightarrow> hentry list"  \<comment> \<open>archive documents by ticket\<close>
  active_listeners :: "string \<Rightarrow> string list"
  last_seen_activity :: "string \<times> string \<Rightarrow> time option"

record principal =
  pr_id :: string
  pr_scopes :: "string list"

subsection \<open>Constants of the source\<close>

definition PRE_SUBMISSION_STATES :: "string list" where
  "PRE_SUBMISSION_STATES = [''claimed'', ''in_progress'', ''creating_report'']"

definition TERMINAL_TICKET_STATES :: "string list" where
  "TERMINAL_TICKET_STATES = [''closed'', ''rejected'', ''canceled'', ''terminated'']"

definition ACTIVE_TICKET_STATES :: "string list" where
  "ACTIVE_TICKET_STATES =
     [''open'', ''claimed'', ''in_progress'', ''creating_report'', ''submitted'', ''reviewing'', ''in_review'', ''needs_human'']"

definition COORDINATOR_SCOPE :: string where
  "COORDINATOR_SCOPE = ''board:coordinate''"

definition DEFAULT_FALLBACK_AFTER_OFFERS :: int where
  "DEFAULT_FALLBACK_AFTER_OFFERS = 3"

definition pre_submission :: "ticket \<Rightarrow> bool" where
  "pre_submission t \<longleftrightarrow> status t \<in> set PRE_SUBMISSION_STATES"

lemma pre_submission_iff:
  "pre_submission t \<longleftrightarrow>
     status t = ''claimed'' \<or> status t = ''in_progress'' \<or> status t = ''creating_report''"
  by (auto simp: pre_submission_def PRE_SUBMISSION_STATES_def)

subsection \<open>Access to the document\<close>

definition put_ticket :: "string \<Rightarrow> ticket \<Rightarrow> world \<Rightarrow> world" where
  "put_ticket k t w = w\<lparr>brd := (brd w)\<lparr>tickets := dset k t (tickets (brd w))\<rparr>\<rparr>"

definition put_member :: "string \<Rightarrow> seat \<Rightarrow> world \<Rightarrow> world" where
  "put_member k m w = w\<lparr>brd := (brd w)\<lparr>members := dset k m (members (brd w))\<rparr>\<rparr>"

definition get_ticket :: "world \<Rightarrow> string \<Rightarrow> ticket option" where
  "get_ticket w k = dget (tickets (brd w)) k"

definition get_member :: "world \<Rightarrow> string \<Rightarrow> seat option" where
  "get_member w k = dget (members (brd w)) k"

lemma get_put_ticket [simp]:
  "get_ticket (put_ticket k t w) k' = (if k' = k then Some t else get_ticket w k')"
  "get_member (put_ticket k t w) k' = get_member w k'"
  "get_ticket (put_member k m w) k' = get_ticket w k'"
  "get_member (put_member k m w) k' = (if k' = k then Some m else get_member w k')"
  by (simp_all add: get_ticket_def get_member_def put_ticket_def put_member_def)

lemma put_frame [simp, frame_simps]:
  "cfg (brd (put_ticket k t w)) = cfg (brd w)"
  "cfg (brd (put_member k m w)) = cfg (brd w)"
  "board_id (brd (put_ticket k t w)) = board_id (brd w)"
  "board_id (brd (put_member k m w)) = board_id (brd w)"
  "members (brd (put_ticket k t w)) = members (brd w)"
  "tickets (brd (put_member k m w)) = tickets (brd w)"
  "tickets (brd (put_ticket k t w)) = dset k t (tickets (brd w))"
  "members (brd (put_member k m w)) = dset k m (members (brd w))"
  "principal_memberships (brd (put_ticket k t w)) = principal_memberships (brd w)"
  "principal_memberships (brd (put_member k m w)) = principal_memberships (brd w)"
  "active_listeners (put_ticket k t w) = active_listeners w"
  "active_listeners (put_member k m w) = active_listeners w"
  "last_seen_activity (put_ticket k t w) = last_seen_activity w"
  "last_seen_activity (put_member k m w) = last_seen_activity w"
  "history_overflow (put_ticket k t w) = history_overflow w"
  "history_overflow (put_member k m w) = history_overflow w"
  by (simp_all add: put_ticket_def put_member_def)

text \<open>
  The documents the model is about: keys are distinct, and a ticket or member carries its own
  key, as every writer of the source guarantees.
\<close>

definition board_ok :: "world \<Rightarrow> bool" where
  "board_ok w \<longleftrightarrow>
     dict_ok (tickets (brd w)) \<and> dict_ok (members (brd w)) \<and>
     (\<forall>k t. get_ticket w k = Some t \<longrightarrow> ticket_id t = k) \<and>
     (\<forall>k m. get_member w k = Some m \<longrightarrow> agent_id m = k)"

lemma board_ok_put_ticket [simp]:
  "board_ok w \<Longrightarrow> ticket_id t = k \<Longrightarrow> board_ok (put_ticket k t w)"
  by (simp add: board_ok_def)

lemma board_ok_put_member [simp]:
  "board_ok w \<Longrightarrow> agent_id m = k \<Longrightarrow> board_ok (put_member k m w)"
  by (simp add: board_ok_def)

subsection \<open>Service queries\<close>

definition admitted_agent_ids :: "board \<Rightarrow> string option \<Rightarrow> string list" where
  "admitted_agent_ids b exclude =
     sort (map agent_id (filter
       (\<lambda>m. principal_id m \<in> set (dkeys (principal_memberships b)) \<and>
            exclude \<noteq> Some (agent_id m) \<and> lifecycle_status m = ''active'')
       (dvalues (members b))))"

definition agent_has_active_listener :: "world \<Rightarrow> string \<Rightarrow> string \<Rightarrow> bool" where
  "agent_has_active_listener w bid aid \<longleftrightarrow> aid \<in> set (active_listeners w bid)"

definition is_agent_live :: "world \<Rightarrow> string \<Rightarrow> string \<Rightarrow> seat \<Rightarrow> time \<Rightarrow> int \<Rightarrow> bool" where
  "is_agent_live w bid aid m now ttl =
     (if agent_has_active_listener w bid aid then True
      else let window = 3 * secs ttl;
               recent = (\<lambda>e. (0 \<le> now - e \<and> now - e \<le> window) \<or> now < e)
           in (case last_seen_activity w (bid, aid) of Some e \<Rightarrow> recent e | None \<Rightarrow> False) \<or>
              (case last_activity_at m of
                 T_Instant e \<Rightarrow> recent e | T_Naive e \<Rightarrow> recent e
               | T_Null \<Rightarrow> False | T_Bad \<Rightarrow> False))"

definition record_agent_activity :: "string \<Rightarrow> string \<Rightarrow> time \<Rightarrow> world \<Rightarrow> world" where
  "record_agent_activity bid aid now w =
     w\<lparr>last_seen_activity := (last_seen_activity w)((bid, aid) := Some now)\<rparr>"

definition register_listener :: "string \<Rightarrow> string \<Rightarrow> world \<Rightarrow> world" where
  "register_listener bid aid w =
     w\<lparr>active_listeners := (active_listeners w)(bid := List.insert aid (active_listeners w bid))\<rparr>"

definition unregister_listener :: "string \<Rightarrow> string \<Rightarrow> world \<Rightarrow> world" where
  "unregister_listener bid aid w =
     w\<lparr>active_listeners := (active_listeners w)(bid := filter (\<lambda>a. a \<noteq> aid) (active_listeners w bid))\<rparr>"

definition resolve_board_context :: "board \<Rightarrow> string \<Rightarrow> string list option \<Rightarrow> membership result" where
  "resolve_board_context b pid allowed =
     (case dget (principal_memberships b) pid of
        None \<Rightarrow> Inl (PermissionError ''board access denied'')
      | Some pm \<Rightarrow>
          if pm_role pm \<notin> {''admin'', ''member'', ''reviewer''}
          then Inl (PermissionError ''board access denied'')
          else if (case allowed of None \<Rightarrow> False | Some rs \<Rightarrow> pm_role pm \<notin> set rs)
          then Inl (PermissionError ''board role not authorized'')
          else Inr pm)"

text \<open>
  \<open>agent_id\<close> of the source hashes board, principal and agent name; the hash is a parameter
  \<open>aid_of\<close> of the operations that look a seat up.
\<close>

definition lookup_member ::
  "(string \<Rightarrow> string \<Rightarrow> string \<Rightarrow> string) \<Rightarrow> world \<Rightarrow> principal \<Rightarrow> string \<Rightarrow> (world \<times> seat) result" where
  "lookup_member aid_of w p name =
     bindE (resolve_board_context (brd w) (pr_id p) None) (\<lambda>pm.
       let key = aid_of (board_id (brd w)) (pr_id p) name
       in case get_member w key of
            None \<Rightarrow> Inl (PermissionError ''agent is not a member of this board'')
          | Some m \<Rightarrow>
              if principal_id m \<noteq> pr_id p
              then Inl (PermissionError ''agent is not a member of this board'')
              else let m' = m\<lparr>membership_role := Some (pm_role pm)\<rparr>
                   in Inr (put_member key m' w, m'))"

lemma resolve_board_context_role:
  "resolve_board_context b pid (Some rs) = Inr pm \<Longrightarrow> pm_role pm \<in> set rs"
  by (auto simp: resolve_board_context_def split: option.splits if_splits)

lemma resolve_board_context_known:
  "resolve_board_context b pid a = Inr pm \<Longrightarrow>
     dget (principal_memberships b) pid = Some pm \<and> pm_role pm \<in> {''admin'', ''member'', ''reviewer''}"
  by (auto simp: resolve_board_context_def split: option.splits if_splits)

end
