(* ===== verification/Seats.thy ===== *)
theory Seats
  imports Board_State
begin

section \<open>Seats: capabilities, readiness, assignment and requirement matching\<close>

text \<open>
  What the dispatcher asks of a seat: its normalised capabilities (\<open>member_capabilities\<close>), its
  readiness report (\<open>readiness_is_current\<close>, \<open>member_dispatch_ready\<close>), whether an assignment
  or an agent list names it (\<open>assignment_matches\<close>, \<open>agent_matches\<close>), and whether it meets a
  ticket's requirements (\<open>dispatch_member_matches_requirements\<close>).
  Stored capabilities are the output of \<open>normalized_capabilities\<close> for the seat's role, so
  normalising them again gives them back; a seat without capabilities has the role's defaults.
\<close>

subsection \<open>Capabilities\<close>

text \<open>\<open>role_defaults\<close> of \<open>normalized_capabilities\<close>: the pair \<open>(can_work, can_review)\<close>.\<close>

definition role_defaults :: "string \<Rightarrow> bool \<times> bool" where
  "role_defaults r =
     (if r = ''reviewer'' then (False, True)
      else if r = ''orchestrator'' \<or> r = ''coordinator'' then (False, False)
      else (True, False))"

definition default_capabilities :: "string \<Rightarrow> capabilities" where
  "default_capabilities r =
     \<lparr> cap_model = None, cap_provider = None, tier_max = 2, skills = [],
       can_review = snd (role_defaults r), can_work = fst (role_defaults r),
       cap_host = None, legacy_tools = None \<rparr>"

definition member_capabilities :: "seat \<Rightarrow> capabilities" where
  "member_capabilities m =
     (case caps m of
        Some c \<Rightarrow> c
      | None \<Rightarrow> default_capabilities (if role m = [] then ''worker'' else role m))"

subsection \<open>Readiness\<close>

definition readiness_is_current :: "readiness \<Rightarrow> time \<Rightarrow> bool" where
  "readiness_is_current r now \<longleftrightarrow> now < r_expires_at_epoch r"

definition member_dispatch_ready :: "seat \<Rightarrow> time \<Rightarrow> bool" where
  "member_dispatch_ready m now =
     (case seat_readiness m of
        None \<Rightarrow> True
      | Some r \<Rightarrow> readiness_is_current r now \<and> transport_connected r \<and> dispatch_ready r \<and>
                  (foreground_running r \<or> managed_autonomous r))"

subsection \<open>Names\<close>

definition assignment_matches :: "seat \<Rightarrow> string \<Rightarrow> bool" where
  "assignment_matches m requested \<longleftrightarrow>
     casefold requested \<in>
       {casefold (agent_id m), casefold (agent_name m), casefold (agent_platform m)}"

definition agent_matches :: "string list \<Rightarrow> seat \<Rightarrow> bool" where
  "agent_matches values m \<longleftrightarrow>
     casefold (agent_id m) \<in> set (map casefold values) \<or>
     casefold (agent_name m) \<in> set (map casefold values)"

subsection \<open>Dispatch configuration\<close>

definition dispatch_enabled :: "board \<Rightarrow> bool" where
  "dispatch_enabled b \<longleftrightarrow>
     list_ex (\<lambda>m. capabilities_explicit m \<and> lifecycle_status m = ''active'') (dvalues (members b))"

abbreviation policy_of :: "board \<Rightarrow> policy" where
  "policy_of b \<equiv> dispatch_policy (cfg b)"

definition default_ticket_tier :: "board \<Rightarrow> int" where
  "default_ticket_tier b = (case default_tier (policy_of b) of None \<Rightarrow> 2 | Some n \<Rightarrow> n)"

definition required_tier :: "board \<Rightarrow> ticket \<Rightarrow> int" where
  "required_tier b t = (case tier t of None \<Rightarrow> default_ticket_tier b | Some n \<Rightarrow> n)"

definition worker_model_matches :: "board \<Rightarrow> ticket \<Rightarrow> seat \<Rightarrow> kind \<Rightarrow> bool" where
  "worker_model_matches b t m k =
     (if k \<noteq> Work then True
      else case dget (worker_models_by_tier (policy_of b)) (required_tier b t) of
             None \<Rightarrow> True
           | Some allowed \<Rightarrow>
               (case cap_model (member_capabilities m) of
                  None \<Rightarrow> False | Some mdl \<Rightarrow> mdl \<in> set allowed))"

subsection \<open>Requirement matching\<close>

text \<open>
  \<open>dispatch_member_matches_requirements\<close>, in the order of the source's early returns.  The
  source's \<open>membership is None\<close> test is the lookup of the seat's principal.
\<close>

definition dispatch_member_matches_requirements ::
  "board \<Rightarrow> ticket \<Rightarrow> seat \<Rightarrow> kind \<Rightarrow> bool" where
  "dispatch_member_matches_requirements b t m k =
    (case dget (principal_memberships b) (principal_id m) of
       None \<Rightarrow> False
     | Some pm \<Rightarrow>
       if lifecycle_status m \<noteq> ''active'' then False
       else let assigned = (if k = Work then assigned_to_agent_id t else None);
                requested = (if k = Work then assigned_to t else None) in
       if assigned \<noteq> None \<and> assigned \<noteq> Some (agent_id m) then False
       else if assigned = None \<and> truthy requested \<and> \<not> assignment_matches m (the requested) then False
       else if agent_matches (exclude_agents t) m then False
       else if \<not> capabilities_explicit m then False
       else if k = Work \<and> role m \<in> {''coordinator'', ''orchestrator''} then False
       else let c = member_capabilities m in
       if tier_max c < required_tier b t \<or> \<not> set (skills_required t) \<subseteq> set (skills c) \<or>
          \<not> worker_model_matches b t m k
       then False
       else if k = Work then can_work c
       else if \<not> can_review c \<or> pm_role pm \<notin> {''admin'', ''reviewer''} then False
       else if submitted_by_agent_id t = Some (agent_id m) then False
       else if review_policy (cfg b) = ''strict'' \<and>
               submitted_by_principal_id t = Some (principal_id m) then False
       else True)"

text \<open>The early returns as one conjunction.\<close>

lemma if_False_conj: "(if c then False else q) \<longleftrightarrow> \<not> c \<and> q"
  by simp

lemma matches_requirements_iff:
  "dispatch_member_matches_requirements b t m k \<longleftrightarrow>
     (\<exists>pm. dget (principal_memberships b) (principal_id m) = Some pm \<and>
        (k = Review \<longrightarrow> pm_role pm \<in> {''admin'', ''reviewer''})) \<and>
     lifecycle_status m = ''active'' \<and>
     (k = Work \<longrightarrow> assigned_to_agent_id t \<noteq> None \<longrightarrow> assigned_to_agent_id t = Some (agent_id m)) \<and>
     (k = Work \<longrightarrow> assigned_to_agent_id t = None \<longrightarrow> truthy (assigned_to t) \<longrightarrow>
        assignment_matches m (the (assigned_to t))) \<and>
     \<not> agent_matches (exclude_agents t) m \<and>
     capabilities_explicit m \<and>
     (k = Work \<longrightarrow> role m \<notin> {''coordinator'', ''orchestrator''}) \<and>
     required_tier b t \<le> tier_max (member_capabilities m) \<and>
     set (skills_required t) \<subseteq> set (skills (member_capabilities m)) \<and>
     worker_model_matches b t m k \<and>
     (k = Work \<longrightarrow> can_work (member_capabilities m)) \<and>
     (k = Review \<longrightarrow> can_review (member_capabilities m) \<and>
        submitted_by_agent_id t \<noteq> Some (agent_id m) \<and>
        \<not> (review_policy (cfg b) = ''strict'' \<and>
           submitted_by_principal_id t = Some (principal_id m)))"
proof (cases "dget (principal_memberships b) (principal_id m)")
  case None
  then show ?thesis by (simp add: dispatch_member_matches_requirements_def)
next
  case (Some pm)
  show ?thesis
    by (cases k)
      (simp_all only: dispatch_member_matches_requirements_def Some option.case Let_def if_False_conj
        kind.distinct simp_thms if_True if_False linorder_not_less de_Morgan_disj de_Morgan_conj
        not_not conj_assoc option.inject ex_simps,
       auto)
qed

lemma matches_membership:
  "dispatch_member_matches_requirements b t m k \<Longrightarrow>
     dget (principal_memberships b) (principal_id m) \<noteq> None"
  by (auto simp: matches_requirements_iff)

text \<open>
  Which parts of the document the requirement check reads: neither the tickets, nor the offers
  and leases of the ticket itself.
\<close>

lemma matches_requirements_frame:
  assumes "principal_memberships b' = principal_memberships b" "cfg b' = cfg b"
  shows "dispatch_member_matches_requirements b' t m k = dispatch_member_matches_requirements b t m k"
proof -
  have "required_tier b' t = required_tier b t"
    using assms by (simp add: required_tier_def default_ticket_tier_def cong: option.case_cong)
  moreover from this have "worker_model_matches b' t m k = worker_model_matches b t m k"
    using assms by (simp add: worker_model_matches_def)
  ultimately show ?thesis
    using assms by (simp add: matches_requirements_iff)
qed

end
