(* ===== verification/Work_Leases.thy ===== *)
theory Work_Leases
  imports Seats
begin

section \<open>Work and review leases\<close>

text \<open>
  Lease renewal and expiry (\<open>renew_claim\<close>, \<open>renew_review_lease\<close>, \<open>review_lease_is_live\<close>), the
  fail-closed judgement of contradictory expiry evidence
  (\<open>review_lease_expiration_is_ambiguous\<close>, \<open>inactive_lifecycle_has_ambiguous_live_lease\<close>), the
  bounded histories with their archive overflow (\<open>append_bounded_history\<close>,
  \<open>persist_history_overflow\<close>), the reset of a ticket's progress, and the reconciliation of
  ownership left behind on an inactive ticket (\<open>reconcile_inactive_work_ownership\<close>).
\<close>

subsection \<open>Renewal\<close>

definition normalize_renewal_source :: "string option \<Rightarrow> string result" where
  "normalize_renewal_source v =
     (let selected = (case v of None \<Rightarrow> ''model'' | Some s \<Rightarrow> casefold (strip s))
      in if selected \<in> {''model'', ''keepalive''} then Inr selected
         else Inl (ValueError ''renewal_source must be model or keepalive''))"

text \<open>
  \<open>mark_renewal_source\<close> writes the same three keys under the prefix \<open>lease_\<close> (work) and without
  a prefix (review); it is one function from the previous values to the new ones.
\<close>

definition mark_renewal_source ::
  "time \<Rightarrow> string \<Rightarrow> string option \<times> time option \<times> time option
     \<Rightarrow> string option \<times> time option \<times> time option" where
  "mark_renewal_source now source prev =
     (case prev of (previous, model_at, keepalive_since) \<Rightarrow>
        if source = ''model'' then (Some source, Some now, None)
        else if previous \<noteq> Some ''keepalive'' then (Some source, model_at, Some now)
        else (Some source, model_at, keepalive_since))"

definition renew_claim :: "time \<Rightarrow> int \<Rightarrow> string \<Rightarrow> ticket \<Rightarrow> ticket" where
  "renew_claim now ttl source t =
     (let l = work t; expires = now + secs ttl;
          (src, model_at, keep) = mark_renewal_source now source
             (lease_renewal_source l, lease_last_model_renewed_at l, lease_keepalive_only_since l)
      in t\<lparr>work := l\<lparr>ttl_s := Some ttl, lease_expires_at_epoch := E_Num expires,
             lease_expires_at := T_Instant expires, lease_renewed_at := Some now,
             lease_renewal_source := src, lease_last_model_renewed_at := model_at,
             lease_keepalive_only_since := keep\<rparr>\<rparr>)"

definition renew_review_lease :: "time \<Rightarrow> int \<Rightarrow> string \<Rightarrow> review_lease \<Rightarrow> review_lease" where
  "renew_review_lease now ttl source l =
     (let expires = now + secs ttl;
          (src, model_at, keep) = mark_renewal_source now source
             (renewal_source l, last_model_renewed_at l, keepalive_only_since l)
      in l\<lparr>rl_ttl_s := Some ttl, expires_at_epoch := Some (E_Num expires),
           expires_at := T_Instant expires, renewed_at := Some now,
           renewal_source := src, last_model_renewed_at := model_at,
           keepalive_only_since := keep\<rparr>)"

text \<open>\<open>review_lease_is_live\<close>: a malformed epoch (\<open>TypeError\<close>, \<open>ValueError\<close>) is not live.\<close>

definition review_lease_is_live :: "ticket \<Rightarrow> time \<Rightarrow> bool" where
  "review_lease_is_live t now =
     (case review_lease t of
        RS_Lease l \<Rightarrow>
          (case expires_at_epoch l of
             None \<Rightarrow> False
           | Some e \<Rightarrow> e \<noteq> E_Null \<and> (case epoch_float e of Inl _ \<Rightarrow> False | Inr f \<Rightarrow> float_gt f now))
      | _ \<Rightarrow> False)"

definition claim_review_lease ::
  "seat \<Rightarrow> principal \<Rightarrow> time \<Rightarrow> int \<Rightarrow> ticket \<Rightarrow> review_lease \<times> ticket" where
  "claim_review_lease actor p now ttl t =
     (let l0 = \<lparr> reviewer_agent_id = Some (agent_id actor),
                 reviewer_agent_name = Some (agent_name actor),
                 reviewer_principal_id = Some (pr_id p), rl_claimed_at = Some now,
                 rl_ttl_s = None, expires_at_epoch = None, expires_at = T_Null,
                 renewed_at = None, renewal_source = None, last_model_renewed_at = None,
                 keepalive_only_since = None \<rparr>;
          l = renew_review_lease now ttl ''model'' l0
      in (l, t\<lparr>review_lease := RS_Lease l, updated_at := Some now\<rparr>))"

subsection \<open>Ambiguous expiry evidence\<close>

text \<open>The tolerance \<open>0.001\<close> seconds of the source is 1000 microseconds.\<close>

definition text_epoch :: "text_val \<Rightarrow> time option option" where
  \<comment> \<open>\<open>None\<close>: unusable; \<open>Some None\<close>: absent; \<open>Some (Some t)\<close>: an instant\<close>
  "text_epoch v = (case v of T_Null \<Rightarrow> Some None | T_Instant t \<Rightarrow> Some (Some t)
                   | T_Naive _ \<Rightarrow> None | T_Bad \<Rightarrow> None)"

definition finite_epoch :: "epoch_val \<Rightarrow> time option" where
  \<comment> \<open>\<open>float()\<close> of a value that is neither null nor a bool, when it is finite\<close>
  "finite_epoch v = (case v of E_Bool _ \<Rightarrow> None
     | _ \<Rightarrow> (case epoch_float v of Inl _ \<Rightarrow> None | Inr f \<Rightarrow> float_finite f))"

definition review_lease_expiration_is_ambiguous :: "review_slot \<Rightarrow> time \<Rightarrow> bool" where
  "review_lease_expiration_is_ambiguous slot now =
     (case slot of
        RS_Lease l \<Rightarrow>
          (let epoch = (case expires_at_epoch l of None \<Rightarrow> E_Null | Some e \<Rightarrow> e);
               textual = expires_at l in
           if epoch = E_Null \<and> textual = T_Null then True
           else if epoch \<noteq> E_Null \<and>
                (case finite_epoch epoch of None \<Rightarrow> True | Some e \<Rightarrow> now < e) then True
           else if (case text_epoch textual of None \<Rightarrow> True | Some None \<Rightarrow> False
                    | Some (Some x) \<Rightarrow> now < x) then True
           else (case (finite_epoch epoch, text_epoch textual) of
                   (Some e, Some (Some x)) \<Rightarrow> \<bar>x - e\<bar> > 1000
                 | _ \<Rightarrow> False))
      | _ \<Rightarrow> True)"

definition inactive_lifecycle_has_ambiguous_live_lease :: "ticket \<Rightarrow> time \<Rightarrow> bool" where
  "inactive_lifecycle_has_ambiguous_live_lease t now =
     (let epoch = lease_expires_at_epoch (work t); textual = lease_expires_at (work t) in
      case text_epoch textual of
        None \<Rightarrow> True
      | Some parsed_text \<Rightarrow>
          if epoch \<noteq> E_Null \<and>
             (case finite_epoch epoch of
                None \<Rightarrow> True
              | Some e \<Rightarrow> now < e \<or> (case parsed_text of None \<Rightarrow> False
                            | Some x \<Rightarrow> now < x \<or> \<bar>x - e\<bar> > 1000)) then True
          else if epoch = E_Null \<and>
             (case parsed_text of None \<Rightarrow> False | Some x \<Rightarrow> now < x) then True
          else review_lease t \<noteq> RS_Absent \<and>
               review_lease_expiration_is_ambiguous (review_lease t) now)"

definition inactive_status :: "ticket \<Rightarrow> bool" where
  "inactive_status t \<longleftrightarrow> status t \<in> set (TERMINAL_TICKET_STATES @ [''needs_human'', ''open''])"

text \<open>\<open>any(ticket.get(key) is not None for key in WORK_LEASE_FIELDS)\<close>\<close>

definition has_work_lease_fields :: "ticket \<Rightarrow> bool" where
  "has_work_lease_fields t \<longleftrightarrow> work t \<noteq> no_work_lease"

definition work_ownership_needs_reconcile :: "ticket \<Rightarrow> time \<Rightarrow> bool" where
  "work_ownership_needs_reconcile t now =
     (if \<not> inactive_status t then False
      else if inactive_lifecycle_has_ambiguous_live_lease t now then False
      else has_work_lease_fields t)"

definition inactive_work_ownership_is_ambiguous :: "ticket \<Rightarrow> time \<Rightarrow> bool" where
  "inactive_work_ownership_is_ambiguous t now \<longleftrightarrow>
     inactive_status t \<and> has_work_lease_fields t \<and>
     inactive_lifecycle_has_ambiguous_live_lease t now"

subsection \<open>Bounded histories\<close>

definition persist_history_overflow ::
  "string \<Rightarrow> hfield \<Rightarrow> hentry list \<Rightarrow> world \<Rightarrow> world" where
  "persist_history_overflow tid f entries w =
     (if entries = [] then w
      else w\<lparr>history_overflow := (history_overflow w)
              (tid := (history_overflow w tid)(f := entries @ history_overflow w tid f))\<rparr>)"

definition append_bounded_history ::
  "hfield \<Rightarrow> hentry \<Rightarrow> world \<times> ticket \<Rightarrow> world \<times> ticket" where
  "append_bounded_history f e wt =
     (case wt of (w, t) \<Rightarrow>
       let entries = history t f @ [e]; limit = inline_history_limit (cfg (brd w)) in
       if int (length entries) \<le> limit
       then (w, t\<lparr>history := (history t)(f := entries)\<rparr>)
       else let n = nat (int (length entries) - limit);
                overflow = take n entries;
                previous = (if omitted_count t f > 0 then omitted_count t f else 0) in
         (persist_history_overflow (ticket_id t) f overflow w,
          t\<lparr>history := (history t)(f := drop n entries),
            omitted_count := (omitted_count t)(f := previous + int (length overflow))\<rparr>))"

text \<open>\<open>ticket.setdefault("dispatch_history", []).append(...)\<close>, without the bound.\<close>

definition append_history :: "hfield \<Rightarrow> hentry \<Rightarrow> ticket \<Rightarrow> ticket" where
  "append_history f e t = t\<lparr>history := (history t)(f := history t f @ [e])\<rparr>"

subsection \<open>Releases and other events a mutation reports\<close>

datatype release =
    Offer_Revoked string kind string string time string "string list"
      \<comment> \<open>ticket, kind, agent, agent name, expiry, reason, recipients\<close>
  | Offer_Expired string kind string string time "string list"
  | Offered string kind string string time int "string list"
      \<comment> \<open>\<open>TICKET_OFFERED\<close> / \<open>REVIEW_OFFERED\<close>: ticket, kind, agent, name, expiry, ttl, recipients\<close>
  | Unassignable string kind string "string list"
  | Agent_Lifecycle string string string string string string "string list"
      \<comment> \<open>actor, target, target name, from, to, reason, recipients\<close>
  | Review_Released string "string option" "string option" "string option" text_val "string list"
  | Work_Released string string string time int "string list"
      \<comment> \<open>ticket, status from, last holder, at, abandoned count, recipients\<close>
  | Progress_Reset string "int option" "int option" string time "string list"
      \<comment> \<open>ticket, attempt, previous revision, reason, at, recipients\<close>

subsection \<open>Progress\<close>

definition reset_ticket_progress ::
  "time \<Rightarrow> string \<Rightarrow> world \<times> ticket \<Rightarrow> (world \<times> ticket) \<times> release option" where
  "reset_ticket_progress now reason wt =
     (case wt of (w, t) \<Rightarrow>
       if \<not> ticket_progress_v1 (cfg (brd w)) \<and> progress t = None \<and> work_attempt t = None
       then ((w, t), None)
       else
         let t0 = t\<lparr>progress := None\<rparr>;
             (wt1, previous) =
               (case progress t of
                  None \<Rightarrow> ((w, t0), None)
                | Some p \<Rightarrow>
                    (append_bounded_history H_Progress
                       (HE_Progress (p\<lparr>p_ended_at := Some now, p_end_reason := Some reason\<rparr>)) (w, t0),
                     p_revision p));
             t2 = (snd wt1)\<lparr>progress_updated_at := None\<rparr>
         in ((fst wt1, t2),
             Some (Progress_Reset (ticket_id t) (work_attempt t) previous reason now
                     (admitted_agent_ids (brd w) None))))"

subsection \<open>Reconciling ownership of inactive tickets\<close>

definition reconcile_inactive_work_ownership ::
  "time \<Rightarrow> world \<times> ticket \<Rightarrow> world \<times> ticket" where
  "reconcile_inactive_work_ownership now wt =
     (case wt of (w, t) \<Rightarrow>
       if \<not> work_ownership_needs_reconcile t now then (w, t)
       else
         let l = work t;
             keep = (\<lambda>new old. if new \<noteq> None then new else old);
             t1 = t\<lparr>last_claimed_by_agent_id :=
                       keep (claimed_by_agent_id l) (last_claimed_by_agent_id t),
                    last_claimed_by_principal_id :=
                       keep (claimed_by_principal_id l) (last_claimed_by_principal_id t),
                    last_claimed_by := keep (claimed_by l) (last_claimed_by t),
                    last_claimed_at :=
                       (if claimed_at l \<noteq> None then claimed_at l else last_claimed_at t),
                    last_release_reason :=
                       (if last_release_reason t = None then Some ''inactive ticket lifecycle''
                        else last_release_reason t),
                    work := no_work_lease\<rparr>;
             wt2 = append_bounded_history H_Dispatch
                     (HE_Dispatch ((entry0 ''work_ownership_reconciled'')
                        \<lparr>d_reason := Some ''inactive_ticket_lifecycle'',
                         d_prior_agent_id := claimed_by_agent_id l,
                         d_prior_principal_id := claimed_by_principal_id l,
                         d_at := Some now\<rparr>)) (w, t1)
         in (fst wt2, (snd wt2)\<lparr>updated_at := Some now\<rparr>))"

text \<open>\<open>clear_work_lease\<close>, used when a human is asked.\<close>

definition clear_work_lease :: "time \<Rightarrow> seat \<Rightarrow> ticket \<Rightarrow> ticket" where
  "clear_work_lease now actor t =
     t\<lparr>last_claimed_by_agent_id := claimed_by_agent_id (work t),
       last_claimed_by_principal_id := claimed_by_principal_id (work t),
       last_claimed_by := claimed_by (work t),
       last_claimed_at := claimed_at (work t),
       last_release_reason := Some ''human input requested'',
       unclaimed := (unclaimed t)\<lparr>u_agent_id := Some (agent_id actor), u_at := Some now\<rparr>,
       work := no_work_lease\<rparr>"

end
