(* ===== verification/Dispatch.thy ===== *)
theory Dispatch
  imports Work_Leases
begin

section \<open>The dispatcher: eligibility, offers, broadcast, pins\<close>

text \<open>
  \<open>dispatch_ticket\<close> and everything it asks: busy checks (\<open>agent_is_busy\<close> and its reporting twin
  \<open>agent_busy_conflicts\<close>), candidate eligibility and its diagnostic twin
  (\<open>dispatch_claim_diagnostics\<close>), pin release, broadcast and re-offer, the candidate order, and
  the offer itself.  A ticket under dispatch is passed beside the document it comes from
  (\<open>world \<times> ticket\<close>): the source mutates it in place, and everything that reads the document
  meanwhile leaves that ticket out.  \<open>float()\<close> of a malformed review lease expiry raises.
\<close>

subsection \<open>Busy seats\<close>

definition work_commitment :: "ticket \<Rightarrow> string \<Rightarrow> time \<Rightarrow> bool" where
  "work_commitment c a now \<longleftrightarrow>
     claimed_by_agent_id (work c) = Some a \<and>
     (pre_submission c \<or> inactive_work_ownership_is_ambiguous c now)"

definition review_commitment :: "ticket \<Rightarrow> string \<Rightarrow> time \<Rightarrow> bool result" where
  "review_commitment c a now =
     (case review_lease c of
        RS_Lease l \<Rightarrow>
          if reviewer_agent_id l = Some a
          then bindE (epoch_float (case expires_at_epoch l of None \<Rightarrow> E_Num 0 | Some e \<Rightarrow> e))
                 (\<lambda>f. Inr (float_gt f now))
          else Inr False
      | _ \<Rightarrow> Inr False)"

definition offer_commitment :: "ticket \<Rightarrow> string \<Rightarrow> time \<Rightarrow> kind \<Rightarrow> bool" where
  "offer_commitment c a now k =
     (case offers c k of None \<Rightarrow> False
      | Some off \<Rightarrow> o_agent_id off = a \<and> now < o_expires_at_epoch off)"

definition busy_on :: "ticket \<Rightarrow> string \<Rightarrow> time \<Rightarrow> bool result" where
  "busy_on c a now =
     (if work_commitment c a now then Inr True
      else bindE (review_commitment c a now) (\<lambda>r.
        if r then Inr True
        else Inr (offer_commitment c a now Work \<or> offer_commitment c a now Review)))"

definition agent_is_busy :: "world \<Rightarrow> string \<Rightarrow> time \<Rightarrow> string \<Rightarrow> bool result" where
  "agent_is_busy w a now excluding =
     anyE (\<lambda>c. if ticket_id c = excluding then Inr False else busy_on c a now)
       (dvalues (tickets (brd w)))"

record busy_conflict =
  bc_ticket_id :: string
  bc_kind :: string
  bc_status :: string
  bc_expires_at_epoch :: epoch_val

definition conflicts_on :: "ticket \<Rightarrow> string \<Rightarrow> time \<Rightarrow> busy_conflict list result" where
  "conflicts_on c a now =
     (let mk = (\<lambda>kd e. \<lparr> bc_ticket_id = ticket_id c, bc_kind = kd, bc_status = status c,
                         bc_expires_at_epoch = e \<rparr>);
          work_part = (if work_commitment c a now
                       then [mk ''work_lease'' (lease_expires_at_epoch (work c))] else []);
          offer_part = (\<lambda>k nm. case offers c k of
                          None \<Rightarrow> []
                        | Some off \<Rightarrow> if offer_commitment c a now k
                                      then [mk nm (E_Num (o_expires_at_epoch off))] else [])
      in bindE (review_commitment c a now) (\<lambda>r.
           let review_part =
             (if r then [mk ''review_lease''
                (case review_lease c of
                   RS_Lease l \<Rightarrow> (case expires_at_epoch l of None \<Rightarrow> E_Null | Some e \<Rightarrow> e)
                 | _ \<Rightarrow> E_Null)] else [])
           in Inr (work_part @ review_part @
                   offer_part Work ''work_offer'' @ offer_part Review ''review_offer'')))"

fun concatE :: "('a \<Rightarrow> 'b list result) \<Rightarrow> 'a list \<Rightarrow> 'b list result" where
  "concatE f [] = Inr []"
| "concatE f (x # xs) = bindE (f x) (\<lambda>ys. bindE (concatE f xs) (\<lambda>zs. Inr (ys @ zs)))"

definition agent_busy_conflicts ::
  "world \<Rightarrow> string \<Rightarrow> time \<Rightarrow> string \<Rightarrow> busy_conflict list result" where
  "agent_busy_conflicts w a now excluding =
     bindE (concatE (\<lambda>c. if ticket_id c = excluding then Inr [] else conflicts_on c a now)
              (dvalues (tickets (brd w))))
       (\<lambda>cs. Inr (sort_key (\<lambda>c. (bc_ticket_id c, bc_kind c)) cs))"

text \<open>\<open>agent_has_live_lease_elsewhere\<close>: a missing or malformed expiry counts as live.\<close>

definition epoch_may_be_live :: "epoch_val \<Rightarrow> time \<Rightarrow> bool" where
  "epoch_may_be_live e now =
     (e = E_Null \<or> (case epoch_float e of Inl _ \<Rightarrow> True | Inr f \<Rightarrow> float_gt f now))"

definition agent_has_live_lease_elsewhere :: "world \<Rightarrow> string \<Rightarrow> time \<Rightarrow> string \<Rightarrow> bool" where
  "agent_has_live_lease_elsewhere w a now excluding =
     list_ex (\<lambda>c. ticket_id c \<noteq> excluding \<and>
        ((work_commitment c a now \<and> epoch_may_be_live (lease_expires_at_epoch (work c)) now) \<or>
         (status c = ''submitted'' \<and> review_lease_is_live c now \<and>
          (case review_lease c of RS_Lease l \<Rightarrow> reviewer_agent_id l = Some a | _ \<Rightarrow> False))))
       (dvalues (tickets (brd w)))"

definition member_has_live_lease :: "world \<Rightarrow> string \<Rightarrow> time \<Rightarrow> bool" where
  "member_has_live_lease w a now =
     list_ex (\<lambda>c.
        (work_commitment c a now \<and> epoch_may_be_live (lease_expires_at_epoch (work c)) now) \<or>
        (status c = ''submitted'' \<and>
         (case review_lease c of
            RS_Lease l \<Rightarrow> reviewer_agent_id l = Some a \<and>
              epoch_may_be_live (case expires_at_epoch l of None \<Rightarrow> E_Null | Some e \<Rightarrow> e) now
          | _ \<Rightarrow> False)))
       (dvalues (tickets (brd w)))"

subsection \<open>Eligibility\<close>

definition seat_is_live :: "world \<Rightarrow> seat \<Rightarrow> time \<Rightarrow> bool" where
  "seat_is_live w m now =
     is_agent_live w (board_id (brd w)) (agent_id m) m now (offer_ttl_s (policy_of (brd w)))"

definition dispatch_candidate_is_eligible ::
  "world \<Rightarrow> ticket \<Rightarrow> seat \<Rightarrow> time \<Rightarrow> kind \<Rightarrow> bool result" where
  "dispatch_candidate_is_eligible w t m now k =
     (if \<not> dispatch_member_matches_requirements (brd w) t m k then Inr False
      else if \<not> member_dispatch_ready m now then Inr False
      else bindE (agent_is_busy w (agent_id m) now (ticket_id t)) (\<lambda>busy.
        if busy then Inr False else Inr (seat_is_live w m now)))"

record claim_diagnostics =
  dg_failures :: "string list"
  dg_membership_role :: "string option"
  dg_assignment_match :: bool
  dg_excluded :: bool
  dg_required_tier :: int
  dg_missing_skills :: "string list"
  dg_live :: bool
  dg_active_listener :: bool
  dg_busy_conflicts :: "busy_conflict list"

definition dispatch_claim_diagnostics ::
  "world \<Rightarrow> ticket \<Rightarrow> seat \<Rightarrow> time \<Rightarrow> kind \<Rightarrow> claim_diagnostics result" where
  "dispatch_claim_diagnostics w t m now k =
     (let b = brd w;
          pm = dget (principal_memberships b) (principal_id m);
          pm_r = map_option pm_role pm;
          assigned = (if k = Work then assigned_to_agent_id t else None);
          requested = (if k = Work then assigned_to t else None);
          amatch = (if assigned = None \<and> truthy requested
                    then assignment_matches m (the requested)
                    else assigned = None \<or> assigned = Some (agent_id m));
          excluded = agent_matches (exclude_agents t) m;
          c = member_capabilities m;
          rt = required_tier b t;
          missing = sort (remdups (filter (\<lambda>s. s \<notin> set (skills c)) (skills_required t)));
          when = (\<lambda>cond msg. if cond then [msg] else []);
          f1 = when (pm = None) ''membership_missing''
             @ when (lifecycle_status m \<noteq> ''active'') ''lifecycle_inactive''
             @ when (\<not> amatch) ''assignment_mismatch''
             @ when excluded ''excluded''
             @ when (\<not> capabilities_explicit m) ''capabilities_not_explicit''
             @ when (k = Work \<and> role m \<in> {''coordinator'', ''orchestrator''}) ''role_cannot_work''
             @ when (tier_max c < rt) ''tier_too_low''
             @ when (\<not> worker_model_matches b t m k) ''worker_model_mismatch''
             @ when (missing \<noteq> []) ''skills_missing''
             @ when (k = Work \<and> \<not> can_work c) ''can_work_false'';
          f2 = (if k = Review then
                  when (\<not> can_review c) ''can_review_false''
                @ when (pm_r \<notin> {Some ''admin'', Some ''reviewer''}) ''membership_role_cannot_review''
                @ when (submitted_by_agent_id t = Some (agent_id m)) ''self_review''
                @ when (review_policy (cfg b) = ''strict'' \<and>
                        submitted_by_principal_id t = Some (principal_id m)) ''same_principal_review''
                else [])
      in bindE (agent_busy_conflicts w (agent_id m) now (ticket_id t)) (\<lambda>conflicts.
           let live = seat_is_live w m now;
               f3 = when (conflicts \<noteq> []) ''busy_elsewhere''
                  @ when (\<not> member_dispatch_ready m now) ''not_dispatch_ready''
                  @ when (\<not> live) ''not_live''
           in Inr \<lparr> dg_failures = f1 @ f2 @ f3, dg_membership_role = pm_r,
                    dg_assignment_match = amatch, dg_excluded = excluded,
                    dg_required_tier = rt, dg_missing_skills = missing, dg_live = live,
                    dg_active_listener = agent_has_active_listener w (board_id b) (agent_id m),
                    dg_busy_conflicts = conflicts \<rparr>))"

definition pinned_seat_unavailable_reason ::
  "world \<Rightarrow> ticket \<Rightarrow> time \<Rightarrow> kind \<Rightarrow> string result" where
  "pinned_seat_unavailable_reason w t now k =
     (case (case assigned_to_agent_id t of None \<Rightarrow> None | Some a \<Rightarrow> get_member w a) of
        None \<Rightarrow> Inr ''pinned_seat_unavailable''
      | Some m \<Rightarrow>
          if \<not> dispatch_member_matches_requirements (brd w) t m k
          then Inr ''pinned_seat_unavailable''
          else bindE (agent_is_busy w (the (assigned_to_agent_id t)) now (ticket_id t)) (\<lambda>busy.
            if busy then Inr ''pinned_seat_busy''
            else if \<not> member_dispatch_ready m now then Inr ''pinned_seat_not_dispatch_ready''
            else if \<not> is_agent_live w (board_id (brd w)) (the (assigned_to_agent_id t)) m now
                         (offer_ttl_s (policy_of (brd w)))
            then Inr ''pinned_seat_exited''
            else Inr ''pinned_seat_unavailable''))"

subsection \<open>Pins and broadcast\<close>

definition release_assignment_pin :: "time \<Rightarrow> string \<Rightarrow> ticket \<Rightarrow> ticket" where
  "release_assignment_pin now reason t =
     (let next = dispatch_cycle t Work + 1 in
      append_history H_Dispatch
        (HE_Dispatch ((entry0 ''pin_released'')
           \<lparr>d_kind := Some Work, d_reason := Some reason,
            d_previous_assigned := assigned_to_agent_id t, d_at := Some now, d_cycle := Some next\<rparr>))
        (t\<lparr>assigned_to := None, assigned_to_agent_id := None, assigned_to_kind := None,
           pin_unavailable_cycles := None, pin_unavailable_last_at := None,
           updated_at := Some now, dispatch_cycle := (dispatch_cycle t)(Work := next)\<rparr>))"

definition set_broadcast_state ::
  "time \<Rightarrow> kind \<Rightarrow> string \<Rightarrow> world \<times> ticket \<Rightarrow> world \<times> ticket" where
  "set_broadcast_state now k reason wt =
     (case wt of (w, t) \<Rightarrow>
        let s = (entry0 ''broadcast'')\<lparr>d_kind := Some k, d_reason := Some reason, d_at := Some now,
                   d_cycle := Some (dispatch_cycle t k)\<rparr>
        in append_bounded_history H_Dispatch (HE_Dispatch s) (w, t\<lparr>dispatch_state := Some s\<rparr>))"

definition dispatch_entries :: "hentry list \<Rightarrow> dispatch_entry list" where
  "dispatch_entries hs = concat (map (\<lambda>h. case h of HE_Dispatch e \<Rightarrow> [e] | _ \<Rightarrow> []) hs)"

definition is_broadcast :: "ticket \<Rightarrow> bool" where
  "is_broadcast t = (case dispatch_state t of None \<Rightarrow> False | Some s \<Rightarrow> d_state s = ''broadcast'')"

fun first_entry_time :: "kind \<Rightarrow> dispatch_entry list \<Rightarrow> time option" where
  "first_entry_time k [] = None"
| "first_entry_time k (e # es) =
     (if d_kind e = Some k \<and> d_state e \<in> {''broadcast'', ''expired''}
      then (case (if d_at e \<noteq> None then d_at e else d_offered_at e) of
              Some t \<Rightarrow> Some t | None \<Rightarrow> first_entry_time k es)
      else first_entry_time k es)"

definition broadcast_since_epoch :: "ticket \<Rightarrow> kind \<Rightarrow> time option" where
  "broadcast_since_epoch t k =
     (case (case dispatch_state t of None \<Rightarrow> None
            | Some s \<Rightarrow> if d_state s = ''broadcast'' then d_at s else None) of
        Some at0 \<Rightarrow> Some at0
      | None \<Rightarrow>
          (case first_entry_time k (rev (dispatch_entries (history t H_Dispatch))) of
             Some at0 \<Rightarrow> Some at0
           | None \<Rightarrow> if updated_at t \<noteq> None then updated_at t else created_at t))"

subsection \<open>One pass of \<open>dispatch_ticket\<close>\<close>

definition wanted_status :: "kind \<Rightarrow> string" where
  "wanted_status k = (if k = Work then ''open'' else ''submitted'')"

definition live_offer :: "ticket \<Rightarrow> kind \<Rightarrow> time \<Rightarrow> bool" where
  "live_offer t k now =
     (case offers t k of None \<Rightarrow> False | Some off \<Rightarrow> now < o_expires_at_epoch off)"

text \<open>The early returns before anything but the reconciliation has happened.\<close>

definition dispatch_blocked :: "world \<Rightarrow> ticket \<Rightarrow> time \<Rightarrow> kind \<Rightarrow> bool" where
  "dispatch_blocked w t now k \<longleftrightarrow>
     status t \<noteq> wanted_status k \<or>
     parked t \<or>
     (k = Work \<and> inactive_work_ownership_is_ambiguous t now) \<or>
     (k = Review \<and> review_lease_is_live t now) \<or>
     \<not> dispatch_enabled (brd w) \<or>
     live_offer t k now"

text \<open>
  A broadcast ticket waits \<open>broadcast_reoffer_s\<close> and then starts a new offer cycle.  \<open>None\<close>: it
  still waits.  Otherwise the state, the offers already expired, and whether a cycle started.
\<close>

definition broadcast_requeue ::
  "world \<Rightarrow> ticket \<Rightarrow> time \<Rightarrow> kind \<Rightarrow> (world \<times> ticket \<times> int \<times> bool) option" where
  "broadcast_requeue w t now k =
     (if is_broadcast t then
        (case broadcast_since_epoch t k of
           None \<Rightarrow> None
         | Some since \<Rightarrow>
             if now - since < secs (broadcast_reoffer_s (policy_of (brd w))) then None
             else
               let next = dispatch_cycle t k + 1;
                   t1 = t\<lparr>offer_expirations := (offer_expirations t)(k := 0),
                          dispatch_cycle := (dispatch_cycle t)(k := next)\<rparr>;
                   wt2 = append_bounded_history H_Dispatch
                           (HE_Dispatch ((entry0 ''requeued'')
                              \<lparr>d_kind := Some k, d_reason := Some ''broadcast_reoffer_due'',
                               d_at := Some now, d_cycle := Some next\<rparr>)) (w, t1)
               in Some (fst wt2, snd wt2, 0, True))
      else Some (w, t, offer_expirations t k, False))"

text \<open>After three expired offers: a pin is released, an unpinned ticket is broadcast.\<close>

definition fallback_step ::
  "world \<Rightarrow> ticket \<Rightarrow> time \<Rightarrow> kind \<Rightarrow> int \<Rightarrow> (world \<times> ticket) + (ticket \<times> int)" where
  "fallback_step w t now k attempts =
     (if k = Work \<and> truthy (assigned_to_agent_id t) \<and> DEFAULT_FALLBACK_AFTER_OFFERS \<le> attempts
      then let t1 = release_assignment_pin now ''offer_limit_reached'' t
           in Inr (t1\<lparr>offer_expirations := (offer_expirations t1)(k := 0)\<rparr>, 0)
      else if fallback_broadcast (policy_of (brd w)) \<and> DEFAULT_FALLBACK_AFTER_OFFERS \<le> attempts
      then Inl (set_broadcast_state now k ''offer_limit_reached'' (w, t))
      else Inr (t, attempts))"

definition full_dispatch_history :: "world \<Rightarrow> ticket \<Rightarrow> dispatch_entry list" where
  "full_dispatch_history w t =
     dispatch_entries
       ((if omitted_count t H_Dispatch \<noteq> 0 then history_overflow w (ticket_id t) H_Dispatch else [])
        @ history t H_Dispatch)"

definition expired_for_this_ticket :: "world \<Rightarrow> ticket \<Rightarrow> kind \<Rightarrow> string list" where
  "expired_for_this_ticket w t k =
     concat (map (\<lambda>e. if d_state e = ''expired'' \<and> d_kind e = Some k \<and>
                         (case d_cycle e of None \<Rightarrow> 0 | Some c \<Rightarrow> c) = dispatch_cycle t k \<and>
                         truthy (d_agent_id e)
                      then [the (d_agent_id e)] else [])
              (full_dispatch_history w t))"

definition dispatch_candidates ::
  "world \<Rightarrow> ticket \<Rightarrow> time \<Rightarrow> kind \<Rightarrow> (string \<times> seat) list result" where
  "dispatch_candidates w t now k =
     filterE (\<lambda>(key, m).
        bindE (dispatch_candidate_is_eligible w t m now k) (\<lambda>ok.
          Inr (ok \<and> agent_id m \<notin> set (expired_for_this_ticket w t k))))
       (members (brd w))"

text \<open>The seat to avoid: the last worker, or for a second opinion the last reviewer.\<close>

definition avoided_agent :: "board \<Rightarrow> ticket \<Rightarrow> kind \<Rightarrow> string option" where
  "avoided_agent b t k =
     (if k = Work
      then text_or (last_claimed_by_agent_id t) (last_offered_agent_id t Work)
      else if second_opinion (policy_of b)
      then text_or (reviewed_by_agent_id t)
             (text_or (last_review_released_by_agent_id t) (last_offered_agent_id t Review))
      else None)"

definition narrow_candidates ::
  "board \<Rightarrow> ticket \<Rightarrow> kind \<Rightarrow> string option \<Rightarrow> (string \<times> seat) list \<Rightarrow> (string \<times> seat) list" where
  "narrow_candidates b t k preferred cs =
     (let alternatives = filter (\<lambda>(_, m). Some (agent_id m) \<noteq> avoided_agent b t k) cs;
          preferred_candidate = list_ex (\<lambda>(_, m). Some (agent_id m) = preferred) cs
      in if alternatives \<noteq> [] \<and> \<not> preferred_candidate then alternatives else cs)"

definition candidate_key ::
  "world \<Rightarrow> ticket \<Rightarrow> string option \<Rightarrow> string \<times> seat
     \<Rightarrow> nat \<times> nat \<times> nat \<times> int \<times> time option \<times> time option \<times> string" where
  "candidate_key w t preferred c =
     (case c of (_, m) \<Rightarrow>
       (if Some (agent_id m) = preferred then 0 else 1,
        if agent_has_active_listener w (board_id (brd w)) (agent_id m) then 0 else 1,
        if agent_matches (prefer_agents t) m then 0 else 1,
        tier_max (member_capabilities m) - required_tier (brd w) t,
        last_offered_at m,
        (if last_work_at m \<noteq> None then last_work_at m else parse_epoch (joined_at m)),
        agent_id m))"

datatype outcome =
    Finished world ticket "release option"
  | Again world ticket

definition kind_unassignable_reason :: "kind \<Rightarrow> string" where
  "kind_unassignable_reason k =
     (if k = Work then ''no_eligible_worker'' else ''no_eligible_reviewer'')"

text \<open>No candidate: a pinned ticket counts cycles and then loses its pin; others broadcast.\<close>

definition no_candidate_step ::
  "world \<Rightarrow> ticket \<Rightarrow> time \<Rightarrow> kind \<Rightarrow> int \<Rightarrow> bool \<Rightarrow> outcome result" where
  "no_candidate_step w t now k attempts reoffer =
     (if k = Work \<and> truthy (assigned_to_agent_id t) then
        bindE (pinned_seat_unavailable_reason w t now k) (\<lambda>reason.
          let cycles0 = (case pin_unavailable_cycles t of None \<Rightarrow> 0 | Some n \<Rightarrow> n);
              fresh = pin_unavailable_last_at t \<noteq> Some now;
              cycles = (if fresh then cycles0 + 1 else cycles0);
              t1 = (if fresh then t\<lparr>pin_unavailable_cycles := Some cycles,
                                    pin_unavailable_last_at := Some now\<rparr> else t)
          in if DEFAULT_FALLBACK_AFTER_OFFERS \<le> cycles
             then let t2 = release_assignment_pin now reason t1
                  in Inr (Again w (t2\<lparr>offer_expirations := (offer_expirations t2)(k := 0)\<rparr>))
             else let s = (entry0 ''unassignable'')\<lparr>d_kind := Some k, d_reason := Some reason,
                            d_pin_unavailable_cycles := Some cycles\<rparr>
                  in if dispatch_state t1 = Some s then Inr (Finished w t1 None)
                     else Inr (Finished w
                            (append_history H_Dispatch (HE_Dispatch (s\<lparr>d_at := Some now\<rparr>))
                               (t1\<lparr>dispatch_state := Some s\<rparr>))
                            (Some (Unassignable (ticket_id t) k reason
                                     (admitted_agent_ids (brd w) None)))))
      else if reoffer then
        (case set_broadcast_state now k ''no_live_candidates'' (w, t) of
           (w1, t1) \<Rightarrow> Inr (Finished w1 t1 None))
      else if 0 < attempts \<and> fallback_broadcast (policy_of (brd w)) then
        (case set_broadcast_state now k ''no_candidates_remaining'' (w, t) of
           (w1, t1) \<Rightarrow> Inr (Finished w1 t1 None))
      else
        let s = (entry0 ''unassignable'')\<lparr>d_kind := Some k,
                   d_reason := Some (kind_unassignable_reason k)\<rparr>
        in if dispatch_state t = Some s then Inr (Finished w t None)
           else (case append_bounded_history H_Dispatch (HE_Dispatch (s\<lparr>d_at := Some now\<rparr>))
                        (w, t\<lparr>dispatch_state := Some s\<rparr>) of
                   (w1, t1) \<Rightarrow> Inr (Finished w1 t1
                      (Some (Unassignable (ticket_id t) k (kind_unassignable_reason k)
                               (admitted_agent_ids (brd w) None))))))"

definition offer_entry :: "offer \<Rightarrow> dispatch_entry" where
  "offer_entry off =
     (entry0 ''offered'')\<lparr>d_ticket_id := Some (o_ticket_id off), d_kind := Some (o_kind off),
        d_agent_id := Some (o_agent_id off), d_agent_name := Some (o_agent_name off),
        d_offered_at := Some (o_offered_at off), d_expires_at := Some (o_expires_at off),
        d_expires_at_epoch := Some (o_expires_at_epoch off), d_cycle := Some (o_cycle off)\<rparr>"

definition make_offer ::
  "world \<Rightarrow> ticket \<Rightarrow> time \<Rightarrow> kind \<Rightarrow> string option \<Rightarrow> (string \<times> seat) list \<Rightarrow> outcome" where
  "make_offer w t now k preferred cs =
     (let t1 = (if k = Work then t\<lparr>pin_unavailable_cycles := None, pin_unavailable_last_at := None\<rparr>
                else t);
          (key, selected) = hd (sort_key (candidate_key w t1 preferred) cs);
          w1 = put_member key (selected\<lparr>last_offered_at := Some now\<rparr>) w;
          ttl = offer_ttl_s (policy_of (brd w));
          expires = now + secs ttl;
          off = \<lparr> o_ticket_id = ticket_id t, o_kind = k, o_agent_id = agent_id selected,
                  o_agent_name = agent_name selected, o_offered_at = now, o_expires_at = expires,
                  o_expires_at_epoch = expires, o_cycle = dispatch_cycle t k \<rparr>;
          (w2, t2) = append_bounded_history H_Dispatch (HE_Dispatch (offer_entry off))
                       (w1, t1\<lparr>offers := (offers t1)(k := Some off),
                               dispatch_state := Some (offer_entry off)\<rparr>)
      in Finished w2 t2
           (Some (Offered (ticket_id t) k (agent_id selected) (agent_name selected) expires ttl
                    [agent_id selected])))"

definition dispatch_pass ::
  "world \<Rightarrow> ticket \<Rightarrow> time \<Rightarrow> kind \<Rightarrow> string option \<Rightarrow> outcome result" where
  "dispatch_pass w0 t0 now k preferred =
     (case reconcile_inactive_work_ownership now (w0, t0) of (w1, t1) \<Rightarrow>
        if dispatch_blocked w1 t1 now k then Inr (Finished w1 t1 None)
        else (case broadcast_requeue w1 t1 now k of
            None \<Rightarrow> Inr (Finished w1 t1 None)
          | Some (w2, t2, attempts, reoffer) \<Rightarrow>
              (case fallback_step w2 t2 now k attempts of
                 Inl (w3, t3) \<Rightarrow> Inr (Finished w3 t3 None)
               | Inr (t3, attempts3) \<Rightarrow>
                   bindE (dispatch_candidates w2 t3 now k) (\<lambda>cs0.
                     let cs = narrow_candidates (brd w2) t3 k preferred cs0 in
                     if cs = [] then no_candidate_step w2 t3 now k attempts3 reoffer
                     else Inr (make_offer w2 t3 now k preferred cs)))))"

end
