(* ===== verification/Dispatch_Queue.thy ===== *)
theory Dispatch_Queue
  imports Dispatch
begin

section \<open>Dispatching tickets, expiring offers, sweeping the queue\<close>

text \<open>
  \<open>dispatch_ticket\<close> as the repetition of a pass (it calls itself once after a pin has been
  released, which is why it terminates), the expiry of offers, the reconciliation of offers that
  have become invalid and its read-only predictor, the redispatch of the whole queue in priority
  order, the retirement of stale seats and the reaper that ties them together.
\<close>

subsection \<open>Frames of the pieces of a pass\<close>

lemma append_bounded_frame [simp, frame_simps]:
  "brd (fst (append_bounded_history f e (w, t))) = brd w"
  "active_listeners (fst (append_bounded_history f e (w, t))) = active_listeners w"
  "last_seen_activity (fst (append_bounded_history f e (w, t))) = last_seen_activity w"
  "ticket_id (snd (append_bounded_history f e (w, t))) = ticket_id t"
  "status (snd (append_bounded_history f e (w, t))) = status t"
  "parked (snd (append_bounded_history f e (w, t))) = parked t"
  "tier (snd (append_bounded_history f e (w, t))) = tier t"
  "skills_required (snd (append_bounded_history f e (w, t))) = skills_required t"
  "exclude_agents (snd (append_bounded_history f e (w, t))) = exclude_agents t"
  "assigned_to (snd (append_bounded_history f e (w, t))) = assigned_to t"
  "assigned_to_agent_id (snd (append_bounded_history f e (w, t))) = assigned_to_agent_id t"
  "work (snd (append_bounded_history f e (w, t))) = work t"
  "offers (snd (append_bounded_history f e (w, t))) = offers t"
  "offer_expirations (snd (append_bounded_history f e (w, t))) = offer_expirations t"
  "dispatch_cycle (snd (append_bounded_history f e (w, t))) = dispatch_cycle t"
  "dispatch_state (snd (append_bounded_history f e (w, t))) = dispatch_state t"
  "review_lease (snd (append_bounded_history f e (w, t))) = review_lease t"
  "submitted_by_agent_id (snd (append_bounded_history f e (w, t))) = submitted_by_agent_id t"
  "submitted_by_principal_id (snd (append_bounded_history f e (w, t))) = submitted_by_principal_id t"
  "updated_at (snd (append_bounded_history f e (w, t))) = updated_at t"
  "priority (snd (append_bounded_history f e (w, t))) = priority t"
  "created_at (snd (append_bounded_history f e (w, t))) = created_at t"
  "progress (snd (append_bounded_history f e (w, t))) = progress t"
  "work_attempt (snd (append_bounded_history f e (w, t))) = work_attempt t"
  "server_generated_id (snd (append_bounded_history f e (w, t))) = server_generated_id t"
  "created_by_principal_id (snd (append_bounded_history f e (w, t))) = created_by_principal_id t"
  "reviewed_by_agent_id (snd (append_bounded_history f e (w, t))) = reviewed_by_agent_id t"
  "last_verdict (snd (append_bounded_history f e (w, t))) = last_verdict t"
  "rejection_count (snd (append_bounded_history f e (w, t))) = rejection_count t"
  "cancellation (snd (append_bounded_history f e (w, t))) = cancellation t"
  "human_request (snd (append_bounded_history f e (w, t))) = human_request t"
  by (simp_all add: append_bounded_history_def persist_history_overflow_def Let_def)

lemma append_bounded_other [simp, frame_simps]:
  "f' \<noteq> f \<Longrightarrow> history (snd (append_bounded_history f e (w, t))) f' = history t f'"
  by (simp add: append_bounded_history_def Let_def)

lemma reconcile_frame [simp, frame_simps]:
  "brd (fst (reconcile_inactive_work_ownership now (w, t))) = brd w"
  "active_listeners (fst (reconcile_inactive_work_ownership now (w, t))) = active_listeners w"
  "last_seen_activity (fst (reconcile_inactive_work_ownership now (w, t))) = last_seen_activity w"
  "ticket_id (snd (reconcile_inactive_work_ownership now (w, t))) = ticket_id t"
  "status (snd (reconcile_inactive_work_ownership now (w, t))) = status t"
  "parked (snd (reconcile_inactive_work_ownership now (w, t))) = parked t"
  "tier (snd (reconcile_inactive_work_ownership now (w, t))) = tier t"
  "skills_required (snd (reconcile_inactive_work_ownership now (w, t))) = skills_required t"
  "exclude_agents (snd (reconcile_inactive_work_ownership now (w, t))) = exclude_agents t"
  "assigned_to (snd (reconcile_inactive_work_ownership now (w, t))) = assigned_to t"
  "assigned_to_agent_id (snd (reconcile_inactive_work_ownership now (w, t))) = assigned_to_agent_id t"
  "offers (snd (reconcile_inactive_work_ownership now (w, t))) = offers t"
  "review_lease (snd (reconcile_inactive_work_ownership now (w, t))) = review_lease t"
  "dispatch_state (snd (reconcile_inactive_work_ownership now (w, t))) = dispatch_state t"
  "submitted_by_agent_id (snd (reconcile_inactive_work_ownership now (w, t))) = submitted_by_agent_id t"
  "submitted_by_principal_id (snd (reconcile_inactive_work_ownership now (w, t))) = submitted_by_principal_id t"
  "priority (snd (reconcile_inactive_work_ownership now (w, t))) = priority t"
  "created_at (snd (reconcile_inactive_work_ownership now (w, t))) = created_at t"
  "server_generated_id (snd (reconcile_inactive_work_ownership now (w, t))) = server_generated_id t"
  "created_by_principal_id (snd (reconcile_inactive_work_ownership now (w, t))) = created_by_principal_id t"
  "reviewed_by_agent_id (snd (reconcile_inactive_work_ownership now (w, t))) = reviewed_by_agent_id t"
  "last_verdict (snd (reconcile_inactive_work_ownership now (w, t))) = last_verdict t"
  "rejection_count (snd (reconcile_inactive_work_ownership now (w, t))) = rejection_count t"
  "cancellation (snd (reconcile_inactive_work_ownership now (w, t))) = cancellation t"
  "human_request (snd (reconcile_inactive_work_ownership now (w, t))) = human_request t"
  by (simp_all add: reconcile_inactive_work_ownership_def Let_def)

lemma release_pin_frame [simp, frame_simps]:
  "ticket_id (release_assignment_pin now r t) = ticket_id t"
  "status (release_assignment_pin now r t) = status t"
  "parked (release_assignment_pin now r t) = parked t"
  "work (release_assignment_pin now r t) = work t"
  "offers (release_assignment_pin now r t) = offers t"
  "review_lease (release_assignment_pin now r t) = review_lease t"
  "assigned_to_agent_id (release_assignment_pin now r t) = None"
  "assigned_to (release_assignment_pin now r t) = None"
  "priority (release_assignment_pin now r t) = priority t"
  "created_at (release_assignment_pin now r t) = created_at t"
  "submitted_by_agent_id (release_assignment_pin now r t) = submitted_by_agent_id t"
  "submitted_by_principal_id (release_assignment_pin now r t) = submitted_by_principal_id t"
  "exclude_agents (release_assignment_pin now r t) = exclude_agents t"
  "server_generated_id (release_assignment_pin now r t) = server_generated_id t"
  "created_by_principal_id (release_assignment_pin now r t) = created_by_principal_id t"
  "reviewed_by_agent_id (release_assignment_pin now r t) = reviewed_by_agent_id t"
  "last_verdict (release_assignment_pin now r t) = last_verdict t"
  "rejection_count (release_assignment_pin now r t) = rejection_count t"
  "cancellation (release_assignment_pin now r t) = cancellation t"
  "human_request (release_assignment_pin now r t) = human_request t"
  by (simp_all add: release_assignment_pin_def append_history_def Let_def)

lemma kept_histories [simp, frame_simps]:
  "f \<noteq> H_Dispatch \<Longrightarrow> history (snd (reconcile_inactive_work_ownership now (w, t))) f = history t f"
  "f \<noteq> H_Dispatch \<Longrightarrow> history (release_assignment_pin now r t) f = history t f"
  "f \<noteq> H_Dispatch \<Longrightarrow> history (snd (set_broadcast_state now k r (w, t))) f = history t f"
  by (simp_all add: reconcile_inactive_work_ownership_def release_assignment_pin_def append_history_def
      set_broadcast_state_def Let_def)

lemma set_broadcast_frame [simp, frame_simps]:
  "brd (fst (set_broadcast_state now k r (w, t))) = brd w"
  "active_listeners (fst (set_broadcast_state now k r (w, t))) = active_listeners w"
  "last_seen_activity (fst (set_broadcast_state now k r (w, t))) = last_seen_activity w"
  "ticket_id (snd (set_broadcast_state now k r (w, t))) = ticket_id t"
  "status (snd (set_broadcast_state now k r (w, t))) = status t"
  "work (snd (set_broadcast_state now k r (w, t))) = work t"
  "offers (snd (set_broadcast_state now k r (w, t))) = offers t"
  "review_lease (snd (set_broadcast_state now k r (w, t))) = review_lease t"
  "parked (snd (set_broadcast_state now k r (w, t))) = parked t"
  "assigned_to_agent_id (snd (set_broadcast_state now k r (w, t))) = assigned_to_agent_id t"
  "submitted_by_agent_id (snd (set_broadcast_state now k r (w, t))) = submitted_by_agent_id t"
  "submitted_by_principal_id (snd (set_broadcast_state now k r (w, t))) = submitted_by_principal_id t"
  "priority (snd (set_broadcast_state now k r (w, t))) = priority t"
  "created_at (snd (set_broadcast_state now k r (w, t))) = created_at t"
  "server_generated_id (snd (set_broadcast_state now k r (w, t))) = server_generated_id t"
  "created_by_principal_id (snd (set_broadcast_state now k r (w, t))) = created_by_principal_id t"
  "reviewed_by_agent_id (snd (set_broadcast_state now k r (w, t))) = reviewed_by_agent_id t"
  "last_verdict (snd (set_broadcast_state now k r (w, t))) = last_verdict t"
  "rejection_count (snd (set_broadcast_state now k r (w, t))) = rejection_count t"
  "cancellation (snd (set_broadcast_state now k r (w, t))) = cancellation t"
  "human_request (snd (set_broadcast_state now k r (w, t))) = human_request t"
  by (simp_all add: set_broadcast_state_def Let_def)

text \<open>
  The parts of a ticket and of the world that the passes of the dispatcher never change: its
  identity and status, what it is assigned review provenance by, its leases and the offer of the
  other kind; of the world everything but the archive and the \<open>last_offered_at\<close> of one seat.
\<close>

definition same_record :: "ticket \<Rightarrow> ticket \<Rightarrow> bool" where
  "same_record t t' \<longleftrightarrow>
     ticket_id t' = ticket_id t \<and> parked t' = parked t \<and>
     submitted_by_agent_id t' = submitted_by_agent_id t \<and>
     submitted_by_principal_id t' = submitted_by_principal_id t \<and>
     priority t' = priority t \<and> created_at t' = created_at t \<and>
     server_generated_id t' = server_generated_id t \<and>
     created_by_principal_id t' = created_by_principal_id t \<and>
     reviewed_by_agent_id t' = reviewed_by_agent_id t \<and> last_verdict t' = last_verdict t \<and>
     rejection_count t' = rejection_count t \<and> cancellation t' = cancellation t \<and>
     human_request t' = human_request t \<and>
     history t' H_Review = history t H_Review \<and> history t' H_Submission = history t H_Submission"

definition same_ticket :: "ticket \<Rightarrow> ticket \<Rightarrow> bool" where
  "same_ticket t t' \<longleftrightarrow>
     same_record t t' \<and> status t' = status t \<and> review_lease t' = review_lease t"

lemma same_record_refl [simp]: "same_record t t"
  by (simp add: same_record_def)

lemma same_record_trans: "same_record a b \<Longrightarrow> same_record b c \<Longrightarrow> same_record a c"
  by (simp add: same_record_def)

definition same_service :: "world \<Rightarrow> world \<Rightarrow> bool" where
  "same_service w w' \<longleftrightarrow>
     cfg (brd w') = cfg (brd w) \<and> board_id (brd w') = board_id (brd w) \<and>
     principal_memberships (brd w') = principal_memberships (brd w) \<and>
     dkeys (members (brd w')) = dkeys (members (brd w)) \<and>
     dkeys (tickets (brd w')) = dkeys (tickets (brd w)) \<and>
     active_listeners w' = active_listeners w \<and> last_seen_activity w' = last_seen_activity w"

lemma same_ticket_refl [simp]: "same_ticket t t"
  by (simp add: same_ticket_def same_record_def)

lemma same_ticket_trans: "same_ticket a b \<Longrightarrow> same_ticket b c \<Longrightarrow> same_ticket a c"
  by (auto simp: same_ticket_def intro: same_record_trans)

lemma same_service_refl [simp]: "same_service w w"
  by (simp add: same_service_def)

lemma same_service_trans: "same_service a b \<Longrightarrow> same_service b c \<Longrightarrow> same_service a c"
  by (simp add: same_service_def)

subsection \<open>\<open>dispatch_ticket\<close> terminates\<close>

lemma broadcast_requeue_frame:
  assumes "broadcast_requeue w t now k = Some (w', t', n, b)"
  shows "brd w' = brd w" and "active_listeners w' = active_listeners w"
    and "last_seen_activity w' = last_seen_activity w"
    and "same_ticket t t'" and "work t' = work t" and "offers t' = offers t"
    and "assigned_to_agent_id t' = assigned_to_agent_id t"
    and "assigned_to t' = assigned_to t" and "exclude_agents t' = exclude_agents t"
  using assms
  by (auto simp: broadcast_requeue_def same_ticket_def same_record_def Let_def split: if_splits option.splits)

lemma fallback_step_Inr_frame:
  assumes "fallback_step w t now k n = Inr (t', n')"
  shows "same_ticket t t'" and "work t' = work t" and "offers t' = offers t"
    and "assigned_to_agent_id t' = assigned_to_agent_id t \<or> assigned_to_agent_id t' = None"
  using assms by (auto simp: fallback_step_def same_ticket_def same_record_def Let_def split: if_splits)

lemma fallback_step_Inl:
  assumes "fallback_step w t now k n = Inl wt"
  shows "wt = set_broadcast_state now k ''offer_limit_reached'' (w, t)"
  using assms by (auto simp: fallback_step_def Let_def split: if_splits)

lemma set_broadcast_same_ticket:
  "same_ticket t (snd (set_broadcast_state now k r (w, t)))"
  by (simp add: same_ticket_def same_record_def)

lemma no_candidate_Again:
  assumes "no_candidate_step w t now k n b = Inr (Again w' t')"
  shows "k = Work" and "truthy (assigned_to_agent_id t)" and "assigned_to_agent_id t' = None"
    and "w' = w" and "same_ticket t t'" and "work t' = work t" and "offers t' = offers t"
  using assms
  by (auto simp: no_candidate_step_def Let_def same_ticket_def same_record_def split: if_splits prod.splits)

lemma dispatch_pass_Again:
  assumes "dispatch_pass w t now k pref = Inr (Again w' t')"
  shows "truthy (assigned_to_agent_id t)" and "assigned_to_agent_id t' = None"
proof -
  obtain w1 t1 where r: "reconcile_inactive_work_ownership now (w, t) = (w1, t1)"
    by fastforce
  have t1: "assigned_to_agent_id t1 = assigned_to_agent_id t"
    using reconcile_frame(11) [of now w t] r by simp
  from assms r obtain w2 t2 n b where q: "broadcast_requeue w1 t1 now k = Some (w2, t2, n, b)"
    by (auto simp: dispatch_pass_def split: if_splits option.splits)
  from assms r q obtain t3 n' where f: "fallback_step w2 t2 now k n = Inr (t3, n')"
    by (auto simp: dispatch_pass_def split: if_splits sum.splits)
  from assms r q f have "no_candidate_step w2 t3 now k n' b = Inr (Again w' t')"
    by (auto simp: dispatch_pass_def make_offer_def Let_def split: if_splits prod.splits)
  note a = no_candidate_Again [OF this] and fb = fallback_step_Inr_frame(4) [OF f]
  show "assigned_to_agent_id t' = None" by (rule a(3))
  from a(2) fb have "truthy (assigned_to_agent_id t2)" by auto
  with broadcast_requeue_frame(7) [OF q] t1 show "truthy (assigned_to_agent_id t)" by simp
qed

subsection \<open>The whole of \<open>dispatch_ticket\<close>\<close>

text \<open>The only recursive call follows the release of a pin, and an unpinned ticket has no second.\<close>

function dispatch_ticket ::
  "world \<Rightarrow> ticket \<Rightarrow> time \<Rightarrow> kind \<Rightarrow> string option \<Rightarrow> (world \<times> ticket \<times> release option) result" where
  "dispatch_ticket w t now k preferred =
     bindE (dispatch_pass w t now k preferred) (\<lambda>o'.
       case o' of
         Finished w' t' ev \<Rightarrow> Inr (w', t', ev)
       | Again w' t' \<Rightarrow> dispatch_ticket w' t' now k None)"
  by pat_completeness auto

termination
  by (relation "measure (\<lambda>(_, t, _, _, _). if truthy (assigned_to_agent_id t) then 1 else 0)")
    (auto dest: dispatch_pass_Again)

declare dispatch_ticket.simps [simp del]

text \<open>The equation evaluation uses: the case on the outcome of the pass comes first.\<close>

lemma dispatch_ticket_code [code]:
  "dispatch_ticket w t now k preferred =
     (case dispatch_pass w t now k preferred of
        Inl e \<Rightarrow> Inl e
      | Inr (Finished w' t' ev) \<Rightarrow> Inr (w', t', ev)
      | Inr (Again w' t') \<Rightarrow> dispatch_ticket w' t' now k None)"
  by (subst dispatch_ticket.simps) (simp add: bindE_def split: sum.split)

text \<open>Dispatching a ticket of the document in place.\<close>

definition dispatch_stored ::
  "time \<Rightarrow> kind \<Rightarrow> string option \<Rightarrow> string \<Rightarrow> world \<times> release list \<Rightarrow> (world \<times> release list) result" where
  "dispatch_stored now k preferred key s =
     (case get_ticket (fst s) key of
        None \<Rightarrow> Inr s
      | Some t \<Rightarrow>
          bindE (dispatch_ticket (fst s) t now k preferred) (\<lambda>(w', t', ev).
            Inr (put_ticket key t' w', snd s @ (case ev of None \<Rightarrow> [] | Some e \<Rightarrow> [e]))))"

subsection \<open>Expired offers\<close>

text \<open>The redispatch that follows a release, where the caller wants one.\<close>

type_synonym reap_state = "world \<times> ticket \<times> release list"

definition and_dispatch :: "bool \<Rightarrow> time \<Rightarrow> kind \<Rightarrow> reap_state \<Rightarrow> reap_state result" where
  "and_dispatch redispatch now k s =
     (case s of (w, t, evs) \<Rightarrow>
        if redispatch
        then bindE (dispatch_ticket w t now k None) (\<lambda>(w', t', ev).
               Inr (w', t', evs @ (case ev of None \<Rightarrow> [] | Some e \<Rightarrow> [e])))
        else Inr (w, t, evs))"

definition expire_offer ::
  "time \<Rightarrow> bool \<Rightarrow> kind \<Rightarrow> world \<times> ticket \<times> release list \<Rightarrow> (world \<times> ticket \<times> release list) result" where
  "expire_offer now redispatch k s =
     (case s of (w, t, evs) \<Rightarrow>
        case offers t k of
          None \<Rightarrow> Inr (w, t, evs)
        | Some off \<Rightarrow>
            if now < o_expires_at_epoch off then Inr (w, t, evs)
            else
              let t1 = t\<lparr>offers := (offers t)(k := None),
                         last_offered_agent_id := (last_offered_agent_id t)(k := Some (o_agent_id off)),
                         offer_expirations := (offer_expirations t)(k := offer_expirations t k + 1)\<rparr>;
                  (w2, t2) = append_bounded_history H_Dispatch
                     (HE_Dispatch ((entry0 ''expired'')
                        \<lparr>d_kind := Some k, d_agent_id := Some (o_agent_id off),
                         d_agent_name := Some (o_agent_name off), d_at := Some now,
                         d_cycle := Some (o_cycle off)\<rparr>)) (w, t1);
                  evs2 = evs @ [Offer_Expired (ticket_id t) k (o_agent_id off) (o_agent_name off)
                                  (o_expires_at off) [o_agent_id off]]
              in and_dispatch redispatch now k (w2, t2, evs2))"

definition expire_dispatch_offers ::
  "world \<Rightarrow> ticket \<Rightarrow> time \<Rightarrow> bool \<Rightarrow> (world \<times> ticket \<times> release list) result" where
  "expire_dispatch_offers w t now redispatch =
     foldE (expire_offer now redispatch) [Work, Review] (w, t, [])"

subsection \<open>The order of the queue\<close>

definition priority_rank :: "string \<Rightarrow> nat" where
  "priority_rank p =
     (if p = ''critical'' then 0 else if p = ''high'' then 1
      else if p = ''medium'' then 2 else if p = ''low'' then 3 else 2)"

definition queue_key :: "ticket \<Rightarrow> nat \<times> time option \<times> string" where
  "queue_key t = (priority_rank (priority t), created_at t, ticket_id t)"

definition queue_order :: "world \<Rightarrow> string list" where
  "queue_order w = map fst (sort_key (\<lambda>(_, t). queue_key t) (tickets (brd w)))"

subsection \<open>Offers that have become invalid\<close>

definition invalid_dispatch_offer_reason ::
  "world \<Rightarrow> ticket \<Rightarrow> offer \<Rightarrow> time \<Rightarrow> kind \<Rightarrow> string option" where
  "invalid_dispatch_offer_reason w t off now k =
     (if status t \<noteq> wanted_status k then Some ''offer_status_mismatch''
      else if parked t then Some ''ticket_parked''
      else if o_kind off \<noteq> k \<or> o_ticket_id off \<noteq> ticket_id t then Some ''offer_state_mismatch''
      else
        (case get_member w (o_agent_id off) of
           None \<Rightarrow> Some ''offer_recipient_ineligible''
         | Some m \<Rightarrow>
             if \<not> dispatch_member_matches_requirements (brd w) t m k
             then Some ''offer_recipient_ineligible''
             else if \<not> member_dispatch_ready m now then Some ''offer_recipient_not_dispatch_ready''
             else if k = Work \<and> inactive_work_ownership_is_ambiguous t now
             then Some ''offer_conflicts_with_ambiguous_ownership''
             else if k = Work \<and> pre_submission t \<and> truthy (claimed_by_agent_id (work t))
             then Some ''offer_conflicts_with_work_lease''
             else if k = Review \<and> review_lease_is_live t now
             then Some ''offer_conflicts_with_review_lease''
             else if agent_has_live_lease_elsewhere w (o_agent_id off) now (ticket_id t)
             then Some ''offer_recipient_busy''
             else None))"

definition is_offered_to :: "dispatch_entry option \<Rightarrow> kind \<Rightarrow> string \<Rightarrow> bool" where
  "is_offered_to s k a =
     (case s of None \<Rightarrow> False
      | Some e \<Rightarrow> d_state e = ''offered'' \<and> d_kind e = Some k \<and> d_agent_id e = Some a)"

text \<open>Withdrawing an offer, with the dispatch state that announces it.\<close>

definition withdraw_offer :: "time \<Rightarrow> kind \<Rightarrow> offer \<Rightarrow> ticket \<Rightarrow> ticket" where
  "withdraw_offer now k off t =
     t\<lparr>offers := (offers t)(k := None),
       dispatch_state := (if is_offered_to (dispatch_state t) k (o_agent_id off) then None
                          else dispatch_state t),
       updated_at := Some now\<rparr>"

definition offer_revoked :: "ticket \<Rightarrow> kind \<Rightarrow> offer \<Rightarrow> string \<Rightarrow> release" where
  "offer_revoked t k off reason =
     Offer_Revoked (ticket_id t) k (o_agent_id off) (o_agent_name off) (o_expires_at off) reason
       [o_agent_id off]"

definition offer_problem ::
  "world \<Rightarrow> ticket \<Rightarrow> offer \<Rightarrow> time \<Rightarrow> kind \<Rightarrow> string list \<Rightarrow> string option" where
  "offer_problem w t off now k reserved =
     (case invalid_dispatch_offer_reason w t off now k of
        Some r \<Rightarrow> Some r
      | None \<Rightarrow> if o_agent_id off \<in> set reserved then Some ''offer_capacity_conflict'' else None)"

type_synonym sweep_state = "world \<times> ticket \<times> string list \<times> release list"

definition check_offer :: "time \<Rightarrow> kind \<Rightarrow> sweep_state \<Rightarrow> sweep_state" where
  "check_offer now k s =
     (case s of (w, t, reserved, evs) \<Rightarrow>
        case offers t k of
          None \<Rightarrow> s
        | Some off \<Rightarrow>
            (case offer_problem w t off now k reserved of
               None \<Rightarrow> (w, t, o_agent_id off # reserved, evs)
             | Some r \<Rightarrow> (w, withdraw_offer now k off t, reserved, evs @ [offer_revoked t k off r])))"

definition check_ticket_offers ::
  "time \<Rightarrow> string \<Rightarrow> world \<times> string list \<times> release list \<Rightarrow> world \<times> string list \<times> release list" where
  "check_ticket_offers now key s =
     (case s of (w, reserved, evs) \<Rightarrow>
        case get_ticket w key of
          None \<Rightarrow> s
        | Some t \<Rightarrow>
            let (w1, t1) = reconcile_inactive_work_ownership now (w, t);
                (w2, t2, reserved2, evs2) =
                  check_offer now Review (check_offer now Work (w1, t1, reserved, evs))
            in (put_ticket key t2 w2, reserved2, evs2))"

definition RETRY_REASONS :: "string list" where
  "RETRY_REASONS = [''offer_limit_reached'', ''no_candidates_remaining'', ''no_eligible_worker'',
     ''no_eligible_reviewer'', ''no_live_candidates'']"

definition waits_without_offer :: "ticket \<Rightarrow> bool" where
  "waits_without_offer t \<longleftrightarrow>
     \<not> parked t \<and> status t \<in> {''open'', ''submitted''} \<and>
     (case dispatch_state t of None \<Rightarrow> False
      | Some e \<Rightarrow> d_state e \<in> {''broadcast'', ''unassignable''} \<and>
          (case d_reason e of None \<Rightarrow> False | Some r \<Rightarrow> r \<in> set RETRY_REASONS))"

definition retry_waiting :: "string \<Rightarrow> world \<Rightarrow> world" where
  "retry_waiting key w =
     (case get_ticket w key of
        None \<Rightarrow> w
      | Some t \<Rightarrow> if waits_without_offer t then put_ticket key (t\<lparr>dispatch_state := None\<rparr>) w else w)"

definition reconcile_invalid_dispatch_offers :: "world \<Rightarrow> time \<Rightarrow> world \<times> release list" where
  "reconcile_invalid_dispatch_offers w now =
     (let ks = queue_order w;
          (w1, _, evs) = fold (check_ticket_offers now) ks (w, [], [])
      in if evs = [] then (w1, evs) else (fold retry_waiting ks w1, evs))"

text \<open>The read-only predictor: does the reconciliation have anything to do?\<close>

fun scan_offers ::
  "world \<Rightarrow> time \<Rightarrow> ticket \<Rightarrow> kind list \<Rightarrow> string list \<Rightarrow> string list option" where
  "scan_offers w now t [] reserved = Some reserved"
| "scan_offers w now t (k # ks) reserved =
     (case offers t k of
        None \<Rightarrow> scan_offers w now t ks reserved
      | Some off \<Rightarrow>
          if invalid_dispatch_offer_reason w t off now k \<noteq> None \<or> o_agent_id off \<in> set reserved
          then None
          else scan_offers w now t ks (o_agent_id off # reserved))"

fun scan_tickets :: "world \<Rightarrow> time \<Rightarrow> ticket list \<Rightarrow> string list \<Rightarrow> bool" where
  "scan_tickets w now [] reserved = False"
| "scan_tickets w now (t # ts) reserved =
     (if work_ownership_needs_reconcile t now then True
      else if inactive_work_ownership_is_ambiguous t now then True
      else (case scan_offers w now t [Work, Review] reserved of
              None \<Rightarrow> True
            | Some reserved' \<Rightarrow> scan_tickets w now ts reserved'))"

definition invalid_dispatch_offers_exist :: "world \<Rightarrow> time \<Rightarrow> bool" where
  "invalid_dispatch_offers_exist w now =
     scan_tickets w now (map snd (sort_key (\<lambda>(_, t). queue_key t) (tickets (brd w)))) []"

subsection \<open>Redispatch of the whole queue\<close>

definition redispatch_key ::
  "time \<Rightarrow> string \<Rightarrow> world \<times> release list \<Rightarrow> (world \<times> release list) result" where
  "redispatch_key now key s =
     (case get_ticket (fst s) key of
        None \<Rightarrow> Inr s
      | Some t \<Rightarrow>
          if status t = ''open'' then dispatch_stored now Work None key s
          else if status t = ''submitted'' then dispatch_stored now Review None key s
          else Inr s)"

definition redispatch_queue :: "world \<Rightarrow> time \<Rightarrow> (world \<times> release list) result" where
  "redispatch_queue w now =
     (let (w1, evs) = reconcile_invalid_dispatch_offers w now
      in if \<not> dispatch_enabled (brd w1) then Inr (w1, evs)
         else foldE (redispatch_key now) (queue_order w1) (w1, evs))"

subsection \<open>Revocations\<close>

definition retire_review_offer :: "time \<Rightarrow> string \<Rightarrow> world \<times> release list \<Rightarrow> world \<times> release list" where
  "retire_review_offer now key s =
     (case get_ticket (fst s) key of
        None \<Rightarrow> s
      | Some t \<Rightarrow>
          if status t = ''submitted'' then s
          else (case offers t Review of
                  None \<Rightarrow> s
                | Some off \<Rightarrow> (put_ticket key (withdraw_offer now Review off t) (fst s),
                     snd s @ [offer_revoked t Review off ''offer_status_mismatch''])))"

definition retire_nonreviewable_review_offers :: "world \<Rightarrow> time \<Rightarrow> world \<times> release list" where
  "retire_nonreviewable_review_offers w now =
     fold (retire_review_offer now) (dkeys (tickets (brd w))) (w, [])"

text \<open>\<open>revoke_agent_offers\<close> leaves \<open>dispatch_state\<close> alone.\<close>

definition revoke_offer ::
  "seat \<Rightarrow> time \<Rightarrow> string \<Rightarrow> kind \<Rightarrow> ticket \<times> release list \<Rightarrow> ticket \<times> release list" where
  "revoke_offer m now reason k s =
     (case offers (fst s) k of
        None \<Rightarrow> s
      | Some off \<Rightarrow>
          if o_agent_id off \<noteq> agent_id m then s
          else ((fst s)\<lparr>offers := (offers (fst s))(k := None), updated_at := Some now\<rparr>,
                snd s @ [Offer_Revoked (ticket_id (fst s)) k (agent_id m) (agent_name m)
                           (o_expires_at off) reason [agent_id m]]))"

definition revoke_ticket_offers ::
  "seat \<Rightarrow> time \<Rightarrow> string \<Rightarrow> string \<Rightarrow> world \<times> release list \<Rightarrow> world \<times> release list" where
  "revoke_ticket_offers m now reason key s =
     (case get_ticket (fst s) key of
        None \<Rightarrow> s
      | Some t \<Rightarrow>
          let (t', evs) = revoke_offer m now reason Review
                            (revoke_offer m now reason Work (t, snd s))
          in (put_ticket key t' (fst s), evs))"

definition revoke_agent_offers :: "world \<Rightarrow> seat \<Rightarrow> time \<Rightarrow> string \<Rightarrow> world \<times> release list" where
  "revoke_agent_offers w m now reason =
     fold (revoke_ticket_offers m now reason) (dkeys (tickets (brd w))) (w, [])"

end
