(* ===== verification/Reaper.thy ===== *)
theory Reaper
  imports Dispatch_Queue
begin

section \<open>The reaper and the preamble of every board call\<close>

text \<open>
  \<open>auto_stale_members\<close> retires seats without activity, \<open>reap_expired\<close> releases what has lapsed
  (offers, review leases, work leases) and redispatches, and \<open>prepare_board_call\<close> runs it before
  every mutation of an agent, then checks the actor and renews the leases it holds.
\<close>

subsection \<open>Stale seats\<close>

definition member_last_activity_epoch :: "seat \<Rightarrow> time option" where
  "member_last_activity_epoch m =
     (case (if last_activity_at m \<noteq> T_Null then last_activity_at m else joined_at m) of
        T_Instant e \<Rightarrow> Some e
      | _ \<Rightarrow> None)"

definition lifecycle_transition ::
  "world \<Rightarrow> string \<Rightarrow> seat \<Rightarrow> time \<Rightarrow> string \<Rightarrow> string \<Rightarrow> string \<Rightarrow> world \<times> release option" where
  "lifecycle_transition w key m now new_status reason actor_id =
     (if lifecycle_status m = new_status then (w, None)
      else
        let w1 = put_member key (m\<lparr>lifecycle_status := new_status, lifecycle_changed_at := Some now,
                    lifecycle_reason := Some reason,
                    lifecycle_changed_by_agent_id := Some actor_id\<rparr>) w
        in (w1, Some (Agent_Lifecycle actor_id (agent_id m) (agent_name m) (lifecycle_status m)
                        new_status reason (admitted_agent_ids (brd w1) None))))"

definition member_is_stale :: "world \<Rightarrow> seat \<Rightarrow> time \<Rightarrow> bool" where
  "member_is_stale w m now =
     (if lifecycle_status m \<noteq> ''active'' then False
      else (case member_last_activity_epoch m of
              None \<Rightarrow> False
            | Some e \<Rightarrow> e \<le> now - secs (stale_after_days (cfg (brd w)) * 86400) \<and>
                        \<not> member_has_live_lease w (agent_id m) now))"

definition stale_member ::
  "time \<Rightarrow> string \<Rightarrow> world \<times> release list \<times> bool \<Rightarrow> world \<times> release list \<times> bool" where
  "stale_member now key s =
     (case s of (w, evs, changed) \<Rightarrow>
        case get_member w key of
          None \<Rightarrow> s
        | Some m \<Rightarrow>
            if \<not> member_is_stale w m now then s
            else
              let (w1, revoked) = revoke_agent_offers w m now ''agent_stale'';
                  (w2, ev) = lifecycle_transition w1 key m now ''stale''
                               ''inactivity_threshold'' ''board-reaper''
              in (case ev of
                    None \<Rightarrow> (w2, evs @ revoked, changed)
                  | Some e \<Rightarrow> (w2, evs @ revoked @ [e], True)))"

definition auto_stale_members :: "world \<Rightarrow> time \<Rightarrow> bool \<Rightarrow> (world \<times> release list) result" where
  "auto_stale_members w now redispatch =
     (let (w1, evs, changed) = fold (stale_member now) (dkeys (members (brd w))) (w, [], False)
      in if changed \<and> redispatch
         then bindE (redispatch_queue w1 now) (\<lambda>(w2, more). Inr (w2, evs @ more))
         else Inr (w1, evs))"

subsection \<open>Reaping one ticket\<close>

definition review_lease_lapsed :: "ticket \<Rightarrow> time \<Rightarrow> bool" where
  "review_lease_lapsed t now =
     (case review_lease t of
        RS_Lease l \<Rightarrow>
          (case expires_at_epoch l of
             None \<Rightarrow> False
           | Some e \<Rightarrow> e \<noteq> E_Null \<and> \<not> review_lease_is_live t now \<and>
                       \<not> review_lease_expiration_is_ambiguous (review_lease t) now)
      | _ \<Rightarrow> False)"

definition review_released :: "ticket \<Rightarrow> string list \<Rightarrow> release" where
  "review_released t recipients =
     (case review_lease t of
        RS_Lease l \<Rightarrow> Review_Released (ticket_id t) (reviewer_agent_id l) (reviewer_agent_name l)
                        (reviewer_principal_id l) (expires_at l) recipients
      | _ \<Rightarrow> Review_Released (ticket_id t) None None None T_Null recipients)"

definition reap_review :: "time \<Rightarrow> bool \<Rightarrow> string list \<Rightarrow> reap_state \<Rightarrow> reap_state result" where
  "reap_review now redispatch recipients s =
     (case s of (w, t, evs) \<Rightarrow>
        if \<not> review_lease_lapsed t now then Inr (w, t, evs)
        else and_dispatch redispatch now Review
               (w, t\<lparr>review_lease := RS_Absent, updated_at := Some now\<rparr>,
                evs @ [review_released t recipients]))"

text \<open>
  The lapsed work lease.  A pre-submission ticket without an expiry is left alone; an expiry that
  \<open>float()\<close> rejects raises.
\<close>

definition work_lease_lapsed :: "ticket \<Rightarrow> time \<Rightarrow> bool result" where
  "work_lease_lapsed t now =
     (if \<not> pre_submission t \<or> lease_expires_at_epoch (work t) = E_Null then Inr False
      else bindE (epoch_float (lease_expires_at_epoch (work t))) (\<lambda>f. Inr (\<not> float_gt f now)))"

definition abandon_work :: "time \<Rightarrow> ticket \<Rightarrow> ticket" where
  "abandon_work now t =
     (let l = work t;
          holder = (case claimed_by_agent_id l of None \<Rightarrow> ''unknown'' | Some a \<Rightarrow> a)
      in t\<lparr>status := ''open'', abandoned_count := abandoned_count t + 1,
           last_abandoned_by := Some holder,
           last_abandoned_by_name := (if truthy (claimed_by l) then claimed_by l
                                      else last_abandoned_by_name t),
           last_claimed_by_agent_id := claimed_by_agent_id l,
           last_claimed_by_principal_id := claimed_by_principal_id l,
           last_claimed_by := claimed_by l, last_claimed_at := claimed_at l,
           last_abandoned_at := Some now, last_release_reason := Some ''lease expired''\<rparr>)"

definition reap_work :: "time \<Rightarrow> bool \<Rightarrow> string list \<Rightarrow> reap_state \<Rightarrow> reap_state result" where
  "reap_work now redispatch recipients s =
     (case s of (w, t, evs) \<Rightarrow>
        bindE (work_lease_lapsed t now) (\<lambda>lapsed.
          if \<not> lapsed then Inr (w, t, evs)
          else
            let ((w1, t1), reset) = reset_ticket_progress now ''lease_expired'' (w, abandon_work now t);
                t2 = t1\<lparr>work := no_work_lease\<rparr>;
                holder = (case claimed_by_agent_id (work t) of None \<Rightarrow> ''unknown'' | Some a \<Rightarrow> a)
            in and_dispatch redispatch now Work
                 (w1, t2, evs @ (case reset of None \<Rightarrow> [] | Some e \<Rightarrow> [e]) @
                    [Work_Released (ticket_id t) (status t) holder now (abandoned_count t2)
                       recipients])))"

definition reap_ticket ::
  "time \<Rightarrow> bool \<Rightarrow> string list \<Rightarrow> string \<Rightarrow> world \<times> release list \<Rightarrow> (world \<times> release list) result" where
  "reap_ticket now redispatch recipients key s =
     (case get_ticket (fst s) key of
        None \<Rightarrow> Inr s
      | Some t0 \<Rightarrow>
          (case reconcile_inactive_work_ownership now (fst s, t0) of (w1, t1) \<Rightarrow>
             bindE (expire_dispatch_offers w1 t1 now redispatch) (\<lambda>s2.
               bindE (reap_review now redispatch recipients s2) (\<lambda>s3.
                 bindE (reap_work now redispatch recipients s3) (\<lambda>(w4, t4, evs).
                   Inr (put_ticket key t4 w4, snd s @ evs))))))"

definition reap_expired :: "world \<Rightarrow> time \<Rightarrow> bool \<Rightarrow> (world \<times> release list) result" where
  "reap_expired w now redispatch =
     bindE (auto_stale_members w now redispatch) (\<lambda>(w1, evs1).
       bindE (foldE (reap_ticket now redispatch (admitted_agent_ids (brd w1) None))
                (dkeys (tickets (brd w1))) (w1, evs1)) (\<lambda>(w2, evs2).
         if redispatch
         then bindE (redispatch_queue w2 now) (\<lambda>(w3, more). Inr (w3, evs2 @ more))
         else Inr (w2, evs2)))"

text \<open>The timer: reap, then redispatch once more where dispatch is enabled.\<close>

definition reap_expired_offers_in_doc :: "world \<Rightarrow> time \<Rightarrow> (world \<times> release list) result" where
  "reap_expired_offers_in_doc w now =
     bindE (reap_expired w now True) (\<lambda>(w1, evs).
       if dispatch_enabled (brd w1)
       then bindE (redispatch_queue w1 now) (\<lambda>(w2, more). Inr (w2, evs @ more))
       else Inr (w1, evs))"

definition timer_has_work :: "world \<Rightarrow> time \<Rightarrow> bool" where
  "timer_has_work w now =
     (list_ex (\<lambda>t. list_ex (\<lambda>k. case offers t k of None \<Rightarrow> False
                               | Some off \<Rightarrow> o_expires_at_epoch off \<le> now) [Work, Review])
        (dvalues (tickets (brd w))) \<or>
      invalid_dispatch_offers_exist w now)"

definition check_and_reap_expired :: "world \<Rightarrow> time \<Rightarrow> (world \<times> release list) result" where
  "check_and_reap_expired w now =
     (if timer_has_work w now then reap_expired_offers_in_doc w now else Inr (w, []))"

subsection \<open>The acting seat\<close>

definition resolve_active_actor ::
  "(string \<Rightarrow> string \<Rightarrow> string \<Rightarrow> string) \<Rightarrow> world \<Rightarrow> principal \<Rightarrow> string \<Rightarrow> (world \<times> seat) result" where
  "resolve_active_actor aid_of w p name =
     bindE (lookup_member aid_of w p name) (\<lambda>(w1, actor).
       if lifecycle_status actor \<noteq> ''active''
       then Inl (PermissionError
              ''agent is not active; call board_onboard or board_join before more work'')
       else Inr (w1, actor))"

definition holds_work :: "string \<Rightarrow> ticket \<Rightarrow> bool" where
  "holds_work a t \<longleftrightarrow> pre_submission t \<and> claimed_by_agent_id (work t) = Some a"

definition touch_actor :: "world \<Rightarrow> seat \<Rightarrow> time \<Rightarrow> world \<times> seat \<times> string list" where
  "touch_actor w actor now =
     (let a = agent_id actor;
          actor' = actor\<lparr>last_activity_at := T_Instant now\<rparr>;
          w1 = record_agent_activity (board_id (brd w)) a now (put_member a actor' w);
          ttl = claim_ttl_s (cfg (brd w1));
          renew = (\<lambda>t. if holds_work a t then renew_claim now ttl ''model'' t else t)
      in (w1\<lparr>brd := (brd w1)\<lparr>tickets := map (\<lambda>(k, t). (k, renew t)) (tickets (brd w1))\<rparr>\<rparr>,
          actor', map ticket_id (filter (holds_work a) (dvalues (tickets (brd w1))))))"

definition prepare_board_call ::
  "(string \<Rightarrow> string \<Rightarrow> string \<Rightarrow> string) \<Rightarrow> world \<Rightarrow> principal \<Rightarrow> string \<Rightarrow> time
     \<Rightarrow> (world \<times> seat \<times> release list \<times> string list) result" where
  "prepare_board_call aid_of w p name now =
     bindE (reap_expired w now True) (\<lambda>(w1, released).
       bindE (resolve_active_actor aid_of w1 p name) (\<lambda>(w2, actor).
         case touch_actor w2 actor now of
           (w3, actor', renewed) \<Rightarrow> Inr (w3, actor', released, renewed)))"

end
