(* ===== verification/Dispatch_Facts.thy ===== *)
theory Dispatch_Facts
  imports Reaper
begin

section \<open>What a dispatch does\<close>

text \<open>
  The effect of \<open>dispatch_ticket\<close> as one relation (\<open>dispatched\<close>): nothing but the offer of the
  dispatched kind, bookkeeping and, on an inactive ticket, left-behind ownership changes, and a
  new offer goes to a seat that is free and fits.  From it: exclusive seats.
\<close>

subsection \<open>Who occupies a seat\<close>

definition occupies :: "ticket \<Rightarrow> string \<Rightarrow> time \<Rightarrow> bool" where
  "occupies c a now \<longleftrightarrow>
     work_commitment c a now \<or> review_commitment c a now = Inr True \<or>
     offer_commitment c a now Work \<or> offer_commitment c a now Review"

lemma busy_on_False: "busy_on c a now = Inr False \<longleftrightarrow>
    review_commitment c a now = Inr False \<and> \<not> occupies c a now"
  by (auto simp: busy_on_def occupies_def bindE_def split: sum.splits)

lemma busy_on_True: "busy_on c a now = Inr True \<Longrightarrow> occupies c a now"
  by (auto simp: busy_on_def occupies_def bindE_def split: sum.splits if_splits)

definition free_elsewhere :: "world \<Rightarrow> string \<Rightarrow> time \<Rightarrow> string \<Rightarrow> bool" where
  "free_elsewhere w tid now a \<longleftrightarrow>
     (\<forall>c \<in> set (dvalues (tickets (brd w))). ticket_id c \<noteq> tid \<longrightarrow> \<not> occupies c a now)"

lemma agent_not_busy_free:
  "agent_is_busy w a now tid = Inr False \<Longrightarrow> free_elsewhere w tid now a"
  unfolding agent_is_busy_def anyE_False free_elsewhere_def
  by (metis busy_on_False)

lemma eligible_iff:
  "dispatch_candidate_is_eligible w t m now k = Inr True \<longleftrightarrow>
     dispatch_member_matches_requirements (brd w) t m k \<and> member_dispatch_ready m now \<and>
     agent_is_busy w (agent_id m) now (ticket_id t) = Inr False \<and> seat_is_live w m now"
  by (cases "agent_is_busy w (agent_id m) now (ticket_id t)")
    (auto simp: dispatch_candidate_is_eligible_def split: if_splits)

subsection \<open>The offer\<close>

definition new_offer :: "world \<Rightarrow> ticket \<Rightarrow> time \<Rightarrow> kind \<Rightarrow> seat \<Rightarrow> offer" where
  "new_offer w t now k m =
     \<lparr> o_ticket_id = ticket_id t, o_kind = k, o_agent_id = agent_id m, o_agent_name = agent_name m,
       o_offered_at = now, o_expires_at = now + secs (offer_ttl_s (policy_of (brd w))),
       o_expires_at_epoch = now + secs (offer_ttl_s (policy_of (brd w))),
       o_cycle = dispatch_cycle t k \<rparr>"

lemma candidate_key_frame:
  assumes "prefer_agents t' = prefer_agents t" "tier t' = tier t"
  shows "candidate_key w t' p = candidate_key w t p"
  by (simp add: candidate_key_def required_tier_def assms fun_eq_iff)

lemma make_offer_Finished: "\<exists>w' t' ev. make_offer w t now k p cs = Finished w' t' ev"
  by (simp add: make_offer_def Let_def split: prod.split)

lemma make_offer_not_Again [simp]: "make_offer w t now k p cs \<noteq> Again w' t'"
  using make_offer_Finished [of w t now k p cs] by auto

lemma make_offer_cases:
  assumes "make_offer w t now k p cs = Finished w' t' ev" and "cs \<noteq> []"
    and "set cs \<subseteq> set (members (brd w))"
  obtains key m where "(key, m) \<in> set cs"
    and "\<And>c. c \<in> set cs \<Longrightarrow> candidate_key w t p (key, m) \<le> candidate_key w t p c"
    and "offers t' = (offers t)(k := Some (new_offer w t now k m))"
    and "ev = Some (Offered (ticket_id t) k (agent_id m) (agent_name m)
              (now + secs (offer_ttl_s (policy_of (brd w)))) (offer_ttl_s (policy_of (brd w)))
              [agent_id m])"
    and "brd w' = brd (put_member key (m\<lparr>last_offered_at := Some now\<rparr>) w)"
    and "active_listeners w' = active_listeners w"
    and "last_seen_activity w' = last_seen_activity w"
    and "same_ticket t t'" and "work t' = work t"
    and "assigned_to_agent_id t' = assigned_to_agent_id t" and "assigned_to t' = assigned_to t"
    and "tier t' = tier t" and "skills_required t' = skills_required t"
    and "exclude_agents t' = exclude_agents t"
    and "dispatch_state t' = Some (offer_entry (new_offer w t now k m))"
proof -
  define t1 where "t1 = (if k = Work then t\<lparr>pin_unavailable_cycles := None,
                            pin_unavailable_last_at := None\<rparr> else t)"
  have key: "candidate_key w t1 p = candidate_key w t p"
    by (rule candidate_key_frame) (simp_all add: t1_def)
  obtain ky m where hd: "hd (sort_key (candidate_key w t p) cs) = (ky, m)" by fastforce
  define off where "off = new_offer w t now k m"
  define w1 where "w1 = put_member ky (m\<lparr>last_offered_at := Some now\<rparr>) w"
  define t2 where "t2 = t1\<lparr>offers := (offers t1)(k := Some off),
                            dispatch_state := Some (offer_entry off)\<rparr>"
  obtain w3 t3 where ab: "append_bounded_history H_Dispatch (HE_Dispatch (offer_entry off)) (w1, t2)
      = (w3, t3)" by fastforce
  have fst: "fst (append_bounded_history H_Dispatch (HE_Dispatch (offer_entry off)) (w1, t2)) = w3"
    and snd: "snd (append_bounded_history H_Dispatch (HE_Dispatch (offer_entry off)) (w1, t2)) = t3"
    by (simp_all add: ab)
  from assms(1) have res: "w' = w3" "t' = t3"
      "ev = Some (Offered (ticket_id t) k (agent_id m) (agent_name m)
              (now + secs (offer_ttl_s (policy_of (brd w)))) (offer_ttl_s (policy_of (brd w)))
              [agent_id m])"
    using ab
    by (simp_all add: make_offer_def t1_def [symmetric] key hd Let_def off_def w1_def t2_def
        new_offer_def)
  note fr = append_bounded_frame [of H_Dispatch "HE_Dispatch (offer_entry off)" w1 t2, unfolded fst snd]
  have oth: "history t3 H_Review = history t2 H_Review" "history t3 H_Submission = history t2 H_Submission"
    by (simp_all flip: snd)
  show thesis
  proof (rule that [of ky m])
    show "(ky, m) \<in> set cs" using hd_sort_key_in [OF assms(2), of "candidate_key w t p"] hd by simp
    show "candidate_key w t p (ky, m) \<le> candidate_key w t p c" if "c \<in> set cs" for c
      using hd_sort_key_min [OF that, of "candidate_key w t p"] hd by simp
  qed (simp_all add: res fr oth t2_def t1_def off_def w1_def same_ticket_def same_record_def)
qed

subsection \<open>The relation\<close>

text \<open>What the candidates of a pass have passed.\<close>

definition fits :: "world \<Rightarrow> ticket \<Rightarrow> time \<Rightarrow> kind \<Rightarrow> seat \<Rightarrow> bool" where
  "fits w t now k m \<longleftrightarrow>
     dispatch_member_matches_requirements (brd w) t m k \<and> member_dispatch_ready m now \<and>
     agent_is_busy w (agent_id m) now (ticket_id t) = Inr False \<and> seat_is_live w m now"

definition dispatched ::
  "time \<Rightarrow> kind \<Rightarrow> world \<Rightarrow> ticket \<Rightarrow> world \<Rightarrow> ticket \<Rightarrow> bool" where
  "dispatched now k w t w' t' \<longleftrightarrow>
     same_service w w' \<and> tickets (brd w') = tickets (brd w) \<and> same_ticket t t' \<and>
     (work t' = work t \<or> work t' = no_work_lease) \<and>
     (\<forall>k'. k' \<noteq> k \<longrightarrow> offers t' k' = offers t k') \<and>
     (members (brd w') = members (brd w) \<and> offers t' k = offers t k \<or>
      (\<exists>key m. (key, m) \<in> set (members (brd w)) \<and>
         members (brd w') = dset key (m\<lparr>last_offered_at := Some now\<rparr>) (members (brd w)) \<and>
         fits w t' now k m \<and> \<not> live_offer t k now \<and>
         (\<exists>c. offers t' k = Some (new_offer w t now k m\<lparr>o_cycle := c\<rparr>))))"

lemma matches_requirements_ticket:
  assumes "assigned_to_agent_id t' = assigned_to_agent_id t" "assigned_to t' = assigned_to t"
    "exclude_agents t' = exclude_agents t" "tier t' = tier t"
    "skills_required t' = skills_required t" "same_ticket t t'"
  shows "dispatch_member_matches_requirements b t' m k = dispatch_member_matches_requirements b t m k"
  using assms
  by (simp add: matches_requirements_iff required_tier_def worker_model_matches_def same_ticket_def same_record_def)

lemma agent_is_busy_frame:
  "tickets (brd w') = tickets (brd w) \<Longrightarrow> agent_is_busy w' a now tid = agent_is_busy w a now tid"
  by (simp add: agent_is_busy_def)

lemma seat_is_live_frame:
  assumes "board_id (brd w') = board_id (brd w)" "cfg (brd w') = cfg (brd w)"
    "active_listeners w' = active_listeners w" "last_seen_activity w' = last_seen_activity w"
  shows "seat_is_live w' m now = seat_is_live w m now"
  using assms by (simp add: seat_is_live_def is_agent_live_def agent_has_active_listener_def Let_def)

lemma fits_world:
  assumes "same_service w w'" "tickets (brd w') = tickets (brd w)"
  shows "fits w' t now k m = fits w t now k m"
  using assms matches_requirements_frame [of "brd w'" "brd w" t m k]
    agent_is_busy_frame [of w' w] seat_is_live_frame [of w' w m now]
  by (simp add: fits_def same_service_def)

lemma new_offer_world:
  assumes "same_service w w'" "ticket_id t' = ticket_id t"
  shows "new_offer w' t' now k m\<lparr>o_cycle := c\<rparr> = new_offer w t now k m\<lparr>o_cycle := c\<rparr>"
  using assms by (simp add: new_offer_def same_service_def)

text \<open>A step that offers nothing.\<close>

definition quiet :: "world \<Rightarrow> ticket \<Rightarrow> world \<Rightarrow> ticket \<Rightarrow> bool" where
  "quiet w t w' t' \<longleftrightarrow>
     brd w' = brd w \<and> active_listeners w' = active_listeners w \<and>
     last_seen_activity w' = last_seen_activity w \<and> same_ticket t t' \<and>
     (work t' = work t \<or> work t' = no_work_lease) \<and> offers t' = offers t"

lemma quiet_refl [simp]: "quiet w t w t"
  by (simp add: quiet_def)

lemma quiet_trans: "quiet a s b t \<Longrightarrow> quiet b t c u \<Longrightarrow> quiet a s c u"
  by (auto simp: quiet_def intro: same_ticket_trans)

lemma quiet_same_service: "quiet w t w' t' \<Longrightarrow> same_service w w'"
  by (simp add: quiet_def same_service_def)

lemma quiet_dispatched: "quiet w t w' t' \<Longrightarrow> dispatched now k w t w' t'"
  by (simp add: quiet_same_service dispatched_def, simp add: quiet_def)

lemma quiet_then_dispatched:
  assumes q: "quiet w t w1 t1" and d: "dispatched now k w1 t1 w' t'"
  shows "dispatched now k w t w' t'"
proof -
  have s: "same_service w w1" and b: "brd w1 = brd w" "same_ticket t t1" "offers t1 = offers t"
    and l: "work t1 = work t \<or> work t1 = no_work_lease"
    using q quiet_same_service [OF q] by (simp_all add: quiet_def)
  have id: "ticket_id t1 = ticket_id t" using b(2) by (simp add: same_ticket_def same_record_def)
  have f: "fits w1 u now k m = fits w u now k m" for u m by (rule fits_world) (simp_all add: s b)
  from d b(3) have lo: "live_offer t1 k now = live_offer t k now" by (simp add: live_offer_def)
  have "same_service w w'" using s d same_service_trans unfolding dispatched_def by blast
  moreover have "same_ticket t t'" using b(2) d same_ticket_trans unfolding dispatched_def by blast
  moreover have "work t' = work t \<or> work t' = no_work_lease"
    using l d unfolding dispatched_def by auto
  ultimately show ?thesis
    using d by (simp add: dispatched_def b f lo new_offer_world [OF s id])
qed

lemma reconcile_quiet:
  "quiet w t (fst (reconcile_inactive_work_ownership now (w, t)))
     (snd (reconcile_inactive_work_ownership now (w, t)))"
proof -
  have "work (snd (reconcile_inactive_work_ownership now (w, t))) = work t \<or>
        work (snd (reconcile_inactive_work_ownership now (w, t))) = no_work_lease"
    by (simp add: reconcile_inactive_work_ownership_def Let_def)
  then show ?thesis by (simp add: quiet_def same_ticket_def same_record_def)
qed

lemma append_bounded_quiet:
  assumes "append_bounded_history f e (w, t) = (w', t')" and "f = H_Dispatch \<or> f = H_Progress"
  shows "quiet w t w' t'"
  using append_bounded_frame [of f e w t] append_bounded_other [of H_Review f e w t]
    append_bounded_other [of H_Submission f e w t] assms
  by (auto simp: quiet_def same_ticket_def same_record_def)

lemma reset_progress_quiet:
  assumes "reset_ticket_progress now' reason (w, t) = ((w', t'), ev)"
  shows "quiet w t w' t'"
proof (cases "\<not> ticket_progress_v1 (cfg (brd w)) \<and> progress t = None \<and> work_attempt t = None")
  case False
  obtain w1 t1 where ab: "append_bounded_history H_Progress
      (HE_Progress ((the (progress t))\<lparr>p_ended_at := Some now', p_end_reason := Some reason\<rparr>))
      (w, t\<lparr>progress := None\<rparr>) = (w1, t1)" by fastforce
  have q: "quiet w t w1 (t1\<lparr>progress_updated_at := None\<rparr>)"
    using append_bounded_quiet [OF ab] by (simp add: quiet_def same_ticket_def same_record_def)
  show ?thesis
  proof (cases "progress t")
    case None
    then have "w' = w" "t' = t\<lparr>progress := None, progress_updated_at := None\<rparr>"
      using assms False by (auto simp: reset_ticket_progress_def Let_def)
    then show ?thesis by (simp add: quiet_def same_ticket_def same_record_def)
  next
    case (Some p)
    then have "w' = w1" "t' = t1\<lparr>progress_updated_at := None\<rparr>"
      using assms False ab by (auto simp: reset_ticket_progress_def Let_def)
    with q show ?thesis by simp
  qed
qed (use assms in \<open>simp add: reset_ticket_progress_def\<close>)

lemma requeue_quiet: "broadcast_requeue w t now k = Some (w', t', n, b) \<Longrightarrow> quiet w t w' t'"
  by (simp add: quiet_def broadcast_requeue_frame)

lemma fallback_Inr_quiet: "fallback_step w t now k n = Inr (t', n') \<Longrightarrow> quiet w t w t'"
  by (simp add: quiet_def fallback_step_Inr_frame)

lemma set_broadcast_quiet:
  assumes "set_broadcast_state now k r (w, t) = (w', t')"
  shows "quiet w t w' t'"
  using set_broadcast_frame [of now k r w t] kept_histories(3) [of H_Review now k r w t]
    kept_histories(3) [of H_Submission now k r w t] assms
  by (simp add: quiet_def same_ticket_def same_record_def)

lemma no_candidate_quiet:
  assumes "no_candidate_step w t now k n b = Inr (Finished w' t' ev)"
  shows "quiet w t w' t' \<and> (\<forall>x y a nm e ttl r. ev \<noteq> Some (Offered x y a nm e ttl r))"
proof (cases "k = Work \<and> truthy (assigned_to_agent_id t)")
  case True
  with assms show ?thesis
    by (auto simp: no_candidate_step_def Let_def quiet_def same_ticket_def same_record_def append_history_def
        split: if_splits)
next
  case False
  show ?thesis
  proof (cases "b \<or> 0 < n \<and> fallback_broadcast (policy_of (brd w))")
    case True
    then have "\<exists>r. set_broadcast_state now k r (w, t) = (w', t') \<and> ev = None"
      using assms False by (auto simp: no_candidate_step_def split: prod.splits if_splits)
    then show ?thesis using set_broadcast_quiet by blast
  next
    case no: False
    define s where "s = (entry0 ''unassignable'')\<lparr>d_kind := Some k,
       d_reason := Some (kind_unassignable_reason k)\<rparr>"
    obtain w1 t1 where ab: "append_bounded_history H_Dispatch (HE_Dispatch (s\<lparr>d_at := Some now\<rparr>))
        (w, t\<lparr>dispatch_state := Some s\<rparr>) = (w1, t1)" by fastforce
    have "quiet w t w1 t1"
      using quiet_trans [OF _ append_bounded_quiet [OF ab]]
      by (simp add: quiet_def [of w t w] same_ticket_def same_record_def)
    then show ?thesis
      using assms False no ab
      by (auto simp: no_candidate_step_def Let_def s_def [symmetric] split: if_splits)
  qed
qed

lemma fits_ticket:
  assumes "assigned_to_agent_id t' = assigned_to_agent_id t" "assigned_to t' = assigned_to t"
    "exclude_agents t' = exclude_agents t" "tier t' = tier t"
    "skills_required t' = skills_required t" "same_ticket t t'"
  shows "fits w t' now k m = fits w t now k m"
  using assms matches_requirements_ticket [OF assms] by (simp add: fits_def same_ticket_def same_record_def)

lemma dispatch_candidates_set:
  assumes "dispatch_candidates w t now k = Inr cs" and "(key, m) \<in> set cs"
  shows "(key, m) \<in> set (members (brd w))" and "fits w t now k m"
    and "agent_id m \<notin> set (expired_for_this_ticket w t k)"
proof -
  have *: "(key, m) \<in> set (members (brd w)) \<and>
    bindE (dispatch_candidate_is_eligible w t m now k) (\<lambda>ok.
      Inr (ok \<and> agent_id m \<notin> set (expired_for_this_ticket w t k))) = Inr True"
    using filterE_set [OF assms(1) [unfolded dispatch_candidates_def] assms(2)] by simp
  then show "(key, m) \<in> set (members (brd w))" by simp
  from * have "dispatch_candidate_is_eligible w t m now k = Inr True" by auto
  then show "fits w t now k m" by (simp add: eligible_iff fits_def)
  from * show "agent_id m \<notin> set (expired_for_this_ticket w t k)" by auto
qed

lemma narrow_candidates_set: "set (narrow_candidates b t k p cs) \<subseteq> set cs"
  by (auto simp: narrow_candidates_def Let_def)

lemma not_blocked_no_live_offer: "\<not> dispatch_blocked w t now k \<Longrightarrow> \<not> live_offer t k now"
  by (simp add: dispatch_blocked_def)

lemma make_offer_dispatched:
  assumes o: "make_offer w t now k p cs = Finished w' t' ev" and ne: "cs \<noteq> []"
    and sub: "\<And>key m. (key, m) \<in> set cs \<Longrightarrow> (key, m) \<in> set (members (brd w)) \<and> fits w t now k m"
    and lo: "\<not> live_offer t k now"
  shows "dispatched now k w t w' t'"
proof -
  have "set cs \<subseteq> set (members (brd w))" using sub by auto
  from make_offer_cases [OF o ne this] obtain key m where c: "(key, m) \<in> set cs"
    and off: "offers t' = (offers t)(k := Some (new_offer w t now k m))"
    and b: "brd w' = brd (put_member key (m\<lparr>last_offered_at := Some now\<rparr>) w)"
    and s: "active_listeners w' = active_listeners w" "last_seen_activity w' = last_seen_activity w"
      "same_ticket t t'" "work t' = work t"
    and r: "assigned_to_agent_id t' = assigned_to_agent_id t" "assigned_to t' = assigned_to t"
      "tier t' = tier t" "skills_required t' = skills_required t" "exclude_agents t' = exclude_agents t"
    by metis
  from sub [OF c] have mem: "(key, m) \<in> set (members (brd w))" and f: "fits w t now k m" by auto
  have "fits w t' now k m" using f fits_ticket [of t' t] r s(3) by simp
  moreover have "key \<in> set (dkeys (members (brd w)))"
    using mem by (force simp: dkeys_def)
  moreover have "new_offer w t now k m = new_offer w t now k m\<lparr>o_cycle := dispatch_cycle t k\<rparr>"
    by (simp add: new_offer_def)
  ultimately show ?thesis
    using mem lo s by (auto simp: dispatched_def b same_service_def off intro!: exI [of _ key] exI [of _ m])
qed

lemma dispatch_pass_cases:
  assumes "dispatch_pass w t now k p = Inr o'"
  obtains (quiet) w' t' ev where "o' = Finished w' t' ev" "quiet w t w' t'"
      "\<forall>x y a nm e ttl r. ev \<noteq> Some (Offered x y a nm e ttl r)"
  | (again) w' t' where "o' = Again w' t'" "quiet w t w' t'"
      "k = Work" "truthy (assigned_to_agent_id t)" "assigned_to_agent_id t' = None"
  | (offer) w2 t2 cs0 where "quiet w t w2 t2" "dispatch_candidates w2 t2 now k = Inr cs0"
      "\<not> live_offer t k now" "narrow_candidates (brd w2) t2 k p cs0 \<noteq> []"
      "o' = make_offer w2 t2 now k p (narrow_candidates (brd w2) t2 k p cs0)"
proof -
  obtain w1 t1 where r: "reconcile_inactive_work_ownership now (w, t) = (w1, t1)"
    by fastforce
  have q1: "quiet w t w1 t1" using reconcile_quiet [of w t now] r by simp
  show thesis
  proof (cases "dispatch_blocked w1 t1 now k \<or> broadcast_requeue w1 t1 now k = None")
    case True
    then have "o' = Finished w1 t1 None"
      using assms r by (cases "dispatch_blocked w1 t1 now k") (simp_all add: dispatch_pass_def)
    then show thesis using quiet q1 by blast
  next
    case False
    then obtain w2 t2 n b where rq: "broadcast_requeue w1 t1 now k = Some (w2, t2, n, b)"
      by fastforce
    from False have lo: "\<not> live_offer t1 k now" using not_blocked_no_live_offer by blast
    have q2: "quiet w t w2 t2" using quiet_trans [OF q1 requeue_quiet [OF rq]] .
    show thesis
    proof (cases "fallback_step w2 t2 now k n")
      case (Inl wt)
      obtain w3 t3 where wt: "set_broadcast_state now k ''offer_limit_reached'' (w2, t2) = (w3, t3)"
        by fastforce
      have "wt = (w3, t3)" using fallback_step_Inl [OF Inl] wt by simp
      with Inl have "o' = Finished w3 t3 None"
        using assms r False rq by (simp add: dispatch_pass_def)
      then show thesis using quiet quiet_trans [OF q2 set_broadcast_quiet [OF wt]] by blast
    next
      case (Inr tn)
      obtain t3 n3 where tn: "tn = (t3, n3)" by fastforce
      have f: "fallback_step w2 t2 now k n = Inr (t3, n3)" using Inr tn by simp
      have q3: "quiet w t w2 t3" using quiet_trans [OF q2 fallback_Inr_quiet [OF f]] .
      have lo3: "\<not> live_offer t k now"
        using lo q1 by (simp add: live_offer_def quiet_def)
      from assms r False rq f obtain cs0 where cs0: "dispatch_candidates w2 t3 now k = Inr cs0"
        and o': "(if narrow_candidates (brd w2) t3 k p cs0 = []
                  then no_candidate_step w2 t3 now k n3 b
                  else Inr (make_offer w2 t3 now k p (narrow_candidates (brd w2) t3 k p cs0))) = Inr o'"
        by (auto simp: dispatch_pass_def Let_def)
      show thesis
      proof (cases "narrow_candidates (brd w2) t3 k p cs0 = []")
        case ne: False
        with o' show thesis using offer [OF q3 cs0 lo3] by auto
      next
        case True
        with o' have nc: "no_candidate_step w2 t3 now k n3 b = Inr o'" by simp
        show thesis
        proof (cases o')
          case (Finished w4 t4 ev)
          with no_candidate_quiet nc quiet_trans [OF q3] show thesis by (metis quiet)
        next
          case (Again w4 t4)
          note a = no_candidate_Again [OF nc [unfolded Again]]
          have "quiet w2 t3 w4 t4" using a by (simp add: quiet_def)
          then show thesis
            using again [OF Again quiet_trans [OF q3]] a dispatch_pass_Again(1) [OF assms [unfolded Again]]
            by blast
        qed
      qed
    qed
  qed
qed

lemma dispatch_pass_dispatched:
  assumes "dispatch_pass w t now k p = Inr (Finished w' t' ev)"
  shows "dispatched now k w t w' t'"
  using assms
proof (cases rule: dispatch_pass_cases)
  case (quiet w1 t1 ev1)
  then show ?thesis by (simp add: quiet_dispatched)
next
  case (offer w2 t2 cs0)
  have lo: "\<not> live_offer t2 k now" using offer(1,3) by (simp add: quiet_def live_offer_def)
  have "dispatched now k w2 t2 w' t'"
    using offer(5) narrow_candidates_set [of "brd w2" t2 k p cs0]
      dispatch_candidates_set(1,2) [OF offer(2)]
    by (intro make_offer_dispatched [OF offer(5) [symmetric] offer(4) _ lo]) blast
  then show ?thesis using quiet_then_dispatched [OF offer(1)] by blast
qed simp

lemma dispatch_pass_Again_quiet:
  assumes "dispatch_pass w t now k p = Inr (Again w' t')"
  shows "quiet w t w' t'"
  by (rule dispatch_pass_cases [OF assms]) (use make_offer_not_Again in \<open>auto dest: sym\<close>)

lemma dispatch_ticket_dispatched:
  "dispatch_ticket w t now k p = Inr (w', t', ev) \<Longrightarrow> dispatched now k w t w' t'"
proof (induction w t now k p rule: dispatch_ticket.induct)
  case (1 w t now k p)
  from "1.prems" obtain o' where o': "dispatch_pass w t now k p = Inr o'"
    by (subst (asm) dispatch_ticket.simps) auto
  show ?case
  proof (cases o')
    case (Finished w1 t1 ev1)
    with "1.prems" o' dispatch_pass_dispatched show ?thesis
      by (subst (asm) dispatch_ticket.simps) auto
  next
    case (Again w1 t1)
    with "1.prems" o' have r: "dispatch_ticket w1 t1 now k None = Inr (w', t', ev)"
      by (subst (asm) dispatch_ticket.simps) simp
    have "quiet w t w1 t1" by (rule dispatch_pass_Again_quiet [OF o' [unfolded Again]])
    then show ?thesis using quiet_then_dispatched "1.IH" [OF o' Again r] by blast
  qed
qed

end
