(* ===== verification/Dispatch_Safety.thy ===== *)
theory Dispatch_Safety
  imports Dispatch_Facts
begin

section \<open>Exclusive seats under dispatch, expiry, redispatch and reaping\<close>

text \<open>
  The safety contract of the sweeps over the document.  \<open>seats_exclusive\<close> is the promise of the
  dispatcher: what occupies a seat (a work lease, a live review lease, a live offer) sits on one
  ticket only.  \<open>safe_sweep\<close> is the interface of a loop body that may raise and keeps the document
  well formed, its ticket keys, its config and exclusivity; \<open>local_sweep\<close> is a body that in
  addition touches only the ticket it is called for.  Every loop of the dispatcher and the reaper
  is an instance.
\<close>

subsection \<open>Exclusive seats\<close>

definition seats_exclusive :: "world \<Rightarrow> time \<Rightarrow> bool" where
  "seats_exclusive w now \<longleftrightarrow>
     (\<forall>k1 t1 k2 t2 a. get_ticket w k1 = Some t1 \<longrightarrow> get_ticket w k2 = Some t2 \<longrightarrow>
        occupies t1 a now \<longrightarrow> occupies t2 a now \<longrightarrow> k1 = k2)"

lemma seats_exclusive_tickets:
  "tickets (brd w') = tickets (brd w) \<Longrightarrow> seats_exclusive w' now = seats_exclusive w now"
  by (simp add: seats_exclusive_def get_ticket_def)

definition safe_change :: "time \<Rightarrow> world \<Rightarrow> ticket \<Rightarrow> ticket \<Rightarrow> bool" where
  "safe_change now w t t' \<longleftrightarrow> ticket_id t' = ticket_id t \<and>
     (\<forall>a. occupies t' a now \<longrightarrow> occupies t a now \<or> free_elsewhere w (ticket_id t) now a)"

lemma safe_change_refl [simp]: "safe_change now w t t"
  by (simp add: safe_change_def)

lemma safe_change_trans:
  assumes "safe_change now w t t1" "safe_change now w1 t1 t2" "tickets (brd w1) = tickets (brd w)"
  shows "safe_change now w t t2"
  using assms by (auto simp: safe_change_def free_elsewhere_def)

lemma safe_change_shrink:
  "ticket_id t' = ticket_id t \<Longrightarrow> (\<And>a. occupies t' a now \<Longrightarrow> occupies t a now) \<Longrightarrow> safe_change now w t t'"
  by (auto simp: safe_change_def)

text \<open>
  A lapse is the only change of status a sweep may cause: work whose lease ran out is open again.
  The records of submission, review, cancellation and the question to a human are never touched.
\<close>

definition lapse :: "ticket \<Rightarrow> ticket \<Rightarrow> bool" where
  "lapse t t' \<longleftrightarrow> same_record t t' \<and> (status t' = status t \<or> pre_submission t \<and> status t' = ''open'') \<and>
     (review_lease t' = review_lease t \<or> review_lease t' = RS_Absent)"

lemma lapse_refl [simp]: "lapse t t"
  by (simp add: lapse_def)

lemma lapse_trans: "lapse a b \<Longrightarrow> lapse b c \<Longrightarrow> lapse a c"
  unfolding lapse_def by (elim conjE, intro conjI, erule (1) same_record_trans) (auto simp: pre_submission_iff)

lemma same_ticket_lapse: "same_ticket t t' \<Longrightarrow> lapse t t'"
  by (simp add: lapse_def same_ticket_def)

text \<open>
  A tidy ticket carries the expiry evidence the code itself writes: epoch and text agree or are both
  missing, and a ticket that is neither worked on nor inactive has no running work lease.
\<close>

definition agreeing :: "epoch_val \<Rightarrow> text_val \<Rightarrow> bool" where
  "agreeing e x \<longleftrightarrow> (e = E_Null \<and> x = T_Null) \<or> (\<exists>n. e = E_Num n \<and> x = T_Instant n)"

definition tidy_review :: "review_slot \<Rightarrow> bool" where
  "tidy_review s \<longleftrightarrow> s = RS_Absent \<or>
     (\<exists>l n. s = RS_Lease l \<and> expires_at_epoch l = Some (E_Num n) \<and> expires_at l = T_Instant n)"

definition tidy_work :: "string \<Rightarrow> work_lease \<Rightarrow> bool" where
  "tidy_work st l \<longleftrightarrow> agreeing (lease_expires_at_epoch l) (lease_expires_at l) \<and>
     (st \<notin> set (TERMINAL_TICKET_STATES @ [''needs_human'', ''open'']) \<and> st \<notin> set PRE_SUBMISSION_STATES \<longrightarrow>
        lease_expires_at_epoch l = E_Null)"

definition tidy :: "ticket \<Rightarrow> bool" where
  "tidy t \<longleftrightarrow> tidy_work (status t) (work t) \<and> tidy_review (review_lease t)"

lemma tidy_review_Absent [simp]: "tidy_review RS_Absent"
  by (simp add: tidy_review_def)

lemma tidy_work_none [simp]: "tidy_work st no_work_lease"
  by (simp add: tidy_work_def agreeing_def no_work_lease_def)

lemma tidy_cong: "status t' = status t \<Longrightarrow> work t' = work t \<Longrightarrow> review_lease t' = review_lease t \<Longrightarrow> tidy t' = tidy t"
  by (simp add: tidy_def)

lemmas lapse_defs = lapse_def same_record_def tidy_def

definition tidy_board :: "world \<Rightarrow> bool" where
  "tidy_board w \<longleftrightarrow> (\<forall>k t. get_ticket w k = Some t \<longrightarrow> tidy t)"

definition board_lapses :: "world \<Rightarrow> world \<Rightarrow> bool" where
  "board_lapses w w' \<longleftrightarrow>
     (\<forall>k t. get_ticket w k = Some t \<longrightarrow> (\<exists>t'. get_ticket w' k = Some t' \<and> lapse t t'))"

lemma board_lapses_refl [simp]: "board_lapses w w"
  by (simp add: board_lapses_def)

lemma board_lapses_trans: "board_lapses a b \<Longrightarrow> board_lapses b c \<Longrightarrow> board_lapses a c"
  unfolding board_lapses_def by (meson lapse_trans)

lemma board_lapses_tickets: "tickets (brd w') = tickets (brd w) \<Longrightarrow> board_lapses w w'"
  by (simp add: board_lapses_def get_ticket_def)

lemma tidy_board_tickets: "tickets (brd w') = tickets (brd w) \<Longrightarrow> tidy_board w' = tidy_board w"
  by (simp add: tidy_board_def get_ticket_def)

lemma get_ticket_value: "get_ticket w k = Some t \<Longrightarrow> t \<in> set (dvalues (tickets (brd w)))"
  by (force simp: get_ticket_def dvalues_def dest: dget_in_values)

lemma seats_exclusive_store:
  assumes ok: "board_ok w" and t: "get_ticket w key = Some t" and ex: "seats_exclusive w now"
    and sc: "safe_change now w t t'" and tk: "tickets (brd w') = tickets (brd w)"
  shows "seats_exclusive (put_ticket key t' w') now"
proof -
  have id: "ticket_id t = key" using ok t by (simp add: board_ok_def)
  have g: "get_ticket w' = get_ticket w" by (rule ext) (simp add: get_ticket_def tk)
  have other: "\<not> occupies c a now"
    if "get_ticket w k = Some c" "k \<noteq> key" "occupies t' a now" for k c a
  proof -
    have "ticket_id c = k" using ok that(1) by (simp add: board_ok_def)
    with that(2) have "ticket_id c \<noteq> ticket_id t" using id by simp
    from sc that(3) consider "occupies t a now" | "free_elsewhere w (ticket_id t) now a"
      by (auto simp: safe_change_def)
    then show ?thesis
    proof cases
      case 1
      with ex t that(1,2) show ?thesis by (auto simp: seats_exclusive_def)
    next
      case 2
      with \<open>ticket_id c \<noteq> ticket_id t\<close> get_ticket_value [OF that(1)]
      show ?thesis by (simp add: free_elsewhere_def)
    qed
  qed
  show ?thesis
    unfolding seats_exclusive_def get_put_ticket g
    using ex other by (auto simp: seats_exclusive_def split: if_splits)
qed

subsection \<open>What occupation reads\<close>

lemma work_commitment_cong:
  assumes "work t' = work t" "status t' = status t" "review_lease t' = review_lease t"
  shows "work_commitment t' a now = work_commitment t a now"
  unfolding work_commitment_def inactive_work_ownership_is_ambiguous_def inactive_status_def
    pre_submission_def has_work_lease_fields_def inactive_lifecycle_has_ambiguous_live_lease_def assms
  by (rule refl)

lemma work_commitment_none [simp]: "work t = no_work_lease \<Longrightarrow> \<not> work_commitment t a now"
  by (simp add: work_commitment_def no_work_lease_def)

lemma review_commitment_cong:
  "review_lease t' = review_lease t \<Longrightarrow> review_commitment t' a now = review_commitment t a now"
  by (simp add: review_commitment_def)

lemma offer_commitment_cong:
  "offers t' k = offers t k \<Longrightarrow> offer_commitment t' a now k = offer_commitment t a now k"
  by (simp add: offer_commitment_def)

lemmas occupies_congs = work_commitment_cong review_commitment_cong offer_commitment_cong

lemma occupies_shrink:
  assumes "work t' = work t \<and> review_lease t' = review_lease t \<or> work t' = no_work_lease"
    and "status t' = status t \<or> work t' = no_work_lease"
    and "review_lease t' = review_lease t \<or> review_lease t' = RS_Absent"
    and "\<And>k. offers t' k = offers t k \<or> offers t' k = None"
    and "occupies t' a now"
  shows "occupies t a now"
proof -
  have "work_commitment t' a now \<Longrightarrow> work_commitment t a now"
    using assms(1,2) work_commitment_cong work_commitment_none by metis
  moreover have "review_commitment t' a now = Inr True \<Longrightarrow> review_commitment t a now = Inr True"
    using assms(3) by (auto simp: review_commitment_def)
  moreover have "offer_commitment t' a now k \<Longrightarrow> offer_commitment t a now k" for k
    using assms(4) [of k] by (auto simp: offer_commitment_def)
  ultimately show ?thesis using assms(5) by (auto simp: occupies_def)
qed

text \<open>Dropping a review lease can only make left-behind ownership less ambiguous.\<close>

lemma occupies_drop_review:
  assumes "occupies (t\<lparr>review_lease := RS_Absent, updated_at := u\<rparr>) a now"
  shows "occupies t a now"
proof -
  let ?t = "t\<lparr>review_lease := RS_Absent, updated_at := u\<rparr>"
  have "inactive_lifecycle_has_ambiguous_live_lease ?t now \<Longrightarrow>
        inactive_lifecycle_has_ambiguous_live_lease t now"
    by (auto simp: inactive_lifecycle_has_ambiguous_live_lease_def Let_def
        split: option.split_asm if_split_asm option.split)
  then have "work_commitment ?t a now \<Longrightarrow> work_commitment t a now"
    by (auto simp: work_commitment_def inactive_work_ownership_is_ambiguous_def inactive_status_def
        pre_submission_def has_work_lease_fields_def)
  moreover have "\<not> review_commitment ?t a now = Inr True" by (simp add: review_commitment_def)
  ultimately show ?thesis
    using assms by (auto simp: occupies_def offer_commitment_def)
qed

lemma dispatched_safe:
  assumes d: "dispatched now k w t w' t'"
  shows "safe_change now w t t'"
  unfolding safe_change_def
proof (intro conjI allI impI)
  from d have st: "same_ticket t t'" by (simp add: dispatched_def)
  then show id: "ticket_id t' = ticket_id t" by (simp add: same_ticket_def same_record_def)
  fix a assume o: "occupies t' a now"
  have "work_commitment t' a now \<Longrightarrow> work_commitment t a now"
    using d st work_commitment_cong [of t' t] by (auto simp: dispatched_def same_ticket_def same_record_def)
  moreover have "review_commitment t' a now = review_commitment t a now"
    using st by (intro review_commitment_cong) (simp add: same_ticket_def same_record_def)
  moreover have "offer_commitment t' a now k' \<Longrightarrow>
      offer_commitment t a now k' \<or> free_elsewhere w (ticket_id t) now a" for k'
  proof (cases "offers t' k' = offers t k'")
    case True
    then show "offer_commitment t' a now k' \<Longrightarrow> ?thesis" by (simp add: offer_commitment_def)
  next
    case False
    with d have k': "k' = k" by (auto simp: dispatched_def)
    with d False obtain m c where "fits w t' now k m"
      and off: "offers t' k' = Some (new_offer w t now k m\<lparr>o_cycle := c\<rparr>)"
      unfolding dispatched_def by metis
    then have "free_elsewhere w (ticket_id t) now (agent_id m)"
      using agent_not_busy_free id by (simp add: fits_def)
    then show "offer_commitment t' a now k' \<Longrightarrow> ?thesis"
      by (auto simp: offer_commitment_def off new_offer_def)
  qed
  ultimately show "occupies t a now \<or> free_elsewhere w (ticket_id t) now a"
    using o by (auto simp: occupies_def)
qed

subsection \<open>The contract of a sweep\<close>

definition kept_world :: "time \<Rightarrow> world \<Rightarrow> world \<Rightarrow> bool" where
  "kept_world now w w' \<longleftrightarrow>
     (board_ok w \<longrightarrow>
        board_ok w' \<and> cfg (brd w') = cfg (brd w) \<and>
        dkeys (tickets (brd w')) = dkeys (tickets (brd w)) \<and>
        (tidy_board w \<longrightarrow> tidy_board w' \<and> (seats_exclusive w now \<longrightarrow> seats_exclusive w' now)))"

definition safe_world :: "time \<Rightarrow> world \<Rightarrow> world \<Rightarrow> bool" where
  "safe_world now w w' \<longleftrightarrow>
     (board_ok w \<longrightarrow>
        board_ok w' \<and> cfg (brd w') = cfg (brd w) \<and>
        dkeys (tickets (brd w')) = dkeys (tickets (brd w)) \<and>
        (seats_exclusive w now \<longrightarrow> seats_exclusive w' now) \<and>
        (tidy_board w \<longrightarrow> tidy_board w') \<and> board_lapses w w')"

lemma kept_world_refl [simp]: "kept_world now w w"
  by (simp add: kept_world_def)

lemma kept_world_trans: "kept_world now a b \<Longrightarrow> kept_world now b c \<Longrightarrow> kept_world now a c"
  by (simp add: kept_world_def)

lemma safe_world_kept: "safe_world now w w' \<Longrightarrow> kept_world now w w'"
  by (simp add: safe_world_def kept_world_def)

lemma safe_world_refl [simp]: "safe_world now w w"
  by (simp add: safe_world_def)

lemma safe_world_trans: "safe_world now a b \<Longrightarrow> safe_world now b c \<Longrightarrow> safe_world now a c"
  by (auto simp: safe_world_def intro: board_lapses_trans)

lemma safe_world_members:
  "tickets (brd w') = tickets (brd w) \<Longrightarrow> cfg (brd w') = cfg (brd w) \<Longrightarrow>
     (board_ok w \<Longrightarrow> board_ok w') \<Longrightarrow> safe_world now w w'"
  by (simp add: safe_world_def seats_exclusive_tickets [of w' w] tidy_board_tickets [of w' w]
      board_lapses_tickets)

locale safe_sweep =
  fixes doc :: "'s \<Rightarrow> world" and step :: "time \<Rightarrow> string \<Rightarrow> 's \<Rightarrow> 's result"
  assumes step_safe: "step now key s = Inr s' \<Longrightarrow> safe_world now (doc s) (doc s')"
begin

lemma sweep_safe: "foldE (step now) ks s = Inr s' \<Longrightarrow> safe_world now (doc s) (doc s')"
  by (erule foldE_invariant [where P = "\<lambda>x. safe_world now (doc s) (doc x)"])
    (auto intro: safe_world_trans step_safe)

lemma sweep_exclusive:
  "foldE (step now) ks s = Inr s' \<Longrightarrow> board_ok (doc s) \<Longrightarrow> seats_exclusive (doc s) now \<Longrightarrow>
     seats_exclusive (doc s') now"
  using sweep_safe [of now ks s s'] by (simp add: safe_world_def)

end

locale local_sweep = safe_sweep +
  assumes step_local: "step now key s = Inr s' \<Longrightarrow> key' \<noteq> key \<Longrightarrow>
      get_ticket (doc s') key' = get_ticket (doc s) key'"
begin

lemma sweep_local:
  "foldE (step now) ks s = Inr s' \<Longrightarrow> key \<notin> set ks \<Longrightarrow> get_ticket (doc s') key = get_ticket (doc s) key"
proof (induction ks arbitrary: s)
  case (Cons k ks)
  then obtain s1 where "step now k s = Inr s1" "foldE (step now) ks s1 = Inr s'" by auto
  with Cons show ?case by (simp add: step_local)
qed simp

text \<open>What every step establishes for its ticket holds for all of them after the sweep.\<close>

lemma sweep_establishes:
  assumes "foldE (step now) ks s = Inr s'" and "distinct ks" and "key \<in> set ks" and "I s"
    and inv: "\<And>k s s'. step now k s = Inr s' \<Longrightarrow> I s \<Longrightarrow> I s'"
    and est: "\<And>s s'. step now key s = Inr s' \<Longrightarrow> I s \<Longrightarrow> Q (get_ticket (doc s') key)"
  shows "Q (get_ticket (doc s') key)"
  using assms(1-4)
proof (induction ks arbitrary: s)
  case (Cons k ks)
  then obtain s1 where s1: "step now k s = Inr s1" "foldE (step now) ks s1 = Inr s'" by auto
  show ?case
  proof (cases "key = k")
    case True
    with Cons.prems(2) have "key \<notin> set ks" by simp
    from sweep_local [OF s1(2) this] est s1(1) Cons.prems(4) True show ?thesis by simp
  next
    case False
    with Cons.prems(2,3) have "distinct ks" "key \<in> set ks" by simp_all
    from Cons.IH [OF s1(2) this] inv [OF s1(1)] Cons.prems(4) show ?thesis by simp
  qed
qed simp

end

text \<open>A loop whose body cannot raise.\<close>

lemma foldE_Inr: "foldE (\<lambda>x s. Inr (f x s)) xs s = Inr (fold f xs s)"
  by (induction xs arbitrary: s) simp_all

subsection \<open>Moving one ticket\<close>

definition carried :: "time \<Rightarrow> world \<Rightarrow> ticket \<Rightarrow> world \<Rightarrow> ticket \<Rightarrow> bool" where
  "carried now w t w' t' \<longleftrightarrow>
     tickets (brd w') = tickets (brd w) \<and> cfg (brd w') = cfg (brd w) \<and>
     (board_ok w \<longrightarrow> board_ok w') \<and>
     ticket_id t' = ticket_id t \<and> (tidy t \<longrightarrow> tidy t' \<and> safe_change now w t t')"

definition moved :: "time \<Rightarrow> world \<Rightarrow> ticket \<Rightarrow> world \<Rightarrow> ticket \<Rightarrow> bool" where
  "moved now w t w' t' \<longleftrightarrow>
     tickets (brd w') = tickets (brd w) \<and> cfg (brd w') = cfg (brd w) \<and>
     (board_ok w \<longrightarrow> board_ok w') \<and> safe_change now w t t' \<and> (tidy t \<longrightarrow> tidy t') \<and> lapse t t'"

lemma moved_carried: "moved now w t w' t' \<Longrightarrow> carried now w t w' t'"
  by (simp add: moved_def carried_def safe_change_def)

lemma carried_refl [simp]: "carried now w t w t"
  by (simp add: carried_def)

lemma carried_trans: "carried now w t w1 t1 \<Longrightarrow> carried now w1 t1 w2 t2 \<Longrightarrow> carried now w t w2 t2"
  by (auto simp: carried_def intro: safe_change_trans)

lemma moved_refl [simp]: "moved now w t w t"
  by (simp add: moved_def)

lemma moved_trans: "moved now w t w1 t1 \<Longrightarrow> moved now w1 t1 w2 t2 \<Longrightarrow> moved now w t w2 t2"
  by (auto simp: moved_def intro: safe_change_trans lapse_trans)

lemma board_ok_cong:
  "tickets (brd w') = tickets (brd w) \<Longrightarrow> members (brd w') = members (brd w) \<Longrightarrow> board_ok w' = board_ok w"
  by (simp add: board_ok_def get_ticket_def get_member_def)

lemma dispatched_moved:
  assumes d: "dispatched now k w t w' t'"
  shows "moved now w t w' t'"
proof -
  have tk: "tickets (brd w') = tickets (brd w)" "cfg (brd w') = cfg (brd w)"
    using d by (simp_all add: dispatched_def same_service_def)
  have "board_ok w'" if ok: "board_ok w"
  proof (cases "members (brd w') = members (brd w)")
    case True
    with ok tk board_ok_cong show ?thesis by blast
  next
    case False
    with d obtain key m where m: "(key, m) \<in> set (members (brd w))"
      "members (brd w') = dset key (m\<lparr>last_offered_at := Some now\<rparr>) (members (brd w))"
      unfolding dispatched_def by blast
    have "get_member w key = Some m"
      using ok dict_ok_lookup [OF _ m(1)] by (simp add: board_ok_def get_member_def)
    then have "board_ok (put_member key (m\<lparr>last_offered_at := Some now\<rparr>) w)"
      using ok by (intro board_ok_put_member) (simp_all add: board_ok_def)
    with tk m(2) board_ok_cong [of w' "put_member key (m\<lparr>last_offered_at := Some now\<rparr>) w"]
    show ?thesis by simp
  qed
  moreover have "lapse t t'" "tidy t \<longrightarrow> tidy t'"
    using d by (auto simp: dispatched_def same_ticket_lapse, auto simp: same_ticket_def tidy_def)
  ultimately show ?thesis using d tk dispatched_safe by (simp add: moved_def)
qed

lemma quiet_moved: "quiet w t w' t' \<Longrightarrow> moved now w t w' t'"
  using quiet_dispatched dispatched_moved by blast

lemma reconcile_moved:
  "reconcile_inactive_work_ownership now (w, t) = (w', t') \<Longrightarrow> moved now w t w' t'"
  using reconcile_quiet [of w t now] quiet_moved by simp

lemma shrink_moved:
  "lapse t t' \<Longrightarrow> (tidy t \<Longrightarrow> tidy t') \<Longrightarrow> (\<And>a. occupies t' a now \<Longrightarrow> occupies t a now) \<Longrightarrow> moved now w t w t'"
  by (simp add: moved_def safe_change_shrink lapse_def same_record_def)

lemma append_bounded_moved:
  "append_bounded_history f e (w, t) = (w', t') \<Longrightarrow> f = H_Dispatch \<or> f = H_Progress \<Longrightarrow> moved now w t w' t'"
  by (rule quiet_moved [OF append_bounded_quiet])

lemma get_ticket_tickets: "tickets (brd w') = tickets (brd w) \<Longrightarrow> get_ticket w' = get_ticket w"
  by (simp add: get_ticket_def fun_eq_iff)

lemma moved_store:
  assumes g: "get_ticket w key = Some t" and m: "moved now w t w' t'"
  shows "safe_world now w (put_ticket key t' w')"
proof -
  have "ticket_id t' = key" if "board_ok w"
    using that g m by (simp add: moved_def safe_change_def board_ok_def)
  moreover have "key \<in> set (dkeys (tickets (brd w)))"
    using g dget_in_keys [of "tickets (brd w)" key] by (simp add: get_ticket_def)
  ultimately show ?thesis
    using m g seats_exclusive_store [OF _ g]
    by (auto simp: safe_world_def moved_def tidy_board_def board_lapses_def get_ticket_tickets [of w' w])
qed

lemma carried_store:
  assumes g: "get_ticket w key = Some t" and m: "carried now w t w' t'"
  shows "kept_world now w (put_ticket key t' w')"
proof -
  have "ticket_id t' = key" if "board_ok w"
    using that g m by (simp add: carried_def board_ok_def)
  moreover have "key \<in> set (dkeys (tickets (brd w)))"
    using g dget_in_keys [of "tickets (brd w)" key] by (simp add: get_ticket_def)
  ultimately show ?thesis
    using m g seats_exclusive_store [OF _ g]
    by (auto simp: kept_world_def carried_def tidy_board_def get_ticket_tickets [of w' w])
qed

lemma moved_local:
  "moved now w t w' t' \<Longrightarrow> key' \<noteq> key \<Longrightarrow> get_ticket (put_ticket key t' w') key' = get_ticket w key'"
  by (simp add: moved_def get_ticket_def)

lemmas moved_intros = dispatched_moved reconcile_moved append_bounded_moved quiet_moved

text \<open>The shape of every loop body: the ticket of the key is moved and put back.\<close>

definition stored_move :: "time \<Rightarrow> string \<Rightarrow> world \<Rightarrow> world \<Rightarrow> bool" where
  "stored_move now key w w' \<longleftrightarrow>
     w' = w \<or> (\<exists>t w'' t'. get_ticket w key = Some t \<and> moved now w t w'' t' \<and> w' = put_ticket key t' w'')"

lemma stored_move_safe: "stored_move now key w w' \<Longrightarrow> safe_world now w w'"
  using moved_store by (auto simp: stored_move_def)

lemma stored_move_local: "stored_move now key w w' \<Longrightarrow> key' \<noteq> key \<Longrightarrow> get_ticket w' key' = get_ticket w key'"
  using moved_local by (auto simp: stored_move_def)

lemma stored_moveI: "get_ticket w key = Some t \<Longrightarrow> moved now w t w'' t' \<Longrightarrow> stored_move now key w (put_ticket key t' w'')"
  by (auto simp: stored_move_def)

lemma stored_move_refl [simp]: "stored_move now key w w"
  by (simp add: stored_move_def)

text \<open>A body of that shape meets both contracts.\<close>

locale stored_sweep =
  fixes doc :: "'s \<Rightarrow> world" and step :: "time \<Rightarrow> string \<Rightarrow> 's \<Rightarrow> 's result"
  assumes step_move: "step now key s = Inr s' \<Longrightarrow> stored_move now key (doc s) (doc s')"

sublocale stored_sweep \<subseteq> local_sweep doc step
  by unfold_locales (erule step_move [THEN stored_move_safe], erule step_move [THEN stored_move_local])

subsection \<open>The sweeps of the dispatcher\<close>

lemma dispatch_stored_move:
  assumes "dispatch_stored now k p key s = Inr s'"
  shows "stored_move now key (fst s) (fst s')"
proof (cases "get_ticket (fst s) key")
  case None
  with assms show ?thesis by (simp add: dispatch_stored_def)
next
  case (Some t)
  with assms obtain w' t' ev where d: "dispatch_ticket (fst s) t now k p = Inr (w', t', ev)"
    and s': "fst s' = put_ticket key t' w'"
    by (auto simp: dispatch_stored_def)
  show ?thesis
    unfolding s' by (rule stored_moveI [OF Some dispatched_moved [OF dispatch_ticket_dispatched [OF d]]])
qed

lemma redispatch_key_move:
  "redispatch_key now key s = Inr s' \<Longrightarrow> stored_move now key (fst s) (fst s')"
  using dispatch_stored_move [of now Work None key s s'] dispatch_stored_move [of now Review None key s s']
  by (auto simp: redispatch_key_def split: option.splits if_splits)

interpretation redispatch: stored_sweep fst redispatch_key
  by unfold_locales (rule redispatch_key_move)

text \<open>The checks of the outstanding offers.\<close>

lemma withdraw_moved: "moved now w t w (withdraw_offer now k off t)"
proof (rule shrink_moved)
  show "occupies t a now" if "occupies (withdraw_offer now k off t) a now" for a
    by (rule occupies_shrink [OF _ _ _ _ that]) (simp_all add: withdraw_offer_def)
qed (simp_all add: withdraw_offer_def lapse_defs)

lemma check_offer_moved:
  "check_offer now k (w, t, res, evs) = (w', t', res', evs') \<Longrightarrow> moved now w t w' t'"
  using withdraw_moved by (auto simp: check_offer_def split: option.splits)

lemma check_ticket_offers_move:
  "stored_move now key (fst s) (fst (check_ticket_offers now key s))"
proof -
  obtain w res evs where s: "s = (w, res, evs)" by (metis prod_cases3)
  show ?thesis
  proof (cases "get_ticket w key")
    case None
    then show ?thesis by (simp add: check_ticket_offers_def s)
  next
    case (Some t)
    obtain w1 t1 where r: "reconcile_inactive_work_ownership now (w, t) = (w1, t1)" by fastforce
    obtain w2 t2 r2 e2 where c1: "check_offer now Work (w1, t1, res, evs) = (w2, t2, r2, e2)"
      by (metis prod_cases4)
    obtain w3 t3 r3 e3 where c2: "check_offer now Review (w2, t2, r2, e2) = (w3, t3, r3, e3)"
      by (metis prod_cases4)
    have "moved now w t w3 t3"
      using reconcile_moved [OF r] check_offer_moved [OF c1] check_offer_moved [OF c2] moved_trans
      by blast
    then show ?thesis
      using stored_moveI [OF Some] by (simp add: check_ticket_offers_def Some s r c1 c2)
  qed
qed

interpretation check_offers: stored_sweep fst "\<lambda>now key s. Inr (check_ticket_offers now key s)"
  by unfold_locales (metis check_ticket_offers_move sum.inject(2))

lemma retry_waiting_move: "stored_move now key w (retry_waiting key w)"
proof -
  have "moved now w t w (t\<lparr>dispatch_state := None\<rparr>)" for t
    by (rule quiet_moved) (simp add: quiet_def same_ticket_def same_record_def)
  then show ?thesis by (auto simp: retry_waiting_def intro: stored_moveI split: option.splits)
qed

interpretation retry: stored_sweep id "\<lambda>now key w. Inr (retry_waiting key w)"
  by unfold_locales (metis retry_waiting_move id_apply sum.inject(2))

lemma reconcile_invalid_safe:
  "safe_world now w (fst (reconcile_invalid_dispatch_offers w now))"
proof -
  let ?ks = "queue_order w"
  obtain w1 res evs where f: "fold (check_ticket_offers now) ?ks (w, [], []) = (w1, res, evs)"
    by (metis prod_cases3)
  have "safe_world now w w1"
    using check_offers.sweep_safe [of now ?ks "(w, [], [])"] f by (simp add: foldE_Inr)
  moreover have "safe_world now w1 (fold retry_waiting ?ks w1)"
    using retry.sweep_safe [where now = now and ks = ?ks and s = w1] by (simp add: foldE_Inr)
  ultimately show ?thesis
    using f safe_world_trans by (auto simp: reconcile_invalid_dispatch_offers_def Let_def)
qed

lemma redispatch_queue_safe:
  assumes "redispatch_queue w now = Inr (w', evs)"
  shows "safe_world now w w'"
proof -
  obtain w1 e1 where r: "reconcile_invalid_dispatch_offers w now = (w1, e1)" by fastforce
  have 1: "safe_world now w w1" using reconcile_invalid_safe [of now w] r by simp
  show ?thesis
  proof (cases "dispatch_enabled (brd w1)")
    case False
    with assms r 1 show ?thesis by (simp add: redispatch_queue_def)
  next
    case True
    with assms r have "foldE (redispatch_key now) (queue_order w1) (w1, e1) = Inr (w', evs)"
      by (simp add: redispatch_queue_def)
    from safe_world_trans [OF 1] redispatch.sweep_safe [OF this] show ?thesis by simp
  qed
qed

subsection \<open>Revocation and stale seats\<close>

lemma retire_move: "stored_move now key (fst s) (fst (retire_review_offer now key s))"
  using withdraw_moved by (auto simp: retire_review_offer_def intro: stored_moveI split: option.splits)

interpretation retire: stored_sweep fst "\<lambda>now key s. Inr (retire_review_offer now key s)"
  by unfold_locales (metis retire_move sum.inject(2))

lemma revoke_offer_moved: "moved now w (fst s) w (fst (revoke_offer m now reason k s))"
proof (rule shrink_moved)
  show "occupies (fst s) a now" if "occupies (fst (revoke_offer m now reason k s)) a now" for a
    by (rule occupies_shrink [OF _ _ _ _ that]) (simp_all add: revoke_offer_def split: option.split)
qed (simp_all add: revoke_offer_def lapse_defs split: option.split)

lemma revoke_move: "stored_move now key (fst s) (fst (revoke_ticket_offers m now reason key s))"
proof (cases "get_ticket (fst s) key")
  case (Some t)
  let ?s1 = "revoke_offer m now reason Work (t, snd s)"
  have "moved now (fst s) t (fst s) (fst (revoke_offer m now reason Review ?s1))"
    using moved_trans [OF revoke_offer_moved [of now "fst s" "(t, snd s)"] revoke_offer_moved] by simp
  then show ?thesis
    using stored_moveI [OF Some] by (simp add: revoke_ticket_offers_def Some case_prod_unfold Let_def)
qed (simp add: revoke_ticket_offers_def)

interpretation revoke: stored_sweep fst "\<lambda>now key s. Inr (revoke_ticket_offers m now reason key s)"
  for m reason
  by unfold_locales (metis revoke_move sum.inject(2))

lemma revoke_agent_offers_safe: "safe_world now w (fst (revoke_agent_offers w m now reason))"
  using revoke.sweep_safe [where m = m and reason = reason and now = now
      and ks = "dkeys (tickets (brd w))" and s = "(w, [])"]
  by (simp add: foldE_Inr revoke_agent_offers_def)

lemma put_member_safe:
  "agent_id m = key \<Longrightarrow> safe_world now w (put_member key m w)"
  by (simp add: safe_world_members)

lemma lifecycle_transition_safe:
  "agent_id m = key \<Longrightarrow> safe_world now w (fst (lifecycle_transition w key m t st r a))"
  by (simp add: lifecycle_transition_def Let_def put_member_safe)

lemma stale_member_safe: "safe_world now (fst s) (fst (stale_member now key s))"
proof -
  obtain w evs ch where s: "s = (w, evs, ch)" by (metis prod_cases3)
  show ?thesis
  proof (cases "get_member w key")
    case None
    then show ?thesis by (simp add: stale_member_def s)
  next
    case (Some m)
    obtain w1 rev where r: "revoke_agent_offers w m now ''agent_stale'' = (w1, rev)" by fastforce
    obtain w2 ev where l: "lifecycle_transition w1 key m now ''stale'' ''inactivity_threshold''
        ''board-reaper'' = (w2, ev)" by fastforce
    have "safe_world now w w2" if "agent_id m = key"
      using safe_world_trans [of now w w1 w2] revoke_agent_offers_safe [of now w m "''agent_stale''"] r
        lifecycle_transition_safe [OF that, of now w1 now "''stale''" "''inactivity_threshold''" "''board-reaper''"] l
      by simp
    moreover have "board_ok w \<Longrightarrow> agent_id m = key" using Some by (simp add: board_ok_def)
    ultimately have "safe_world now w w2" unfolding safe_world_def by blast
    then show ?thesis by (simp add: stale_member_def s Some r l split: option.split)
  qed
qed

interpretation stale: safe_sweep fst "\<lambda>now key s. Inr (stale_member now key s)"
  by unfold_locales (metis stale_member_safe sum.inject(2))

lemma auto_stale_safe:
  assumes "auto_stale_members w now rd = Inr (w', evs)"
  shows "safe_world now w w'"
proof -
  obtain w1 e ch where f: "fold (stale_member now) (dkeys (members (brd w))) (w, [], False) = (w1, e, ch)"
    by (metis prod_cases3)
  have 1: "safe_world now w w1"
    using stale.sweep_safe [where now = now and ks = "dkeys (members (brd w))" and s = "(w, [], False)"] f
    by (simp add: foldE_Inr)
  from assms f have "w' = w1 \<or> (\<exists>more. redispatch_queue w1 now = Inr (w', more))"
    by (auto simp: auto_stale_members_def split: if_splits)
  with 1 show ?thesis using redispatch_queue_safe safe_world_trans by blast
qed

subsection \<open>Reaping\<close>

text \<open>A phase of the reaper on one ticket moves it.\<close>

definition phase_moves :: "time \<Rightarrow> reap_state \<Rightarrow> reap_state \<Rightarrow> bool" where
  "phase_moves now s s' \<longleftrightarrow> moved now (fst s) (fst (snd s)) (fst s') (fst (snd s'))"

lemma phase_moves_trans: "phase_moves now a b \<Longrightarrow> phase_moves now b c \<Longrightarrow> phase_moves now a c"
  by (auto simp: phase_moves_def intro: moved_trans)

lemma and_dispatch_moves:
  assumes "and_dispatch rd now k (w, t, evs) = Inr s'"
  shows "phase_moves now (w, t, evs) s'"
proof (cases rd)
  case True
  with assms obtain w' t' ev where "dispatch_ticket w t now k None = Inr (w', t', ev)"
    and "fst s' = w'" "fst (snd s') = t'"
    by (auto simp: and_dispatch_def)
  then show ?thesis
    using dispatched_moved [OF dispatch_ticket_dispatched] by (simp add: phase_moves_def)
qed (use assms in \<open>auto simp: and_dispatch_def phase_moves_def\<close>)

lemma expire_offer_moves:
  assumes "expire_offer now rd k s = Inr s'"
  shows "phase_moves now s s'"
proof -
  obtain w t evs where s: "s = (w, t, evs)" by (metis prod_cases3)
  show ?thesis
  proof (cases "\<exists>off. offers t k = Some off \<and> \<not> now < o_expires_at_epoch off")
    case False
    with assms have "s' = s" by (auto simp: expire_offer_def s split: option.splits if_splits)
    then show ?thesis by (simp add: phase_moves_def)
  next
    case True
    then obtain off where off: "offers t k = Some off" "\<not> now < o_expires_at_epoch off" by blast
    define t1 where "t1 = t\<lparr>offers := (offers t)(k := None),
        last_offered_agent_id := (last_offered_agent_id t)(k := Some (o_agent_id off)),
        offer_expirations := (offer_expirations t)(k := offer_expirations t k + 1)\<rparr>"
    define h where "h = HE_Dispatch ((entry0 ''expired'')
        \<lparr>d_kind := Some k, d_agent_id := Some (o_agent_id off),
         d_agent_name := Some (o_agent_name off), d_at := Some now, d_cycle := Some (o_cycle off)\<rparr>)"
    obtain w2 t2 where ab: "append_bounded_history H_Dispatch h (w, t1) = (w2, t2)" by fastforce
    have "moved now w t w t1"
    proof (rule shrink_moved)
      show "occupies t a now" if "occupies t1 a now" for a
        by (rule occupies_shrink [OF _ _ _ _ that]) (simp_all add: t1_def)
    qed (simp_all add: t1_def lapse_defs)
    then have m: "moved now w t w2 t2" using append_bounded_moved [OF ab] moved_trans by blast
    let ?e = "evs @ [Offer_Expired (ticket_id t) k (o_agent_id off) (o_agent_name off)
                (o_expires_at off) [o_agent_id off]]"
    have "and_dispatch rd now k (w2, t2, ?e) = Inr s'"
      using assms off ab by (simp add: expire_offer_def s t1_def [symmetric] h_def [symmetric] Let_def)
    from and_dispatch_moves [OF this] m show ?thesis
      using moved_trans by (auto simp: phase_moves_def s)
  qed
qed

lemma expire_dispatch_offers_moves:
  assumes "expire_dispatch_offers w t now rd = Inr s'"
  shows "phase_moves now (w, t, []) s'"
  using assms unfolding expire_dispatch_offers_def
  by (rule foldE_invariant [where P = "phase_moves now (w, t, [])"])
    (auto simp: phase_moves_def [of _ "(w, t, [])" "(w, t, [])"] intro: phase_moves_trans expire_offer_moves)

lemma reap_review_moves:
  assumes "reap_review now rd rc s = Inr s'"
  shows "phase_moves now s s'"
proof -
  obtain w t evs where s: "s = (w, t, evs)" by (metis prod_cases3)
  let ?t = "t\<lparr>review_lease := RS_Absent, updated_at := Some now\<rparr>"
  show ?thesis
  proof (cases "review_lease_lapsed t now")
    case True
    have "moved now w t w ?t" by (rule shrink_moved) (auto simp: lapse_defs intro: occupies_drop_review)
    moreover have "and_dispatch rd now Review (w, ?t, evs @ [review_released t rc]) = Inr s'"
      using assms True by (simp add: reap_review_def s)
    ultimately have "moved now w t w ?t" and d: "and_dispatch rd now Review (w, ?t, evs @ [review_released t rc]) = Inr s'"
      by simp_all
    from this(1) and_dispatch_moves [OF d] show ?thesis
      using moved_trans by (auto simp: phase_moves_def s)
  qed (use assms in \<open>auto simp: reap_review_def s phase_moves_def\<close>)
qed

lemma reap_work_moves:
  assumes "reap_work now rd rc s = Inr s'"
  shows "phase_moves now s s'"
proof -
  obtain w t evs where s: "s = (w, t, evs)" by (metis prod_cases3)
  show ?thesis
  proof (cases "work_lease_lapsed t now = Inr True")
    case False
    with assms have "s' = s" by (auto simp: reap_work_def s)
    then show ?thesis by (simp add: phase_moves_def)
  next
    case True
    obtain w1 t1 reset where r: "reset_ticket_progress now ''lease_expired'' (w, abandon_work now t)
        = ((w1, t1), reset)" by (metis prod_cases3 prod.collapse)
    have f: "quiet w (abandon_work now t) w1 t1"
      by (rule reset_progress_quiet [OF r])
    have "moved now w t w (t1\<lparr>work := no_work_lease\<rparr>)"
    proof (rule shrink_moved)
      have "same_ticket (abandon_work now t) t1" "offers t1 = offers (abandon_work now t)"
        using f by (simp_all add: quiet_def)
      then have e: "ticket_id t1 = ticket_id t" "review_lease t1 = review_lease t" "offers t1 = offers t"
        by (simp_all add: same_ticket_def same_record_def abandon_work_def Let_def)
      have "pre_submission t" using True by (auto simp: work_lease_lapsed_def split: if_splits)
      moreover have "same_record t t1" "status t1 = ''open''"
        using f by (simp_all add: quiet_def same_ticket_def same_record_def abandon_work_def Let_def)
      ultimately show "lapse t (t1\<lparr>work := no_work_lease\<rparr>)" by (simp add: lapse_def same_record_def e)
      show "tidy (t1\<lparr>work := no_work_lease\<rparr>)" if "tidy t" using that by (simp add: tidy_def e)
      show "occupies t a now" if "occupies (t1\<lparr>work := no_work_lease\<rparr>) a now" for a
        by (rule occupies_shrink [OF _ _ _ _ that]) (simp_all add: e)
    qed
    moreover have "moved now w (t1\<lparr>work := no_work_lease\<rparr>) w1 (t1\<lparr>work := no_work_lease\<rparr>)"
      using f by (intro quiet_moved) (simp add: quiet_def)
    ultimately have m: "moved now w t w1 (t1\<lparr>work := no_work_lease\<rparr>)" by (rule moved_trans)
    obtain e2 where d: "and_dispatch rd now Work (w1, t1\<lparr>work := no_work_lease\<rparr>, e2) = Inr s'"
      using assms True r by (auto simp: reap_work_def s Let_def)
    from and_dispatch_moves [OF d] m show ?thesis
      using moved_trans by (auto simp: phase_moves_def s)
  qed
qed

lemma reap_ticket_move:
  assumes "reap_ticket now rd rc key s = Inr s'"
  shows "stored_move now key (fst s) (fst s')"
proof (cases "get_ticket (fst s) key")
  case None
  with assms show ?thesis by (simp add: reap_ticket_def)
next
  case (Some t0)
  obtain w1 t1 where r: "reconcile_inactive_work_ownership now (fst s, t0) = (w1, t1)" by fastforce
  from assms obtain s2 s3 s4 where e: "expire_dispatch_offers w1 t1 now rd = Inr s2"
    and v: "reap_review now rd rc s2 = Inr s3" and k: "reap_work now rd rc s3 = Inr s4"
    and s': "fst s' = put_ticket key (fst (snd s4)) (fst s4)"
    by (auto simp: reap_ticket_def Some r)
  have "phase_moves now (w1, t1, []) s4"
    using expire_dispatch_offers_moves [OF e] reap_review_moves [OF v] reap_work_moves [OF k]
      phase_moves_trans by blast
  then have "moved now (fst s) t0 (fst s4) (fst (snd s4))"
    using reconcile_moved [OF r] moved_trans by (auto simp: phase_moves_def)
  then show ?thesis unfolding s' by (rule stored_moveI [OF Some])
qed

interpretation reap: stored_sweep fst "\<lambda>now. reap_ticket now rd rc" for rd rc
  by unfold_locales (rule reap_ticket_move)

lemma reap_expired_safe:
  assumes "reap_expired w now rd = Inr (w', evs)"
  shows "safe_world now w w'"
proof -
  from assms obtain w1 e1 w2 e2 where a: "auto_stale_members w now rd = Inr (w1, e1)"
    and f: "foldE (reap_ticket now rd (admitted_agent_ids (brd w1) None))
              (dkeys (tickets (brd w1))) (w1, e1) = Inr (w2, e2)"
    and q: "w' = w2 \<or> (\<exists>more. redispatch_queue w2 now = Inr (w', more))"
    by (auto simp: reap_expired_def split: if_splits)
  have "safe_world now w w2"
    using auto_stale_safe [OF a] reap.sweep_safe [OF f] safe_world_trans by fastforce
  with q show ?thesis using redispatch_queue_safe safe_world_trans by blast
qed

end
