(* ===== verification/Sample_Board.thy ===== *)
theory Sample_Board
  imports Dispatch_Safety
begin

section \<open>A small board for the witnesses\<close>

text \<open>
  Concrete documents at which the properties are applied: two seats (a worker and a reviewer of
  different principals), a ticket in each interesting state.
\<close>

definition sample_ticket :: "string \<Rightarrow> string \<Rightarrow> ticket" where
  "sample_ticket tid st =
     \<lparr> ticket_id = tid, status = st, priority = ''medium'', created_at = Some 0, updated_at = None,
       created_by_agent_id = None, created_by_principal_id = None, server_generated_id = True,
       required_fields = [],
       parked = False, tier = None, skills_required = [], exclude_agents = [], prefer_agents = [],
       assigned_to = None, assigned_to_agent_id = None, assigned_to_kind = None,
       work = no_work_lease, last_claimed_by_agent_id = None, last_claimed_by_principal_id = None,
       last_claimed_by = None, last_claimed_at = None, last_release_reason = None,
       last_lease_expires_at = T_Null, offers = (\<lambda>_. None), offer_expirations = (\<lambda>_. 0),
       dispatch_cycle = (\<lambda>_. 0), last_offered_agent_id = (\<lambda>_. None),
       pin_unavailable_cycles = None, pin_unavailable_last_at = None, dispatch_state = None,
       history = (\<lambda>_. []), omitted_count = (\<lambda>_. 0), review_lease = RS_Absent,
       submitted_by_agent_id = None, submitted_by_principal_id = None, submitted_at = None,
       submission_notes = None, commit_hash = None, reviewed_by_agent_id = None,
       last_review_released_by_agent_id = None, rejection_count = 0, progress = None,
       progress_updated_at = None, work_attempt = None, abandoned_count = 0,
       last_abandoned_by = None, last_abandoned_by_name = None, last_abandoned_at = None,
       unclaimed = \<lparr> u_agent_id = None, u_principal_id = None, u_at = None \<rparr>, summary = None,
       files_changed = [], test_output = None, branch = None, submission_preflight = None, last_verdict = None,
       fix_instructions = None, workflow_blocker = None, annotations = [], annotations_omitted_count = 0, coordinator_assignment = None, cancellation = None,
       human_request = None, model_usage = None, runtime_model_usage = None \<rparr>"

definition sample_seat :: "string \<Rightarrow> string \<Rightarrow> string \<Rightarrow> seat" where
  "sample_seat a p r =
     \<lparr> agent_id = a, agent_name = a, agent_platform = ''x'', principal_id = p, role = r,
       lifecycle_status = ''active'', lifecycle_changed_at = None, lifecycle_reason = None,
       lifecycle_changed_by_agent_id = None, capabilities_explicit = True, caps = None,
       capabilities_updated_at = None, seat_readiness = None, readiness_updated_at = None, last_activity_at = T_Instant 0, joined_at = T_Instant 0,
       last_offered_at = None, last_work_at = None, handed_off_at = None, membership_role = None,
       scopes = [] \<rparr>"

definition sample_membership :: "string \<Rightarrow> membership" where
  "sample_membership r = \<lparr> pm_role = r, pm_source = ''invite'', pm_created_at = 0,
     pm_updated_at = 0, pm_created_by = ''p0'', pm_updated_by = None, pm_upgrade_source = None \<rparr>"

definition sample_policy :: policy where
  "sample_policy = \<lparr> offer_ttl_s = 120, broadcast_reoffer_s = 600, second_opinion = True,
     fallback_broadcast = True, default_tier = None, worker_models_by_tier = [] \<rparr>"

definition sample_config :: config where
  "sample_config = \<lparr> claim_ttl_s = 900, stale_after_days = 30, inline_history_limit = 2,
     review_policy = ''strict'', ticket_progress_v1 = False, dispatch_policy = sample_policy \<rparr>"

definition sample_world :: "ticket list \<Rightarrow> world" where
  "sample_world ts =
     \<lparr> brd = \<lparr> board_id = ''b'', cfg = sample_config,
              members = [(''w1'', sample_seat ''w1'' ''p1'' ''worker''),
                         (''r1'', sample_seat ''r1'' ''p2'' ''reviewer'')],
              principal_memberships = [(''p1'', sample_membership ''member''),
                                       (''p2'', sample_membership ''reviewer'')],
              tickets = map (\<lambda>t. (ticket_id t, t)) ts,
              next_annotation_seq = 1, scrub_profile = ''strict'', scrub_allow_counts = [],
              last_scrub_allow = None \<rparr>,
       history_overflow = (\<lambda>_ _. []), active_listeners = (\<lambda>_. []),
       last_seen_activity = (\<lambda>_. None) \<rparr>"

definition sample_review_lease :: "string \<Rightarrow> epoch_val option \<Rightarrow> review_lease" where
  "sample_review_lease a e =
     \<lparr> reviewer_agent_id = Some a, reviewer_agent_name = Some a, reviewer_principal_id = Some ''p2'',
       rl_claimed_at = Some 0, rl_ttl_s = Some 900, expires_at_epoch = e,
       expires_at = T_Null, renewed_at = None, renewal_source = None, last_model_renewed_at = None,
       keepalive_only_since = None \<rparr>"

definition open_ticket :: ticket where
  "open_ticket = sample_ticket ''T1'' ''open''"

definition submitted_ticket :: ticket where
  "submitted_ticket = (sample_ticket ''T2'' ''submitted'')
     \<lparr>submitted_by_agent_id := Some ''w1'', submitted_by_principal_id := Some ''p1''\<rparr>"

definition claimed_ticket :: ticket where
  "claimed_ticket = (sample_ticket ''T3'' ''claimed'')
     \<lparr>work := no_work_lease\<lparr>claimed_by_agent_id := Some ''w1'', claimed_by := Some ''w1'',
        claimed_by_principal_id := Some ''p1'', lease_expires_at_epoch := E_Num (secs 900),
        lease_expires_at := T_Instant (secs 900)\<rparr>\<rparr>"

definition board_one :: world where
  "board_one = sample_world [open_ticket, submitted_ticket]"

lemmas sample_defs = sample_ticket_def sample_seat_def sample_membership_def sample_policy_def
  sample_config_def sample_world_def sample_review_lease_def open_ticket_def submitted_ticket_def
  claimed_ticket_def board_one_def

subsection \<open>Evaluating a dispatch of the sample board\<close>

lemmas seat_evals = matches_requirements_iff agent_matches_def member_capabilities_def
  default_capabilities_def role_defaults_def required_tier_def default_ticket_tier_def
  worker_model_matches_def member_dispatch_ready_def dvalues_def

lemmas busy_evals = agent_is_busy_def anyE_False busy_on_def work_commitment_def
  review_commitment_def offer_commitment_def no_work_lease_def

lemmas live_evals = seat_is_live_def is_agent_live_def secs_def agent_has_active_listener_def

lemma sample_board_ok: "board_ok board_one"
  by (simp add: board_ok_def sample_defs dict_ok_def dkeys_def get_ticket_def get_member_def)

lemma sample_exclusive: "seats_exclusive board_one 5"
  by (simp add: seats_exclusive_def sample_defs get_ticket_def occupies_def work_commitment_def
      review_commitment_def offer_commitment_def no_work_lease_def)

lemma sample_reconcile:
  "reconcile_inactive_work_ownership 5 (board_one, open_ticket) = (board_one, open_ticket)"
  by (simp add: reconcile_inactive_work_ownership_def work_ownership_needs_reconcile_def
      has_work_lease_fields_def sample_defs)

lemma sample_not_blocked: "\<not> dispatch_blocked board_one open_ticket 5 Work"
  by (simp add: dispatch_blocked_def wanted_status_def inactive_work_ownership_is_ambiguous_def
      live_offer_def sample_defs dispatch_enabled_def dvalues_def has_work_lease_fields_def)

lemma sample_requeue: "broadcast_requeue board_one open_ticket 5 Work = Some (board_one, open_ticket, 0, False)"
  by (simp add: broadcast_requeue_def is_broadcast_def sample_defs)

lemma sample_fallback: "fallback_step board_one open_ticket 5 Work 0 = Inr (open_ticket, 0)"
  by (simp add: fallback_step_def sample_defs DEFAULT_FALLBACK_AFTER_OFFERS_def)

lemma sample_eligible:
  "dispatch_candidate_is_eligible board_one open_ticket (sample_seat ''w1'' ''p1'' ''worker'') 5 Work = Inr True"
  by (simp add: eligible_iff seat_evals busy_evals live_evals sample_defs)

lemma sample_not_eligible:
  "dispatch_candidate_is_eligible board_one open_ticket (sample_seat ''r1'' ''p2'' ''reviewer'') 5 Work = Inr False"
  by (simp add: dispatch_candidate_is_eligible_def seat_evals sample_defs)

lemma sample_candidates:
  "dispatch_candidates board_one open_ticket 5 Work = Inr [(''w1'', sample_seat ''w1'' ''p1'' ''worker'')]"
proof -
  have m: "members (brd board_one) = [(''w1'', sample_seat ''w1'' ''p1'' ''worker''),
             (''r1'', sample_seat ''r1'' ''p2'' ''reviewer'')]"
    by (simp add: board_one_def sample_world_def)
  have h: "expired_for_this_ticket board_one open_ticket Work = []"
    by (simp add: expired_for_this_ticket_def full_dispatch_history_def dispatch_entries_def sample_defs)
  show ?thesis
    by (simp add: dispatch_candidates_def m h sample_eligible sample_not_eligible)
qed

lemma sample_dispatch_pass:
  "dispatch_pass board_one open_ticket 5 Work None =
     Inr (make_offer board_one open_ticket 5 Work None [(''w1'', sample_seat ''w1'' ''p1'' ''worker'')])"
  by (simp add: dispatch_pass_def sample_reconcile sample_not_blocked sample_requeue sample_fallback
      sample_candidates narrow_candidates_def)

lemma sample_dispatch:
  "\<exists>w' t'. dispatch_ticket board_one open_ticket 5 Work None =
     Inr (w', t', Some (Offered ''T1'' Work ''w1'' ''w1'' (5 + secs 120) 120 [''w1'']))"
proof -
  have "\<exists>w' t'. make_offer board_one open_ticket 5 Work None [(''w1'', sample_seat ''w1'' ''p1'' ''worker'')]
      = Finished w' t' (Some (Offered ''T1'' Work ''w1'' ''w1'' (5 + secs 120) 120 [''w1'']))"
    by (simp add: make_offer_def Let_def sample_defs split: prod.split)
  then show ?thesis
    by (subst dispatch_ticket.simps) (auto simp: sample_dispatch_pass)
qed

subsection \<open>Reaping a lapsed work lease\<close>

definition lapsed_board :: world where
  "lapsed_board = sample_world [claimed_ticket]"

lemma lapsed_keys: "dkeys (members (brd lapsed_board)) = [''w1'', ''r1'']"
    "dkeys (tickets (brd lapsed_board)) = [''T3'']"
  by (simp_all add: lapsed_board_def sample_defs dkeys_def)

lemma lapsed_members:
  "get_member lapsed_board ''w1'' = Some (sample_seat ''w1'' ''p1'' ''worker'')"
  "get_member lapsed_board ''r1'' = Some (sample_seat ''r1'' ''p2'' ''reviewer'')"
  by (simp_all add: get_member_def lapsed_board_def sample_world_def)

lemma lapsed_not_stale: "\<not> member_is_stale lapsed_board (sample_seat a p r) (secs 1000)"
  by (simp add: member_is_stale_def member_last_activity_epoch_def lapsed_board_def sample_defs secs_def)

lemma lapsed_auto_stale: "auto_stale_members lapsed_board (secs 1000) rd = Inr (lapsed_board, [])"
  by (simp add: auto_stale_members_def lapsed_keys stale_member_def lapsed_members lapsed_not_stale)

lemma claimed_ticket_simps:
  "offers claimed_ticket = (\<lambda>_. None)" "review_lease claimed_ticket = RS_Absent"
  "status claimed_ticket = ''claimed''" "pre_submission claimed_ticket"
  "ticket_id claimed_ticket = ''T3''" "progress claimed_ticket = None"
  "work_attempt claimed_ticket = None" "lease_expires_at_epoch (work claimed_ticket) = E_Num (secs 900)"
  by (simp_all add: claimed_ticket_def sample_ticket_def pre_submission_iff)

lemma lapsed_get: "get_ticket lapsed_board ''T3'' = Some claimed_ticket"
  by (simp add: get_ticket_def lapsed_board_def sample_world_def claimed_ticket_simps)

definition reaped_ticket :: ticket where
  "reaped_ticket = (abandon_work (secs 1000) claimed_ticket)\<lparr>work := no_work_lease\<rparr>"

lemma lapsed_reap:
  "\<exists>evs. reap_expired lapsed_board (secs 1000) False = Inr (put_ticket ''T3'' reaped_ticket lapsed_board, evs)"
proof -
  have p: "\<not> ticket_progress_v1 (cfg (brd lapsed_board))" by (simp add: lapsed_board_def sample_defs)
  have n: "\<not> work_ownership_needs_reconcile claimed_ticket (secs 1000)"
    by (simp add: work_ownership_needs_reconcile_def inactive_status_def TERMINAL_TICKET_STATES_def
        claimed_ticket_simps)
  have a: "progress (abandon_work (secs 1000) claimed_ticket) = None"
      "work_attempt (abandon_work (secs 1000) claimed_ticket) = None"
    by (simp_all add: abandon_work_def Let_def claimed_ticket_simps)
  have "\<exists>evs. reap_ticket (secs 1000) False rc ''T3'' (lapsed_board, []) =
      Inr (put_ticket ''T3'' reaped_ticket lapsed_board, evs)" for rc
    by (simp add: reap_ticket_def lapsed_get reconcile_inactive_work_ownership_def n
        expire_dispatch_offers_def expire_offer_def claimed_ticket_simps reap_review_def
        review_lease_lapsed_def reap_work_def work_lease_lapsed_def reset_ticket_progress_def p a
        and_dispatch_def reaped_ticket_def)
  then show ?thesis by (auto simp: reap_expired_def lapsed_auto_stale lapsed_keys)
qed

lemma lapsed_board_ok: "board_ok lapsed_board"
  by (simp add: board_ok_def lapsed_board_def sample_defs dict_ok_def dkeys_def get_ticket_def get_member_def)

lemma lapsed_exclusive: "seats_exclusive lapsed_board now"
  by (simp add: seats_exclusive_def lapsed_board_def sample_world_def get_ticket_def)

end
