(* ===== verification/Dispatch_Properties.thy ===== *)
theory Dispatch_Properties
  imports Sample_Board
begin

section \<open>Properties of the dispatcher and the reaper\<close>

text \<open>
  The properties of dispatch, expiry, redispatch and reaping, each with a witness on the sample
  board where it has hypotheses.
\<close>

subsection \<open>The offer a dispatch reports\<close>

lemma dispatch_ticket_offer:
  assumes "dispatch_ticket w t now k p = Inr (w', t', Some (Offered tid k' a nm e ttl rc))"
  shows "\<exists>w2 t2 p2 cs. quiet w t w2 t2 \<and> cs \<noteq> [] \<and>
     (\<forall>key m. (key, m) \<in> set cs \<longrightarrow> (key, m) \<in> set (members (brd w2)) \<and> fits w2 t2 now k m) \<and>
     make_offer w2 t2 now k p2 cs = Finished w' t' (Some (Offered tid k' a nm e ttl rc))"
  using assms
proof (induction w t now k p rule: dispatch_ticket.induct)
  case (1 w t now k p)
  from "1.prems" obtain o' where o': "dispatch_pass w t now k p = Inr o'"
    by (subst (asm) dispatch_ticket.simps) auto
  from o' show ?case
  proof (cases rule: dispatch_pass_cases)
    case (quiet w1 t1 ev)
    with "1.prems" o' show ?thesis by (subst (asm) dispatch_ticket.simps) auto
  next
    case (again w1 t1)
    with "1.prems" o' have "dispatch_ticket w1 t1 now k None = Inr (w', t', Some (Offered tid k' a nm e ttl rc))"
      by (subst (asm) dispatch_ticket.simps) simp
    from "1.IH" [OF o' again(1) this] again(2) show ?thesis by (blast intro: quiet_trans)
  next
    case (offer w2 t2 cs0)
    let ?cs = "narrow_candidates (brd w2) t2 k p cs0"
    obtain w3 t3 ev where mo: "make_offer w2 t2 now k p ?cs = Finished w3 t3 ev"
      using make_offer_Finished by blast
    with "1.prems" o' offer(5) have "w3 = w'" "t3 = t'" "ev = Some (Offered tid k' a nm e ttl rc)"
      by (subst (asm) dispatch_ticket.simps, simp)+
    moreover have "(key, m) \<in> set ?cs \<Longrightarrow> (key, m) \<in> set (members (brd w2)) \<and> fits w2 t2 now k m" for key m
      using narrow_candidates_set [of "brd w2" t2 k p cs0] dispatch_candidates_set(1,2) [OF offer(2)]
      by blast
    ultimately show ?thesis using offer(1,4) mo by blast
  qed
qed

text \<open>
  C10: whatever \<open>dispatch_ticket\<close> announces as offered is really offered, to a member that meets
  the requirements of the ticket as it stands afterwards, is ready, live and busy on no other
  ticket, and the offer expires exactly the configured number of seconds later.
\<close>

theorem dispatch_offer_sound:
  assumes "dispatch_ticket w t now k p = Inr (w', t', Some (Offered tid k' a nm e ttl rc))"
  shows "tid = ticket_id t \<and> k' = k \<and> rc = [a] \<and> ttl = offer_ttl_s (policy_of (brd w)) \<and>
    e = now + secs ttl \<and>
    (\<exists>off. offers t' k = Some off \<and> o_agent_id off = a \<and> o_kind off = k \<and>
       o_ticket_id off = tid \<and> o_expires_at_epoch off = e) \<and>
    (\<exists>key m. (key, m) \<in> set (members (brd w)) \<and> agent_id m = a \<and>
       dispatch_member_matches_requirements (brd w) t' m k \<and> member_dispatch_ready m now \<and>
       agent_is_busy w a now tid = Inr False \<and> seat_is_live w m now)"
proof -
  from dispatch_ticket_offer [OF assms] obtain w2 t2 p2 cs where q: "quiet w t w2 t2" and ne: "cs \<noteq> []"
    and sub: "\<And>key m. (key, m) \<in> set cs \<Longrightarrow> (key, m) \<in> set (members (brd w2)) \<and> fits w2 t2 now k m"
    and mo: "make_offer w2 t2 now k p2 cs = Finished w' t' (Some (Offered tid k' a nm e ttl rc))"
    by blast
  have "set cs \<subseteq> set (members (brd w2))" using sub by auto
  from make_offer_cases [OF mo ne this] obtain key m where c: "(key, m) \<in> set cs"
    and off: "offers t' = (offers t2)(k := Some (new_offer w2 t2 now k m))"
    and ev: "Some (Offered tid k' a nm e ttl rc) = Some (Offered (ticket_id t2) k (agent_id m) (agent_name m)
              (now + secs (offer_ttl_s (policy_of (brd w2)))) (offer_ttl_s (policy_of (brd w2)))
              [agent_id m])"
    and s: "same_ticket t2 t'"
    and r: "assigned_to_agent_id t' = assigned_to_agent_id t2" "assigned_to t' = assigned_to t2"
      "tier t' = tier t2" "skills_required t' = skills_required t2" "exclude_agents t' = exclude_agents t2"
    by metis
  have b: "brd w2 = brd w" "ticket_id t2 = ticket_id t" "same_service w w2"
    using q quiet_same_service [OF q] by (simp_all add: quiet_def same_ticket_def same_record_def)
  have "fits w t' now k m"
    using sub [OF c] fits_ticket [OF r(1,2,5,3,4) s] fits_world [OF b(3)] b(1) by simp
  moreover have "ticket_id t' = ticket_id t" using s b(2) by (simp add: same_ticket_def same_record_def)
  moreover have "(key, m) \<in> set (members (brd w))" using sub [OF c] b(1) by simp
  ultimately show ?thesis
    using ev off b by (auto simp: new_offer_def fits_def)
qed

theorem dispatch_offer_sound_witness:
  "\<exists>t' :: ticket. (\<exists>off. offers t' Work = Some off \<and> o_agent_id off = ''w1'') \<and>
     agent_is_busy board_one ''w1'' 5 ''T1'' = Inr False \<and> ticket_id open_ticket = ''T1''"
proof -
  from sample_dispatch obtain w' t' where d: "dispatch_ticket board_one open_ticket 5 Work None =
      Inr (w', t', Some (Offered ''T1'' Work ''w1'' ''w1'' (5 + secs 120) 120 [''w1'']))" by blast
  from dispatch_offer_sound [OF d] show ?thesis by (intro exI [of _ t']) auto
qed

text \<open>
  The offer goes to the best of the candidates in the order of the source (preferred seat,
  listening seat, preferred by the ticket, closest tier, offered longest ago, worked longest ago,
  agent id), and making it changes nothing of the document but that seat's \<open>last_offered_at\<close>.
\<close>

theorem make_offer_minimal:
  assumes "cs \<noteq> []" and "set cs \<subseteq> set (members (brd w))"
  shows "\<exists>key m w' t' ev. make_offer w t now k p cs = Finished w' t' ev \<and> (key, m) \<in> set cs \<and>
     (\<forall>c \<in> set cs. candidate_key w t p (key, m) \<le> candidate_key w t p c) \<and>
     offers t' = (offers t)(k := Some (new_offer w t now k m)) \<and>
     brd w' = brd (put_member key (m\<lparr>last_offered_at := Some now\<rparr>) w) \<and>
     work t' = work t \<and> review_lease t' = review_lease t \<and> status t' = status t"
proof -
  obtain w' t' ev where mo: "make_offer w t now k p cs = Finished w' t' ev"
    using make_offer_Finished by blast
  obtain key m where c: "(key, m) \<in> set cs"
    and min: "\<And>c. c \<in> set cs \<Longrightarrow> candidate_key w t p (key, m) \<le> candidate_key w t p c"
    and off: "offers t' = (offers t)(k := Some (new_offer w t now k m))"
    and b: "brd w' = brd (put_member key (m\<lparr>last_offered_at := Some now\<rparr>) w)"
    and s: "same_ticket t t'" "work t' = work t"
    by (rule make_offer_cases [OF mo assms]) blast
  then show ?thesis
    using mo by (intro exI [of _ key] exI [of _ m] exI [of _ w'] exI [of _ t'] exI [of _ ev])
      (auto simp: same_ticket_def same_record_def)
qed

theorem make_offer_minimal_witness:
  "\<exists>key m. (key, m) \<in> set (members (brd board_one)) \<and>
     candidate_key board_one open_ticket None (key, m)
       \<le> candidate_key board_one open_ticket None (''r1'', sample_seat ''r1'' ''p2'' ''reviewer'')"
  using make_offer_minimal [of "members (brd board_one)" board_one open_ticket 5 Work None]
  by (auto simp: board_one_def sample_world_def)

subsection \<open>Twin definitions agree\<close>

lemma concatE_results:
  "concatE f xs = Inr ys \<Longrightarrow> x \<in> set xs \<Longrightarrow> \<exists>zs. f x = Inr zs \<and> (ys = [] \<longrightarrow> zs = [])"
  by (induction xs arbitrary: ys) auto

lemma concatE_nonempty:
  "concatE f xs = Inr ys \<Longrightarrow> ys \<noteq> [] \<Longrightarrow> \<exists>x \<in> set xs. \<exists>zs. f x = Inr zs \<and> zs \<noteq> []"
proof (induction xs arbitrary: ys)
  case (Cons x xs)
  then obtain as bs where "f x = Inr as" "concatE f xs = Inr bs" "ys = as @ bs" by auto
  with Cons show ?case by (cases "as = []") auto
qed simp

lemma anyE_cong: "(\<And>x. x \<in> set xs \<Longrightarrow> p x = Inr (q x)) \<Longrightarrow> anyE p xs = Inr (\<exists>x \<in> set xs. q x)"
  by (induction xs) auto

lemma conflicts_on_busy:
  "conflicts_on c a now = Inr cs \<Longrightarrow> busy_on c a now = Inr (cs \<noteq> [])"
  by (cases "review_commitment c a now")
    (auto simp: conflicts_on_def busy_on_def Let_def offer_commitment_def split: option.splits if_splits)

lemma sort_key_Nil_iff [simp]: "sort_key f xs = [] \<longleftrightarrow> xs = []"
  by (metis length_0_conv length_sort)

lemma busy_report:
  assumes "agent_busy_conflicts w a now excluding = Inr cs"
  shows "agent_is_busy w a now excluding = Inr (cs \<noteq> [])"
proof -
  let ?f = "\<lambda>c. if ticket_id c = excluding then Inr [] else conflicts_on c a now"
  let ?ts = "dvalues (tickets (brd w))"
  from assms obtain ys where ys: "concatE ?f ?ts = Inr ys" and cs: "(cs \<noteq> []) = (ys \<noteq> [])"
    by (auto simp: agent_busy_conflicts_def sort_key_Nil_iff)
  define q where "q = (\<lambda>c. case ?f c of Inr zs \<Rightarrow> zs \<noteq> [] | Inl _ \<Rightarrow> False)"
  have "(if ticket_id c = excluding then Inr False else busy_on c a now) = Inr (q c)"
    if "c \<in> set ?ts" for c
  proof -
    obtain zs where "?f c = Inr zs" using concatE_results [OF ys \<open>c \<in> set ?ts\<close>] by blast
    then show ?thesis using conflicts_on_busy by (auto simp: q_def split: if_splits)
  qed
  then have "agent_is_busy w a now excluding = Inr (\<exists>c \<in> set ?ts. q c)"
    unfolding agent_is_busy_def by (rule anyE_cong)
  moreover have "(\<exists>c \<in> set ?ts. q c) = (ys \<noteq> [])"
  proof
    have q: "q c \<longleftrightarrow> (\<exists>zs. ?f c = Inr zs \<and> zs \<noteq> [])" for c
      by (simp add: q_def split: sum.split)
    show "ys \<noteq> []" if "\<exists>c \<in> set ?ts. q c"
      using that concatE_results [OF ys] unfolding q by (metis sum.inject(2))
    show "\<exists>c \<in> set ?ts. q c" if "ys \<noteq> []"
      using concatE_nonempty [OF ys that] unfolding q .
  qed
  ultimately show ?thesis using cs by simp
qed

text \<open>
  The boolean busy check and the conflict report agree: whenever the report can be made, the
  seat is busy exactly when the report names a conflict.
\<close>

theorem busy_iff_conflicts:
  assumes "agent_busy_conflicts w a now excluding = Inr cs"
  shows "agent_is_busy w a now excluding = Inr (cs \<noteq> [])"
  by (rule busy_report [OF assms])

lemma sample_conflicts:
  "agent_busy_conflicts (sample_world [claimed_ticket]) ''w1'' 5 ''T1'' =
     Inr [\<lparr>bc_ticket_id = ''T3'', bc_kind = ''work_lease'', bc_status = ''claimed'',
           bc_expires_at_epoch = E_Num (secs 900)\<rparr>]"
  by (simp add: agent_busy_conflicts_def conflicts_on_def busy_evals pre_submission_iff dvalues_def
      sample_defs Let_def)

theorem busy_iff_conflicts_witness:
  "agent_is_busy (sample_world [claimed_ticket]) ''w1'' 5 ''T1'' = Inr True"
  using busy_iff_conflicts [OF sample_conflicts] by simp

lemma when_empty: "((if c then [x] else []) = []) \<longleftrightarrow> \<not> c"
  by simp

text \<open>
  C11: the claim diagnostics and the dispatcher judge alike: a seat is an eligible candidate
  exactly when the diagnostics list no failure.
\<close>

theorem diagnostics_agree:
  assumes "dispatch_claim_diagnostics w t m now k = Inr d"
  shows "dispatch_candidate_is_eligible w t m now k = Inr (dg_failures d = [])"
proof -
  from assms obtain cs where cs: "agent_busy_conflicts w (agent_id m) now (ticket_id t) = Inr cs"
    by (cases "agent_busy_conflicts w (agent_id m) now (ticket_id t)") (simp_all add: dispatch_claim_diagnostics_def Let_def split del: if_split)
  let ?pm = "dget (principal_memberships (brd w)) (principal_id m)"
  let ?c = "member_capabilities m"
  have missing: "(filter (\<lambda>s. s \<notin> set (skills ?c)) (skills_required t) = []) \<longleftrightarrow>
      set (skills_required t) \<subseteq> set (skills ?c)"
    by (auto simp: filter_empty_conv)
  have "(dg_failures d = []) \<longleftrightarrow>
      dispatch_member_matches_requirements (brd w) t m k \<and> cs = [] \<and>
      member_dispatch_ready m now \<and> seat_is_live w m now"
  proof (cases ?pm)
    case None
    then have "dg_failures d \<noteq> []"
      using assms [symmetric]
      by (simp add: dispatch_claim_diagnostics_def Let_def cs split del: if_split)
    with None show ?thesis by (simp add: matches_requirements_iff)
  next
    case (Some pm)
    show ?thesis
    proof (cases k)
      case Work
      have "(dg_failures d = []) \<longleftrightarrow>
          lifecycle_status m = ''active'' \<and>
          (if assigned_to_agent_id t = None \<and> truthy (assigned_to t)
           then assignment_matches m (the (assigned_to t))
           else assigned_to_agent_id t = None \<or> assigned_to_agent_id t = Some (agent_id m)) \<and>
          \<not> agent_matches (exclude_agents t) m \<and> capabilities_explicit m \<and>
          role m \<notin> {''coordinator'', ''orchestrator''} \<and>
          \<not> tier_max ?c < required_tier (brd w) t \<and> worker_model_matches (brd w) t m k \<and>
          set (skills_required t) \<subseteq> set (skills ?c) \<and> can_work ?c \<and> cs = [] \<and>
          member_dispatch_ready m now \<and> seat_is_live w m now"
        using assms [symmetric]
        by (simp add: dispatch_claim_diagnostics_def Let_def cs Some missing when_empty
            remdups_eq_nil_iff Work split del: if_split)
      then show ?thesis
        unfolding matches_requirements_iff Some Work by auto
    next
      case Review
      have "(dg_failures d = []) \<longleftrightarrow>
          lifecycle_status m = ''active'' \<and>
          \<not> agent_matches (exclude_agents t) m \<and> capabilities_explicit m \<and>
          \<not> tier_max ?c < required_tier (brd w) t \<and> worker_model_matches (brd w) t m k \<and>
          set (skills_required t) \<subseteq> set (skills ?c) \<and> can_review ?c \<and>
          pm_role pm \<in> {''admin'', ''reviewer''} \<and> submitted_by_agent_id t \<noteq> Some (agent_id m) \<and>
          \<not> (review_policy (cfg (brd w)) = ''strict'' \<and>
             submitted_by_principal_id t = Some (principal_id m)) \<and> cs = [] \<and>
          member_dispatch_ready m now \<and> seat_is_live w m now"
        using assms [symmetric]
        by (simp add: dispatch_claim_diagnostics_def Let_def cs Some missing when_empty
            remdups_eq_nil_iff Review split del: if_split)
      then show ?thesis
        unfolding matches_requirements_iff Some Review by auto
    qed
  qed
  then show ?thesis
    by (auto simp: dispatch_candidate_is_eligible_def busy_report [OF cs])
qed

lemma sample_diagnostics:
  "\<exists>d. dispatch_claim_diagnostics board_one open_ticket (sample_seat ''w1'' ''p1'' ''worker'') 5 Work = Inr d"
proof -
  have "agent_busy_conflicts board_one ''w1'' 5 ''T1'' = Inr []"
    by (simp add: agent_busy_conflicts_def conflicts_on_def busy_evals pre_submission_iff dvalues_def
        sample_defs Let_def)
  moreover have "agent_id (sample_seat ''w1'' ''p1'' ''worker'') = ''w1''" "ticket_id open_ticket = ''T1''"
    by (simp_all add: sample_defs)
  ultimately show ?thesis by (simp add: dispatch_claim_diagnostics_def Let_def split del: if_split)
qed

theorem diagnostics_agree_witness:
  "\<exists>d. dispatch_claim_diagnostics board_one open_ticket (sample_seat ''w1'' ''p1'' ''worker'') 5 Work = Inr d
     \<and> dg_failures d = []"
proof -
  from sample_diagnostics obtain d where
    d: "dispatch_claim_diagnostics board_one open_ticket (sample_seat ''w1'' ''p1'' ''worker'') 5 Work = Inr d"
    by blast
  from diagnostics_agree [OF d] d show ?thesis by (simp add: sample_eligible)
qed

subsection \<open>Exclusive seats\<close>

text \<open>Occupation only lapses as time passes.\<close>

lemma expiration_ambiguous_antimono:
  "review_lease_expiration_is_ambiguous s now' \<Longrightarrow> now \<le> now' \<Longrightarrow>
     review_lease_expiration_is_ambiguous s now"
  by (auto simp: review_lease_expiration_is_ambiguous_def Let_def split: review_slot.splits
      option.splits if_splits)

lemma lifecycle_ambiguous_antimono:
  assumes "inactive_lifecycle_has_ambiguous_live_lease t now'" "now \<le> now'"
  shows "inactive_lifecycle_has_ambiguous_live_lease t now"
proof (cases "text_epoch (lease_expires_at (work t))")
  case None
  then show ?thesis by (simp add: inactive_lifecycle_has_ambiguous_live_lease_def Let_def)
next
  case (Some p)
  show ?thesis
    using assms expiration_ambiguous_antimono [of "review_lease t" now' now]
    by (cases "finite_epoch (lease_expires_at_epoch (work t))"; cases p)
      (auto simp: inactive_lifecycle_has_ambiguous_live_lease_def Let_def Some split: if_splits)
qed

lemma float_gt_antimono: "float_gt f now' \<Longrightarrow> now \<le> now' \<Longrightarrow> float_gt f now"
  by (cases f) auto

lemma occupies_antimono:
  assumes "occupies t a now'" "now \<le> now'"
  shows "occupies t a now"
proof -
  have "work_commitment t a now' \<Longrightarrow> work_commitment t a now"
    using lifecycle_ambiguous_antimono assms(2)
    by (auto simp: work_commitment_def inactive_work_ownership_is_ambiguous_def)
  moreover have "review_commitment t a now' = Inr True \<Longrightarrow> review_commitment t a now = Inr True"
    using float_gt_antimono assms(2) by (auto simp: review_commitment_def split: review_slot.splits if_splits)
  moreover have "offer_commitment t a now' k \<Longrightarrow> offer_commitment t a now k" for k
    using assms(2) by (auto simp: offer_commitment_def split: option.splits)
  ultimately show ?thesis using assms(1) by (auto simp: occupies_def)
qed

lemma seats_exclusive_later:
  "seats_exclusive w now \<Longrightarrow> now \<le> now' \<Longrightarrow> seats_exclusive w now'"
  unfolding seats_exclusive_def using occupies_antimono by blast

text \<open>
  Dispatching a stored ticket never books a seat twice: if before the call every seat is
  occupied by at most one ticket (a work lease, a live review lease or a live offer), so it is
  afterwards, at that time and at every later one.
\<close>

theorem dispatch_keeps_seats_exclusive:
  assumes "dispatch_stored now k p key (w, evs) = Inr (w', evs')"
    and "board_ok w" and "seats_exclusive w now" and "now \<le> now'"
  shows "board_ok w' \<and> seats_exclusive w' now'"
  using dispatch_stored_move [OF assms(1)] stored_move_safe [of now key w w'] assms(2-4)
  by (auto simp: safe_world_def intro: seats_exclusive_later)

theorem dispatch_keeps_seats_exclusive_witness:
  "\<exists>w' evs. dispatch_stored 5 Work None ''T1'' (board_one, []) = Inr (w', evs) \<and> evs \<noteq> [] \<and>
     seats_exclusive w' 7"
proof -
  have g: "get_ticket board_one ''T1'' = Some open_ticket"
    by (simp add: get_ticket_def board_one_def sample_world_def open_ticket_def sample_ticket_def)
  from sample_dispatch obtain w' t' where "dispatch_ticket board_one open_ticket 5 Work None =
      Inr (w', t', Some (Offered ''T1'' Work ''w1'' ''w1'' (5 + secs 120) 120 [''w1'']))" by blast
  with g have d: "dispatch_stored 5 Work None ''T1'' (board_one, []) = Inr (put_ticket ''T1'' t' w',
      [Offered ''T1'' Work ''w1'' ''w1'' (5 + secs 120) 120 [''w1'']])"
    by (simp add: dispatch_stored_def)
  from dispatch_keeps_seats_exclusive [OF d sample_board_ok sample_exclusive, of 7] d show ?thesis
    by auto
qed

text \<open>
  The reaper (stale seats retired, lapsed offers and leases released, the queue redispatched)
  never books a seat twice, and keeps the document well formed and its ticket keys.
\<close>

theorem reap_keeps_seats_exclusive:
  assumes "reap_expired w now rd = Inr (w', evs)"
    and "board_ok w" and "seats_exclusive w now" and "now \<le> now'"
  shows "board_ok w' \<and> seats_exclusive w' now' \<and> dkeys (tickets (brd w')) = dkeys (tickets (brd w))"
  using reap_expired_safe [OF assms(1)] assms(2-4)
  by (auto simp: safe_world_def intro: seats_exclusive_later)

theorem reap_keeps_seats_exclusive_witness:
  "\<exists>w' evs. reap_expired lapsed_board (secs 1000) False = Inr (w', evs) \<and> seats_exclusive w' (secs 1000)"
proof -
  from lapsed_reap obtain evs where r: "reap_expired lapsed_board (secs 1000) False =
      Inr (put_ticket ''T3'' reaped_ticket lapsed_board, evs)" by blast
  from reap_keeps_seats_exclusive [OF r lapsed_board_ok lapsed_exclusive order_refl] r
  show ?thesis by blast
qed

end
