(* ===== verification/Reaper_Properties.thy ===== *)
theory Reaper_Properties
  imports Dispatch_Properties
begin

section \<open>Completeness and totality of the reaper\<close>

text \<open>
  A \<open>ticket_promise\<close> is a fact about a ticket that dispatching, and losing offers, keep; the sweeps
  of the dispatcher then keep it for every ticket of the document.  Two promises are interpreted:
  nothing on the ticket has lapsed (\<open>settled\<close>), and its lease epochs are numbers
  (\<open>epochs_ok\<close>).  From the first: a reap leaves nothing lapsed behind.  From the second: a reap
  cannot raise.
\<close>

subsection \<open>Promises about every ticket\<close>

definition loses_offers :: "ticket \<Rightarrow> ticket \<Rightarrow> bool" where
  "loses_offers t t' \<longleftrightarrow>
     work t' = work t \<and> review_lease t' = review_lease t \<and> status t' = status t \<and>
     (\<forall>k. offers t' k = offers t k \<or> offers t' k = None)"

definition board_all :: "(ticket \<Rightarrow> bool) \<Rightarrow> world \<Rightarrow> bool" where
  "board_all P w \<longleftrightarrow> board_ok w \<and> 0 < offer_ttl_s (policy_of (brd w)) \<and>
     (\<forall>k t. get_ticket w k = Some t \<longrightarrow> P t)"

lemma board_all_put:
  assumes "board_all P w" "get_ticket w key = Some t" "moved now w t w' t'" "P t'"
  shows "board_all P (put_ticket key t' w')"
proof -
  have "safe_world now w (put_ticket key t' w')" by (rule moved_store [OF assms(2,3)])
  moreover have "get_ticket w' = get_ticket w"
    using assms(3) by (simp add: moved_def get_ticket_def fun_eq_iff)
  ultimately show ?thesis using assms(1,4) by (auto simp: board_all_def safe_world_def)
qed

lemma board_all_members:
  assumes "board_all P w" "tickets (brd w') = tickets (brd w)" "safe_world now w w'"
  shows "board_all P w'"
  using assms by (auto simp: board_all_def safe_world_def get_ticket_def)

locale ticket_promise =
  fixes good :: "time \<Rightarrow> ticket \<Rightarrow> bool"
  assumes dispatched_good: "dispatched now k w t w' t' \<Longrightarrow>
      0 < offer_ttl_s (policy_of (brd w)) \<Longrightarrow> good now t \<Longrightarrow> good now t'"
    and loses_good: "loses_offers t t' \<Longrightarrow> good now t \<Longrightarrow> good now t'"
begin

lemma dispatch_stored_good:
  assumes "dispatch_stored now k p key s = Inr s'" and "board_all (good now) (fst s)"
  shows "board_all (good now) (fst s')"
proof (cases "get_ticket (fst s) key")
  case None
  with assms show ?thesis by (simp add: dispatch_stored_def)
next
  case (Some t)
  with assms(1) obtain w' t' ev where d: "dispatch_ticket (fst s) t now k p = Inr (w', t', ev)"
    and s': "fst s' = put_ticket key t' w'"
    by (auto simp: dispatch_stored_def)
  note dd = dispatch_ticket_dispatched [OF d]
  have "good now t'" using dispatched_good [OF dd] assms(2) Some by (auto simp: board_all_def)
  then show ?thesis unfolding s' by (rule board_all_put [OF assms(2) Some dispatched_moved [OF dd]])
qed

lemma redispatch_key_good:
  "redispatch_key now key s = Inr s' \<Longrightarrow> board_all (good now) (fst s) \<Longrightarrow> board_all (good now) (fst s')"
  using dispatch_stored_good [of now Work None key s s'] dispatch_stored_good [of now Review None key s s']
  by (auto simp: redispatch_key_def split: option.splits if_splits)

lemma check_offer_good:
  assumes "check_offer now k (w, t, res, evs) = (w', t', res', evs')" "good now t"
  shows "good now t'"
proof -
  have "t' = t \<or> (\<exists>off. t' = withdraw_offer now k off t)"
    using assms(1) by (auto simp: check_offer_def split: option.splits)
  moreover have "loses_offers t (withdraw_offer now k off t)" for off
    by (simp add: loses_offers_def withdraw_offer_def)
  ultimately show ?thesis using assms(2) loses_good by blast
qed

lemma check_ticket_offers_good:
  assumes "board_all (good now) (fst s)"
  shows "board_all (good now) (fst (check_ticket_offers now key s))"
proof -
  obtain w res evs where s: "s = (w, res, evs)" by (metis prod_cases3)
  show ?thesis
  proof (cases "get_ticket w key")
    case None
    with assms show ?thesis by (simp add: check_ticket_offers_def s)
  next
    case (Some t)
    obtain w1 t1 where r: "reconcile_inactive_work_ownership now (w, t) = (w1, t1)" by fastforce
    obtain w2 t2 r2 e2 where c1: "check_offer now Work (w1, t1, res, evs) = (w2, t2, r2, e2)"
      by (metis prod_cases4)
    obtain w3 t3 r3 e3 where c2: "check_offer now Review (w2, t2, r2, e2) = (w3, t3, r3, e3)"
      by (metis prod_cases4)
    have "quiet w t w1 t1" using reconcile_quiet [of w t now] r by simp
    then have "good now t1"
      using dispatched_good [OF quiet_dispatched] assms Some by (auto simp: board_all_def s)
    then have "good now t3" using check_offer_good [OF c1] check_offer_good [OF c2] by blast
    moreover have "moved now w t w3 t3"
      using reconcile_moved [OF r] check_offer_moved [OF c1] check_offer_moved [OF c2] moved_trans
      by blast
    ultimately have "board_all (good now) (put_ticket key t3 w3)"
      using board_all_put [OF _ Some] assms by (simp add: s)
    then show ?thesis by (simp add: check_ticket_offers_def Some s r c1 c2)
  qed
qed

lemma retry_waiting_good:
  assumes "board_all (good now) w"
  shows "board_all (good now) (retry_waiting key w)"
proof (cases "\<exists>t. get_ticket w key = Some t \<and> waits_without_offer t")
  case True
  then obtain t where t: "get_ticket w key = Some t" "waits_without_offer t" by blast
  have "loses_offers t (t\<lparr>dispatch_state := None\<rparr>)" by (simp add: loses_offers_def)
  then have g: "good now (t\<lparr>dispatch_state := None\<rparr>)"
    by (rule loses_good) (use assms t(1) in \<open>simp add: board_all_def\<close>)
  have m: "moved now w t w (t\<lparr>dispatch_state := None\<rparr>)"
    by (rule quiet_moved) (simp add: quiet_def same_ticket_def same_record_def)
  show ?thesis using board_all_put [OF assms t(1) m g] t by (simp add: retry_waiting_def)
qed (use assms in \<open>auto simp: retry_waiting_def split: option.split\<close>)

lemma fold_good:
  assumes "\<And>x s. P s \<Longrightarrow> P (f x s)" "P s"
  shows "P (fold f xs s)"
  using assms(2) by (induction xs arbitrary: s) (simp_all add: assms(1))

lemma reconcile_invalid_good:
  assumes "board_all (good now) w"
  shows "board_all (good now) (fst (reconcile_invalid_dispatch_offers w now))"
proof -
  obtain w1 res evs where f: "fold (check_ticket_offers now) (queue_order w) (w, [], []) = (w1, res, evs)"
    by (metis prod_cases3)
  have w1: "board_all (good now) w1"
    using fold_good [of "\<lambda>s. board_all (good now) (fst s)" "check_ticket_offers now" "(w, [], [])" "queue_order w"]
      check_ticket_offers_good assms f by simp
  then have "board_all (good now) (fold retry_waiting (queue_order w) w1)"
    using fold_good [of "board_all (good now)" retry_waiting] retry_waiting_good by blast
  with w1 f show ?thesis by (simp add: reconcile_invalid_dispatch_offers_def Let_def)
qed

lemma redispatch_queue_good:
  assumes "redispatch_queue w now = Inr (w', evs)" "board_all (good now) w"
  shows "board_all (good now) w'"
proof -
  obtain w1 e1 where r: "reconcile_invalid_dispatch_offers w now = (w1, e1)" by fastforce
  have w1: "board_all (good now) w1" using reconcile_invalid_good [OF assms(2)] r by simp
  show ?thesis
  proof (cases "dispatch_enabled (brd w1)")
    case False
    with assms(1) r w1 show ?thesis by (simp add: redispatch_queue_def)
  next
    case True
    with assms(1) r have f: "foldE (redispatch_key now) (queue_order w1) (w1, e1) = Inr (w', evs)"
      by (simp add: redispatch_queue_def)
    have "board_all (good now) (fst (w', evs))"
      by (rule foldE_invariant [OF f, where P = "\<lambda>s. board_all (good now) (fst s)"])
        (use w1 redispatch_key_good in \<open>simp_all del: split_paired_All\<close>)
    then show ?thesis by simp
  qed
qed

lemma revoke_ticket_good:
  assumes "board_all (good now) (fst s)"
  shows "board_all (good now) (fst (revoke_ticket_offers m now reason key s))"
proof (cases "get_ticket (fst s) key")
  case (Some t)
  let ?s1 = "revoke_offer m now reason Work (t, snd s)"
  let ?t2 = "fst (revoke_offer m now reason Review ?s1)"
  have l: "loses_offers (fst x) (fst (revoke_offer m now reason k x))" for k and x :: "ticket \<times> release list"
    by (simp add: loses_offers_def revoke_offer_def split: option.split)
  have "good now t" using assms Some by (simp add: board_all_def)
  then have g: "good now ?t2"
    using loses_good [OF l [of "(t, snd s)" Work]] loses_good [OF l [of ?s1 Review]] by simp
  have m: "moved now (fst s) t (fst s) ?t2"
    using moved_trans [OF revoke_offer_moved [of now "fst s" "(t, snd s)"] revoke_offer_moved] by simp
  show ?thesis
    using board_all_put [OF assms Some m g]
    by (simp add: revoke_ticket_offers_def Some case_prod_unfold Let_def)
qed (use assms in \<open>simp add: revoke_ticket_offers_def\<close>)

lemma revoke_agent_offers_good:
  "board_all (good now) w \<Longrightarrow> board_all (good now) (fst (revoke_agent_offers w m now reason))"
  using fold_good [of "\<lambda>s. board_all (good now) (fst s)" "revoke_ticket_offers m now reason" "(w, [])"]
    revoke_ticket_good
  by (simp add: revoke_agent_offers_def)

lemma stale_member_good:
  assumes "board_all (good now) (fst s)"
  shows "board_all (good now) (fst (stale_member now key s))"
proof -
  obtain w evs ch where s: "s = (w, evs, ch)" by (metis prod_cases3)
  show ?thesis
  proof (cases "get_member w key")
    case None
    with assms show ?thesis by (simp add: stale_member_def s)
  next
    case (Some m)
    obtain w1 rev where r: "revoke_agent_offers w m now ''agent_stale'' = (w1, rev)" by fastforce
    obtain w2 ev where l: "lifecycle_transition w1 key m now ''stale'' ''inactivity_threshold''
        ''board-reaper'' = (w2, ev)" by fastforce
    have w1: "board_all (good now) w1"
      using revoke_agent_offers_good [of now w m "''agent_stale''"] r assms by (simp add: s)
    have id: "agent_id m = key" using assms Some by (simp add: s board_all_def board_ok_def)
    have "board_all (good now) w2"
    proof (rule board_all_members [OF w1])
      show "tickets (brd w2) = tickets (brd w1)"
        using l by (auto simp: lifecycle_transition_def Let_def split: if_splits)
      show "safe_world now w1 w2"
        using lifecycle_transition_safe [OF id, of now w1 now "''stale''" "''inactivity_threshold''" "''board-reaper''"] l
        by simp
    qed
    with assms show ?thesis by (simp add: stale_member_def s Some r l split: option.split)
  qed
qed

lemma auto_stale_good:
  assumes "auto_stale_members w now rd = Inr (w', evs)" "board_all (good now) w"
  shows "board_all (good now) w'"
proof -
  obtain w1 e ch where f: "fold (stale_member now) (dkeys (members (brd w))) (w, [], False) = (w1, e, ch)"
    by (metis prod_cases3)
  have w1: "board_all (good now) w1"
    using fold_good [of "\<lambda>s. board_all (good now) (fst s)" "stale_member now" "(w, [], False)"
        "dkeys (members (brd w))"] stale_member_good assms(2) f by simp
  from assms(1) f have "w' = w1 \<or> (\<exists>more. redispatch_queue w1 now = Inr (w', more))"
    by (auto simp: auto_stale_members_def split: if_splits)
  with w1 show ?thesis using redispatch_queue_good by blast
qed

end

subsection \<open>Nothing lapsed\<close>

definition offers_live :: "time \<Rightarrow> ticket \<Rightarrow> bool" where
  "offers_live now t \<longleftrightarrow> (\<forall>k off. offers t k = Some off \<longrightarrow> now < o_expires_at_epoch off)"

definition settled :: "time \<Rightarrow> ticket \<Rightarrow> bool" where
  "settled now t \<longleftrightarrow> offers_live now t \<and> \<not> review_lease_lapsed t now \<and>
     work_lease_lapsed t now = Inr False"

lemma review_lease_lapsed_cong:
  assumes "review_lease t' = review_lease t"
  shows "review_lease_lapsed t' now = review_lease_lapsed t now"
  unfolding review_lease_lapsed_def review_lease_is_live_def assms by (rule refl)

lemma work_lease_lapsed_cong:
  "work t' = work t \<Longrightarrow> status t' = status t \<Longrightarrow> work_lease_lapsed t' now = work_lease_lapsed t now"
  by (simp add: work_lease_lapsed_def pre_submission_def)

lemma work_lease_lapsed_none [simp]: "work t = no_work_lease \<Longrightarrow> work_lease_lapsed t now = Inr False"
  by (simp add: work_lease_lapsed_def no_work_lease_def)

lemmas lapsed_congs = review_lease_lapsed_cong work_lease_lapsed_cong

lemma dispatched_offer_live:
  assumes d: "dispatched now k w t w' t'" and ttl: "0 < offer_ttl_s (policy_of (brd w))"
    and l: "\<forall>off. offers t k' = Some off \<longrightarrow> now < o_expires_at_epoch off"
  shows "\<forall>off. offers t' k' = Some off \<longrightarrow> now < o_expires_at_epoch off"
proof (cases "offers t' k' = offers t k'")
  case True
  with l show ?thesis by simp
next
  case False
  with d have "k' = k" by (auto simp: dispatched_def)
  with d False obtain m c where "offers t' k' = Some (new_offer w t now k m\<lparr>o_cycle := c\<rparr>)"
    unfolding dispatched_def by metis
  then show ?thesis using ttl by (simp add: new_offer_def)
qed

lemma dispatched_settled:
  assumes d: "dispatched now k w t w' t'" and ttl: "0 < offer_ttl_s (policy_of (brd w))"
    and s: "settled now t"
  shows "settled now t'"
proof -
  have "same_ticket t t'" and w: "work t' = work t \<or> work t' = no_work_lease"
    using d by (simp_all add: dispatched_def)
  then have e: "review_lease t' = review_lease t" "status t' = status t" by (simp_all add: same_ticket_def same_record_def)
  from w have "work_lease_lapsed t' now = Inr False"
    using s work_lease_lapsed_cong [OF _ e(2)] by (auto simp: settled_def)
  then show ?thesis
    using dispatched_offer_live [OF d ttl] s review_lease_lapsed_cong [OF e(1)]
    by (simp add: settled_def offers_live_def)
qed

interpretation settled: ticket_promise settled
proof
  show "settled now t'" if "loses_offers t t'" "settled now t" for t t' now
  proof -
    have "review_lease t' = review_lease t" "work t' = work t" "status t' = status t"
      using that(1) by (simp_all add: loses_offers_def)
    from lapsed_congs(1) [OF this(1), of now] lapsed_congs(2) [OF this(2,3), of now] that
    show ?thesis by (simp add: settled_def offers_live_def loses_offers_def) (metis option.distinct(1))
  qed
qed (rule dispatched_settled)

text \<open>Reaping one ticket settles it.\<close>

lemma and_dispatch_dispatched:
  assumes "and_dispatch rd now k (w, t, evs) = Inr (w', t', evs')"
  shows "dispatched now k w t w' t'"
  using assms dispatch_ticket_dispatched quiet_dispatched [OF quiet_refl]
  by (auto simp: and_dispatch_def split: if_splits)

text \<open>What a phase of the reaper keeps of the ticket it works on.\<close>

lemma expire_offer_frame:
  assumes "expire_offer now rd k (w, t, evs) = Inr (w', t', evs')" and ttl: "0 < offer_ttl_s (policy_of (brd w))"
  shows "cfg (brd w') = cfg (brd w)"
    and "\<forall>off. offers t' k = Some off \<longrightarrow> now < o_expires_at_epoch off"
    and "k' \<noteq> k \<Longrightarrow> offers t' k' = offers t k'"
proof -
  have *: "cfg (brd w') = cfg (brd w) \<and> (\<forall>off. offers t' k = Some off \<longrightarrow> now < o_expires_at_epoch off) \<and>
      (\<forall>k'. k' \<noteq> k \<longrightarrow> offers t' k' = offers t k')"
  proof (cases "\<exists>off. offers t k = Some off \<and> \<not> now < o_expires_at_epoch off")
    case False
    with assms(1) show ?thesis by (auto simp: expire_offer_def split: option.splits if_splits)
  next
    case True
    then obtain off where off: "offers t k = Some off" "\<not> now < o_expires_at_epoch off" by blast
    obtain w2 t2 e2 where d: "and_dispatch rd now k (w2, t2, e2) = Inr (w', t', evs')"
      and b: "brd w2 = brd w" and o2: "offers t2 = (offers t)(k := None)"
    proof -
      define t1 where "t1 = t\<lparr>offers := (offers t)(k := None),
          last_offered_agent_id := (last_offered_agent_id t)(k := Some (o_agent_id off)),
          offer_expirations := (offer_expirations t)(k := offer_expirations t k + 1)\<rparr>"
      define h where "h = HE_Dispatch ((entry0 ''expired'')
          \<lparr>d_kind := Some k, d_agent_id := Some (o_agent_id off),
           d_agent_name := Some (o_agent_name off), d_at := Some now, d_cycle := Some (o_cycle off)\<rparr>)"
      obtain w2 t2 where ab: "append_bounded_history H_Dispatch h (w, t1) = (w2, t2)" by fastforce
      have "brd w2 = brd w" "offers t2 = (offers t)(k := None)"
        using append_bounded_quiet [OF ab] by (simp_all add: quiet_def t1_def)
      then show ?thesis
        using that assms(1) off ab
        by (simp add: expire_offer_def t1_def [symmetric] h_def [symmetric] Let_def)
    qed
    from and_dispatch_dispatched [OF d] have dd: "dispatched now k w2 t2 w' t'" .
    have "cfg (brd w') = cfg (brd w)" using dd b by (simp add: dispatched_def same_service_def)
    moreover have "\<forall>off. offers t' k = Some off \<longrightarrow> now < o_expires_at_epoch off"
      by (rule dispatched_offer_live [OF dd]) (use ttl b o2 in simp_all)
    moreover have "\<forall>k'. k' \<noteq> k \<longrightarrow> offers t' k' = offers t k'"
      using dd o2 by (simp add: dispatched_def)
    ultimately show ?thesis by blast
  qed
  then show "cfg (brd w') = cfg (brd w)"
    and "\<forall>off. offers t' k = Some off \<longrightarrow> now < o_expires_at_epoch off"
    and "k' \<noteq> k \<Longrightarrow> offers t' k' = offers t k'" by blast+
qed

lemma expire_dispatch_offers_live:
  assumes "expire_dispatch_offers w t now rd = Inr (w', t', evs)" and ttl: "0 < offer_ttl_s (policy_of (brd w))"
  shows "offers_live now t' \<and> cfg (brd w') = cfg (brd w)"
proof -
  from assms(1) obtain w1 t1 e1 where a: "expire_offer now rd Work (w, t, []) = Inr (w1, t1, e1)"
    and b: "expire_offer now rd Review (w1, t1, e1) = Inr (w', t', evs)"
    by (auto simp: expire_dispatch_offers_def)
  note fa = expire_offer_frame [OF a ttl]
  have ttl1: "0 < offer_ttl_s (policy_of (brd w1))" using fa(1) ttl by simp
  note fb = expire_offer_frame [OF b ttl1]
  have "offers t' Work = offers t1 Work" using fb(3) by simp
  then have "\<forall>off. offers t' k = Some off \<longrightarrow> now < o_expires_at_epoch off" for k
    using fa(2) fb(2) by (cases k) auto
  then show ?thesis using fa(1) fb(1) by (simp add: offers_live_def)
qed

lemma reap_work_settles:
  assumes "reap_work now rd rc (w, t, evs) = Inr (w', t', evs')" and ttl: "0 < offer_ttl_s (policy_of (brd w))"
    and o: "offers_live now t" and r: "\<not> review_lease_lapsed t now"
  shows "settled now t'"
proof -
  from assms(1) consider "work_lease_lapsed t now = Inr False" | "work_lease_lapsed t now = Inr True"
    by (cases "work_lease_lapsed t now") (auto simp: reap_work_def)
  then show ?thesis
  proof cases
    case 1
    with assms(1) o r show ?thesis by (auto simp: reap_work_def settled_def)
  next
    case 2
    obtain w1 t1 reset where p: "reset_ticket_progress now ''lease_expired'' (w, abandon_work now t)
        = ((w1, t1), reset)" by (metis prod_cases3 prod.collapse)
    let ?t2 = "t1\<lparr>work := no_work_lease\<rparr>"
    have q: "quiet w (abandon_work now t) w1 t1" by (rule reset_progress_quiet [OF p])
    then have e: "offers t1 = offers t" "review_lease t1 = review_lease t" "brd w1 = brd w"
      by (simp_all add: quiet_def same_ticket_def same_record_def abandon_work_def Let_def)
    obtain e2 where d: "and_dispatch rd now Work (w1, ?t2, e2) = Inr (w', t', evs')"
      using assms(1) 2 p by (auto simp: reap_work_def Let_def)
    have "settled now ?t2"
      using o r review_lease_lapsed_cong [of ?t2 t now] e by (simp add: settled_def offers_live_def)
    then show ?thesis
      using dispatched_settled [OF and_dispatch_dispatched [OF d]] ttl e(3) by simp
  qed
qed

lemma reap_review_settles:
  assumes "reap_review now rd rc (w, t, evs) = Inr (w', t', evs')" and ttl: "0 < offer_ttl_s (policy_of (brd w))"
    and o: "offers_live now t"
  shows "offers_live now t' \<and> \<not> review_lease_lapsed t' now \<and> cfg (brd w') = cfg (brd w)"
proof (cases "review_lease_lapsed t now")
  case False
  with assms show ?thesis by (simp add: reap_review_def)
next
  case True
  let ?t = "t\<lparr>review_lease := RS_Absent, updated_at := Some now\<rparr>"
  from assms(1) True have "and_dispatch rd now Review (w, ?t, evs @ [review_released t rc]) = Inr (w', t', evs')"
    by (simp add: reap_review_def)
  from and_dispatch_dispatched [OF this] have d: "dispatched now Review w ?t w' t'" .
  have o1: "\<forall>off. offers ?t k = Some off \<longrightarrow> now < o_expires_at_epoch off" for k
    using o by (simp add: offers_live_def)
  have "review_lease t' = RS_Absent" using d by (simp add: dispatched_def same_ticket_def same_record_def)
  then have "\<not> review_lease_lapsed t' now" by (simp add: review_lease_lapsed_def)
  moreover have "cfg (brd w') = cfg (brd w)" using d by (simp add: dispatched_def same_service_def)
  ultimately show ?thesis using dispatched_offer_live [OF d ttl o1] by (simp add: offers_live_def)
qed

lemma reap_ticket_settles:
  assumes "reap_ticket now rd rc key s = Inr s'" and ttl: "0 < offer_ttl_s (policy_of (brd (fst s)))"
  shows "\<forall>t. get_ticket (fst s') key = Some t \<longrightarrow> settled now t"
proof (cases "get_ticket (fst s) key")
  case None
  with assms(1) show ?thesis by (simp add: reap_ticket_def)
next
  case (Some t0)
  obtain w1 t1 where r: "reconcile_inactive_work_ownership now (fst s, t0) = (w1, t1)" by fastforce
  from assms(1) obtain w2 t2 e2 w3 t3 e3 w4 t4 e4 where
    e: "expire_dispatch_offers w1 t1 now rd = Inr (w2, t2, e2)"
    and v: "reap_review now rd rc (w2, t2, e2) = Inr (w3, t3, e3)"
    and k: "reap_work now rd rc (w3, t3, e3) = Inr (w4, t4, e4)"
    and s': "fst s' = put_ticket key t4 w4"
    by (auto simp: reap_ticket_def Some r)
  have "brd w1 = brd (fst s)" using reconcile_quiet [of "fst s" t0 now] r by (simp add: quiet_def)
  with ttl have ttl1: "0 < offer_ttl_s (policy_of (brd w1))" by simp
  from expire_dispatch_offers_live [OF e ttl1] ttl1
  have o2: "offers_live now t2" and ttl2: "0 < offer_ttl_s (policy_of (brd w2))" by simp_all
  from reap_review_settles [OF v ttl2 o2] ttl2
  have o3: "offers_live now t3" "\<not> review_lease_lapsed t3 now" and ttl3: "0 < offer_ttl_s (policy_of (brd w3))"
    by simp_all
  from reap_work_settles [OF k ttl3 o3] show ?thesis by (simp add: s')
qed

lemma reap_all_settled:
  assumes "reap_expired w now rd = Inr (w', evs)" and "board_ok w" and ttl: "0 < offer_ttl_s (policy_of (brd w))"
  shows "board_all (settled now) w'"
proof -
  from assms(1) obtain w1 e1 w2 e2 where a: "auto_stale_members w now rd = Inr (w1, e1)"
    and f: "foldE (reap_ticket now rd (admitted_agent_ids (brd w1) None))
              (dkeys (tickets (brd w1))) (w1, e1) = Inr (w2, e2)"
    and q: "w' = w2 \<or> (\<exists>more. redispatch_queue w2 now = Inr (w', more))"
    by (auto simp: reap_expired_def split: if_splits)
  let ?I = "\<lambda>s :: world \<times> release list. board_ok (fst s) \<and> 0 < offer_ttl_s (policy_of (brd (fst s)))"
  have I1: "?I (w1, e1)"
    using auto_stale_safe [OF a] assms(2) ttl by (simp add: safe_world_def)
  have step: "?I s'" if "reap_ticket now rd rc k s = Inr s'" "?I s" for rc k s s'
    using reap.step_safe [OF that(1)] that(2) by (simp add: safe_world_def)
  have I2: "?I (w2, e2)"
    by (rule foldE_invariant [OF f, where P = ?I]) (use I1 step in \<open>simp_all del: split_paired_All\<close>)
  have keys: "dkeys (tickets (brd w2)) = dkeys (tickets (brd w1))"
    using reap.sweep_safe [OF f] I1 by (simp add: safe_world_def)
  have "settled now t" if "get_ticket w2 k = Some t" for k t
  proof -
    have k: "k \<in> set (dkeys (tickets (brd w1)))"
      using that dget_in_keys [of "tickets (brd w2)" k] keys by (simp add: get_ticket_def)
    have "distinct (dkeys (tickets (brd w1)))"
      using I1 by (simp add: board_ok_def dict_ok_def)
    from reap.sweep_establishes [OF f this k, where I = ?I and Q = "\<lambda>x. \<forall>t. x = Some t \<longrightarrow> settled now t",
        OF I1 step reap_ticket_settles] that
    show ?thesis by simp
  qed
  then have "board_all (settled now) w2" using I2 by (simp add: board_all_def)
  with q show ?thesis using settled.redispatch_queue_good by blast
qed

text \<open>
  A reap leaves nothing lapsed behind: afterwards every offer on the board is still running,
  no review lease is due for release, and no ticket in work has a lease that has run out.
\<close>

theorem reap_leaves_nothing_lapsed:
  assumes "reap_expired w now rd = Inr (w', evs)" and "board_ok w"
    and "0 < offer_ttl_s (policy_of (brd w))" and "get_ticket w' k = Some t"
  shows "(\<forall>kd off. offers t kd = Some off \<longrightarrow> now < o_expires_at_epoch off) \<and>
    \<not> review_lease_lapsed t now \<and> work_lease_lapsed t now = Inr False"
  using reap_all_settled [OF assms(1-3)] assms(4) by (auto simp: board_all_def settled_def offers_live_def)

theorem reap_leaves_nothing_lapsed_witness:
  "work_lease_lapsed claimed_ticket (secs 1000) = Inr True \<and>
   (\<exists>w' evs. reap_expired lapsed_board (secs 1000) False = Inr (w', evs) \<and>
      get_ticket w' ''T3'' = Some reaped_ticket \<and> work_lease_lapsed reaped_ticket (secs 1000) = Inr False)"
proof -
  from lapsed_reap obtain evs where r: "reap_expired lapsed_board (secs 1000) False =
      Inr (put_ticket ''T3'' reaped_ticket lapsed_board, evs)" by blast
  have "0 < offer_ttl_s (policy_of (brd lapsed_board))" by (simp add: lapsed_board_def sample_defs)
  from reap_leaves_nothing_lapsed [OF r lapsed_board_ok this, of "''T3''" reaped_ticket] r
  show ?thesis by (auto simp: work_lease_lapsed_def claimed_ticket_simps)
qed

subsection \<open>A reap does not raise\<close>

text \<open>The two expiries the sweeps hand to \<open>float()\<close> without a guard.\<close>

definition epochs_ok :: "ticket \<Rightarrow> bool" where
  "epochs_ok t \<longleftrightarrow>
     (\<forall>l e. review_lease t = RS_Lease l \<longrightarrow> expires_at_epoch l = Some e \<longrightarrow> (\<exists>f. epoch_float e = Inr f)) \<and>
     (lease_expires_at_epoch (work t) = E_Null \<or> (\<exists>f. epoch_float (lease_expires_at_epoch (work t)) = Inr f))"

lemma dispatched_epochs:
  assumes "dispatched now k w t w' t'" "epochs_ok t"
  shows "epochs_ok t'"
proof -
  have "review_lease t' = review_lease t" "work t' = work t \<or> work t' = no_work_lease"
    using assms(1) by (simp_all add: dispatched_def same_ticket_def same_record_def)
  then show ?thesis using assms(2) by (auto simp: epochs_ok_def no_work_lease_def)
qed

interpretation epochs: ticket_promise "\<lambda>_. epochs_ok"
  by unfold_locales (erule dispatched_epochs, assumption, simp add: loses_offers_def epochs_ok_def)

lemma review_commitment_returns: "epochs_ok c \<Longrightarrow> returns (review_commitment c a now)"
  by (auto simp: review_commitment_def epochs_ok_def returns_iff [of "epoch_float x" for x]
      split: review_slot.split option.split)

lemma busy_on_returns: "epochs_ok c \<Longrightarrow> returns (busy_on c a now)"
  using review_commitment_returns by (simp add: busy_on_def)

definition numeric_board :: "world \<Rightarrow> bool" where
  "numeric_board w \<longleftrightarrow> (\<forall>c \<in> set (dvalues (tickets (brd w))). epochs_ok c)"

lemma agent_is_busy_returns: "numeric_board w \<Longrightarrow> returns (agent_is_busy w a now tid)"
  unfolding agent_is_busy_def numeric_board_def by (rule anyE_returns) (simp add: busy_on_returns)

lemma eligible_returns: "numeric_board w \<Longrightarrow> returns (dispatch_candidate_is_eligible w t m now k)"
  by (simp add: dispatch_candidate_is_eligible_def agent_is_busy_returns)

lemma dispatch_candidates_returns: "numeric_board w \<Longrightarrow> returns (dispatch_candidates w t now k)"
  unfolding dispatch_candidates_def
  by (rule filterE_returns) (simp add: eligible_returns split: prod.split)

lemma no_candidate_returns: "numeric_board w \<Longrightarrow> returns (no_candidate_step w t now k n b)"
  by (simp add: no_candidate_step_def pinned_seat_unavailable_reason_def Let_def agent_is_busy_returns
      split: prod.split option.split)

lemma dispatch_pass_returns:
  assumes "numeric_board w"
  shows "returns (dispatch_pass w t now k p)"
proof -
  obtain w1 t1 where r: "reconcile_inactive_work_ownership now (w, t) = (w1, t1)" by fastforce
  have b1: "brd w1 = brd w" using reconcile_quiet [of w t now] r by (simp add: quiet_def)
  show ?thesis
  proof (cases "broadcast_requeue w1 t1 now k")
    case None
    then show ?thesis by (simp add: dispatch_pass_def r)
  next
    case (Some q)
    obtain w2 t2 n b where q: "q = (w2, t2, n, b)" by (metis prod_cases4)
    have n2: "numeric_board w2"
      using broadcast_requeue_frame(1) [OF Some [unfolded q]] b1 assms by (simp add: numeric_board_def)
    show ?thesis
      by (simp add: dispatch_pass_def r Some q Let_def dispatch_candidates_returns [OF n2]
          no_candidate_returns [OF n2] split: sum.split prod.split)
  qed
qed

lemma dispatch_ticket_returns:
  "numeric_board w \<Longrightarrow> returns (dispatch_ticket w t now k p)"
proof (induction w t now k p rule: dispatch_ticket.induct)
  case (1 w t now k p)
  from dispatch_pass_returns [OF "1.prems"] obtain o' where o': "dispatch_pass w t now k p = Inr o'"
    by (blast dest: returnsD)
  show ?case
  proof (cases o')
    case (Finished w1 t1 ev1)
    with o' show ?thesis by (subst dispatch_ticket.simps) simp
  next
    case (Again w1 t1)
    have "quiet w t w1 t1"
      by (rule dispatch_pass_Again_quiet [OF o' [unfolded Again]])
    then have "numeric_board w1" using "1.prems" by (simp add: quiet_def numeric_board_def)
    from "1.IH" [OF o' Again this] show ?thesis
      using o' Again by (subst dispatch_ticket.simps) simp
  qed
qed

lemma board_all_numeric: "board_all epochs_ok w \<Longrightarrow> numeric_board w"
  unfolding numeric_board_def
proof
  fix c assume b: "board_all epochs_ok w" and "c \<in> set (dvalues (tickets (brd w)))"
  then obtain k where "(k, c) \<in> set (tickets (brd w))" by (auto simp: dvalues_def)
  moreover have "dict_ok (tickets (brd w))" using b by (simp add: board_all_def board_ok_def)
  ultimately have "get_ticket w k = Some c" by (simp add: get_ticket_def dict_ok_lookup)
  with b show "epochs_ok c" by (simp add: board_all_def)
qed

lemma redispatch_key_returns:
  "board_all epochs_ok (fst s) \<Longrightarrow> returns (redispatch_key now key s)"
  using dispatch_ticket_returns [OF board_all_numeric]
  by (simp add: redispatch_key_def dispatch_stored_def split: option.split)

lemma redispatch_queue_returns:
  assumes "board_all epochs_ok w"
  shows "returns (redispatch_queue w now)"
proof -
  obtain w1 e1 where r: "reconcile_invalid_dispatch_offers w now = (w1, e1)" by fastforce
  have w1: "board_all epochs_ok w1" using epochs.reconcile_invalid_good [OF assms, of now] r by simp
  have "returns (foldE (redispatch_key now) (queue_order w1) (w1, e1))"
    by (rule foldE_returns [where P = "\<lambda>s. board_all epochs_ok (fst s)"])
      (use w1 in \<open>simp_all add: redispatch_key_returns del: split_paired_All\<close>,
       erule (1) epochs.redispatch_key_good [rotated])
  then show ?thesis by (simp add: redispatch_queue_def r)
qed

text \<open>The phases of the reaper on one ticket: they return, and the ticket's epochs stay numbers.\<close>

definition numeric_state :: "reap_state \<Rightarrow> bool" where
  "numeric_state s \<longleftrightarrow> numeric_board (fst s) \<and> epochs_ok (fst (snd s))"

definition keeps_numeric :: "(reap_state \<Rightarrow> reap_state result) \<Rightarrow> bool" where
  "keeps_numeric f \<longleftrightarrow>
     (\<forall>s. numeric_state s \<longrightarrow> (\<exists>s'. f s = Inr s' \<and> numeric_state s'))"

lemma keeps_numericE:
  assumes "keeps_numeric f" "numeric_state s"
  obtains s' where "f s = Inr s'" "numeric_state s'"
  using assms unfolding keeps_numeric_def by blast

lemma and_dispatch_numeric: "keeps_numeric (and_dispatch rd now k)"
  unfolding keeps_numeric_def
proof (intro allI impI)
  fix s assume n: "numeric_state s"
  obtain w t evs where s: "s = (w, t, evs)" by (metis prod_cases3)
  from n have nb: "numeric_board w" and e: "epochs_ok t" by (simp_all add: numeric_state_def s)
  from dispatch_ticket_returns [OF nb] obtain w' t' ev where
    "dispatch_ticket w t now k None = Inr (w', t', ev)" by (metis returnsD prod_cases3)
  then have "returns (and_dispatch rd now k s)" by (simp add: and_dispatch_def s)
  then obtain s' where a: "and_dispatch rd now k s = Inr s'" by (blast dest: returnsD)
  obtain w1 t1 e1 where s': "s' = (w1, t1, e1)" by (metis prod_cases3)
  from and_dispatch_dispatched [OF a [unfolded s s']]
  have d: "dispatched now k w t w1 t1" .
  have "numeric_board w1" using d nb by (simp add: dispatched_def numeric_board_def)
  then show "\<exists>s'. and_dispatch rd now k s = Inr s' \<and> numeric_state s'"
    using a s' dispatched_epochs [OF d e] by (auto simp: numeric_state_def)
qed

lemma and_dispatch_numericD:
  "numeric_board w \<Longrightarrow> epochs_ok t \<Longrightarrow>
     \<exists>s'. and_dispatch rd now k (w, t, evs) = Inr s' \<and> numeric_state s'"
  using and_dispatch_numeric [of rd now k] by (simp add: keeps_numeric_def numeric_state_def)

lemma quiet_numeric:
  assumes "quiet w t w' t'" "numeric_board w" "epochs_ok t"
  shows "numeric_board w'" "epochs_ok t'"
  using assms dispatched_epochs [OF quiet_dispatched [OF assms(1)]]
  by (simp_all add: quiet_def numeric_board_def)

lemma expire_offer_numeric: "keeps_numeric (expire_offer now rd k)"
  unfolding keeps_numeric_def
proof (intro allI impI)
  fix s assume n: "numeric_state s"
  obtain w t evs where s: "s = (w, t, evs)" by (metis prod_cases3)
  show "\<exists>s'. expire_offer now rd k s = Inr s' \<and> numeric_state s'"
  proof (cases "\<exists>off. offers t k = Some off \<and> \<not> now < o_expires_at_epoch off")
    case False
    then have "expire_offer now rd k s = Inr s"
      by (auto simp: expire_offer_def s split: option.split)
    with n show ?thesis by blast
  next
    case True
    then obtain off where off: "offers t k = Some off" "\<not> now < o_expires_at_epoch off" by blast
    define t1 where "t1 = t\<lparr>offers := (offers t)(k := None),
        last_offered_agent_id := (last_offered_agent_id t)(k := Some (o_agent_id off)),
        offer_expirations := (offer_expirations t)(k := offer_expirations t k + 1)\<rparr>"
    define h where "h = HE_Dispatch ((entry0 ''expired'')
        \<lparr>d_kind := Some k, d_agent_id := Some (o_agent_id off),
         d_agent_name := Some (o_agent_name off), d_at := Some now, d_cycle := Some (o_cycle off)\<rparr>)"
    obtain w2 t2 where ab: "append_bounded_history H_Dispatch h (w, t1) = (w2, t2)" by fastforce
    have "numeric_board w" "epochs_ok t1" using n by (simp_all add: numeric_state_def s t1_def epochs_ok_def)
    from quiet_numeric [OF append_bounded_quiet [OF ab] this] and_dispatch_numericD
    show ?thesis
      by (simp add: expire_offer_def s off ab t1_def [symmetric] h_def [symmetric] Let_def)
  qed
qed

lemma reap_review_numeric: "keeps_numeric (reap_review now rd rc)"
  unfolding keeps_numeric_def
proof (intro allI impI)
  fix s assume n: "numeric_state s"
  obtain w t evs where s: "s = (w, t, evs)" by (metis prod_cases3)
  have "numeric_board w" "epochs_ok (t\<lparr>review_lease := RS_Absent, updated_at := Some now\<rparr>)"
    using n by (simp_all add: numeric_state_def s epochs_ok_def)
  from and_dispatch_numericD [OF this] n
  show "\<exists>s'. reap_review now rd rc s = Inr s' \<and> numeric_state s'"
    by (simp add: reap_review_def s)
qed

lemma reap_work_numeric: "keeps_numeric (reap_work now rd rc)"
  unfolding keeps_numeric_def
proof (intro allI impI)
  fix s assume n: "numeric_state s"
  obtain w t evs where s: "s = (w, t, evs)" by (metis prod_cases3)
  from n have "returns (work_lease_lapsed t now)"
    by (auto simp: numeric_state_def s work_lease_lapsed_def epochs_ok_def returns_iff)
  then obtain b where b: "work_lease_lapsed t now = Inr b" by (blast dest: returnsD)
  obtain w1 t1 reset where p: "reset_ticket_progress now ''lease_expired'' (w, abandon_work now t)
      = ((w1, t1), reset)" by (metis prod_cases3 prod.collapse)
  have "epochs_ok (abandon_work now t)" "numeric_board w"
    using n by (simp_all add: numeric_state_def s epochs_ok_def abandon_work_def Let_def)
  from quiet_numeric [OF reset_progress_quiet [OF p] this(2,1)]
  have "numeric_board w1" "epochs_ok (t1\<lparr>work := no_work_lease\<rparr>)"
    by (simp_all add: epochs_ok_def no_work_lease_def)
  with n show "\<exists>s'. reap_work now rd rc s = Inr s' \<and> numeric_state s'"
    using and_dispatch_numericD by (cases b) (simp_all add: reap_work_def s b p Let_def)
qed

lemma reap_ticket_numeric:
  assumes "board_all epochs_ok (fst s)"
  shows "\<exists>s'. reap_ticket now rd rc key s = Inr s' \<and> board_all epochs_ok (fst s')"
proof (cases "get_ticket (fst s) key")
  case None
  with assms show ?thesis by (simp add: reap_ticket_def)
next
  case (Some t0)
  obtain w1 t1 where r: "reconcile_inactive_work_ownership now (fst s, t0) = (w1, t1)" by fastforce
  have q: "quiet (fst s) t0 w1 t1" using reconcile_quiet [of "fst s" t0 now] r by simp
  have "epochs_ok t0" using assms Some by (simp add: board_all_def)
  with quiet_numeric [OF q board_all_numeric [OF assms]]
  have n1: "numeric_state (w1, t1, [])" by (simp add: numeric_state_def)
  from keeps_numericE [OF expire_offer_numeric n1, of now rd Work]
  obtain a where a: "expire_offer now rd Work (w1, t1, []) = Inr a" "numeric_state a" .
  from keeps_numericE [OF expire_offer_numeric a(2), of now rd Review]
  obtain s2 where s2: "expire_offer now rd Review a = Inr s2" "numeric_state s2" .
  from keeps_numericE [OF reap_review_numeric s2(2), of now rd rc]
  obtain s3 where v: "reap_review now rd rc s2 = Inr s3" and n3: "numeric_state s3" .
  from keeps_numericE [OF reap_work_numeric n3, of now rd rc]
  obtain s4 where k: "reap_work now rd rc s3 = Inr s4" and n4: "numeric_state s4" .
  have e: "expire_dispatch_offers w1 t1 now rd = Inr s2"
    by (simp add: expire_dispatch_offers_def a(1) s2(1))
  have "phase_moves now (w1, t1, []) s4"
    using expire_dispatch_offers_moves [OF e] reap_review_moves [OF v] reap_work_moves [OF k]
      phase_moves_trans by blast
  then have "moved now (fst s) t0 (fst s4) (fst (snd s4))"
    using reconcile_moved [OF r] moved_trans by (auto simp: phase_moves_def)
  from board_all_put [OF assms Some this] n4
  have "board_all epochs_ok (put_ticket key (fst (snd s4)) (fst s4))" by (simp add: numeric_state_def)
  then show ?thesis by (simp add: reap_ticket_def Some r e v k case_prod_unfold)
qed

lemma reap_expired_numeric:
  assumes "board_all epochs_ok w"
  shows "returns (reap_expired w now rd)"
proof -
  have "returns (auto_stale_members w now rd)"
  proof -
    obtain w1 e ch where f: "fold (stale_member now) (dkeys (members (brd w))) (w, [], False) = (w1, e, ch)"
      by (metis prod_cases3)
    have "board_all epochs_ok w1"
      using epochs.fold_good [of "\<lambda>s. board_all epochs_ok (fst s)" "stale_member now" "(w, [], False)"
          "dkeys (members (brd w))"] epochs.stale_member_good assms f by simp
    then show ?thesis by (simp add: auto_stale_members_def f redispatch_queue_returns)
  qed
  then obtain w1 e1 where a: "auto_stale_members w now rd = Inr (w1, e1)" by (metis returnsD prod.collapse)
  have w1: "board_all epochs_ok w1" by (rule epochs.auto_stale_good [OF a assms])
  let ?f = "foldE (reap_ticket now rd (admitted_agent_ids (brd w1) None)) (dkeys (tickets (brd w1))) (w1, e1)"
  have step: "board_all epochs_ok (fst s')"
    if "board_all epochs_ok (fst s)" "reap_ticket now rd rc key s = Inr s'" for rc key s s'
    using reap_ticket_numeric [OF that(1), of now rd rc key] that(2) by auto
  have ret: "returns (reap_ticket now rd rc key s)" if "board_all epochs_ok (fst s)" for rc key s
    using reap_ticket_numeric [OF that, of now rd rc key] by auto
  have "returns ?f"
    by (rule foldE_returns [where P = "\<lambda>s. board_all epochs_ok (fst s)"])
      (use w1 in \<open>simp_all add: ret del: split_paired_All\<close>, erule (1) step)
  then obtain s2 where f: "?f = Inr s2" by (blast dest: returnsD)
  have "board_all epochs_ok (fst s2)"
    by (rule foldE_invariant [OF f, where P = "\<lambda>s. board_all epochs_ok (fst s)"])
      (use w1 step in \<open>auto simp del: split_paired_All split_paired_Ex\<close>)
  then show ?thesis
    using redispatch_queue_returns by (cases s2) (simp add: reap_expired_def a f)
qed

text \<open>
  A reap raises only on malformed evidence: on a well-formed board with a positive offer
  lifetime whose lease epochs are values that \<open>float()\<close> accepts, \<open>reap_expired\<close> (and with it the
  dispatch of every ticket) returns.
\<close>

theorem reap_returns:
  assumes "board_ok w" and "0 < offer_ttl_s (policy_of (brd w))"
    and "\<forall>k t. get_ticket w k = Some t \<longrightarrow> epochs_ok t"
  shows "\<exists>w' evs. reap_expired w now rd = Inr (w', evs)"
proof -
  have "returns (reap_expired w now rd)"
    by (rule reap_expired_numeric) (use assms in \<open>simp add: board_all_def\<close>)
  then show ?thesis by (auto simp: returns_iff)
qed

theorem reap_returns_witness:
  "\<exists>w' evs. reap_expired board_one 5 True = Inr (w', evs)"
proof (rule reap_returns [OF sample_board_ok])
  show "0 < offer_ttl_s (policy_of (brd board_one))" by (simp add: sample_defs)
  show "\<forall>k t. get_ticket board_one k = Some t \<longrightarrow> epochs_ok t"
    by (simp add: get_ticket_def sample_defs epochs_ok_def no_work_lease_def)
qed


definition poisoned_ticket :: ticket where
  "poisoned_ticket = submitted_ticket\<lparr>review_lease := RS_Lease (sample_review_lease ''r1'' (Some E_Null))\<rparr>"


end
