(* ===== verification/Queue_Properties.thy ===== *)
theory Queue_Properties
  imports Reaper_Properties
begin

section \<open>The offer predictor, the bounded histories, left-behind ownership\<close>

subsection \<open>The predictor is sound\<close>

lemma put_ticket_same [simp]: "get_ticket w k = Some t \<Longrightarrow> put_ticket k t w = w"
  by (simp add: put_ticket_def get_ticket_def)

lemma scan_check_offer:
  assumes "scan_offers w now t (k # ks) res = Some res'"
  shows "\<exists>res1. check_offer now k (w, t, res, evs) = (w, t, res1, evs) \<and>
           scan_offers w now t ks res1 = Some res'"
proof (cases "offers t k")
  case None
  with assms show ?thesis by (simp add: check_offer_def)
next
  case (Some off)
  then have "invalid_dispatch_offer_reason w t off now k = None" "o_agent_id off \<notin> set res"
    "scan_offers w now t ks (o_agent_id off # res) = Some res'"
    using assms by (simp_all split: if_splits)
  then show ?thesis by (simp add: check_offer_def offer_problem_def Some)
qed

lemma check_ticket_offers_noop:
  assumes g: "get_ticket w key = Some t" and "\<not> work_ownership_needs_reconcile t now"
    and "scan_offers w now t [Work, Review] res = Some res'"
  shows "check_ticket_offers now key (w, res, evs) = (w, res', evs)"
proof -
  have r: "reconcile_inactive_work_ownership now (w, t) = (w, t)"
    using assms(2) by (simp add: reconcile_inactive_work_ownership_def)
  from scan_check_offer [OF assms(3)] obtain res1 where
    c1: "check_offer now Work (w, t, res, evs) = (w, t, res1, evs)"
    and s1: "scan_offers w now t [Review] res1 = Some res'" by blast
  from scan_check_offer [OF s1] have "check_offer now Review (w, t, res1, evs) = (w, t, res', evs)"
    by auto
  with g r c1 show ?thesis by (simp add: check_ticket_offers_def)
qed

lemma scan_tickets_noop:
  assumes "\<not> scan_tickets w now (map snd ps) res"
    and "\<And>k t. (k, t) \<in> set ps \<Longrightarrow> get_ticket w k = Some t"
  shows "\<exists>res'. fold (check_ticket_offers now) (map fst ps) (w, res, evs) = (w, res', evs)"
  using assms
proof (induction ps arbitrary: res)
  case (Cons p ps)
  obtain k t where p: "p = (k, t)" by fastforce
  from Cons.prems(1) obtain res1 where n: "\<not> work_ownership_needs_reconcile t now"
    and s: "scan_offers w now t [Work, Review] res = Some res1"
    and rest: "\<not> scan_tickets w now (map snd ps) res1"
    by (auto simp: p split: if_splits option.splits simp del: scan_offers.simps)
  have "get_ticket w k = Some t" using Cons.prems(2) by (simp add: p)
  from check_ticket_offers_noop [OF this n s, of evs] Cons.IH [OF rest] Cons.prems(2)
  show ?case by (simp add: p)
qed simp

text \<open>
  C12: the read-only check that decides whether the timer rewrites the document is sound: when
  \<open>invalid_dispatch_offers_exist\<close> answers no, the reconciliation of offers would change nothing
  and report nothing.
\<close>

theorem predictor_sound:
  assumes "\<not> invalid_dispatch_offers_exist w now" and "board_ok w"
  shows "reconcile_invalid_dispatch_offers w now = (w, [])"
proof -
  let ?ps = "sort_key (\<lambda>(_, t). queue_key t) (tickets (brd w))"
  have "get_ticket w k = Some t" if "(k, t) \<in> set ?ps" for k t
    using that assms(2) by (simp add: get_ticket_def board_ok_def dict_ok_lookup)
  from scan_tickets_noop [of w now ?ps "[]" "[]"] assms(1) this
  show ?thesis
    by (auto simp: reconcile_invalid_dispatch_offers_def invalid_dispatch_offers_exist_def queue_order_def)
qed

theorem predictor_sound_witness:
  "reconcile_invalid_dispatch_offers lapsed_board 5 = (lapsed_board, [])"
proof (rule predictor_sound [OF _ lapsed_board_ok])
  have "\<not> work_ownership_needs_reconcile claimed_ticket 5" "\<not> inactive_work_ownership_is_ambiguous claimed_ticket 5"
    by (simp_all add: work_ownership_needs_reconcile_def inactive_work_ownership_is_ambiguous_def
        inactive_status_def TERMINAL_TICKET_STATES_def claimed_ticket_simps)
  then show "\<not> invalid_dispatch_offers_exist lapsed_board 5"
    by (simp add: invalid_dispatch_offers_exist_def lapsed_board_def sample_world_def claimed_ticket_simps)
qed

subsection \<open>Bounded histories\<close>

text \<open>
  C13: appending to a bounded history loses nothing and bounds the inline part: the inline list
  never exceeds a positive limit, archive and inline together hold exactly the old entries and the
  new one, the omitted count grows by what was archived, and until the first overflow the order is
  that of the appends.
\<close>

theorem append_bounded_history_conserves:
  assumes "append_bounded_history f e (w, t) = (w', t')" and "0 < inline_history_limit (cfg (brd w))"
    and "0 \<le> omitted_count t f"
  shows "int (length (history t' f)) \<le> inline_history_limit (cfg (brd w)) \<and>
    mset (history_overflow w' (ticket_id t) f @ history t' f) =
      mset (history_overflow w (ticket_id t) f @ history t f @ [e]) \<and>
    omitted_count t' f - omitted_count t f =
      int (length (history_overflow w' (ticket_id t) f)) - int (length (history_overflow w (ticket_id t) f)) \<and>
    (history_overflow w (ticket_id t) f = [] \<longrightarrow>
       history_overflow w' (ticket_id t) f @ history t' f = history t f @ [e])"
proof -
  let ?L = "inline_history_limit (cfg (brd w))"
  let ?es = "history t f @ [e]"
  show ?thesis
  proof (cases "int (length ?es) \<le> ?L")
    case True
    with assms(1) have "w' = w" "history t' f = ?es" "omitted_count t' f = omitted_count t f"
      by (auto simp: append_bounded_history_def Let_def)
    with True show ?thesis by simp
  next
    case False
    define n where "n = nat (int (length ?es) - ?L)"
    have n: "0 < n" "n \<le> length ?es" "int (length (drop n ?es)) = ?L" "take n ?es \<noteq> []"
      using False assms(2) by (auto simp: n_def)
    have "append_bounded_history f e (w, t) =
        (persist_history_overflow (ticket_id t) f (take n ?es) w,
         t\<lparr>history := (history t)(f := drop n ?es),
           omitted_count := (omitted_count t)(f := (if omitted_count t f > 0 then omitted_count t f else 0)
              + int (length (take n ?es)))\<rparr>)"
      by (simp only: append_bounded_history_def prod.case Let_def n_def False if_False)
    with assms(1,3) n(4) have w': "history_overflow w' (ticket_id t) f = take n ?es @ history_overflow w (ticket_id t) f"
      and t': "history t' f = drop n ?es" "omitted_count t' f = omitted_count t f + int (length (take n ?es))"
      by (auto simp add: persist_history_overflow_def simp del: take_append drop_append length_take take_eq_Nil)
    have "mset (take n ?es @ H @ drop n ?es) = mset (H @ ?es)" for H
      by (metis (no_types, opaque_lifting) append_take_drop_id mset_append union_assoc union_commute)
    moreover have "take n ?es @ drop n ?es = ?es" by (rule append_take_drop_id)
    ultimately show ?thesis
      using n(3) unfolding w' t' by (simp del: take_append drop_append)
  qed
qed

theorem append_bounded_history_conserves_witness:
  "\<exists>w' t'. append_bounded_history H_Dispatch (HE_Dispatch (entry0 ''c''))
       (board_one, open_ticket\<lparr>history := (\<lambda>_. [HE_Dispatch (entry0 ''a''), HE_Dispatch (entry0 ''b'')])\<rparr>) = (w', t') \<and>
     history_overflow w' ''T1'' H_Dispatch @ history t' H_Dispatch =
       [HE_Dispatch (entry0 ''a''), HE_Dispatch (entry0 ''b''), HE_Dispatch (entry0 ''c'')]"
proof -
  let ?t = "open_ticket\<lparr>history := (\<lambda>_. [HE_Dispatch (entry0 ''a''), HE_Dispatch (entry0 ''b'')])\<rparr>"
  obtain w' t' where a: "append_bounded_history H_Dispatch (HE_Dispatch (entry0 ''c'')) (board_one, ?t) = (w', t')"
    by fastforce
  have "0 < inline_history_limit (cfg (brd board_one))" "0 \<le> omitted_count ?t H_Dispatch"
      "ticket_id ?t = ''T1''" "history_overflow board_one ''T1'' H_Dispatch = []"
    by (simp_all add: sample_defs)
  with append_bounded_history_conserves [OF a] a show ?thesis by simp
qed



subsection \<open>Left-behind ownership\<close>

text \<open>
  Reconciling left-behind ownership removes it: afterwards nothing is left to reconcile, the
  former holder is recorded, and a second reconciliation changes nothing.
\<close>

theorem reconcile_removes_ownership:
  assumes "reconcile_inactive_work_ownership now (w, t) = (w', t')" and "work_ownership_needs_reconcile t now"
  shows "work t' = no_work_lease \<and>
    (claimed_by_agent_id (work t) \<noteq> None \<longrightarrow> last_claimed_by_agent_id t' = claimed_by_agent_id (work t)) \<and>
    reconcile_inactive_work_ownership now (w', t') = (w', t')"
proof -
  let ?t1 = "snd (reconcile_inactive_work_ownership now (w, t))"
  have "work ?t1 = no_work_lease"
    using assms(2) by (simp add: reconcile_inactive_work_ownership_def Let_def)
  moreover have "claimed_by_agent_id (work t) \<noteq> None \<Longrightarrow>
      last_claimed_by_agent_id ?t1 = claimed_by_agent_id (work t)"
    using assms(2)
    by (simp add: reconcile_inactive_work_ownership_def Let_def append_bounded_history_def)
  moreover have "t' = ?t1" using assms(1) by simp
  ultimately show ?thesis
    by (simp add: reconcile_inactive_work_ownership_def work_ownership_needs_reconcile_def
        has_work_lease_fields_def)
qed

theorem reconcile_removes_ownership_witness:
  "\<exists>w' t'. reconcile_inactive_work_ownership (secs 1000)
       (board_one, claimed_ticket\<lparr>status := ''open''\<rparr>) = (w', t') \<and>
     last_claimed_by_agent_id t' = Some ''w1''"
proof -
  let ?t = "claimed_ticket\<lparr>status := ''open''\<rparr>"
  have "work_ownership_needs_reconcile ?t (secs 1000)"
    by (simp add: work_ownership_needs_reconcile_def inactive_status_def TERMINAL_TICKET_STATES_def
        inactive_lifecycle_has_ambiguous_live_lease_def text_epoch_def finite_epoch_def
        has_work_lease_fields_def sample_defs no_work_lease_def)
  moreover have "claimed_by_agent_id (work ?t) = Some ''w1''" by (simp add: sample_defs)
  moreover obtain w' t' where "reconcile_inactive_work_ownership (secs 1000) (board_one, ?t) = (w', t')"
    by fastforce
  ultimately show ?thesis using reconcile_removes_ownership [of "secs 1000" board_one ?t w' t'] by auto
qed

end
