(* ===== verification/Model_Usage.thy ===== *)
theory Model_Usage
  imports Seats Json_Values
begin

section \<open>Model usage records and their totals\<close>

text \<open>
  \<open>model_usage_record\<close> validates what a runtime reports (arbitrary JSON) and \<open>append_model_usage\<close>
  adds it to the totals of its role on a ticket.  A total is null as soon as one record left the
  counter out; the share of the orchestrator is known when all three roles have complete totals.
\<close>

definition MODEL_USAGE_ROLES :: "string list" where
  "MODEL_USAGE_ROLES = [''orchestrator'', ''worker'', ''reviewer'']"

definition MODEL_USAGE_FIELDS :: "string list" where
  "MODEL_USAGE_FIELDS =
     [''schema_version'', ''turns'', ''reported_turns'', ''input_tokens'', ''output_tokens'']"

definition MODEL_USAGE_IDENTIFIER_LIMIT :: nat where
  "MODEL_USAGE_IDENTIFIER_LIMIT = 8"

definition is_usage_identifier :: "string \<Rightarrow> bool" where
  "is_usage_identifier s =
     (case s of [] \<Rightarrow> False
      | c # cs \<Rightarrow> alnum_char c \<and> length cs \<le> 127 \<and>
                  list_all (\<lambda>d. alnum_char d \<or> d \<in> set ''._:/-'') cs)"

definition usage_identifier :: "string option \<Rightarrow> string option" where
  "usage_identifier v = (case v of None \<Rightarrow> None | Some s \<Rightarrow> if is_usage_identifier s then Some s else None)"

definition token_counter :: "json \<Rightarrow> int option result" where
  "token_counter v =
     (if v = J_Null then Inr None
      else if is_int_counter 0 1000000000000 v then Inr (Some (j_int v))
      else Inl (ValueError ''model_usage tokens must be null or a non-negative integer''))"

definition model_usage_record ::
  "json option \<Rightarrow> string \<Rightarrow> seat \<Rightarrow> string \<Rightarrow> time \<Rightarrow> usage_record result" where
  "model_usage_record value r actor pid now =
     bindE (guardE (r \<in> set MODEL_USAGE_ROLES) (ValueError ''model usage role is unsupported'')) (\<lambda>_.
       let c = member_capabilities actor;
           base = \<lparr> ur_role = r, ur_host = usage_identifier (cap_host c),
                    ur_provider = usage_identifier (cap_provider c),
                    ur_model = usage_identifier (cap_model c), ur_agent_id = agent_id actor,
                    ur_principal_id = pid, ur_at = now, ur_turns = None, ur_reported_turns = None,
                    ur_input_tokens = None, ur_output_tokens = None \<rparr>
       in case value of
            None \<Rightarrow> Inr base
          | Some v \<Rightarrow>
              bindE (guardE (is_obj v) (ValueError ''model_usage must be an object'')) (\<lambda>_.
              bindE (guardE (case v of J_Obj xs \<Rightarrow> set (map fst xs) \<subseteq> set MODEL_USAGE_FIELDS | _ \<Rightarrow> True)
                       (ValueError ''unsupported model_usage fields'')) (\<lambda>_.
              bindE (guardE (py_eq (J_Int 1) (j_get v ''schema_version''))
                       (ValueError ''model_usage.schema_version must be 1'')) (\<lambda>_.
              bindE (guardE (is_int_counter 0 1000000 (j_get v ''turns''))
                       (ValueError ''model_usage.turns must be an integer between 0 and 1000000'')) (\<lambda>_.
              bindE (guardE (is_int_counter 0 1000000 (j_get v ''reported_turns''))
                       (ValueError ''model_usage.reported_turns must be an integer between 0 and 1000000'')) (\<lambda>_.
              let turns = j_int (j_get v ''turns''); reported = j_int (j_get v ''reported_turns'') in
              bindE (guardE (reported \<le> turns)
                       (ValueError ''model_usage.reported_turns cannot exceed turns'')) (\<lambda>_.
              bindE (token_counter (j_get v ''input_tokens'')) (\<lambda>itok.
              bindE (token_counter (j_get v ''output_tokens'')) (\<lambda>otok.
              bindE (guardE ((reported = turns) = (itok \<noteq> None \<and> otok \<noteq> None))
                       (ValueError ''model_usage token totals must be integers only when every turn reports usage'')) (\<lambda>_.
              Inr (base\<lparr>ur_turns := Some turns, ur_reported_turns := Some reported,
                        ur_input_tokens := itok, ur_output_tokens := otok\<rparr>)))))))))))"

definition no_usage :: role_usage where
  "no_usage = \<lparr> ru_records = 0, ru_turns = Some 0, ru_reported_turns = Some 0,
     ru_input_tokens = Some 0, ru_output_tokens = Some 0, ru_hosts = [], ru_providers = [],
     ru_models = [], ru_hosts_truncated = False, ru_providers_truncated = False,
     ru_models_truncated = False \<rparr>"

definition add_counter :: "int option \<Rightarrow> int option \<Rightarrow> int option" where
  "add_counter a b = (case a of None \<Rightarrow> None | Some x \<Rightarrow> (case b of None \<Rightarrow> None | Some y \<Rightarrow> Some (x + y)))"

text \<open>\<open>sorted({*known, value})\<close>, kept to the limit; the flag remembers that something was cut.\<close>

definition retain_identifier ::
  "string option \<Rightarrow> string list \<times> bool \<Rightarrow> string list \<times> bool" where
  "retain_identifier v known =
     (case v of
        None \<Rightarrow> known
      | Some s \<Rightarrow>
          let retained = sort (remdups (s # fst known))
          in (take MODEL_USAGE_IDENTIFIER_LIMIT retained,
              snd known \<or> length retained > MODEL_USAGE_IDENTIFIER_LIMIT))"

definition add_usage :: "usage_record \<Rightarrow> role_usage \<Rightarrow> role_usage" where
  "add_usage u a =
     (let (hs, ht) = retain_identifier (ur_host u) (ru_hosts a, ru_hosts_truncated a);
          (ps, pt) = retain_identifier (ur_provider u) (ru_providers a, ru_providers_truncated a);
          (ms, mt) = retain_identifier (ur_model u) (ru_models a, ru_models_truncated a)
      in \<lparr> ru_records = ru_records a + 1,
           ru_turns = add_counter (ru_turns a) (ur_turns u),
           ru_reported_turns = add_counter (ru_reported_turns a) (ur_reported_turns u),
           ru_input_tokens = add_counter (ru_input_tokens a) (ur_input_tokens u),
           ru_output_tokens = add_counter (ru_output_tokens a) (ur_output_tokens u),
           ru_hosts = hs, ru_providers = ps, ru_models = ms,
           ru_hosts_truncated = ht, ru_providers_truncated = pt, ru_models_truncated = mt \<rparr>)"

definition role_tokens :: "(string, role_usage) odict \<Rightarrow> string \<Rightarrow> int option" where
  "role_tokens roles r =
     (case dget roles r of
        None \<Rightarrow> None
      | Some a \<Rightarrow> add_counter (ru_input_tokens a) (ru_output_tokens a))"

definition append_model_usage :: "usage_record \<Rightarrow> usage_summary option \<Rightarrow> usage_summary" where
  "append_model_usage u s =
     (let roles0 = (case s of None \<Rightarrow> [] | Some x \<Rightarrow> us_roles x);
          a = (case dget roles0 (ur_role u) of None \<Rightarrow> no_usage | Some a \<Rightarrow> a);
          roles = dset (ur_role u) (add_usage u a) roles0
      in (case (role_tokens roles ''orchestrator'', role_tokens roles ''worker'',
                role_tokens roles ''reviewer'') of
            (Some o', Some w, Some v) \<Rightarrow>
              let total = o' + w + v
              in \<lparr> us_roles = roles, us_total_tokens = Some total,
                   us_orchestrator_share = (if total \<noteq> 0 then Some (o', total) else None) \<rparr>
          | _ \<Rightarrow> \<lparr> us_roles = roles, us_total_tokens = None, us_orchestrator_share = None \<rparr>))"

subsection \<open>What the validation and the totals amount to\<close>

lemma model_usage_record_complete:
  assumes "model_usage_record (Some v) r actor pid now = Inr u"
  shows "\<exists>t q. ur_turns u = Some t \<and> ur_reported_turns u = Some q \<and> 0 \<le> q \<and> q \<le> t \<and>
    t \<le> 1000000 \<and> (q = t \<longleftrightarrow> ur_input_tokens u \<noteq> None \<and> ur_output_tokens u \<noteq> None) \<and>
    ur_role u = r \<and> r \<in> set MODEL_USAGE_ROLES"
  using assms unfolding model_usage_record_def Let_def option.case bindE_eq_Inr guardE_eq_Inr
  by (elim exE conjE) (auto simp: is_int_counter_iff)

text \<open>The totals of a role over a list of records, as a sum.\<close>

definition total_of :: "(usage_record \<Rightarrow> int option) \<Rightarrow> usage_record list \<Rightarrow> int option" where
  "total_of f us = (if \<forall>u \<in> set us. f u \<noteq> None then Some (sum_list (map (\<lambda>u. the (f u)) us)) else None)"

lemma total_of_snoc: "total_of f (us @ [u]) = add_counter (total_of f us) (f u)"
  by (auto simp: total_of_def add_counter_def split: option.split)

definition record_usage :: "usage_record list \<Rightarrow> usage_summary option" where
  "record_usage us = fold (\<lambda>u s. Some (append_model_usage u s)) us None"

definition roles_of :: "usage_summary option \<Rightarrow> (string, role_usage) odict" where
  "roles_of s = (case s of None \<Rightarrow> [] | Some x \<Rightarrow> us_roles x)"

lemma append_model_usage_roles:
  "us_roles (append_model_usage u s) =
     dset (ur_role u)
       (add_usage u (case dget (roles_of s) (ur_role u) of None \<Rightarrow> no_usage | Some a \<Rightarrow> a)) (roles_of s)"
  by (simp add: append_model_usage_def roles_of_def Let_def split: option.split)

lemma add_usage_simps [simp]:
  "ru_records (add_usage u a) = ru_records a + 1"
  "ru_turns (add_usage u a) = add_counter (ru_turns a) (ur_turns u)"
  "ru_reported_turns (add_usage u a) = add_counter (ru_reported_turns a) (ur_reported_turns u)"
  "ru_input_tokens (add_usage u a) = add_counter (ru_input_tokens a) (ur_input_tokens u)"
  "ru_output_tokens (add_usage u a) = add_counter (ru_output_tokens a) (ur_output_tokens u)"
  by (simp_all add: add_usage_def case_prod_unfold Let_def)

definition sums_up :: "usage_record list \<Rightarrow> role_usage \<Rightarrow> bool" where
  "sums_up us a \<longleftrightarrow> ru_records a = int (length us) \<and> ru_turns a = total_of ur_turns us \<and>
     ru_reported_turns a = total_of ur_reported_turns us \<and>
     ru_input_tokens a = total_of ur_input_tokens us \<and> ru_output_tokens a = total_of ur_output_tokens us"

lemma sums_up_add: "sums_up us a \<Longrightarrow> sums_up (us @ [u]) (add_usage u a)"
  by (simp add: sums_up_def total_of_snoc)

lemma sums_up_none: "sums_up [] no_usage"
  by (simp add: sums_up_def no_usage_def total_of_def)

lemma record_usage_role:
  "sums_up (filter (\<lambda>u. ur_role u = r) us)
     (case dget (roles_of (record_usage us)) r of None \<Rightarrow> no_usage | Some a \<Rightarrow> a)"
proof (induction us arbitrary: r rule: rev_induct)
  case Nil
  show ?case by (simp add: record_usage_def roles_of_def sums_up_none)
next
  case (snoc u us)
  have s: "record_usage (us @ [u]) = Some (append_model_usage u (record_usage us))"
    by (simp add: record_usage_def)
  have d: "roles_of (record_usage (us @ [u])) = dset (ur_role u)
       (add_usage u (case dget (roles_of (record_usage us)) (ur_role u) of None \<Rightarrow> no_usage | Some a \<Rightarrow> a))
       (roles_of (record_usage us))"
    by (simp add: s roles_of_def [of "Some x" for x] append_model_usage_roles)
  show ?case using snoc.IH [of r] sums_up_add [OF snoc.IH [of "ur_role u"], of u] by (simp add: d)
qed

lemma record_usage_total:
  assumes "record_usage us = Some s"
  shows "us_total_tokens s =
    (case (role_tokens (us_roles s) ''orchestrator'', role_tokens (us_roles s) ''worker'',
           role_tokens (us_roles s) ''reviewer'') of
       (Some a, Some b, Some c) \<Rightarrow> Some (a + b + c) | _ \<Rightarrow> None)"
proof (cases us rule: rev_cases)
  case Nil
  with assms show ?thesis by (simp add: record_usage_def)
next
  case (snoc us' u)
  with assms have "s = append_model_usage u (record_usage us')" by (simp add: record_usage_def)
  then show ?thesis by (auto simp: append_model_usage_def Let_def split: option.split)
qed

end
