(* ===== verification/Ticket_Claims.thy ===== *)
theory Ticket_Claims
  imports Reaper Model_Usage
begin

section \<open>Claiming, releasing and renewing work\<close>

text \<open>
  The tools \<open>ticket_claim\<close>, \<open>ticket_unclaim\<close>, \<open>lease_renew\<close> and \<open>board_reap\<close>, each as the function
  its transaction runs on the document: a raised exception (\<open>Inl\<close>) leaves the stored document
  alone, any returned value commits the new one, refusals included.  Publication of the events a
  reply lists happens after the commit and is not part of the model.
\<close>

subsection \<open>Authorisation\<close>

definition require_scope :: "principal \<Rightarrow> string \<Rightarrow> unit result" where
  "require_scope p s =
     guardE (s \<in> set (pr_scopes p)) (PermissionError (''authenticated principal lacks '' @ s @ '' authorization''))"

definition require_board_write_or_coordinate :: "principal \<Rightarrow> bool result" where
  "require_board_write_or_coordinate p =
     (if ''board:write'' \<in> set (pr_scopes p) then Inr False
      else bindE (require_scope p COORDINATOR_SCOPE) (\<lambda>_. Inr True))"

definition require_board_review_or_coordinate :: "principal \<Rightarrow> bool result" where
  "require_board_review_or_coordinate p =
     (if ''board:review'' \<in> set (pr_scopes p) then Inr False
      else bindE (require_scope p COORDINATOR_SCOPE) (\<lambda>_. Inr True))"

definition claim_gate_bypass :: "board \<Rightarrow> principal \<Rightarrow> bool result" where
  "claim_gate_bypass b p =
     bindE (resolve_board_context b (pr_id p) None) (\<lambda>pm.
       Inr (pm_role pm = ''admin'' \<or> COORDINATOR_SCOPE \<in> set (pr_scopes p)))"

definition coordinator_actor ::
  "(string \<Rightarrow> string \<Rightarrow> string \<Rightarrow> string) \<Rightarrow> world \<Rightarrow> principal \<Rightarrow> string \<Rightarrow> (world \<times> seat) result" where
  "coordinator_actor aid_of w p name =
     bindE (require_scope p COORDINATOR_SCOPE) (\<lambda>_.
     bindE (resolve_board_context (brd w) (pr_id p) (Some [''admin'', ''member'', ''reviewer''])) (\<lambda>_.
     bindE (lookup_member aid_of w p name) (\<lambda>(w1, actor).
       if lifecycle_status actor \<noteq> ''active''
       then Inl (PermissionError ''coordinator seat is not active'')
       else Inr (w1, actor))))"

subsection \<open>Replies\<close>

record offer_report =
  or_present :: bool
  or_agent_id :: "string option"
  or_matches_actor :: bool
  or_broadcast :: bool
  or_state :: "string option"

datatype reply =
    Done ticket string string "release list" "string list" "release option"
      \<comment> \<open>ticket, status from and to, events, implicitly renewed, the event of the dispatch\<close>
  | Lease_Held ticket review_lease bool "release list" "string list"
      \<comment> \<open>a review lease; whether it was created now\<close>
  | Lease_Renewed ticket string "release list"
  | Reaped "release list" "string list" "string list"
  | Refused string "(claim_diagnostics \<times> offer_report option) option" "release list"
  | Failed string "release list"
  | Ticket_Set ticket bool "release list" "string list"
      \<comment> \<open>a ticket whose status did not change; whether the call was the first of its kind\<close>
  | Seats_Set "seat list" "release list" "string list"
  | Revision_Conflict int "release list"

definition modify_ticket :: "string \<Rightarrow> (ticket \<Rightarrow> ticket) \<Rightarrow> world \<Rightarrow> world" where
  "modify_ticket k f w = (case get_ticket w k of None \<Rightarrow> w | Some t \<Rightarrow> put_ticket k (f t) w)"

definition modify_member :: "string \<Rightarrow> (seat \<Rightarrow> seat) \<Rightarrow> world \<Rightarrow> world" where
  "modify_member k f w = (case get_member w k of None \<Rightarrow> w | Some m \<Rightarrow> put_member k (f m) w)"

definition option_list :: "'a option \<Rightarrow> 'a list" where
  "option_list x = (case x of None \<Rightarrow> [] | Some a \<Rightarrow> [a])"

text \<open>The last step of most tools: dispatch the ticket, then the whole queue.\<close>

definition dispatch_and_requeue ::
  "string \<Rightarrow> kind \<Rightarrow> string option \<Rightarrow> time \<Rightarrow> world \<Rightarrow> (world \<times> release option \<times> release list) result" where
  "dispatch_and_requeue tid k preferred now w =
     (case get_ticket w tid of
        None \<Rightarrow> Inl (KeyError tid)
      | Some t \<Rightarrow>
          bindE (dispatch_ticket w t now k preferred) (\<lambda>(w1, t1, ev).
            bindE (redispatch_queue (put_ticket tid t1 w1) now) (\<lambda>(w2, more). Inr (w2, ev, more))))"

subsection \<open>The gates of a claim\<close>

text \<open>
  A gate lets the claim pass (\<open>None\<close>), refuses it with a reason and diagnostics, or raises.  Where
  no seat has explicit capabilities the assignment decides.
\<close>

type_synonym gate = "(string \<times> (claim_diagnostics \<times> offer_report option) option) option"

definition name_matches :: "board \<Rightarrow> string \<Rightarrow> seat list" where
  "name_matches b requested =
     filter (\<lambda>m. casefold (agent_name m) = casefold requested) (dvalues (members b))"

definition assignment_names_actor :: "board \<Rightarrow> ticket \<Rightarrow> seat \<Rightarrow> string \<Rightarrow> bool" where
  "assignment_names_actor b t actor requested =
     (if assigned_to_kind t = Some ''agent_platform''
      then casefold (agent_platform actor) = casefold requested
      else case name_matches b requested of
             m # _ \<Rightarrow> agent_id actor = agent_id m
           | [] \<Rightarrow> assignment_matches actor requested)"

definition assigned_claim_gate :: "world \<Rightarrow> ticket \<Rightarrow> seat \<Rightarrow> time \<Rightarrow> bool \<Rightarrow> gate result" where
  "assigned_claim_gate w t actor now override =
     (if \<not> override \<and> \<not> worker_model_matches (brd w) t actor Work then
        bindE (dispatch_claim_diagnostics w t actor now Work) (\<lambda>d.
          Inr (Some (''ticket is not eligible for this worker model'', Some (d, None))))
      else if assigned_to_agent_id t \<notin> {None, Some (agent_id actor)} \<and> \<not> override
      then Inl (PermissionError ''ticket assigned to another authenticated identity'')
      else if assigned_to_agent_id t = None \<and> truthy (assigned_to t) \<and> \<not> override then
        (let requested = the (assigned_to t) in
         if assigned_to_kind t \<noteq> Some ''agent_platform'' \<and> 1 < length (name_matches (brd w) requested)
         then Inl (PermissionError ''ticket assignee is ambiguous; creator must use an exact agent_id'')
         else if \<not> assignment_names_actor (brd w) t actor requested
         then Inl (PermissionError ''ticket assigned to another agent or platform'')
         else Inr None)
      else Inr None)"

definition offered_claim_gate :: "world \<Rightarrow> ticket \<Rightarrow> seat \<Rightarrow> time \<Rightarrow> bool \<Rightarrow> gate result" where
  "offered_claim_gate w t actor now override =
     bindE (dispatch_candidate_is_eligible w t actor now Work) (\<lambda>eligible.
       let present = (offers t Work \<noteq> None);
           offer_agent = map_option o_agent_id (offers t Work);
           offer_matches = (\<not> present \<or> offer_agent = Some (agent_id actor));
           offer_present_or_broadcast = (present \<or> is_broadcast t)
       in if \<not> worker_model_matches (brd w) t actor Work \<or>
             (\<not> override \<and> (\<not> eligible \<or> \<not> offer_matches \<or> \<not> offer_present_or_broadcast))
          then bindE (dispatch_claim_diagnostics w t actor now Work) (\<lambda>d.
            Inr (Some (''ticket is not offered to this seat; wait for your offer'',
              Some (d\<lparr>dg_failures := dg_failures d
                       @ (if \<not> offer_matches then [''offer_recipient_mismatch''] else [])
                       @ (if \<not> offer_present_or_broadcast then [''offer_missing''] else [])\<rparr>,
                    Some \<lparr> or_present = present, or_agent_id = offer_agent,
                           or_matches_actor = offer_matches, or_broadcast = is_broadcast t,
                           or_state = map_option d_state (dispatch_state t) \<rparr>))))
          else Inr None)"

text \<open>Accepting the offer of a kind, also used by the review claim.\<close>

definition accept_offer ::
  "kind \<Rightarrow> string \<Rightarrow> seat \<Rightarrow> time \<Rightarrow> world \<times> ticket \<times> release list \<Rightarrow> world \<times> ticket \<times> release list" where
  "accept_offer k new_state actor now s =
     (case s of (w, t, evs) \<Rightarrow>
        let (w1, t1, evs1) =
          (case offers t k of
             None \<Rightarrow> (w, t, evs)
           | Some off \<Rightarrow>
               (case append_bounded_history H_Dispatch
                       (HE_Dispatch ((entry0 ''accepted'')
                          \<lparr>d_kind := Some k, d_agent_id := Some (agent_id actor), d_at := Some now\<rparr>))
                       (w, t\<lparr>offers := (offers t)(k := None)\<rparr>) of
                  (w', t') \<Rightarrow>
                    (w', t', if o_agent_id off \<noteq> agent_id actor
                             then evs @ [offer_revoked t k off ''operator_claim''] else evs)))
        in (w1, t1\<lparr>dispatch_state := Some ((entry0 new_state)
              \<lparr>d_kind := Some k, d_agent_id := Some (agent_id actor), d_at := Some now\<rparr>)\<rparr>, evs1))"

definition begin_attempt ::
  "time \<Rightarrow> world \<times> ticket \<times> release list \<Rightarrow> world \<times> ticket \<times> release list" where
  "begin_attempt now s =
     (case s of (w, t, evs) \<Rightarrow>
        if \<not> ticket_progress_v1 (cfg (brd w)) then s
        else
          let ((w1, t1), reset) =
                (if progress t \<noteq> None then reset_ticket_progress now ''unclaimed'' (w, t) else ((w, t), None));
              previous = (case work_attempt t1 of None \<Rightarrow> 0 | Some n \<Rightarrow> if n < 0 then 0 else n)
          in (w1, t1\<lparr>work_attempt := Some (previous + 1)\<rparr>, evs @ option_list reset))"

definition take_work :: "seat \<Rightarrow> principal \<Rightarrow> time \<Rightarrow> int \<Rightarrow> ticket \<Rightarrow> ticket" where
  "take_work actor p now ttl t =
     renew_claim now ttl ''model''
       (t\<lparr>status := ''claimed'',
          work := (work t)\<lparr>claimed_by_agent_id := Some (agent_id actor),
                    claimed_by_principal_id := Some (pr_id p), claimed_by := Some (agent_name actor),
                    claimed_at := Some now\<rparr>,
          updated_at := Some now\<rparr>)"

text \<open>Touching the actor: skipped for a principal that may only coordinate.\<close>

definition touch_unless :: "bool \<Rightarrow> seat \<Rightarrow> time \<Rightarrow> world \<Rightarrow> world \<times> string list" where
  "touch_unless coordinate_only actor now w =
     (if coordinate_only then (w, [])
      else (case touch_actor w actor now of (w1, _, renewed) \<Rightarrow> (w1, renewed)))"

definition claim_reply :: "world \<Rightarrow> string \<Rightarrow> string \<Rightarrow> string \<Rightarrow> release list \<Rightarrow> string list \<Rightarrow> (world \<times> reply) result" where
  "claim_reply w tid old new released renewed =
     (case get_ticket w tid of
        None \<Rightarrow> Inl (KeyError tid)
      | Some t \<Rightarrow> Inr (w, Done t old new released renewed None))"

definition start_claimed ::
  "world \<Rightarrow> string \<Rightarrow> ticket \<Rightarrow> seat \<Rightarrow> principal \<Rightarrow> time \<Rightarrow> bool \<Rightarrow> release list \<Rightarrow> (world \<times> reply) result" where
  "start_claimed w tid t actor p now coordinate_only released =
     (if claimed_by_agent_id (work t) \<noteq> Some (agent_id actor) \<or>
         claimed_by_principal_id (work t) \<noteq> Some (pr_id p)
      then Inl (ValueError ''ticket is claimed by another identity'')
      else
        let (w1, renewed) = touch_unless coordinate_only actor now w;
            w2 = modify_ticket tid
                   (\<lambda>t. renew_claim now (claim_ttl_s (cfg (brd w1))) ''model''
                          (t\<lparr>status := ''in_progress'', updated_at := Some now\<rparr>)) w1
        in claim_reply w2 tid ''claimed'' ''in_progress'' released renewed)"

definition claim_open ::
  "world \<Rightarrow> string \<Rightarrow> ticket \<Rightarrow> seat \<Rightarrow> principal \<Rightarrow> time \<Rightarrow> bool \<Rightarrow> release list \<Rightarrow> (world \<times> reply) result" where
  "claim_open w tid t actor p now coordinate_only released =
     (let offer_based = dispatch_enabled (brd w);
          (w1, t1, evs1) = (if offer_based then accept_offer Work ''claimed'' actor now (w, t, released)
                            else (w, t, released));
          (w2, renewed) = touch_unless coordinate_only actor now (put_ticket tid t1 w1)
      in case get_ticket w2 tid of
           None \<Rightarrow> Inl (KeyError tid)
         | Some t2 \<Rightarrow>
             (case begin_attempt now (w2, t2, evs1) of
                (w3, t3, evs3) \<Rightarrow>
                  claim_reply
                    (modify_member (agent_id actor) (\<lambda>m. m\<lparr>last_work_at := Some now\<rparr>)
                       (put_ticket tid (take_work actor p now (claim_ttl_s (cfg (brd w3))) t3) w3))
                    tid ''open'' ''claimed'' evs3 renewed))"

definition claim_with_actor ::
  "world \<Rightarrow> seat \<Rightarrow> principal \<Rightarrow> string \<Rightarrow> time \<Rightarrow> bool \<Rightarrow> release list \<Rightarrow> (world \<times> reply) result" where
  "claim_with_actor w actor p tid now coordinate_only released =
     (case get_ticket w tid of
        None \<Rightarrow> Inl (ValueError ''ticket not found'')
      | Some t \<Rightarrow>
          if status t = ''needs_human'' then Inl (ValueError ''ticket is waiting for a human answer'')
          else bindE (claim_gate_bypass (brd w) p) (\<lambda>override.
            if status t = ''claimed'' then start_claimed w tid t actor p now coordinate_only released
            else if status t \<noteq> ''open'' then Inl (ValueError (''ticket is '' @ status t))
            else if parked t \<and> \<not> override
            then Inr (w, Refused ''ticket is parked by the board owner'' None released)
            else bindE (if dispatch_enabled (brd w) then offered_claim_gate w t actor now override
                        else assigned_claim_gate w t actor now override) (\<lambda>gate.
              case gate of
                Some (msg, diag) \<Rightarrow> Inr (w, Refused msg diag released)
              | None \<Rightarrow> claim_open w tid t actor p now coordinate_only released)))"

text \<open>What runs before the claim: the reap without redispatch, then the acting seat.\<close>

definition claim_preamble ::
  "(string \<Rightarrow> string \<Rightarrow> string \<Rightarrow> string) \<Rightarrow> world \<Rightarrow> principal \<Rightarrow> string \<Rightarrow> time
     \<Rightarrow> (world \<times> seat \<times> bool \<times> release list) result" where
  "claim_preamble aid_of w p name now =
     bindE (require_board_write_or_coordinate p) (\<lambda>coordinate_only.
     bindE (reap_expired w now False) (\<lambda>(w1, released).
     bindE (if coordinate_only then coordinator_actor aid_of w1 p name
            else resolve_active_actor aid_of w1 p name) (\<lambda>(w2, actor).
       Inr (w2, actor, coordinate_only, released))))"

definition ticket_claim ::
  "(string \<Rightarrow> string \<Rightarrow> string \<Rightarrow> string) \<Rightarrow> world \<Rightarrow> principal \<Rightarrow> string \<Rightarrow> string \<Rightarrow> time \<Rightarrow> (world \<times> reply) result" where
  "ticket_claim aid_of w p name tid now =
     bindE (claim_preamble aid_of w p name now) (\<lambda>(w1, actor, coordinate_only, released).
       claim_with_actor w1 actor p tid now coordinate_only released)"

subsection \<open>Giving work back\<close>

definition release_work :: "seat \<Rightarrow> principal \<Rightarrow> time \<Rightarrow> ticket \<Rightarrow> ticket" where
  "release_work actor p now t =
     t\<lparr>last_claimed_by_agent_id := claimed_by_agent_id (work t),
       last_claimed_by_principal_id := claimed_by_principal_id (work t),
       last_claimed_by := claimed_by (work t), last_claimed_at := claimed_at (work t),
       unclaimed := \<lparr> u_agent_id = Some (agent_id actor), u_principal_id = Some (pr_id p),
                      u_at = Some now \<rparr>,
       last_release_reason := Some ''explicit unclaim'', status := ''open'', updated_at := Some now\<rparr>"

definition unclaim_with_actor ::
  "world \<Rightarrow> seat \<Rightarrow> principal \<Rightarrow> string \<Rightarrow> time \<Rightarrow> release list \<Rightarrow> string list \<Rightarrow> (world \<times> reply) result" where
  "unclaim_with_actor w actor p tid now released renewed =
     (case get_ticket w tid of
        None \<Rightarrow> Inl (ValueError ''ticket not found'')
      | Some t \<Rightarrow>
          if \<not> pre_submission t then Inl (ValueError (''ticket is '' @ status t))
          else bindE (resolve_board_context (brd w) (pr_id p) None) (\<lambda>pm.
            if claimed_by_agent_id (work t) \<noteq> Some (agent_id actor) \<and> pm_role pm \<noteq> ''admin''
            then Inl (PermissionError ''unclaim denied: requires current claiming agent or board admin'')
            else
              (case reset_ticket_progress now ''unclaimed'' (w, release_work actor p now t) of
                 ((w2, t2), reset) \<Rightarrow>
                   bindE (dispatch_and_requeue tid Work None now
                            (put_ticket tid (t2\<lparr>work := no_work_lease\<rparr>) w2)) (\<lambda>(w3, ev, more).
                     case get_ticket w3 tid of
                       None \<Rightarrow> Inl (KeyError tid)
                     | Some t3 \<Rightarrow>
                         Inr (w3, Done t3 (status t) ''open'' (released @ option_list reset @ more)
                                (filter (\<lambda>i. i \<noteq> tid) renewed) ev)))))"

definition ticket_unclaim ::
  "(string \<Rightarrow> string \<Rightarrow> string \<Rightarrow> string) \<Rightarrow> world \<Rightarrow> principal \<Rightarrow> string \<Rightarrow> string \<Rightarrow> time \<Rightarrow> (world \<times> reply) result" where
  "ticket_unclaim aid_of w p name tid now =
     bindE (require_scope p ''board:write'') (\<lambda>_.
     bindE (prepare_board_call aid_of w p name now) (\<lambda>(w1, actor, released, renewed).
       unclaim_with_actor w1 actor p tid now released renewed))"

subsection \<open>Renewing\<close>

definition review_label :: "string \<Rightarrow> string result" where
  "review_label pol =
     (if pol = ''strict'' then Inr ''independent-principal-review''
      else if pol = ''workflow'' then Inr ''workflow-review''
      else Inl (ValueError ''board review policy is invalid''))"

text \<open>Who may review: never the submitting seat, under \<open>strict\<close> no seat of the same principal.\<close>

definition validate_review_independence ::
  "string \<Rightarrow> ticket \<Rightarrow> string option \<Rightarrow> principal \<Rightarrow> (string \<times> string) result" where
  "validate_review_independence pol t actor_id p =
     (if submitted_by_agent_id t = actor_id
      then Inl (PermissionError ''self-review denied: authenticated seat submitted this work'')
      else if \<not> truthy (submitted_by_agent_id t) \<or> \<not> truthy (submitted_by_principal_id t)
      then Inl (ValueError ''submitted ticket is missing review provenance'')
      else if pol = ''strict'' \<and> submitted_by_principal_id t = Some (pr_id p)
      then Inl (PermissionError ''independent-principal review denied'')
      else Inr (the (submitted_by_agent_id t), the (submitted_by_principal_id t)))"

definition lease_of :: "review_slot \<Rightarrow> review_lease option" where
  "lease_of s = (case s of RS_Lease l \<Rightarrow> Some l | _ \<Rightarrow> None)"

text \<open>
  With an agent name the seat is resolved first; without one the lease of the principal is enough.
\<close>

definition renews_review ::
  "(string \<Rightarrow> string \<Rightarrow> string \<Rightarrow> string) \<Rightarrow> world \<Rightarrow> principal \<Rightarrow> string option \<Rightarrow> ticket
     \<Rightarrow> (world \<times> (review_lease \<times> string option) option) result" where
  "renews_review aid_of w p name t =
     (case lease_of (review_lease t) of
        Some l \<Rightarrow>
          if status t \<noteq> ''submitted'' then Inr (w, None)
          else bindE (case name of
                        None \<Rightarrow> Inr (w, None)
                      | Some n \<Rightarrow> bindE (lookup_member aid_of w p n) (\<lambda>(w1, m). Inr (w1, Some m)))
            (\<lambda>(w1, member).
               if reviewer_principal_id l = Some (pr_id p) \<and>
                  (case member of None \<Rightarrow> True | Some m \<Rightarrow> reviewer_agent_id l = Some (agent_id m))
               then Inr (w1, Some (l, case member of None \<Rightarrow> reviewer_agent_id l
                                      | Some m \<Rightarrow> Some (agent_id m)))
               else Inr (w1, None))
      | None \<Rightarrow> Inr (w, None))"

definition lease_renew ::
  "(string \<Rightarrow> string \<Rightarrow> string \<Rightarrow> string) \<Rightarrow> world \<Rightarrow> principal \<Rightarrow> string option \<Rightarrow> string \<Rightarrow> string option \<Rightarrow> time
     \<Rightarrow> (world \<times> reply) result" where
  "lease_renew aid_of w p name tid source now =
     bindE (normalize_renewal_source source) (\<lambda>src.
     bindE (guardE (''board:write'' \<in> set (pr_scopes p) \<or> ''board:review'' \<in> set (pr_scopes p))
              (PermissionError ''authenticated principal lacks board:write or board:review authorization'')) (\<lambda>_.
     bindE (resolve_board_context (brd w) (pr_id p) None) (\<lambda>_.
     bindE (reap_expired w now True) (\<lambda>(w1, released).
       case get_ticket w1 tid of
         None \<Rightarrow> Inr (w1, Failed ''ticket not found'' released)
       | Some t \<Rightarrow>
           bindE (renews_review aid_of w1 p name t) (\<lambda>(w2, held).
             case held of
               Some (l, reviewer) \<Rightarrow>
                 bindE (validate_review_independence (review_policy (cfg (brd w2))) t reviewer p) (\<lambda>_.
                   let t' = t\<lparr>review_lease := RS_Lease (renew_review_lease now (claim_ttl_s (cfg (brd w2))) src l),
                              updated_at := Some now\<rparr>
                   in Inr (put_ticket tid t' w2, Lease_Renewed t' ''review'' released))
             | None \<Rightarrow>
                 if \<not> pre_submission t \<or> claimed_by_principal_id (work t) \<noteq> Some (pr_id p)
                 then Inr (w2, Failed ''lease is not held by this principal; lease was released'' released)
                 else let t' = renew_claim now (claim_ttl_s (cfg (brd w2))) src t
                      in Inr (put_ticket tid t' w2, Lease_Renewed t' ''work'' released))))))"

definition board_reap :: "world \<Rightarrow> principal \<Rightarrow> time \<Rightarrow> (world \<times> reply) result" where
  "board_reap w p now =
     bindE (require_scope p ''board:write'') (\<lambda>_.
     bindE (resolve_board_context (brd w) (pr_id p) None) (\<lambda>_.
     bindE (reap_expired w now True) (\<lambda>(w1, released).
       let mine = (\<lambda>t. pre_submission t \<and> claimed_by_principal_id (work t) = Some (pr_id p));
           ttl = claim_ttl_s (cfg (brd w1));
           ts = tickets (brd w1);
           w2 = w1\<lparr>brd := (brd w1)\<lparr>tickets :=
                  map (\<lambda>(k, t). (k, if mine t then renew_claim now ttl ''model'' t else t)) ts\<rparr>\<rparr>
       in Inr (w2, Reaped released (map ticket_id (filter mine (dvalues ts)))
                (map ticket_id (filter (\<lambda>t. status t \<in> {''submitted'', ''closed'', ''rejected''})
                                  (dvalues (tickets (brd w2)))))))))"

end
