(* ===== verification/Submission_Evidence.thy ===== *)
theory Submission_Evidence
  imports Board_State
begin

section \<open>The identity of a submission and the fingerprint of a rejection\<close>

text \<open>
  \<^verbatim>\<open>packages/client/src/pursers_client/submission_evidence.py\<close>: which commit a submission is about,
  from the verified preflight, the explicit fields and the labelled line in the notes, and a
  normalised digest of review feedback.  The regular expressions are written out as parsers: the
  line anchors make them work line by line, and the branch characters exclude blanks and \<open>@\<close>, so
  that no backtracking can succeed where the greedy reading fails.
\<close>

subsection \<open>Characters and lines\<close>

definition hex_char :: "char \<Rightarrow> bool" where
  "hex_char c = (let n = of_char c :: nat in
     (48 \<le> n \<and> n \<le> 57) \<or> (65 \<le> n \<and> n \<le> 70) \<or> (97 \<le> n \<and> n \<le> 102))"

definition branch_char :: "char \<Rightarrow> bool" where
  "branch_char c \<longleftrightarrow> alnum_char c \<or> c \<in> set ''._/+-''"

definition blank :: "char \<Rightarrow> bool" where
  "blank c \<longleftrightarrow> c = CHR '' '' \<or> c = CHR 0x09"

subsection \<open>Identities\<close>

definition branch_ok :: "string \<Rightarrow> bool" where
  "branch_ok b =
     (case b of [] \<Rightarrow> False
      | c # cs \<Rightarrow> alnum_char c \<and> length cs \<le> 239 \<and> list_all branch_char cs)"

definition sha_ok :: "string \<Rightarrow> bool" where
  "sha_ok s \<longleftrightarrow> length s = 40 \<and> list_all hex_char s"

definition no_identity :: "string \<times> string" where
  "no_identity = ([], [])"

definition evidence_identity :: "string option \<Rightarrow> string option \<Rightarrow> string \<times> string" where
  "evidence_identity b s =
     (case (b, s) of
        (Some br, Some sha) \<Rightarrow>
          if \<not> branch_ok br \<or> \<not> sha_ok sha \<or> contains_text ''..'' br \<or> contains_text ''//'' br \<or>
             list_ex (\<lambda>p. ends_with ''.lock'' p \<or> ends_with ''.'' p) (split_at (CHR ''/'') br) \<or>
             ends_with ''/'' br
          then no_identity
          else (br, casefold sha)
      | _ \<Rightarrow> no_identity)"

text \<open>One line of the notes: the text after the label, and the branch and commit it names.\<close>

definition label_rest :: "string \<Rightarrow> string option" where
  "label_rest line =
     (let l = dropWhile blank line; lab = ''branch_and_commit'' in
      if casefold (take (length lab) l) = lab
      then (case dropWhile blank (drop (length lab) l) of
              [] \<Rightarrow> None
            | c # cs \<Rightarrow> if c = CHR '':'' then Some (dropWhile blank cs) else None)
      else None)"

definition branch_line :: "string \<Rightarrow> (string \<times> string) option" where
  "branch_line line =
     (case label_rest line of
        None \<Rightarrow> None
      | Some r \<Rightarrow>
          let b = takeWhile branch_char r in
          if \<not> branch_ok b then None
          else (case dropWhile blank (dropWhile branch_char r) of
                  [] \<Rightarrow> None
                | c # cs \<Rightarrow>
                    if c \<noteq> CHR ''@'' then None
                    else let h = dropWhile blank cs; sha = take 40 h in
                         if sha_ok sha \<and> list_all blank (drop 40 h) then Some (b, sha) else None))"

definition note_labels :: "string \<Rightarrow> string list" where
  "note_labels notes = concat (map (\<lambda>l. case label_rest l of None \<Rightarrow> [] | Some r \<Rightarrow> [r])
     (split_at (CHR 0x0A) notes))"

definition note_branches :: "string \<Rightarrow> (string \<times> string) list" where
  "note_branches notes = concat (map (\<lambda>l. case branch_line l of None \<Rightarrow> [] | Some p \<Rightarrow> [p])
     (split_at (CHR 0x0A) notes))"

text \<open>
  What \<open>submission_identity\<close> reads of the mapping it gets: a stored submission, or the ticket itself
  when no submission is recorded.
\<close>

record evidence =
  ev_preflight :: "(string \<times> string) option"
  ev_branch :: "string option"
  ev_commit :: "string option"
  ev_notes :: "string option"

definition evidence_of_submission :: "submission \<Rightarrow> evidence" where
  "evidence_of_submission s =
     \<lparr> ev_preflight = s_preflight s, ev_branch = s_branch s, ev_commit = s_commit_hash s,
       ev_notes = s_notes s \<rparr>"

definition evidence_of_ticket :: "ticket \<Rightarrow> evidence" where
  "evidence_of_ticket t =
     \<lparr> ev_preflight = submission_preflight t, ev_branch = branch t, ev_commit = commit_hash t,
       ev_notes = submission_notes t \<rparr>"

text \<open>The identities found: \<open>None\<close> when the notes are ambiguous.\<close>

definition submission_identities :: "evidence \<Rightarrow> (string \<times> string) list option" where
  "submission_identities s =
     (let notes = (case ev_notes s of None \<Rightarrow> [] | Some n \<Rightarrow> n);
          proof_part = (case ev_preflight s of None \<Rightarrow> []
                        | Some (b, c) \<Rightarrow> [evidence_identity (Some b) (Some c)]);
          field_part = (if ev_branch s \<noteq> None \<or> ev_commit s \<noteq> None
                        then [evidence_identity (ev_branch s) (ev_commit s)] else [])
      in if note_labels notes = [] then Some (proof_part @ field_part)
         else if length (note_labels notes) \<noteq> 1 \<or> length (note_branches notes) \<noteq> 1 then None
         else (case hd (note_branches notes) of
                 (b, c) \<Rightarrow> Some (proof_part @ field_part @ [evidence_identity (Some b) (Some c)])))"

definition submission_identity :: "evidence \<Rightarrow> string \<times> string" where
  "submission_identity s =
     (case submission_identities s of
        None \<Rightarrow> no_identity
      | Some ids \<Rightarrow>
          if ids = [] \<or> no_identity \<in> set ids \<or> length (remdups ids) \<noteq> 1 then no_identity
          else hd ids)"

subsection \<open>Test output in the notes\<close>

text \<open>
  \<open>submission_test_output\<close>: the labelled section (up to the next label line), or the older one-line
  assignment \<open>test_output = ...\<close>.
\<close>

definition after_label :: "string \<Rightarrow> string \<Rightarrow> string option" where
  "after_label lab line =
     (let l = dropWhile blank line; req = ''required'';
          l' = (let r = drop (length req) l in
                if casefold (take (length req) l) = req \<and> r \<noteq> [] \<and> blank (hd r)
                then dropWhile blank r else l)
      in if casefold (take (length lab) l') = lab
         then (case dropWhile blank (drop (length lab) l') of
                 [] \<Rightarrow> None
               | c # cs \<Rightarrow> if c = CHR '':'' then Some (dropWhile blank cs) else None)
         else None)"

definition ends_section :: "string \<Rightarrow> bool" where
  "ends_section line =
     list_ex (\<lambda>lab. after_label lab line \<noteq> None)
       [''branch_and_commit'', ''commit_hash'', ''submission_preflight'', ''model'']"

fun labelled_section :: "string list \<Rightarrow> string option" where
  "labelled_section [] = None"
| "labelled_section (l # ls) =
     (case after_label ''test_output'' l of
        None \<Rightarrow> labelled_section ls
      | Some r \<Rightarrow> Some (r @ concat (map (\<lambda>x. CHR 0x0A # x) (takeWhile (\<lambda>x. \<not> ends_section x) ls))))"

definition word_char :: "char \<Rightarrow> bool" where
  "word_char c \<longleftrightarrow> alnum_char c \<or> c = CHR ''_''"

definition assigned_value :: "string \<Rightarrow> string option" where
  "assigned_value rest =
     (case dropWhile blank rest of
        [] \<Rightarrow> None
      | c # cs \<Rightarrow>
          if c \<noteq> CHR ''='' then None
          else let v = dropWhile blank cs; plain = takeWhile (\<lambda>d. d \<noteq> CHR '';'' \<and> d \<noteq> CHR 0x0A) v in
               if v \<noteq> [] \<and> hd v = CHR 0x60 \<and> CHR 0x60 \<in> set (tl v)
               then Some (CHR 0x60 # takeWhile (\<lambda>d. d \<noteq> CHR 0x60) (tl v) @ [CHR 0x60])
               else if plain \<noteq> [] then Some plain
               else if v \<noteq> cs then Some [] else None)"

fun find_assignment :: "bool \<Rightarrow> string \<Rightarrow> string option" where
  "find_assignment after_word [] = None"
| "find_assignment after_word (c # cs) =
     (let lab = ''test_output''; here = c # cs in
      if \<not> after_word \<and> casefold (take (length lab) here) = lab \<and>
         assigned_value (drop (length lab) here) \<noteq> None
      then assigned_value (drop (length lab) here)
      else find_assignment (word_char c) cs)"

definition strip_quotes :: "string \<Rightarrow> string" where
  "strip_quotes s = rev (dropWhile (\<lambda>c. c = CHR 0x60) (rev (dropWhile (\<lambda>c. c = CHR 0x60) s)))"

definition submission_test_output :: "string option \<Rightarrow> string" where
  "submission_test_output notes =
     (let n = (case notes of None \<Rightarrow> [] | Some x \<Rightarrow> x) in
      case labelled_section (split_at (CHR 0x0A) n) of
        Some s \<Rightarrow> strip s
      | None \<Rightarrow> (case find_assignment False n of None \<Rightarrow> [] | Some v \<Rightarrow> strip_quotes (strip v)))"

subsection \<open>Fingerprints of rejections\<close>

fun words :: "string \<Rightarrow> string list" where
  "words [] = []"
| "words (c # cs) =
     (if is_space c then words cs
      else (case cs of
              [] \<Rightarrow> [[c]]
            | d # _ \<Rightarrow> if is_space d then [c] # words cs
                       else (case words cs of [] \<Rightarrow> [[c]] | w # ws \<Rightarrow> (c # w) # ws)))"

definition join_words :: "string list \<Rightarrow> string" where
  "join_words ws = (case ws of [] \<Rightarrow> [] | v # vs \<Rightarrow> v @ concat (map (\<lambda>w. CHR '' '' # w) vs))"

function squeeze_at :: "string \<Rightarrow> string" where
  "squeeze_at [] = []"
| "squeeze_at (c # cs) =
     (if c = CHR '' '' \<and> (case cs of d # _ \<Rightarrow> d = CHR ''@'' | [] \<Rightarrow> False) then squeeze_at cs
      else if c = CHR ''@'' then c # squeeze_at (dropWhile (\<lambda>d. d = CHR '' '') cs)
      else c # squeeze_at cs)"
  by pat_completeness auto

termination
  by (relation "measure length") (simp_all only: in_measure wf_measure length_Cons lessI le_imp_less_Suc length_dropWhile_le)

definition normalized_rejection :: "string option \<Rightarrow> string" where
  "normalized_rejection reason =
     squeeze_at (join_words (words (casefold (case reason of None \<Rightarrow> [] | Some r \<Rightarrow> r))))"

definition rejection_fingerprint :: "(string \<Rightarrow> string) \<Rightarrow> string option \<Rightarrow> string" where
  "rejection_fingerprint digest reason =
     (let n = normalized_rejection reason in if n = [] then [] else digest n)"

subsection \<open>No winner among conflicting evidence\<close>

lemma identity_agrees:
  assumes "submission_identity s = (b, c)" "b \<noteq> []"
  shows "\<exists>ids. submission_identities s = Some ids \<and> ids \<noteq> [] \<and> (\<forall>i \<in> set ids. i = (b, c))"
proof -
  from assms obtain ids where i: "submission_identities s = Some ids" "ids \<noteq> []"
    "length (remdups ids) = 1" "hd ids = (b, c)"
    by (auto simp: submission_identity_def no_identity_def split: option.splits if_splits)
  from i(3) obtain x where "remdups ids = [x]"
    by (cases "remdups ids") (auto simp del: remdups_eq_nil_iff)
  then have x: "set ids = {x}" by (metis list.set(1) list.set(2) set_remdups)
  then have "hd ids = x" using i(2) hd_in_set [of ids] by auto
  with x i(4) have "\<forall>i \<in> set ids. i = (b, c)" by simp
  with i(1,2) show ?thesis by blast
qed

lemma evidence_identity_ok:
  "evidence_identity b s = (br, sha) \<Longrightarrow> br \<noteq> [] \<Longrightarrow>
     b = Some br \<and> branch_ok br \<and> \<not> contains_text ''..'' br \<and> (\<exists>h. s = Some h \<and> sha_ok h \<and> sha = casefold h)"
  by (auto simp: evidence_identity_def no_identity_def split: option.splits if_splits)

end
