(* ===== verification/Ticket_Review.thy ===== *)
theory Ticket_Review
  imports Ticket_Claims Submission_Evidence
begin

section \<open>Submission, review, cancellation\<close>

text \<open>
  The tools \<open>ticket_submit\<close>, \<open>ticket_review_claim\<close>, \<open>ticket_review_release\<close>, \<open>ticket_review\<close> and
  \<open>ticket_cancel\<close>.  Texts arrive as the scrubber (\<open>clean_text\<close>) returns them, together with the
  counts of what it let pass; the two regular expressions that find the branch line of a code
  ticket and the check of the HMAC proof are parameters, as is SHA-256.
\<close>

subsection \<open>The audit of the scrubber\<close>

definition accepted_allows :: "(string \<times> int) list \<Rightarrow> (string \<times> int) list" where
  "accepted_allows counts = filter (\<lambda>(_, n). 0 < n) counts"

definition record_scrub_allows :: "seat \<Rightarrow> time \<Rightarrow> (string \<times> int) list \<Rightarrow> world \<Rightarrow> world" where
  "record_scrub_allows actor now counts w =
     (let acc = accepted_allows counts in
      if acc = [] then w
      else
        let b = brd w;
            durable = fold (\<lambda>(r, n) d. dset r ((case dget d r of None \<Rightarrow> 0 | Some k \<Rightarrow> k) + n) d)
                        acc (scrub_allow_counts b);
            audit = \<lparr> sa_profile = scrub_profile b, sa_rules = sort (map fst acc),
                      sa_count = sum_list (map snd acc), sa_at = now, sa_agent_id = agent_id actor \<rparr>
        in w\<lparr>brd := b\<lparr>scrub_allow_counts := durable, last_scrub_allow := Some audit\<rparr>\<rparr>)"

subsection \<open>Submission\<close>

text \<open>The check that a code ticket's notes name one pushed commit.\<close>

definition expected_preflight :: "string \<Rightarrow> string \<Rightarrow> (string, string) odict" where
  "expected_preflight br sha =
     [(''kind'', ''git-ls-remote-exact-tip-v1''), (''branch'', br), (''commit'', sha),
      (''remote_ref'', ''origin/'' @ br), (''remote_tip'', sha)]"

definition check_preflight ::
  "(string \<Rightarrow> string list) \<Rightarrow> (string \<Rightarrow> (string \<times> string) list)
     \<Rightarrow> (string option \<Rightarrow> (string, string) odict \<Rightarrow> bool)
     \<Rightarrow> string list \<Rightarrow> string option \<Rightarrow> (string, string) odict option \<Rightarrow> (string \<times> string) option result" where
  "check_preflight branch_lines exact_lines proof_ok required notes preflight =
     (if ''branch_and_commit'' \<notin> set required \<and> preflight = None then Inr None
      else
        let n = (case notes of None \<Rightarrow> [] | Some x \<Rightarrow> x) in
        if length (branch_lines n) \<noteq> 1 \<or> length (exact_lines n) \<noteq> 1
        then Inl (ValueError ''branch_and_commit must appear exactly once in notes'')
        else
          let (br, sha0) = hd (exact_lines n); sha = casefold sha0; expected = expected_preflight br sha in
          case preflight of
            None \<Rightarrow> Inl (PermissionError ''raw ticket_submit is unavailable for code tickets'')
          | Some pf \<Rightarrow>
              let received = dpop ''proof'' pf in
              if \<not> dict_eq received expected
              then Inl (ValueError ''submission preflight does not match branch_and_commit'')
              else if \<not> proof_ok (dget pf ''proof'') expected
              then Inl (PermissionError ''clone-owned remote-tip proof is missing or invalid'')
              else Inr (Some (br, sha)))"

record submit_input =
  si_summary :: "string option"
  si_files :: "string list"
  si_notes :: "string option"
  si_test_output :: "string option"
  si_stay_active :: bool
  si_preflight :: "(string, string) odict option"
  si_usage :: "json option"
  si_allow_counts :: "(string \<times> int) list"

definition submission_of ::
  "submit_input \<Rightarrow> string option \<Rightarrow> (string \<times> string) option \<Rightarrow> usage_record \<Rightarrow> seat \<Rightarrow> principal \<Rightarrow> time \<Rightarrow> submission" where
  "submission_of inp out verified usage actor p now =
     \<lparr> s_summary = (case si_summary inp of None \<Rightarrow> [] | Some s \<Rightarrow> s),
       s_files_changed = si_files inp, s_notes = si_notes inp,
       s_test_output = (case out of None \<Rightarrow> [] | Some o' \<Rightarrow> o'),
       s_submitted_by_agent_id = agent_id actor, s_submitted_by_principal_id = pr_id p,
       s_submitted_at = now, s_branch = map_option fst verified,
       s_commit_hash = map_option snd verified, s_preflight = verified, s_usage = usage \<rparr>"

definition store_submission :: "submission \<Rightarrow> time \<Rightarrow> ticket \<Rightarrow> ticket" where
  "store_submission s now t =
     t\<lparr>summary := Some (s_summary s), files_changed := s_files_changed s,
       submission_notes := s_notes s, test_output := Some (s_test_output s),
       submitted_by_agent_id := Some (s_submitted_by_agent_id s),
       submitted_by_principal_id := Some (s_submitted_by_principal_id s),
       submitted_at := Some (s_submitted_at s),
       branch := (if s_branch s \<noteq> None then s_branch s else branch t),
       commit_hash := (if s_commit_hash s \<noteq> None then s_commit_hash s else commit_hash t),
       submission_preflight := (if s_preflight s \<noteq> None then s_preflight s else submission_preflight t),
       runtime_model_usage := Some (s_usage s), status := ''submitted'', updated_at := Some now\<rparr>"

text \<open>The lease ends with the submission; the claim fields stay as the record of the executor.\<close>

definition end_work_lease :: "ticket \<Rightarrow> ticket" where
  "end_work_lease t =
     t\<lparr>last_lease_expires_at := lease_expires_at (work t),
       work := (work t)\<lparr>lease_expires_at := T_Null, lease_expires_at_epoch := E_Null,
                 lease_renewed_at := None, lease_renewal_source := None,
                 lease_last_model_renewed_at := None, lease_keepalive_only_since := None,
                 ttl_s := None\<rparr>\<rparr>"

definition hand_off :: "seat \<Rightarrow> time \<Rightarrow> world \<Rightarrow> world" where
  "hand_off actor now w =
     modify_member (agent_id actor) (\<lambda>m. m\<lparr>lifecycle_status := ''handed_off'', handed_off_at := Some now\<rparr>) w"

definition submit_held ::
  "world \<Rightarrow> string \<Rightarrow> ticket \<Rightarrow> seat \<Rightarrow> principal \<Rightarrow> submit_input \<Rightarrow> (string \<times> string) option \<Rightarrow> time
     \<Rightarrow> release list \<Rightarrow> string list \<Rightarrow> (world \<times> reply) result" where
  "submit_held w tid t actor p inp verified now released renewed =
     (let out = (case si_test_output inp of Some o' \<Rightarrow> Some o'
                 | None \<Rightarrow> Some (submission_test_output (si_notes inp))) in
      if verified \<noteq> None \<and> ''test_output'' \<in> set (required_fields t) \<and> \<not> truthy out
      then Inl (ValueError ''test_output is required for this code ticket; claim preserved'')
      else bindE (model_usage_record (si_usage inp) ''worker'' actor (pr_id p) now) (\<lambda>usage.
        let s = submission_of inp out verified usage actor p now;
            (w1, t1) = append_bounded_history H_Submission (HE_Submission s)
                         (w, t\<lparr>model_usage := Some (append_model_usage usage (model_usage t))\<rparr>);
            ((w2, t2), reset) = reset_ticket_progress now ''submitted'' (w1, store_submission s now t1);
            w3 = put_ticket tid (end_work_lease t2) w2;
            w4 = (if si_stay_active inp then w3 else hand_off actor now w3)
        in bindE (dispatch_and_requeue tid Review None now w4) (\<lambda>(w5, ev, more).
             let w6 = record_scrub_allows actor now (si_allow_counts inp) w5 in
             case get_ticket w6 tid of
               None \<Rightarrow> Inl (KeyError tid)
             | Some t6 \<Rightarrow>
                 Inr (w6, Done t6 (status t) ''submitted'' (released @ option_list reset @ more) renewed ev))))"

definition submit_with_actor ::
  "(ticket \<Rightarrow> string option \<Rightarrow> (string, string) odict option \<Rightarrow> (string \<times> string) option result)
     \<Rightarrow> world \<Rightarrow> seat \<Rightarrow> principal \<Rightarrow> string \<Rightarrow> submit_input \<Rightarrow> time \<Rightarrow> release list \<Rightarrow> string list
     \<Rightarrow> (world \<times> reply) result" where
  "submit_with_actor preflight w actor p tid inp now released renewed =
     (case get_ticket w tid of
        None \<Rightarrow> Inr (w, Failed ''ticket not found'' released)
      | Some t \<Rightarrow>
          if server_generated_id t \<and> si_summary inp = None
          then Inl (ValueError ''summary is required for generated-ID tickets'')
          else bindE (preflight t (si_notes inp) (si_preflight inp)) (\<lambda>verified.
            if claimed_by_agent_id (work t) \<noteq> Some (agent_id actor)
            then Inr (w, Failed ''caller is not current executor; lease was released'' released)
            else if \<not> pre_submission t then Inr (w, Failed (''ticket is '' @ status t) released)
            else submit_held w tid t actor p inp verified now released renewed))"

definition ticket_submit ::
  "(string \<Rightarrow> string \<Rightarrow> string \<Rightarrow> string)
     \<Rightarrow> (ticket \<Rightarrow> string option \<Rightarrow> (string, string) odict option \<Rightarrow> (string \<times> string) option result)
     \<Rightarrow> world \<Rightarrow> principal \<Rightarrow> string \<Rightarrow> string \<Rightarrow> submit_input \<Rightarrow> time \<Rightarrow> (world \<times> reply) result" where
  "ticket_submit aid_of preflight w p name tid inp now =
     bindE (require_scope p ''board:write'') (\<lambda>_.
     bindE (prepare_board_call aid_of w p name now) (\<lambda>(w1, actor, released, renewed).
       submit_with_actor preflight w1 actor p tid inp now released renewed))"

text \<open>The preflight of the server, over the two regular expressions and the proof check.\<close>

definition server_preflight ::
  "(string \<Rightarrow> string list) \<Rightarrow> (string \<Rightarrow> (string \<times> string) list)
     \<Rightarrow> (string option \<Rightarrow> (string, string) odict \<Rightarrow> bool)
     \<Rightarrow> ticket \<Rightarrow> string option \<Rightarrow> (string, string) odict option \<Rightarrow> (string \<times> string) option result" where
  "server_preflight branch_lines exact_lines proof_ok t notes pf =
     check_preflight branch_lines exact_lines proof_ok (required_fields t) notes pf"

subsection \<open>Reserving a review\<close>

definition board_role_allows_review :: "board \<Rightarrow> principal \<Rightarrow> bool result" where
  "board_role_allows_review b p =
     (if ''board:review'' \<notin> set (pr_scopes p) then Inr False
      else bindE (resolve_board_context b (pr_id p) None) (\<lambda>pm.
             Inr (pm_role pm \<in> {''admin'', ''reviewer''})))"

text \<open>The gate where dispatch is enabled and nobody holds the review: \<open>None\<close> lets pass.\<close>

definition review_offer_gate :: "world \<Rightarrow> ticket \<Rightarrow> seat \<Rightarrow> time \<Rightarrow> bool \<Rightarrow> string option result" where
  "review_offer_gate w t actor now override =
     (if override then Inr None
      else bindE (dispatch_candidate_is_eligible w t actor now Review) (\<lambda>eligible.
        if \<not> eligible \<or>
           (case offers t Review of
              Some off \<Rightarrow> o_agent_id off \<noteq> agent_id actor
            | None \<Rightarrow> \<not> is_broadcast t)
        then Inr (Some ''ticket is not offered to this seat; wait for your offer'')
        else Inr None))"

definition claim_live_review ::
  "world \<Rightarrow> string \<Rightarrow> ticket \<Rightarrow> review_lease \<Rightarrow> seat \<Rightarrow> principal \<Rightarrow> time \<Rightarrow> bool \<Rightarrow> release list
     \<Rightarrow> (world \<times> reply) result" where
  "claim_live_review w tid t l actor p now coordinate_only released =
     (if reviewer_agent_id l = Some (agent_id actor) \<and> reviewer_principal_id l = Some (pr_id p)
      then let (w1, renewed) = touch_unless coordinate_only actor now w;
               l' = renew_review_lease now (claim_ttl_s (cfg (brd w1))) ''model'' l;
               t' = t\<lparr>review_lease := RS_Lease l', updated_at := Some now\<rparr>
           in Inr (put_ticket tid t' w1, Lease_Held t' l' False released renewed)
      else Inr (w, Failed ''review_already_claimed'' released))"

definition claim_new_review ::
  "world \<Rightarrow> string \<Rightarrow> ticket \<Rightarrow> seat \<Rightarrow> principal \<Rightarrow> time \<Rightarrow> bool \<Rightarrow> release list \<Rightarrow> (world \<times> reply) result" where
  "claim_new_review w tid t actor p now coordinate_only released =
     (let (w1, t1, evs) = (if dispatch_enabled (brd w)
                           then accept_offer Review ''review_claimed'' actor now (w, t, released)
                           else (w, t, released));
          (w2, renewed) = touch_unless coordinate_only actor now (put_ticket tid t1 w1);
          (l, t2) = claim_review_lease actor p now (claim_ttl_s (cfg (brd w2))) t1
      in Inr (modify_member (agent_id actor) (\<lambda>m. m\<lparr>last_work_at := Some now\<rparr>) (put_ticket tid t2 w2),
              Lease_Held t2 l True evs renewed))"

definition review_claim_with_actor ::
  "world \<Rightarrow> seat \<Rightarrow> principal \<Rightarrow> string \<Rightarrow> time \<Rightarrow> bool \<Rightarrow> release list \<Rightarrow> (world \<times> reply) result" where
  "review_claim_with_actor w actor p tid now coordinate_only released =
     (case get_ticket w tid of
        None \<Rightarrow> Inl (ValueError ''ticket not found'')
      | Some t \<Rightarrow>
          if status t \<noteq> ''submitted'' then Inl (ValueError (''ticket is '' @ status t))
          else bindE (claim_gate_bypass (brd w) p) (\<lambda>override.
            bindE (if override then Inr True else board_role_allows_review (brd w) p) (\<lambda>allowed.
            if \<not> allowed
            then Inl (PermissionError ''reviewing agent lacks reviewer board role and board:review authorization'')
            else bindE (validate_review_independence (review_policy (cfg (brd w))) t (Some (agent_id actor)) p) (\<lambda>_.
              if parked t \<and> \<not> override
              then Inr (w, Refused ''ticket is parked by the board owner'' None released)
              else (case (review_lease_is_live t now, lease_of (review_lease t)) of
                      (True, Some l) \<Rightarrow> claim_live_review w tid t l actor p now coordinate_only released
                    | _ \<Rightarrow>
                        bindE (if dispatch_enabled (brd w) then review_offer_gate w t actor now override
                               else Inr None) (\<lambda>gate.
                          case gate of
                            Some msg \<Rightarrow> Inr (w, Refused msg None released)
                          | None \<Rightarrow> claim_new_review w tid t actor p now coordinate_only released))))))"

definition review_claim_preamble ::
  "(string \<Rightarrow> string \<Rightarrow> string \<Rightarrow> string) \<Rightarrow> world \<Rightarrow> principal \<Rightarrow> string \<Rightarrow> time
     \<Rightarrow> (world \<times> seat \<times> bool \<times> release list) result" where
  "review_claim_preamble aid_of w p name now =
     bindE (require_board_review_or_coordinate p) (\<lambda>coordinate_only.
     bindE (reap_expired w now False) (\<lambda>(w1, released).
       case retire_nonreviewable_review_offers w1 now of
         (w2, retired) \<Rightarrow>
           bindE (if coordinate_only then coordinator_actor aid_of w2 p name
                  else resolve_active_actor aid_of w2 p name) (\<lambda>(w3, actor).
             Inr (w3, actor, coordinate_only, released @ retired))))"

definition ticket_review_claim ::
  "(string \<Rightarrow> string \<Rightarrow> string \<Rightarrow> string) \<Rightarrow> world \<Rightarrow> principal \<Rightarrow> string \<Rightarrow> string \<Rightarrow> time \<Rightarrow> (world \<times> reply) result" where
  "ticket_review_claim aid_of w p name tid now =
     bindE (review_claim_preamble aid_of w p name now) (\<lambda>(w1, actor, coordinate_only, released).
       review_claim_with_actor w1 actor p tid now coordinate_only released)"

definition review_release_with_actor ::
  "world \<Rightarrow> seat \<Rightarrow> principal \<Rightarrow> string \<Rightarrow> (string \<times> int) list \<Rightarrow> time \<Rightarrow> release list \<Rightarrow> string list
     \<Rightarrow> (world \<times> reply) result" where
  "review_release_with_actor w actor p tid allow_counts now released renewed =
     (case get_ticket w tid of
        None \<Rightarrow> Inl (ValueError ''ticket not found'')
      | Some t \<Rightarrow>
          (case (review_lease_is_live t now, lease_of (review_lease t)) of
             (True, Some l) \<Rightarrow>
               if reviewer_agent_id l \<noteq> Some (agent_id actor) \<or> reviewer_principal_id l \<noteq> Some (pr_id p)
               then Inl (PermissionError ''review lease is held by another reviewer'')
               else bindE (dispatch_and_requeue tid Review None now
                             (put_ticket tid (t\<lparr>review_lease := RS_Absent,
                                last_review_released_by_agent_id := Some (agent_id actor),
                                updated_at := Some now\<rparr>) w)) (\<lambda>(w2, ev, more).
                      let w3 = record_scrub_allows actor now allow_counts w2 in
                      case get_ticket w3 tid of
                        None \<Rightarrow> Inl (KeyError tid)
                      | Some t3 \<Rightarrow>
                          Inr (w3, Done t3 ''submitted'' ''submitted'' (released @ more) renewed ev))
           | _ \<Rightarrow> Inl (PermissionError ''review lease is not held by this reviewer'')))"

definition ticket_review_release ::
  "(string \<Rightarrow> string \<Rightarrow> string \<Rightarrow> string) \<Rightarrow> world \<Rightarrow> principal \<Rightarrow> string \<Rightarrow> string \<Rightarrow> (string \<times> int) list \<Rightarrow> time
     \<Rightarrow> (world \<times> reply) result" where
  "ticket_review_release aid_of w p name tid allow_counts now =
     bindE (require_scope p ''board:review'') (\<lambda>_.
     bindE (prepare_board_call aid_of w p name now) (\<lambda>(w1, actor, released, renewed).
       review_release_with_actor w1 actor p tid allow_counts now released renewed))"

subsection \<open>The verdict\<close>

record review_input =
  ri_verdict :: string
  ri_notes :: "string option"
  ri_fix :: "string option"
  ri_usage :: "json option"
  ri_allow_counts :: "(string \<times> int) list"

text \<open>
  A reviewer without a live lease needs the offer where dispatch is enabled.  The result is the
  document, the ticket and the events, and the reason of a refusal, which commits the dispatch.
\<close>

definition review_offer_phase ::
  "world \<Rightarrow> ticket \<Rightarrow> seat \<Rightarrow> time \<Rightarrow> release list
     \<Rightarrow> (world \<times> ticket \<times> release list \<times> string option) result" where
  "review_offer_phase w t actor now released =
     (if \<not> (dispatch_enabled (brd w) \<and> \<not> review_lease_is_live t now) then Inr (w, t, released, None)
      else bindE (if offers t Review = None \<and> \<not> is_broadcast t
                  then bindE (dispatch_ticket w t now Review None) (\<lambda>(w1, t1, ev).
                         Inr (w1, t1, released @ option_list ev))
                  else Inr (w, t, released)) (\<lambda>(w1, t1, evs).
        let claimed = t1\<lparr>dispatch_state := Some ((entry0 ''review_claimed'')
                         \<lparr>d_kind := Some Review, d_agent_id := Some (agent_id actor), d_at := Some now\<rparr>)\<rparr>
        in case offers t1 Review of
             None \<Rightarrow> if \<not> is_broadcast t1 then Inr (w1, t1, evs, Some ''review_not_offered'')
                     else Inr (w1, claimed, evs, None)
           | Some off \<Rightarrow>
               if o_agent_id off \<noteq> agent_id actor then Inr (w1, t1, evs, Some ''offered_to_another_agent'')
               else Inr (w1, claimed\<lparr>offers := (offers t1)(Review := None)\<rparr>, evs, None)))"

text \<open>The lease the verdict is given under: \<open>None\<close> when another reviewer holds it.\<close>

definition verdict_lease ::
  "seat \<Rightarrow> principal \<Rightarrow> time \<Rightarrow> int \<Rightarrow> ticket \<Rightarrow> (review_lease \<times> ticket \<times> bool) option" where
  "verdict_lease actor p now ttl t =
     (case (review_lease_is_live t now, lease_of (review_lease t)) of
        (True, Some l) \<Rightarrow>
          if reviewer_agent_id l \<noteq> Some (agent_id actor) \<or> reviewer_principal_id l \<noteq> Some (pr_id p)
          then None else Some (l, t, False)
      | _ \<Rightarrow> (case claim_review_lease actor p now ttl t of (l, t1) \<Rightarrow> Some (l, t1, True)))"

definition reviewed_evidence :: "ticket \<Rightarrow> evidence" where
  "reviewed_evidence t =
     (case rev (history t H_Submission) of
        HE_Submission s # _ \<Rightarrow> evidence_of_submission s
      | _ \<Rightarrow> evidence_of_ticket t)"

definition repeats_feedback :: "ticket \<Rightarrow> string \<Rightarrow> string \<Rightarrow> bool" where
  "repeats_feedback t sha key =
     (sha \<noteq> [] \<and> key \<noteq> [] \<and>
      (case rev (history t H_Review) of
         HE_Review r # _ \<Rightarrow> v_verdict r = ''reject'' \<and> v_submission_commit r = sha \<and>
                            v_rejection_fingerprint r = key
       | _ \<Rightarrow> False))"

text \<open>Whether a verdict is a rejection to retry, and whether it repeats the one before on the same commit.\<close>

definition retryable_rejection :: "ticket \<Rightarrow> review_input \<Rightarrow> bool" where
  "retryable_rejection t inp \<longleftrightarrow>
     ri_verdict inp = ''reject'' \<and> (server_generated_id t \<or> ri_notes inp \<noteq> None \<or> ri_fix inp \<noteq> None)"

definition feedback_key :: "(string \<Rightarrow> string) \<Rightarrow> review_input \<Rightarrow> string" where
  "feedback_key digest inp =
     (if ri_verdict inp = ''reject'' then rejection_fingerprint digest (text_or (ri_fix inp) (ri_notes inp)) else [])"

definition workflow_pauses :: "(string \<Rightarrow> string) \<Rightarrow> ticket \<Rightarrow> review_input \<Rightarrow> bool" where
  "workflow_pauses digest t inp \<longleftrightarrow>
     retryable_rejection t inp \<and>
     repeats_feedback t (snd (submission_identity (reviewed_evidence t))) (feedback_key digest inp)"

definition allocate_annotation_id :: "board \<Rightarrow> string \<times> board" where
  "allocate_annotation_id b =
     (''AN-'' @ zero_padded 12 (nat (next_annotation_seq b)),
      b\<lparr>next_annotation_seq := next_annotation_seq b + 1\<rparr>)"

definition pause_workflow ::
  "seat \<Rightarrow> principal \<Rightarrow> time \<Rightarrow> string \<Rightarrow> world \<times> ticket \<Rightarrow> world \<times> ticket" where
  "pause_workflow actor p now sha wt =
     (case wt of (w, t) \<Rightarrow>
        (case allocate_annotation_id (brd w) of (aid, b) \<Rightarrow>
           (w\<lparr>brd := b\<rparr>,
            t\<lparr>parked := True, workflow_blocker := Some (sha, now),
              annotations := annotations t @
                [\<lparr> a_id = aid, a_kind = ''decision'',
                   a_text = ''Workflow paused: the same candidate and review feedback repeated. Check submission validation and review evidence before un-parking this ticket.'',
                   a_at = now, a_agent_id = agent_id actor, a_agent_name = agent_name actor,
                   a_principal_id = pr_id p \<rparr>]\<rparr>)))"

definition reject_progress ::
  "time \<Rightarrow> string \<Rightarrow> world \<times> ticket \<Rightarrow> (world \<times> ticket) \<times> release option" where
  "reject_progress now verdict wt =
     (if verdict = ''reject''
      then reset_ticket_progress now ''review_rejected''
             (fst wt, (snd wt)\<lparr>rejection_count := rejection_count (snd wt) + 1\<rparr>)
      else (wt, None))"

definition record_verdict :: "review_record \<Rightarrow> time \<Rightarrow> ticket \<Rightarrow> ticket" where
  "record_verdict r now t =
     t\<lparr>reviewed_by_agent_id := Some (v_reviewed_by_agent_id r),
       last_verdict := Some \<lparr> vi_principal_id = v_reviewed_by_principal_id r,
          vi_agent_name = v_reviewed_by_agent_name r, vi_at = now, vi_notes = v_review_notes r,
          vi_policy = v_policy r, vi_label = v_label r, vi_verdict = v_verdict r \<rparr>,
       fix_instructions := v_fix_instructions r\<rparr>"

definition release_executor :: "ticket \<Rightarrow> ticket" where
  "release_executor t =
     t\<lparr>last_claimed_by_agent_id := claimed_by_agent_id (work t),
       last_claimed_by_principal_id := claimed_by_principal_id (work t),
       last_claimed_by := claimed_by (work t), last_claimed_at := claimed_at (work t),
       last_release_reason := Some ''review rejected'',
       work := (work t)\<lparr>claimed_by_agent_id := None, claimed_by_principal_id := None,
                 claimed_by := None, claimed_at := None\<rparr>,
       submitted_by_agent_id := None, submitted_by_principal_id := None, submitted_at := None\<rparr>"

definition end_review :: "string \<Rightarrow> bool \<Rightarrow> time \<Rightarrow> ticket \<Rightarrow> ticket \<times> release list" where
  "end_review tid retryable now t =
     (let t1 = t\<lparr>review_lease := RS_Absent, offers := (offers t)(Review := None)\<rparr>;
          t2 = (if retryable then release_executor t1 else t1)
      in (t2\<lparr>updated_at := Some now\<rparr>,
          case offers t Review of None \<Rightarrow> [] | Some off \<Rightarrow> [offer_revoked t Review off ''review_verdict'']))"

definition verdict_status :: "string \<Rightarrow> bool \<Rightarrow> string" where
  "verdict_status verdict retryable =
     (if verdict = ''approve'' then ''closed'' else if retryable then ''open'' else ''rejected'')"

text \<open>\<open>member_name\<close>: the name of a seat of the document.\<close>

definition member_name :: "board \<Rightarrow> string option \<Rightarrow> string option" where
  "member_name b a =
     (if \<not> truthy a then None else map_option agent_name (dget (members b) (the a)))"

definition review_entry ::
  "review_input \<Rightarrow> board \<Rightarrow> ticket \<Rightarrow> seat \<Rightarrow> principal \<Rightarrow> string \<times> string \<Rightarrow> string \<Rightarrow> string \<Rightarrow> bool \<Rightarrow> bool
     \<Rightarrow> usage_record \<Rightarrow> string \<Rightarrow> time \<Rightarrow> review_record" where
  "review_entry inp b t actor p submitter sha key retryable paused usage label now =
     \<lparr> v_verdict = ri_verdict inp,
       v_review_notes = (case ri_notes inp of None \<Rightarrow> [] | Some n \<Rightarrow> n),
       v_fix_instructions = ri_fix inp, v_policy = review_policy (cfg b), v_label = label,
       v_submitted_by_agent_id = fst submitter, v_submitted_by_principal_id = snd submitter,
       v_reviewed_by_agent_id = agent_id actor, v_reviewed_by_principal_id = pr_id p,
       v_reviewed_at = now, v_status_to = verdict_status (ri_verdict inp) retryable,
       v_submission_commit = sha, v_rejection_fingerprint = key, v_workflow_paused = paused,
       v_submitted_by_agent_name = text_or (member_name b (Some (fst submitter))) (claimed_by (work t)),
       v_reviewed_by_agent_name = agent_name actor, v_usage = usage \<rparr>"

definition close_review ::
  "string \<Rightarrow> string \<Rightarrow> time \<Rightarrow> world \<Rightarrow> ticket \<Rightarrow> (world \<times> release option \<times> release list) result" where
  "close_review tid new_status now w t =
     (if new_status = ''open'' then dispatch_and_requeue tid Work None now (put_ticket tid t w)
      else
        let t1 = (if dispatch_enabled (brd w)
                  then t\<lparr>dispatch_state := Some ((entry0 new_status)\<lparr>d_kind := Some Review, d_at := Some now\<rparr>)\<rparr>
                  else t)
        in bindE (redispatch_queue (put_ticket tid t1 w) now) (\<lambda>(w1, more). Inr (w1, None, more)))"

definition give_verdict ::
  "(string \<Rightarrow> string) \<Rightarrow> world \<Rightarrow> string \<Rightarrow> ticket \<Rightarrow> seat \<Rightarrow> principal \<Rightarrow> review_input \<Rightarrow> string \<times> string
     \<Rightarrow> time \<Rightarrow> release list \<Rightarrow> string list \<Rightarrow> (world \<times> reply) result" where
  "give_verdict digest w tid t actor p inp submitter now released renewed =
     (let verdict = ri_verdict inp;
          retryable = retryable_rejection t inp;
          new_status = verdict_status verdict retryable;
          sha = snd (submission_identity (reviewed_evidence t));
          key = feedback_key digest inp;
          paused = workflow_pauses digest t inp;
          (w1, t1) = (if paused then pause_workflow actor p now sha (w, t) else (w, t));
          ((w2, t2), reset) = reject_progress now verdict (w1, t1\<lparr>status := new_status\<rparr>)
      in bindE (review_label (review_policy (cfg (brd w)))) (\<lambda>label.
         bindE (model_usage_record (ri_usage inp) ''reviewer'' actor (pr_id p) now) (\<lambda>usage.
           let entry = review_entry inp (brd w) t actor p submitter sha key retryable paused usage label now;
               t3 = (record_verdict entry now t2)
                      \<lparr>model_usage := Some (append_model_usage usage (model_usage t2))\<rparr>;
               (w4, t4) = append_bounded_history H_Review (HE_Review entry) (w2, t3);
               (t5, revoked) = end_review tid retryable now t4
           in bindE (close_review tid new_status now w4 t5) (\<lambda>(w6, ev, more).
                let w7 = record_scrub_allows actor now (ri_allow_counts inp) w6 in
                case get_ticket w7 tid of
                  None \<Rightarrow> Inl (KeyError tid)
                | Some t7 \<Rightarrow>
                    Inr (w7, Done t7 ''submitted'' new_status
                           (released @ option_list reset @ revoked @ more) renewed ev)))))"

definition review_with_actor ::
  "(string \<Rightarrow> string) \<Rightarrow> world \<Rightarrow> seat \<Rightarrow> principal \<Rightarrow> string \<Rightarrow> review_input \<Rightarrow> time \<Rightarrow> release list
     \<Rightarrow> string list \<Rightarrow> (world \<times> reply) result" where
  "review_with_actor digest w actor p tid inp now released renewed =
     (case get_ticket w tid of
        None \<Rightarrow> Inl (ValueError ''ticket not found'')
      | Some t \<Rightarrow>
          if status t \<noteq> ''submitted'' then Inl (ValueError (''ticket is '' @ status t))
          else bindE (validate_review_independence (review_policy (cfg (brd w))) t (Some (agent_id actor)) p)
            (\<lambda>submitter.
          bindE (board_role_allows_review (brd w) p) (\<lambda>allowed.
          if \<not> allowed
          then Inl (PermissionError ''lacks reviewer board role and board:review authorization'')
          else if server_generated_id t \<and> ri_notes inp = None
          then Inl (ValueError ''review_notes is required for generated-ID tickets'')
          else bindE (review_offer_phase w t actor now released) (\<lambda>(w1, t1, evs, refusal).
            case refusal of
              Some reason \<Rightarrow> Inr (put_ticket tid t1 w1, Failed reason evs)
            | None \<Rightarrow>
                (case verdict_lease actor p now (claim_ttl_s (cfg (brd w1))) t1 of
                   None \<Rightarrow> Inr (put_ticket tid t1 w1, Failed ''review lease is held by another reviewer'' evs)
                 | Some (l, t2, _) \<Rightarrow>
                     give_verdict digest w1 tid t2 actor p inp submitter now evs renewed)))))"

definition ticket_review ::
  "(string \<Rightarrow> string \<Rightarrow> string \<Rightarrow> string) \<Rightarrow> (string \<Rightarrow> string) \<Rightarrow> world \<Rightarrow> principal \<Rightarrow> string \<Rightarrow> string
     \<Rightarrow> review_input \<Rightarrow> time \<Rightarrow> (world \<times> reply) result" where
  "ticket_review aid_of digest w p name tid inp now =
     bindE (require_scope p ''board:review'') (\<lambda>_.
     bindE (guardE (ri_verdict inp \<in> {''approve'', ''reject''})
              (ValueError ''verdict must be approve or reject'')) (\<lambda>_.
     bindE (prepare_board_call aid_of w p name now) (\<lambda>(w1, actor, released, renewed).
       review_with_actor digest w1 actor p tid inp now released renewed)))"

subsection \<open>Cancellation\<close>

definition cancel_basis :: "board \<Rightarrow> ticket \<Rightarrow> seat \<Rightarrow> principal \<Rightarrow> string option result" where
  "cancel_basis b t actor p =
     (if created_by_principal_id t = Some (pr_id p) then Inr (Some ''creator principal'')
      else if claimed_by_agent_id (work t) = Some (agent_id actor) then Inr (Some ''current executor agent_id'')
      else bindE (board_role_allows_review b p) (\<lambda>ok. Inr (if ok then Some ''board:review'' else None)))"

definition cancel_ticket :: "cancel_info \<Rightarrow> time \<Rightarrow> ticket \<Rightarrow> ticket" where
  "cancel_ticket c now t =
     t\<lparr>status := ''canceled'', cancellation := Some c, updated_at := Some now\<rparr>"

definition revoke_offers :: "string \<Rightarrow> kind list \<Rightarrow> ticket \<Rightarrow> ticket \<times> release list" where
  "revoke_offers reason ks t =
     (t\<lparr>offers := (\<lambda>k. if k \<in> set ks then None else offers t k)\<rparr>,
      concat (map (\<lambda>k. case offers t k of None \<Rightarrow> [] | Some off \<Rightarrow> [offer_revoked t k off reason]) ks))"

text \<open>The seven lease keys that go after the redispatch; the claim fields stay.\<close>

definition drop_lease_times :: "ticket \<Rightarrow> ticket" where
  "drop_lease_times t =
     t\<lparr>work := (work t)\<lparr>lease_expires_at_epoch := E_Null, lease_expires_at := T_Null,
                 lease_renewed_at := None, lease_renewal_source := None,
                 lease_last_model_renewed_at := None, lease_keepalive_only_since := None,
                 ttl_s := None\<rparr>\<rparr>"

definition cancel_with_actor ::
  "world \<Rightarrow> seat \<Rightarrow> principal \<Rightarrow> string \<Rightarrow> string option \<Rightarrow> (string \<times> int) list \<Rightarrow> time \<Rightarrow> release list
     \<Rightarrow> string list \<Rightarrow> (world \<times> reply) result" where
  "cancel_with_actor w actor p tid reason allow_counts now released renewed =
     (case get_ticket w tid of
        None \<Rightarrow> Inl (ValueError ''ticket not found'')
      | Some t \<Rightarrow>
          if status t \<in> set TERMINAL_TICKET_STATES then Inl (ValueError (''ticket is already '' @ status t))
          else bindE (cancel_basis (brd w) t actor p) (\<lambda>basis.
            case basis of
              None \<Rightarrow> Inl (PermissionError
                        ''cancel denied: requires creator, current executor, or board:review'')
            | Some why \<Rightarrow>
                let c = \<lparr> c_agent_id = agent_id actor, c_principal_id = pr_id p, c_permission = why,
                          c_at = now, c_reason = (if truthy reason then reason else None) \<rparr>;
                    ((w1, t1), reset) = reset_ticket_progress now ''canceled'' (w, cancel_ticket c now t);
                    (t2, revoked) = revoke_offers ''ticket_canceled'' [Work, Review] t1;
                    t3 = (if dispatch_enabled (brd w1)
                          then t2\<lparr>dispatch_state := Some ((entry0 ''canceled'')\<lparr>d_at := Some now\<rparr>)\<rparr>
                          else t2)
                in bindE (redispatch_queue (put_ticket tid t3 w1) now) (\<lambda>(w4, more).
                     let w5 = record_scrub_allows actor now allow_counts (modify_ticket tid drop_lease_times w4)
                     in case get_ticket w5 tid of
                          None \<Rightarrow> Inl (KeyError tid)
                        | Some t5 \<Rightarrow>
                            Inr (w5, Done t5 (status t) ''canceled''
                                   (released @ option_list reset @ revoked @ more) renewed None))))"

definition ticket_cancel ::
  "(string \<Rightarrow> string \<Rightarrow> string \<Rightarrow> string) \<Rightarrow> world \<Rightarrow> principal \<Rightarrow> string \<Rightarrow> string \<Rightarrow> string option
     \<Rightarrow> (string \<times> int) list \<Rightarrow> time \<Rightarrow> (world \<times> reply) result" where
  "ticket_cancel aid_of w p name tid reason allow_counts now =
     bindE (require_scope p ''board:write'') (\<lambda>_.
     bindE (prepare_board_call aid_of w p name now) (\<lambda>(w1, actor, released, renewed).
       cancel_with_actor w1 actor p tid reason allow_counts now released renewed))"

end
