(* ===== verification/Human_Schema.thy ===== *)
theory Human_Schema
  imports Json_Values
begin

section \<open>The form of a question to a human\<close>

text \<open>
  \<open>validate_human_request_schema\<close> decides which JSON schemas may go with a question,
  \<open>validate_human_answer\<close> checks an answer against a stored schema.  Both get arbitrary JSON; every
  exception of the source is a value, the \<open>KeyError\<close> and \<open>TypeError\<close> that an unvalidated schema would
  cause included.  The scrubber that finally reads the schema as one text is a parameter.
\<close>

definition HUMAN_REQUEST_MAX_PROPERTIES :: nat where
  "HUMAN_REQUEST_MAX_PROPERTIES = 50"

text \<open>\<open>a < b\<close> on the numbers of a schema; on other values Python raises or compares texts.\<close>

definition num_less :: "json \<Rightarrow> json \<Rightarrow> bool" where
  "num_less a b = (case (j_num a, j_num b) of (Some x, Some y) \<Rightarrow> x < y | _ \<Rightarrow> False)"

subsection \<open>Equality and types of schema values\<close>

fun is_bool :: "json \<Rightarrow> bool" where
  "is_bool (J_Bool _) = True"
| "is_bool _ = False"

fun is_number :: "json \<Rightarrow> bool" where
  "is_number (J_Int _) = True"
| "is_number (J_Float _) = True"
| "is_number (J_Nonfinite _) = True"
| "is_number _ = False"

fun same_type :: "json \<Rightarrow> json \<Rightarrow> bool" where
  "same_type J_Null y = (y = J_Null)"
| "same_type (J_Str _) y = is_str y"
| "same_type (J_List _) y = is_list y"
| "same_type (J_Obj _) y = is_obj y"
| "same_type (J_Bool _) y = is_bool y"
| "same_type (J_Int _) y = (case y of J_Int _ \<Rightarrow> True | _ \<Rightarrow> False)"
| "same_type (J_Float _) y = (case y of J_Float _ \<Rightarrow> True | J_Nonfinite _ \<Rightarrow> True | _ \<Rightarrow> False)"
| "same_type (J_Nonfinite _) y = (case y of J_Float _ \<Rightarrow> True | J_Nonfinite _ \<Rightarrow> True | _ \<Rightarrow> False)"

definition json_schema_value_equal :: "json \<Rightarrow> json \<Rightarrow> bool" where
  "json_schema_value_equal l r =
     (if is_bool l \<or> is_bool r then is_bool l \<and> is_bool r \<and> py_eq l r
      else if is_number l \<and> is_number r then py_eq l r
      else same_type l r \<and> py_eq l r)"

definition schema_value_matches :: "json \<Rightarrow> string \<Rightarrow> bool" where
  "schema_value_matches v ty =
     (case v of
        J_Str _ \<Rightarrow> ty = ''string''
      | J_Int _ \<Rightarrow> ty \<in> {''number'', ''integer''}
      | J_Float _ \<Rightarrow> ty = ''number''
      | J_Bool _ \<Rightarrow> ty = ''boolean''
      | _ \<Rightarrow> False)"

definition one_of :: "json \<Rightarrow> json list \<Rightarrow> bool" where
  "one_of v choices = list_ex (json_schema_value_equal v) choices"

subsection \<open>The checks of a property\<close>

definition ensure_optional_text :: "json \<Rightarrow> unit result" where
  "ensure_optional_text s =
     guardE (list_all (\<lambda>k. j_has s k \<longrightarrow> is_str (j_get s k)) [''title'', ''description''])
       (ValueError ''requested_schema property title or description must be a string'')"

definition ensure_nonnegative_integer :: "json \<Rightarrow> string \<Rightarrow> unit result" where
  "ensure_nonnegative_integer s k =
     guardE (j_has s k \<longrightarrow> (case j_get s k of J_Int n \<Rightarrow> 0 \<le> n | _ \<Rightarrow> False))
       (ValueError (''requested_schema '' @ k @ '' must be a non-negative integer''))"

definition ensure_number :: "json \<Rightarrow> string \<Rightarrow> unit result" where
  "ensure_number s k =
     guardE (j_has s k \<longrightarrow> (case j_get s k of J_Int _ \<Rightarrow> True | J_Float _ \<Rightarrow> True | _ \<Rightarrow> False))
       (ValueError (''requested_schema '' @ k @ '' must be a number''))"

definition ensure_ordered_bounds :: "json \<Rightarrow> string \<Rightarrow> string \<Rightarrow> unit result" where
  "ensure_ordered_bounds s lo hi =
     guardE (\<not> (j_has s lo \<and> j_has s hi \<and> num_less (j_get s hi) (j_get s lo)))
       (ValueError (''requested_schema '' @ lo @ '' must not exceed '' @ hi))"

fun unique_values :: "json list \<Rightarrow> json list \<Rightarrow> bool" where
  "unique_values prior [] = True"
| "unique_values prior (v # vs) = (\<not> one_of v prior \<and> unique_values (prior @ [v]) vs)"

definition ensure_unique :: "json list \<Rightarrow> string \<Rightarrow> unit result" where
  "ensure_unique vs k =
     guardE (unique_values [] vs) (ValueError (''requested_schema '' @ k @ '' values must be unique''))"

definition choice_ok :: "string \<Rightarrow> json \<Rightarrow> bool" where
  "choice_ok ty c =
     (is_obj c \<and> j_keys c = {''const'', ''title''} \<and>
      (case j_get c ''title'' of J_Str s \<Rightarrow> strip s \<noteq> [] | _ \<Rightarrow> False) \<and>
      schema_value_matches (j_get c ''const'') ty)"

definition validate_choices :: "json \<Rightarrow> string \<Rightarrow> json list option result" where
  "validate_choices s ty =
     (if j_has s ''enum'' \<and> j_has s ''oneOf''
      then Inl (ValueError ''requested_schema enum and oneOf are mutually exclusive'')
      else if j_has s ''enum'' then
        bindE (guardE (is_list (j_get s ''enum'') \<and> j_list (j_get s ''enum'') \<noteq> [] \<and>
                       list_all (\<lambda>c. schema_value_matches c ty) (j_list (j_get s ''enum'')))
                 (ValueError ''requested_schema enum must be a non-empty array'')) (\<lambda>_.
        bindE (ensure_unique (j_list (j_get s ''enum'')) ''enum'') (\<lambda>_.
          Inr (Some (j_list (j_get s ''enum'')))))
      else if j_has s ''oneOf'' then
        (let ds = j_list (j_get s ''oneOf''); choices = map (\<lambda>c. j_get c ''const'') ds in
         bindE (guardE (is_list (j_get s ''oneOf'') \<and> ds \<noteq> [] \<and> list_all (choice_ok ty) ds)
                  (ValueError ''requested_schema oneOf choices require const and non-empty title'')) (\<lambda>_.
         bindE (ensure_unique choices ''oneOf const'') (\<lambda>_. Inr (Some choices))))
      else Inr None)"

text \<open>Bounds on a length, with the defaults of the source: \<open>int(schema.get(lo, 0))\<close>.\<close>

definition length_within :: "json \<Rightarrow> string \<Rightarrow> string \<Rightarrow> nat \<Rightarrow> bool" where
  "length_within s lo hi n =
     ((if j_has s lo then j_int (j_get s lo) else 0) \<le> int n \<and>
      (j_has s hi \<longrightarrow> int n \<le> j_int (j_get s hi)))"

definition number_within :: "json \<Rightarrow> json \<Rightarrow> bool" where
  "number_within s v =
     (\<not> (j_has s ''minimum'' \<and> num_less v (j_get s ''minimum'')) \<and>
      \<not> (j_has s ''maximum'' \<and> num_less (j_get s ''maximum'') v))"

fun j_len :: "json \<Rightarrow> nat" where
  "j_len (J_Str s) = length s"
| "j_len (J_List xs) = length xs"
| "j_len _ = 0"

definition array_items_ok :: "json \<Rightarrow> bool" where
  "array_items_ok items =
     (is_obj items \<and> j_keys items \<subseteq> {''type'', ''enum''} \<and> j_get items ''type'' = J_Str ''string'' \<and>
      is_list (j_get items ''enum'') \<and> j_list (j_get items ''enum'') \<noteq> [] \<and>
      list_all (\<lambda>c. schema_value_matches c ''string'') (j_list (j_get items ''enum'')))"

definition array_choices :: "json \<Rightarrow> json list" where
  "array_choices s = j_list (j_get (j_get s ''items'') ''enum'')"

definition array_value_ok :: "json \<Rightarrow> json \<Rightarrow> bool" where
  "array_value_ok s v =
     (is_list v \<and> list_all (\<lambda>i. one_of i (array_choices s)) (j_list v) \<and>
      length_within s ''minItems'' ''maxItems'' (j_len v))"

definition validate_array_property :: "json \<Rightarrow> unit result" where
  "validate_array_property s =
     bindE (guardE (j_keys s \<subseteq> {''type'', ''title'', ''description'', ''items'', ''minItems'', ''maxItems'', ''default''})
              (ValueError ''array properties support only array-of-enum schemas'')) (\<lambda>_.
     bindE (guardE (array_items_ok (j_get s ''items''))
              (ValueError ''array properties must use string enum items'')) (\<lambda>_.
     bindE (ensure_unique (array_choices s) ''array enum'') (\<lambda>_.
     bindE (ensure_nonnegative_integer s ''minItems'') (\<lambda>_.
     bindE (ensure_nonnegative_integer s ''maxItems'') (\<lambda>_.
     bindE (ensure_ordered_bounds s ''minItems'' ''maxItems'') (\<lambda>_.
       guardE (j_has s ''default'' \<longrightarrow> array_value_ok s (j_get s ''default''))
         (ValueError ''requested_schema default does not match array constraints'')))))))"

definition allowed_keywords :: "string \<Rightarrow> bool \<Rightarrow> string set" where
  "allowed_keywords ty choices_present =
     {''type'', ''title'', ''description'', ''default''} \<union>
     (if choices_present \<and> ty = ''string'' then {''enum'', ''oneOf''}
      else if ty = ''string'' then {''minLength'', ''maxLength''}
      else if ty \<in> {''number'', ''integer''} then {''minimum'', ''maximum''} else {})"

definition primitive_value_ok :: "json \<Rightarrow> string \<Rightarrow> bool \<Rightarrow> json list option \<Rightarrow> json \<Rightarrow> bool" where
  "primitive_value_ok s ty choices_present choices v =
     (schema_value_matches v ty \<and>
      (case choices of None \<Rightarrow> True | Some cs \<Rightarrow> one_of v cs) \<and>
      (ty = ''string'' \<and> \<not> choices_present \<longrightarrow> length_within s ''minLength'' ''maxLength'' (j_len v)) \<and>
      (ty \<in> {''number'', ''integer''} \<and> \<not> choices_present \<longrightarrow> number_within s v))"

definition validate_primitive_property :: "json \<Rightarrow> string \<Rightarrow> unit result" where
  "validate_primitive_property s ty =
     (let choices_present = (j_has s ''enum'' \<or> j_has s ''oneOf'') in
      bindE (guardE (j_keys s \<subseteq> allowed_keywords ty choices_present)
               (ValueError ''requested_schema contains unsupported property keywords'')) (\<lambda>_.
      bindE (if choices_present \<and> ty = ''string'' then validate_choices s ty else Inr None) (\<lambda>choices.
      bindE (if ty = ''string'' \<and> \<not> choices_present
             then bindE (ensure_nonnegative_integer s ''minLength'') (\<lambda>_.
                  bindE (ensure_nonnegative_integer s ''maxLength'') (\<lambda>_.
                    ensure_ordered_bounds s ''minLength'' ''maxLength''))
             else Inr ()) (\<lambda>_.
      bindE (if ty \<in> {''number'', ''integer''} \<and> \<not> choices_present
             then bindE (ensure_number s ''minimum'') (\<lambda>_.
                  bindE (ensure_number s ''maximum'') (\<lambda>_.
                    ensure_ordered_bounds s ''minimum'' ''maximum''))
             else Inr ()) (\<lambda>_.
        guardE (j_has s ''default'' \<longrightarrow> primitive_value_ok s ty choices_present choices (j_get s ''default''))
          (ValueError ''requested_schema default does not match property constraints''))))))"

subsection \<open>Names that ask for secrets\<close>

definition key_char :: "char \<Rightarrow> bool" where
  "key_char c = (let n = of_char c :: nat in (48 \<le> n \<and> n \<le> 57) \<or> (97 \<le> n \<and> n \<le> 122))"

text \<open>
  The parts of the normalised name: every run of other characters becomes one underscore and the
  outer ones go, so the parts are the maximal runs of \<open>[a-z0-9]\<close> of the folded name.
\<close>

fun name_parts :: "string \<Rightarrow> string list" where
  "name_parts [] = []"
| "name_parts (c # cs) =
     (if \<not> key_char c then name_parts cs
      else (case cs of
              [] \<Rightarrow> [[c]]
            | d # _ \<Rightarrow> if \<not> key_char d then [c] # name_parts cs
                       else (case name_parts cs of [] \<Rightarrow> [[c]] | p # ps \<Rightarrow> (c # p) # ps)))"

definition asks_for_secret :: "string \<Rightarrow> bool" where
  "asks_for_secret name =
     (let parts = name_parts (casefold name) in
      list_ex (\<lambda>p. p \<in> {''password'', ''token'', ''secret'', ''api_key''}) parts \<or>
      list_ex (\<lambda>s. contains_text s (concat parts)) [''password'', ''token'', ''secret'', ''apikey''])"

definition validate_property :: "string \<times> json \<Rightarrow> unit result" where
  "validate_property p =
     (case p of (name, s) \<Rightarrow>
        bindE (guardE (name \<noteq> [] \<and> length name \<le> 80)
                 (ValueError ''requested_schema property names must be 1-80 characters'')) (\<lambda>_.
        bindE (guardE (\<not> asks_for_secret name) (ValueError ''use url mode for sensitive input'')) (\<lambda>_.
        bindE (guardE (is_obj s) (ValueError ''requested_schema property definitions must be objects'')) (\<lambda>_.
        bindE (ensure_optional_text s) (\<lambda>_.
          case j_get s ''type'' of
            J_Str ty \<Rightarrow>
              if ty = ''array'' then validate_array_property s
              else if ty \<in> {''string'', ''number'', ''integer'', ''boolean''}
              then validate_primitive_property s ty
              else Inl (ValueError ''requested_schema properties must be primitive or array-of-enum'')
          | J_List _ \<Rightarrow> Inl (TypeError ''unhashable type'')
          | J_Obj _ \<Rightarrow> Inl (TypeError ''unhashable type'')
          | _ \<Rightarrow> Inl (ValueError ''requested_schema properties must be primitive or array-of-enum''))))))"

subsection \<open>The schema\<close>

definition required_names :: "json \<Rightarrow> string list" where
  "required_names v = concat (map (\<lambda>j. case j of J_Str s \<Rightarrow> [s] | _ \<Rightarrow> [])
     (if j_has v ''required'' then j_list (j_get v ''required'') else []))"

definition validate_human_request_schema ::
  "(json \<Rightarrow> unit result) \<Rightarrow> json option \<Rightarrow> json option result" where
  "validate_human_request_schema scrub value =
     (case value of
        None \<Rightarrow> Inr None
      | Some v \<Rightarrow>
          let properties = j_get v ''properties'' in
          bindE (guardE (is_obj v \<and> j_get v ''type'' = J_Str ''object'')
                   (ValueError ''requested_schema must be a JSON Schema root object'')) (\<lambda>_.
          bindE (guardE (j_keys v \<subseteq> {''type'', ''title'', ''description'', ''properties'', ''required'',
                                       ''additionalProperties''})
                   (ValueError ''requested_schema contains unsupported root keywords'')) (\<lambda>_.
          bindE (ensure_optional_text v) (\<lambda>_.
          bindE (guardE (is_obj properties \<and> length (j_items properties) \<le> HUMAN_REQUEST_MAX_PROPERTIES)
                   (ValueError ''requested_schema properties must be an object with at most 50 fields'')) (\<lambda>_.
          bindE (guardE (j_has v ''required'' \<longrightarrow>
                           is_list (j_get v ''required'') \<and> list_all is_str (j_list (j_get v ''required'')) \<and>
                           distinct (required_names v) \<and> set (required_names v) \<subseteq> j_keys properties)
                   (ValueError ''requested_schema required must contain unique property names'')) (\<lambda>_.
          bindE (guardE (j_has v ''additionalProperties'' \<longrightarrow> j_get v ''additionalProperties'' = J_Bool False)
                   (ValueError ''requested_schema additionalProperties must be false'')) (\<lambda>_.
          bindE (foldE (\<lambda>p _. validate_property p) (j_items properties) ()) (\<lambda>_.
          bindE (scrub v) (\<lambda>_. Inr (Some v))))))))))"

subsection \<open>The answer\<close>

definition mismatch :: "string \<Rightarrow> error" where
  "mismatch name = ValueError (''human answer field '' @ name @ '' does not match requested_schema'')"

definition is_primitive_type :: "json \<Rightarrow> bool" where
  "is_primitive_type ty = (ty \<in> J_Str ` set [''string'', ''number'', ''integer'', ''boolean''])"

definition require_list :: "json \<Rightarrow> string \<Rightarrow> json list result" where
  "require_list v k =
     (if \<not> j_has v k then Inl (KeyError k)
      else if \<not> is_list (j_get v k) then Inl (TypeError ''not iterable'')
      else Inr (j_list (j_get v k)))"

text \<open>The constants of \<open>oneOf\<close>; a choice without one is a \<open>KeyError\<close> when it is reached.\<close>

fun one_of_constants :: "json \<Rightarrow> json list \<Rightarrow> bool result" where
  "one_of_constants v [] = Inr False"
| "one_of_constants v (c # cs) =
     (if \<not> j_has c ''const'' then Inl (KeyError ''const'')
      else if json_schema_value_equal v (j_get c ''const'') then Inr True
      else one_of_constants v cs)"

definition answer_array_field :: "string \<Rightarrow> json \<Rightarrow> json \<Rightarrow> unit result" where
  "answer_array_field name d v =
     (if \<not> is_list v then Inl (mismatch name)
      else bindE (if j_list v = [] then Inr []
                  else if \<not> j_has d ''items'' then Inl (KeyError ''items'')
                  else require_list (j_get d ''items'') ''enum'') (\<lambda>choices.
        bindE (guardE (list_all (\<lambda>i. one_of i choices) (j_list v)) (mismatch name)) (\<lambda>_.
          guardE (length_within d ''minItems'' ''maxItems'' (j_len v)) (mismatch name))))"

definition answer_primitive_field :: "string \<Rightarrow> json \<Rightarrow> json \<Rightarrow> unit result" where
  "answer_primitive_field name d v =
     (let ty = j_get d ''type'' in
      bindE (if ty = J_Null then Inr ()
             else (case ty of
                     J_Str s \<Rightarrow> if is_primitive_type ty
                                then guardE (schema_value_matches v s) (mismatch name)
                                else Inl (KeyError s)
                   | J_List _ \<Rightarrow> Inl (TypeError ''unhashable type'')
                   | J_Obj _ \<Rightarrow> Inl (TypeError ''unhashable type'')
                   | _ \<Rightarrow> Inl (KeyError ''type''))) (\<lambda>_.
      bindE (if j_has d ''enum''
             then bindE (require_list d ''enum'') (\<lambda>cs. guardE (one_of v cs) (mismatch name))
             else Inr ()) (\<lambda>_.
      bindE (if j_has d ''oneOf''
             then bindE (require_list d ''oneOf'') (\<lambda>cs.
                    bindE (one_of_constants v cs) (\<lambda>b. guardE b (mismatch name)))
             else Inr ()) (\<lambda>_.
      bindE (guardE (ty = J_Str ''string'' \<longrightarrow> length_within d ''minLength'' ''maxLength'' (j_len v))
               (mismatch name)) (\<lambda>_.
        guardE (ty \<in> {J_Str ''number'', J_Str ''integer''} \<longrightarrow> number_within d v) (mismatch name))))))"

definition answer_field :: "json \<Rightarrow> string \<times> json \<Rightarrow> unit result" where
  "answer_field properties p =
     (case p of (name, v) \<Rightarrow>
        if \<not> j_has properties name then Inl (KeyError name)
        else let d = j_get properties name in
             if j_get d ''type'' = J_Str ''array'' then answer_array_field name d v
             else answer_primitive_field name d v)"

definition validate_human_answer :: "json \<Rightarrow> json option \<Rightarrow> unit result" where
  "validate_human_answer content schema =
     (case schema of
        None \<Rightarrow> Inr ()
      | Some s \<Rightarrow>
          bindE (guardE (is_obj content)
                   (ValueError ''human answer must be an object matching requested_schema'')) (\<lambda>_.
          bindE (guardE (set (required_names s) \<subseteq> j_keys content \<and> j_keys content \<subseteq> j_keys (j_get s ''properties''))
                   (ValueError ''human answer does not match requested_schema fields'')) (\<lambda>_.
            foldE (\<lambda>p _. answer_field (j_get s ''properties'') p) (j_items content) ())))"

end
