(* ===== verification/Schema_Properties.thy ===== *)
theory Schema_Properties
  imports Human_Schema
begin

section \<open>An accepted schema can be answered\<close>

lemma foldE_unit: "foldE (\<lambda>p _. f p) xs () = Inr () \<longleftrightarrow> (\<forall>p \<in> set xs. f p = Inr ())"
  by (induction xs) auto

lemma foldE_unit_Inl: "foldE (\<lambda>p _. f p) xs () = Inl e \<Longrightarrow> \<exists>p \<in> set xs. f p = Inl e"
  by (induction xs) (auto simp: bindE_eq_Inl)

lemma j_has_keys: "j_has v k \<longleftrightarrow> k \<in> j_keys v"
  by (cases v) (auto simp: j_keys_def)

lemma j_get_item: "j_has v k \<Longrightarrow> (k, j_get v k) \<in> set (j_items v)"
  by (cases v) (auto dest: map_of_SomeD simp: map_of_eq_None_iff split: option.splits)

lemma j_get_absent: "\<not> j_has v k \<Longrightarrow> j_get v k = J_Null"
  by (cases v) (auto split: option.splits dest!: map_of_SomeD simp: rev_image_eqI)

lemma j_get_present: "j_get v k \<noteq> J_Null \<Longrightarrow> j_has v k"
  using j_get_absent by blast

lemma is_list_present: "is_list (j_get v k) \<Longrightarrow> j_has v k"
  by (rule j_get_present) auto

lemma is_obj_present: "is_obj (j_get v k) \<Longrightarrow> j_has v k"
  by (rule j_get_present) auto

lemma require_list_ok: "is_list (j_get v k) \<Longrightarrow> require_list v k = Inr (j_list (j_get v k))"
  by (simp add: require_list_def is_list_present)

lemma matches_nonnull: "schema_value_matches v ty \<Longrightarrow> v \<noteq> J_Null"
  by (auto simp: schema_value_matches_def)

subsection \<open>What a validated property is\<close>

definition array_property :: "json \<Rightarrow> bool" where
  "array_property s \<longleftrightarrow> j_get s ''type'' = J_Str ''array'' \<and> array_items_ok (j_get s ''items'') \<and>
     (j_has s ''default'' \<longrightarrow> array_value_ok s (j_get s ''default''))"

definition primitive_property :: "json \<Rightarrow> string \<Rightarrow> bool" where
  "primitive_property s ty \<longleftrightarrow> j_get s ''type'' = J_Str ty \<and>
     ty \<in> {''string'', ''number'', ''integer'', ''boolean''} \<and>
     j_keys s \<subseteq> allowed_keywords ty (j_has s ''enum'' \<or> j_has s ''oneOf'') \<and>
     (\<exists>choices. (j_has s ''enum'' \<or> j_has s ''oneOf'' \<longrightarrow>
                   ty = ''string'' \<and> validate_choices s ty = Inr choices) \<and>
        (\<not> (j_has s ''enum'' \<or> j_has s ''oneOf'') \<longrightarrow> choices = None) \<and>
        (j_has s ''default'' \<longrightarrow>
           primitive_value_ok s ty (j_has s ''enum'' \<or> j_has s ''oneOf'') choices (j_get s ''default'')))"

lemma validate_array_property_ok:
  "validate_array_property s = Inr u \<Longrightarrow> array_items_ok (j_get s ''items'') \<and>
     (j_has s ''default'' \<longrightarrow> array_value_ok s (j_get s ''default''))"
  by (simp add: validate_array_property_def)

lemma enum_keyword:
  "''enum'' \<in> allowed_keywords ty cp \<Longrightarrow> ty = ''string''"
  "''oneOf'' \<in> allowed_keywords ty cp \<Longrightarrow> ty = ''string''"
  by (simp_all add: allowed_keywords_def split: if_splits)

lemma length_keyword:
  "''minLength'' \<notin> allowed_keywords ty True"
  "''maxLength'' \<notin> allowed_keywords ty True"
  by (simp_all add: allowed_keywords_def)

lemma choices_only_for_text:
  "j_keys s \<subseteq> allowed_keywords ty (j_has s ''enum'' \<or> j_has s ''oneOf'') \<Longrightarrow>
     j_has s ''enum'' \<or> j_has s ''oneOf'' \<Longrightarrow> ty = ''string''"
  using enum_keyword by (auto simp: j_has_keys)

lemma validate_primitive_property_ok:
  assumes "validate_primitive_property s ty = Inr u" "j_get s ''type'' = J_Str ty"
    "ty \<in> {''string'', ''number'', ''integer'', ''boolean''}"
  shows "primitive_property s ty"
proof -
  let ?cp = "j_has s ''enum'' \<or> j_has s ''oneOf''"
  from assms(1) obtain choices where k: "j_keys s \<subseteq> allowed_keywords ty ?cp"
    and c: "(if ?cp \<and> ty = ''string'' then validate_choices s ty else Inr None) = Inr choices"
    and d: "j_has s ''default'' \<longrightarrow> primitive_value_ok s ty ?cp choices (j_get s ''default'')"
    unfolding validate_primitive_property_def Let_def by auto
  have "?cp \<Longrightarrow> ty = ''string''" using choices_only_for_text [OF k] .
  with c have "?cp \<longrightarrow> ty = ''string'' \<and> validate_choices s ty = Inr choices" "\<not> ?cp \<longrightarrow> choices = None"
    by (auto split: if_splits)
  with k d assms(2,3) show ?thesis unfolding primitive_property_def by blast
qed

lemma validate_property_cases:
  assumes "validate_property (n, s) = Inr u"
  obtains "array_property s" | ty where "primitive_property s ty"
proof -
  define prims where "prims = {''string'', ''number'', ''integer'', ''boolean''}"
  have "(case j_get s ''type'' of
      J_Str ty \<Rightarrow> if ty = ''array'' then validate_array_property s
        else if ty \<in> prims then validate_primitive_property s ty else Inl (ValueError [])
    | _ \<Rightarrow> Inl (ValueError [])) = Inr u"
    using assms unfolding validate_property_def prims_def [symmetric]
    by (simp split: json.split_asm if_split_asm)
  then obtain ty where ty: "j_get s ''type'' = J_Str ty"
    and c: "(if ty = ''array'' then validate_array_property s
       else if ty \<in> prims then validate_primitive_property s ty else Inl (ValueError [])) = Inr u"
    by (cases "j_get s ''type''") simp_all
  show thesis
  proof (cases "ty = ''array''")
    case True
    with c ty validate_array_property_ok [of s u] that(1) show thesis by (simp add: array_property_def)
  next
    case False
    with c have "ty \<in> prims" "validate_primitive_property s ty = Inr u" by (simp_all split: if_splits)
    with validate_primitive_property_ok [OF _ ty] that(2) show thesis by (simp add: prims_def)
  qed
qed

lemma choices_constants:
  assumes "validate_choices s ty = Inr choices"
  shows "j_has s ''enum'' \<Longrightarrow> is_list (j_get s ''enum'') \<and> \<not> j_has s ''oneOf'' \<and>
            choices = Some (j_list (j_get s ''enum''))"
    and "j_has s ''oneOf'' \<Longrightarrow> is_list (j_get s ''oneOf'') \<and> \<not> j_has s ''enum'' \<and>
            list_all (choice_ok ty) (j_list (j_get s ''oneOf'')) \<and>
            choices = Some (map (\<lambda>c. j_get c ''const'') (j_list (j_get s ''oneOf'')))"
  using assms by (auto simp: validate_choices_def Let_def split: if_splits)

lemma one_of_constants_ok:
  "list_all (choice_ok ty) cs \<Longrightarrow>
     one_of_constants v cs = Inr (one_of v (map (\<lambda>c. j_get c ''const'') cs))"
  by (induction cs) (auto simp: one_of_def choice_ok_def j_has_keys)

subsection \<open>Answering a validated property\<close>

lemma answer_array_field_eq:
  assumes "array_property d"
  shows "answer_array_field n d v = guardE (array_value_ok d v) (mismatch n)"
proof -
  have i: "array_items_ok (j_get d ''items'')" using assms by (simp add: array_property_def)
  then have h: "j_has d ''items''" by (intro is_obj_present) (simp add: array_items_ok_def)
  have r: "require_list (j_get d ''items'') ''enum'' = Inr (array_choices d)"
    using i by (simp add: array_items_ok_def require_list_ok array_choices_def)
  show ?thesis
    by (simp add: answer_array_field_def array_value_ok_def h r guardE_def)
qed

lemma answer_primitive_field_eq:
  assumes p: "primitive_property d ty"
  obtains ok where "answer_primitive_field n d v = guardE ok (mismatch n)"
    and "\<And>cs. (j_has d ''enum'' \<or> j_has d ''oneOf'' \<longrightarrow> validate_choices d ty = Inr cs) \<Longrightarrow>
           (\<not> (j_has d ''enum'' \<or> j_has d ''oneOf'') \<longrightarrow> cs = None) \<Longrightarrow>
           ok = primitive_value_ok d ty (j_has d ''enum'' \<or> j_has d ''oneOf'') cs v"
proof -
  let ?cp = "j_has d ''enum'' \<or> j_has d ''oneOf''"
  from p obtain cs where ty: "j_get d ''type'' = J_Str ty" "ty \<in> {''string'', ''number'', ''integer'', ''boolean''}"
    and k: "j_keys d \<subseteq> allowed_keywords ty ?cp"
    and c: "?cp \<longrightarrow> ty = ''string'' \<and> validate_choices d ty = Inr cs" "\<not> ?cp \<longrightarrow> cs = None"
    unfolding primitive_property_def by blast
  have nolen: "?cp \<Longrightarrow> length_within d ''minLength'' ''maxLength'' m" for m
  proof -
    assume ?cp
    then have "?cp = True" by simp
    with k have "j_keys d \<subseteq> allowed_keywords ty True" by (simp only:)
    then show ?thesis using length_keyword [of ty] by (auto simp: length_within_def j_has_keys)
  qed
  have en: "(if j_has d ''enum'' then bindE (require_list d ''enum'') (\<lambda>cs. guardE (one_of v cs) (mismatch n)) else Inr ())
     = guardE (j_has d ''enum'' \<longrightarrow> (case cs of None \<Rightarrow> True | Some c \<Rightarrow> one_of v c)) (mismatch n)"
    using c(1) choices_constants(1) [of d ty cs] by (auto simp: require_list_ok)
  have oo: "(if j_has d ''oneOf'' then bindE (require_list d ''oneOf'') (\<lambda>cs.
                    bindE (one_of_constants v cs) (\<lambda>b. guardE b (mismatch n))) else Inr ())
     = guardE (j_has d ''oneOf'' \<longrightarrow> (case cs of None \<Rightarrow> True | Some c \<Rightarrow> one_of v c)) (mismatch n)"
    using c(1) choices_constants(2) [of d ty cs] by (auto simp: require_list_ok one_of_constants_ok [of ty])
  have tq: "is_primitive_type (J_Str ty)" using ty(2) by (auto simp: is_primitive_type_def)
  let ?ok = "primitive_value_ok d ty ?cp cs v"
  have nn: "J_Str ty \<noteq> J_Null" by simp
  have main: "answer_primitive_field n d v = guardE ?ok (mismatch n)"
  proof (cases ?cp)
    case True
    with c nolen have s: "ty = ''string''" "length_within d ''minLength'' ''maxLength'' (j_len v)" by blast+
    from True c(1) choices_constants [of d ty cs] obtain cl where "cs = Some cl" by blast
    with True s show ?thesis
      unfolding answer_primitive_field_def ty(1) Let_def en oo
      using tq by (cases "schema_value_matches v ty"; cases "one_of v cl"; cases "j_has d ''enum''")
        (auto simp: primitive_value_ok_def)
  next
    case False
    with c show ?thesis
      unfolding answer_primitive_field_def ty(1) Let_def en oo
      using tq by (cases "schema_value_matches v ty"; cases "number_within d v";
          cases "length_within d ''minLength'' ''maxLength'' (j_len v)")
        (simp_all add: primitive_value_ok_def guardE_def)
  qed
  have uniq: "cs' = cs" if "?cp \<longrightarrow> validate_choices d ty = Inr cs'" "\<not> ?cp \<longrightarrow> cs' = None" for cs'
    using that c by (cases ?cp) auto
  from that [OF main] uniq show thesis by blast
qed

text \<open>What the code asks of the value of a validated property.\<close>

lemma answer_field_guard:
  assumes "validate_property (n, j_get ps n) = Inr u" "j_has ps n"
  shows "\<exists>ok. answer_field ps (n, v) = guardE ok (mismatch n)"
  using assms(1)
proof (cases rule: validate_property_cases)
  case 1
  then show ?thesis
    using answer_array_field_eq [OF 1, of n v] assms(2) by (auto simp: answer_field_def array_property_def)
next
  case (2 ty)
  then have "j_get (j_get ps n) ''type'' \<noteq> J_Str ''array''" by (auto simp: primitive_property_def)
  moreover from answer_primitive_field_eq [OF 2, of n v] obtain ok where
    "answer_primitive_field n (j_get ps n) v = guardE ok (mismatch n)" .
  ultimately show ?thesis using assms(2) by (auto simp: answer_field_def)
qed

lemma answer_default_ok:
  assumes "validate_property (n, j_get ps n) = Inr u" "j_has ps n" "j_has (j_get ps n) ''default''"
  shows "answer_field ps (n, j_get (j_get ps n) ''default'') = Inr ()"
  using assms(1)
proof (cases rule: validate_property_cases)
  case 1
  then show ?thesis
    using answer_array_field_eq [OF 1] assms(2,3) by (auto simp: answer_field_def array_property_def)
next
  case (2 ty)
  let ?d = "j_get ps n"
  have t: "j_get ?d ''type'' \<noteq> J_Str ''array''" using 2 by (auto simp: primitive_property_def)
  from 2 assms(3) obtain cs where c: "j_has ?d ''enum'' \<or> j_has ?d ''oneOf'' \<longrightarrow> validate_choices ?d ty = Inr cs"
      "\<not> (j_has ?d ''enum'' \<or> j_has ?d ''oneOf'') \<longrightarrow> cs = None"
      "primitive_value_ok ?d ty (j_has ?d ''enum'' \<or> j_has ?d ''oneOf'') cs (j_get ?d ''default'')"
    unfolding primitive_property_def by blast
  from answer_primitive_field_eq [OF 2, of n "j_get ?d ''default''"] obtain ok where
    "answer_primitive_field n ?d (j_get ?d ''default'') = guardE ok (mismatch n)" "ok"
    using c by metis
  with t assms(2) show ?thesis by (simp add: answer_field_def)
qed

lemma required_names_absent: "\<not> j_has s ''required'' \<Longrightarrow> required_names s = []"
  by (simp add: required_names_def)

lemma accepted_schema:
  assumes "validate_human_request_schema scrub (Some s) = Inr r"
  shows "r = Some s" "is_obj (j_get s ''properties'')"
    and "set (required_names s) \<subseteq> j_keys (j_get s ''properties'')"
    and "\<And>n. j_has (j_get s ''properties'') n \<Longrightarrow> validate_property (n, j_get (j_get s ''properties'') n) = Inr ()"
proof -
  from assms have *: "r = Some s" "is_obj (j_get s ''properties'')"
    "j_has s ''required'' \<longrightarrow> set (required_names s) \<subseteq> j_keys (j_get s ''properties'')"
    "\<forall>p \<in> set (j_items (j_get s ''properties'')). validate_property p = Inr ()"
    unfolding validate_human_request_schema_def Let_def by (simp_all add: foldE_unit)
  then show "r = Some s" "is_obj (j_get s ''properties'')" by simp_all
  show "set (required_names s) \<subseteq> j_keys (j_get s ''properties'')"
    using *(3) required_names_absent [of s] by (cases "j_has s ''required''") simp_all
  show "validate_property (n, j_get (j_get s ''properties'') n) = Inr ()" if "j_has (j_get s ''properties'') n" for n
    using *(4) j_get_item [OF that] by blast
qed

subsection \<open>The properties\<close>

text \<open>
  C16: an accepted schema is safe to check answers against: whatever JSON comes as the answer, the
  check returns or refuses it with a \<open>ValueError\<close>; the lookups and comparisons that would raise a
  \<open>KeyError\<close> or \<open>TypeError\<close> on an unvalidated schema cannot fail.
\<close>

theorem schema_answer_never_crashes:
  assumes "validate_human_request_schema scrub (Some s) = Inr r"
    and "validate_human_answer content r = Inl e"
  shows "\<exists>m. e = ValueError m"
proof -
  note acc = accepted_schema [OF assms(1)]
  let ?ps = "j_get s ''properties''"
  consider "\<exists>m. e = ValueError m" |
    "j_keys content \<subseteq> j_keys ?ps" "foldE (\<lambda>p _. answer_field ?ps p) (j_items content) () = Inl e"
    using assms(2) acc(1) by (auto simp: validate_human_answer_def bindE_eq_Inl)
  then show ?thesis
  proof cases
    case 2
    from foldE_unit_Inl [OF 2(2)] obtain n v where nv: "(n, v) \<in> set (j_items content)"
      "answer_field ?ps (n, v) = Inl e" by (metis surj_pair)
    then have h: "j_has ?ps n" using 2(1) by (force simp: j_has_keys j_keys_def)
    from answer_field_guard [OF acc(4) [OF h] h, of v] nv(2) show ?thesis
      by (auto simp: mismatch_def guardE_def split: if_splits)
  qed
qed

definition sample_schema :: json where
  "sample_schema = J_Obj [(''type'', J_Str ''object''), (''required'', J_List [J_Str ''ok'']),
     (''properties'', J_Obj [(''ok'', J_Obj [(''type'', J_Str ''boolean''), (''default'', J_Bool True)])])]"

lemma sample_schema_accepted:
  "validate_human_request_schema (\<lambda>_. Inr ()) (Some sample_schema) = Inr (Some sample_schema)"
  by code_simp

theorem schema_answer_never_crashes_witness:
  "\<exists>e m. validate_human_answer (J_Obj [(''ok'', J_Int 1)]) (Some sample_schema) = Inl e \<and> e = ValueError m"
proof -
  have "\<not> returns (validate_human_answer (J_Obj [(''ok'', J_Int 1)]) (Some sample_schema))"
    by code_simp
  then obtain e where e: "validate_human_answer (J_Obj [(''ok'', J_Int 1)]) (Some sample_schema) = Inl e"
    by (cases "validate_human_answer (J_Obj [(''ok'', J_Int 1)]) (Some sample_schema)") auto
  from schema_answer_never_crashes [OF sample_schema_accepted e] e show ?thesis by blast
qed

text \<open>
  The defaults of an accepted schema are themselves accepted: an answer that gives every
  required property and uses declared defaults only passes the check of the answer.
\<close>

theorem schema_defaults_are_answers:
  assumes "validate_human_request_schema scrub (Some s) = Inr r"
    and "set (required_names s) \<subseteq> set (map fst xs)"
    and "\<And>n v. (n, v) \<in> set xs \<Longrightarrow> j_has (j_get s ''properties'') n \<and>
           j_has (j_get (j_get s ''properties'') n) ''default'' \<and>
           v = j_get (j_get (j_get s ''properties'') n) ''default''"
  shows "validate_human_answer (J_Obj xs) r = Inr ()"
proof -
  note acc = accepted_schema [OF assms(1)]
  let ?ps = "j_get s ''properties''"
  have "answer_field ?ps (n, v) = Inr ()" if "(n, v) \<in> set xs" for n v
    using answer_default_ok [OF acc(4)] assms(3) [OF that] by blast
  then have "\<forall>p \<in> set xs. answer_field ?ps p = Inr ()" by auto
  moreover have "j_keys (J_Obj xs) \<subseteq> j_keys ?ps"
    using assms(3) by (force simp: j_keys_def [of "J_Obj xs"] j_has_keys)
  ultimately show ?thesis
    using assms(2) by (simp add: acc(1) validate_human_answer_def foldE_unit j_keys_def [of "J_Obj xs"])
qed

theorem schema_defaults_are_answers_witness:
  "validate_human_answer (J_Obj [(''ok'', J_Bool True)]) (Some sample_schema) = Inr ()"
  by (rule schema_defaults_are_answers [OF sample_schema_accepted])
    (auto simp: sample_schema_def required_names_def)

end
