(* ===== verification/Ticket_Human.thy ===== *)
theory Ticket_Human
  imports Ticket_Review Schema_Properties
begin

section \<open>Asking a human, and the answer\<close>

text \<open>
  The tools \<open>ticket_request_human\<close> and \<open>ticket_human_resolve\<close>.  The request id comes from a random
  source and the JSON encoder of the standard library writes an answer into the notes; both are
  parameters, as are the scrubber on the encoded values and the parser of URLs.
\<close>

definition HUMAN_REQUEST_KINDS :: "string set" where
  "HUMAN_REQUEST_KINDS = {''decision'', ''deliverable'', ''approval'', ''information''}"

record question_input =
  q_message :: string
  q_kind :: string
  q_schema :: "json option"
  q_url :: "string option"
  q_allow_counts :: "(string \<times> int) list"

definition holds_work_lease :: "ticket \<Rightarrow> seat \<Rightarrow> principal \<Rightarrow> bool" where
  "holds_work_lease t actor p \<longleftrightarrow>
     pre_submission t \<and> claimed_by_agent_id (work t) = Some (agent_id actor) \<and>
     claimed_by_principal_id (work t) = Some (pr_id p)"

definition holds_review_lease :: "ticket \<Rightarrow> seat \<Rightarrow> principal \<Rightarrow> time \<Rightarrow> bool" where
  "holds_review_lease t actor p now \<longleftrightarrow>
     ''board:review'' \<in> set (pr_scopes p) \<and> status t = ''submitted'' \<and> review_lease_is_live t now \<and>
     (case lease_of (review_lease t) of
        None \<Rightarrow> False
      | Some l \<Rightarrow> reviewer_agent_id l = Some (agent_id actor) \<and> reviewer_principal_id l = Some (pr_id p))"

definition may_ask_human :: "ticket \<Rightarrow> seat \<Rightarrow> principal \<Rightarrow> bool \<Rightarrow> time \<Rightarrow> bool" where
  "may_ask_human t actor p is_admin now \<longleftrightarrow>
     (holds_work_lease t actor p \<or> is_admin) \<and> ''board:write'' \<in> set (pr_scopes p) \<or>
     holds_review_lease t actor p now \<or> COORDINATOR_SCOPE \<in> set (pr_scopes p)"

definition question_pending :: "ticket \<Rightarrow> bool" where
  "question_pending t \<longleftrightarrow>
     status t = ''needs_human'' \<and>
     (case human_request t of None \<Rightarrow> False | Some h \<Rightarrow> h_resolution h = None)"

definition release_for_human ::
  "time \<Rightarrow> seat \<Rightarrow> world \<times> ticket \<Rightarrow> (world \<times> ticket) \<times> release option" where
  "release_for_human now actor wt =
     (case wt of (w, t) \<Rightarrow>
        if pre_submission t
        then (case reset_ticket_progress now ''unclaimed'' (w, t) of
                ((w1, t1), ev) \<Rightarrow> ((w1, clear_work_lease now actor t1), ev))
        else ((w, t), None))"

definition put_question ::
  "question_input \<Rightarrow> json option \<Rightarrow> string \<Rightarrow> seat \<Rightarrow> principal \<Rightarrow> time \<Rightarrow> ticket \<Rightarrow> ticket" where
  "put_question inp schema rid actor p now t =
     t\<lparr>status := ''needs_human'', updated_at := Some now,
       dispatch_state := Some ((entry0 ''needs_human'')\<lparr>d_at := Some now, d_request_id := Some rid\<rparr>),
       human_request := Some
         \<lparr> h_request_id = rid, h_message = q_message inp, h_kind = q_kind inp, h_requested_schema = schema,
           h_url = q_url inp, h_asked_by_agent_id = agent_id actor,
           h_asked_by_agent_name = agent_name actor, h_asked_by_principal_id = pr_id p,
           h_asked_at = now, h_resolution = None \<rparr>\<rparr>"

definition ask_human ::
  "world \<Rightarrow> string \<Rightarrow> ticket \<Rightarrow> seat \<Rightarrow> principal \<Rightarrow> question_input \<Rightarrow> json option \<Rightarrow> string \<Rightarrow> time
     \<Rightarrow> release list \<Rightarrow> string list \<Rightarrow> (world \<times> reply) result" where
  "ask_human w tid t actor p inp schema rid now released renewed =
     (let ((w1, t1), reset) = release_for_human now actor (w, t\<lparr>review_lease := RS_Absent\<rparr>);
          (t2, revoked) = revoke_offers ''human_input_requested'' [Work] t1;
          w2 = record_scrub_allows actor now (q_allow_counts inp)
                 (put_ticket tid (put_question inp schema rid actor p now t2) w1)
      in bindE (redispatch_queue w2 now) (\<lambda>(w3, more).
           case get_ticket w3 tid of
             None \<Rightarrow> Inl (KeyError tid)
           | Some t3 \<Rightarrow>
               Inr (w3, Done t3 (status t) ''needs_human''
                      (released @ option_list reset @ revoked @ more)
                      (filter (\<lambda>i. i \<noteq> tid) renewed) None)))"

definition request_human_with_actor ::
  "string \<Rightarrow> json option \<Rightarrow> world \<Rightarrow> seat \<Rightarrow> principal \<Rightarrow> string \<Rightarrow> question_input \<Rightarrow> time \<Rightarrow> release list
     \<Rightarrow> string list \<Rightarrow> (world \<times> reply) result" where
  "request_human_with_actor rid schema w actor p tid inp now released renewed =
     (case get_ticket w tid of
        None \<Rightarrow> Inl (ValueError ''ticket not found'')
      | Some t \<Rightarrow>
          bindE (resolve_board_context (brd w) (pr_id p) None) (\<lambda>pm.
            if \<not> may_ask_human t actor p (pm_role pm = ''admin'') now
            then Inl (PermissionError
                   ''human request requires the work or review lease, board admin, or board:coordinate'')
            else if status t \<in> set TERMINAL_TICKET_STATES
            then Inl (ValueError (''ticket is already '' @ status t))
            else if question_pending t then Inl (ValueError ''ticket already has a pending human request'')
            else ask_human w tid t actor p inp schema rid now released renewed))"

definition ticket_request_human ::
  "(string \<Rightarrow> string \<Rightarrow> string \<Rightarrow> string) \<Rightarrow> (json \<Rightarrow> unit result) \<Rightarrow> (string option \<Rightarrow> string option result)
     \<Rightarrow> string \<Rightarrow> world \<Rightarrow> principal \<Rightarrow> string \<Rightarrow> string \<Rightarrow> question_input \<Rightarrow> time \<Rightarrow> (world \<times> reply) result" where
  "ticket_request_human aid_of scrub check_url rid w p name tid inp now =
     bindE (if ''board:review'' \<in> set (pr_scopes p) then Inr ()
            else bindE (require_board_write_or_coordinate p) (\<lambda>_. Inr ())) (\<lambda>_.
     bindE (guardE (q_kind inp \<in> HUMAN_REQUEST_KINDS)
              (ValueError ''kind must be decision, deliverable, approval, or information'')) (\<lambda>_.
     bindE (validate_human_request_schema scrub (q_schema inp)) (\<lambda>schema.
     bindE (check_url (q_url inp)) (\<lambda>url.
     bindE (prepare_board_call aid_of w p name now) (\<lambda>(w1, actor, released, renewed).
       request_human_with_actor rid schema w1 actor p tid (inp\<lparr>q_url := url\<rparr>) now released renewed)))))"

subsection \<open>The answer\<close>

record answer_input =
  an_request_id :: string
  an_action :: string
  an_content :: "json option"
  an_note :: "string option"
  an_disposition :: string
  an_allow_counts :: "(string \<times> int) list"

definition answered_question :: "ticket \<Rightarrow> string \<Rightarrow> human_request option" where
  "answered_question t rid =
     (case human_request t of
        Some h \<Rightarrow> if status t = ''needs_human'' \<and> h_request_id h = rid \<and> h_resolution h = None
                   then Some h else None
      | None \<Rightarrow> None)"

definition answer_text :: "(json \<Rightarrow> string) \<Rightarrow> answer_input \<Rightarrow> string" where
  "answer_text dumps inp =
     (case an_content inp of
        Some c \<Rightarrow> dumps c
      | None \<Rightarrow> if truthy (an_note inp) then the (an_note inp) else an_action inp)"

definition reopens :: "answer_input \<Rightarrow> bool" where
  "reopens inp \<longleftrightarrow> an_action inp = ''accept'' \<or> (an_action inp = ''decline'' \<and> an_disposition inp = ''reopen'')"

definition reopen_with_answer :: "(json \<Rightarrow> string) \<Rightarrow> answer_input \<Rightarrow> human_request \<Rightarrow> time \<Rightarrow> ticket \<Rightarrow> ticket" where
  "reopen_with_answer dumps inp h now t =
     (let prior = rstrip (case submission_notes t of None \<Rightarrow> [] | Some n \<Rightarrow> n);
          asked = h_asked_by_agent_id h;
          unpinned = (if assigned_to_agent_id t = Some asked
                      then t\<lparr>assigned_to := None, assigned_to_agent_id := None, assigned_to_kind := None\<rparr>
                      else t)
      in unpinned\<lparr>submission_notes := Some (lstrip (prior @ CHR 0x0A # ''HUMAN ANSWER: '' @ answer_text dumps inp)),
           prefer_agents := filter (\<lambda>i. casefold i \<noteq> casefold asked) (prefer_agents t),
           status := ''open'',
           dispatch_state := Some ((entry0 ''reopened'')\<lparr>d_at := Some now,
                               d_reason := Some ''human_input_resolved''\<rparr>)\<rparr>)"

definition cancel_by_answer :: "answer_input \<Rightarrow> seat \<Rightarrow> principal \<Rightarrow> time \<Rightarrow> ticket \<Rightarrow> ticket" where
  "cancel_by_answer inp actor p now t =
     t\<lparr>status := ''canceled'',
       cancellation := Some \<lparr> c_agent_id = agent_id actor, c_principal_id = pr_id p,
          c_permission = ''human resolution'', c_at = now,
          c_reason = (if truthy (an_note inp) then an_note inp else Some ''human request declined'') \<rparr>,
       dispatch_state := Some ((entry0 ''canceled'')\<lparr>d_at := Some now\<rparr>)\<rparr>"

definition settle_question :: "answer_input \<Rightarrow> human_request \<Rightarrow> principal \<Rightarrow> time \<Rightarrow> ticket \<Rightarrow> ticket" where
  "settle_question inp h p now t =
     t\<lparr>human_request := Some (h\<lparr>h_resolution := Some
         \<lparr> r_action = an_action inp, r_content = an_content inp, r_principal_id = pr_id p,
           r_at = now, r_note = an_note inp \<rparr>\<rparr>)\<rparr>"

definition apply_answer ::
  "(json \<Rightarrow> string) \<Rightarrow> world \<Rightarrow> ticket \<Rightarrow> human_request \<Rightarrow> answer_input \<Rightarrow> seat \<Rightarrow> principal \<Rightarrow> time
     \<Rightarrow> (world \<times> ticket \<times> release option) result" where
  "apply_answer dumps w t h inp actor p now =
     (let t1 = settle_question inp h p now t in
      if reopens inp
      then dispatch_ticket w (reopen_with_answer dumps inp h now t1) now Work
             (if last_release_reason t = Some ''human input requested'' then Some (h_asked_by_agent_id h) else None)
      else if an_action inp = ''decline'' \<and> an_disposition inp = ''cancel''
      then Inr (w, cancel_by_answer inp actor p now t1, None)
      else Inr (w, t1, None))"

definition answered_status :: "answer_input \<Rightarrow> string" where
  "answered_status inp =
     (if reopens inp then ''open''
      else if an_action inp = ''decline'' \<and> an_disposition inp = ''cancel'' then ''canceled''
      else ''needs_human'')"

definition human_resolve_with_actor ::
  "(json \<Rightarrow> string) \<Rightarrow> (json \<Rightarrow> unit result) \<Rightarrow> world \<Rightarrow> seat \<Rightarrow> principal \<Rightarrow> string \<Rightarrow> answer_input \<Rightarrow> time
     \<Rightarrow> release list \<Rightarrow> string list \<Rightarrow> (world \<times> reply) result" where
  "human_resolve_with_actor dumps scrub w actor p tid inp now released renewed =
     bindE (resolve_board_context (brd w) (pr_id p) None) (\<lambda>pm.
       if pm_role pm \<noteq> ''admin'' \<and> COORDINATOR_SCOPE \<notin> set (pr_scopes p)
       then Inl (PermissionError ''human resolution requires board admin or board:coordinate'')
       else case get_ticket w tid of
         None \<Rightarrow> Inl (ValueError ''ticket not found'')
       | Some t \<Rightarrow>
           (case answered_question t (an_request_id inp) of
              None \<Rightarrow> Inl (ValueError ''human request is not pending'')
            | Some h \<Rightarrow>
                bindE (case an_content inp of
                         None \<Rightarrow> Inr ()
                       | Some c \<Rightarrow> bindE (validate_human_answer c (h_requested_schema h)) (\<lambda>_. scrub c)) (\<lambda>_.
                bindE (apply_answer dumps w t h inp actor p now) (\<lambda>(w2, t2, ev).
                bindE (redispatch_queue (put_ticket tid (t2\<lparr>updated_at := Some now\<rparr>) w2) now) (\<lambda>(w3, more).
                  let w4 = record_scrub_allows actor now (an_allow_counts inp) w3 in
                  case get_ticket w4 tid of
                    None \<Rightarrow> Inl (KeyError tid)
                  | Some t4 \<Rightarrow>
                      Inr (w4, Done t4 ''needs_human'' (answered_status inp) (released @ more) renewed ev))))))"

definition ticket_human_resolve ::
  "(string \<Rightarrow> string \<Rightarrow> string \<Rightarrow> string) \<Rightarrow> (json \<Rightarrow> string) \<Rightarrow> (json \<Rightarrow> unit result)
     \<Rightarrow> world \<Rightarrow> principal \<Rightarrow> string \<Rightarrow> string \<Rightarrow> answer_input \<Rightarrow> time \<Rightarrow> (world \<times> reply) result" where
  "ticket_human_resolve aid_of dumps scrub w p name tid inp now =
     bindE (guardE (an_action inp \<in> {''accept'', ''decline'', ''cancel''})
              (ValueError ''action must be accept, decline, or cancel'')) (\<lambda>_.
     bindE (guardE (an_disposition inp \<in> {''reopen'', ''park'', ''cancel''})
              (ValueError ''disposition must be reopen, park, or cancel'')) (\<lambda>_.
     bindE (guardE (''board:write'' \<in> set (pr_scopes p) \<or> COORDINATOR_SCOPE \<in> set (pr_scopes p))
              (PermissionError ''human resolution requires board admin or board:coordinate'')) (\<lambda>_.
     bindE (prepare_board_call aid_of w p name now) (\<lambda>(w1, actor, released, renewed).
       human_resolve_with_actor dumps scrub w1 actor p tid inp now released renewed))))"

end
