(* ===== verification/Tool_Safety.thy ===== *)
theory Tool_Safety
  imports Dispatch_Safety Ticket_Human
begin

section \<open>What the tools keep\<close>

text \<open>
  Every tool on one ticket is a chain: sweeps before (the reaper), a change of the ticket, sweeps
  after (the redispatch of the queue).  Two contracts are threaded through the chain.  \<open>kept_world\<close>:
  the document stays well formed and tidy and no seat is booked twice.  \<open>board_edges\<close>: the status of
  every ticket moves along an edge of the ticket life cycle; terminal tickets do not move, and a
  ticket that closes has been reviewed independently.
\<close>

subsection \<open>The acting seat\<close>

lemma lookup_member_effect:
  assumes "lookup_member aid_of w p name = Inr (w', m)"
  shows "safe_world now w w'" and "tickets (brd w') = tickets (brd w)" and "cfg (brd w') = cfg (brd w)"
    and "board_ok w \<Longrightarrow> get_member w' (agent_id m) = Some m"
    and "principal_memberships (brd w') = principal_memberships (brd w)"
proof -
  let ?k = "aid_of (board_id (brd w)) (pr_id p) name"
  from assms obtain pm :: membership where c: "(case get_member w ?k of
            None \<Rightarrow> Inl (PermissionError ''agent is not a member of this board'')
          | Some m \<Rightarrow>
              if principal_id m \<noteq> pr_id p
              then Inl (PermissionError ''agent is not a member of this board'')
              else Inr (put_member ?k (m\<lparr>membership_role := Some (pm_role pm)\<rparr>) w,
                        m\<lparr>membership_role := Some (pm_role pm)\<rparr>)) = Inr (w', m)"
    unfolding lookup_member_def bindE_eq_Inr Let_def by blast
  then obtain m0 where r: "get_member w ?k = Some m0" by (cases "get_member w ?k") simp_all
  with c have m: "m = m0\<lparr>membership_role := Some (pm_role pm)\<rparr>" and w': "w' = put_member ?k m w"
    by (auto split: if_split_asm)
  have id: "agent_id m = ?k" if "board_ok w" using that r m by (simp add: board_ok_def)
  show "safe_world now w w'"
    by (rule safe_world_members) (simp_all add: w' id)
  show "tickets (brd w') = tickets (brd w)" "cfg (brd w') = cfg (brd w)"
    "principal_memberships (brd w') = principal_memberships (brd w)" by (simp_all add: w')
  show "get_member w' (agent_id m) = Some m" if "board_ok w" using id [OF that] by (simp add: w')
qed

lemma resolve_active_actor_lookup:
  "resolve_active_actor aid_of w p name = Inr (w', m) \<Longrightarrow> lookup_member aid_of w p name = Inr (w', m)"
  by (auto simp: resolve_active_actor_def split: if_splits)

lemma coordinator_actor_lookup:
  "coordinator_actor aid_of w p name = Inr (w', m) \<Longrightarrow> lookup_member aid_of w p name = Inr (w', m)"
  by (auto simp: coordinator_actor_def split: if_splits)

subsection \<open>Changes of many tickets at once\<close>

lemma dget_map_values: "dget (map (\<lambda>(k, t). (k, f t)) d) k = map_option f (dget d k)"
  by (induction d) auto

lemma dkeys_map_values: "dkeys (map (\<lambda>(k, t). (k, f t)) d) = dkeys d"
  by (induction d) (auto simp: dkeys_def)

definition map_tickets :: "(ticket \<Rightarrow> ticket) \<Rightarrow> world \<Rightarrow> world" where
  "map_tickets f w = w\<lparr>brd := (brd w)\<lparr>tickets := map (\<lambda>(k, t). (k, f t)) (tickets (brd w))\<rparr>\<rparr>"

lemma get_map_tickets: "get_ticket (map_tickets f w) k = map_option f (get_ticket w k)"
  by (simp add: map_tickets_def get_ticket_def dget_map_values)

lemma map_tickets_safe:
  assumes "\<And>t. lapse t (f t)" and "\<And>t. tidy t \<Longrightarrow> tidy (f t)"
    and "\<And>t a. occupies (f t) a now \<Longrightarrow> occupies t a now"
  shows "safe_world now w (map_tickets f w)"
proof -
  have id: "ticket_id (f t) = ticket_id t" for t using assms(1) [of t] by (simp add: lapse_def same_record_def)
  have mem: "get_member (map_tickets f w) = get_member w" by (simp add: map_tickets_def get_member_def fun_eq_iff)
  have "dkeys (tickets (brd (map_tickets f w))) = dkeys (tickets (brd w))"
    by (simp add: map_tickets_def dkeys_map_values)
  moreover have "board_ok w \<Longrightarrow> board_ok (map_tickets f w)"
    using calculation by (auto simp: board_ok_def get_map_tickets mem id dict_ok_def) (simp add: map_tickets_def)
  moreover have "seats_exclusive w now \<Longrightarrow> seats_exclusive (map_tickets f w) now"
    using assms(3) unfolding seats_exclusive_def get_map_tickets by (auto, blast)
  ultimately show ?thesis
    using assms(1,2)
    by (auto simp: safe_world_def tidy_board_def board_lapses_def get_map_tickets, simp add: map_tickets_def)
qed

subsection \<open>Renewals\<close>

lemma renew_claim_fields [simp]:
  "ticket_id (renew_claim now ttl src t) = ticket_id t"
  "status (renew_claim now ttl src t) = status t"
  "review_lease (renew_claim now ttl src t) = review_lease t"
  "offers (renew_claim now ttl src t) = offers t"
  "same_record t (renew_claim now ttl src t)"
  "claimed_by_agent_id (work (renew_claim now ttl src t)) = claimed_by_agent_id (work t)"
  "claimed_by_principal_id (work (renew_claim now ttl src t)) = claimed_by_principal_id (work t)"
  "claimed_by (work (renew_claim now ttl src t)) = claimed_by (work t)"
  "lease_expires_at_epoch (work (renew_claim now ttl src t)) = E_Num (now + secs ttl)"
  "lease_expires_at (work (renew_claim now ttl src t)) = T_Instant (now + secs ttl)"
  "pre_submission (renew_claim now ttl src t) = pre_submission t"
  by (simp_all add: renew_claim_def Let_def case_prod_unfold same_record_def pre_submission_def)

lemma pre_submission_not_inactive: "pre_submission t \<Longrightarrow> \<not> inactive_status t"
  by (auto simp: pre_submission_iff inactive_status_def TERMINAL_TICKET_STATES_def)

lemma work_commitment_active: "pre_submission t \<Longrightarrow> work_commitment t a now \<longleftrightarrow> claimed_by_agent_id (work t) = Some a"
  by (simp add: work_commitment_def)

lemma occupies_active_cong:
  assumes "pre_submission t" "pre_submission t'" "claimed_by_agent_id (work t') = claimed_by_agent_id (work t)"
    "review_lease t' = review_lease t" "offers t' = offers t"
  shows "occupies t' a now = occupies t a now"
  using assms by (simp add: occupies_def work_commitment_active review_commitment_def offer_commitment_def)

lemma tidy_renew_claim: "tidy t \<Longrightarrow> pre_submission t \<Longrightarrow> tidy (renew_claim now ttl src t)"
  by (auto simp: tidy_def tidy_work_def agreeing_def pre_submission_def)

lemma touch_actor_effect:
  assumes "touch_actor w actor now = (w', actor', renewed)"
  shows "safe_world now w w'" and "agent_id actor' = agent_id actor"
    and "cfg (brd w') = cfg (brd w)" and "principal_memberships (brd w') = principal_memberships (brd w)"
    and "get_ticket w' k = map_option (\<lambda>t. if holds_work (agent_id actor) t
           then renew_claim now (claim_ttl_s (cfg (brd w))) ''model'' t else t) (get_ticket w k)"
    and "agent_name actor' = agent_name actor" and "lifecycle_status actor' = lifecycle_status actor"
proof -
  let ?a = "agent_id actor"
  define w1 where "w1 = record_agent_activity (board_id (brd w)) ?a now
      (put_member ?a (actor\<lparr>last_activity_at := T_Instant now\<rparr>) w)"
  define f where "f = (\<lambda>t. if holds_work ?a t then renew_claim now (claim_ttl_s (cfg (brd w1))) ''model'' t else t)"
  have b1: "brd w1 = brd (put_member ?a (actor\<lparr>last_activity_at := T_Instant now\<rparr>) w)"
    by (simp add: w1_def record_agent_activity_def)
  then have c1: "cfg (brd w1) = cfg (brd w)" by simp
  have w': "w' = map_tickets f w1" and a': "actor' = actor\<lparr>last_activity_at := T_Instant now\<rparr>"
    using assms unfolding touch_actor_def Let_def map_tickets_def f_def w1_def by (auto simp only: prod.inject)
  have "safe_world now w w1"
  proof (rule safe_world_members)
    show "board_ok w1" if "board_ok w"
      using board_ok_cong [of w1 "put_member ?a (actor\<lparr>last_activity_at := T_Instant now\<rparr>) w"] b1 that by simp
  qed (simp_all add: b1)
  moreover have "safe_world now w1 (map_tickets f w1)"
  proof (rule map_tickets_safe)
    show "lapse t (f t)" for t by (simp add: f_def lapse_def)
    show "tidy (f t)" if "tidy t" for t using that by (simp add: f_def holds_work_def tidy_renew_claim)
    show "occupies t a now" if "occupies (f t) a now" for t a
    proof (cases "holds_work ?a t")
      case True
      then have "pre_submission t" by (simp add: holds_work_def)
      then show ?thesis using that True occupies_active_cong [of t "f t" a now] by (simp add: f_def)
    qed (use that in \<open>simp add: f_def\<close>)
  qed
  ultimately show "safe_world now w w'" unfolding w' by (rule safe_world_trans)
  show "cfg (brd w') = cfg (brd w)" "principal_memberships (brd w') = principal_memberships (brd w)"
    by (simp_all add: w' map_tickets_def b1)
  show "agent_id actor' = agent_id actor" "agent_name actor' = agent_name actor"
    "lifecycle_status actor' = lifecycle_status actor" by (simp_all add: a')
  have "get_ticket w1 = get_ticket w" by (rule get_ticket_tickets) (simp add: b1)
  then show "get_ticket w' k = map_option (\<lambda>t. if holds_work (agent_id actor) t
           then renew_claim now (claim_ttl_s (cfg (brd w))) ''model'' t else t) (get_ticket w k)"
    by (simp add: w' get_map_tickets f_def [unfolded c1])
qed

lemma prepare_board_call_effect:
  assumes "prepare_board_call aid_of w p name now = Inr (w', actor, released, renewed)"
  shows "safe_world now w w'"
proof -
  from assms obtain w1 w2 a0 where r: "reap_expired w now True = Inr (w1, released)"
    and l: "resolve_active_actor aid_of w1 p name = Inr (w2, a0)"
    and t: "touch_actor w2 a0 now = (w', actor, renewed)"
    unfolding prepare_board_call_def bindE_eq_Inr case_prod_unfold
    by (metis Pair_inject prod.collapse sum.inject(2))
  from reap_expired_safe [OF r] lookup_member_effect(1) [OF resolve_active_actor_lookup [OF l], of now]
    touch_actor_effect(1) [OF t] show ?thesis
    by (blast intro: safe_world_trans)
qed

subsection \<open>Steps around the ticket\<close>

lemma record_scrub_allows_frame:
  "tickets (brd (record_scrub_allows actor now counts w)) = tickets (brd w)"
  "members (brd (record_scrub_allows actor now counts w)) = members (brd w)"
  "cfg (brd (record_scrub_allows actor now counts w)) = cfg (brd w)"
  by (simp_all add: record_scrub_allows_def Let_def)

lemma record_scrub_allows_safe: "safe_world now w (record_scrub_allows actor now' counts w)"
  by (rule safe_world_members)
    (simp_all add: record_scrub_allows_frame board_ok_cong [of "record_scrub_allows actor now' counts w" w])

lemma modify_member_safe:
  assumes "\<And>m. agent_id (f m) = agent_id m"
  shows "safe_world now w (modify_member k f w)"
proof (rule safe_world_members)
  show "board_ok (modify_member k f w)" if ok: "board_ok w"
  proof (cases "get_member w k")
    case (Some m)
    with ok have "agent_id m = k" by (simp add: board_ok_def)
    with Some ok assms show ?thesis by (simp add: modify_member_def)
  qed (use ok in \<open>simp add: modify_member_def\<close>)
qed (simp_all add: modify_member_def split: option.split)

lemma dispatch_and_requeue_safe:
  assumes "dispatch_and_requeue tid k pref now w = Inr (w', ev, evs)"
  shows "safe_world now w w'"
proof -
  from assms obtain t w1 t1 where g: "get_ticket w tid = Some t"
    and d: "dispatch_ticket w t now k pref = Inr (w1, t1, ev)"
    and q: "redispatch_queue (put_ticket tid t1 w1) now = Inr (w', evs)"
    by (auto simp: dispatch_and_requeue_def split: option.splits)
  from moved_store [OF g dispatched_moved [OF dispatch_ticket_dispatched [OF d]]] redispatch_queue_safe [OF q]
  show ?thesis by (rule safe_world_trans)
qed

end
