(* ===== verification/Life_Cycle.thy ===== *)
theory Life_Cycle
  imports Tool_Safety
begin

section \<open>The life cycle of a ticket\<close>

text \<open>
  The statuses and the steps between them, what one tool does to the ticket it acts on (\<open>edge\<close>) and
  the composition with the sweeps that run before and after it (\<open>tool_edge\<close>).
\<close>

inductive life_step :: "string \<Rightarrow> string \<Rightarrow> bool" where
  claim: "life_step ''open'' ''claimed''"
| start: "life_step ''claimed'' ''in_progress''"
| give_back: "s \<in> set PRE_SUBMISSION_STATES \<Longrightarrow> life_step s ''open''"
| submit: "s \<in> set PRE_SUBMISSION_STATES \<Longrightarrow> life_step s ''submitted''"
| approve: "life_step ''submitted'' ''closed''"
| reopen: "life_step ''submitted'' ''open''"
| reject: "life_step ''submitted'' ''rejected''"
| cancel: "s \<notin> set TERMINAL_TICKET_STATES \<Longrightarrow> life_step s ''canceled''"
| ask: "s \<notin> set TERMINAL_TICKET_STATES \<Longrightarrow> life_step s ''needs_human''"
| answer: "life_step ''needs_human'' ''open''"

inductive_cases life_step_closedE: "life_step s ''closed''"
inductive_cases life_step_submittedE: "life_step s ''submitted''"

lemma life_step_from_terminal: "life_step s s' \<Longrightarrow> s \<notin> set TERMINAL_TICKET_STATES"
  by (cases rule: life_step.cases) (auto simp: TERMINAL_TICKET_STATES_def PRE_SUBMISSION_STATES_def)

text \<open>An independent verdict: another seat than the submitter, under \<open>strict\<close> another principal.\<close>

definition independent :: "string \<Rightarrow> ticket \<Rightarrow> bool" where
  "independent pol t \<longleftrightarrow>
     (\<exists>a p b v. submitted_by_agent_id t = Some a \<and> submitted_by_principal_id t = Some p \<and>
        reviewed_by_agent_id t = Some b \<and> last_verdict t = Some v \<and> vi_verdict v = ''approve'' \<and>
        b \<noteq> a \<and> (pol = ''strict'' \<longrightarrow> vi_principal_id v \<noteq> p))"

definition edge :: "string \<Rightarrow> ticket \<Rightarrow> ticket \<Rightarrow> bool" where
  "edge pol t t' \<longleftrightarrow>
     (status t' = status t \<and> (status t \<in> set TERMINAL_TICKET_STATES \<longrightarrow> same_record t t')) \<or>
     (life_step (status t) (status t') \<and> (status t' = ''closed'' \<longrightarrow> independent pol t'))"

definition tool_edge :: "string \<Rightarrow> ticket \<Rightarrow> ticket \<Rightarrow> bool" where
  "tool_edge pol t t' \<longleftrightarrow> (\<exists>t1 t2. lapse t t1 \<and> edge pol t1 t2 \<and> lapse t2 t')"

lemma edge_refl [simp]: "edge pol t t"
  by (simp add: edge_def)

lemma lapse_tool_edge: "lapse t t' \<Longrightarrow> tool_edge pol t t'"
  unfolding tool_edge_def by (meson edge_refl lapse_refl)

lemma edge_tool_edge: "edge pol t t' \<Longrightarrow> tool_edge pol t t'"
  unfolding tool_edge_def by (meson lapse_refl)

lemma tool_edge_lapse: "lapse t t1 \<Longrightarrow> tool_edge pol t1 t2 \<Longrightarrow> lapse t2 t' \<Longrightarrow> tool_edge pol t t'"
  unfolding tool_edge_def by (meson lapse_trans)

lemma lapse_terminal: "lapse t t' \<Longrightarrow> status t \<in> set TERMINAL_TICKET_STATES \<Longrightarrow> status t' = status t \<and> same_record t t'"
  by (auto simp: lapse_def pre_submission_iff TERMINAL_TICKET_STATES_def)

lemma lapse_to: "lapse t t' \<Longrightarrow> status t' \<noteq> ''open'' \<Longrightarrow> status t' = status t"
  by (auto simp: lapse_def)

text \<open>Terminal tickets stay, and what closes has been reviewed independently.\<close>

lemma tool_edge_terminal:
  assumes "tool_edge pol t t'" "status t \<in> set TERMINAL_TICKET_STATES"
  shows "status t' = status t \<and> same_record t t'"
proof -
  from assms(1) obtain t1 t2 where e: "lapse t t1" "edge pol t1 t2" "lapse t2 t'"
    by (auto simp: tool_edge_def)
  from lapse_terminal [OF e(1) assms(2)] have 1: "status t1 = status t" "same_record t t1" by simp_all
  with e(2) life_step_from_terminal assms(2) have 2: "status t2 = status t1" "same_record t1 t2"
    by (auto simp: edge_def)
  from lapse_terminal [OF e(3)] 1 2 assms(2) show ?thesis by (auto intro: same_record_trans)
qed

lemma independent_record: "same_record t t' \<Longrightarrow> independent pol t' = independent pol t"
  by (simp add: same_record_def independent_def)

lemma tool_edge_closed:
  assumes "tool_edge pol t t'" "status t' = ''closed''"
  shows "independent pol t' \<or> (status t = ''closed'' \<and> same_record t t')"
proof -
  from assms(1) obtain t1 t2 where e: "lapse t t1" "edge pol t1 t2" "lapse t2 t'"
    by (auto simp: tool_edge_def)
  from lapse_to [OF e(3)] assms(2) have 2: "status t2 = ''closed''" "same_record t2 t'"
    using e(3) by (simp_all add: lapse_def)
  show ?thesis
  proof (cases "status t1 = ''closed''")
    case True
    with lapse_to [OF e(1)] have "status t = ''closed''" by simp
    with tool_edge_terminal [OF assms(1)] show ?thesis by (simp add: TERMINAL_TICKET_STATES_def)
  next
    case False
    with e(2) 2(1) have "independent pol t2" by (auto simp: edge_def)
    with independent_record [OF 2(2)] show ?thesis by simp
  qed
qed

subsection \<open>Boards\<close>

definition board_edges :: "world \<Rightarrow> world \<Rightarrow> bool" where
  "board_edges w w' \<longleftrightarrow> (board_ok w \<longrightarrow>
     (\<forall>k t. get_ticket w k = Some t \<longrightarrow>
        (\<exists>t'. get_ticket w' k = Some t' \<and> tool_edge (review_policy (cfg (brd w))) t t')))"

lemma safe_board_edges: "safe_world now w w' \<Longrightarrow> board_edges w w'"
  unfolding board_edges_def safe_world_def board_lapses_def by (meson lapse_tool_edge)

lemma board_edges_store:
  assumes "get_ticket w key = Some t" "tickets (brd w') = tickets (brd w)"
    and "edge (review_policy (cfg (brd w))) t t'"
  shows "board_edges w (put_ticket key t' w')"
  using assms edge_tool_edge [OF assms(3)] get_ticket_tickets [OF assms(2)]
  by (auto simp: board_edges_def intro: lapse_tool_edge)

lemma board_edges_around:
  assumes s1: "safe_world now w w1" and e: "board_edges w1 w2" and s2: "safe_world now w2 w3"
    and ok: "board_ok w1 \<Longrightarrow> board_ok w2"
  shows "board_edges w w3"
  unfolding board_edges_def
proof (intro impI allI)
  fix k t assume b: "board_ok w" and g: "get_ticket w k = Some t"
  from s1 b have b1: "board_ok w1" "cfg (brd w1) = cfg (brd w)" by (simp_all add: safe_world_def)
  from s1 b g obtain t1 where 1: "get_ticket w1 k = Some t1" "lapse t t1"
    unfolding safe_world_def board_lapses_def by blast
  from e b1 1(1) obtain t2 where 2: "get_ticket w2 k = Some t2" "tool_edge (review_policy (cfg (brd w))) t1 t2"
    unfolding board_edges_def by metis
  from s2 ok [OF b1(1)] 2(1) obtain t3 where 3: "get_ticket w3 k = Some t3" "lapse t2 t3"
    unfolding safe_world_def board_lapses_def by blast
  from tool_edge_lapse [OF 1(2) 2(2) 3(2)] 3(1)
  show "\<exists>t'. get_ticket w3 k = Some t' \<and> tool_edge (review_policy (cfg (brd w))) t t'" by blast
qed

subsection \<open>The shape of a tool\<close>

text \<open>A tool that keeps both contracts.\<close>

definition tool_world :: "time \<Rightarrow> world \<Rightarrow> world \<Rightarrow> bool" where
  "tool_world now w w' \<longleftrightarrow> kept_world now w w' \<and> board_edges w w'"

lemma safe_tool_world: "safe_world now w w' \<Longrightarrow> tool_world now w w'"
  by (simp add: tool_world_def safe_world_kept safe_board_edges)

lemma tool_world_store:
  assumes "get_ticket w key = Some t" "carried now w t w' t'" "edge (review_policy (cfg (brd w))) t t'"
  shows "tool_world now w (put_ticket key t' w')"
  using assms carried_store board_edges_store by (auto simp: tool_world_def carried_def)

lemma tool_world_around:
  assumes "safe_world now w w1" "tool_world now w1 w2" "safe_world now w2 w3"
  shows "tool_world now w w3"
proof -
  have "kept_world now w w3"
    using assms safe_world_kept kept_world_trans by (auto simp: tool_world_def, blast)
  moreover have "board_edges w w3"
    using assms board_edges_around [of now w w1 w2 w3] by (auto simp: tool_world_def kept_world_def)
  ultimately show ?thesis by (simp add: tool_world_def)
qed

lemma tool_world_before: "safe_world now w w1 \<Longrightarrow> tool_world now w1 w2 \<Longrightarrow> tool_world now w w2"
  by (rule tool_world_around [OF _ _ safe_world_refl])

lemma tool_world_after: "tool_world now w w1 \<Longrightarrow> safe_world now w1 w2 \<Longrightarrow> tool_world now w w2"
  by (rule tool_world_around [OF safe_world_refl])

subsection \<open>Occupation after a change\<close>

text \<open>Neither active work nor a running lease nor a review: the claim fields alone book nobody.\<close>

lemma settled_work_books_nobody:
  assumes "\<not> pre_submission t" "lease_expires_at_epoch (work t) = E_Null" "lease_expires_at (work t) = T_Null"
    and "review_lease t = RS_Absent"
  shows "\<not> work_commitment t a now"
  using assms
  by (simp add: work_commitment_def inactive_work_ownership_is_ambiguous_def
      inactive_lifecycle_has_ambiguous_live_lease_def text_epoch_def Let_def)

lemma uncommitted_books_nobody: "\<not> pre_submission t \<Longrightarrow> \<not> inactive_status t \<Longrightarrow> \<not> work_commitment t a now"
  by (simp add: work_commitment_def inactive_work_ownership_is_ambiguous_def)

lemma claimless_books_nobody: "claimed_by_agent_id (work t) = None \<Longrightarrow> \<not> work_commitment t a now"
  by (simp add: work_commitment_def)

lemma occupies_fewer:
  assumes "\<And>a. work_commitment t' a now \<Longrightarrow> work_commitment t a now"
    and "review_lease t' = review_lease t \<or> review_lease t' = RS_Absent"
    and "\<And>k. offers t' k = offers t k \<or> offers t' k = None"
    and "occupies t' a now"
  shows "occupies t a now"
proof -
  have "review_commitment t' a now = Inr True \<Longrightarrow> review_commitment t a now = Inr True"
    using assms(2) by (auto simp: review_commitment_def)
  moreover have "offer_commitment t' a now k \<Longrightarrow> offer_commitment t a now k" for k
    using assms(3) [of k] by (auto simp: offer_commitment_def)
  ultimately show ?thesis using assms(1,4) by (auto simp: occupies_def)
qed

lemma occupies_cong:
  assumes "status t' = status t" "work t' = work t" "review_lease t' = review_lease t" "offers t' = offers t"
  shows "occupies t' a now = occupies t a now"
  using work_commitment_cong [of t' t] review_commitment_cong [of t' t] offer_commitment_cong [of t' _ t] assms
  by (simp add: occupies_def)

lemma occupies_without_review:
  assumes "status t' = status t" "work t' = work t" "review_lease t' = RS_Absent" "offers t' = offers t"
    and "occupies t' a now"
  shows "occupies t a now"
  using occupies_cong [of t' "t\<lparr>review_lease := RS_Absent, updated_at := None\<rparr>" a now] assms
    occupies_drop_review [where t = t and u = None and a = a and now = now] by simp

lemma carriedI:
  assumes "tickets (brd w') = tickets (brd w)" "cfg (brd w') = cfg (brd w)" "board_ok w \<Longrightarrow> board_ok w'"
    and "ticket_id t' = ticket_id t" and "tidy t \<Longrightarrow> tidy t'"
    and "\<And>a. tidy t \<Longrightarrow> occupies t' a now \<Longrightarrow> occupies t a now"
  shows "carried now w t w' t'"
  using assms by (auto simp: carried_def safe_change_def)

lemma quiet_brd: "quiet w t w' t' \<Longrightarrow> tickets (brd w') = tickets (brd w) \<and> cfg (brd w') = cfg (brd w) \<and> (board_ok w \<longrightarrow> board_ok w')"
  using board_ok_cong [of w' w] by (auto simp: quiet_def)

lemma tidy_times:
  "tidy t \<Longrightarrow> \<not> inactive_status t \<Longrightarrow> \<not> pre_submission t \<Longrightarrow>
     lease_expires_at_epoch (work t) = E_Null \<and> lease_expires_at (work t) = T_Null"
  by (auto simp: tidy_def tidy_work_def agreeing_def inactive_status_def pre_submission_def)

end
