(* ===== verification/Tool_Contracts.thy ===== *)
theory Tool_Contracts
  imports Life_Cycle
begin

section \<open>Every tool keeps the contracts\<close>

text \<open>
  A handler that runs \<open>prepare_board_call\<close> first and then a body on the prepared document: its
  contract is that of the body.  The locale is the interface between the preamble and the tools; it
  is interpreted once per tool.
\<close>

locale prepared_tool =
  fixes body :: "world \<Rightarrow> seat \<Rightarrow> release list \<Rightarrow> string list \<Rightarrow> (world \<times> reply) result" and now :: time
  assumes body_contract: "body w a rel ren = Inr (w', r) \<Longrightarrow> tool_world now w w'"
begin

lemma call_contract:
  assumes "bindE (prepare_board_call aid_of w p name now) (\<lambda>(w1, a, rel, ren). body w1 a rel ren) = Inr (w', r)"
  shows "tool_world now w w'"
proof -
  from assms obtain w1 a rel ren where "prepare_board_call aid_of w p name now = Inr (w1, a, rel, ren)"
    and "body w1 a rel ren = Inr (w', r)"
    by auto
  then show ?thesis using prepare_board_call_effect body_contract tool_world_before by blast
qed

end

lemma finished_read:
  "(case get_ticket w k of None \<Rightarrow> Inl e | Some t \<Rightarrow> Inr (w, f t)) = Inr (w', r) \<Longrightarrow> w' = w"
  by (cases "get_ticket w k") simp_all

lemma audited_after:
  "tool_world now w w1 \<Longrightarrow> safe_world now w1 w2 \<Longrightarrow> tool_world now w (record_scrub_allows actor now' counts w2)"
  by (rule tool_world_after [OF tool_world_after record_scrub_allows_safe])

subsection \<open>Giving work back\<close>

lemma released_work_carried:
  assumes r: "reset_ticket_progress now r (w, t1) = ((w2, t2), ev)"
    and t1: "ticket_id t1 = ticket_id t" "status t1 = ''open''" "review_lease t1 = review_lease t" "offers t1 = offers t"
  shows "carried now w t w2 (t2\<lparr>work := no_work_lease\<rparr>)"
proof (rule carriedI)
  note q = reset_progress_quiet [OF r]
  show "tickets (brd w2) = tickets (brd w)" "cfg (brd w2) = cfg (brd w)" "board_ok w \<Longrightarrow> board_ok w2"
    using quiet_brd [OF q] by simp_all
  have e: "ticket_id t2 = ticket_id t" "review_lease t2 = review_lease t" "offers t2 = offers t"
    using q t1 by (simp_all add: quiet_def same_ticket_def same_record_def)
  then show "ticket_id (t2\<lparr>work := no_work_lease\<rparr>) = ticket_id t" by simp
  show "tidy (t2\<lparr>work := no_work_lease\<rparr>)" if "tidy t" using that e by (simp add: tidy_def)
  show "occupies t a now" if "occupies (t2\<lparr>work := no_work_lease\<rparr>) a now" for a
    by (rule occupies_fewer [OF _ _ _ that]) (simp_all add: e)
qed

lemma unclaim_contract:
  assumes "unclaim_with_actor w actor p tid now rel ren = Inr (w', r)"
  shows "tool_world now w w'"
proof -
  from assms obtain t where g: "get_ticket w tid = Some t" and ps: "pre_submission t"
    by (auto simp: unclaim_with_actor_def split: option.splits if_splits)
  obtain w2 t2 reset where rs: "reset_ticket_progress now ''unclaimed'' (w, release_work actor p now t)
      = ((w2, t2), reset)" by (metis surj_pair)
  from assms g ps rs obtain ev evs where
    d: "dispatch_and_requeue tid Work None now (put_ticket tid (t2\<lparr>work := no_work_lease\<rparr>) w2) = Inr (w', ev, evs)"
    by (auto simp: unclaim_with_actor_def split: if_splits option.splits)
  have st: "status t2 = ''open''"
    using reset_progress_quiet [OF rs] by (simp add: quiet_def same_ticket_def release_work_def)
  have "tool_world now w (put_ticket tid (t2\<lparr>work := no_work_lease\<rparr>) w2)"
  proof (rule tool_world_store [OF g released_work_carried [OF rs]])
    show "edge (review_policy (cfg (brd w))) t (t2\<lparr>work := no_work_lease\<rparr>)"
      using ps by (simp add: edge_def st pre_submission_def life_step.give_back)
  qed (simp_all add: release_work_def)
  from tool_world_after [OF this dispatch_and_requeue_safe [OF d]] show ?thesis .
qed

interpretation unclaim: prepared_tool "\<lambda>w a rel ren. unclaim_with_actor w a p tid now rel ren" now
  for p tid now
  by unfold_locales (rule unclaim_contract)

subsection \<open>Submission\<close>

lemma submitted_carried:
  assumes b: "brd w' = brd w" and t': "ticket_id t' = ticket_id t" "status t' = ''submitted''"
    "lease_expires_at_epoch (work t') = E_Null" "lease_expires_at (work t') = T_Null"
    "review_lease t' = review_lease t" "offers t' = offers t"
  shows "carried now w t w' t'"
proof (rule carriedI)
  show "board_ok w \<Longrightarrow> board_ok w'" using board_ok_cong [of w' w] b by simp
  show "tidy t'" if "tidy t" using that t' by (simp add: tidy_def tidy_work_def agreeing_def)
  show "occupies t a now" if "occupies t' a now" for a
  proof (rule occupies_fewer [OF _ _ _ that])
    have "\<not> pre_submission t'" "\<not> inactive_status t'"
      by (simp_all add: pre_submission_iff inactive_status_def TERMINAL_TICKET_STATES_def t')
    then show "work_commitment t a now" if "work_commitment t' a now" for a
      using that uncommitted_books_nobody by blast
  qed (simp_all add: t')
qed (simp_all add: b t')

lemma hand_off_safe: "safe_world now w (hand_off actor now' w)"
  unfolding hand_off_def by (rule modify_member_safe) simp

text \<open>The chain of a successful submission, for its contract and for what it records.\<close>

lemma submit_held_shape:
  assumes s: "submit_held w tid t actor p inp verified now rel ren = Inr (w', r)"
  obtains sub u w1 t1 w2 t2 reset w5 ev evs t6 where
    "append_bounded_history H_Submission (HE_Submission sub) (w, t\<lparr>model_usage := u\<rparr>) = (w1, t1)"
    "reset_ticket_progress now ''submitted'' (w1, store_submission sub now t1) = ((w2, t2), reset)"
    "dispatch_and_requeue tid Review None now
       (if si_stay_active inp then put_ticket tid (end_work_lease t2) w2
        else hand_off actor now (put_ticket tid (end_work_lease t2) w2)) = Inr (w5, ev, evs)"
    "w' = record_scrub_allows actor now (si_allow_counts inp) w5"
    "get_ticket w' tid = Some t6" "r = Done t6 (status t) ''submitted'' (rel @ option_list reset @ evs) ren ev"
    "s_branch sub = map_option fst verified" "s_commit_hash sub = map_option snd verified"
    "s_submitted_by_agent_id sub = agent_id actor"
proof -
  from s obtain usage where u: "model_usage_record (si_usage inp) ''worker'' actor (pr_id p) now = Inr usage"
    by (auto simp: submit_held_def Let_def split: if_splits)
  define out where "out = (case si_test_output inp of Some o' \<Rightarrow> Some o'
                 | None \<Rightarrow> Some (submission_test_output (si_notes inp)))"
  define sub where "sub = submission_of inp out verified usage actor p now"
  obtain w1 t1 where a: "append_bounded_history H_Submission (HE_Submission sub)
      (w, t\<lparr>model_usage := Some (append_model_usage usage (model_usage t))\<rparr>) = (w1, t1)" by fastforce
  obtain w2 t2 reset where rs: "reset_ticket_progress now ''submitted'' (w1, store_submission sub now t1)
      = ((w2, t2), reset)" by (metis surj_pair)
  define w4 where "w4 = (if si_stay_active inp then put_ticket tid (end_work_lease t2) w2
      else hand_off actor now (put_ticket tid (end_work_lease t2) w2))"
  from s u obtain w5 ev evs t6 where d: "dispatch_and_requeue tid Review None now w4 = Inr (w5, ev, evs)"
    and w': "w' = record_scrub_allows actor now (si_allow_counts inp) w5"
    and g6: "get_ticket w' tid = Some t6"
    and r: "r = Done t6 (status t) ''submitted'' (rel @ option_list reset @ evs) ren ev"
    by (auto simp: submit_held_def Let_def out_def [symmetric] sub_def [symmetric] a rs w4_def [symmetric]
        split: if_split_asm option.split_asm)
  show thesis
    by (rule that [OF a rs d [unfolded w4_def] w' g6 r]) (simp_all add: sub_def submission_of_def)
qed

lemma submit_held_contract:
  assumes s: "submit_held w tid t actor p inp verified now rel ren = Inr (w', r)"
    and g: "get_ticket w tid = Some t" and ps: "pre_submission t"
  shows "tool_world now w w'"
proof -
  obtain sub u w1 t1 w2 t2 reset w5 ev evs where
    a: "append_bounded_history H_Submission (HE_Submission sub) (w, t\<lparr>model_usage := u\<rparr>) = (w1, t1)"
    and rs: "reset_ticket_progress now ''submitted'' (w1, store_submission sub now t1) = ((w2, t2), reset)"
    and d: "dispatch_and_requeue tid Review None now
       (if si_stay_active inp then put_ticket tid (end_work_lease t2) w2
        else hand_off actor now (put_ticket tid (end_work_lease t2) w2)) = Inr (w5, ev, evs)"
    and w': "w' = record_scrub_allows actor now (si_allow_counts inp) w5"
    by (rule submit_held_shape [OF s])
  have fr: "brd w1 = brd w" "ticket_id t1 = ticket_id t" "review_lease t1 = review_lease t" "offers t1 = offers t"
    using append_bounded_frame [of H_Submission "HE_Submission sub" w "t\<lparr>model_usage := u\<rparr>"] by (simp_all add: a)
  have q: "quiet w1 (store_submission sub now t1) w2 t2" by (rule reset_progress_quiet [OF rs])
  have "carried now w t w2 (end_work_lease t2)"
    using q fr by (intro submitted_carried)
      (simp_all add: quiet_def same_ticket_def same_record_def end_work_lease_def store_submission_def)
  moreover have "edge (review_policy (cfg (brd w))) t (end_work_lease t2)"
    using q ps by (simp add: edge_def quiet_def same_ticket_def end_work_lease_def store_submission_def
        pre_submission_def life_step.submit)
  ultimately have "tool_world now w (put_ticket tid (end_work_lease t2) w2)"
    by (rule tool_world_store [OF g])
  moreover have "safe_world now (put_ticket tid (end_work_lease t2) w2) w5"
    using safe_world_trans [OF _ dispatch_and_requeue_safe [OF d]] hand_off_safe by simp
  ultimately show ?thesis unfolding w' by (rule audited_after)
qed

lemma submit_contract:
  assumes "submit_with_actor preflight w actor p tid inp now rel ren = Inr (w', r)"
  shows "tool_world now w w'"
proof -
  have "w' = w \<or> (\<exists>t v. get_ticket w tid = Some t \<and> pre_submission t \<and>
      submit_held w tid t actor p inp v now rel ren = Inr (w', r))"
    using assms by (auto simp: submit_with_actor_def split: option.split_asm if_split_asm)
  then show ?thesis using submit_held_contract safe_tool_world [OF safe_world_refl] by blast
qed

interpretation submission: prepared_tool "\<lambda>w a rel ren. submit_with_actor preflight w a p tid inp now rel ren" now
  for preflight p tid inp now
  by unfold_locales (rule submit_contract)

subsection \<open>Releasing a review\<close>

lemma review_release_contract:
  assumes "review_release_with_actor w actor p tid counts now rel ren = Inr (w', r)"
  shows "tool_world now w w'"
proof -
  obtain t where g: "get_ticket w tid = Some t"
    using assms by (auto simp: review_release_with_actor_def split: option.split_asm)
  define t1 where "t1 = t\<lparr>review_lease := RS_Absent,
      last_review_released_by_agent_id := Some (agent_id actor), updated_at := Some now\<rparr>"
  obtain w2 ev evs where d: "dispatch_and_requeue tid Review None now (put_ticket tid t1 w) = Inr (w2, ev, evs)"
    and w': "w' = record_scrub_allows actor now counts w2"
    using assms g
    by (auto simp: review_release_with_actor_def t1_def Let_def split: option.split_asm bool.split_asm if_split_asm)
  have "moved now w t w t1"
  proof (rule shrink_moved)
    show "occupies t a now" if "occupies t1 a now" for a
      by (rule occupies_without_review [OF _ _ _ _ that]) (simp_all add: t1_def)
  qed (simp_all add: t1_def lapse_defs)
  from moved_store [OF g this] have "safe_world now w (put_ticket tid t1 w)" .
  then show ?thesis
    unfolding w' by (intro audited_after [OF safe_tool_world dispatch_and_requeue_safe [OF d]])
qed

interpretation review_release: prepared_tool "\<lambda>w a rel ren. review_release_with_actor w a p tid counts now rel ren" now
  for p tid counts now
  by unfold_locales (rule review_release_contract)

end
