(* ===== verification/Verdict_Contract.thy ===== *)
theory Verdict_Contract
  imports Tool_Contracts
begin

section \<open>The verdict keeps the contracts\<close>

lemma review_offer_phase_moved:
  assumes "review_offer_phase w t actor now rel = Inr (w1, t1, evs, refusal)"
  shows "moved now w t w1 t1"
proof (cases "dispatch_enabled (brd w) \<and> \<not> review_lease_is_live t now")
  case False
  with assms show ?thesis by (auto simp: review_offer_phase_def)
next
  case True
  obtain w2 t2 e2 where d: "(if offers t Review = None \<and> \<not> is_broadcast t
                  then bindE (dispatch_ticket w t now Review None) (\<lambda>(w1, t1, ev).
                         Inr (w1, t1, rel @ option_list ev))
                  else Inr (w, t, rel)) = Inr (w2, t2, e2)"
    using assms True by (auto simp: review_offer_phase_def)
  have m: "moved now w t w2 t2"
  proof (cases "offers t Review = None \<and> \<not> is_broadcast t")
    case True
    with d obtain ev where "dispatch_ticket w t now Review None = Inr (w2, t2, ev)" by auto
    then show ?thesis using dispatched_moved [OF dispatch_ticket_dispatched] by blast
  next
    case False
    with d show ?thesis by auto
  qed
  define claimed where "claimed = t2\<lparr>dispatch_state := Some ((entry0 ''review_claimed'')
     \<lparr>d_kind := Some Review, d_agent_id := Some (agent_id actor), d_at := Some now\<rparr>)\<rparr>"
  have rest: "w1 = w2 \<and> t1 \<in> {t2, claimed, claimed\<lparr>offers := (offers t2)(Review := None)\<rparr>}"
    using assms True d by (auto simp: review_offer_phase_def Let_def claimed_def split: option.split_asm if_split_asm)
  have "moved now w2 t2 w2 t1"
  proof (rule shrink_moved)
    show "lapse t2 t1" "tidy t2 \<Longrightarrow> tidy t1" using rest by (auto simp: claimed_def lapse_defs)
    show "occupies t2 a now" if "occupies t1 a now" for a
      by (rule occupies_fewer [OF _ _ _ that])
        (use rest work_commitment_cong [of t1 t2] in \<open>auto simp: claimed_def split: if_split_asm\<close>)
  qed
  with m rest show ?thesis using moved_trans by blast
qed

lemma verdict_lease_fields:
  assumes "verdict_lease actor p now ttl t = Some (l, t', b)"
  shows "same_record t t'" "status t' = status t" "work t' = work t" "offers t' = offers t"
    "ticket_id t' = ticket_id t"
  using assms
  by (auto simp: verdict_lease_def claim_review_lease_def Let_def same_record_def split: if_splits option.splits prod.splits bool.splits)

lemma pause_workflow_frame:
  assumes "pause_workflow actor p now sha (w, t) = (w', t')"
  shows "tickets (brd w') = tickets (brd w)" "members (brd w') = members (brd w)" "cfg (brd w') = cfg (brd w)"
    "ticket_id t' = ticket_id t" "work t' = work t" "offers t' = offers t" "review_lease t' = review_lease t"
    "submitted_by_agent_id t' = submitted_by_agent_id t"
    "submitted_by_principal_id t' = submitted_by_principal_id t" "parked t'"
    "rejection_count t' = rejection_count t"
  using assms by (auto simp: pause_workflow_def allocate_annotation_id_def)

text \<open>The ticket a verdict puts back.\<close>

definition verdict_given :: "ticket \<Rightarrow> seat \<Rightarrow> principal \<Rightarrow> review_input \<Rightarrow> ticket \<Rightarrow> bool" where
  "verdict_given t actor p inp t' \<longleftrightarrow>
     ticket_id t' = ticket_id t \<and>
     status t' \<in> {''closed'', ''open'', ''rejected''} \<and> (status t' = ''closed'' \<longleftrightarrow> ri_verdict inp = ''approve'') \<and>
     review_lease t' = RS_Absent \<and> offers t' = (offers t)(Review := None) \<and>
     lease_expires_at_epoch (work t') \<in> {E_Null, lease_expires_at_epoch (work t)} \<and>
     lease_expires_at (work t') \<in> {T_Null, lease_expires_at (work t)} \<and>
     reviewed_by_agent_id t' = Some (agent_id actor) \<and>
     (\<exists>v. last_verdict t' = Some v \<and> vi_verdict v = ri_verdict inp \<and> vi_principal_id v = pr_id p) \<and>
     (ri_verdict inp = ''approve'' \<longrightarrow> submitted_by_agent_id t' = submitted_by_agent_id t \<and>
        submitted_by_principal_id t' = submitted_by_principal_id t)"

lemma give_verdict_shape:
  assumes "give_verdict digest w tid t actor p inp submitter now rel ren = Inr (w', r)"
  obtains w4 t5 w6 ev evs t7 evs7 where "tickets (brd w4) = tickets (brd w)" "members (brd w4) = members (brd w)"
    "cfg (brd w4) = cfg (brd w)" "verdict_given t actor p inp t5"
    "close_review tid (status t5) now w4 t5 = Inr (w6, ev, evs)"
    "w' = record_scrub_allows actor now (ri_allow_counts inp) w6"
    "status t5 = verdict_status (ri_verdict inp) (retryable_rejection t inp)"
    "parked t5 = (parked t \<or> workflow_pauses digest t inp)"
    "rejection_count t5 = rejection_count t + (if ri_verdict inp = ''reject'' then 1 else 0)"
    "get_ticket w' tid = Some t7" "r = Done t7 ''submitted'' (status t5) evs7 ren ev"
proof -
  define retryable where "retryable = retryable_rejection t inp"
  define st where "st = verdict_status (ri_verdict inp) retryable"
  define sha where "sha = snd (submission_identity (reviewed_evidence t))"
  define key where "key = feedback_key digest inp"
  define paused where "paused = workflow_pauses digest t inp"
  obtain w1 t1 where p1: "(if paused then pause_workflow actor p now sha (w, t) else (w, t)) = (w1, t1)"
    by fastforce
  obtain w2 t2 reset where p2: "reject_progress now (ri_verdict inp) (w1, t1\<lparr>status := st\<rparr>) = ((w2, t2), reset)"
    by (metis surj_pair)
  note unfolded = assms [unfolded give_verdict_def Let_def, folded retryable_def, folded st_def sha_def key_def,
      folded paused_def, unfolded p1 prod.case, unfolded p2 prod.case]
  from unfolded obtain label usage where
    b: "bindE (model_usage_record (ri_usage inp) ''reviewer'' actor (pr_id p) now) (\<lambda>usage.
           let entry = review_entry inp (brd w) t actor p submitter sha key retryable paused usage label now;
               t3 = (record_verdict entry now t2)
                      \<lparr>model_usage := Some (append_model_usage usage (model_usage t2))\<rparr>;
               (w4, t4) = append_bounded_history H_Review (HE_Review entry) (w2, t3);
               (t5, revoked) = end_review tid retryable now t4
           in bindE (close_review tid st now w4 t5) (\<lambda>(w6, ev, evs).
                let w7 = record_scrub_allows actor now (ri_allow_counts inp) w6 in
                case get_ticket w7 tid of
                  None \<Rightarrow> Inl (KeyError tid)
                | Some t7 \<Rightarrow>
                    Inr (w7, Done t7 ''submitted'' st
                           (rel @ option_list reset @ revoked @ evs) ren ev))) = Inr (w', r)"
    and u: "model_usage_record (ri_usage inp) ''reviewer'' actor (pr_id p) now = Inr usage"
    by (auto simp: Let_def)
  define entry where "entry = review_entry inp (brd w) t actor p submitter sha key retryable paused usage label now"
  define t3 where "t3 = (record_verdict entry now t2)\<lparr>model_usage := Some (append_model_usage usage (model_usage t2))\<rparr>"
  obtain w4 t4 where p4: "append_bounded_history H_Review (HE_Review entry) (w2, t3) = (w4, t4)" by fastforce
  obtain t5 revoked where p5: "end_review tid retryable now t4 = (t5, revoked)" by fastforce
  from b u obtain w6 ev evs t7 where c: "close_review tid st now w4 t5 = Inr (w6, ev, evs)"
    and w': "w' = record_scrub_allows actor now (ri_allow_counts inp) w6"
    and g7: "get_ticket w' tid = Some t7"
    and r7: "r = Done t7 ''submitted'' st (rel @ option_list reset @ revoked @ evs) ren ev"
    by (auto simp: Let_def entry_def [symmetric] t3_def [symmetric] p4 p5 split: option.split_asm)
  have f1: "tickets (brd w1) = tickets (brd w)" "members (brd w1) = members (brd w)" "cfg (brd w1) = cfg (brd w)"
    "ticket_id t1 = ticket_id t" "work t1 = work t" "offers t1 = offers t"
    "submitted_by_agent_id t1 = submitted_by_agent_id t" "submitted_by_principal_id t1 = submitted_by_principal_id t"
    "parked t1 = (parked t \<or> paused)" "rejection_count t1 = rejection_count t"
    using p1 pause_workflow_frame [of actor p now sha w t w1 t1] by (simp_all split: if_split_asm)
  have q: "brd w2 = brd w1 \<and> ticket_id t2 = ticket_id t1 \<and> (work t2 = work t1 \<or> work t2 = no_work_lease) \<and>
     offers t2 = offers t1 \<and> status t2 = st \<and> submitted_by_agent_id t2 = submitted_by_agent_id t1 \<and>
     submitted_by_principal_id t2 = submitted_by_principal_id t1 \<and> parked t2 = parked t1 \<and>
     rejection_count t2 = rejection_count t1 + (if ri_verdict inp = ''reject'' then 1 else 0)"
  proof (cases "ri_verdict inp = ''reject''")
    case True
    with p2 have "quiet w1 (t1\<lparr>status := st, rejection_count := rejection_count t1 + 1\<rparr>) w2 t2"
      by (intro reset_progress_quiet [of now "''review_rejected''" _ _ _ _ reset]) (simp add: reject_progress_def)
    then show ?thesis by (simp add: quiet_def same_ticket_def same_record_def True)
  next
    case False
    with p2 show ?thesis by (auto simp: reject_progress_def)
  qed
  have f4: "brd w4 = brd w2" "ticket_id t4 = ticket_id t3" "work t4 = work t3" "offers t4 = offers t3"
    "status t4 = status t3" "submitted_by_agent_id t4 = submitted_by_agent_id t3"
    "submitted_by_principal_id t4 = submitted_by_principal_id t3"
    "reviewed_by_agent_id t4 = reviewed_by_agent_id t3" "last_verdict t4 = last_verdict t3"
    "parked t4 = parked t3" "rejection_count t4 = rejection_count t3"
    using append_bounded_frame [of H_Review "HE_Review entry" w2 t3] by (simp_all add: p4)
  have t5: "t5 = (if retryable then release_executor (t4\<lparr>review_lease := RS_Absent, offers := (offers t4)(Review := None)\<rparr>)
      else t4\<lparr>review_lease := RS_Absent, offers := (offers t4)(Review := None)\<rparr>)\<lparr>updated_at := Some now\<rparr>"
    using p5 by (auto simp: end_review_def Let_def)
  have st: "st \<in> {''closed'', ''open'', ''rejected''}" "st = ''closed'' \<longleftrightarrow> ri_verdict inp = ''approve''"
    by (simp_all add: st_def verdict_status_def)
  have nr: "ri_verdict inp \<noteq> ''approve''" if retryable
    using that by (simp add: retryable_def retryable_rejection_def)
  have w5: "lease_expires_at_epoch (work t5) \<in> {E_Null, lease_expires_at_epoch (work t)} \<and>
      lease_expires_at (work t5) \<in> {T_Null, lease_expires_at (work t)}"
    using q f1(5) f4(3) by (auto simp: t5 release_executor_def t3_def record_verdict_def no_work_lease_def)
  have v: "verdict_given t actor p inp t5"
    unfolding verdict_given_def
  proof (intro conjI)
    show "lease_expires_at_epoch (work t5) \<in> {E_Null, lease_expires_at_epoch (work t)}"
      "lease_expires_at (work t5) \<in> {T_Null, lease_expires_at (work t)}" using w5 by simp_all
    show "status t5 \<in> {''closed'', ''open'', ''rejected''}" "status t5 = ''closed'' \<longleftrightarrow> ri_verdict inp = ''approve''"
      using st q f4(5) by (simp_all add: t5 release_executor_def t3_def record_verdict_def)
    show "ri_verdict inp = ''approve'' \<longrightarrow> submitted_by_agent_id t5 = submitted_by_agent_id t \<and>
        submitted_by_principal_id t5 = submitted_by_principal_id t"
      using nr q f1(7,8) f4(6,7) by (auto simp: t5 t3_def record_verdict_def)
    show "\<exists>v. last_verdict t5 = Some v \<and> vi_verdict v = ri_verdict inp \<and> vi_principal_id v = pr_id p"
      using f4(9) by (simp add: t5 release_executor_def t3_def record_verdict_def entry_def review_entry_def)
  qed (use q f1(4,6) f4(2,4,8) in \<open>simp_all add: t5 release_executor_def t3_def record_verdict_def entry_def review_entry_def\<close>)
  have s5: "status t5 = st" using q f4 by (simp add: t5 release_executor_def t3_def record_verdict_def)
  have pr: "parked t5 = (parked t \<or> paused)"
    "rejection_count t5 = rejection_count t + (if ri_verdict inp = ''reject'' then 1 else 0)"
    using f1(9,10) q f4(10,11) by (simp_all add: t5 release_executor_def t3_def record_verdict_def)
  have b4: "tickets (brd w4) = tickets (brd w)" "members (brd w4) = members (brd w)" "cfg (brd w4) = cfg (brd w)"
    using f1(1-3) q f4(1) by simp_all
  show thesis
    by (rule that [OF b4 v c [folded s5] w' s5 [unfolded st_def retryable_def] pr(1) [unfolded paused_def] pr(2)
          g7 r7 [folded s5]])
qed

lemma close_review_stores:
  assumes "close_review tid st now w t = Inr (w', ev, evs)"
  obtains d where "safe_world now (put_ticket tid (t\<lparr>dispatch_state := d\<rparr>) w) w'"
proof (cases "st = ''open''")
  case True
  with assms have "dispatch_and_requeue tid Work None now (put_ticket tid t w) = Inr (w', ev, evs)"
    by (simp add: close_review_def)
  then show thesis using that [of "dispatch_state t"] dispatch_and_requeue_safe by simp
next
  case False
  with assms obtain d where "redispatch_queue (put_ticket tid (t\<lparr>dispatch_state := d\<rparr>) w) now = Inr (w', evs)"
    using that [of "dispatch_state t"]
    by (cases "dispatch_enabled (brd w)") (auto simp: close_review_def Let_def redispatch_queue_safe)
  then show thesis using that redispatch_queue_safe by blast
qed

lemma verdict_given_dispatch_state:
  "verdict_given t actor p inp t' \<Longrightarrow> verdict_given t actor p inp (t'\<lparr>dispatch_state := d\<rparr>)"
  by (auto simp: verdict_given_def)

lemma verdict_carried:
  assumes v: "verdict_given t actor p inp t'" and st: "status t = ''submitted''"
    and b: "tickets (brd w') = tickets (brd w)" "members (brd w') = members (brd w)" "cfg (brd w') = cfg (brd w)"
    and eq: "ticket_id t = ticket_id t0" "work t = work t0" "offers t = offers t0" "status t = status t0"
  shows "carried now w t0 w' t'"
proof (rule carriedI)
  show "board_ok w \<Longrightarrow> board_ok w'" using board_ok_cong [of w' w] b by simp
  show "ticket_id t' = ticket_id t0" using v eq by (simp add: verdict_given_def)
  have nps: "\<not> pre_submission t'" "\<not> inactive_status t0" "\<not> pre_submission t0"
    using v st eq by (auto simp: verdict_given_def pre_submission_iff inactive_status_def TERMINAL_TICKET_STATES_def)
  have null: "lease_expires_at_epoch (work t') = E_Null \<and> lease_expires_at (work t') = T_Null" if "tidy t0"
    using tidy_times [OF that nps(2,3)] v eq by (auto simp: verdict_given_def)
  show "tidy t'" if "tidy t0"
    using null [OF that] v by (simp add: tidy_def tidy_work_def agreeing_def verdict_given_def)
  show "occupies t0 a now" if "tidy t0" "occupies t' a now" for a
  proof (rule occupies_fewer [OF _ _ _ that(2)])
    show "work_commitment t' a now \<Longrightarrow> work_commitment t0 a now" for a
      using settled_work_books_nobody [OF nps(1)] null [OF that(1)] v by (simp add: verdict_given_def)
  qed (use v eq in \<open>auto simp: verdict_given_def\<close>)
qed (use b in simp_all)

lemma validated_independence:
  assumes "validate_review_independence pol t (Some r) p = Inr (a, b)"
  shows "submitted_by_agent_id t = Some a" "submitted_by_principal_id t = Some b" "r \<noteq> a"
    "pol = ''strict'' \<Longrightarrow> pr_id p \<noteq> b"
  using assms by (auto simp: validate_review_independence_def truthy_def split: if_split_asm option.splits list.splits)

lemma verdict_edge:
  assumes v: "verdict_given t actor p inp t'" and st: "status t0 = ''submitted''"
    and same: "submitted_by_agent_id t = submitted_by_agent_id t0"
      "submitted_by_principal_id t = submitted_by_principal_id t0"
    and ind: "validate_review_independence pol t0 (Some (agent_id actor)) p = Inr (a, b)"
  shows "edge pol t0 t'"
proof -
  have "independent pol t'" if "status t' = ''closed''"
    using that v same validated_independence [OF ind] by (auto simp: verdict_given_def independent_def)
  moreover have "life_step (status t0) (status t')"
    using v st by (auto simp: verdict_given_def intro: life_step.intros)
  ultimately show ?thesis by (simp add: edge_def)
qed

lemma review_contract:
  assumes "review_with_actor digest w actor p tid inp now rel ren = Inr (w', r)"
  shows "tool_world now w w'"
proof -
  obtain t where g: "get_ticket w tid = Some t" and st: "status t = ''submitted''"
    using assms by (auto simp: review_with_actor_def split: option.split_asm if_split_asm)
  obtain a b where ind: "validate_review_independence (review_policy (cfg (brd w))) t (Some (agent_id actor)) p = Inr (a, b)"
    using assms g st by (auto simp: review_with_actor_def)
  obtain w1 t1 evs refusal where ph: "review_offer_phase w t actor now rel = Inr (w1, t1, evs, refusal)"
    and rest: "(case refusal of
              Some reason \<Rightarrow> Inr (put_ticket tid t1 w1, Failed reason evs)
            | None \<Rightarrow>
                (case verdict_lease actor p now (claim_ttl_s (cfg (brd w1))) t1 of
                   None \<Rightarrow> Inr (put_ticket tid t1 w1, Failed ''review lease is held by another reviewer'' evs)
                 | Some (l, t2, _) \<Rightarrow>
                     give_verdict digest w1 tid t2 actor p inp (a, b) now evs ren)) = Inr (w', r)"
    using assms g st ind by (auto simp: review_with_actor_def split: if_split_asm)
  have m: "moved now w t w1 t1" by (rule review_offer_phase_moved [OF ph])
  show ?thesis
  proof (cases "w' = put_ticket tid t1 w1")
    case True
    then show ?thesis using moved_store [OF g m] safe_tool_world by simp
  next
    case False
    with rest obtain l t2 c where vl: "verdict_lease actor p now (claim_ttl_s (cfg (brd w1))) t1 = Some (l, t2, c)"
      and gv: "give_verdict digest w1 tid t2 actor p inp (a, b) now evs ren = Inr (w', r)"
      by (auto split: option.split_asm)
    have s1: "status t1 = ''submitted''" "same_record t t1"
      using m st by (auto simp: moved_def lapse_def pre_submission_iff)
    note f2 = verdict_lease_fields [OF vl]
    obtain w4 t5 w6 ev more' where b4: "tickets (brd w4) = tickets (brd w1)" "members (brd w4) = members (brd w1)"
      "cfg (brd w4) = cfg (brd w1)" and v5: "verdict_given t2 actor p inp t5"
      and cr: "close_review tid (status t5) now w4 t5 = Inr (w6, ev, more')"
      and w': "w' = record_scrub_allows actor now (ri_allow_counts inp) w6"
      by (rule give_verdict_shape [OF gv])
    obtain d where s6: "safe_world now (put_ticket tid (t5\<lparr>dispatch_state := d\<rparr>) w4) w6"
      by (rule close_review_stores [OF cr])
    note v6 = verdict_given_dispatch_state [OF v5, of d]
    have "carried now w1 t1 w4 (t5\<lparr>dispatch_state := d\<rparr>)"
      by (rule verdict_carried [OF v6]) (simp_all add: f2 s1 b4)
    then have "carried now w t w4 (t5\<lparr>dispatch_state := d\<rparr>)"
      using moved_carried [OF m] carried_trans by blast
    moreover have "edge (review_policy (cfg (brd w))) t (t5\<lparr>dispatch_state := d\<rparr>)"
      using f2(1) s1(2) by (intro verdict_edge [OF v6 st _ _ ind]) (simp_all add: same_record_def)
    ultimately show ?thesis
      unfolding w' by (intro audited_after [OF tool_world_store [OF g] s6])
  qed
qed

interpretation review: prepared_tool "\<lambda>w a rel ren. review_with_actor digest w a p tid inp now rel ren" now
  for digest p tid inp now
  by unfold_locales (rule review_contract)

end
