(* ===== verification/Human_Contracts.thy ===== *)
theory Human_Contracts
  imports Verdict_Contract
begin

section \<open>Questions and answers keep the contracts\<close>

subsection \<open>Asking\<close>

text \<open>A question releases active work; what was not active work keeps its settled claim fields.\<close>

definition asked :: "ticket \<Rightarrow> ticket \<Rightarrow> bool" where
  "asked t t' \<longleftrightarrow>
     ticket_id t' = ticket_id t \<and> status t' = ''needs_human'' \<and> review_lease t' = RS_Absent \<and>
     (\<forall>k. offers t' k \<in> {offers t k, None}) \<and>
     (work t' = work t \<and> \<not> pre_submission t \<or> lease_expires_at_epoch (work t') = E_Null \<and> lease_expires_at (work t') = T_Null)"

lemma clear_work_lease_fields [simp]:
  "ticket_id (clear_work_lease now actor t) = ticket_id t"
  "offers (clear_work_lease now actor t) = offers t"
  "review_lease (clear_work_lease now actor t) = review_lease t"
  "work (clear_work_lease now actor t) = no_work_lease"
  by (simp_all add: clear_work_lease_def)

lemma release_for_human_frame:
  assumes "release_for_human now actor (w, t) = ((w', t'), ev)"
  shows "brd w' = brd w" "ticket_id t' = ticket_id t" "offers t' = offers t" "review_lease t' = review_lease t"
    "work t' = work t \<and> \<not> pre_submission t \<or> work t' = no_work_lease"
proof -
  have "brd w' = brd w \<and> ticket_id t' = ticket_id t \<and> offers t' = offers t \<and> review_lease t' = review_lease t \<and>
    (work t' = work t \<and> \<not> pre_submission t \<or> work t' = no_work_lease)"
  proof (cases "pre_submission t")
    case True
    obtain w1 t1 ev1 where r: "reset_ticket_progress now ''unclaimed'' (w, t) = ((w1, t1), ev1)"
      by (metis surj_pair)
    from reset_progress_quiet [OF r] assms True r show ?thesis
      by (auto simp: release_for_human_def quiet_def same_ticket_def same_record_def)
  qed (use assms in \<open>auto simp: release_for_human_def\<close>)
  then show "brd w' = brd w" "ticket_id t' = ticket_id t" "offers t' = offers t" "review_lease t' = review_lease t"
    "work t' = work t \<and> \<not> pre_submission t \<or> work t' = no_work_lease" by simp_all
qed

lemma asked_work_commitment:
  assumes a: "asked t t'" and td: "tidy t" and c: "work_commitment t' b now"
  shows "work_commitment t b now"
proof -
  have np: "\<not> pre_submission t'" "inactive_status t'" and r: "review_lease t' = RS_Absent"
    using a by (simp_all add: asked_def pre_submission_iff inactive_status_def)
  have "\<not> (lease_expires_at_epoch (work t') = E_Null \<and> lease_expires_at (work t') = T_Null)"
    using settled_work_books_nobody [OF np(1)] r c by blast
  with a have w: "work t' = work t" "\<not> pre_submission t" by (auto simp: asked_def)
  have "inactive_status t"
    using tidy_times [OF td _ w(2)] settled_work_books_nobody [OF np(1)] r c w by auto
  then show ?thesis
    using c np r w
    by (auto simp: work_commitment_def inactive_work_ownership_is_ambiguous_def has_work_lease_fields_def
        inactive_lifecycle_has_ambiguous_live_lease_def Let_def split: option.split_asm if_split_asm option.split)
qed

lemma asked_carried:
  assumes a: "asked t t'" and b: "brd w' = brd w"
  shows "carried now w t w' t'"
proof (rule carriedI)
  show "board_ok w \<Longrightarrow> board_ok w'" using board_ok_cong [of w' w] b by simp
  show "tidy t'" if "tidy t"
    using that a by (auto simp: asked_def tidy_def tidy_work_def agreeing_def)
  show "occupies t a now" if "tidy t" "occupies t' a now" for a
  proof (rule occupies_fewer [OF _ _ _ that(2)])
    show "work_commitment t a now" if "work_commitment t' a now" for a
      by (rule asked_work_commitment [OF a \<open>tidy t\<close> that])
  qed (use a in \<open>auto simp: asked_def\<close>)
qed (use a b in \<open>simp_all add: asked_def\<close>)

lemma ask_human_contract:
  assumes q: "ask_human w tid t actor p inp schema rid now rel ren = Inr (w', r)"
    and g: "get_ticket w tid = Some t" and st: "status t \<notin> set TERMINAL_TICKET_STATES"
  shows "tool_world now w w'"
proof -
  obtain w1 t1 reset where rl: "release_for_human now actor (w, t\<lparr>review_lease := RS_Absent\<rparr>) = ((w1, t1), reset)"
    by (metis surj_pair)
  obtain t2 revoked where rv: "revoke_offers ''human_input_requested'' [Work] t1 = (t2, revoked)" by fastforce
  define t3 where "t3 = put_question inp schema rid actor p now t2"
  from q obtain evs where
    d: "redispatch_queue (record_scrub_allows actor now (q_allow_counts inp) (put_ticket tid t3 w1)) now = Inr (w', evs)"
    by (auto simp: ask_human_def rl rv t3_def [symmetric] split: option.split_asm)
  have a: "asked t t3"
    using release_for_human_frame [OF rl] rv
    by (auto simp: asked_def t3_def put_question_def revoke_offers_def no_work_lease_def pre_submission_def
        split: if_split_asm)
  have "tool_world now w (put_ticket tid t3 w1)"
  proof (rule tool_world_store [OF g asked_carried [OF a]])
    show "edge (review_policy (cfg (brd w))) t t3"
      using a st by (simp add: asked_def edge_def life_step.ask)
  qed (rule release_for_human_frame [OF rl])
  then show ?thesis
    by (rule tool_world_after [OF _ safe_world_trans [OF record_scrub_allows_safe redispatch_queue_safe [OF d]]])
qed

lemma request_human_contract:
  assumes "request_human_with_actor rid schema w actor p tid inp now rel ren = Inr (w', r)"
  shows "tool_world now w w'"
proof -
  obtain t where "get_ticket w tid = Some t" "status t \<notin> set TERMINAL_TICKET_STATES"
    "ask_human w tid t actor p inp schema rid now rel ren = Inr (w', r)"
    using assms by (auto simp: request_human_with_actor_def split: option.split_asm if_split_asm)
  then show ?thesis using ask_human_contract by blast
qed

interpretation request: prepared_tool
  "\<lambda>w a rel ren. request_human_with_actor rid schema w a p tid inp now rel ren" now
  for rid schema p tid inp now
  by unfold_locales (rule request_human_contract)

subsection \<open>Answering\<close>

text \<open>An answer leaves the lease fields, the offers and the review alone.\<close>

definition answered :: "ticket \<Rightarrow> ticket \<Rightarrow> bool" where
  "answered t t' \<longleftrightarrow>
     ticket_id t' = ticket_id t \<and> work t' = work t \<and> offers t' = offers t \<and> review_lease t' = review_lease t \<and>
     status t' \<in> {''open'', ''canceled'', ''needs_human''}"

lemma answered_carried:
  assumes a: "answered t t'" and st: "status t = ''needs_human''"
  shows "carried now w t w t'"
proof (rule carriedI)
  show "tidy t'" if "tidy t"
    using that a st by (auto simp: answered_def tidy_def tidy_work_def TERMINAL_TICKET_STATES_def)
  show "occupies t b now" if "occupies t' b now" for b
  proof (rule occupies_fewer [OF _ _ _ that])
    have "inactive_status t'" "inactive_status t" "\<not> pre_submission t'"
      using a st by (auto simp: answered_def inactive_status_def TERMINAL_TICKET_STATES_def pre_submission_iff)
    moreover have "inactive_lifecycle_has_ambiguous_live_lease t' now = inactive_lifecycle_has_ambiguous_live_lease t now"
      using a unfolding answered_def inactive_lifecycle_has_ambiguous_live_lease_def by metis
    ultimately show "work_commitment t c now" if "work_commitment t' c now" for c
      using that a
      by (simp add: answered_def work_commitment_def inactive_work_ownership_is_ambiguous_def has_work_lease_fields_def)
  qed (use a in \<open>simp_all add: answered_def\<close>)
qed (use a in \<open>simp_all add: answered_def\<close>)

lemma answered_edge:
  "answered t t' \<Longrightarrow> status t = ''needs_human'' \<Longrightarrow> edge pol t t'"
  using life_step.cancel [of "''needs_human''"] life_step.answer
  by (auto simp: answered_def edge_def TERMINAL_TICKET_STATES_def)

lemma answered_updated: "answered t t' \<Longrightarrow> answered t (t'\<lparr>updated_at := u\<rparr>)"
  by (simp add: answered_def)

text \<open>The answer, then possibly the dispatch of the open ticket.\<close>

lemma apply_answer_moves:
  assumes "apply_answer dumps w t h inp actor p now = Inr (w2, t2, ev)"
    and st: "status t = ''needs_human''"
  obtains t1 where "answered t t1" "moved now w t1 w2 t2"
proof (cases "reopens inp")
  case True
  define t1 where "t1 = reopen_with_answer dumps inp h now (settle_question inp h p now t)"
  have "answered t t1"
    by (simp add: t1_def answered_def reopen_with_answer_def settle_question_def Let_def)
  moreover have "moved now w t1 w2 t2"
    using assms(1) True dispatched_moved [OF dispatch_ticket_dispatched]
    by (auto simp: apply_answer_def t1_def Let_def)
  ultimately show thesis using that by blast
next
  case False
  have "w2 = w \<and> answered t t2"
    using assms False
    by (auto simp: apply_answer_def Let_def answered_def settle_question_def cancel_by_answer_def split: if_split_asm)
  then show thesis using that by auto
qed

text \<open>Storing a ticket that moved along an edge and then only lapsed.\<close>

lemma tool_world_store_moved:
  assumes g: "get_ticket w key = Some t" and c: "carried now w t w t1"
    and e: "edge (review_policy (cfg (brd w))) t t1" and m: "moved now w t1 w2 t2"
  shows "tool_world now w (put_ticket key t2 w2)"
proof -
  have "kept_world now w (put_ticket key t2 w2)"
    by (rule carried_store [OF g carried_trans [OF c moved_carried [OF m]]])
  moreover have "board_edges w (put_ticket key t2 w2)"
    using g get_ticket_tickets [of w2 w] m tool_edge_lapse [OF lapse_refl edge_tool_edge [OF e]]
    by (auto simp: board_edges_def moved_def intro: lapse_tool_edge)
  ultimately show ?thesis by (simp add: tool_world_def)
qed

lemma human_resolve_contract:
  assumes "human_resolve_with_actor dumps scrub w actor p tid inp now rel ren = Inr (w', r)"
  shows "tool_world now w w'"
proof -
  obtain pm :: membership where c: "(if pm_role pm \<noteq> ''admin'' \<and> COORDINATOR_SCOPE \<notin> set (pr_scopes p)
       then Inl (PermissionError ''human resolution requires board admin or board:coordinate'')
       else case get_ticket w tid of
         None \<Rightarrow> Inl (ValueError ''ticket not found'')
       | Some t \<Rightarrow>
           (case answered_question t (an_request_id inp) of
              None \<Rightarrow> Inl (ValueError ''human request is not pending'')
            | Some h \<Rightarrow>
                bindE (case an_content inp of
                         None \<Rightarrow> Inr ()
                       | Some c \<Rightarrow> bindE (validate_human_answer c (h_requested_schema h)) (\<lambda>_. scrub c)) (\<lambda>_.
                bindE (apply_answer dumps w t h inp actor p now) (\<lambda>(w2, t2, ev).
                bindE (redispatch_queue (put_ticket tid (t2\<lparr>updated_at := Some now\<rparr>) w2) now) (\<lambda>(w3, more).
                  let w4 = record_scrub_allows actor now (an_allow_counts inp) w3 in
                  case get_ticket w4 tid of
                    None \<Rightarrow> Inl (KeyError tid)
                  | Some t4 \<Rightarrow>
                      Inr (w4, Done t4 ''needs_human'' (answered_status inp) (rel @ more) ren ev)))))) = Inr (w', r)"
    using assms unfolding human_resolve_with_actor_def bindE_eq_Inr by blast
  obtain t where g: "get_ticket w tid = Some t"
    using c by (cases "get_ticket w tid") (simp_all split: if_split_asm)
  obtain h where aq: "answered_question t (an_request_id inp) = Some h"
    using c by (cases "answered_question t (an_request_id inp)") (simp_all add: g split: if_split_asm)
  note b = bindE_skip [OF conjunct2 [OF c [unfolded if_raise g option.case aq]]]
  from b show ?thesis
  proof (elim bindE_Inr3E bindE_Inr2E, unfold Let_def)
    fix w2 t2 ev w3 evs
    assume ap: "apply_answer dumps w t h inp actor p now = Inr (w2, t2, ev)"
      and d: "redispatch_queue (put_ticket tid (t2\<lparr>updated_at := Some now\<rparr>) w2) now = Inr (w3, evs)"
      and e: "(case get_ticket (record_scrub_allows actor now (an_allow_counts inp) w3) tid of
           None \<Rightarrow> Inl (KeyError tid)
         | Some t4 \<Rightarrow> Inr (record_scrub_allows actor now (an_allow_counts inp) w3,
             Done t4 ''needs_human'' (answered_status inp) (rel @ evs) ren ev)) = Inr (w', r)"
    have st: "status t = ''needs_human''"
      using aq by (auto simp: answered_question_def split: option.split_asm if_split_asm)
    obtain t1 where a: "answered t t1" and m: "moved now w t1 w2 t2"
      by (rule apply_answer_moves [OF ap st])
    have u: "moved now w2 t2 w2 (t2\<lparr>updated_at := Some now\<rparr>)"
    proof (rule shrink_moved)
      show "occupies t2 a now" if "occupies (t2\<lparr>updated_at := Some now\<rparr>) a now" for a
        using that occupies_cong [of "t2\<lparr>updated_at := Some now\<rparr>" t2 a now] by simp
    qed (simp_all add: lapse_defs)
    have "tool_world now w (put_ticket tid (t2\<lparr>updated_at := Some now\<rparr>) w2)"
      by (rule tool_world_store_moved [OF g answered_carried [OF a st] answered_edge [OF a st] moved_trans [OF m u]])
    then show ?thesis
      unfolding finished_read [OF e] by (rule audited_after [OF _ redispatch_queue_safe [OF d]])
  qed
qed

interpretation resolve: prepared_tool
  "\<lambda>w a rel ren. human_resolve_with_actor dumps scrub w a p tid inp now rel ren" now
  for dumps scrub p tid inp now
  by unfold_locales (rule human_resolve_contract)

end
