(* ===== verification/Claim_Contracts.thy ===== *)
theory Claim_Contracts
  imports Human_Contracts Reaper_Properties
begin

section \<open>Claims, renewals and cancellation\<close>

text \<open>
  A claim by offer keeps seats exclusive; the operator's override and the claim on a board without
  dispatch promise only the rest.  \<open>tool_contract\<close> carries the difference as a flag.
\<close>

definition sound_world :: "world \<Rightarrow> world \<Rightarrow> bool" where
  "sound_world w w' \<longleftrightarrow>
     (board_ok w \<longrightarrow> board_ok w' \<and> cfg (brd w') = cfg (brd w) \<and>
        dkeys (tickets (brd w')) = dkeys (tickets (brd w)) \<and> (tidy_board w \<longrightarrow> tidy_board w')) \<and>
     board_edges w w'"

definition tool_contract :: "bool \<Rightarrow> time \<Rightarrow> world \<Rightarrow> world \<Rightarrow> bool" where
  "tool_contract ex now w w' \<longleftrightarrow> sound_world w w' \<and> (ex \<longrightarrow> tool_world now w w')"

lemma tool_world_contract: "tool_world now w w' \<Longrightarrow> tool_contract ex now w w'"
  by (auto simp: tool_contract_def tool_world_def sound_world_def kept_world_def)

lemma safe_contract: "safe_world now w w' \<Longrightarrow> tool_contract ex now w w'"
  by (simp add: tool_world_contract safe_tool_world)

lemma safe_sound: "safe_world now w w' \<Longrightarrow> sound_world w w'"
  using safe_contract [where ex = False] by (simp add: tool_contract_def)

lemma contract_vacuous: "\<not> board_ok w \<Longrightarrow> tool_contract ex now w w'"
  by (simp add: tool_contract_def sound_world_def tool_world_def kept_world_def board_edges_def)

lemma contract_around:
  assumes "safe_world now w w1" "tool_contract ex now w1 w2" "safe_world now w2 w3"
  shows "tool_contract ex now w w3"
proof -
  have e: "board_edges w w3"
    using assms board_edges_around [of now w w1 w2 w3] by (auto simp: tool_contract_def sound_world_def)
  then have "sound_world w w3"
    using assms unfolding tool_contract_def sound_world_def safe_world_def by auto
  moreover have "ex \<Longrightarrow> tool_world now w w3"
    using assms tool_world_around by (auto simp: tool_contract_def)
  ultimately show ?thesis by (simp add: tool_contract_def)
qed

lemma contract_store:
  assumes g: "get_ticket w key = Some t"
    and b: "tickets (brd w') = tickets (brd w)" "cfg (brd w') = cfg (brd w)" "board_ok w \<Longrightarrow> board_ok w'"
    and id: "ticket_id t' = ticket_id t" and td: "tidy t \<Longrightarrow> tidy t'"
    and e: "edge (review_policy (cfg (brd w))) t t'"
    and ex: "ex \<Longrightarrow> board_ok w \<Longrightarrow> tidy t \<Longrightarrow> safe_change now w t t'"
  shows "tool_contract ex now w (put_ticket key t' w')"
proof -
  have k: "ticket_id t' = key" if "board_ok w" using that g id by (simp add: board_ok_def)
  have m: "key \<in> set (dkeys (tickets (brd w)))"
    using g dget_in_keys [of "tickets (brd w)" key] by (simp add: get_ticket_def)
  have be: "board_edges w (put_ticket key t' w')" by (rule board_edges_store [OF g b(1) e])
  then have "sound_world w (put_ticket key t' w')"
    using b k m g td
    by (auto simp: sound_world_def tidy_board_def get_ticket_tickets [OF b(1)])
  moreover have "kept_world now w (put_ticket key t' w')" if ex
    using b k m g td ex [OF that] seats_exclusive_store [OF _ g _ _ b(1)]
    by (auto simp: kept_world_def tidy_board_def get_ticket_tickets [OF b(1)])
  ultimately show ?thesis using be by (simp add: tool_contract_def tool_world_def)
qed

subsection \<open>Taking work\<close>

lemma accept_offer_moved:
  assumes "accept_offer k st actor now (w, t, evs) = (w', t', evs')"
  shows "moved now w t w' t'" "brd w' = brd w"
proof -
  define h where "h = HE_Dispatch ((entry0 ''accepted'')
     \<lparr>d_kind := Some k, d_agent_id := Some (agent_id actor), d_at := Some now\<rparr>)"
  obtain w1 t1 where ab: "append_bounded_history H_Dispatch h (w, t\<lparr>offers := (offers t)(k := None)\<rparr>) = (w1, t1)"
    by fastforce
  have m1: "moved now w t w (t\<lparr>offers := (offers t)(k := None)\<rparr>)"
  proof (rule shrink_moved)
    show "occupies t a now" if "occupies (t\<lparr>offers := (offers t)(k := None)\<rparr>) a now" for a
      by (rule occupies_shrink [OF _ _ _ _ that]) simp_all
  qed (simp_all add: lapse_defs)
  have "moved now w t w' t' \<and> brd w' = brd w"
  proof (cases "offers t k")
    case None
    with assms have "w' = w" and t': "t' = t\<lparr>dispatch_state := dispatch_state t'\<rparr>"
      by (auto simp: accept_offer_def)
    moreover have "moved now w t w (t\<lparr>dispatch_state := d\<rparr>)" for d
      using occupies_cong [of "t\<lparr>dispatch_state := d\<rparr>" t] by (intro shrink_moved) (simp_all add: lapse_defs)
    ultimately show ?thesis by metis
  next
    case (Some off)
    with assms ab have "w' = w1" and t': "t' = t1\<lparr>dispatch_state := dispatch_state t'\<rparr>"
      by (auto simp: accept_offer_def h_def [symmetric])
    moreover have "moved now w1 t1 w1 (t1\<lparr>dispatch_state := d\<rparr>)" for d
      using occupies_cong [of "t1\<lparr>dispatch_state := d\<rparr>" t1] by (intro shrink_moved) (simp_all add: lapse_defs)
    moreover have "moved now w t w1 t1" "brd w1 = brd w"
      using moved_trans [OF m1 append_bounded_moved [OF ab]] append_bounded_frame [of H_Dispatch h w
          "t\<lparr>offers := (offers t)(k := None)\<rparr>"] by (simp_all add: ab)
    ultimately show ?thesis using moved_trans by metis
  qed
  then show "moved now w t w' t'" "brd w' = brd w" by simp_all
qed

lemma begin_attempt_quiet:
  assumes "begin_attempt now (w, t, evs) = (w', t', evs')"
  shows "quiet w t w' t'"
proof -
  obtain w1 t1 reset where r: "(if progress t \<noteq> None then reset_ticket_progress now ''unclaimed'' (w, t)
      else ((w, t), None)) = ((w1, t1), reset)" by (metis surj_pair)
  have "quiet w t w1 t1"
    using r reset_progress_quiet [of now "''unclaimed''" w t w1 t1 reset] by (auto split: if_split_asm)
  moreover have "quiet w1 t1 w1 (t1\<lparr>work_attempt := n\<rparr>)" for n
    by (simp add: quiet_def same_ticket_def same_record_def)
  ultimately show ?thesis
    using assms r quiet_trans by (auto simp: begin_attempt_def Let_def split: if_split_asm)
qed

lemma dvalues_get: "board_ok w \<Longrightarrow> c \<in> set (dvalues (tickets (brd w))) \<Longrightarrow> \<exists>k. get_ticket w k = Some c"
  using dict_ok_lookup by (fastforce simp: board_ok_def dvalues_def get_ticket_def)

text \<open>Touching the actor only renews leases: no seat is taken, and an idle ticket is not changed.\<close>

definition only_renews :: "time \<Rightarrow> (ticket \<Rightarrow> ticket) \<Rightarrow> bool" where
  "only_renews now f \<longleftrightarrow>
     (\<forall>t a. occupies (f t) a now = occupies t a now) \<and>
     (\<forall>t. same_record t (f t) \<and> status (f t) = status t \<and> review_lease (f t) = review_lease t \<and>
        offers (f t) = offers t \<and> claimed_by_agent_id (work (f t)) = claimed_by_agent_id (work t)) \<and>
     (\<forall>t. \<not> pre_submission t \<longrightarrow> f t = t)"

lemma only_renews_id [simp]: "only_renews now (\<lambda>t. t)"
  by (simp add: only_renews_def)

lemma only_renews_claims:
  assumes "\<And>t. P t \<Longrightarrow> pre_submission t"
  shows "only_renews now (\<lambda>t. if P t then renew_claim now ttl src t else t)"
  unfolding only_renews_def
proof (intro conjI allI impI)
  show "occupies (if P t then renew_claim now ttl src t else t) a now = occupies t a now" for t a
  proof (cases "P t")
    case True
    then have "occupies (renew_claim now ttl src t) a now = occupies t a now"
      using assms by (intro occupies_active_cong) simp_all
    with True show ?thesis by simp
  qed simp
qed (use assms in auto)

lemma touch_unless_effect:
  assumes "touch_unless co actor now w = (w', renewed)"
  obtains f where "safe_world now w w'" "cfg (brd w') = cfg (brd w)"
    "get_ticket w' = (\<lambda>k. map_option f (get_ticket w k))" "only_renews now f"
proof (cases co)
  case True
  with assms that [of "\<lambda>t. t"] show thesis by (auto simp: touch_unless_def option.map_ident)
next
  case False
  then obtain a' where t: "touch_actor w actor now = (w', a', renewed)"
    using assms by (auto simp: touch_unless_def split: prod.split_asm)
  show thesis
    by (rule that [OF touch_actor_effect(1,3) [OF t] ext, OF touch_actor_effect(5) [OF t]])
      (rule only_renews_claims, simp add: holds_work_def)
qed

lemma free_after_touch:
  assumes t: "touch_unless co actor now (put_ticket tid t1 w1) = (w2, renewed)"
    and fr: "free_elsewhere w tid now a" and tk: "tickets (brd w1) = tickets (brd w)"
    and ok: "board_ok w2" "board_ok w" and id: "ticket_id t1 = tid"
  shows "free_elsewhere w2 tid now a"
  unfolding free_elsewhere_def
proof (intro ballI impI)
  fix c assume c: "c \<in> set (dvalues (tickets (brd w2)))" "ticket_id c \<noteq> tid"
  obtain k where k: "get_ticket w2 k = Some c" using dvalues_get [OF ok(1) c(1)] by blast
  obtain f where f: "get_ticket w2 = (\<lambda>k. map_option f (get_ticket (put_ticket tid t1 w1) k))" "only_renews now f"
    by (rule touch_unless_effect [OF t])
  from f(1) k obtain t0 where
    t0: "get_ticket (put_ticket tid t1 w1) k = Some t0" "c = f t0" by auto
  then have f: "occupies c a now = occupies t0 a now" "ticket_id c = ticket_id t0"
    using f(2) by (auto simp: only_renews_def same_record_def)
  with c(2) id t0 have "k \<noteq> tid" "get_ticket w k = Some t0"
    using get_ticket_tickets [OF tk] by (auto split: if_split_asm)
  then have "t0 \<in> set (dvalues (tickets (brd w)))" using get_ticket_value by blast
  with fr c(2) f show "\<not> occupies c a now" by (simp add: free_elsewhere_def)
qed

lemma taken_occupies:
  assumes t': "status t' \<in> set PRE_SUBMISSION_STATES" "claimed_by_agent_id (work t') = Some a"
    "review_lease t' = review_lease t" "offers t' = offers t" and o: "occupies t' b now"
  shows "occupies t b now \<or> b = a"
  using o t' by (auto simp: occupies_def work_commitment_def pre_submission_iff review_commitment_def
      offer_commitment_def inactive_work_ownership_is_ambiguous_def)

lemma finished_reply: "claim_reply w tid old new rel ren = Inr (w', r) \<Longrightarrow> w' = w"
  by (cases "get_ticket w tid") (simp_all add: claim_reply_def)

lemma claim_open_contract:
  assumes c: "claim_open w tid t actor p now co rel = Inr (w', r)"
    and g: "get_ticket w tid = Some t" and st: "status t = ''open''"
    and ex: "ex \<Longrightarrow> free_elsewhere w (ticket_id t) now (agent_id actor)"
  shows "tool_contract ex now w w'"
proof (cases "board_ok w")
  case ok: True
  obtain w1 t1 evs1 where a: "(if dispatch_enabled (brd w) then accept_offer Work ''claimed'' actor now (w, t, rel)
      else (w, t, rel)) = (w1, t1, evs1)" by (metis prod_cases3)
  have m1: "moved now w t w1 t1" "brd w1 = brd w"
    using a accept_offer_moved [of Work "''claimed''" actor now w t rel w1 t1 evs1] by (auto split: if_split_asm)
  obtain w2 renewed where tc: "touch_unless co actor now (put_ticket tid t1 w1) = (w2, renewed)" by fastforce
  have st1: "status t1 = ''open''" "ticket_id t1 = ticket_id t" "\<not> pre_submission t1"
    using m1 st by (auto simp: moved_def lapse_def same_record_def pre_submission_iff)
  obtain f where sf: "safe_world now (put_ticket tid t1 w1) w2"
    and f: "get_ticket w2 = (\<lambda>k. map_option f (get_ticket (put_ticket tid t1 w1) k))" "only_renews now f"
    by (rule touch_unless_effect [OF tc])
  have g2: "get_ticket w2 tid = Some t1"
    using f st1(3) by (simp add: only_renews_def)
  obtain w3 t3 evs3 where b: "begin_attempt now (w2, t1, evs1) = (w3, t3, evs3)" by (metis prod_cases3)
  note q = begin_attempt_quiet [OF b]
  define t4 where "t4 = take_work actor p now (claim_ttl_s (cfg (brd w3))) t3"
  have w': "w' = modify_member (agent_id actor) (\<lambda>m. m\<lparr>last_work_at := Some now\<rparr>) (put_ticket tid t4 w3)"
    using c by (auto simp: claim_open_def a tc g2 b t4_def dest: finished_reply)
  have t4: "ticket_id t4 = ticket_id t1" "status t4 = ''claimed''" "claimed_by_agent_id (work t4) = Some (agent_id actor)"
    "review_lease t4 = review_lease t1" "offers t4 = offers t1"
    "lease_expires_at_epoch (work t4) = E_Num (now + secs (claim_ttl_s (cfg (brd w3))))"
    "lease_expires_at (work t4) = T_Instant (now + secs (claim_ttl_s (cfg (brd w3))))"
    using q by (simp_all add: t4_def take_work_def quiet_def same_ticket_def same_record_def)
  have s1: "safe_world now w w2"
    by (rule safe_world_trans [OF moved_store [OF g m1(1)] sf])
  have "tool_contract ex now w2 (put_ticket tid t4 w3)"
  proof (rule contract_store [OF g2])
    show "tickets (brd w3) = tickets (brd w2)" "cfg (brd w3) = cfg (brd w2)" "board_ok w2 \<Longrightarrow> board_ok w3"
      using quiet_brd [OF q] by simp_all
    show "ticket_id t4 = ticket_id t1" by (rule t4(1))
    show "tidy t4" if "tidy t1" using that t4 by (simp add: tidy_def tidy_work_def agreeing_def PRE_SUBMISSION_STATES_def)
    show "edge (review_policy (cfg (brd w2))) t1 t4" using t4 st1 by (simp add: edge_def life_step.claim)
    show "safe_change now w2 t1 t4" if ex "board_ok w2" "tidy t1"
    proof -
      have "ticket_id t = tid" using g ok by (simp add: board_ok_def)
      then have "free_elsewhere w2 (ticket_id t1) now (agent_id actor)"
        using free_after_touch [OF tc _ _ that(2) ok] ex [OF that(1)] m1(2) st1(2) by simp
      then show ?thesis
        using taken_occupies [of t4 "agent_id actor" t1 _ now] t4
        by (auto simp: safe_change_def PRE_SUBMISSION_STATES_def)
    qed
  qed
  moreover have "safe_world now (put_ticket tid t4 w3) w'"
    unfolding w' by (rule modify_member_safe) simp
  ultimately show ?thesis by (rule contract_around [OF s1])
qed (rule contract_vacuous)

lemma start_claimed_contract:
  assumes c: "start_claimed w tid t actor p now co rel = Inr (w', r)"
    and g: "get_ticket w tid = Some t" and st: "status t = ''claimed''"
  shows "tool_contract ex now w w'"
proof -
  obtain w1 renewed where tc: "touch_unless co actor now w = (w1, renewed)" by fastforce
  have holder: "claimed_by_agent_id (work t) = Some (agent_id actor)"
    using c by (auto simp: start_claimed_def split: if_split_asm)
  obtain f where sf: "safe_world now w w1" and cf: "cfg (brd w1) = cfg (brd w)"
    and f: "get_ticket w1 = (\<lambda>k. map_option f (get_ticket w k))" "only_renews now f"
    by (rule touch_unless_effect [OF tc])
  let ?ttl = "claim_ttl_s (cfg (brd w1))"
  define t2 where "t2 = renew_claim now ?ttl ''model'' ((f t)\<lparr>status := ''in_progress'', updated_at := Some now\<rparr>)"
  have g1: "get_ticket w1 tid = Some (f t)" using f(1) g by simp
  have w': "w' = put_ticket tid t2 w1"
    using c holder tc g1 by (auto simp: start_claimed_def modify_ticket_def t2_def dest: finished_reply split: if_split_asm)
  have ft: "status (f t) = ''claimed''" using f(2) st by (simp add: only_renews_def)
  have "tool_contract ex now w1 (put_ticket tid t2 w1)"
  proof (rule contract_store [OF g1])
    show "tidy t2" if "tidy (f t)"
      using that by (simp add: t2_def tidy_def tidy_work_def agreeing_def PRE_SUBMISSION_STATES_def)
    show "edge (review_policy (cfg (brd w1))) (f t) t2"
      using ft by (simp add: edge_def t2_def life_step.start)
    have "occupies t2 a now = occupies (f t) a now" for a
      by (rule occupies_active_cong) (simp_all add: t2_def pre_submission_iff ft)
    then show "safe_change now w1 (f t) t2" by (simp add: safe_change_def t2_def)
  qed (simp_all add: t2_def)
  then show ?thesis unfolding w' by (rule contract_around [OF sf _ safe_world_refl])
qed

definition claims_by_offer :: "world \<Rightarrow> principal \<Rightarrow> bool" where
  "claims_by_offer w p \<longleftrightarrow> dispatch_enabled (brd w) \<and> claim_gate_bypass (brd w) p = Inr False"

lemma offered_gate_free:
  assumes "offered_claim_gate w t actor now False = Inr None"
  shows "free_elsewhere w (ticket_id t) now (agent_id actor)"
proof -
  from assms have "dispatch_candidate_is_eligible w t actor now Work = Inr True"
    by (auto simp: offered_claim_gate_def Let_def split: if_split_asm)
  then show ?thesis using agent_not_busy_free by (simp add: eligible_iff)
qed

lemma claim_contract:
  assumes c: "claim_with_actor w actor p tid now co rel = Inr (w', r)"
    and ex: "ex \<Longrightarrow> claims_by_offer w p"
  shows "tool_contract ex now w w'"
proof -
  obtain t where g: "get_ticket w tid = Some t"
    using c by (auto simp: claim_with_actor_def split: option.split_asm)
  obtain ov where ov: "claim_gate_bypass (brd w) p = Inr ov"
    using c g by (auto simp: claim_with_actor_def split: if_split_asm)
  show ?thesis
  proof (cases "status t = ''claimed''")
    case True
    with c g ov have "start_claimed w tid t actor p now co rel = Inr (w', r)"
      by (simp add: claim_with_actor_def)
    from start_claimed_contract [OF this g True] show ?thesis .
  next
    case False
    with c g ov have st: "status t = ''open''" by (auto simp: claim_with_actor_def split: if_split_asm)
    show ?thesis
    proof (cases "w' = w")
      case True
      then show ?thesis using safe_contract [OF safe_world_refl] by simp
    next
      case False
      with c g ov st have gate: "(if dispatch_enabled (brd w) then offered_claim_gate w t actor now ov
              else assigned_claim_gate w t actor now ov) = Inr None"
        and o: "claim_open w tid t actor p now co rel = Inr (w', r)"
        by (auto simp: claim_with_actor_def simp flip: not_Some_eq split: if_split_asm option.split_asm prod.split_asm)
      have "free_elsewhere w (ticket_id t) now (agent_id actor)" if ex
        using ex [OF that] gate ov offered_gate_free by (simp add: claims_by_offer_def)
      then show ?thesis by (rule claim_open_contract [OF o g st])
    qed
  qed
qed

lemma claim_preamble_safe:
  assumes "claim_preamble aid_of w p name now = Inr (w', actor, co, rel)"
  shows "safe_world now w w'"
proof -
  from assms obtain w1 where r: "reap_expired w now False = Inr (w1, rel)"
    and l: "(if co then coordinator_actor aid_of w1 p name else resolve_active_actor aid_of w1 p name) = Inr (w', actor)"
    by (auto simp: claim_preamble_def)
  have "lookup_member aid_of w1 p name = Inr (w', actor)"
    using l coordinator_actor_lookup resolve_active_actor_lookup by (auto split: if_split_asm)
  from safe_world_trans [OF reap_expired_safe [OF r] lookup_member_effect(1) [OF this]] show ?thesis .
qed

text \<open>Whether the claim, once the seat is resolved, goes by offer.\<close>

definition offered_claim ::
  "(string \<Rightarrow> string \<Rightarrow> string \<Rightarrow> string) \<Rightarrow> world \<Rightarrow> principal \<Rightarrow> string \<Rightarrow> time \<Rightarrow> bool" where
  "offered_claim aid_of w p name now \<longleftrightarrow>
     (case claim_preamble aid_of w p name now of Inl _ \<Rightarrow> True | Inr (w1, _) \<Rightarrow> claims_by_offer w1 p)"

lemma ticket_claim_contract:
  assumes "ticket_claim aid_of w p name tid now = Inr (w', r)"
  shows "tool_contract (offered_claim aid_of w p name now) now w w'"
proof -
  from assms obtain w1 actor co rel where pre: "claim_preamble aid_of w p name now = Inr (w1, actor, co, rel)"
    and c: "claim_with_actor w1 actor p tid now co rel = Inr (w', r)"
    by (auto simp: ticket_claim_def)
  have "tool_contract (offered_claim aid_of w p name now) now w1 w'"
    by (rule claim_contract [OF c]) (simp add: offered_claim_def pre)
  then show ?thesis by (rule contract_around [OF claim_preamble_safe [OF pre] _ safe_world_refl])
qed

subsection \<open>Reserving a review\<close>

lemma retire_safe: "safe_world now w (fst (retire_nonreviewable_review_offers w now))"
  using retire.sweep_safe [of now "dkeys (tickets (brd w))" "(w, [])"]
  by (simp add: retire_nonreviewable_review_offers_def foldE_Inr)

lemma review_claim_preamble_safe:
  assumes "review_claim_preamble aid_of w p name now = Inr (w', actor, co, rel)"
  shows "safe_world now w w'"
proof -
  from assms obtain w1 rel1 where r: "reap_expired w now False = Inr (w1, rel1)"
    unfolding review_claim_preamble_def bindE_eq_Inr by force
  obtain w2 ret where q: "retire_nonreviewable_review_offers w1 now = (w2, ret)" by fastforce
  from assms r q have l: "(if co then coordinator_actor aid_of w2 p name else resolve_active_actor aid_of w2 p name) = Inr (w', actor)"
    by (auto simp: review_claim_preamble_def)
  have "lookup_member aid_of w2 p name = Inr (w', actor)"
    using l coordinator_actor_lookup resolve_active_actor_lookup by (auto split: if_split_asm)
  from safe_world_trans [OF safe_world_trans [OF reap_expired_safe [OF r]] lookup_member_effect(1) [OF this]]
    retire_safe [of now w1] q show ?thesis by simp
qed

lemma renewed_review_fields:
  "reviewer_agent_id (renew_review_lease now ttl src l) = reviewer_agent_id l"
  "reviewer_principal_id (renew_review_lease now ttl src l) = reviewer_principal_id l"
  "expires_at_epoch (renew_review_lease now ttl src l) = Some (E_Num (now + secs ttl))"
  "expires_at (renew_review_lease now ttl src l) = T_Instant (now + secs ttl)"
  by (simp_all add: renew_review_lease_def Let_def case_prod_unfold)

text \<open>A submitted ticket with another review lease occupies the new reviewer at most in addition.\<close>

lemma reviewed_occupies:
  assumes "status t' = ''submitted''" "review_lease t' = RS_Lease l" "\<And>k. offers t' k \<in> {offers t k, None}"
    and o: "occupies t' b now"
  shows "occupies t b now \<or> reviewer_agent_id l = Some b"
proof -
  have "\<not> work_commitment t' b now"
    by (rule uncommitted_books_nobody)
      (simp_all add: assms(1) pre_submission_iff inactive_status_def TERMINAL_TICKET_STATES_def)
  moreover have "offer_commitment t' b now k \<Longrightarrow> offer_commitment t b now k" for k
    using assms(3) [of k] by (auto simp: offer_commitment_def)
  moreover have "review_commitment t' b now = Inr True \<Longrightarrow> reviewer_agent_id l = Some b"
    using assms(2) by (auto simp: review_commitment_def split: if_split_asm)
  ultimately show ?thesis using o by (auto simp: occupies_def)
qed

lemma live_review_occupies:
  assumes l: "review_lease t = RS_Lease l" "reviewer_agent_id l = Some b" and live: "review_lease_is_live t now"
  shows "occupies t b now"
  using assms by (auto simp: occupies_def review_commitment_def review_lease_is_live_def split: option.splits sum.splits)

lemma review_renewed_contract:
  assumes g: "get_ticket w tid = Some t" and st: "status t = ''submitted''"
    and l: "review_lease t = RS_Lease l" and live: "tidy t \<Longrightarrow> review_lease_is_live t now"
    and t': "t' = t\<lparr>review_lease := RS_Lease (renew_review_lease now ttl src l), updated_at := Some now\<rparr>"
  shows "tool_contract ex now w (put_ticket tid t' w)"
proof (rule contract_store [OF g])
  show "tidy t'" if "tidy t" using that by (simp add: t' tidy_def tidy_review_def renewed_review_fields)
  show "edge (review_policy (cfg (brd w))) t t'" by (simp add: t' edge_def same_record_def)
  show "safe_change now w t t'" if "tidy t"
  proof (rule safe_change_shrink)
    show "occupies t a now" if "occupies t' a now" for a
      using reviewed_occupies [OF _ _ _ that, of "renew_review_lease now ttl src l" t] st
        live_review_occupies [OF l _ live [OF \<open>tidy t\<close>]] by (auto simp: t' renewed_review_fields)
  qed (simp add: t')
qed (simp_all add: t')

lemma claim_new_review_contract:
  assumes c: "claim_new_review w tid t actor p now co rel = Inr (w', r)"
    and g: "get_ticket w tid = Some t" and st: "status t = ''submitted''"
    and ex: "ex \<Longrightarrow> free_elsewhere w (ticket_id t) now (agent_id actor)"
  shows "tool_contract ex now w w'"
proof (cases "board_ok w")
  case ok: True
  obtain w1 t1 evs1 where a: "(if dispatch_enabled (brd w) then accept_offer Review ''review_claimed'' actor now (w, t, rel)
      else (w, t, rel)) = (w1, t1, evs1)" by (metis prod_cases3)
  have m1: "moved now w t w1 t1" "brd w1 = brd w"
    using a accept_offer_moved [of Review "''review_claimed''" actor now w t rel w1 t1 evs1] by (auto split: if_split_asm)
  obtain w2 renewed where tc: "touch_unless co actor now (put_ticket tid t1 w1) = (w2, renewed)" by fastforce
  have st1: "status t1 = ''submitted''" "ticket_id t1 = ticket_id t" "\<not> pre_submission t1"
    using m1 st by (auto simp: moved_def lapse_def same_record_def pre_submission_iff)
  obtain f where sf: "safe_world now (put_ticket tid t1 w1) w2"
    and f: "get_ticket w2 = (\<lambda>k. map_option f (get_ticket (put_ticket tid t1 w1) k))" "only_renews now f"
    by (rule touch_unless_effect [OF tc])
  have g2: "get_ticket w2 tid = Some t1" using f st1(3) by (simp add: only_renews_def)
  obtain l t2 where cl: "claim_review_lease actor p now (claim_ttl_s (cfg (brd w2))) t1 = (l, t2)" by fastforce
  have w': "w' = modify_member (agent_id actor) (\<lambda>m. m\<lparr>last_work_at := Some now\<rparr>) (put_ticket tid t2 w2)"
    using c by (auto simp: claim_new_review_def a tc cl)
  have t2: "t2 = t1\<lparr>review_lease := RS_Lease l, updated_at := Some now\<rparr>" "reviewer_agent_id l = Some (agent_id actor)"
    "\<exists>n. expires_at_epoch l = Some (E_Num n) \<and> expires_at l = T_Instant n"
    using cl by (auto simp: claim_review_lease_def Let_def renewed_review_fields)
  have s1: "safe_world now w w2"
    by (rule safe_world_trans [OF moved_store [OF g m1(1)] sf])
  have "tool_contract ex now w2 (put_ticket tid t2 w2)"
  proof (rule contract_store [OF g2])
    show "tidy t2" if "tidy t1" using that t2 by (simp add: tidy_def tidy_review_def)
    show "edge (review_policy (cfg (brd w2))) t1 t2" by (simp add: t2(1) edge_def same_record_def)
    show "safe_change now w2 t1 t2" if ex "board_ok w2" "tidy t1"
    proof -
      have "ticket_id t = tid" using g ok by (simp add: board_ok_def)
      then have "free_elsewhere w2 (ticket_id t1) now (agent_id actor)"
        using free_after_touch [OF tc _ _ that(2) ok] ex [OF that(1)] m1(2) st1(2) by simp
      then show ?thesis
        using reviewed_occupies [of t2 l t1 _ now] t2(2) st1 by (auto simp: safe_change_def t2(1))
    qed
  qed (simp_all add: t2)
  moreover have "safe_world now (put_ticket tid t2 w2) w'"
    unfolding w' by (rule modify_member_safe) simp
  ultimately show ?thesis by (rule contract_around [OF s1])
qed (rule contract_vacuous)

lemma claim_live_review_contract:
  assumes c: "claim_live_review w tid t l actor p now co rel = Inr (w', r)"
    and g: "get_ticket w tid = Some t" and st: "status t = ''submitted''"
    and l: "review_lease t = RS_Lease l" and live: "review_lease_is_live t now"
  shows "tool_contract ex now w w'"
proof (cases "w' = w")
  case True
  then show ?thesis using safe_contract [OF safe_world_refl] by simp
next
  case False
  obtain w1 renewed where tc: "touch_unless co actor now w = (w1, renewed)" by fastforce
  obtain f where sf: "safe_world now w w1"
    and f: "get_ticket w1 = (\<lambda>k. map_option f (get_ticket w k))" "only_renews now f"
    by (rule touch_unless_effect [OF tc])
  have "\<not> pre_submission t" using st by (simp add: pre_submission_iff)
  then have g1: "get_ticket w1 tid = Some t" using f g by (simp add: only_renews_def)
  let ?t = "t\<lparr>review_lease := RS_Lease (renew_review_lease now (claim_ttl_s (cfg (brd w1))) ''model'' l), updated_at := Some now\<rparr>"
  have w': "w' = put_ticket tid ?t w1"
    using c False tc by (auto simp: claim_live_review_def Let_def split: if_split_asm)
  show ?thesis
    unfolding w'
    by (rule contract_around [OF sf review_renewed_contract [OF g1 st l live] safe_world_refl]) simp_all
qed

lemma review_gate_free:
  assumes "review_offer_gate w t actor now False = Inr None"
  shows "free_elsewhere w (ticket_id t) now (agent_id actor)"
proof -
  from assms have "dispatch_candidate_is_eligible w t actor now Review = Inr True"
    by (auto simp: review_offer_gate_def split: if_split_asm)
  then show ?thesis using agent_not_busy_free by (simp add: eligible_iff)
qed

lemma review_claim_contract:
  assumes c: "review_claim_with_actor w actor p tid now co rel = Inr (w', r)"
    and ex: "ex \<Longrightarrow> claims_by_offer w p"
  shows "tool_contract ex now w w'"
proof -
  obtain t where g: "get_ticket w tid = Some t" and st: "status t = ''submitted''"
    using c by (auto simp: review_claim_with_actor_def split: option.split_asm if_split_asm)
  obtain ov where ov: "claim_gate_bypass (brd w) p = Inr ov"
    using c g st by (auto simp: review_claim_with_actor_def)
  show ?thesis
  proof (cases "w' = w")
    case True
    then show ?thesis using safe_contract [OF safe_world_refl] by simp
  next
    case False
    let ?gate = "if dispatch_enabled (brd w) then review_offer_gate w t actor now ov else Inr None"
    from c g st ov have T: "(case (review_lease_is_live t now, lease_of (review_lease t)) of
          (True, Some l) \<Rightarrow> claim_live_review w tid t l actor p now co rel
        | _ \<Rightarrow> bindE ?gate (\<lambda>gate. case gate of Some msg \<Rightarrow> Inr (w, Refused msg None rel)
                | None \<Rightarrow> claim_new_review w tid t actor p now co rel)) = Inr (w', r)"
      using False by (auto simp: review_claim_with_actor_def split: if_split_asm)
    consider
      (live) l where "lease_of (review_lease t) = Some l" "review_lease_is_live t now"
        "claim_live_review w tid t l actor p now co rel = Inr (w', r)"
    | (new) "?gate = Inr None" "claim_new_review w tid t actor p now co rel = Inr (w', r)"
      using T False that
      by (cases "review_lease_is_live t now"; cases "lease_of (review_lease t)") (auto split: option.split_asm)
    then show ?thesis
    proof cases
      case live
      then have "review_lease t = RS_Lease l" by (auto simp: lease_of_def split: review_slot.split_asm)
      from claim_live_review_contract [OF live(3) g st this live(2)] show ?thesis .
    next
      case new
      have "free_elsewhere w (ticket_id t) now (agent_id actor)" if ex
        using ex [OF that] new(1) ov review_gate_free by (simp add: claims_by_offer_def)
      then show ?thesis by (rule claim_new_review_contract [OF new(2) g st])
    qed
  qed
qed

definition offered_review ::
  "(string \<Rightarrow> string \<Rightarrow> string \<Rightarrow> string) \<Rightarrow> world \<Rightarrow> principal \<Rightarrow> string \<Rightarrow> time \<Rightarrow> bool" where
  "offered_review aid_of w p name now \<longleftrightarrow>
     (case review_claim_preamble aid_of w p name now of Inl _ \<Rightarrow> True | Inr (w1, _) \<Rightarrow> claims_by_offer w1 p)"

lemma ticket_review_claim_contract:
  assumes "ticket_review_claim aid_of w p name tid now = Inr (w', r)"
  shows "tool_contract (offered_review aid_of w p name now) now w w'"
proof -
  from assms obtain w1 actor co rel where pre: "review_claim_preamble aid_of w p name now = Inr (w1, actor, co, rel)"
    and c: "review_claim_with_actor w1 actor p tid now co rel = Inr (w', r)"
    by (auto simp: ticket_review_claim_def)
  have "tool_contract (offered_review aid_of w p name now) now w1 w'"
    by (rule review_claim_contract [OF c]) (simp add: offered_review_def pre)
  then show ?thesis by (rule contract_around [OF review_claim_preamble_safe [OF pre] _ safe_world_refl])
qed

end
