(* ===== verification/Renewal_Contracts.thy ===== *)
theory Renewal_Contracts
  imports Claim_Contracts
begin

section \<open>Renewals and cancellation\<close>

subsection \<open>\<open>lease_renew\<close> and \<open>board_reap\<close>\<close>

text \<open>After a reap a tidy review lease that is not due for release is running.\<close>

lemma settled_review_live:
  assumes "tidy t" "\<not> review_lease_lapsed t now" "review_lease t = RS_Lease l"
  shows "review_lease_is_live t now"
proof -
  from assms obtain n where l: "expires_at_epoch l = Some (E_Num n)" "expires_at l = T_Instant n"
    by (auto simp: tidy_def tidy_review_def)
  then show ?thesis
    using assms(2,3)
    by (auto simp: review_lease_lapsed_def review_lease_is_live_def review_lease_expiration_is_ambiguous_def
        text_epoch_def finite_epoch_def Let_def split: if_split_asm)
qed

lemma renews_review_effect:
  assumes "renews_review aid_of w p name t = Inr (w', held)"
  shows "safe_world now w w'" "tickets (brd w') = tickets (brd w)"
    and "held = Some (l, reviewer) \<Longrightarrow> review_lease t = RS_Lease l \<and> status t = ''submitted''"
proof -
  consider "w' = w" | n m where "lookup_member aid_of w p n = Inr (w', m)"
    using assms by (auto simp: renews_review_def split: option.split_asm if_split_asm)
  then show "safe_world now w w'" "tickets (brd w') = tickets (brd w)"
    using lookup_member_effect(1,2) by (cases, auto)+
  show "review_lease t = RS_Lease l \<and> status t = ''submitted''" if "held = Some (l, reviewer)"
    using assms that by (auto simp: renews_review_def lease_of_def split: option.split_asm if_split_asm review_slot.split_asm)
qed

lemma work_renewed_contract:
  assumes g: "get_ticket w tid = Some t" and ps: "pre_submission t"
  shows "tool_contract ex now w (put_ticket tid (renew_claim now ttl src t) w)"
proof (rule contract_store [OF g])
  show "tidy (renew_claim now ttl src t)" if "tidy t" using that ps by (rule tidy_renew_claim)
  show "edge (review_policy (cfg (brd w))) t (renew_claim now ttl src t)" by (simp add: edge_def)
  have "occupies (renew_claim now ttl src t) a now = occupies t a now" for a
    by (rule occupies_active_cong) (simp_all add: ps)
  then show "safe_change now w t (renew_claim now ttl src t)" by (simp add: safe_change_def)
qed simp_all

lemma lease_renew_contract:
  assumes c: "lease_renew aid_of w p name tid source now = Inr (w', r)"
    and ttl: "0 < offer_ttl_s (policy_of (brd w))"
  shows "tool_contract ex now w w'"
proof (cases "board_ok w")
  case ok: True
  obtain src w1 rel where re: "reap_expired w now True = Inr (w1, rel)"
    and b: "(case get_ticket w1 tid of
         None \<Rightarrow> Inr (w1, Failed ''ticket not found'' rel)
       | Some t \<Rightarrow>
           bindE (renews_review aid_of w1 p name t) (\<lambda>(w2, held).
             case held of
               Some (l, reviewer) \<Rightarrow>
                 bindE (validate_review_independence (review_policy (cfg (brd w2))) t reviewer p) (\<lambda>_.
                   let t' = t\<lparr>review_lease := RS_Lease (renew_review_lease now (claim_ttl_s (cfg (brd w2))) src l),
                              updated_at := Some now\<rparr>
                   in Inr (put_ticket tid t' w2, Lease_Renewed t' ''review'' rel))
             | None \<Rightarrow>
                 if \<not> pre_submission t \<or> claimed_by_principal_id (work t) \<noteq> Some (pr_id p)
                 then Inr (w2, Failed ''lease is not held by this principal; lease was released'' rel)
                 else let t' = renew_claim now (claim_ttl_s (cfg (brd w2))) src t
                      in Inr (put_ticket tid t' w2, Lease_Renewed t' ''work'' rel))) = Inr (w', r)"
    using c unfolding lease_renew_def bindE_eq_Inr [of "reap_expired w now True"]
    by (elim bindE_Inr1E) auto
  note s1 = reap_expired_safe [OF re]
  show ?thesis
  proof (cases "get_ticket w1 tid")
    case None
    with b show ?thesis using safe_contract [OF s1] by simp
  next
    case (Some t)
    then obtain w2 held where rr: "renews_review aid_of w1 p name t = Inr (w2, held)"
      and st: "w' = w2 \<or>
        (\<exists>l reviewer. held = Some (l, reviewer) \<and> w' = put_ticket tid (t\<lparr>review_lease :=
            RS_Lease (renew_review_lease now (claim_ttl_s (cfg (brd w2))) src l), updated_at := Some now\<rparr>) w2) \<or>
        pre_submission t \<and> w' = put_ticket tid (renew_claim now (claim_ttl_s (cfg (brd w2))) src t) w2"
      using b by (auto simp: Let_def split: option.split_asm if_split_asm)
    note r2 = renews_review_effect [OF rr]
    have s2: "safe_world now w w2" by (rule safe_world_trans [OF s1 r2(1)])
    have g2: "get_ticket w2 tid = Some t" using Some get_ticket_tickets [OF r2(2)] by simp
    have quiet: "\<not> review_lease_lapsed t now"
      using reap_all_settled [OF re ok ttl] Some by (auto simp: board_all_def settled_def)
    from st consider "w' = w2"
      | (review) l ttl src where "review_lease t = RS_Lease l" "status t = ''submitted''"
          "w' = put_ticket tid (t\<lparr>review_lease := RS_Lease (renew_review_lease now ttl src l), updated_at := Some now\<rparr>) w2"
      | (work) ttl src where "pre_submission t" "w' = put_ticket tid (renew_claim now ttl src t) w2"
      using r2(3) by blast
    then show ?thesis
    proof cases
      case 1
      then show ?thesis using safe_contract [OF s2] by simp
    next
      case review
      show ?thesis
        unfolding review(3)
        by (rule contract_around [OF s2 review_renewed_contract [OF g2 review(2,1)
              settled_review_live [OF _ quiet review(1)]] safe_world_refl]) simp_all
    next
      case work
      show ?thesis
        unfolding work(2) by (rule contract_around [OF s2 work_renewed_contract [OF g2 work(1)] safe_world_refl])
    qed
  qed
qed (rule contract_vacuous)

lemma board_reap_safe:
  assumes "board_reap w p now = Inr (w', r)"
  shows "safe_world now w w'"
proof -
  from assms obtain w1 rel where re: "reap_expired w now True = Inr (w1, rel)"
    and w': "w' = map_tickets (\<lambda>t. if pre_submission t \<and> claimed_by_principal_id (work t) = Some (pr_id p)
         then renew_claim now (claim_ttl_s (cfg (brd w1))) ''model'' t else t) w1"
    by (auto simp: board_reap_def map_tickets_def Let_def)
  let ?f = "\<lambda>t. if pre_submission t \<and> claimed_by_principal_id (work t) = Some (pr_id p)
         then renew_claim now (claim_ttl_s (cfg (brd w1))) ''model'' t else t"
  have "only_renews now ?f" by (rule only_renews_claims) simp
  then have "safe_world now w1 w'"
    unfolding w' by (intro map_tickets_safe) (auto simp: only_renews_def lapse_def tidy_renew_claim)
  with reap_expired_safe [OF re] show ?thesis by (rule safe_world_trans)
qed

subsection \<open>\<open>ticket_cancel\<close>\<close>

text \<open>
  The seven lease keys go, the claim fields and the review lease stay.  Where no review is in
  progress the canceled ticket books nobody.
\<close>

definition canceled :: "ticket \<Rightarrow> ticket \<Rightarrow> bool" where
  "canceled t t' \<longleftrightarrow>
     ticket_id t' = ticket_id t \<and> status t' = ''canceled'' \<and> review_lease t' = review_lease t \<and>
     offers t' = (\<lambda>k. None) \<and> (work t' = work t \<or> work t' = no_work_lease)"

lemma ambiguous_cong:
  "work t' = work t \<Longrightarrow> review_lease t' = review_lease t \<Longrightarrow>
     inactive_lifecycle_has_ambiguous_live_lease t' now = inactive_lifecycle_has_ambiguous_live_lease t now"
  unfolding inactive_lifecycle_has_ambiguous_live_lease_def by metis

lemma canceled_work_commitment:
  assumes c: "canceled t t'" and td: "tidy t" and ra: "review_lease t = RS_Absent"
    and w: "work_commitment t' a now"
  shows "work_commitment t a now"
proof -
  have np: "\<not> pre_submission t'" "inactive_status t'"
    using c by (simp_all add: canceled_def pre_submission_iff inactive_status_def TERMINAL_TICKET_STATES_def)
  from w have wk: "work t' = work t" using c by (auto simp: canceled_def)
  have am: "inactive_lifecycle_has_ambiguous_live_lease t now" "claimed_by_agent_id (work t) = Some a"
    "has_work_lease_fields t"
    using w np wk ambiguous_cong [OF wk, of now] c
    by (auto simp: work_commitment_def inactive_work_ownership_is_ambiguous_def canceled_def has_work_lease_fields_def)
  have "pre_submission t \<or> inactive_status t"
    using tidy_times [OF td] settled_work_books_nobody [OF np(1)] w wk ra c by (auto simp: canceled_def)
  with am show ?thesis by (auto simp: work_commitment_def inactive_work_ownership_is_ambiguous_def)
qed

lemma canceled_contract:
  assumes g: "get_ticket w tid = Some t" and c: "canceled t t'" and b: "brd w' = brd w"
    and st: "status t \<notin> set TERMINAL_TICKET_STATES" and ex: "ex \<Longrightarrow> review_lease t = RS_Absent"
  shows "tool_contract ex now w (put_ticket tid t' w')"
proof (rule contract_store [OF g])
  show "board_ok w \<Longrightarrow> board_ok w'" using board_ok_cong [of w' w] b by simp
  show "tidy t'" if "tidy t"
    using that c by (auto simp: canceled_def tidy_def tidy_work_def TERMINAL_TICKET_STATES_def agreeing_def no_work_lease_def)
  show "edge (review_policy (cfg (brd w))) t t'" using c st by (simp add: edge_def canceled_def life_step.cancel)
  show "safe_change now w t t'" if ex "tidy t"
  proof (rule safe_change_shrink)
    show "occupies t a now" if "occupies t' a now" for a
    proof (rule occupies_fewer [OF _ _ _ that])
      show "work_commitment t b now" if "work_commitment t' b now" for b
        by (rule canceled_work_commitment [OF c \<open>tidy t\<close> ex [OF \<open>ex\<close>] that])
    qed (use c in \<open>simp_all add: canceled_def\<close>)
  qed (use c in \<open>simp add: canceled_def\<close>)
qed (use b c in \<open>simp_all add: canceled_def\<close>)

lemma drop_lease_times_occupies:
  assumes "inactive_status t" "occupies (drop_lease_times t) a now"
  shows "occupies t a now"
proof (rule occupies_fewer [OF _ _ _ assms(2)])
  show "work_commitment t b now" if "work_commitment (drop_lease_times t) b now" for b
    using that assms(1)
    by (auto simp: work_commitment_def inactive_work_ownership_is_ambiguous_def inactive_status_def pre_submission_def
        has_work_lease_fields_def drop_lease_times_def no_work_lease_def
        inactive_lifecycle_has_ambiguous_live_lease_def text_epoch_def Let_def
        split: option.split_asm if_split_asm option.split)
qed (simp_all add: drop_lease_times_def)

lemma drop_times_safe:
  assumes "\<And>t. board_ok w \<Longrightarrow> get_ticket w tid = Some t \<Longrightarrow> status t = ''canceled''"
  shows "safe_world now w (modify_ticket tid drop_lease_times w)"
proof (cases "get_ticket w tid")
  case (Some t)
  have "moved now w t w (drop_lease_times t)" if "status t = ''canceled''"
  proof (rule shrink_moved)
    show "lapse t (drop_lease_times t)" by (simp add: drop_lease_times_def lapse_defs)
    show "tidy (drop_lease_times t)" if "tidy t"
      using that by (simp add: drop_lease_times_def tidy_def tidy_work_def agreeing_def)
    show "occupies t a now" if "occupies (drop_lease_times t) a now" for a
      using drop_lease_times_occupies [OF _ that] \<open>status t = ''canceled''\<close>
      by (simp add: inactive_status_def TERMINAL_TICKET_STATES_def)
  qed
  then have "safe_world now w (put_ticket tid (drop_lease_times t) w)" if "board_ok w"
    using assms [OF that Some] moved_store [OF Some] by blast
  then show ?thesis using Some by (cases "board_ok w") (simp_all add: modify_ticket_def safe_world_def [of now w])
qed (simp add: modify_ticket_def)

lemma safe_lapse: "safe_world now w w' \<Longrightarrow> board_ok w \<Longrightarrow> get_ticket w k = Some t \<Longrightarrow>
    \<exists>t'. get_ticket w' k = Some t' \<and> lapse t t'"
  by (simp add: safe_world_def board_lapses_def)

lemma cancel_contract:
  assumes c: "cancel_with_actor w actor p tid reason counts now rel ren = Inr (w', r)"
    and ex: "\<And>t. ex \<Longrightarrow> get_ticket w tid = Some t \<Longrightarrow> review_lease t = RS_Absent"
  shows "tool_contract ex now w w'"
proof (cases "board_ok w")
  case ok: True
  obtain t why where g: "get_ticket w tid = Some t" and st: "status t \<notin> set TERMINAL_TICKET_STATES"
    and basis: "cancel_basis (brd w) t actor p = Inr (Some why)"
    using c by (auto simp: cancel_with_actor_def split: option.split_asm if_split_asm)
  define info where "info = \<lparr> c_agent_id = agent_id actor, c_principal_id = pr_id p, c_permission = why,
                          c_at = now, c_reason = (if truthy reason then reason else None) \<rparr>"
  obtain w1 t1 reset where rs: "reset_ticket_progress now ''canceled'' (w, cancel_ticket info now t) = ((w1, t1), reset)"
    by (metis surj_pair)
  obtain t2 revoked where rv: "revoke_offers ''ticket_canceled'' [Work, Review] t1 = (t2, revoked)" by fastforce
  define t3 where "t3 = (if dispatch_enabled (brd w1)
      then t2\<lparr>dispatch_state := Some ((entry0 ''canceled'')\<lparr>d_at := Some now\<rparr>)\<rparr> else t2)"
  obtain w4 evs where d: "redispatch_queue (put_ticket tid t3 w1) now = Inr (w4, evs)"
    and w': "w' = record_scrub_allows actor now counts (modify_ticket tid drop_lease_times w4)"
    using c st
    by (auto simp: cancel_with_actor_def g basis info_def [symmetric] rs rv t3_def [symmetric] Let_def
        split: option.split_asm)
  note q = reset_progress_quiet [OF rs]
  have "offers t2 k = None" for k using rv by (cases k) (auto simp: revoke_offers_def)
  then have ca: "canceled t t3"
    using q rv by (auto simp: canceled_def t3_def revoke_offers_def quiet_def same_ticket_def same_record_def
        cancel_ticket_def fun_eq_iff)
  have b: "brd w1 = brd w" using q by (simp add: quiet_def)
  have tc: "tool_contract ex now w (put_ticket tid t3 w1)"
    by (rule canceled_contract [OF g ca b st ex [OF _ g]])
  note s4 = redispatch_queue_safe [OF d]
  have "status t' = ''canceled''" if "get_ticket w4 tid = Some t'" for t'
  proof -
    have "board_ok (put_ticket tid t3 w1)" using tc ok by (simp add: tool_contract_def sound_world_def)
    then obtain t4 where "get_ticket w4 tid = Some t4" "lapse t3 t4"
      using safe_lapse [OF s4, of tid t3] by auto
    then show ?thesis using that ca by (auto simp: lapse_def canceled_def pre_submission_iff)
  qed
  then have "safe_world now w4 (modify_ticket tid drop_lease_times w4)" by (intro drop_times_safe)
  then have "safe_world now (put_ticket tid t3 w1) w'"
    unfolding w' using s4 record_scrub_allows_safe safe_world_trans by blast
  then show ?thesis by (rule contract_around [OF safe_world_refl tc])
qed (rule contract_vacuous)

lemma ticket_cancel_contract:
  assumes c: "ticket_cancel aid_of w p name tid reason counts now = Inr (w', r)"
    and ex: "\<And>t. ex \<Longrightarrow> get_ticket w tid = Some t \<Longrightarrow> review_lease t = RS_Absent"
  shows "tool_contract ex now w w'"
proof (cases "board_ok w")
  case ok: True
  from c obtain w1 actor rel ren where pre: "prepare_board_call aid_of w p name now = Inr (w1, actor, rel, ren)"
    and b: "cancel_with_actor w1 actor p tid reason counts now rel ren = Inr (w', r)"
    by (auto simp: ticket_cancel_def)
  note s = prepare_board_call_effect [OF pre]
  have ra: "review_lease t = RS_Absent" if x: ex and g1: "get_ticket w1 tid = Some t" for t
  proof -
    have "dkeys (tickets (brd w1)) = dkeys (tickets (brd w))" using s ok by (simp add: safe_world_def)
    then obtain t0 where "get_ticket w tid = Some t0"
      using g1 dget_in_keys [of "tickets (brd w1)" tid] dget_in_keys [of "tickets (brd w)" tid]
      by (auto simp: get_ticket_def)
    moreover from safe_lapse [OF s ok this] obtain t1 where "get_ticket w1 tid = Some t1" "lapse t0 t1"
      by blast
    ultimately show ?thesis using ex [OF x] g1 by (auto simp: lapse_def)
  qed
  from contract_around [OF s cancel_contract [OF b ra] safe_world_refl] show ?thesis .
qed (rule contract_vacuous)

end
