(* ===== verification/Seat_Reports.thy ===== *)
theory Seat_Reports
  imports Ticket_Human
begin

section \<open>What seats report: capabilities and readiness\<close>

text \<open>
  \<open>normalized_capabilities\<close> and \<open>normalized_readiness\<close> of \<open>central.py\<close>: the values a seat may report,
  what is stored of them, and every refusal.  \<open>Seats\<close> takes stored capabilities as normalised; that
  normalising them again changes nothing is proved here.
\<close>

subsection \<open>Capabilities\<close>

definition CAPABILITY_FIELDS :: "string list" where
  "CAPABILITY_FIELDS =
     [''model'', ''provider'', ''tier_max'', ''skills'', ''can_review'', ''can_work'', ''host'', ''max_parallel'', ''legacy_tools'']"

definition unknown_fields :: "string list \<Rightarrow> json \<Rightarrow> string list" where
  "unknown_fields allowed v = sort (filter (\<lambda>k. k \<notin> set allowed) (remdups (map fst (j_items v))))"

definition skill_ok :: "json \<Rightarrow> bool" where
  "skill_ok v = (case v of J_Str s \<Rightarrow> strip s \<noteq> [] | _ \<Rightarrow> False)"

definition skill_list :: "json \<Rightarrow> string list" where
  "skill_list v = sort (remdups (map strip (List.map_filter j_str (j_list v))))"

definition boolean_capability :: "json \<Rightarrow> string \<Rightarrow> bool \<Rightarrow> bool result" where
  "boolean_capability v field x =
     (case get_or v field (J_Bool x) of
        J_Bool b \<Rightarrow> Inr b
      | _ \<Rightarrow> Inl (ValueError (''capabilities.'' @ field @ '' must be boolean'')))"

definition legacy_capability :: "json \<Rightarrow> bool option result" where
  "legacy_capability v =
     (if j_has v ''legacy_tools''
      then case j_get v ''legacy_tools'' of
             J_Bool b \<Rightarrow> Inr (Some b)
           | _ \<Rightarrow> Inl (ValueError ''capabilities.legacy_tools must be boolean'')
      else Inr None)"

definition text_capability :: "json \<Rightarrow> string \<Rightarrow> string option result" where
  "text_capability v field =
     (case j_get v field of
        J_Null \<Rightarrow> Inr None
      | J_Str s \<Rightarrow> if strip s \<noteq> [] then Inr (Some (strip s))
                   else Inl (ValueError (''capabilities.'' @ field @ '' must be a non-empty string''))
      | _ \<Rightarrow> Inl (ValueError (''capabilities.'' @ field @ '' must be a non-empty string'')))"

definition role_allows :: "string \<Rightarrow> bool \<Rightarrow> bool \<Rightarrow> unit result" where
  "role_allows r works review =
     (if r = ''reviewer'' \<and> works then Inl (ValueError ''capabilities.can_work must be false for role reviewer'')
      else if r = ''worker'' \<and> review then Inl (ValueError ''capabilities.can_review must be false for role worker'')
      else if r \<in> {''orchestrator'', ''coordinator''} \<and> (works \<or> review)
      then Inl (ValueError (''capabilities.can_work and capabilities.can_review must be false for role '' @ r))
      else Inr ())"

definition normalized_capabilities :: "json \<Rightarrow> string \<Rightarrow> capabilities result" where
  "normalized_capabilities v r =
     bindE (guardE (unknown_fields CAPABILITY_FIELDS v = [])
              (ValueError (''unsupported capability fields: '' @ joined '', '' (unknown_fields CAPABILITY_FIELDS v)))) (\<lambda>_.
     bindE (guardE (is_int_counter 1 3 (get_or v ''tier_max'' (J_Int 2)))
              (ValueError ''capabilities.tier_max must be 1, 2, or 3'')) (\<lambda>_.
     bindE (guardE (is_int_counter 1 1 (get_or v ''max_parallel'' (J_Int 1)))
              (ValueError ''capabilities.max_parallel must be 1'')) (\<lambda>_.
     bindE (guardE (is_list (get_or v ''skills'' (J_List [])) \<and> list_all skill_ok (j_list (get_or v ''skills'' (J_List []))))
              (ValueError ''capabilities.skills must be a list of non-empty strings'')) (\<lambda>_.
     bindE (boolean_capability v ''can_review'' (snd (role_defaults r))) (\<lambda>review.
     bindE (boolean_capability v ''can_work'' (fst (role_defaults r))) (\<lambda>works.
     bindE (legacy_capability v) (\<lambda>legacy.
     bindE (role_allows r works review) (\<lambda>_.
     bindE (text_capability v ''model'') (\<lambda>model.
     bindE (text_capability v ''provider'') (\<lambda>provider.
     bindE (text_capability v ''host'') (\<lambda>host.
       Inr \<lparr> cap_model = model, cap_provider = provider, tier_max = j_int (get_or v ''tier_max'' (J_Int 2)),
             skills = skill_list (get_or v ''skills'' (J_List [])), can_review = review, can_work = works,
             cap_host = host, legacy_tools = legacy \<rparr>)))))))))))"

text \<open>The dictionary that is stored.\<close>

definition opt_text :: "string option \<Rightarrow> json" where
  "opt_text x = (case x of None \<Rightarrow> J_Null | Some s \<Rightarrow> J_Str s)"

definition capabilities_json :: "capabilities \<Rightarrow> json" where
  "capabilities_json c = J_Obj
     ([(''model'', opt_text (cap_model c)), (''provider'', opt_text (cap_provider c)), (''tier_max'', J_Int (tier_max c)),
       (''skills'', J_List (map J_Str (skills c))), (''can_review'', J_Bool (can_review c)), (''can_work'', J_Bool (can_work c)),
       (''host'', opt_text (cap_host c)), (''max_parallel'', J_Int 1)] @
      (case legacy_tools c of None \<Rightarrow> [] | Some b \<Rightarrow> [(''legacy_tools'', J_Bool b)]))"

subsection \<open>Readiness\<close>

definition DEFAULT_READINESS_TTL_S :: int where "DEFAULT_READINESS_TTL_S = 360"
definition MIN_READINESS_TTL_S :: int where "MIN_READINESS_TTL_S = 1"
definition MAX_READINESS_TTL_S :: int where "MAX_READINESS_TTL_S = 3600"

definition READINESS_FLAGS :: "string list" where
  "READINESS_FLAGS =
     [''transport_connected'', ''session_idle'', ''foreground_running'', ''dispatch_ready'', ''managed_autonomous'']"

definition check_flags :: "json \<Rightarrow> unit result" where
  "check_flags v = foldE (\<lambda>field _. guardE (case j_get v field of J_Bool _ \<Rightarrow> True | _ \<Rightarrow> False)
      (ValueError (''readiness.'' @ field @ '' must be boolean''))) READINESS_FLAGS ()"

definition session_id_ok :: "json \<Rightarrow> bool" where
  "session_id_ok v =
     (case v of
        J_Str s \<Rightarrow> strip s \<noteq> [] \<and> length s \<le> 128 \<and> list_all (\<lambda>c. 32 \<le> (of_char c :: nat) \<and> (of_char c :: nat) \<noteq> 127) s
      | _ \<Rightarrow> False)"

definition is_natural :: "json \<Rightarrow> bool" where
  "is_natural v = (case v of J_Int n \<Rightarrow> 0 \<le> n | _ \<Rightarrow> False)"

definition session_text :: "json \<Rightarrow> string" where
  "session_text v = (case v of J_Str s \<Rightarrow> strip s | _ \<Rightarrow> [])"

definition normalized_readiness :: "json \<Rightarrow> time \<Rightarrow> readiness result" where
  "normalized_readiness v now =
     (let flag = (\<lambda>f. j_true (j_get v f)); ttl = get_or v ''ttl_s'' (J_Int DEFAULT_READINESS_TTL_S);
          unknown = unknown_fields (READINESS_FLAGS @ [''session_id'', ''sequence'', ''ttl_s'']) v in
      bindE (guardE (unknown = []) (ValueError (''unsupported readiness fields: '' @ joined '', '' unknown))) (\<lambda>_.
      bindE (check_flags v) (\<lambda>_.
      bindE (guardE (session_id_ok (j_get v ''session_id''))
               (ValueError ''readiness.session_id must be a non-empty bounded string'')) (\<lambda>_.
      bindE (guardE (is_natural (j_get v ''sequence''))
               (ValueError ''readiness.sequence must be a non-negative integer'')) (\<lambda>_.
      bindE (guardE (is_int_counter MIN_READINESS_TTL_S MAX_READINESS_TTL_S ttl)
               (ValueError ''readiness.ttl_s must be between 1 and 3600'')) (\<lambda>_.
      bindE (guardE (\<not> (flag ''session_idle'' \<and> flag ''foreground_running''))
               (ValueError ''readiness.session_idle and readiness.foreground_running are mutually exclusive'')) (\<lambda>_.
      bindE (guardE (flag ''dispatch_ready'' \<longrightarrow>
                 flag ''transport_connected'' \<and> (flag ''foreground_running'' \<or> flag ''managed_autonomous''))
               (ValueError ''readiness.dispatch_ready requires a connected foreground turn or managed autonomous driver'')) (\<lambda>_.
        Inr \<lparr> transport_connected = flag ''transport_connected'', session_idle = flag ''session_idle'',
              foreground_running = flag ''foreground_running'', dispatch_ready = flag ''dispatch_ready'',
              managed_autonomous = flag ''managed_autonomous'', session_id = session_text (j_get v ''session_id''),
              sequence = j_int (j_get v ''sequence''), r_ttl_s = j_int ttl, r_observed_at = now,
              r_expires_at_epoch = now + secs (j_int ttl) \<rparr>))))))))"

text \<open>\<open>projected_readiness\<close>: reported, stale, and ready for dispatch.\<close>

definition projected_readiness :: "seat \<Rightarrow> time \<Rightarrow> bool \<times> bool \<times> bool" where
  "projected_readiness m now =
     (case seat_readiness m of
        None \<Rightarrow> (False, False, True)
      | Some r \<Rightarrow> (True, \<not> readiness_is_current r now, member_dispatch_ready m now))"

subsection \<open>Normal forms\<close>

lemma j_get_capabilities [simp]:
  "j_get (capabilities_json c) ''model'' = opt_text (cap_model c)"
  "j_get (capabilities_json c) ''provider'' = opt_text (cap_provider c)"
  "j_get (capabilities_json c) ''host'' = opt_text (cap_host c)"
  "get_or (capabilities_json c) ''tier_max'' x = J_Int (tier_max c)"
  "get_or (capabilities_json c) ''skills'' x = J_List (map J_Str (skills c))"
  "get_or (capabilities_json c) ''can_review'' x = J_Bool (can_review c)"
  "get_or (capabilities_json c) ''can_work'' x = J_Bool (can_work c)"
  "get_or (capabilities_json c) ''max_parallel'' x = J_Int 1"
  by (simp_all add: capabilities_json_def get_or_def)

lemma legacy_capabilities [simp]: "legacy_capability (capabilities_json c) = Inr (legacy_tools c)"
  by (simp add: legacy_capability_def capabilities_json_def split: option.split)

lemma known_capabilities [simp]: "unknown_fields CAPABILITY_FIELDS (capabilities_json c) = []"
  by (simp add: unknown_fields_def capabilities_json_def CAPABILITY_FIELDS_def split: option.split)

lemma text_capability_normal: "text_capability v f = Inr t \<Longrightarrow> j_get w g = opt_text t \<Longrightarrow> text_capability w g = Inr t"
  by (auto simp: text_capability_def opt_text_def strip_strip split: json.splits if_split_asm)

lemma skill_texts: "List.map_filter j_str (map J_Str xs) = xs"
  by (induction xs) (simp_all add: List.map_filter_simps)

lemma skill_list_normal:
  assumes "list_all skill_ok (j_list v)"
  shows "list_all skill_ok (map J_Str (skill_list v))" and "skill_list (J_List (map J_Str (skill_list v))) = skill_list v"
proof -
  have s: "strip x = x \<and> x \<noteq> []" if "x \<in> set (skill_list v)" for x
    using that assms
    by (force simp: skill_list_def list_all_iff skill_ok_def List.map_filter_def strip_strip j_str_iff split: json.splits)
  then show "list_all skill_ok (map J_Str (skill_list v))" by (simp add: list_all_iff skill_ok_def)
  have "map strip (skill_list v) = skill_list v" using s by (simp add: map_idI)
  moreover have "sort (remdups (skill_list v)) = skill_list v"
    by (simp add: skill_list_def distinct_remdups_id sorted_sort_id)
  ultimately show "skill_list (J_List (map J_Str (skill_list v))) = skill_list v"
    by (simp add: skill_list_def [of "J_List _"] skill_texts)
qed

lemma boolean_capability_json: "get_or w f x = J_Bool b \<Longrightarrow> x = J_Bool d \<Longrightarrow> boolean_capability w f d = Inr b"
  by (simp add: boolean_capability_def)

lemma capabilities_normal:
  assumes "normalized_capabilities v r = Inr c"
  shows "normalized_capabilities (capabilities_json c) r = Inr c"
proof -
  from assms obtain review works legacy model provider host where
    tm: "is_int_counter 1 3 (get_or v ''tier_max'' (J_Int 2))"
    and sk: "list_all skill_ok (j_list (get_or v ''skills'' (J_List [])))"
    and role: "role_allows r works review = Inr ()"
    and t: "text_capability v ''model'' = Inr model" "text_capability v ''provider'' = Inr provider"
      "text_capability v ''host'' = Inr host"
    and c: "c = \<lparr> cap_model = model, cap_provider = provider, tier_max = j_int (get_or v ''tier_max'' (J_Int 2)),
             skills = skill_list (get_or v ''skills'' (J_List [])), can_review = review, can_work = works,
             cap_host = host, legacy_tools = legacy \<rparr>"
    unfolding normalized_capabilities_def
    by (elim bindE_Inr1E) auto
  have "is_int_counter 1 3 (J_Int (tier_max c))" using tm c by (auto simp: is_int_counter_iff)
  moreover have "text_capability (capabilities_json c) ''model'' = Inr model"
    "text_capability (capabilities_json c) ''provider'' = Inr provider"
    "text_capability (capabilities_json c) ''host'' = Inr host"
    using t [THEN text_capability_normal] by (simp_all add: c)
  moreover have "boolean_capability (capabilities_json c) ''can_review'' (snd (role_defaults r)) = Inr review"
    "boolean_capability (capabilities_json c) ''can_work'' (fst (role_defaults r)) = Inr works"
    by (simp_all add: boolean_capability_def c)
  moreover note skill_list_normal [OF sk]
  ultimately show ?thesis
    unfolding normalized_capabilities_def using role by (simp add: c)
qed

end
