(* ===== verification/Seat_Tools.thy ===== *)
theory Seat_Tools
  imports Seat_Reports
begin

section \<open>Tools on seats\<close>

text \<open>
  \<open>agent_readiness_set\<close>, \<open>agent_capabilities_set\<close>, \<open>agent_retire\<close> and \<open>agent_retire_inert\<close>: the
  transaction of each handler.  A seat that reports itself not ready loses the offers it has; a seat that
  changes its capabilities has its offers withdrawn and every ticket dispatched again; a seat is retired
  only when it holds nothing.  Seats are read again after a sweep, since the sweep changes the same
  objects.
\<close>

subsection \<open>Readiness\<close>

definition offerable_kind :: "ticket \<Rightarrow> kind option" where
  "offerable_kind t =
     (if status t = ''open'' then Some Work else if status t = ''submitted'' then Some Review else None)"

text \<open>The offer of a ticket that its status allows, if it is made to the seat.\<close>

definition own_offer :: "seat \<Rightarrow> ticket \<Rightarrow> (kind \<times> offer) option" where
  "own_offer m t =
     (case offerable_kind t of
        None \<Rightarrow> None
      | Some k \<Rightarrow> (case offers t k of
            Some off \<Rightarrow> if o_agent_id off = agent_id m then Some (k, off) else None
          | None \<Rightarrow> None))"

definition withdrawn :: "seat \<Rightarrow> string \<Rightarrow> kind \<Rightarrow> offer \<Rightarrow> string \<Rightarrow> release" where
  "withdrawn m reason k off tid = Offer_Revoked tid k (agent_id m) (agent_name m) (o_expires_at off) reason [agent_id m]"

definition withdraw_unready :: "seat \<Rightarrow> string \<Rightarrow> world \<times> release list \<Rightarrow> world \<times> release list" where
  "withdraw_unready m key s =
     (case get_ticket (fst s) key of
        None \<Rightarrow> s
      | Some t \<Rightarrow>
          (case own_offer m t of
             None \<Rightarrow> s
           | Some (k, off) \<Rightarrow>
               (put_ticket key (t\<lparr>offers := (offers t)(k := None), dispatch_state := None\<rparr>) (fst s),
                snd s @ [withdrawn m ''dispatch_readiness_withdrawn'' k off (ticket_id t)])))"

definition check_session :: "seat \<Rightarrow> readiness \<Rightarrow> bool \<Rightarrow> time \<Rightarrow> unit result" where
  "check_session m r replace now =
     (case seat_readiness m of
        None \<Rightarrow> Inr ()
      | Some prev \<Rightarrow>
          let same = (session_id prev = session_id r) in
          if \<not> same \<and> readiness_is_current prev now \<and> member_dispatch_ready m now
          then Inl (PermissionError ''readiness session replacement refused while the prior session is dispatch-ready'')
          else if \<not> same \<and> \<not> replace
          then Inl (PermissionError ''readiness session mismatch; replace_session is required'')
          else if same \<and> sequence r \<le> sequence prev
          then Inl (ValueError ''readiness.sequence must increase within one session'')
          else Inr ())"

definition store_readiness ::
  "world \<Rightarrow> seat \<Rightarrow> readiness \<Rightarrow> time \<Rightarrow> (world \<times> release list) result" where
  "store_readiness w actor r now =
     (let m = actor\<lparr>seat_readiness := Some r, readiness_updated_at := Some (r_observed_at r)\<rparr>;
          w1 = put_member (agent_id actor) m w;
          (w2, revoked) = (if member_dispatch_ready m now then (w1, [])
                           else fold (withdraw_unready m) (dkeys (tickets (brd w1))) (w1, []))
      in bindE (redispatch_queue w2 now) (\<lambda>(w3, more). Inr (w3, revoked @ more)))"

definition seats_reply :: "string list \<Rightarrow> release list \<Rightarrow> string list \<Rightarrow> world \<Rightarrow> (world \<times> reply) result" where
  "seats_reply keys released renewed w = Inr (w, Seats_Set (List.map_filter (get_member w) keys) released renewed)"

definition readiness_with_actor ::
  "world \<Rightarrow> seat \<Rightarrow> json \<Rightarrow> bool \<Rightarrow> time \<Rightarrow> release list \<Rightarrow> string list \<Rightarrow> (world \<times> reply) result" where
  "readiness_with_actor w actor v replace now released renewed =
     bindE (normalized_readiness v now) (\<lambda>r.
     bindE (check_session actor r replace now) (\<lambda>_.
     bindE (store_readiness w actor r now) (\<lambda>(w1, more).
       seats_reply [agent_id actor] (released @ more) renewed w1)))"

definition agent_readiness_set ::
  "(string \<Rightarrow> string \<Rightarrow> string \<Rightarrow> string) \<Rightarrow> world \<Rightarrow> principal \<Rightarrow> string \<Rightarrow> json \<Rightarrow> bool \<Rightarrow> time
     \<Rightarrow> (world \<times> reply) result" where
  "agent_readiness_set aid_of w p name v replace now =
     bindE (resolve_active_actor aid_of w p name) (\<lambda>(w1, a0).
     bindE (require_scope p (if role a0 = ''reviewer'' then ''board:review'' else ''board:write'')) (\<lambda>_.
     bindE (reap_expired w1 now True) (\<lambda>(w2, released).
       case get_member w2 (agent_id a0) of
         None \<Rightarrow> Inl (KeyError (agent_id a0))
       | Some a1 \<Rightarrow>
           (case touch_actor w2 a1 now of
              (w3, actor, renewed) \<Rightarrow> readiness_with_actor w3 actor v replace now released renewed))))"

subsection \<open>Capabilities\<close>

definition redispatch_changed ::
  "seat \<Rightarrow> time \<Rightarrow> string \<Rightarrow> world \<times> release list \<Rightarrow> (world \<times> release list) result" where
  "redispatch_changed m now key s =
     (case get_ticket (fst s) key of
        None \<Rightarrow> Inr s
      | Some t \<Rightarrow>
          (case offerable_kind t of
             None \<Rightarrow> Inr s
           | Some k \<Rightarrow>
               let (t1, revoked) = (case own_offer m t of
                      None \<Rightarrow> (t, [])
                    | Some (_, off) \<Rightarrow> (t\<lparr>offers := (offers t)(k := None)\<rparr>,
                                        [withdrawn m ''capabilities_changed'' k off (ticket_id t)])) in
               bindE (dispatch_ticket (put_ticket key t1 (fst s)) t1 now k None) (\<lambda>(w2, t2, ev).
                 Inr (put_ticket key t2 w2, snd s @ revoked @ option_list ev))))"

definition capabilities_with_actor ::
  "world \<Rightarrow> seat \<Rightarrow> json \<Rightarrow> time \<Rightarrow> release list \<Rightarrow> string list \<Rightarrow> (world \<times> reply) result" where
  "capabilities_with_actor w actor v now released renewed =
     bindE (normalized_capabilities v (if role actor = [] then ''worker'' else role actor)) (\<lambda>c.
       let m = actor\<lparr>caps := Some c, capabilities_explicit := True, capabilities_updated_at := Some now\<rparr> in
       bindE (foldE (redispatch_changed m now) (dkeys (tickets (brd w))) (put_member (agent_id actor) m w, [])) (\<lambda>(w1, more).
         seats_reply [agent_id actor] (released @ more) renewed w1))"

definition agent_capabilities_set ::
  "(string \<Rightarrow> string \<Rightarrow> string \<Rightarrow> string) \<Rightarrow> world \<Rightarrow> principal \<Rightarrow> string \<Rightarrow> json \<Rightarrow> time \<Rightarrow> (world \<times> reply) result" where
  "agent_capabilities_set aid_of w p name v now =
     bindE (require_scope p ''board:write'') (\<lambda>_.
     bindE (prepare_board_call aid_of w p name now) (\<lambda>(w1, actor, released, renewed).
       capabilities_with_actor w1 actor v now released renewed))"

subsection \<open>Retirement\<close>

definition may_retire_others :: "board \<Rightarrow> principal \<Rightarrow> seat \<Rightarrow> string \<Rightarrow> unit result" where
  "may_retire_others b p actor msg =
     bindE (resolve_board_context b (pr_id p) None) (\<lambda>pm.
       guardE (pm_role pm = ''admin'' \<or>
               (COORDINATOR_SCOPE \<in> set (pr_scopes p) \<and> role actor \<in> {''coordinator'', ''orchestrator''}))
         (PermissionError msg))"

definition retire_seat ::
  "world \<Rightarrow> seat \<Rightarrow> time \<Rightarrow> string \<Rightarrow> string \<Rightarrow> string \<Rightarrow> world \<times> release list \<times> bool" where
  "retire_seat w m now offer_reason reason actor_id =
     (let (w1, revoked) = revoke_agent_offers w m now offer_reason;
          (w2, ev) = lifecycle_transition w1 (agent_id m) m now ''retired'' reason actor_id
      in (w2, revoked @ option_list ev, ev \<noteq> None))"

definition retire_with_actor ::
  "world \<Rightarrow> seat \<Rightarrow> string \<Rightarrow> time \<Rightarrow> release list \<Rightarrow> string list \<Rightarrow> (world \<times> reply) result" where
  "retire_with_actor w actor target now released renewed =
     bindE (guardE (\<not> member_has_live_lease w target now)
              (ValueError ''agent has an active work or review lease'')) (\<lambda>_.
       case get_member w target of
         None \<Rightarrow> Inl (KeyError target)
       | Some m \<Rightarrow>
           (case retire_seat w m now ''agent_retired'' ''manual_retire'' (agent_id actor) of
              (w1, evs, changed) \<Rightarrow>
                if \<not> changed then seats_reply [target] (released @ evs) renewed w1
                else bindE (redispatch_queue w1 now) (\<lambda>(w2, more).
                       seats_reply [target] (released @ evs @ more) renewed w2)))"

definition agent_retire ::
  "(string \<Rightarrow> string \<Rightarrow> string \<Rightarrow> string) \<Rightarrow> world \<Rightarrow> principal \<Rightarrow> string \<Rightarrow> string option \<Rightarrow> time
     \<Rightarrow> (world \<times> reply) result" where
  "agent_retire aid_of w p name target now =
     bindE (require_scope p ''board:read'') (\<lambda>_.
     bindE (lookup_member aid_of w p name) (\<lambda>(w1, a0).
       let key = (if truthy target then the target else agent_id a0) in
       bindE (if key = agent_id a0 then Inr ()
              else bindE (require_board_write_or_coordinate p) (\<lambda>_.
                     may_retire_others (brd w1) p a0 ''retiring another agent requires board admin or coordinator'')) (\<lambda>_.
       bindE (guardE (get_member w1 key \<noteq> None) (ValueError ''target agent not found'')) (\<lambda>_.
       bindE (prepare_board_call aid_of w1 p name now) (\<lambda>(w2, actor, released, renewed).
         retire_with_actor w2 actor key now released renewed)))))"

definition inert :: "world \<Rightarrow> seat \<Rightarrow> time \<Rightarrow> bool" where
  "inert w m now \<longleftrightarrow>
     lifecycle_status m = ''active'' \<and> role m \<notin> {''coordinator'', ''orchestrator''} \<and>
     \<not> can_work (member_capabilities m) \<and> \<not> can_review (member_capabilities m) \<and>
     (case member_last_activity_epoch m of None \<Rightarrow> False | Some e \<Rightarrow> e \<le> now - secs 86400) \<and>
     \<not> member_has_live_lease w (agent_id m) now"

definition retire_if_inert ::
  "string \<Rightarrow> time \<Rightarrow> string \<Rightarrow> world \<times> release list \<times> string list \<Rightarrow> world \<times> release list \<times> string list" where
  "retire_if_inert actor_id now key s =
     (case s of (w, evs, retired) \<Rightarrow>
        case get_member w key of
          None \<Rightarrow> s
        | Some m \<Rightarrow>
            if \<not> inert w m now then s
            else (case retire_seat w m now ''agent_retired_inert'' ''inert_identity_cleanup'' actor_id of
                    (w1, evs2, changed) \<Rightarrow> (w1, evs @ evs2, if changed then retired @ [key] else retired)))"

definition retire_inert_with_actor ::
  "world \<Rightarrow> seat \<Rightarrow> principal \<Rightarrow> time \<Rightarrow> release list \<Rightarrow> string list \<Rightarrow> (world \<times> reply) result" where
  "retire_inert_with_actor w actor p now released renewed =
     bindE (may_retire_others (brd w) p actor ''retiring inert agents requires board admin or coordinator'') (\<lambda>_.
       case fold (retire_if_inert (agent_id actor) now) (dkeys (members (brd w))) (w, [], []) of
         (w1, evs, retired) \<Rightarrow>
           if retired = [] then seats_reply [] (released @ evs) renewed w1
           else bindE (redispatch_queue w1 now) (\<lambda>(w2, more).
                  seats_reply retired (released @ evs @ more) renewed w2))"

definition agent_retire_inert ::
  "(string \<Rightarrow> string \<Rightarrow> string \<Rightarrow> string) \<Rightarrow> world \<Rightarrow> principal \<Rightarrow> string \<Rightarrow> time \<Rightarrow> (world \<times> reply) result" where
  "agent_retire_inert aid_of w p name now =
     bindE (require_board_write_or_coordinate p) (\<lambda>_.
     bindE (prepare_board_call aid_of w p name now) (\<lambda>(w1, actor, released, renewed).
       retire_inert_with_actor w1 actor p now released renewed))"

end
