(* ===== verification/Ticket_Admin.thy ===== *)
theory Ticket_Admin
  imports Seat_Tools
begin

section \<open>Tools on tickets that leave their status alone\<close>

text \<open>
  \<open>ticket_update\<close>, \<open>ticket_annotate\<close>, \<open>ticket_assign\<close> and \<open>ticket_progress_update\<close>: the transaction of each
  handler.  Texts are the ones the scrubber has passed, with the counts of what it let through; a list
  argument is still stripped, bounded and deduplicated here (\<open>clean_list\<close>).
\<close>

subsection \<open>Updating the dispatch requirements, parking\<close>

record update_input =
  ui_tier :: "int option"
  ui_skills :: "string list option"
  ui_exclude :: "string list option"
  ui_prefer :: "string list option"
  ui_parked :: "bool option"
  ui_allow_counts :: "(string \<times> int) list"

definition clean_text :: "string \<Rightarrow> nat \<Rightarrow> string \<Rightarrow> string result" where
  "clean_text field limit s =
     bindE (guardE (strip s \<noteq> []) (ValueError (field @ '' is required''))) (\<lambda>_.
     bindE (guardE (length (strip s) \<le> limit) (ValueError (field @ '' must be at most '' @ decimal limit @ '' characters''))) (\<lambda>_.
       Inr (strip s)))"

definition clean_list :: "string \<Rightarrow> string list \<Rightarrow> string list result" where
  "clean_list field values =
     bindE (guardE (length values \<le> 100) (ValueError (field @ '' must be a list of at most 100 strings''))) (\<lambda>_.
       foldE (\<lambda>(i, s) acc. bindE (clean_text (field @ ''['' @ decimal i @ '']'') 100 s) (\<lambda>x.
           Inr (if x \<in> set acc then acc else acc @ [x]))) (List.enumerate 0 values) [])"

definition cleaned_or :: "string \<Rightarrow> string list option \<Rightarrow> string list \<Rightarrow> string list result" where
  "cleaned_or field values old = (case values of
       None \<Rightarrow> Inr old
     | Some vs \<Rightarrow> bindE (clean_list field vs) (\<lambda>xs. Inr (sort (remdups xs))))"

definition dispatch_values :: "update_input \<Rightarrow> bool" where
  "dispatch_values u \<longleftrightarrow> ui_tier u \<noteq> None \<or> ui_skills u \<noteq> None \<or> ui_exclude u \<noteq> None \<or> ui_prefer u \<noteq> None"

definition check_update :: "update_input \<Rightarrow> unit result" where
  "check_update u =
     bindE (guardE (case ui_tier u of None \<Rightarrow> True | Some n \<Rightarrow> n \<in> {1, 2, 3}) (ValueError ''tier must be 1, 2, or 3'')) (\<lambda>_.
       guardE (dispatch_values u \<or> ui_parked u \<noteq> None) (ValueError ''at least one dispatch field is required''))"

definition may_update :: "board \<Rightarrow> principal \<Rightarrow> update_input \<Rightarrow> ticket \<Rightarrow> unit result" where
  "may_update b p u t =
     bindE (resolve_board_context b (pr_id p) None) (\<lambda>pm.
     bindE (guardE (\<not> dispatch_values u \<or> created_by_principal_id t = Some (pr_id p) \<or> pm_role pm = ''admin'')
              (PermissionError ''ticket update requires creator or board admin'')) (\<lambda>_.
     bindE (guardE (ui_parked u = None \<or> pm_role pm = ''admin'' \<or> COORDINATOR_SCOPE \<in> set (pr_scopes p))
              (PermissionError ''parking a ticket requires board admin membership or board:coordinate authorization'')) (\<lambda>_.
     bindE (guardE (status t \<in> set ACTIVE_TICKET_STATES) (ValueError (''ticket is '' @ status t))) (\<lambda>_.
       guardE (ui_parked u = None \<or> status t \<in> {''open'', ''submitted''})
         (ValueError ''only open or submitted tickets can be parked'')))))"

definition update_requirements :: "update_input \<Rightarrow> ticket \<Rightarrow> ticket result" where
  "update_requirements u t =
     bindE (cleaned_or ''skills_required'' (ui_skills u) (skills_required t)) (\<lambda>sk.
     bindE (cleaned_or ''exclude_agents'' (ui_exclude u) (exclude_agents t)) (\<lambda>ex.
     bindE (cleaned_or ''prefer_agents'' (ui_prefer u) (prefer_agents t)) (\<lambda>pr.
       Inr (t\<lparr>tier := (case ui_tier u of None \<Rightarrow> tier t | Some n \<Rightarrow> Some n), skills_required := sk,
              exclude_agents := ex, prefer_agents := pr\<rparr>))))"

definition park_changed :: "update_input \<Rightarrow> ticket \<Rightarrow> bool" where
  "park_changed u t \<longleftrightarrow> (case ui_parked u of None \<Rightarrow> False | Some b \<Rightarrow> parked t \<noteq> b)"

definition set_parked :: "seat \<Rightarrow> time \<Rightarrow> bool \<Rightarrow> world \<times> ticket \<Rightarrow> world \<times> ticket" where
  "set_parked actor now b wt =
     (case wt of (w, t) \<Rightarrow>
        let k = offerable_kind t;
            t1 = (if b then t\<lparr>parked := True\<rparr> else t\<lparr>parked := False, workflow_blocker := None\<rparr>);
            (w2, t2) = append_bounded_history H_Dispatch
               (HE_Dispatch ((entry0 (if b then ''parked'' else ''unparked''))\<lparr>d_kind := k,
                  d_agent_id := Some (agent_id actor), d_agent_name := Some (agent_name actor), d_at := Some now\<rparr>)) (w, t1)
        in (w2, if b then t2\<lparr>dispatch_state := Some ((entry0 ''parked'')\<lparr>d_kind := k, d_at := Some now\<rparr>)\<rparr>
                else (case k of
                    None \<Rightarrow> t2\<lparr>dispatch_state := None\<rparr>
                  | Some k' \<Rightarrow> t2\<lparr>dispatch_state := None, offer_expirations := (offer_expirations t2)(k' := 0)\<rparr>)))"

definition drop_offer :: "string \<Rightarrow> kind \<Rightarrow> ticket \<times> release list \<Rightarrow> ticket \<times> release list" where
  "drop_offer reason k s =
     (case offers (fst s) k of
        None \<Rightarrow> s
      | Some off \<Rightarrow>
          ((fst s)\<lparr>offers := (offers (fst s))(k := None)\<rparr>,
           snd s @ [Offer_Revoked (ticket_id (fst s)) k (o_agent_id off) (o_agent_name off) (o_expires_at off) reason
                      [o_agent_id off]]))"

text \<open>The ticket again dispatched, or the queue where it is parked.\<close>

definition dispatch_again :: "string \<Rightarrow> kind \<Rightarrow> time \<Rightarrow> world \<Rightarrow> (world \<times> release list) result" where
  "dispatch_again tid k now w =
     (case get_ticket w tid of
        None \<Rightarrow> Inl (KeyError tid)
      | Some t \<Rightarrow>
          if parked t then redispatch_queue w now
          else bindE (dispatch_ticket w t now k None) (\<lambda>(w1, t1, ev). Inr (put_ticket tid t1 w1, option_list ev)))"

definition update_dispatch ::
  "string \<Rightarrow> update_input \<Rightarrow> bool \<Rightarrow> time \<Rightarrow> world \<Rightarrow> ticket \<Rightarrow> (world \<times> release list) result" where
  "update_dispatch tid u changed now w t =
     (case offerable_kind t of
        None \<Rightarrow> Inr (put_ticket tid t w, [])
      | Some k \<Rightarrow>
          if \<not> changed \<and> \<not> dispatch_values u then Inr (put_ticket tid t w, [])
          else
            let reason = (if ui_parked u = Some True then ''ticket_parked'' else ''ticket_updated'');
                (t1, revoked) = (if ui_parked u = Some True
                   then drop_offer reason Review (drop_offer reason Work (t, [])) else drop_offer reason k (t, []))
            in bindE (dispatch_again tid k now (put_ticket tid t1 w)) (\<lambda>(w2, more). Inr (w2, revoked @ more)))"

definition ticket_reply :: "string \<Rightarrow> bool \<Rightarrow> release list \<Rightarrow> string list \<Rightarrow> world \<Rightarrow> (world \<times> reply) result" where
  "ticket_reply tid fresh released renewed w =
     (case get_ticket w tid of
        None \<Rightarrow> Inl (KeyError tid)
      | Some t \<Rightarrow> Inr (w, Ticket_Set t fresh released renewed))"

definition park_step :: "seat \<Rightarrow> time \<Rightarrow> update_input \<Rightarrow> bool \<Rightarrow> world \<times> ticket \<Rightarrow> world \<times> ticket" where
  "park_step actor now u changed wt = (if changed then set_parked actor now (ui_parked u = Some True) wt else wt)"

definition apply_update ::
  "world \<Rightarrow> seat \<Rightarrow> string \<Rightarrow> update_input \<Rightarrow> time \<Rightarrow> release list \<Rightarrow> string list \<Rightarrow> bool \<Rightarrow> ticket \<Rightarrow> (world \<times> reply) result" where
  "apply_update w actor tid u now released renewed changed t =
     (case park_step actor now u changed (w, t) of (w1, t1) \<Rightarrow>
        bindE (update_dispatch tid u changed now w1 t1) (\<lambda>(w2, evs).
          ticket_reply tid changed (released @ evs) renewed
            (record_scrub_allows actor now (ui_allow_counts u)
               (modify_ticket tid (\<lambda>t. t\<lparr>updated_at := Some now\<rparr>) w2))))"

definition update_with_actor ::
  "world \<Rightarrow> seat \<Rightarrow> principal \<Rightarrow> string \<Rightarrow> update_input \<Rightarrow> time \<Rightarrow> release list \<Rightarrow> string list \<Rightarrow> (world \<times> reply) result" where
  "update_with_actor w actor p tid u now released renewed =
     (case get_ticket w tid of
        None \<Rightarrow> Inl (ValueError ''ticket not found'')
      | Some t \<Rightarrow>
          bindE (may_update (brd w) p u t) (\<lambda>_.
          bindE (update_requirements u t) (\<lambda>t1.
            apply_update w actor tid u now released renewed (park_changed u t) t1)))"

definition ticket_update ::
  "(string \<Rightarrow> string \<Rightarrow> string \<Rightarrow> string) \<Rightarrow> world \<Rightarrow> principal \<Rightarrow> string \<Rightarrow> string \<Rightarrow> update_input \<Rightarrow> time
     \<Rightarrow> (world \<times> reply) result" where
  "ticket_update aid_of w p name tid u now =
     bindE (check_update u) (\<lambda>_.
     bindE (require_board_write_or_coordinate p) (\<lambda>coordinate_only.
       if coordinate_only
       then bindE (coordinator_actor aid_of w p name) (\<lambda>(w1, actor). update_with_actor w1 actor p tid u now [] [])
       else bindE (prepare_board_call aid_of w p name now) (\<lambda>(w1, actor, released, renewed).
              update_with_actor w1 actor p tid u now released renewed)))"

subsection \<open>Annotations\<close>

definition ANNOTATION_KINDS :: "string list" where
  "ANNOTATION_KINDS = [''note'', ''evidence'', ''authorization'', ''decision'']"

definition MAX_ANNOTATIONS_PER_TICKET :: nat where "MAX_ANNOTATIONS_PER_TICKET = 50"
definition MAX_ANNOTATION_TEXT_CHARS :: nat where "MAX_ANNOTATION_TEXT_CHARS = 4000"

definition may_annotate :: "membership \<Rightarrow> principal \<Rightarrow> string \<Rightarrow> unit result" where
  "may_annotate pm p k =
     (if COORDINATOR_SCOPE \<in> set (pr_scopes p) \<or> (pm_role pm = ''admin'' \<and> ''board:write'' \<in> set (pr_scopes p)) \<or>
         (pm_role pm = ''reviewer'' \<and> k = ''note'' \<and> ''board:review'' \<in> set (pr_scopes p))
      then Inr ()
      else if pm_role pm = ''reviewer''
      then Inl (PermissionError ''reviewer membership may annotate only kind=note'')
      else Inl (PermissionError ''ticket annotation requires board admin or board:coordinate authorization''))"

definition append_annotation :: "annotation \<Rightarrow> ticket \<Rightarrow> ticket" where
  "append_annotation a t =
     (let as = annotations t @ [a]; overflow = length as - MAX_ANNOTATIONS_PER_TICKET in
      if overflow = 0 then t\<lparr>annotations := as\<rparr>
      else t\<lparr>annotations := drop overflow as,
             annotations_omitted_count := max 0 (annotations_omitted_count t) + int overflow\<rparr>)"

definition ticket_annotate ::
  "(string \<Rightarrow> string \<Rightarrow> string \<Rightarrow> string) \<Rightarrow> world \<Rightarrow> principal \<Rightarrow> string \<Rightarrow> string \<Rightarrow> string \<Rightarrow> string
     \<Rightarrow> (string \<times> int) list \<Rightarrow> time \<Rightarrow> (world \<times> reply) result" where
  "ticket_annotate aid_of w p name tid k content counts now =
     bindE (guardE (k \<in> set ANNOTATION_KINDS) (ValueError ''kind must be note, evidence, authorization, or decision'')) (\<lambda>_.
     bindE (guardE (list_ex (\<lambda>s. s \<in> set (pr_scopes p)) [''board:write'', ''board:review'', COORDINATOR_SCOPE])
              (PermissionError ''ticket annotation requires board admin, board:coordinate, or reviewer authorization'')) (\<lambda>_.
     bindE (resolve_board_context (brd w) (pr_id p) None) (\<lambda>pm.
     bindE (lookup_member aid_of w p name) (\<lambda>(w1, actor).
     bindE (may_annotate pm p k) (\<lambda>_.
       case get_ticket w1 tid of
         None \<Rightarrow> Inl (ValueError ''ticket not found'')
       | Some t \<Rightarrow>
           bindE (clean_text ''text'' MAX_ANNOTATION_TEXT_CHARS content) (\<lambda>safe.
             case allocate_annotation_id (brd w1) of (aid, b) \<Rightarrow>
               let a = \<lparr> a_id = aid, a_kind = k, a_text = safe, a_at = now, a_agent_id = agent_id actor,
                         a_agent_name = agent_name actor, a_principal_id = pr_id p \<rparr>;
                   t1 = (append_annotation a t)\<lparr>updated_at := Some now\<rparr>;
                   w2 = record_scrub_allows actor now counts (put_ticket tid t1 (w1\<lparr>brd := b\<rparr>))
               in ticket_reply tid True [] [] w2))))))"

subsection \<open>Assignment\<close>

record assign_input =
  ai_target :: "string option"
  ai_expected :: "string option"
  ai_expected_status :: string
  ai_op_key :: string
  ai_reason :: string

definition assignable_target :: "world \<Rightarrow> seat \<Rightarrow> string \<Rightarrow> bool" where
  "assignable_target w actor k =
     (case get_member w k of
        None \<Rightarrow> False
      | Some m \<Rightarrow> k \<noteq> agent_id actor \<and> lifecycle_status m = ''active'' \<and>
          principal_id m \<in> set (dkeys (principal_memberships (brd w))) \<and>
          role m \<notin> {''coordinator'', ''orchestrator''} \<and> can_work (member_capabilities m))"

text \<open>The target is free; when the assignee changes the offers it has elsewhere are revoked.\<close>

definition claim_target :: "world \<Rightarrow> seat \<Rightarrow> string \<Rightarrow> string \<Rightarrow> bool \<Rightarrow> time \<Rightarrow> (world \<times> release list) result" where
  "claim_target w actor tid k changed now =
     bindE (guardE (assignable_target w actor k) (ValueError ''assignment target is not an active eligible seat'')) (\<lambda>_.
     bindE (guardE (\<not> agent_has_live_lease_elsewhere w k now tid)
              (ValueError ''assignment target is busy with a live lease'')) (\<lambda>_.
       case get_member w k of
         None \<Rightarrow> Inl (KeyError k)
       | Some m \<Rightarrow> Inr (if changed then revoke_agent_offers w m now ''ticket_reassigned'' else (w, []))))"

definition displaced_offers :: "string \<Rightarrow> release list \<Rightarrow> (string \<times> kind) list" where
  "displaced_offers tid evs =
     List.map_filter (\<lambda>e. case e of Offer_Revoked x k _ _ _ _ _ \<Rightarrow> if x \<noteq> tid then Some (x, k) else None | _ \<Rightarrow> None) evs"

definition pin_ticket :: "string option \<Rightarrow> ticket \<Rightarrow> ticket" where
  "pin_ticket target t =
     t\<lparr>assigned_to := target, assigned_to_agent_id := target,
       assigned_to_kind := (case target of None \<Rightarrow> None | Some _ \<Rightarrow> Some ''agent_id''),
       pin_unavailable_cycles := None, pin_unavailable_last_at := None\<rparr>"

definition restart_dispatch :: "ticket \<Rightarrow> ticket \<times> release list" where
  "restart_dispatch t =
     (case drop_offer ''ticket_reassigned'' Review (drop_offer ''ticket_reassigned'' Work (t, [])) of
        (t1, evs) \<Rightarrow> (t1\<lparr>dispatch_state := None, offer_expirations := (offer_expirations t1)(Work := 0),
                        dispatch_cycle := (dispatch_cycle t1)(Work := dispatch_cycle t1 Work + 1)\<rparr>, evs))"

definition dispatch_one :: "time \<Rightarrow> string \<times> kind \<Rightarrow> world \<times> release list \<Rightarrow> (world \<times> release list) result" where
  "dispatch_one now e s =
     (case get_ticket (fst s) (fst e) of
        None \<Rightarrow> Inr s
      | Some t \<Rightarrow>
          bindE (dispatch_ticket (fst s) t now (snd e) None) (\<lambda>(w1, t1, ev).
            Inr (put_ticket (fst e) t1 w1, snd s @ option_list ev)))"

definition assign_open ::
  "world \<Rightarrow> seat \<Rightarrow> string \<Rightarrow> ticket \<Rightarrow> assign_input \<Rightarrow> string \<Rightarrow> string \<Rightarrow> time \<Rightarrow> (world \<times> reply) result" where
  "assign_open w actor tid t inp key reason now =
     (let target = ai_target inp; before = assigned_to_agent_id t; changed = (before \<noteq> target) in
      bindE (case target of None \<Rightarrow> Inr (w, []) | Some k \<Rightarrow> claim_target w actor tid k changed now) (\<lambda>(w1, revoked).
        case get_ticket w1 tid of
          None \<Rightarrow> Inl (KeyError tid)
        | Some t1 \<Rightarrow>
            let (t2, dropped) = (if changed then restart_dispatch (pin_ticket target t1) else (pin_ticket target t1, []));
                t3 = t2\<lparr>updated_at := Some now,
                        coordinator_assignment := Some \<lparr> as_op_key = key, as_reason = reason, as_agent_id = target,
                          as_previous = before, as_at = now, as_by = agent_id actor \<rparr>\<rparr>;
                again = (if changed \<and> \<not> parked t3 then (tid, Work) # displaced_offers tid revoked else [])
            in bindE (foldE (dispatch_one now) again (put_ticket tid t3 w1, revoked @ dropped)) (\<lambda>(w2, evs).
                 ticket_reply tid True evs [] w2)))"

definition prior_assignment :: "ticket \<Rightarrow> string \<Rightarrow> assignment_info option" where
  "prior_assignment t key =
     (case coordinator_assignment t of None \<Rightarrow> None | Some a \<Rightarrow> if as_op_key a = key then Some a else None)"

definition ticket_assign ::
  "(string \<Rightarrow> string \<Rightarrow> string \<Rightarrow> string) \<Rightarrow> world \<Rightarrow> principal \<Rightarrow> string \<Rightarrow> string \<Rightarrow> assign_input \<Rightarrow> time
     \<Rightarrow> (world \<times> reply) result" where
  "ticket_assign aid_of w p name tid inp now =
     bindE (guardE (ai_expected_status inp = ''open'') (ValueError ''expected_status must be open'')) (\<lambda>_.
     bindE (require_scope p COORDINATOR_SCOPE) (\<lambda>_.
     bindE (resolve_board_context (brd w) (pr_id p) (Some [''admin''])) (\<lambda>_.
     bindE (coordinator_actor aid_of w p name) (\<lambda>(w1, actor).
     bindE (clean_text ''coordinator_op_key'' 256 (ai_op_key inp)) (\<lambda>key.
     bindE (clean_text ''reason'' 500 (ai_reason inp)) (\<lambda>reason.
       case get_ticket w1 tid of
         None \<Rightarrow> Inl (ValueError ''ticket not found'')
       | Some t \<Rightarrow>
           (case prior_assignment t key of
              Some a \<Rightarrow>
                if as_agent_id a \<noteq> ai_target inp
                then Inl (ValueError ''idempotency key conflicts with prior assignment'')
                else ticket_reply tid False [] [] w1
            | None \<Rightarrow>
                if status t \<noteq> ''open'' \<or> claimed_by_agent_id (work t) \<noteq> None \<or> assigned_to_agent_id t \<noteq> ai_expected inp
                then Inl (ValueError ''assignment state precondition failed: ticket must remain open, unclaimed, and at the expected assignee'')
                else assign_open w1 actor tid t inp key reason now)))))))"

subsection \<open>Progress\<close>

record progress_input =
  pi_low :: int
  pi_high :: int
  pi_confidence :: string
  pi_evidence :: string
  pi_expected_revision :: int
  pi_allow_counts :: "(string \<times> int) list"

definition PROGRESS_CONFIDENCE :: "string list" where "PROGRESS_CONFIDENCE = [''low'', ''medium'', ''high'']"
definition MIN_PROGRESS_FRESHNESS_S :: int where "MIN_PROGRESS_FRESHNESS_S = 900"
definition MAX_PROGRESS_FRESHNESS_S :: int where "MAX_PROGRESS_FRESHNESS_S = 10800"

definition check_progress :: "progress_input \<Rightarrow> unit result" where
  "check_progress u =
     bindE (guardE (0 \<le> pi_low u \<and> pi_low u \<le> 99) (ValueError ''low_percent must be an integer between 0 and 99'')) (\<lambda>_.
     bindE (guardE (0 \<le> pi_high u \<and> pi_high u \<le> 99) (ValueError ''high_percent must be an integer between 0 and 99'')) (\<lambda>_.
     bindE (guardE (pi_low u \<le> pi_high u) (ValueError ''low_percent must not exceed high_percent'')) (\<lambda>_.
     bindE (guardE (pi_confidence u \<in> set PROGRESS_CONFIDENCE) (ValueError ''confidence must be low, medium, or high'')) (\<lambda>_.
       guardE (0 \<le> pi_expected_revision u) (ValueError ''expected_revision must be a non-negative integer'')))))"

text \<open>\<open>float(expires) <= now\<close>; NaN compares false.\<close>

fun float_le :: "pyfloat \<Rightarrow> time \<Rightarrow> bool" where
  "float_le (F_Num t) now = (t \<le> now)"
| "float_le F_PosInf now = False"
| "float_le F_NegInf now = True"
| "float_le F_NaN now = False"

definition lease_over :: "ticket \<Rightarrow> time \<Rightarrow> bool result" where
  "lease_over t now =
     (if lease_expires_at_epoch (work t) = E_Null then Inr True
      else bindE (epoch_float (lease_expires_at_epoch (work t))) (\<lambda>f. Inr (float_le f now)))"

definition current_revision :: "ticket \<Rightarrow> int" where
  "current_revision t =
     (case progress t of
        None \<Rightarrow> 0
      | Some g \<Rightarrow> (case p_revision g of Some n \<Rightarrow> if 0 \<le> n then n else 0 | None \<Rightarrow> 0))"

definition same_assessment :: "progress_input \<Rightarrow> string \<Rightarrow> ticket \<Rightarrow> bool" where
  "same_assessment u safe t \<longleftrightarrow>
     (case progress t of
        None \<Rightarrow> False
      | Some g \<Rightarrow> p_low_percent g = pi_low u \<and> p_high_percent g = pi_high u \<and> p_confidence g = pi_confidence u \<and>
                  p_evidence g = safe)"

definition progress_freshness :: "board \<Rightarrow> int" where
  "progress_freshness b = min MAX_PROGRESS_FRESHNESS_S (max MIN_PROGRESS_FRESHNESS_S (3 * claim_ttl_s (cfg b)))"

definition attempt_of :: "ticket \<Rightarrow> int" where
  "attempt_of t = (case work_attempt t of Some n \<Rightarrow> if n < 1 then 1 else n | None \<Rightarrow> 1)"

definition repair_attempt :: "ticket \<Rightarrow> ticket" where
  "repair_attempt t = (case work_attempt t of Some n \<Rightarrow> if n < 1 then t\<lparr>work_attempt := Some 1\<rparr> else t | None \<Rightarrow> t)"

definition supersede_progress :: "time \<Rightarrow> world \<times> ticket \<Rightarrow> world \<times> ticket" where
  "supersede_progress now wt =
     (case progress (snd wt) of
        None \<Rightarrow> wt
      | Some g \<Rightarrow> append_bounded_history H_Progress
          (HE_Progress (g\<lparr>p_ended_at := Some now, p_end_reason := Some ''superseded''\<rparr>)) wt)"

definition store_progress ::
  "seat \<Rightarrow> principal \<Rightarrow> progress_input \<Rightarrow> string \<Rightarrow> time \<Rightarrow> world \<times> ticket \<Rightarrow> world \<times> ticket" where
  "store_progress actor p u safe now wt =
     (case wt of (w, t) \<Rightarrow>
        (case supersede_progress now (w, repair_attempt t) of (w1, t1) \<Rightarrow>
          (w1, t1\<lparr>progress := Some \<lparr> p_revision = Some (current_revision t + 1), p_attempt = attempt_of t,
                     p_low_percent = pi_low u, p_high_percent = pi_high u, p_confidence = pi_confidence u,
                     p_evidence = safe, p_assessed_at = now, p_fresh_until = now + secs (progress_freshness (brd w)),
                     p_agent_id = agent_id actor, p_agent_name = agent_name actor, p_principal_id = pr_id p,
                     p_ended_at = None, p_end_reason = None \<rparr>,
                   progress_updated_at := Some now\<rparr>)))"

definition progress_held ::
  "world \<Rightarrow> seat \<Rightarrow> principal \<Rightarrow> string \<Rightarrow> ticket \<Rightarrow> progress_input \<Rightarrow> time \<Rightarrow> release list \<Rightarrow> (world \<times> reply) result" where
  "progress_held w actor p tid t u now released =
     bindE (lease_over t now) (\<lambda>over.
       if over then Inr (w, Refused ''progress update requires a live work lease'' None released)
       else if pi_expected_revision u \<noteq> current_revision t then Inr (w, Revision_Conflict (current_revision t) released)
       else bindE (clean_text ''evidence'' 280 (pi_evidence u)) (\<lambda>safe.
         if same_assessment u safe t then Inr (w, Failed ''progress update is a semantic duplicate'' released)
         else (case store_progress actor p u safe now (w, t) of
                 (w1, t1) \<Rightarrow>
                   ticket_reply tid True released []
                     (record_scrub_allows actor now (pi_allow_counts u) (put_ticket tid t1 w1)))))"

definition progress_with_actor ::
  "world \<Rightarrow> seat \<Rightarrow> principal \<Rightarrow> string \<Rightarrow> progress_input \<Rightarrow> time \<Rightarrow> release list \<Rightarrow> (world \<times> reply) result" where
  "progress_with_actor w actor p tid u now released =
     (case get_ticket w tid of
        None \<Rightarrow> Inr (w, Failed ''ticket not found'' released)
      | Some t \<Rightarrow>
          if \<not> ticket_progress_v1 (cfg (brd w)) then Inr (w, Failed ''ticket progress v1 is disabled on this board'' released)
          else if \<not> pre_submission t then Inr (w, Failed (''ticket is '' @ status t) released)
          else if claimed_by_agent_id (work t) \<noteq> Some (agent_id actor) \<or> claimed_by_principal_id (work t) \<noteq> Some (pr_id p)
          then Inr (w, Refused ''progress update requires the exact current work holder'' None released)
          else progress_held w actor p tid t u now released)"

definition ticket_progress_update ::
  "(string \<Rightarrow> string \<Rightarrow> string \<Rightarrow> string) \<Rightarrow> world \<Rightarrow> principal \<Rightarrow> string \<Rightarrow> string \<Rightarrow> progress_input \<Rightarrow> time
     \<Rightarrow> (world \<times> reply) result" where
  "ticket_progress_update aid_of w p name tid u now =
     bindE (check_progress u) (\<lambda>_.
     bindE (require_scope p ''board:write'') (\<lambda>_.
     bindE (reap_expired w now True) (\<lambda>(w1, released).
     bindE (resolve_active_actor aid_of w1 p name) (\<lambda>(w2, actor).
       progress_with_actor w2 actor p tid u now released))))"

end
