(* ===== verification/Admin_Contracts.thy ===== *)
theory Admin_Contracts
  imports Renewal_Contracts Ticket_Admin
begin

section \<open>The tools on seats and on requirements keep the contracts\<close>

subsection \<open>Dispatching one ticket\<close>

lemma dispatch_stored_safe:
  assumes "get_ticket w key = Some t" and "dispatch_ticket w t now k pref = Inr (w', t', ev)"
  shows "safe_world now w (put_ticket key t' w')"
  using moved_store [OF assms(1) dispatched_moved [OF dispatch_ticket_dispatched [OF assms(2)]]] .

lemma dispatch_one_safe: "dispatch_one now e s = Inr s' \<Longrightarrow> safe_world now (fst s) (fst s')"
  using dispatch_stored_safe by (auto simp: dispatch_one_def split: option.split_asm)

lemma dispatch_all_safe: "foldE (dispatch_one now) es s = Inr s' \<Longrightarrow> safe_world now (fst s) (fst s')"
  by (erule foldE_invariant [where P = "\<lambda>x. safe_world now (fst s) (fst x)"])
    (auto intro: safe_world_trans dispatch_one_safe)

lemma dispatch_again_safe: "dispatch_again tid k now w = Inr (w', evs) \<Longrightarrow> safe_world now w w'"
  using dispatch_stored_safe redispatch_queue_safe by (auto simp: dispatch_again_def split: option.split_asm if_split_asm)

subsection \<open>Withdrawn offers\<close>

lemma fewer_offers_moved:
  assumes "same_record t t'" "status t' = status t" "work t' = work t" "review_lease t' = review_lease t"
    and "\<And>k. offers t' k = offers t k \<or> offers t' k = None"
  shows "moved now w t w t'"
proof (rule shrink_moved)
  show "occupies t a now" if "occupies t' a now" for a
    using work_commitment_cong [of t' t] assms by (intro occupies_fewer [OF _ _ _ that]) auto
qed (use assms in \<open>auto simp: lapse_def tidy_def\<close>)

lemma drop_offer_fields:
  "same_record t (fst (drop_offer reason k (t, evs)))" "status (fst (drop_offer reason k (t, evs))) = status t"
  "work (fst (drop_offer reason k (t, evs))) = work t" "review_lease (fst (drop_offer reason k (t, evs))) = review_lease t"
  "offers (fst (drop_offer reason k (t, evs))) j = offers t j \<or> offers (fst (drop_offer reason k (t, evs))) j = None"
  "parked (fst (drop_offer reason k (t, evs))) = parked t"
  by (simp_all add: drop_offer_def same_record_def split: option.split)

lemma drop_offer_moved: "moved now w t w (fst (drop_offer reason k (t, evs)))"
  by (rule fewer_offers_moved) (simp_all add: drop_offer_fields)

lemma drop_offers_moved: "moved now w t w (fst (drop_offer reason k (drop_offer reason' k' (t, evs))))"
  using moved_trans [OF drop_offer_moved [of now w t reason' k' evs] drop_offer_moved] by (metis prod.collapse)

lemma withdraw_unready_move: "stored_move now key (fst s) (fst (withdraw_unready m key s))"
proof (cases "get_ticket (fst s) key")
  case (Some t)
  have "moved now (fst s) t (fst s) (t\<lparr>offers := (offers t)(k := None), dispatch_state := None\<rparr>)" for k
    by (rule fewer_offers_moved) (simp_all add: same_record_def)
  with Some show ?thesis
    by (auto simp: withdraw_unready_def intro: stored_moveI split: option.split)
qed (simp add: withdraw_unready_def)

interpretation unready: stored_sweep fst "\<lambda>now key s. Inr (withdraw_unready m key s)" for m
  by unfold_locales (metis withdraw_unready_move sum.inject(2))

lemma redispatch_changed_safe:
  assumes "redispatch_changed m now key s = Inr s'"
  shows "safe_world now (fst s) (fst s')"
proof (cases "get_ticket (fst s) key")
  case None
  with assms show ?thesis by (simp add: redispatch_changed_def)
next
  case (Some t)
  show ?thesis
  proof (cases "offerable_kind t")
    case None
    with assms Some show ?thesis by (simp add: redispatch_changed_def)
  next
    case k: (Some k)
    obtain t1 revoked where t1: "(case own_offer m t of
        None \<Rightarrow> (t, [])
      | Some (_, off) \<Rightarrow> (t\<lparr>offers := (offers t)(k := None)\<rparr>,
                          [withdrawn m ''capabilities_changed'' k off (ticket_id t)])) = (t1, revoked)"
      by fastforce
    have "moved now (fst s) t (fst s) (t\<lparr>offers := (offers t)(k := None)\<rparr>)"
      by (rule fewer_offers_moved) (simp_all add: same_record_def)
    with t1 have m: "moved now (fst s) t (fst s) t1" by (auto split: option.split_asm)
    obtain w2 t2 ev where d: "dispatch_ticket (put_ticket key t1 (fst s)) t1 now k None = Inr (w2, t2, ev)"
      and s': "fst s' = put_ticket key t2 w2"
      using assms by (auto simp: redispatch_changed_def Some k t1)
    from safe_world_trans [OF moved_store [OF Some m] dispatch_stored_safe [OF _ d]] show ?thesis by (simp add: s')
  qed
qed

interpretation changed: safe_sweep fst "redispatch_changed m" for m
  by unfold_locales (rule redispatch_changed_safe)

subsection \<open>The tools on seats\<close>

lemma seats_reply_world: "seats_reply ks rel ren w = Inr (w', r) \<Longrightarrow> w' = w"
  by (simp add: seats_reply_def)

lemma store_readiness_safe:
  assumes "store_readiness w actor r now = Inr (w', evs)"
  shows "safe_world now w w'"
proof -
  define m where "m = actor\<lparr>seat_readiness := Some r, readiness_updated_at := Some (r_observed_at r)\<rparr>"
  define w1 where "w1 = put_member (agent_id actor) m w"
  obtain w2 revoked where w2: "(if member_dispatch_ready m now then (w1, [])
      else fold (withdraw_unready m) (dkeys (tickets (brd w1))) (w1, [])) = (w2, revoked)" by fastforce
  from assms [unfolded store_readiness_def Let_def, folded m_def, folded w1_def] w2
  obtain evs2 where q: "redispatch_queue w2 now = Inr (w', evs2)" by auto
  have "safe_world now w w1" unfolding w1_def by (rule put_member_safe) (simp add: m_def)
  moreover have "safe_world now w1 w2"
    using w2 unready.sweep_safe [where m = m and now = now and ks = "dkeys (tickets (brd w1))" and s = "(w1, [])"]
    by (auto simp: foldE_Inr split: if_split_asm)
  ultimately show ?thesis using redispatch_queue_safe [OF q] by (blast intro: safe_world_trans)
qed

lemma agent_readiness_safe:
  assumes "agent_readiness_set aid_of w p name v replace now = Inr (w', r)"
  shows "safe_world now w w'"
proof -
  from assms obtain w1 a0 w2 rel a1 where a: "resolve_active_actor aid_of w p name = Inr (w1, a0)"
    and r: "reap_expired w1 now True = Inr (w2, rel)" and m: "get_member w2 (agent_id a0) = Some a1"
    and rest: "(case touch_actor w2 a1 now of (w3, actor, renewed) \<Rightarrow>
        readiness_with_actor w3 actor v replace now rel renewed) = Inr (w', r)"
    unfolding agent_readiness_set_def
    by (elim bindE_Inr1E bindE_Inr2E) (auto split: option.split_asm)
  obtain w3 actor renewed where t: "touch_actor w2 a1 now = (w3, actor, renewed)" by (metis prod_cases3)
  obtain rd evs where s: "store_readiness w3 actor rd now = Inr (w', evs)"
    using rest t by (auto simp: readiness_with_actor_def seats_reply_def)
  from lookup_member_effect(1) [OF resolve_active_actor_lookup [OF a]] reap_expired_safe [OF r]
    touch_actor_effect(1) [OF t] store_readiness_safe [OF s]
  show ?thesis by (blast intro: safe_world_trans)
qed

lemma capabilities_safe:
  assumes "capabilities_with_actor w actor v now rel ren = Inr (w', r)"
  shows "safe_world now w w'"
proof -
  from assms obtain c evs where f: "foldE (redispatch_changed (actor\<lparr>caps := Some c, capabilities_explicit := True,
        capabilities_updated_at := Some now\<rparr>) now) (dkeys (tickets (brd w)))
      (put_member (agent_id actor) (actor\<lparr>caps := Some c, capabilities_explicit := True,
        capabilities_updated_at := Some now\<rparr>) w, []) = Inr (w', evs)"
    unfolding capabilities_with_actor_def Let_def
    by (elim bindE_Inr1E bindE_Inr2E) (auto simp: seats_reply_def)
  from safe_world_trans [OF put_member_safe changed.sweep_safe [OF f, unfolded fst_conv]] show ?thesis by simp
qed

lemma retire_seat_safe:
  "retire_seat w m now why reason a = (w', evs, ch) \<Longrightarrow> safe_world now w w'"
  using safe_world_trans [OF revoke_agent_offers_safe lifecycle_transition_safe [OF refl]]
  by (auto simp: retire_seat_def Let_def case_prod_unfold)

lemma retire_with_actor_safe:
  assumes "retire_with_actor w actor target now rel ren = Inr (w', r)"
  shows "safe_world now w w'"
proof -
  obtain m where g: "get_member w target = Some m"
    using assms by (auto simp: retire_with_actor_def split: option.split_asm)
  obtain w1 evs ch where s: "retire_seat w m now ''agent_retired'' ''manual_retire'' (agent_id actor) = (w1, evs, ch)"
    by (metis prod_cases3)
  then have "w' = w1 \<or> (\<exists>e. redispatch_queue w1 now = Inr (w', e))"
    using assms g by (auto simp: retire_with_actor_def seats_reply_def split: if_split_asm)
  with retire_seat_safe [OF s] redispatch_queue_safe show ?thesis by (blast intro: safe_world_trans)
qed

lemma retire_if_inert_safe: "safe_world now (fst s) (fst (retire_if_inert a now key s))"
proof -
  obtain w evs ks where s: "s = (w, evs, ks)" by (metis prod_cases3)
  show ?thesis
    using retire_seat_safe by (auto simp: s retire_if_inert_def split: option.split prod.split)
qed

interpretation inert: safe_sweep fst "\<lambda>now key s. Inr (retire_if_inert a now key s)" for a
  by unfold_locales (metis retire_if_inert_safe sum.inject(2))

lemma retire_inert_safe:
  assumes "retire_inert_with_actor w actor p now rel ren = Inr (w', r)"
  shows "safe_world now w w'"
proof -
  obtain w1 evs ks where f: "fold (retire_if_inert (agent_id actor) now) (dkeys (members (brd w))) (w, [], []) = (w1, evs, ks)"
    by (metis prod_cases3)
  have "w' = w1 \<or> (\<exists>e. redispatch_queue w1 now = Inr (w', e))"
    using assms f by (auto simp: retire_inert_with_actor_def seats_reply_def split: if_split_asm)
  moreover have "safe_world now w w1"
    using inert.sweep_safe [where a = "agent_id actor" and now = now and ks = "dkeys (members (brd w))" and s = "(w, [], [])"] f by (simp add: foldE_Inr)
  ultimately show ?thesis using redispatch_queue_safe by (blast intro: safe_world_trans)
qed

interpretation capabilities: prepared_tool "\<lambda>w a rel ren. capabilities_with_actor w a v now rel ren" now for v now
  by unfold_locales (intro safe_tool_world capabilities_safe)

interpretation retirement: prepared_tool "\<lambda>w a rel ren. retire_with_actor w a target now rel ren" now for target now
  by unfold_locales (intro safe_tool_world retire_with_actor_safe)

interpretation cleanup: prepared_tool "\<lambda>w a rel ren. retire_inert_with_actor w a p now rel ren" now for p now
  by unfold_locales (intro safe_tool_world retire_inert_safe)

lemma readiness_tool: "agent_readiness_set aid w p name v replace now = Inr (w', r) \<Longrightarrow> tool_world now w w'"
  by (intro safe_tool_world agent_readiness_safe)

lemma capabilities_tool: "agent_capabilities_set aid w p name v now = Inr (w', r) \<Longrightarrow> tool_world now w w'"
  unfolding agent_capabilities_set_def by (erule bindE_Inr1E, erule capabilities.call_contract)

lemma retire_tool: "agent_retire aid w p name target now = Inr (w', r) \<Longrightarrow> tool_world now w w'"
proof -
  assume c: "agent_retire aid w p name target now = Inr (w', r)"
  then obtain w1 a0 key where l: "lookup_member aid w p name = Inr (w1, a0)"
    and b: "bindE (prepare_board_call aid w1 p name now) (\<lambda>(w2, actor, released, renewed).
        retire_with_actor w2 actor key now released renewed) = Inr (w', r)"
    unfolding agent_retire_def Let_def by (elim bindE_Inr1E) (auto split: prod.split_asm simp del: bindE_eq_Inr elim!: bindE_Inr1E)
  from tool_world_before [OF lookup_member_effect(1) [OF l] retirement.call_contract [OF b]] show ?thesis .
qed

lemma retire_inert_tool: "agent_retire_inert aid w p name now = Inr (w', r) \<Longrightarrow> tool_world now w w'"
  unfolding agent_retire_inert_def by (erule bindE_Inr1E, erule cleanup.call_contract)

subsection \<open>The tools on tickets\<close>

lemma ticket_reply_world: "ticket_reply tid fresh rel ren w = Inr (w', r) \<Longrightarrow> w' = w"
  by (auto simp: ticket_reply_def split: option.split_asm)

lemma touched_safe: "safe_world now w (modify_ticket tid (\<lambda>t. t\<lparr>updated_at := u\<rparr>) w)"
proof (cases "get_ticket w tid")
  case (Some t)
  have "moved now w t w (t\<lparr>updated_at := u\<rparr>)" by (rule fewer_offers_moved) (simp_all add: same_record_def)
  from moved_store [OF Some this] show ?thesis by (simp add: modify_ticket_def Some)
qed (simp add: modify_ticket_def)

lemma update_requirements_fields:
  assumes "update_requirements u t = Inr t'"
  shows "ticket_id t' = ticket_id t \<and> status t' = status t \<and> work t' = work t \<and> review_lease t' = review_lease t \<and> offers t' = offers t"
  using assms unfolding update_requirements_def by (elim bindE_Inr1E) auto

lemma set_parked_fields:
  assumes "set_parked actor now b (w, t) = (w', t')"
  shows "brd w' = brd w \<and> ticket_id t' = ticket_id t \<and> status t' = status t \<and> work t' = work t \<and>
    review_lease t' = review_lease t \<and> offers t' = offers t"
proof -
  let ?e = "HE_Dispatch ((entry0 (if b then ''parked'' else ''unparked''))\<lparr>d_kind := offerable_kind t,
      d_agent_id := Some (agent_id actor), d_agent_name := Some (agent_name actor), d_at := Some now\<rparr>)"
  let ?t1 = "if b then t\<lparr>parked := True\<rparr> else t\<lparr>parked := False, workflow_blocker := None\<rparr>"
  obtain w2 t2 where a: "append_bounded_history H_Dispatch ?e (w, ?t1) = (w2, t2)" by fastforce
  have f: "brd w2 = brd w" "ticket_id t2 = ticket_id ?t1" "status t2 = status ?t1" "work t2 = work ?t1"
    "review_lease t2 = review_lease ?t1" "offers t2 = offers ?t1"
    using append_bounded_frame [of H_Dispatch ?e w ?t1] by (simp_all add: a)
  show ?thesis
    using assms f by (auto simp: set_parked_def Let_def a split: option.split_asm if_split_asm)
qed

text \<open>What is stored before the dispatcher runs: the ticket with at most fewer offers.\<close>

definition thinned :: "ticket \<Rightarrow> ticket \<Rightarrow> bool" where
  "thinned t t' \<longleftrightarrow> ticket_id t' = ticket_id t \<and> status t' = status t \<and> work t' = work t \<and>
     review_lease t' = review_lease t \<and> (\<forall>k. offers t' k = offers t k \<or> offers t' k = None)"

lemma thinned_refl [simp]: "thinned t t"
  by (simp add: thinned_def)

lemma thinned_trans: "thinned a b \<Longrightarrow> thinned b c \<Longrightarrow> thinned a c"
  unfolding thinned_def by metis

lemma drop_offer_thinned: "thinned t (fst (drop_offer reason k (t, evs)))"
  by (simp add: drop_offer_def thinned_def split: option.split)

lemma drop_offers_thinned: "thinned t (fst (drop_offer reason k (drop_offer reason' k' (t, evs))))"
  using thinned_trans [OF drop_offer_thinned [of t reason' k' evs] drop_offer_thinned] by (metis prod.collapse)

lemma update_dispatch_shape:
  assumes "update_dispatch tid u changed now w t = Inr (w', evs)"
  shows "\<exists>t'. thinned t t' \<and> safe_world now (put_ticket tid t' w) w'"
proof (cases "w' = put_ticket tid t w")
  case True
  then show ?thesis by (intro exI [of _ t]) simp
next
  case False
  with assms obtain k where k: "offerable_kind t = Some k" by (auto simp: update_dispatch_def split: option.split_asm)
  define reason where "reason = (if ui_parked u = Some True then ''ticket_parked'' else ''ticket_updated'')"
  obtain t1 revoked where t1: "(if ui_parked u = Some True
      then drop_offer reason Review (drop_offer reason Work (t, [])) else drop_offer reason k (t, [])) = (t1, revoked)"
    by fastforce
  obtain evs2 where d: "dispatch_again tid k now (put_ticket tid t1 w) = Inr (w', evs2)"
    using assms False unfolding update_dispatch_def k reason_def [symmetric] Let_def option.case t1
    by (auto split: if_split_asm)
  have "thinned t t1"
    using t1 drop_offers_thinned [of t reason Review reason Work "[]"] drop_offer_thinned [of t reason k "[]"]
    by (auto split: if_split_asm)
  with dispatch_again_safe [OF d] show ?thesis by blast
qed

lemma update_contract:
  assumes "update_with_actor w actor p tid u now rel ren = Inr (w', r)"
  shows "tool_world now w w'"
proof -
  obtain t where g: "get_ticket w tid = Some t"
    using assms by (auto simp: update_with_actor_def split: option.split_asm)
  from assms obtain t1 where m: "may_update (brd w) p u t = Inr ()" and t1: "update_requirements u t = Inr t1"
    and d: "apply_update w actor tid u now rel ren (park_changed u t) t1 = Inr (w', r)"
    unfolding update_with_actor_def g option.case by (elim bindE_Inr1E) auto
  obtain w2 t2 where p: "park_step actor now u (park_changed u t) (w, t1) = (w2, t2)" by fastforce
  from d obtain w3 evs where d: "update_dispatch tid u (park_changed u t) now w2 t2 = Inr (w3, evs)"
    and w': "w' = record_scrub_allows actor now (ui_allow_counts u) (modify_ticket tid (\<lambda>t. t\<lparr>updated_at := Some now\<rparr>) w3)"
    unfolding apply_update_def p prod.case by (elim bindE_Inr2E) (simp add: ticket_reply_world)
  have f: "brd w2 = brd w \<and> ticket_id t2 = ticket_id t \<and> status t2 = status t \<and> work t2 = work t \<and>
      review_lease t2 = review_lease t \<and> offers t2 = offers t"
    using update_requirements_fields [OF t1] set_parked_fields p by (auto simp: park_step_def split: if_split_asm)
  have "status t \<in> set ACTIVE_TICKET_STATES"
    using m unfolding may_update_def by (elim bindE_Inr1E) auto
  then have active: "status t \<notin> set TERMINAL_TICKET_STATES"
    by (auto simp: ACTIVE_TICKET_STATES_def TERMINAL_TICKET_STATES_def)
  obtain t' where t': "thinned t2 t'" and s: "safe_world now (put_ticket tid t' w2) w3"
    using update_dispatch_shape [OF d] by blast
  have "carried now w t w2 t'"
  proof (rule carriedI)
    show "board_ok w \<Longrightarrow> board_ok w2" using f board_ok_cong [of w2 w] by simp
    show "occupies t a now" if "occupies t' a now" for a
      using f t' work_commitment_cong [of t' t] by (intro occupies_fewer [OF _ _ _ that]) (auto simp: thinned_def)
  qed (use f t' in \<open>simp_all add: tidy_def thinned_def\<close>)
  moreover have "edge (review_policy (cfg (brd w))) t t'" using f t' active by (simp add: edge_def thinned_def)
  ultimately have "tool_world now w (put_ticket tid t' w2)" by (rule tool_world_store [OF g])
  from tool_world_after [OF this safe_world_trans [OF s safe_world_trans [OF touched_safe record_scrub_allows_safe]]]
  show ?thesis unfolding w' .
qed

interpretation requirements: prepared_tool "\<lambda>w a rel ren. update_with_actor w a p tid u now rel ren" now for p tid u now
  by unfold_locales (rule update_contract)

lemma update_tool: "ticket_update aid w p name tid u now = Inr (w', r) \<Longrightarrow> tool_world now w w'"
proof -
  assume c: "ticket_update aid w p name tid u now = Inr (w', r)"
  then obtain co where co: "require_board_write_or_coordinate p = Inr co"
    and b: "(if co then bindE (coordinator_actor aid w p name) (\<lambda>(w1, actor). update_with_actor w1 actor p tid u now [] [])
       else bindE (prepare_board_call aid w p name now) (\<lambda>(w1, actor, released, renewed).
              update_with_actor w1 actor p tid u now released renewed)) = Inr (w', r)"
    unfolding ticket_update_def by (elim bindE_Inr1E) blast
  show ?thesis
  proof (cases co)
    case True
    with b obtain w1 actor where a: "coordinator_actor aid w p name = Inr (w1, actor)"
      and u: "update_with_actor w1 actor p tid u now [] [] = Inr (w', r)" by auto
    from tool_world_before [OF lookup_member_effect(1) [OF coordinator_actor_lookup [OF a]] update_contract [OF u]]
    show ?thesis .
  next
    case False
    with b show ?thesis using requirements.call_contract by simp
  qed
qed

text \<open>An annotation, an assignment and an assessment change nothing the contracts speak of.\<close>

lemma append_annotation_fields:
  "same_record t (append_annotation a t)" "status (append_annotation a t) = status t"
  "work (append_annotation a t) = work t" "review_lease (append_annotation a t) = review_lease t"
  "offers (append_annotation a t) = offers t"
  by (simp_all add: append_annotation_def same_record_def Let_def)

lemma annotate_tool:
  assumes "ticket_annotate aid w p name tid k content counts now = Inr (w', r)"
  shows "tool_world now w w'"
proof -
  obtain w1 actor where l: "lookup_member aid w p name = Inr (w1, actor)"
    and rest: "(case get_ticket w1 tid of
         None \<Rightarrow> Inl (ValueError ''ticket not found'')
       | Some t \<Rightarrow>
           bindE (clean_text ''text'' MAX_ANNOTATION_TEXT_CHARS content) (\<lambda>safe.
             case allocate_annotation_id (brd w1) of (aid, b) \<Rightarrow>
               let a = \<lparr> a_id = aid, a_kind = k, a_text = safe, a_at = now, a_agent_id = agent_id actor,
                         a_agent_name = agent_name actor, a_principal_id = pr_id p \<rparr>;
                   t1 = (append_annotation a t)\<lparr>updated_at := Some now\<rparr>;
                   w2 = record_scrub_allows actor now counts (put_ticket tid t1 (w1\<lparr>brd := b\<rparr>))
               in ticket_reply tid True [] [] w2)) = Inr (w', r)"
    using assms unfolding ticket_annotate_def by (elim bindE_Inr1E bindE_Inr2E) auto
  obtain t where g: "get_ticket w1 tid = Some t" using rest by (cases "get_ticket w1 tid") simp_all
  define w2 where "w2 = w1\<lparr>brd := snd (allocate_annotation_id (brd w1))\<rparr>"
  have b: "tickets (brd w2) = tickets (brd w1)" "cfg (brd w2) = cfg (brd w1)" "members (brd w2) = members (brd w1)"
    by (simp_all add: w2_def allocate_annotation_id_def)
  obtain a where w': "w' = record_scrub_allows actor now counts (put_ticket tid ((append_annotation a t)\<lparr>updated_at := Some now\<rparr>) w2)"
    using rest g by (auto simp: allocate_annotation_id_def Let_def w2_def dest: ticket_reply_world)
  have "safe_world now w1 w2"
    using b board_ok_cong [of w2 w1] by (intro safe_world_members) auto
  moreover have "moved now w2 t w2 ((append_annotation a t)\<lparr>updated_at := Some now\<rparr>)"
    using append_annotation_fields [where t = t and a = a] by (intro fewer_offers_moved) (simp_all add: same_record_def)
  moreover have "get_ticket w2 tid = Some t" using g b by (simp add: get_ticket_def)
  ultimately have "safe_world now w1 (put_ticket tid ((append_annotation a t)\<lparr>updated_at := Some now\<rparr>) w2)"
    using moved_store safe_world_trans by blast
  from safe_world_trans [OF lookup_member_effect(1) [OF l] safe_world_trans [OF this record_scrub_allows_safe]]
  show ?thesis unfolding w' by (rule safe_tool_world)
qed

lemma claim_target_safe:
  assumes "claim_target w actor tid k changed now = Inr (w', evs)"
  shows "safe_world now w w'"
proof -
  obtain m where "(if changed then revoke_agent_offers w m now ''ticket_reassigned'' else (w, [])) = (w', evs)"
    using assms unfolding claim_target_def by (elim bindE_Inr1E) (auto split: option.split_asm)
  with revoke_agent_offers_safe [of now w m "''ticket_reassigned''"] show ?thesis by (auto split: if_split_asm)
qed

lemma pin_ticket_fields:
  "same_record t (pin_ticket target t)" "status (pin_ticket target t) = status t" "work (pin_ticket target t) = work t"
  "review_lease (pin_ticket target t) = review_lease t" "offers (pin_ticket target t) = offers t"
  by (simp_all add: pin_ticket_def same_record_def)

lemma restart_dispatch_moved: "moved now w t w (fst (restart_dispatch t))"
proof -
  obtain t1 evs where d: "drop_offer ''ticket_reassigned'' Review (drop_offer ''ticket_reassigned'' Work (t, [])) = (t1, evs)"
    by fastforce
  have "moved now w t w t1" using drop_offers_moved [of now w t _ Review _ Work "[]"] d by (metis fst_conv)
  moreover have "moved now w t1 w (fst (restart_dispatch t))"
    by (rule fewer_offers_moved) (simp_all add: restart_dispatch_def d same_record_def)
  ultimately show ?thesis by (rule moved_trans)
qed

lemma assign_open_safe:
  assumes "assign_open w actor tid t inp key reason now = Inr (w', r)"
  shows "safe_world now w w'"
proof -
  define target where "target = ai_target inp"
  define changed where "changed = (assigned_to_agent_id t \<noteq> target)"
  from assms obtain w1 revoked where c: "(case target of None \<Rightarrow> Inr (w, []) | Some k \<Rightarrow> claim_target w actor tid k changed now) = Inr (w1, revoked)"
    unfolding assign_open_def Let_def target_def changed_def by (elim bindE_Inr2E) blast
  then have s1: "safe_world now w w1" using claim_target_safe by (auto split: option.split_asm)
  from assms c obtain t1 where g: "get_ticket w1 tid = Some t1"
    by (auto simp: assign_open_def Let_def target_def changed_def split: option.split_asm)
  obtain t2 dropped where t2: "(if changed then restart_dispatch (pin_ticket target t1) else (pin_ticket target t1, [])) = (t2, dropped)"
    by fastforce
  define t3 where "t3 = t2\<lparr>updated_at := Some now, coordinator_assignment := Some \<lparr> as_op_key = key, as_reason = reason,
      as_agent_id = target, as_previous = assigned_to_agent_id t, as_at = now, as_by = agent_id actor \<rparr>\<rparr>"
  define again where "again = (if changed \<and> \<not> parked t3 then (tid, Work) # displaced_offers tid revoked else [])"
  have body: "assign_open w actor tid t inp key reason now =
      bindE (foldE (dispatch_one now) again (put_ticket tid t3 w1, revoked @ dropped)) (\<lambda>(w2, evs).
        ticket_reply tid True evs [] w2)"
    using c g t2 unfolding assign_open_def Let_def target_def [symmetric] changed_def [symmetric]
    by (simp add: t3_def again_def)
  obtain evs where d: "foldE (dispatch_one now) again (put_ticket tid t3 w1, revoked @ dropped) = Inr (w', evs)"
    using assms unfolding body by (elim bindE_Inr2E) (auto dest: ticket_reply_world)
  have pin: "moved now w1 t1 w1 (pin_ticket target t1)"
    by (rule fewer_offers_moved) (simp_all add: pin_ticket_fields)
  have "moved now w1 t1 w1 t2"
    using pin restart_dispatch_moved [of now w1 "pin_ticket target t1"] t2 moved_trans
    by (auto split: if_split_asm)
  moreover have "moved now w1 t2 w1 t3" by (rule fewer_offers_moved) (simp_all add: t3_def same_record_def)
  ultimately have "safe_world now w1 (put_ticket tid t3 w1)" using moved_store [OF g moved_trans] by blast
  with s1 dispatch_all_safe [OF d] show ?thesis by (auto intro: safe_world_trans)
qed

lemma assign_tool:
  assumes "ticket_assign aid w p name tid inp now = Inr (w', r)"
  shows "tool_world now w w'"
proof -
  obtain w1 actor key reason where a: "coordinator_actor aid w p name = Inr (w1, actor)"
    and rest: "(case get_ticket w1 tid of
         None \<Rightarrow> Inl (ValueError ''ticket not found'')
       | Some t \<Rightarrow>
           (case prior_assignment t key of
              Some a \<Rightarrow>
                if as_agent_id a \<noteq> ai_target inp
                then Inl (ValueError ''idempotency key conflicts with prior assignment'')
                else ticket_reply tid False [] [] w1
            | None \<Rightarrow>
                if status t \<noteq> ''open'' \<or> claimed_by_agent_id (work t) \<noteq> None \<or> assigned_to_agent_id t \<noteq> ai_expected inp
                then Inl (ValueError ''assignment state precondition failed: ticket must remain open, unclaimed, and at the expected assignee'')
                else assign_open w1 actor tid t inp key reason now)) = Inr (w', r)"
    using assms unfolding ticket_assign_def by (elim bindE_Inr1E bindE_Inr2E) auto
  have "w' = w1 \<or> (\<exists>t. assign_open w1 actor tid t inp key reason now = Inr (w', r))"
    using rest by (auto dest: ticket_reply_world split: option.split_asm if_split_asm)
  with assign_open_safe have "safe_world now w1 w'" by auto
  from safe_world_trans [OF lookup_member_effect(1) [OF coordinator_actor_lookup [OF a]] this]
  show ?thesis by (rule safe_tool_world)
qed

lemma store_progress_moved:
  assumes "store_progress actor p u safe now (w, t) = (w', t')"
  shows "moved now w t w' t'"
proof -
  obtain w1 t1 where a: "supersede_progress now (w, repair_attempt t) = (w1, t1)" by fastforce
  have "moved now w t w (repair_attempt t)"
    by (rule fewer_offers_moved) (simp_all add: repair_attempt_def same_record_def split: option.split)
  moreover have "moved now w (repair_attempt t) w1 t1"
    using a append_bounded_moved by (auto simp: supersede_progress_def split: option.split_asm)
  moreover have "moved now w1 t1 w' t'"
    using assms by (auto simp: store_progress_def a same_record_def intro!: fewer_offers_moved)
  ultimately show ?thesis by (blast intro: moved_trans)
qed

lemma progress_held_safe:
  assumes "progress_held w actor p tid t u now rel = Inr (w', r)" and "get_ticket w tid = Some t"
  shows "safe_world now w w'"
proof (cases "w' = w")
  case False
  then obtain safe where d: "(case store_progress actor p u safe now (w, t) of
                 (w1, t1) \<Rightarrow> ticket_reply tid True rel []
                     (record_scrub_allows actor now (pi_allow_counts u) (put_ticket tid t1 w1))) = Inr (w', r)"
    using assms(1) unfolding progress_held_def by (elim bindE_Inr1E) (auto split: if_split_asm elim!: bindE_Inr1E)
  obtain w1 t1 where st: "store_progress actor p u safe now (w, t) = (w1, t1)" by fastforce
  with d have "w' = record_scrub_allows actor now (pi_allow_counts u) (put_ticket tid t1 w1)"
    by (simp add: ticket_reply_world)
  with safe_world_trans [OF moved_store [OF assms(2) store_progress_moved [OF st]] record_scrub_allows_safe]
  show ?thesis by simp
qed simp

lemma progress_tool:
  assumes "ticket_progress_update aid w p name tid u now = Inr (w', r)"
  shows "tool_world now w w'"
proof -
  obtain w1 rel w2 actor where s: "reap_expired w now True = Inr (w1, rel)"
    and a: "resolve_active_actor aid w1 p name = Inr (w2, actor)"
    and d: "progress_with_actor w2 actor p tid u now rel = Inr (w', r)"
    using assms unfolding ticket_progress_update_def by (elim bindE_Inr1E bindE_Inr2E) auto
  have "w' = w2 \<or> (\<exists>t. get_ticket w2 tid = Some t \<and> progress_held w2 actor p tid t u now rel = Inr (w', r))"
    using d by (auto simp: progress_with_actor_def split: option.split_asm if_split_asm)
  then have "safe_world now w2 w'" using progress_held_safe by auto
  from safe_world_trans [OF safe_world_trans [OF reap_expired_safe [OF s]
      lookup_member_effect(1) [OF resolve_active_actor_lookup [OF a]]] this]
  show ?thesis by (rule safe_tool_world)
qed

lemmas admin_tools = readiness_tool capabilities_tool retire_tool retire_inert_tool update_tool annotate_tool
  assign_tool progress_tool

end
