(* ===== verification/Board_Steps.thy ===== *)
theory Board_Steps
  imports Admin_Contracts Queue_Properties
begin

section \<open>Runs of a board\<close>

text \<open>
  The server as a transition system: one step is one transaction of a tool that did not raise, one
  pass of the expiry timer, or a change of the listeners.  A tool that raises leaves the document
  alone and is no step.  Time never goes back.  What the tools read of the outside world is a
  record of parameters.
\<close>

record services =
  sv_agent_id :: "string \<Rightarrow> string \<Rightarrow> string \<Rightarrow> string"
  sv_preflight :: "ticket \<Rightarrow> string option \<Rightarrow> (string, string) odict option \<Rightarrow> (string \<times> string) option result"
  sv_digest :: "string \<Rightarrow> string"
  sv_dumps :: "json \<Rightarrow> string"
  sv_scrub :: "json \<Rightarrow> unit result"
  sv_url :: "string option \<Rightarrow> string option result"

datatype tool =
    Claim string
  | Unclaim string
  | Renew string "string option"
  | Reap
  | Submit string submit_input
  | Claim_Review string
  | Release_Review string "(string \<times> int) list"
  | Verdict string review_input
  | Cancel string "string option" "(string \<times> int) list"
  | Ask string string question_input
  | Answer string answer_input
  | Set_Readiness json bool
  | Set_Capabilities json
  | Retire "string option"
  | Retire_Inert
  | Update string update_input
  | Annotate string string string "(string \<times> int) list"
  | Assign string assign_input
  | Progress string progress_input

definition run_tool :: "services \<Rightarrow> tool \<Rightarrow> world \<Rightarrow> principal \<Rightarrow> string \<Rightarrow> time \<Rightarrow> (world \<times> reply) result" where
  "run_tool sv c w p name now =
     (case c of
        Claim tid \<Rightarrow> ticket_claim (sv_agent_id sv) w p name tid now
      | Unclaim tid \<Rightarrow> ticket_unclaim (sv_agent_id sv) w p name tid now
      | Renew tid source \<Rightarrow> lease_renew (sv_agent_id sv) w p (Some name) tid source now
      | Reap \<Rightarrow> board_reap w p now
      | Submit tid inp \<Rightarrow> ticket_submit (sv_agent_id sv) (sv_preflight sv) w p name tid inp now
      | Claim_Review tid \<Rightarrow> ticket_review_claim (sv_agent_id sv) w p name tid now
      | Release_Review tid counts \<Rightarrow> ticket_review_release (sv_agent_id sv) w p name tid counts now
      | Verdict tid inp \<Rightarrow> ticket_review (sv_agent_id sv) (sv_digest sv) w p name tid inp now
      | Cancel tid reason counts \<Rightarrow> ticket_cancel (sv_agent_id sv) w p name tid reason counts now
      | Ask tid rid inp \<Rightarrow> ticket_request_human (sv_agent_id sv) (sv_scrub sv) (sv_url sv) rid w p name tid inp now
      | Answer tid inp \<Rightarrow> ticket_human_resolve (sv_agent_id sv) (sv_dumps sv) (sv_scrub sv) w p name tid inp now
      | Set_Readiness v replace \<Rightarrow> agent_readiness_set (sv_agent_id sv) w p name v replace now
      | Set_Capabilities v \<Rightarrow> agent_capabilities_set (sv_agent_id sv) w p name v now
      | Retire target \<Rightarrow> agent_retire (sv_agent_id sv) w p name target now
      | Retire_Inert \<Rightarrow> agent_retire_inert (sv_agent_id sv) w p name now
      | Update tid inp \<Rightarrow> ticket_update (sv_agent_id sv) w p name tid inp now
      | Annotate tid k content counts \<Rightarrow> ticket_annotate (sv_agent_id sv) w p name tid k content counts now
      | Assign tid inp \<Rightarrow> ticket_assign (sv_agent_id sv) w p name tid inp now
      | Progress tid inp \<Rightarrow> ticket_progress_update (sv_agent_id sv) w p name tid inp now)"

text \<open>
  The calls that keep seats exclusive: claims by offer, and cancellation where no review is in
  progress.  The operator's override and a board without dispatch make no promise.
\<close>

definition by_offer :: "services \<Rightarrow> tool \<Rightarrow> world \<Rightarrow> principal \<Rightarrow> string \<Rightarrow> time \<Rightarrow> bool" where
  "by_offer sv c w p name now =
     (case c of
        Claim tid \<Rightarrow> offered_claim (sv_agent_id sv) w p name now
      | Claim_Review tid \<Rightarrow> offered_review (sv_agent_id sv) w p name now
      | Cancel tid reason counts \<Rightarrow>
          (case get_ticket w tid of None \<Rightarrow> True | Some t \<Rightarrow> review_lease t = RS_Absent)
      | _ \<Rightarrow> True)"

inductive board_step :: "services \<Rightarrow> bool \<Rightarrow> time \<times> world \<Rightarrow> time \<times> world \<Rightarrow> bool" for sv ex where
  call: "now \<le> now' \<Longrightarrow> run_tool sv c w p name now' = Inr (w', r) \<Longrightarrow>
     ex \<longrightarrow> by_offer sv c w p name now' \<Longrightarrow> board_step sv ex (now, w) (now', w')"
| timer: "now \<le> now' \<Longrightarrow> check_and_reap_expired w now' = Inr (w', evs) \<Longrightarrow> board_step sv ex (now, w) (now', w')"
| listen: "now \<le> now' \<Longrightarrow> board_step sv ex (now, w) (now', register_listener b a w)"
| unlisten: "now \<le> now' \<Longrightarrow> board_step sv ex (now, w) (now', unregister_listener b a w)"

inductive_cases board_stepE: "board_step sv ex (now, w) (now', w')"

inductive board_run :: "services \<Rightarrow> bool \<Rightarrow> time \<times> world \<Rightarrow> time \<times> world \<Rightarrow> bool" for sv ex where
  start: "board_run sv ex s s"
| step: "board_run sv ex s s' \<Longrightarrow> board_step sv ex s' s'' \<Longrightarrow> board_run sv ex s s''"

subsection \<open>Every step keeps the contracts\<close>

text \<open>The prepared tools, through the contract of the preamble.\<close>

lemma unclaim_tool: "ticket_unclaim aid w p name tid now = Inr (w', r) \<Longrightarrow> tool_world now w w'"
  unfolding ticket_unclaim_def by (erule bindE_Inr1E, erule unclaim.call_contract)

lemma submit_tool: "ticket_submit aid pf w p name tid si now = Inr (w', r) \<Longrightarrow> tool_world now w w'"
  unfolding ticket_submit_def by (erule bindE_Inr1E, erule submission.call_contract)

lemma release_tool: "ticket_review_release aid w p name tid counts now = Inr (w', r) \<Longrightarrow> tool_world now w w'"
  unfolding ticket_review_release_def by (erule bindE_Inr1E, erule review_release.call_contract)

lemma review_tool: "ticket_review aid dig w p name tid ri now = Inr (w', r) \<Longrightarrow> tool_world now w w'"
  unfolding ticket_review_def by (erule bindE_Inr1E, erule bindE_Inr1E, erule review.call_contract)

lemma ask_tool: "ticket_request_human aid scrub url rid w p name tid qi now = Inr (w', r) \<Longrightarrow> tool_world now w w'"
  unfolding ticket_request_human_def
  by (erule bindE_Inr1E, erule bindE_Inr1E, erule bindE_Inr1E, erule bindE_Inr1E, erule request.call_contract)

lemma answer_tool: "ticket_human_resolve aid dumps scrub w p name tid ai now = Inr (w', r) \<Longrightarrow> tool_world now w w'"
  unfolding ticket_human_resolve_def
  by (erule bindE_Inr1E, erule bindE_Inr1E, erule bindE_Inr1E, erule resolve.call_contract)

lemmas prepared_tools = unclaim_tool submit_tool release_tool review_tool ask_tool answer_tool

lemma run_tool_contract:
  assumes c: "run_tool sv c w p name now = Inr (w', r)" and ttl: "0 < offer_ttl_s (policy_of (brd w))"
  shows "tool_contract (by_offer sv c w p name now) now w w'"
proof (cases c)
  case (Claim tid)
  with c ticket_claim_contract show ?thesis by (simp add: run_tool_def by_offer_def)
next
  case (Claim_Review tid)
  with c ticket_review_claim_contract show ?thesis by (simp add: run_tool_def by_offer_def)
next
  case (Cancel tid reason counts)
  with c have "ticket_cancel (sv_agent_id sv) w p name tid reason counts now = Inr (w', r)"
    by (simp add: run_tool_def)
  then show ?thesis by (rule ticket_cancel_contract) (simp add: by_offer_def Cancel)
next
  case (Renew tid source)
  with c show ?thesis by (intro lease_renew_contract [OF _ ttl]) (simp add: run_tool_def)
next
  case Reap
  with c show ?thesis by (intro safe_contract board_reap_safe) (simp add: run_tool_def)
qed (use c prepared_tools [THEN tool_world_contract] admin_tools [THEN tool_world_contract] in \<open>simp_all add: run_tool_def\<close>)

lemma timer_safe:
  assumes "check_and_reap_expired w now = Inr (w', evs)"
  shows "safe_world now w w'"
proof -
  have "w' = w \<or> (\<exists>e. reap_expired w now True = Inr (w', e)) \<or>
      (\<exists>w1 e e'. reap_expired w now True = Inr (w1, e) \<and> redispatch_queue w1 now = Inr (w', e'))"
    using assms by (auto simp: check_and_reap_expired_def reap_expired_offers_in_doc_def split: if_split_asm)
  then show ?thesis using reap_expired_safe redispatch_queue_safe safe_world_trans safe_world_refl by metis
qed

lemma listeners_safe: "safe_world now w (register_listener b a w)" "safe_world now w (unregister_listener b a w)"
  by (rule safe_world_members, simp_all add: register_listener_def unregister_listener_def board_ok_def
      get_ticket_def get_member_def)+

lemma board_step_contract:
  assumes "board_step sv ex s s'" and "0 < offer_ttl_s (policy_of (brd (snd s)))"
  shows "tool_contract ex (fst s') (snd s) (snd s')" and "fst s \<le> fst s'"
proof -
  from assms have "tool_contract ex (fst s') (snd s) (snd s') \<and> fst s \<le> fst s'"
  proof (cases rule: board_step.cases)
    case (call now now' c w p name w' r)
    from run_tool_contract [OF call(4)] call assms(2) show ?thesis by (auto simp: tool_contract_def)
  next
    case (timer now now' w w' evs)
    then show ?thesis using safe_contract [OF timer_safe] by simp
  qed (simp_all add: listeners_safe [THEN safe_contract])
  then show "tool_contract ex (fst s') (snd s) (snd s')" and "fst s \<le> fst s'" by simp_all
qed

subsection \<open>Runs\<close>

text \<open>
  What every run preserves: a well-formed, tidy document with the same configuration and the same
  tickets; on a run whose claims go by offer also the exclusive seats.
\<close>

definition sound_board :: "world \<Rightarrow> bool" where
  "sound_board w \<longleftrightarrow> board_ok w \<and> tidy_board w \<and> 0 < offer_ttl_s (policy_of (brd w))"

lemma step_sound:
  assumes "board_step sv ex s s'" "sound_board (snd s)"
  shows "sound_board (snd s')" "cfg (brd (snd s')) = cfg (brd (snd s))"
    "dkeys (tickets (brd (snd s'))) = dkeys (tickets (brd (snd s)))"
  using board_step_contract(1) [OF assms(1)] assms(2)
  by (simp_all add: tool_contract_def sound_world_def sound_board_def)

lemma step_exclusive:
  assumes "board_step sv True s s'" "sound_board (snd s)" "seats_exclusive (snd s) (fst s)"
  shows "seats_exclusive (snd s') (fst s')"
  using board_step_contract [OF assms(1)] assms(2,3) seats_exclusive_later
  by (simp add: tool_contract_def tool_world_def kept_world_def sound_board_def)

lemma step_edges:
  assumes "board_step sv ex s s'" "sound_board (snd s)" "get_ticket (snd s) k = Some t"
  obtains t' where "get_ticket (snd s') k = Some t'" "tool_edge (review_policy (cfg (brd (snd s)))) t t'"
  using board_step_contract(1) [OF assms(1)] assms(2,3)
  by (auto simp: tool_contract_def sound_world_def sound_board_def board_edges_def)

lemma run_sound:
  assumes "board_run sv ex s s'" "sound_board (snd s)"
  shows "sound_board (snd s') \<and> cfg (brd (snd s')) = cfg (brd (snd s)) \<and>
    dkeys (tickets (brd (snd s'))) = dkeys (tickets (brd (snd s)))"
  using assms by (induction rule: board_run.induct) (use step_sound in auto)

lemma run_exclusive:
  assumes "board_run sv True s s'" "sound_board (snd s)" "seats_exclusive (snd s) (fst s)"
  shows "seats_exclusive (snd s') (fst s')"
  using assms by (induction rule: board_run.induct) (use run_sound step_exclusive in blast)+

lemma run_frozen:
  assumes "board_run sv ex s s'" "sound_board (snd s)" "get_ticket (snd s) k = Some t"
    "status t \<in> set TERMINAL_TICKET_STATES"
  shows "\<exists>t'. get_ticket (snd s') k = Some t' \<and> status t' = status t \<and> same_record t t'"
  using assms
proof (induction rule: board_run.induct)
  case (step s s1 s2)
  then obtain t1 where t1: "get_ticket (snd s1) k = Some t1" "status t1 = status t" "same_record t t1" by blast
  have "sound_board (snd s1)" using run_sound [OF step.hyps(1) step.prems(1)] by simp
  from step_edges [OF step.hyps(2) this t1(1)] obtain t2 where
    t2: "get_ticket (snd s2) k = Some t2" "tool_edge (review_policy (cfg (brd (snd s1)))) t1 t2" by blast
  from tool_edge_terminal [OF t2(2)] t1 step.prems(3) t2(1) same_record_trans show ?case by metis
qed simp

definition closed_reviewed :: "world \<Rightarrow> bool" where
  "closed_reviewed w \<longleftrightarrow>
     (\<forall>k t. get_ticket w k = Some t \<longrightarrow> status t = ''closed'' \<longrightarrow> independent (review_policy (cfg (brd w))) t)"

lemma step_closed_reviewed:
  assumes st: "board_step sv ex s s'" and ok: "sound_board (snd s)" and c: "closed_reviewed (snd s)"
  shows "closed_reviewed (snd s')"
  unfolding closed_reviewed_def
proof (intro allI impI)
  fix k t' assume g: "get_ticket (snd s') k = Some t'" and cl: "status t' = ''closed''"
  note k = step_sound [OF st ok]
  have "get_ticket (snd s) k \<noteq> None"
    using g k(3) dget_in_keys [of "tickets (brd (snd s'))" k] dget_in_keys [of "tickets (brd (snd s))" k]
    by (simp add: get_ticket_def)
  then obtain t where t: "get_ticket (snd s) k = Some t" by blast
  from step_edges [OF st ok t] g have "tool_edge (review_policy (cfg (brd (snd s)))) t t'" by auto
  from tool_edge_closed [OF this cl] c t independent_record k(2)
  show "independent (review_policy (cfg (brd (snd s')))) t'"
    unfolding closed_reviewed_def by auto
qed

lemma run_closed_reviewed:
  assumes "board_run sv ex s s'" "sound_board (snd s)" "closed_reviewed (snd s)"
  shows "closed_reviewed (snd s')"
  using assms by (induction rule: board_run.induct) (use run_sound step_closed_reviewed in blast)+

end
