(* ===== verification/Board_Properties.thy ===== *)
theory Board_Properties
  imports Board_Steps
begin

section \<open>What holds on every run\<close>

subsection \<open>A sample run\<close>

text \<open>
  A board without dispatch (no seat has explicit capabilities), one ticket in work and one under
  review, and the run on which the reviewer approves.
\<close>

definition quiet_seat :: "string \<Rightarrow> string \<Rightarrow> string \<Rightarrow> seat" where
  "quiet_seat a p r = (sample_seat a p r)\<lparr>capabilities_explicit := False\<rparr>"

definition quiet_world :: "ticket list \<Rightarrow> world" where
  "quiet_world ts = (sample_world ts)\<lparr>brd := (brd (sample_world ts))\<lparr>members :=
     [(''w1'', quiet_seat ''w1'' ''p1'' ''worker''), (''r1'', quiet_seat ''r1'' ''p2'' ''reviewer'')]\<rparr>\<rparr>"

definition sample_services :: services where
  "sample_services = \<lparr> sv_agent_id = (\<lambda>b p n. n), sv_preflight = (\<lambda>t n pf. Inr None), sv_digest = (\<lambda>s. s),
     sv_dumps = (\<lambda>j. []), sv_scrub = (\<lambda>j. Inr ()), sv_url = (\<lambda>u. Inr u) \<rparr>"

definition sample_worker :: principal where
  "sample_worker = \<lparr> pr_id = ''p1'', pr_scopes = [''board:write''] \<rparr>"

definition sample_reviewer :: principal where
  "sample_reviewer = \<lparr> pr_id = ''p2'', pr_scopes = [''board:review''] \<rparr>"

definition verdict_input :: "string \<Rightarrow> string option \<Rightarrow> review_input" where
  "verdict_input v notes = \<lparr> ri_verdict = v, ri_notes = notes, ri_fix = None, ri_usage = None, ri_allow_counts = [] \<rparr>"

definition result_world :: "(world \<times> reply) result \<Rightarrow> world \<Rightarrow> world" where
  "result_world r w = (case r of Inr (w', _) \<Rightarrow> w' | Inl _ \<Rightarrow> w)"

abbreviation approve_T2 :: "world \<Rightarrow> (world \<times> reply) result" where
  "approve_T2 w \<equiv> run_tool sample_services (Verdict ''T2'' (verdict_input ''approve'' (Some ''ok''))) w sample_reviewer ''r1'' 5"

definition review_board :: world where
  "review_board = quiet_world [claimed_ticket, submitted_ticket]"

definition approved_board :: world where
  "approved_board = result_world (approve_T2 review_board) review_board"

lemma approve_returns: "\<exists>r. approve_T2 review_board = Inr (approved_board, r)"
proof -
  have "case approve_T2 review_board of Inr _ \<Rightarrow> True | Inl _ \<Rightarrow> False" by code_simp
  then show ?thesis by (auto simp: approved_board_def result_world_def split: sum.splits)
qed

lemma approved_tickets:
  "map_option status (get_ticket approved_board ''T2'') = Some ''closed''"
  "map_option status (get_ticket approved_board ''T3'') = Some ''claimed''"
  by code_simp+

lemma review_run: "board_run sample_services True (0, review_board) (5, approved_board)"
proof -
  from approve_returns obtain r where r: "approve_T2 review_board = Inr (approved_board, r)" by blast
  show ?thesis
    by (rule board_run.step [OF board_run.start], rule board_step.call [OF _ r]) (simp_all add: by_offer_def)
qed

lemma review_board_get:
  "get_ticket review_board k = (if k = ''T3'' then Some claimed_ticket else if k = ''T2'' then Some submitted_ticket else None)"
  by (simp add: get_ticket_def review_board_def quiet_world_def sample_world_def claimed_ticket_def
      submitted_ticket_def sample_ticket_def)

lemma review_board_sound: "sound_board review_board"
proof -
  have "board_ok review_board"
    by (simp add: board_ok_def dict_ok_def dkeys_def get_member_def review_board_get)
      (simp add: review_board_def quiet_world_def quiet_seat_def sample_defs)
  moreover have "tidy claimed_ticket" "tidy submitted_ticket"
    by (simp_all add: tidy_def tidy_work_def agreeing_def claimed_ticket_def submitted_ticket_def sample_ticket_def
        no_work_lease_def PRE_SUBMISSION_STATES_def)
  moreover have "0 < offer_ttl_s (policy_of (brd review_board))"
    by (simp add: review_board_def quiet_world_def sample_defs)
  ultimately show ?thesis by (simp add: sound_board_def tidy_board_def review_board_get)
qed

lemma review_board_exclusive: "seats_exclusive review_board now"
  by (auto simp: seats_exclusive_def review_board_get occupies_def work_commitment_def review_commitment_def
      offer_commitment_def submitted_ticket_def sample_ticket_def claimed_ticket_def no_work_lease_def)

lemma review_board_closed: "closed_reviewed review_board"
  by (simp add: closed_reviewed_def review_board_get claimed_ticket_def submitted_ticket_def sample_ticket_def)

subsection \<open>The properties\<close>





text \<open>
  C2: separation of duties. On every run from a board whose closed tickets were reviewed
  independently, a closed ticket carries an approving verdict by another seat than the one that
  submitted it and, under the strict policy, by another principal.
\<close>

theorem closed_tickets_are_independently_reviewed:
  assumes "board_run sv ex (now, w) (now', w')" and "sound_board w" and "closed_reviewed w"
    and "get_ticket w' k = Some t" and "status t = ''closed''"
  shows "\<exists>a p b v. submitted_by_agent_id t = Some a \<and> submitted_by_principal_id t = Some p \<and>
    reviewed_by_agent_id t = Some b \<and> last_verdict t = Some v \<and> vi_verdict v = ''approve'' \<and> b \<noteq> a \<and>
    (review_policy (cfg (brd w)) = ''strict'' \<longrightarrow> vi_principal_id v \<noteq> p)"
  using run_closed_reviewed [OF assms(1)] run_sound [OF assms(1)] assms(2-5)
  by (simp add: closed_reviewed_def independent_def)

theorem closed_tickets_are_independently_reviewed_witness:
  "\<exists>t b v. get_ticket approved_board ''T2'' = Some t \<and> submitted_by_principal_id t = Some ''p1'' \<and>
     reviewed_by_agent_id t = Some b \<and> last_verdict t = Some v \<and> vi_principal_id v \<noteq> ''p1''"
proof -
  from approved_tickets(1) obtain t where t: "get_ticket approved_board ''T2'' = Some t" "status t = ''closed''"
    by auto
  have p: "map_option submitted_by_principal_id (get_ticket approved_board ''T2'') = Some (Some ''p1'')"
    by code_simp
  have "review_policy (cfg (brd review_board)) = ''strict''"
    by (simp add: review_board_def quiet_world_def sample_defs)
  with closed_tickets_are_independently_reviewed [OF review_run review_board_sound review_board_closed t] t(1) p
  show ?thesis by auto
qed


definition reaped_board :: world where
  "reaped_board = result_world (run_tool sample_services Reap approved_board sample_worker ''w1'' 7) approved_board"

lemma reap_step: "board_step sample_services True (5, approved_board) (7, reaped_board)"
proof -
  have "case run_tool sample_services Reap approved_board sample_worker ''w1'' 7 of Inr _ \<Rightarrow> True | Inl _ \<Rightarrow> False"
    by code_simp
  then obtain r where r: "run_tool sample_services Reap approved_board sample_worker ''w1'' 7 = Inr (reaped_board, r)"
    by (auto simp: reaped_board_def result_world_def split: sum.splits)
  show ?thesis by (rule board_step.call [OF _ r]) (simp_all add: by_offer_def)
qed


lemma tidy_epochs_ok: "tidy t \<Longrightarrow> epochs_ok t"
  by (auto simp: epochs_ok_def tidy_def tidy_work_def tidy_review_def agreeing_def)

text \<open>
  C4: the expiry timer can never be blocked. On every board that a run reaches from a sound one, a
  reap returns, and afterwards no offer has lapsed and every ticket in work has a lease that is
  running or has none: whatever the seats do or stop doing, the next reap frees what they held.
\<close>

theorem reap_always_returns_and_frees:
  assumes "board_run sv ex (now, w) (now', w')" and "sound_board w"
  shows "\<exists>w2 evs. reap_expired w' now' rd = Inr (w2, evs) \<and>
    (\<forall>k t. get_ticket w2 k = Some t \<longrightarrow>
       (\<forall>kd off. offers t kd = Some off \<longrightarrow> now' < o_expires_at_epoch off) \<and>
       (pre_submission t \<longrightarrow> lease_expires_at_epoch (work t) = E_Null \<or>
          (\<exists>n. lease_expires_at_epoch (work t) = E_Num n \<and> now' < n)))"
proof -
  have so: "sound_board w'" using run_sound [OF assms(1)] assms(2) by simp
  then have "board_all epochs_ok w'"
    by (simp add: board_all_def sound_board_def tidy_board_def tidy_epochs_ok)
  from reap_expired_numeric [OF this] obtain w2 evs where r: "reap_expired w' now' rd = Inr (w2, evs)"
    by (metis returnsD prod.collapse)
  have ok: "board_ok w'" "0 < offer_ttl_s (policy_of (brd w'))" using so by (simp_all add: sound_board_def)
  have td: "tidy_board w2" using reap_expired_safe [OF r] so by (simp add: safe_world_def sound_board_def)
  have "(\<forall>kd off. offers t kd = Some off \<longrightarrow> now' < o_expires_at_epoch off) \<and>
       (pre_submission t \<longrightarrow> lease_expires_at_epoch (work t) = E_Null \<or>
          (\<exists>n. lease_expires_at_epoch (work t) = E_Num n \<and> now' < n))" if g: "get_ticket w2 k = Some t" for k t
  proof -
    have s: "settled now' t" using reap_all_settled [OF r ok] g by (simp add: board_all_def)
    have "tidy t" using td g by (auto simp: tidy_board_def)
    with s show ?thesis
      by (auto simp: settled_def offers_live_def tidy_def tidy_work_def agreeing_def work_lease_lapsed_def)
  qed
  with r show ?thesis by blast
qed

theorem reap_always_returns_and_frees_witness:
  "\<exists>w2 evs. reap_expired approved_board 5 True = Inr (w2, evs) \<and>
     (\<forall>t. get_ticket w2 ''T3'' = Some t \<longrightarrow> pre_submission t \<longrightarrow>
        lease_expires_at_epoch (work t) = E_Null \<or> (\<exists>n. lease_expires_at_epoch (work t) = E_Num n \<and> 5 < n))"
  using reap_always_returns_and_frees [OF review_run review_board_sound, of True] by blast

end
