(* ===== verification/Tool_Properties.thy ===== *)
theory Tool_Properties
  imports Board_Properties
begin

section \<open>What the single tools promise\<close>

subsection \<open>Claiming\<close>

lemma accept_offer_takes:
  assumes "accept_offer k st actor now (w, t, evs) = (w', t', evs')"
  shows "offers t' k = None"
proof (cases "offers t k")
  case None
  with assms show ?thesis by (auto simp: accept_offer_def)
next
  case (Some off)
  define h where "h = HE_Dispatch ((entry0 ''accepted'')
     \<lparr>d_kind := Some k, d_agent_id := Some (agent_id actor), d_at := Some now\<rparr>)"
  obtain w1 t1 where ab: "append_bounded_history H_Dispatch h (w, t\<lparr>offers := (offers t)(k := None)\<rparr>) = (w1, t1)"
    by fastforce
  have "offers t1 k = None"
    using append_bounded_frame [of H_Dispatch h w "t\<lparr>offers := (offers t)(k := None)\<rparr>"] by (simp add: ab)
  then show ?thesis using assms Some ab by (auto simp: accept_offer_def h_def [symmetric])
qed

lemma get_modify_member [simp]: "get_ticket (modify_member k f w) tid = get_ticket w tid"
  by (simp add: modify_member_def split: option.split)

lemma claim_open_result:
  assumes g: "get_ticket w tid = Some t" and st: "status t = ''open''"
  shows "\<exists>w' t' evs ren. claim_open w tid t actor p now co rel = Inr (w', Done t' ''open'' ''claimed'' evs ren None) \<and>
    get_ticket w' tid = Some t' \<and> status t' = ''claimed'' \<and>
    claimed_by_agent_id (work t') = Some (agent_id actor) \<and> claimed_by_principal_id (work t') = Some (pr_id p) \<and>
    lease_expires_at_epoch (work t') = E_Num (now + secs (claim_ttl_s (cfg (brd w)))) \<and>
    (dispatch_enabled (brd w) \<longrightarrow> offers t' Work = None)"
proof -
  obtain w1 t1 evs1 where a: "(if dispatch_enabled (brd w) then accept_offer Work ''claimed'' actor now (w, t, rel)
      else (w, t, rel)) = (w1, t1, evs1)" by (metis prod_cases3)
  have m1: "moved now w t w1 t1" "brd w1 = brd w" "dispatch_enabled (brd w) \<Longrightarrow> offers t1 Work = None"
    using a accept_offer_moved [of Work "''claimed''" actor now w t rel w1 t1 evs1] accept_offer_takes
    by (auto split: if_split_asm)
  obtain w2 ren where tc: "touch_unless co actor now (put_ticket tid t1 w1) = (w2, ren)" by fastforce
  have st1: "status t1 = ''open''" "\<not> pre_submission t1"
    using m1 st by (auto simp: moved_def lapse_def same_record_def pre_submission_iff)
  obtain f where cf: "cfg (brd w2) = cfg (brd (put_ticket tid t1 w1))"
    and f: "get_ticket w2 = (\<lambda>k. map_option f (get_ticket (put_ticket tid t1 w1) k))" "only_renews now f"
    by (rule touch_unless_effect [OF tc])
  have g2: "get_ticket w2 tid = Some t1" using f st1(2) by (simp add: only_renews_def)
  obtain w3 t3 evs3 where b: "begin_attempt now (w2, t1, evs1) = (w3, t3, evs3)" by (metis prod_cases3)
  note q = begin_attempt_quiet [OF b]
  define t4 where "t4 = take_work actor p now (claim_ttl_s (cfg (brd w3))) t3"
  have "claim_open w tid t actor p now co rel =
      Inr (modify_member (agent_id actor) (\<lambda>m. m\<lparr>last_work_at := Some now\<rparr>) (put_ticket tid t4 w3),
           Done t4 ''open'' ''claimed'' evs3 ren None)"
    by (simp add: claim_open_def a tc g2 b t4_def claim_reply_def)
  moreover have "cfg (brd w3) = cfg (brd w)" "offers t3 = offers t1"
    using q cf m1(2) by (simp_all add: quiet_def)
  ultimately show ?thesis
    using m1(3) by (simp add: t4_def take_work_def)
qed



definition sample_offer :: offer where
  "sample_offer = \<lparr> o_ticket_id = ''T1'', o_kind = Work, o_agent_id = ''w1'', o_agent_name = ''w1'',
     o_offered_at = 0, o_expires_at = secs 120, o_expires_at_epoch = secs 120, o_cycle = 1 \<rparr>"

definition offered_ticket :: ticket where
  "offered_ticket = open_ticket\<lparr>offers := (\<lambda>_. None)(Work := Some sample_offer)\<rparr>"

definition offer_board :: world where
  "offer_board = sample_world [offered_ticket]"

lemma offer_board_facts:
  "get_ticket offer_board ''T1'' = Some offered_ticket" "status offered_ticket = ''open''" "\<not> parked offered_ticket"
  "claim_gate_bypass (brd offer_board) sample_worker = Inr False" "dispatch_enabled (brd offer_board)"
  "dispatch_candidate_is_eligible offer_board offered_ticket (sample_seat ''w1'' ''p1'' ''worker'') 5 Work = Inr True"
  "offers offered_ticket Work = Some sample_offer"
proof -
  show "get_ticket offer_board ''T1'' = Some offered_ticket"
    by (simp add: offer_board_def sample_world_def get_ticket_def offered_ticket_def open_ticket_def sample_ticket_def)
  show "status offered_ticket = ''open''" "\<not> parked offered_ticket"
    by (simp_all add: offered_ticket_def open_ticket_def sample_ticket_def)
  show "claim_gate_bypass (brd offer_board) sample_worker = Inr False" by code_simp
  show "dispatch_enabled (brd offer_board)" by code_simp
  show "dispatch_candidate_is_eligible offer_board offered_ticket (sample_seat ''w1'' ''p1'' ''worker'') 5 Work = Inr True"
    by (simp add: eligible_iff seat_evals busy_evals live_evals sample_defs offer_board_def offered_ticket_def)
  show "offers offered_ticket Work = Some sample_offer"
    by (simp add: offered_ticket_def)
qed


lemma offer_board_claims:
  "\<exists>w' t' evs ren. claim_with_actor offer_board (sample_seat ''w1'' ''p1'' ''worker'') sample_worker ''T1'' 5 False [] =
      Inr (w', Done t' ''open'' ''claimed'' evs ren None)"
proof -
  have "offered_claim_gate offer_board offered_ticket (sample_seat ''w1'' ''p1'' ''worker'') 5 False = Inr None"
    using offer_board_facts(6,7) by (auto simp: offered_claim_gate_def eligible_iff matches_requirements_iff sample_seat_def sample_offer_def)
  then have "claim_with_actor offer_board (sample_seat ''w1'' ''p1'' ''worker'') sample_worker ''T1'' 5 False [] =
      claim_open offer_board ''T1'' offered_ticket (sample_seat ''w1'' ''p1'' ''worker'') sample_worker 5 False []"
    using offer_board_facts by (simp add: claim_with_actor_def)
  with claim_open_result [OF offer_board_facts(1,2), of _ _ 5 False "[]"] show ?thesis by metis
qed


end
