(* ===== verification/Review_Properties.thy ===== *)
theory Review_Properties
  imports Tool_Properties
begin

section \<open>Submission, verdicts, cancellation\<close>

subsection \<open>Submission\<close>

lemma append_bounded_last:
  assumes "0 < inline_history_limit (cfg (brd w))" and "append_bounded_history f e (w, t) = (w', t')"
  shows "history t' f \<noteq> [] \<and> last (history t' f) = e"
  using assms by (auto simp: append_bounded_history_def Let_def split: if_split_asm)

lemma store_submission_keeps [simp]:
  "history (store_submission s now t) f = history t f" "status (store_submission s now t) = ''submitted''"
  "rejection_count (store_submission s now t) = rejection_count t"
  by (simp_all add: store_submission_def)

text \<open>What the sweeps after a tool leave of the ticket it stored.\<close>

lemma stored_then_swept:
  assumes s: "safe_world now (put_ticket tid t w) w1" and ok: "board_ok (put_ticket tid t w)"
    and g: "get_ticket (record_scrub_allows actor now' counts w1) tid = Some t'"
  shows "lapse t t'"
proof -
  have "get_ticket w1 tid = Some t'"
    using g get_ticket_tickets [OF record_scrub_allows_frame(1)] by simp
  with safe_lapse [OF s ok, of tid t] show ?thesis by simp
qed

text \<open>
  C6: a code ticket is submitted only with a verified commit. When its required fields name the
  branch and commit, a submission that succeeds came from the executor with a proof for exactly the
  one commit its notes name, and that branch and commit end the submission history of the ticket.
\<close>

theorem code_submission_is_verified:
  assumes c: "submit_with_actor (server_preflight branch_lines exact_lines proof_ok) w actor p tid inp now rel ren
      = Inr (w', Done t' old new evs rn ev)"
    and g: "get_ticket w tid = Some t" and rf: "''branch_and_commit'' \<in> set (required_fields t)"
    and ok: "board_ok w" and lim: "0 < inline_history_limit (cfg (brd w))"
  shows "\<exists>br sha pf s. exact_lines (case si_notes inp of None \<Rightarrow> [] | Some n \<Rightarrow> n) = [(br, sha)] \<and>
    si_preflight inp = Some pf \<and> proof_ok (dget pf ''proof'') (expected_preflight br (casefold sha)) \<and>
    claimed_by_agent_id (work t) = Some (agent_id actor) \<and> status t' = ''submitted'' \<and>
    last (history t' H_Submission) = HE_Submission s \<and> s_branch s = Some br \<and>
    s_commit_hash s = Some (casefold sha) \<and> s_submitted_by_agent_id s = agent_id actor"
proof -
  obtain v where v: "check_preflight branch_lines exact_lines proof_ok (required_fields t) (si_notes inp) (si_preflight inp) = Inr v"
    and ca: "claimed_by_agent_id (work t) = Some (agent_id actor)" and ps: "pre_submission t"
    and h: "submit_held w tid t actor p inp v now rel ren = Inr (w', Done t' old new evs rn ev)"
    using c g by (auto simp: submit_with_actor_def server_preflight_def split: if_split_asm)
  define n where "n = (case si_notes inp of None \<Rightarrow> [] | Some n \<Rightarrow> n)"
  from v rf have "length (exact_lines n) = 1"
    by (auto simp: check_preflight_def n_def Let_def split: if_split_asm)
  then obtain br sha where e: "exact_lines n = [(br, sha)]" by (cases "exact_lines n") auto
  from v rf e obtain pf where pf: "si_preflight inp = Some pf"
    "proof_ok (dget pf ''proof'') (expected_preflight br (casefold sha))" and v': "v = Some (br, casefold sha)"
    by (auto simp: check_preflight_def n_def [symmetric] Let_def split: if_split_asm option.split_asm)
  obtain sub u w1 t1 w2 t2 reset w5 ev' evs' t6 where
    a: "append_bounded_history H_Submission (HE_Submission sub) (w, t\<lparr>model_usage := u\<rparr>) = (w1, t1)"
    and rs: "reset_ticket_progress now ''submitted'' (w1, store_submission sub now t1) = ((w2, t2), reset)"
    and d: "dispatch_and_requeue tid kind.Review None now
       (if si_stay_active inp then put_ticket tid (end_work_lease t2) w2
        else hand_off actor now (put_ticket tid (end_work_lease t2) w2)) = Inr (w5, ev', evs')"
    and w': "w' = record_scrub_allows actor now (si_allow_counts inp) w5"
    and g6: "get_ticket w' tid = Some t6"
    and r: "Done t' old new evs rn ev = Done t6 (status t) ''submitted'' (rel @ option_list reset @ evs') ren ev'"
    and sb: "s_branch sub = map_option fst v" "s_commit_hash sub = map_option snd v"
      "s_submitted_by_agent_id sub = agent_id actor"
    by (rule submit_held_shape [OF h])
  note q = reset_progress_quiet [OF rs]
  have b1: "brd w1 = brd w" "ticket_id t1 = ticket_id t"
    using append_bounded_frame [of H_Submission "HE_Submission sub" w "t\<lparr>model_usage := u\<rparr>"] by (simp_all add: a)
  have hist: "last (history (end_work_lease t2) H_Submission) = HE_Submission sub" "status (end_work_lease t2) = ''submitted''"
    using append_bounded_last [OF lim a] q
    by (simp_all add: quiet_def same_ticket_def same_record_def end_work_lease_def)
  have "board_ok (put_ticket tid (end_work_lease t2) w2)"
  proof (rule board_ok_put_ticket)
    show "board_ok w2" using ok board_ok_cong [of w2 w] q b1 by (simp add: quiet_def)
    show "ticket_id (end_work_lease t2) = tid"
      using q b1 g ok by (simp add: quiet_def same_ticket_def same_record_def end_work_lease_def store_submission_def board_ok_def)
  qed
  moreover have "safe_world now (put_ticket tid (end_work_lease t2) w2) w5"
    using safe_world_trans [OF _ dispatch_and_requeue_safe [OF d]] hand_off_safe by simp
  ultimately have "lapse (end_work_lease t2) t6"
    using stored_then_swept g6 w' by blast
  then have "last (history t6 H_Submission) = HE_Submission sub" "status t6 = ''submitted''"
    using hist by (auto simp: lapse_def same_record_def pre_submission_iff)
  then show ?thesis using e pf v' ca sb r by (auto simp: n_def)
qed

definition code_ticket :: ticket where
  "code_ticket = claimed_ticket\<lparr>required_fields := [''branch_and_commit'']\<rparr>"

definition code_input :: submit_input where
  "code_input = \<lparr> si_summary = Some ''done'', si_files = [], si_notes = Some ''b/x @ AB'', si_test_output = None,
     si_stay_active = True, si_preflight = Some (expected_preflight ''b/x'' ''ab'' @ [(''proof'', ''k'')]),
     si_usage = None, si_allow_counts = [] \<rparr>"

abbreviation code_preflight :: "ticket \<Rightarrow> string option \<Rightarrow> (string, string) odict option \<Rightarrow> (string \<times> string) option result" where
  "code_preflight \<equiv> server_preflight (\<lambda>n. [n]) (\<lambda>n. [(''b/x'', ''AB'')]) (\<lambda>pf e. pf = Some ''k'')"

abbreviation code_submission :: "(world \<times> reply) result" where
  "code_submission \<equiv> submit_with_actor code_preflight (quiet_world [code_ticket]) (quiet_seat ''w1'' ''p1'' ''worker'')
     sample_worker ''T3'' code_input 5 [] []"

theorem code_submission_is_verified_witness:
  "\<exists>w' t' old new evs rn ev s. code_submission = Inr (w', Done t' old new evs rn ev) \<and>
     last (history t' H_Submission) = HE_Submission s \<and> s_commit_hash s = Some ''ab''"
proof -
  have "case code_submission of Inr (_, Done _ _ _ _ _ _) \<Rightarrow> True | _ \<Rightarrow> False" by code_simp
  then obtain w' t' old new evs rn ev where c: "code_submission = Inr (w', Done t' old new evs rn ev)"
    by (auto split: sum.split_asm prod.split_asm reply.split_asm)
  have g: "get_ticket (quiet_world [code_ticket]) ''T3'' = Some code_ticket"
    by (simp add: get_ticket_def quiet_world_def sample_world_def code_ticket_def claimed_ticket_def sample_ticket_def)
  have ok: "board_ok (quiet_world [code_ticket])"
    by (simp add: board_ok_def dict_ok_def dkeys_def get_ticket_def get_member_def quiet_world_def sample_world_def
        quiet_seat_def sample_seat_def code_ticket_def)
  have rf: "''branch_and_commit'' \<in> set (required_fields code_ticket)"
    "0 < inline_history_limit (cfg (brd (quiet_world [code_ticket])))"
    by (simp_all add: code_ticket_def quiet_world_def sample_defs)
  have "casefold ''AB'' = ''ab''" by code_simp
  with code_submission_is_verified [OF c g rf(1) ok rf(2)] c show ?thesis by auto
qed

subsection \<open>Verdicts\<close>

text \<open>
  C7: the outcome of a verdict. Approval closes the ticket; a rejection that gives feedback (or is
  on a server-generated ticket) reopens it and counts it, any other rejection ends it. The same
  rejection twice for the same commit parks the ticket: the loop of identical rounds stops.
\<close>

theorem verdict_outcome:
  assumes v: "give_verdict digest w tid t actor p inp submitter now rel ren = Inr (w', Done t' old new evs rn ev)"
    and g: "get_ticket w tid = Some t0" and id: "ticket_id t = ticket_id t0" and ok: "board_ok w"
  shows "status t' = (if ri_verdict inp = ''approve'' then ''closed''
           else if retryable_rejection t inp then ''open'' else ''rejected'') \<and>
    rejection_count t' = rejection_count t + (if ri_verdict inp = ''reject'' then 1 else 0) \<and>
    parked t' = (parked t \<or> workflow_pauses digest t inp)"
proof -
  obtain w4 t5 w6 ev' evs' t7 evs7 where b: "tickets (brd w4) = tickets (brd w)" "members (brd w4) = members (brd w)"
    and vg: "verdict_given t actor p inp t5" and cl: "close_review tid (status t5) now w4 t5 = Inr (w6, ev', evs')"
    and w': "w' = record_scrub_allows actor now (ri_allow_counts inp) w6"
    and st: "status t5 = verdict_status (ri_verdict inp) (retryable_rejection t inp)"
    and pk: "parked t5 = (parked t \<or> workflow_pauses digest t inp)"
    and rc: "rejection_count t5 = rejection_count t + (if ri_verdict inp = ''reject'' then 1 else 0)"
    and g7: "get_ticket w' tid = Some t7" and r7: "Done t' old new evs rn ev = Done t7 ''submitted'' (status t5) evs7 ren ev'"
    by (rule give_verdict_shape [OF v])
  obtain d where s: "safe_world now (put_ticket tid (t5\<lparr>dispatch_state := d\<rparr>) w4) w6"
    by (rule close_review_stores [OF cl])
  have "board_ok (put_ticket tid (t5\<lparr>dispatch_state := d\<rparr>) w4)"
  proof (rule board_ok_put_ticket)
    show "board_ok w4" using ok board_ok_cong [OF b] by simp
    show "ticket_id (t5\<lparr>dispatch_state := d\<rparr>) = tid"
      using vg g id ok by (simp add: verdict_given_def board_ok_def)
  qed
  moreover have "get_ticket w' tid = Some t'" using g7 r7 by simp
  ultimately have "lapse (t5\<lparr>dispatch_state := d\<rparr>) t'" using stored_then_swept [OF s] w' by blast
  then have "status t' = status t5" "same_record t5 t'"
    using vg by (auto simp: lapse_def verdict_given_def pre_submission_iff same_record_def)
  then show ?thesis using st pk rc by (simp add: same_record_def verdict_status_def)
qed

text \<open>A second rejection with the same words for the same commit.\<close>

definition rejected_before :: ticket where
  "rejected_before = submitted_ticket\<lparr>branch := Some ''b/x'', commit_hash := Some (replicate 40 CHR ''a''),
     history := (history submitted_ticket)(H_Review :=
       [HE_Review \<lparr> v_verdict = ''reject'', v_review_notes = ''no tests'', v_fix_instructions = Some ''no tests'',
          v_policy = ''strict'', v_label = ''independent'', v_submitted_by_agent_id = ''w1'',
          v_submitted_by_principal_id = ''p1'', v_reviewed_by_agent_id = ''r1'', v_reviewed_by_principal_id = ''p2'',
          v_reviewed_at = 1, v_status_to = ''open'', v_submission_commit = replicate 40 CHR ''a'',
          v_rejection_fingerprint = ''no tests'', v_workflow_paused = False, v_submitted_by_agent_name = None,
          v_reviewed_by_agent_name = ''r1'', v_usage = \<lparr> ur_role = ''reviewer'', ur_host = None, ur_provider = None,
            ur_model = None, ur_agent_id = ''r1'', ur_principal_id = ''p2'', ur_at = 1, ur_turns = None,
            ur_reported_turns = None, ur_input_tokens = None, ur_output_tokens = None \<rparr>\<rparr>])\<rparr>"

abbreviation second_rejection :: "(world \<times> reply) result" where
  "second_rejection \<equiv> give_verdict (\<lambda>s. s) (quiet_world [rejected_before]) ''T2'' rejected_before
     (quiet_seat ''r1'' ''p2'' ''reviewer'') sample_reviewer (verdict_input ''reject'' (Some ''No  tests'')) (''w1'', ''p1'') 5 [] []"

theorem verdict_outcome_witness:
  "\<exists>w' t' old new evs rn ev. second_rejection = Inr (w', Done t' old new evs rn ev) \<and> status t' = ''open'' \<and> parked t'"
proof -
  have "case second_rejection of Inr (_, Done _ _ _ _ _ _) \<Rightarrow> True | _ \<Rightarrow> False" by code_simp
  then obtain w' t' old new evs rn ev where v: "second_rejection = Inr (w', Done t' old new evs rn ev)"
    by (auto split: sum.split_asm prod.split_asm reply.split_asm)
  have g: "get_ticket (quiet_world [rejected_before]) ''T2'' = Some rejected_before"
    by (simp add: get_ticket_def quiet_world_def sample_world_def rejected_before_def submitted_ticket_def sample_ticket_def)
  have ok: "board_ok (quiet_world [rejected_before])"
    by (simp add: board_ok_def dict_ok_def dkeys_def get_ticket_def get_member_def quiet_world_def sample_world_def
        quiet_seat_def sample_seat_def rejected_before_def submitted_ticket_def sample_ticket_def)
  have "workflow_pauses (\<lambda>s. s) rejected_before (verdict_input ''reject'' (Some ''No  tests''))" by code_simp
  moreover have "retryable_rejection rejected_before (verdict_input ''reject'' (Some ''No  tests''))" by code_simp
  ultimately show ?thesis
    using verdict_outcome [OF v g refl ok] v by (simp add: verdict_input_def)
qed

subsection \<open>What a submission is taken to be\<close>

lemma evidence_identity_names:
  "evidence_identity x y = (b, c) \<Longrightarrow> b \<noteq> [] \<Longrightarrow> x = Some b \<and> (\<exists>h. y = Some h \<and> casefold h = c)"
  using evidence_identity_ok [of x y b c] by auto

text \<open>
  The identity of a submission is unambiguous. When a branch and commit are read off the proof,
  the fields and the notes of a submission, each source that is present names exactly this branch
  and (up to the case of the letters) this commit, and the notes name it once.
\<close>

theorem identity_is_unambiguous:
  assumes "submission_identity s = (b, c)" and "b \<noteq> []"
  shows "(\<forall>x y. ev_preflight s = Some (x, y) \<longrightarrow> x = b \<and> casefold y = c) \<and>
    (ev_branch s \<noteq> None \<or> ev_commit s \<noteq> None \<longrightarrow> ev_branch s = Some b \<and> map_option casefold (ev_commit s) = Some c) \<and>
    (\<forall>n. ev_notes s = Some n \<and> note_labels n \<noteq> [] \<longrightarrow> (\<exists>y. note_branches n = [(b, y)] \<and> casefold y = c))"
proof -
  obtain ids where ids: "submission_identities s = Some ids" and all: "\<forall>i \<in> set ids. i = (b, c)"
    using identity_agrees [OF assms] by blast
  note names = evidence_identity_names [OF _ assms(2)]
  have "x = b \<and> casefold y = c" if "ev_preflight s = Some (x, y)" for x y
  proof -
    have "evidence_identity (Some x) (Some y) \<in> set ids"
      using ids that by (auto simp: submission_identities_def Let_def split: if_split_asm prod.split_asm)
    with all have "evidence_identity (Some x) (Some y) = (b, c)" by simp
    from names [OF this] show ?thesis by simp
  qed
  moreover have "ev_branch s = Some b \<and> map_option casefold (ev_commit s) = Some c"
    if "ev_branch s \<noteq> None \<or> ev_commit s \<noteq> None"
  proof -
    have "evidence_identity (ev_branch s) (ev_commit s) \<in> set ids"
      using ids that by (auto simp: submission_identities_def Let_def simp del: not_None_eq
          split: if_split_asm prod.split_asm option.split_asm)
    with all have "evidence_identity (ev_branch s) (ev_commit s) = (b, c)" by simp
    from names [OF this] show ?thesis by auto
  qed
  moreover have "\<exists>y. note_branches n = [(b, y)] \<and> casefold y = c" if n: "ev_notes s = Some n" "note_labels n \<noteq> []" for n
  proof -
    from ids n have "length (note_branches n) = 1"
      by (simp add: submission_identities_def Let_def split: if_split_asm)
    then obtain x y where nb: "note_branches n = [(x, y)]" by (cases "note_branches n") auto
    with ids n have "evidence_identity (Some x) (Some y) \<in> set ids"
      by (auto simp: submission_identities_def Let_def split: if_split_asm)
    with all have "evidence_identity (Some x) (Some y) = (b, c)" by simp
    from names [OF this] nb show ?thesis by simp
  qed
  ultimately show ?thesis by blast
qed

definition noted_evidence :: evidence where
  "noted_evidence = \<lparr> ev_preflight = None, ev_branch = Some ''b/x'', ev_commit = Some (replicate 40 CHR ''A''),
     ev_notes = Some (''branch_and_commit: b/x @ '' @ replicate 40 CHR ''a'') \<rparr>"

theorem identity_is_unambiguous_witness:
  "submission_identity noted_evidence = (''b/x'', replicate 40 CHR ''a'') \<and>
     (\<exists>y. note_branches (''branch_and_commit: b/x @ '' @ replicate 40 CHR ''a'') = [(''b/x'', y)])"
proof -
  have i: "submission_identity noted_evidence = (''b/x'', replicate 40 CHR ''a'')" by code_simp
  have "note_labels (''branch_and_commit: b/x @ '' @ replicate 40 CHR ''a'') \<noteq> []" by code_simp
  with identity_is_unambiguous [OF i] i show ?thesis by (auto simp: noted_evidence_def)
qed

subsection \<open>Token totals\<close>

lemma record_usage_absent: "dget (roles_of (record_usage us)) r = None \<longleftrightarrow> (\<forall>u \<in> set us. ur_role u \<noteq> r)"
proof (induction us rule: rev_induct)
  case (snoc u us)
  have "record_usage (us @ [u]) = Some (append_model_usage u (record_usage us))" by (simp add: record_usage_def)
  then have "roles_of (record_usage (us @ [u])) = us_roles (append_model_usage u (record_usage us))"
    by (simp add: roles_of_def)
  with snoc show ?case by (auto simp: append_model_usage_roles)
qed (simp add: record_usage_def roles_of_def)

definition tokens_of :: "usage_record list \<Rightarrow> int option" where
  "tokens_of us = add_counter (total_of ur_input_tokens us) (total_of ur_output_tokens us)"

lemma role_tokens_sum:
  assumes "record_usage us = Some s"
  shows "role_tokens (us_roles s) r =
    (if \<exists>u \<in> set us. ur_role u = r then tokens_of (filter (\<lambda>u. ur_role u = r) us) else None)"
  using record_usage_role [of r us] record_usage_absent [of us r] assms
  by (auto simp: role_tokens_def roles_of_def sums_up_def tokens_of_def split: option.split option.split_asm)

definition complete_usage :: "usage_record \<Rightarrow> bool" where
  "complete_usage u \<longleftrightarrow> ur_input_tokens u \<noteq> None \<and> ur_output_tokens u \<noteq> None"

definition usage_tokens :: "usage_record \<Rightarrow> int" where
  "usage_tokens u = the (ur_input_tokens u) + the (ur_output_tokens u)"

lemma tokens_of_sum:
  "tokens_of us = (if \<forall>u \<in> set us. complete_usage u then Some (sum_list (map usage_tokens us)) else None)"
proof -
  have "(\<Sum>u\<leftarrow>us. the (ur_input_tokens u)) + (\<Sum>u\<leftarrow>us. the (ur_output_tokens u)) = sum_list (map usage_tokens us)"
    by (induction us) (simp_all add: usage_tokens_def)
  then show ?thesis by (auto simp: tokens_of_def total_of_def add_counter_def complete_usage_def)
qed

lemma sum_by_role:
  "sum_list (map f (filter (\<lambda>u. ur_role u \<in> set MODEL_USAGE_ROLES) us)) =
     sum_list (map f (filter (\<lambda>u. ur_role u = ''orchestrator'') us)) +
     sum_list (map f (filter (\<lambda>u. ur_role u = ''worker'') us)) +
     sum_list (map (f :: usage_record \<Rightarrow> int) (filter (\<lambda>u. ur_role u = ''reviewer'') us))"
  by (induction us) (auto simp: MODEL_USAGE_ROLES_def)

text \<open>
  The token total of a ticket. Over any list of records appended one after the other the total
  is known exactly when all three roles have reported and every record is complete, and then it is
  the sum of the input and output tokens of all of them.
\<close>

theorem usage_totals:
  assumes "record_usage us = Some s"
  shows "us_total_tokens s =
    (if (\<forall>r \<in> set MODEL_USAGE_ROLES. \<exists>u \<in> set us. ur_role u = r) \<and>
        (\<forall>u \<in> set us. ur_role u \<in> set MODEL_USAGE_ROLES \<longrightarrow> complete_usage u)
     then Some (sum_list (map usage_tokens (filter (\<lambda>u. ur_role u \<in> set MODEL_USAGE_ROLES) us))) else None)"
proof -
  have r: "set MODEL_USAGE_ROLES = {''orchestrator'', ''worker'', ''reviewer''}" by (simp add: MODEL_USAGE_ROLES_def)
  show ?thesis
    unfolding record_usage_total [OF assms] role_tokens_sum [OF assms] r
    by (auto simp: tokens_of_sum sum_by_role [unfolded r, simplified])
qed

definition reported_usage :: "string \<Rightarrow> int \<Rightarrow> usage_record" where
  "reported_usage r n = \<lparr> ur_role = r, ur_host = None, ur_provider = None, ur_model = None, ur_agent_id = ''a'',
     ur_principal_id = ''p'', ur_at = 1, ur_turns = Some 1, ur_reported_turns = Some 1,
     ur_input_tokens = Some n, ur_output_tokens = Some 1 \<rparr>"

theorem usage_totals_witness:
  "\<exists>s. record_usage (map (\<lambda>r. reported_usage r 7) MODEL_USAGE_ROLES) = Some s \<and> us_total_tokens s = Some 24"
proof -
  obtain s where s: "record_usage (map (\<lambda>r. reported_usage r 7) MODEL_USAGE_ROLES) = Some s"
    by (simp add: record_usage_def MODEL_USAGE_ROLES_def)
  from usage_totals [OF s] s show ?thesis
    by (auto simp: MODEL_USAGE_ROLES_def reported_usage_def complete_usage_def usage_tokens_def)
qed

end
