(* ===== verification/Event_Kinds.thy ===== *)
theory Event_Kinds
  imports Pursers_Prelude
begin

section \<open>The vocabulary of the event journal\<close>

text \<open>
  The event kinds (\<open>pursers_client/events.py\<close>) and, per family of events, the fields that are copied
  from an event into its journal row (\<open>journal.py\<close>, \<open>central.py\<close>).  The sets of the source are lists
  here; where the source iterates over one it sorts it first.
\<close>

definition CORE_EVENT_KINDS :: "string list" where
  "CORE_EVENT_KINDS =
    [''board_state_changed'', ''ticket_status_changed'', ''ticket_created'', ''ticket_annotated'',
     ''memory_written'', ''coordinator_assignment'', ''coordinator_nudge'',
     ''human_input_requested'', ''human_input_resolved'', ''seat_name_collision'',
     ''agent_display_name_changed'', ''ticket_progress_updated'', ''ticket_progress_reset'']"

definition ADMISSION_EVENT_KINDS :: "string list" where
  "ADMISSION_EVENT_KINDS =
    [''board_membership_changed'', ''board_invite_created'']"

definition SCRUB_EVENT_KINDS :: "string list" where
  "SCRUB_EVENT_KINDS =
    [''board_scrub_profile_changed'']"

definition CLAIM_TTL_EVENT_KINDS :: "string list" where
  "CLAIM_TTL_EVENT_KINDS =
    [''board_claim_ttl_changed'']"

definition REVIEW_EVENT_KINDS :: "string list" where
  "REVIEW_EVENT_KINDS =
    [''board_review_policy_changed'', ''ticket_review_claimed'', ''review_lease_expired'',
     ''review_lease_released'']"

definition DEPRECATION_EVENT_KINDS :: "string list" where
  "DEPRECATION_EVENT_KINDS =
    [''deprecated_tool_warning'']"

definition AGENT_LIFECYCLE_EVENT_KINDS :: "string list" where
  "AGENT_LIFECYCLE_EVENT_KINDS =
    [''agent_lifecycle_changed'']"

definition COORDINATOR_MESSAGE_EVENT_KINDS :: "string list" where
  "COORDINATOR_MESSAGE_EVENT_KINDS =
    [''coordinator_question_asked'', ''coordinator_question_accepted'',
     ''coordinator_question_released'', ''coordinator_question_answered'']"

definition BUTLER_EVENT_KINDS :: "string list" where
  "BUTLER_EVENT_KINDS =
    [''butler_command_created'', ''butler_command_transitioned'', ''butler_config_changed'']"

definition DISPATCH_EVENT_KINDS :: "string list" where
  "DISPATCH_EVENT_KINDS =
    [''ticket_offered'', ''offer_expired'', ''offer_revoked'', ''review_offered'',
     ''dispatch_unassignable'']"

definition CLAIM_GATE_EVENT_KINDS :: "string list" where
  "CLAIM_GATE_EVENT_KINDS =
    [''ticket_claim_refused'', ''review_claim_refused'']"

definition PARK_EVENT_KINDS :: "string list" where
  "PARK_EVENT_KINDS =
    [''ticket_parked'', ''ticket_unparked'']"

definition ARCHIVE_EVENT_KINDS :: "string list" where
  "ARCHIVE_EVENT_KINDS =
    [''ticket_archived'']"

definition PROGRESS_EVENT_KINDS :: "string list" where
  "PROGRESS_EVENT_KINDS =
    [''ticket_progress_updated'', ''ticket_progress_reset'']"

definition SEAT_IDENTITY_EVENT_KINDS :: "string list" where
  "SEAT_IDENTITY_EVENT_KINDS =
    [''seat_name_collision'', ''agent_display_name_changed'']"

definition SEMANTIC_FIELDS :: "string list" where
  "SEMANTIC_FIELDS =
    [''state_key'', ''ticket_id'', ''annotation_id'', ''annotation_kind'',
     ''annotation_by_agent_id'', ''annotation_by_agent_name'', ''annotation_by_principal_id'',
     ''assigned_to_agent_id'', ''previous_assigned_to_agent_id'', ''coordinator_op_key'',
     ''coordination_reason'', ''target_agent_id'', ''expires_at'', ''memory_id'',
     ''status_from'', ''status_to'', ''reviewed_by'', ''rejection_count'', ''review_notes_ref'',
     ''fix_instructions_ref'', ''last_reaped_by'', ''last_reaped_at'', ''last_abandoned_by'',
     ''last_reviewer_abandoned_by'', ''abandoned_count'', ''fixture_provenance'',
     ''recipient_identities'', ''request_id'', ''human_action'', ''human_disposition'',
     ''attempted_agent_id'', ''attempted_agent_name'', ''principal_id'', ''refusal_reason'',
     ''archived_ticket_count'', ''archived_memory_count'', ''history_bounded_count'',
     ''history_entries_archived'', ''member_tombstoned_count'', ''invite_pruned_count'',
     ''bytes_freed'', ''archived_reason'', ''archived_at'', ''compacted_through'',
     ''removed_rows'', ''retained_rows'', ''command_id'', ''command_status'',
     ''command_revision'', ''config_revision'', ''request_digest_sha256'', ''audit_id'',
     ''reason_code'']"

definition SEAT_IDENTITY_EVENT_FIELDS :: "string list" where
  "SEAT_IDENTITY_EVENT_FIELDS =
    [''attempted_agent_id'', ''attempted_agent_name'', ''principal_id'', ''refusal_reason'',
     ''target_agent_id'', ''target_agent_name'', ''display_name_old'', ''display_name_new'',
     ''display_name_revision'', ''display_name_reset'', ''fixture_provenance'',
     ''recipient_identities'']"

definition ARCHIVE_EVENT_FIELDS :: "string list" where
  "ARCHIVE_EVENT_FIELDS =
    [''ticket_id'', ''status_to'', ''archived_reason'', ''archived_at'',
     ''archived_ticket_count'', ''history_bounded_count'', ''history_entries_archived'',
     ''member_tombstoned_count'', ''invite_pruned_count'', ''bytes_freed'',
     ''fixture_provenance'', ''recipient_identities'']"

definition ADMISSION_EVENT_FIELDS :: "string list" where
  "ADMISSION_EVENT_FIELDS =
    [''admission_action'', ''target_principal_id'', ''membership_role'', ''previous_role'',
     ''invite_id'', ''expires_at'', ''revoked_invite_count'', ''admission_revision'',
     ''fixture_provenance'', ''recipient_identities'']"

definition PROGRESS_EVENT_FIELDS :: "string list" where
  "PROGRESS_EVENT_FIELDS =
    [''ticket_id'', ''schema_version'', ''attempt'', ''revision'', ''previous_revision'',
     ''low_percent'', ''high_percent'', ''confidence'', ''assessed_at'', ''fresh_until'',
     ''assessed_by_agent_id'', ''assessed_by_principal_id'', ''progress_ref'', ''reset_reason'',
     ''progress_reset_at'', ''fixture_provenance'', ''recipient_identities'']"

definition ACTIVITY_EVENT_FIELDS :: "string list" where
  "ACTIVITY_EVENT_FIELDS =
    [''activity_schema_version'', ''activity_stage'', ''activity_state'', ''activity_attempt_id'',
     ''activity_actor_id'', ''activity_updated_at'', ''activity_freshness'',
     ''activity_completion_boundary'', ''activity_ref'']"

definition SCRUB_EVENT_FIELDS :: "string list" where
  "SCRUB_EVENT_FIELDS =
    [''scrub_profile_from'', ''scrub_profile_to'', ''fixture_provenance'',
     ''recipient_identities'']"

definition CLAIM_TTL_EVENT_FIELDS :: "string list" where
  "CLAIM_TTL_EVENT_FIELDS =
    [''claim_ttl_from'', ''claim_ttl_to'', ''fixture_provenance'', ''recipient_identities'']"

definition DEPRECATION_EVENT_FIELDS :: "string list" where
  "DEPRECATION_EVENT_FIELDS =
    [''tool'', ''message'', ''caller_principal_id'', ''caller_agent_name'',
     ''fixture_provenance'', ''recipient_identities'']"

definition AGENT_LIFECYCLE_EVENT_FIELDS :: "string list" where
  "AGENT_LIFECYCLE_EVENT_FIELDS =
    [''target_agent_id'', ''target_agent_name'', ''lifecycle_status_from'',
     ''lifecycle_status_to'', ''lifecycle_reason'', ''fixture_provenance'',
     ''recipient_identities'']"

definition DEPRECATION_WARNING_UNIQUE_FIELDS :: "string list" where
  "DEPRECATION_WARNING_UNIQUE_FIELDS =
    [''tool'', ''caller_principal_id'', ''caller_agent_name'']"

definition REVIEW_CORE_OVERRIDE_FIELDS :: "string list" where
  "REVIEW_CORE_OVERRIDE_FIELDS =
    [''review_policy_at_verdict'', ''review_label'', ''review_verdict'']"

definition REVIEW_EVENT_FIELDS :: "string list" where
  "REVIEW_EVENT_FIELDS =
    [''review_policy_from'', ''review_policy_to'', ''review_policy_at_verdict'', ''review_label'',
     ''review_verdict'', ''submitted_by_agent_id'', ''submitted_by_agent_name'',
     ''submitted_by_principal_id'', ''reviewed_by_agent_id'', ''reviewed_by_agent_name'',
     ''reviewed_by_principal_id'', ''reviewer_agent_id'', ''reviewer_agent_name'',
     ''reviewer_principal_id'', ''review_lease_expires_at'', ''release_reason'',
     ''fixture_provenance'', ''recipient_identities'']"

definition DISPATCH_EVENT_FIELDS :: "string list" where
  "DISPATCH_EVENT_FIELDS =
    [''ticket_id'', ''offer_kind'', ''offered_agent_id'', ''offered_agent_name'',
     ''offer_expires_at'', ''dispatch_reason'', ''fixture_provenance'', ''recipient_identities'']"

definition CLAIM_GATE_EVENT_FIELDS :: "string list" where
  "CLAIM_GATE_EVENT_FIELDS =
    [''ticket_id'', ''claim_kind'', ''refused_agent_id'', ''refused_agent_name'',
     ''refused_principal_id'', ''refusal_reason'', ''claim_diagnostics'', ''fixture_provenance'',
     ''recipient_identities'']"

definition PARK_EVENT_FIELDS :: "string list" where
  "PARK_EVENT_FIELDS =
    [''ticket_id'', ''parked'', ''parked_by_agent_id'', ''parked_by_agent_name'',
     ''fixture_provenance'', ''recipient_identities'']"

definition INTAKE_CORE_OVERRIDE_FIELDS :: "string list" where
  "INTAKE_CORE_OVERRIDE_FIELDS =
    [''origin'', ''coordinator_op_key'']"

definition COORDINATOR_EVENT_FIELDS :: "string list" where
  "COORDINATOR_EVENT_FIELDS =
    [''ticket_id'', ''question_id'', ''origin'', ''target_agent_id'', ''coordinator_op_key'',
     ''coordination_reason'', ''expires_at'', ''fixture_provenance'', ''recipient_identities'']"

end
