(* ===== verification/Event_Journal.thy ===== *)
theory Event_Journal
  imports Json_Values Event_Kinds
begin

section \<open>The event journal of a board\<close>

text \<open>
  \<open>Journal\<close> (\<open>journal.py\<close>) and \<open>CentralJournal\<close> (\<open>central.py\<close>): the document, appending, appending once,
  reading a page behind a cursor, and compaction.  \<open>token\<close> stands for the SHA-256 of the board
  identifier, \<open>dumps\<close> for the JSON encoder, \<open>now\<close> for the clock.
\<close>

type_synonym event = "(string, json) odict"

record event_row =
  row_id :: string
  row_seq :: int
  row_board :: string
  row_kind :: string
  row_actor :: string
  row_payload_ref :: string
  row_occurred_at :: time
  row_semantic :: event

record journal =
  j_board_id :: string
  next_seq :: int
  compacted_through :: int
  rows :: "event_row list"
  warnings :: "(string, event_row) odict"

definition MIN_COMPACTION_RETAIN_LAST :: int where
  "MIN_COMPACTION_RETAIN_LAST = 500"

definition DEPRECATION_WARNING_DEDUPE_MAX_ENTRIES :: int where
  "DEPRECATION_WARNING_DEDUPE_MAX_ENTRIES = 4096"

definition default_journal :: "string \<Rightarrow> journal" where
  "default_journal board =
     \<lparr> j_board_id = board, next_seq = 1, compacted_through = 0, rows = [], warnings = [] \<rparr>"

definition check_journal :: "string \<Rightarrow> journal \<Rightarrow> unit result" where
  "check_journal board j =
     guardE (j_board_id j = board) (ValueError ''journal board hash collision or corrupt document'')"

subsection \<open>Events and rows\<close>

definition event_get :: "event \<Rightarrow> string \<Rightarrow> json" where
  "event_get e k = (case dget e k of None \<Rightarrow> J_Null | Some v \<Rightarrow> v)"

definition require_text :: "string \<Rightarrow> json \<Rightarrow> string result" where
  "require_text name v =
     (case v of
        J_Str s \<Rightarrow> if strip s = [] then Inl (ValueError (name @ '' must be a non-empty string'')) else Inr (strip s)
      | _ \<Rightarrow> Inl (ValueError (name @ '' must be a non-empty string'')))"

definition semantic_of :: "string list \<Rightarrow> event \<Rightarrow> event" where
  "semantic_of fs e =
     concat (map (\<lambda>k. case dget e k of None \<Rightarrow> [] | Some v \<Rightarrow> [(k, v)]) (sort (remdups fs)))"

definition new_row ::
  "(string \<Rightarrow> string) \<Rightarrow> string \<Rightarrow> string \<Rightarrow> string \<Rightarrow> string \<Rightarrow> time \<Rightarrow> event \<Rightarrow> int \<Rightarrow> event_row" where
  "new_row token board kind actor ref now sem seq =
     \<lparr> row_id = ''EV-'' @ take 12 (token board) @ ''-'' @ zero_padded 20 (nat seq), row_seq = seq,
       row_board = board, row_kind = kind, row_actor = actor, row_payload_ref = ref,
       row_occurred_at = now, row_semantic = sem \<rparr>"

text \<open>The tail of all three append operations: the checks on the sequence, then the new row.\<close>

definition put_row :: "(int \<Rightarrow> event_row) \<Rightarrow> journal \<Rightarrow> (journal \<times> event_row) result" where
  "put_row mk j =
     (if next_seq j \<le> compacted_through j then Inl (ValueError ''journal next_seq moved backwards'')
      else if rows j \<noteq> [] \<and> next_seq j \<le> row_seq (last (rows j))
      then Inl (ValueError ''journal sequence is not increasing'')
      else let r = mk (next_seq j)
           in Inr (j\<lparr>rows := rows j @ [r], next_seq := next_seq j + 1\<rparr>, r))"

definition core_append ::
  "(string \<Rightarrow> string) \<Rightarrow> string \<Rightarrow> event \<Rightarrow> time \<Rightarrow> journal \<Rightarrow> (journal \<times> event_row) result" where
  "core_append token board e now j =
     bindE (require_text ''board_id'' (J_Str board)) (\<lambda>b.
     bindE (require_text ''kind'' (event_get e ''kind'')) (\<lambda>kd.
     bindE (guardE (kd \<in> set CORE_EVENT_KINDS) (ValueError (''unsupported event kind: '' @ kd))) (\<lambda>_.
     bindE (require_text ''actor'' (event_get e ''actor'')) (\<lambda>a.
     bindE (require_text ''payload_ref'' (event_get e ''payload_ref'')) (\<lambda>ref.
     bindE (check_journal b j) (\<lambda>_.
       put_row (new_row token b kd a ref now (semantic_of SEMANTIC_FIELDS e)) j))))))"

subsection \<open>The journal of Central\<close>

definition custom_core_fields :: "string list" where
  "custom_core_fields =
     REVIEW_CORE_OVERRIDE_FIELDS @ INTAKE_CORE_OVERRIDE_FIELDS @ PROGRESS_EVENT_FIELDS @ ACTIVITY_EVENT_FIELDS"

definition once_kinds :: "string list" where
  "once_kinds =
     CORE_EVENT_KINDS @ ADMISSION_EVENT_KINDS @ SCRUB_EVENT_KINDS @ CLAIM_TTL_EVENT_KINDS @
     REVIEW_EVENT_KINDS @ DISPATCH_EVENT_KINDS @ DEPRECATION_EVENT_KINDS @ AGENT_LIFECYCLE_EVENT_KINDS @
     CLAIM_GATE_EVENT_KINDS @ PARK_EVENT_KINDS @ ARCHIVE_EVENT_KINDS @ PROGRESS_EVENT_KINDS @
     SEAT_IDENTITY_EVENT_KINDS @ COORDINATOR_MESSAGE_EVENT_KINDS"

definition central_kinds :: "string list" where
  "central_kinds = once_kinds @ BUTLER_EVENT_KINDS"

definition central_fields :: "string list" where
  "central_fields =
     SEMANTIC_FIELDS @ ADMISSION_EVENT_FIELDS @ SCRUB_EVENT_FIELDS @ CLAIM_TTL_EVENT_FIELDS @
     REVIEW_EVENT_FIELDS @ COORDINATOR_EVENT_FIELDS @ DISPATCH_EVENT_FIELDS @ DEPRECATION_EVENT_FIELDS @
     AGENT_LIFECYCLE_EVENT_FIELDS @ CLAIM_GATE_EVENT_FIELDS @ PARK_EVENT_FIELDS @ ARCHIVE_EVENT_FIELDS @
     PROGRESS_EVENT_FIELDS @ ACTIVITY_EVENT_FIELDS @ SEAT_IDENTITY_EVENT_FIELDS"

definition journal_append ::
  "(string \<Rightarrow> string) \<Rightarrow> string \<Rightarrow> event \<Rightarrow> time \<Rightarrow> journal \<Rightarrow> (journal \<times> event_row) result" where
  "journal_append token board e now j =
     bindE (require_text ''kind'' (event_get e ''kind'')) (\<lambda>kd.
       if kd \<in> set CORE_EVENT_KINDS \<and> set (dkeys e) \<inter> set custom_core_fields = {}
       then core_append token board e now j
       else
         bindE (guardE (kd \<in> set central_kinds) (ValueError (''unsupported event kind: '' @ kd))) (\<lambda>_.
         bindE (require_text ''board_id'' (J_Str board)) (\<lambda>b.
         bindE (require_text ''actor'' (event_get e ''actor'')) (\<lambda>a.
         bindE (require_text ''payload_ref'' (event_get e ''payload_ref'')) (\<lambda>ref.
         bindE (check_journal b j) (\<lambda>_.
           put_row (new_row token b kd a ref now (semantic_of central_fields e)) j))))))"

subsection \<open>Warnings that are issued once\<close>

text \<open>
  \<open>row.get(field)\<close>: a row carries its semantic fields beside its own, and no semantic field has the
  name of one of those (\<open>no_clash\<close> below).
\<close>

definition warning_key :: "(json \<Rightarrow> string) \<Rightarrow> event \<Rightarrow> string" where
  "warning_key dumps sem = dumps (J_List (map (event_get sem) DEPRECATION_WARNING_UNIQUE_FIELDS))"

definition trim_warnings :: "(string, event_row) odict \<Rightarrow> (string, event_row) odict" where
  "trim_warnings ws =
     (let overflow = int (length ws) - DEPRECATION_WARNING_DEDUPE_MAX_ENTRIES in
      if overflow > 0
      then fold dpop (take (nat overflow)
             (map fst (sort_key (\<lambda>(k, r). (row_seq r, k)) ws))) ws
      else ws)"

definition text_field :: "event \<Rightarrow> string \<Rightarrow> bool" where
  "text_field sem f = (case event_get sem f of J_Str s \<Rightarrow> s \<noteq> [] | _ \<Rightarrow> False)"

definition remember_warning ::
  "(json \<Rightarrow> string) \<Rightarrow> bool \<Rightarrow> event_row \<Rightarrow> (string, event_row) odict \<Rightarrow> (string, event_row) odict result" where
  "remember_warning dumps trim r ws =
     (if row_kind r \<noteq> ''deprecated_tool_warning'' then Inr ws
      else if \<not> list_all (text_field (row_semantic r)) DEPRECATION_WARNING_UNIQUE_FIELDS
      then Inl (ValueError ''deprecated warning identity is incomplete'')
      else let key = warning_key dumps (row_semantic r);
               ws1 = (if key \<in> set (dkeys ws) then ws else dset key r ws)
           in Inr (if trim then trim_warnings ws1 else ws1))"

subsection \<open>Appending once\<close>

definition same_event :: "string \<Rightarrow> event \<Rightarrow> string list \<Rightarrow> event_row \<Rightarrow> bool" where
  "same_event kd sem uf r \<longleftrightarrow>
     row_kind r = kd \<and> list_all (\<lambda>f. py_eq (event_get (row_semantic r) f) (event_get sem f)) uf"

definition append_unique ::
  "(json \<Rightarrow> string) \<Rightarrow> (int \<Rightarrow> event_row) \<Rightarrow> string \<Rightarrow> event \<Rightarrow> string list \<Rightarrow> journal
     \<Rightarrow> (journal \<times> event_row \<times> bool) result" where
  "append_unique dumps mk kd sem uf j =
     (let is_warning = (kd = ''deprecated_tool_warning'' \<and> uf = DEPRECATION_WARNING_UNIQUE_FIELDS);
          remember = (\<lambda>r j'. if is_warning
            then bindE (remember_warning dumps True r (warnings j')) (\<lambda>ws. Inr (j'\<lparr>warnings := ws\<rparr>))
            else Inr j')
      in case (if is_warning then dget (warnings j) (warning_key dumps sem) else None) of
           Some prior \<Rightarrow> Inr (j, prior, False)
         | None \<Rightarrow>
             (case find (same_event kd sem uf) (rows j) of
                Some r \<Rightarrow> bindE (remember r j) (\<lambda>j'. Inr (j', r, False))
              | None \<Rightarrow>
                  bindE (put_row mk j) (\<lambda>(j1, r). bindE (remember r j1) (\<lambda>j'. Inr (j', r, True)))))"

definition append_once ::
  "(json \<Rightarrow> string) \<Rightarrow> (string \<Rightarrow> string) \<Rightarrow> string \<Rightarrow> event \<Rightarrow> string list \<Rightarrow> time \<Rightarrow> journal
     \<Rightarrow> (journal \<times> event_row \<times> bool) result" where
  "append_once dumps token board e uf now j =
     bindE (require_text ''kind'' (event_get e ''kind'')) (\<lambda>kd.
     bindE (guardE (kd \<in> set once_kinds) (ValueError (''unsupported event kind: '' @ kd))) (\<lambda>_.
     bindE (guardE (uf \<noteq> []) (ValueError ''unique_fields must not be empty'')) (\<lambda>_.
     bindE (require_text ''board_id'' (J_Str board)) (\<lambda>b.
     bindE (require_text ''actor'' (event_get e ''actor'')) (\<lambda>a.
     bindE (require_text ''payload_ref'' (event_get e ''payload_ref'')) (\<lambda>ref.
       let sem = semantic_of central_fields e in
       case find (\<lambda>f. f \<notin> set (dkeys sem)) uf of
         Some f \<Rightarrow> Inl (ValueError (''idempotent event is missing '' @ f))
       | None \<Rightarrow>
           bindE (check_journal b j) (\<lambda>_.
             append_unique dumps (new_row token b kd a ref now sem) kd sem uf j)))))))"

subsection \<open>Reading\<close>

record page =
  pg_events :: "event_row list"
  pg_next_cursor :: int
  pg_latest_cursor :: int
  pg_has_more :: bool
  pg_resync_required :: bool
  pg_compacted_through :: int
  pg_reset_cursor :: "int option"

definition resync_page :: "int \<Rightarrow> int \<Rightarrow> int \<Rightarrow> page" where
  "resync_page cursor latest compacted =
     \<lparr> pg_events = [], pg_next_cursor = cursor, pg_latest_cursor = latest, pg_has_more = False,
       pg_resync_required = True, pg_compacted_through = compacted, pg_reset_cursor = Some latest \<rparr>"

definition events_page :: "int \<Rightarrow> int \<Rightarrow> int \<Rightarrow> event_row list \<Rightarrow> page" where
  "events_page cursor latest compacted evs =
     (let next = (if evs = [] then cursor else row_seq (last evs)) in
      \<lparr> pg_events = evs, pg_next_cursor = next, pg_latest_cursor = latest, pg_has_more = next < latest,
        pg_resync_required = False, pg_compacted_through = compacted, pg_reset_cursor = None \<rparr>)"

definition check_page_request :: "string \<Rightarrow> int \<Rightarrow> int \<Rightarrow> string result" where
  "check_page_request board cursor limit =
     bindE (require_text ''board_id'' (J_Str board)) (\<lambda>b.
     bindE (guardE (0 \<le> cursor) (ValueError ''cursor must be a non-negative integer'')) (\<lambda>_.
     bindE (guardE (1 \<le> limit \<and> limit \<le> 1000) (ValueError ''limit must be between 1 and 1000'')) (\<lambda>_.
       Inr b)))"

definition read_after :: "string \<Rightarrow> int \<Rightarrow> int \<Rightarrow> journal \<Rightarrow> page result" where
  "read_after board cursor limit j =
     bindE (check_page_request board cursor limit) (\<lambda>b.
     bindE (check_journal b j) (\<lambda>_.
       let latest = next_seq j - 1; compacted = compacted_through j in
       if latest < cursor then Inl (ValueError ''cursor is ahead of journal'')
       else if cursor < compacted then Inr (resync_page cursor latest compacted)
       else Inr (events_page cursor latest compacted
                   (take (nat limit) (filter (\<lambda>r. cursor < row_seq r) (rows j))))))"

subsection \<open>Compaction\<close>

record compaction =
  cp_removed :: int
  cp_retained :: int
  cp_compacted_through :: int
  cp_latest_cursor :: int

definition check_retain :: "string \<Rightarrow> int \<Rightarrow> string result" where
  "check_retain board retain =
     bindE (require_text ''board_id'' (J_Str board)) (\<lambda>b.
     bindE (guardE (MIN_COMPACTION_RETAIN_LAST \<le> retain)
              (ValueError ''retain_last must be an integer of at least 500'')) (\<lambda>_. Inr b))"

definition drop_rows :: "int \<Rightarrow> journal \<Rightarrow> journal \<times> compaction" where
  "drop_rows retain j =
     (let n = nat (max 0 (int (length (rows j)) - retain));
          removed = take n (rows j);
          j' = (if removed \<noteq> []
                then j\<lparr>compacted_through := row_seq (last removed), rows := drop n (rows j)\<rparr> else j)
      in (j', \<lparr> cp_removed = int (length removed), cp_retained = int (length (rows j')),
                cp_compacted_through = compacted_through j', cp_latest_cursor = next_seq j' - 1 \<rparr>))"

definition core_compact :: "string \<Rightarrow> int \<Rightarrow> journal \<Rightarrow> (journal \<times> compaction) result" where
  "core_compact board retain j =
     bindE (check_retain board retain) (\<lambda>b. bindE (check_journal b j) (\<lambda>_. Inr (drop_rows retain j)))"

record central_compaction = compaction +
  cp_dedupe_entries :: int

definition journal_compact ::
  "(json \<Rightarrow> string) \<Rightarrow> string \<Rightarrow> int \<Rightarrow> journal \<Rightarrow> (journal \<times> central_compaction) result" where
  "journal_compact dumps board retain j =
     bindE (check_retain board retain) (\<lambda>b.
     bindE (check_journal b j) (\<lambda>_.
     bindE (foldE (remember_warning dumps False) (rows j) (warnings j)) (\<lambda>ws.
       let ws1 = trim_warnings ws; (j', c) = drop_rows retain (j\<lparr>warnings := ws1\<rparr>)
       in Inr (j', compaction.extend c \<lparr> cp_dedupe_entries = int (length ws1) \<rparr>))))"

end
