(* ===== verification/Journal_Log.thy ===== *)
theory Journal_Log
  imports Event_Journal
begin

section \<open>The journal as a log\<close>

text \<open>
  What a journal promises: it is a log of all events ever appended, of which compaction forgets a
  prefix.  \<open>logged log j\<close> relates the document to that log; the locale \<open>event_log\<close> is the promise as
  the readers of the journal use it, whatever stores it.
\<close>

definition numbered :: "event_row list \<Rightarrow> bool" where
  "numbered lg \<longleftrightarrow> map row_seq lg = map int [1..<length lg + 1]"

definition logged :: "event_row list \<Rightarrow> journal \<Rightarrow> bool" where
  "logged lg j \<longleftrightarrow> numbered lg \<and> next_seq j = int (length lg) + 1 \<and>
     0 \<le> compacted_through j \<and> compacted_through j \<le> int (length lg) \<and>
     rows j = drop (nat (compacted_through j)) lg"

lemma logged_length: "logged lg j \<Longrightarrow> int (length (rows j)) = int (length lg) - compacted_through j"
  by (auto simp: logged_def)

lemma numbered_nth:
  assumes "numbered lg" and "i < length lg"
  shows "row_seq (lg ! i) = int i + 1"
proof -
  have "map row_seq lg ! i = map int [1..<length lg + 1] ! i" using assms(1) by (simp only: numbered_def)
  then show ?thesis using assms(2) by (simp add: nth_upt del: upt_Suc)
qed

lemma numbered_snoc:
  "numbered lg \<Longrightarrow> row_seq r = int (length lg) + 1 \<Longrightarrow> numbered (lg @ [r])"
  by (simp add: numbered_def)

lemma numbered_in_take: "numbered lg \<Longrightarrow> r \<in> set (take k lg) \<Longrightarrow> row_seq r \<le> int k"
  by (fastforce simp: in_set_conv_nth numbered_nth)

lemma numbered_in_drop: "numbered lg \<Longrightarrow> r \<in> set (drop k lg) \<Longrightarrow> int k < row_seq r"
  by (fastforce simp: in_set_conv_nth numbered_nth)

lemma numbered_sorted: "numbered lg \<Longrightarrow> sorted_wrt (\<lambda>a b. row_seq a < row_seq b) lg"
  by (auto simp: sorted_wrt_iff_nth_less numbered_nth)

text \<open>The rows behind a cursor are the log behind it.\<close>

lemma rows_behind:
  assumes n: "numbered lg" and c: "c \<le> k"
  shows "filter (\<lambda>r. int k < row_seq r) (drop c lg) = drop k lg"
proof -
  have split: "drop c lg = take (k - c) (drop c lg) @ drop k lg"
    using c append_take_drop_id [of "k - c" "drop c lg"] by simp
  have "take (k - c) (drop c lg) = drop c (take k lg)" by (simp add: drop_take)
  then have "filter (\<lambda>r. int k < row_seq r) (take (k - c) (drop c lg)) = []"
    using numbered_in_take [OF n, of _ k] by (fastforce simp: filter_empty_conv dest: in_set_dropD)
  moreover have "filter (\<lambda>r. int k < row_seq r) (drop k lg) = drop k lg"
    using numbered_in_drop [OF n] by (simp add: filter_id_conv)
  ultimately show ?thesis by (subst split) (simp only: filter_append append_Nil)
qed

lemma numbered_last_page:
  assumes n: "numbered lg" and k: "k < length lg" and l: "0 < l"
  shows "row_seq (last (take l (drop k lg))) = int (min (k + l) (length lg))"
proof -
  let ?p = "take l (drop k lg)"
  have len: "length ?p = min l (length lg - k)" by simp
  then have ne: "?p \<noteq> []" and i: "length ?p - 1 < length ?p" using k l by (auto simp: min_def)
  have "last ?p = lg ! (k + (length ?p - 1))"
    using ne i k by (simp add: last_conv_nth)
  moreover have "k + (length ?p - 1) < length lg" using len k l by auto
  ultimately have "row_seq (last ?p) = int (k + (length ?p - 1)) + 1" using numbered_nth [OF n] by simp
  moreover have "k + (length ?p - 1) + 1 = min (k + l) (length lg)" using len k l by linarith
  ultimately show ?thesis by linarith
qed

subsection \<open>The operations on the log\<close>

lemma put_row_logged:
  assumes l: "logged lg j" and mk: "\<And>n. row_seq (mk n) = n"
  shows "\<exists>r j'. put_row mk j = Inr (j', r) \<and> r = mk (int (length lg) + 1) \<and> logged (lg @ [r]) j' \<and>
    compacted_through j' = compacted_through j \<and> j_board_id j' = j_board_id j \<and> warnings j' = warnings j"
proof -
  have n: "numbered lg" and s: "next_seq j = int (length lg) + 1" using l by (simp_all add: logged_def)
  have "row_seq (last (rows j)) < next_seq j" if "rows j \<noteq> []"
  proof -
    have "last (rows j) \<in> set lg" using that l by (metis in_set_dropD last_in_set logged_def)
    then show ?thesis using numbered_in_take [OF n, of _ "length lg"] s by fastforce
  qed
  then show ?thesis using l mk numbered_snoc [OF n, of "mk (int (length lg) + 1)"]
    by (auto simp: put_row_def logged_def Let_def)
qed

lemma new_row_seq [simp]: "row_seq (new_row token b kd a ref now sem n) = n"
  by (simp add: new_row_def)

text \<open>An append that returns put one row at the end of the log.\<close>

definition extended :: "event_row list \<Rightarrow> journal \<Rightarrow> journal \<Rightarrow> event_row \<Rightarrow> bool" where
  "extended lg j j' r \<longleftrightarrow> logged (lg @ [r]) j' \<and> compacted_through j' = compacted_through j \<and>
     j_board_id j' = j_board_id j \<and> row_seq r = int (length lg) + 1"

lemma put_row_extended:
  assumes "logged lg j" and "\<And>n. row_seq (mk n) = n" and "put_row mk j = Inr (j', r)"
  shows "extended lg j j' r \<and> warnings j' = warnings j"
  using put_row_logged [OF assms(1,2)] assms(2,3) by (auto simp: extended_def)

lemma core_append_extended:
  "logged lg j \<Longrightarrow> core_append token b e now j = Inr (j', r) \<Longrightarrow> extended lg j j' r \<and> warnings j' = warnings j"
  by (auto simp: core_append_def dest: put_row_extended [OF _ new_row_seq])

lemma journal_append_extended:
  "logged lg j \<Longrightarrow> journal_append token b e now j = Inr (j', r) \<Longrightarrow> extended lg j j' r \<and> warnings j' = warnings j"
  by (auto simp: journal_append_def split: if_split_asm dest: core_append_extended put_row_extended [OF _ new_row_seq])

text \<open>Whether an append raises depends on the event only: a logged journal accepts every event.\<close>

lemma journal_append_total:
  assumes "logged lg j" and "j_board_id j = strip b" and "strip b \<noteq> []"
    and "require_text ''kind'' (event_get e ''kind'') = Inr kd" and "kd \<in> set central_kinds"
    and "require_text ''actor'' (event_get e ''actor'') = Inr a"
    and "require_text ''payload_ref'' (event_get e ''payload_ref'') = Inr ref"
  shows "returns (journal_append token b e now j)"
proof -
  have "returns (put_row (new_row token c k x y now sem) j)" for c k x y sem
    using put_row_logged [OF assms(1), of "new_row token c k x y now sem"] by (auto simp: returns_iff)
  moreover have "require_text ''board_id'' (J_Str b) = Inr (strip b)" "check_journal (strip b) j = Inr ()"
    using assms(2,3) by (simp_all add: require_text_def check_journal_def)
  ultimately show ?thesis using assms(4-) by (simp add: journal_append_def core_append_def)
qed

lemma drop_rows_logged:
  assumes l: "logged lg j" and r: "0 < retain" and d: "drop_rows retain j = (j', c)"
  shows "logged lg j' \<and> compacted_through j \<le> compacted_through j' \<and> j_board_id j' = j_board_id j \<and>
    warnings j' = warnings j \<and> compacted_through j' = max (compacted_through j) (int (length lg) - retain)"
proof -
  define n where "n = nat (max 0 (int (length (rows j)) - retain))"
  have nb: "numbered lg" and rw: "rows j = drop (nat (compacted_through j)) lg"
    and cb: "0 \<le> compacted_through j" "compacted_through j \<le> int (length lg)"
    using l by (simp_all add: logged_def)
  have len: "int (length (rows j)) = int (length lg) - compacted_through j" using rw cb by simp
  show ?thesis
  proof (cases "n = 0")
    case True
    then have "int (length (rows j)) \<le> retain" by (simp add: n_def)
    with True d l len show ?thesis by (auto simp: drop_rows_def Let_def n_def [symmetric])
  next
    case False
    then have n: "0 < n" "int n = int (length (rows j)) - retain" by (auto simp: n_def)
    then have lt: "n < length (rows j)" using r by linarith
    then have ne: "take n (rows j) \<noteq> []" using n(1) by auto
    have "row_seq (last (take n (rows j))) = int (min (nat (compacted_through j) + n) (length lg))"
      unfolding rw by (rule numbered_last_page [OF nb]) (use lt rw n in auto)
    also have "\<dots> = compacted_through j + int n" using lt rw cb by (auto simp: min_def)
    finally have s: "row_seq (last (take n (rows j))) = compacted_through j + int n" .
    have j': "j' = j\<lparr>compacted_through := compacted_through j + int n, rows := drop n (rows j)\<rparr>"
      using d ne s by (simp add: drop_rows_def Let_def n_def [symmetric])
    have "drop n (rows j) = drop (nat (compacted_through j + int n)) lg"
      using rw cb by (simp add: nat_add_distrib add.commute)
    then show ?thesis using j' l len n lt cb by (auto simp: logged_def)
  qed
qed

text \<open>A page of a logged journal.\<close>

definition log_page :: "event_row list \<Rightarrow> int \<Rightarrow> int \<Rightarrow> int \<Rightarrow> page" where
  "log_page lg flr cursor limit =
     (if cursor < flr then resync_page cursor (int (length lg)) flr
      else events_page cursor (int (length lg)) flr (take (nat limit) (drop (nat cursor) lg)))"

lemma read_after_logged:
  assumes l: "logged lg j"
  shows "read_after b cursor limit j =
    bindE (check_page_request b cursor limit) (\<lambda>b'. bindE (check_journal b' j) (\<lambda>_.
      if int (length lg) < cursor then Inl (ValueError ''cursor is ahead of journal'')
      else Inr (log_page lg (compacted_through j) cursor limit)))"
proof -
  have *: "filter (\<lambda>r. cursor < row_seq r) (rows j) = drop (nat cursor) lg"
    if "compacted_through j \<le> cursor"
  proof -
    have c: "0 \<le> compacted_through j" "rows j = drop (nat (compacted_through j)) lg" "numbered lg"
      using l by (simp_all add: logged_def)
    with that have "nat (compacted_through j) \<le> nat cursor" "int (nat cursor) = cursor" by simp_all
    with rows_behind [OF c(3), of "nat (compacted_through j)" "nat cursor"] c(2) show ?thesis by simp
  qed
  have "next_seq j - 1 = int (length lg)" using l by (simp add: logged_def)
  with * show ?thesis
    by (auto simp: read_after_def log_page_def Let_def intro!: bindE_cong)
qed

end
