(* ===== verification/Journal_Index.thy ===== *)
theory Journal_Index
  imports Journal_Log
begin

section \<open>The row index of a journal in SQLite\<close>

text \<open>
  \<open>SQLiteStore\<close> keeps the journal document and, in the same transaction, an index of its rows by
  sequence number with the state it was built from (tables \<open>documents\<close>, \<open>journal_rows\<close>,
  \<open>journal_state\<close>, here for the path of one journal).  Pages are read from the index.  A document of an
  earlier program version may have no index, or an index of an earlier state.  Rows and documents are
  stored as JSON text; encoding and decoding them is the identity here.
\<close>

record journal_state =
  js_source_version :: int
  js_board_id :: string
  js_next_seq :: int
  js_compacted_through :: int
  js_retained_count :: int

record row_index =
  ix_rows :: "(int, event_row) odict"
  ix_state :: "journal_state option"

record journal_store =
  st_doc :: "(journal \<times> int) option"
  st_index :: row_index

definition empty_store :: journal_store where
  "empty_store = \<lparr> st_doc = None, st_index = \<lparr> ix_rows = [], ix_state = None \<rparr> \<rparr>"

subsection \<open>Synchronising the index\<close>

definition contiguous_rows :: "journal \<Rightarrow> bool" where
  "contiguous_rows j \<longleftrightarrow>
     1 \<le> next_seq j \<and> 0 \<le> compacted_through j \<and> compacted_through j < next_seq j \<and>
     int (length (rows j)) = next_seq j - compacted_through j - 1 \<and>
     (rows j = [] \<or>
      (row_seq (hd (rows j)) = compacted_through j + 1 \<and> row_seq (last (rows j)) = next_seq j - 1))"

definition extends_state :: "journal_state \<Rightarrow> journal \<Rightarrow> bool" where
  "extends_state s j \<longleftrightarrow>
     js_board_id s = j_board_id j \<and> js_next_seq s \<le> next_seq j \<and>
     js_compacted_through s \<le> compacted_through j \<and>
     js_retained_count s = js_next_seq s - js_compacted_through s - 1 \<and>
     (js_next_seq s < next_seq j \<or> js_compacted_through s < compacted_through j)"

definition insert_rows :: "event_row list \<Rightarrow> (int, event_row) odict \<Rightarrow> (int, event_row) odict" where
  "insert_rows rs table = fold (\<lambda>r. dset (row_seq r) r) rs table"

text \<open>The table after an incremental or a full synchronisation.\<close>

definition synced_rows :: "journal \<Rightarrow> row_index \<Rightarrow> (int, event_row) odict" where
  "synced_rows j ix =
     (case ix_state ix of
        Some s \<Rightarrow>
          if extends_state s j
          then let offset = nat (max 0 (js_next_seq s - (compacted_through j + 1)))
               in insert_rows (drop offset (rows j)) (filter (\<lambda>(n, _). compacted_through j < n) (ix_rows ix))
          else insert_rows (rows j) []
      | None \<Rightarrow> insert_rows (rows j) [])"

definition state_of :: "int \<Rightarrow> journal \<Rightarrow> journal_state" where
  "state_of version j =
     \<lparr> js_source_version = version, js_board_id = j_board_id j, js_next_seq = next_seq j,
       js_compacted_through = compacted_through j, js_retained_count = int (length (rows j)) \<rparr>"

definition sync_journal_index :: "int \<Rightarrow> journal \<Rightarrow> row_index \<Rightarrow> row_index result" where
  "sync_journal_index version j ix =
     (if \<not> contiguous_rows j then Inl (ValueError ''journal rows are not a contiguous sequence'')
      else if map_option js_source_version (ix_state ix) = Some version then Inr ix
      else let table = synced_rows j ix in
        if length table \<noteq> length (rows j) then Inl (ValueError ''journal row index is inconsistent'')
        else Inr \<lparr> ix_rows = table, ix_state = Some (state_of version j) \<rparr>)"

subsection \<open>Reading and writing\<close>

definition journal_read_result :: "row_index \<Rightarrow> string \<Rightarrow> int \<Rightarrow> int \<Rightarrow> page result" where
  "journal_read_result ix board cursor limit =
     (case ix_state ix of
        Some s \<Rightarrow>
          if js_board_id s \<noteq> board then Inl (ValueError ''journal board hash collision or corrupt document'')
          else if js_next_seq s - 1 < cursor then Inl (ValueError ''cursor is ahead of journal'')
          else if cursor < js_compacted_through s
          then Inr (resync_page cursor (js_next_seq s - 1) (js_compacted_through s))
          else Inr (events_page cursor (js_next_seq s - 1) (js_compacted_through s)
                 (take (nat limit) (map snd (sort_key fst (filter (\<lambda>(n, _). cursor < n) (ix_rows ix))))))
      | None \<Rightarrow>
          if 0 < cursor then Inl (ValueError ''cursor is ahead of journal'')
          else Inr (events_page cursor 0 0
                 (take (nat limit) (map snd (sort_key fst (filter (\<lambda>(n, _). cursor < n) (ix_rows ix)))))))"

definition journal_read_after ::
  "string \<Rightarrow> int \<Rightarrow> int \<Rightarrow> journal_store \<Rightarrow> (journal_store \<times> page) result" where
  "journal_read_after board cursor limit st =
     (case st_doc st of
        None \<Rightarrow> bindE (journal_read_result (st_index st) board cursor limit) (\<lambda>pg. Inr (st, pg))
      | Some (j, version) \<Rightarrow>
          if map_option js_source_version (ix_state (st_index st)) = Some version
          then bindE (journal_read_result (st_index st) board cursor limit) (\<lambda>pg. Inr (st, pg))
          else bindE (sync_journal_index version j (st_index st)) (\<lambda>ix.
               bindE (journal_read_result ix board cursor limit) (\<lambda>pg. Inr (st\<lparr>st_index := ix\<rparr>, pg))))"

text \<open>\<open>Journal.read_after\<close> on a store with an index.\<close>

definition store_read_after ::
  "string \<Rightarrow> int \<Rightarrow> int \<Rightarrow> journal_store \<Rightarrow> (journal_store \<times> page) result" where
  "store_read_after board cursor limit st =
     bindE (check_page_request board cursor limit) (\<lambda>b. journal_read_after b cursor limit st)"

text \<open>\<open>read_modify_write\<close>: a mutation that changes nothing keeps the version.\<close>

definition journal_write ::
  "string \<Rightarrow> (journal \<Rightarrow> (journal \<times> 'a) result) \<Rightarrow> journal_store \<Rightarrow> (journal_store \<times> 'a) result" where
  "journal_write board mutate st =
     (case st_doc st of
        None \<Rightarrow>
          bindE (mutate (default_journal board)) (\<lambda>(j, x).
          bindE (sync_journal_index 1 j (st_index st)) (\<lambda>ix.
            Inr (\<lparr> st_doc = Some (j, 1), st_index = ix \<rparr>, x)))
      | Some (j0, version) \<Rightarrow>
          bindE (mutate j0) (\<lambda>(j, x).
            let v = (if j = j0 then version else version + 1) in
            bindE (sync_journal_index v j (st_index st)) (\<lambda>ix.
              Inr (\<lparr> st_doc = Some (j, v), st_index = ix \<rparr>, x))))"

subsection \<open>The index agrees with the document\<close>

definition row_table :: "event_row list \<Rightarrow> (int, event_row) odict" where
  "row_table rs = map (\<lambda>r. (row_seq r, r)) rs"

definition indexes :: "row_index \<Rightarrow> int \<Rightarrow> journal \<Rightarrow> bool" where
  "indexes ix v j \<longleftrightarrow> ix_rows ix = row_table (rows j) \<and> ix_state ix = Some (state_of v j)"

text \<open>An index that may be of an earlier state of the same journal.\<close>

definition lagging_index :: "row_index \<Rightarrow> event_row list \<Rightarrow> int \<Rightarrow> journal \<Rightarrow> bool" where
  "lagging_index ix lg v j \<longleftrightarrow>
     (ix_state ix = None \<and> ix_rows ix = []) \<or>
     (\<exists>lg0 more j0 v0. lg = lg0 @ more \<and> logged lg0 j0 \<and> compacted_through j0 \<le> compacted_through j \<and>
        j_board_id j0 = j_board_id j \<and> indexes ix v0 j0 \<and> v0 \<le> v \<and> (v0 = v \<longrightarrow> indexes ix v j))"

lemma logged_contiguous:
  assumes l: "logged lg j"
  shows "contiguous_rows j"
proof -
  have rw: "rows j = drop (nat (compacted_through j)) lg" "numbered lg" "0 \<le> compacted_through j"
    "compacted_through j \<le> int (length lg)" "next_seq j = int (length lg) + 1" using l by (simp_all add: logged_def)
  have "row_seq (hd (rows j)) = compacted_through j + 1" "row_seq (last (rows j)) = int (length lg)" if "rows j \<noteq> []"
  proof -
    have lt: "nat (compacted_through j) < length lg" using that rw by simp
    then show "row_seq (hd (rows j)) = compacted_through j + 1"
      using rw numbered_nth [OF rw(2) lt] by (simp add: hd_drop_conv_nth)
    have "last (rows j) = lg ! (length lg - 1)" using rw(1) lt last_conv_nth [of lg] by (cases lg) (simp_all add: last_drop)
    then show "row_seq (last (rows j)) = int (length lg)"
      using numbered_nth [OF rw(2), of "length lg - 1"] lt by simp
  qed
  then show ?thesis using rw logged_length [OF l] by (auto simp: contiguous_rows_def)
qed

lemma dset_new: "k \<notin> fst ` set d \<Longrightarrow> dset k v d = d @ [(k, v)]"
  unfolding dset_def by (induction d) auto

lemma insert_rows_new:
  "distinct (map row_seq rs) \<Longrightarrow> \<forall>r \<in> set rs. row_seq r \<notin> fst ` set table \<Longrightarrow>
     insert_rows rs table = table @ row_table rs"
proof (induction rs arbitrary: table)
  case (Cons r rs)
  then have "insert_rows (r # rs) table = insert_rows rs (table @ [(row_seq r, r)])"
    by (simp add: insert_rows_def dset_new)
  also have "\<dots> = (table @ [(row_seq r, r)]) @ row_table rs"
  proof (rule Cons.IH)
    show "\<forall>ra \<in> set rs. row_seq ra \<notin> fst ` set (table @ [(row_seq r, r)])"
    proof
      fix ra assume "ra \<in> set rs"
      with Cons.prems have "row_seq ra \<notin> fst ` set table" "row_seq ra \<noteq> row_seq r"
        by (simp, metis distinct.simps(2) image_eqI list.set_map list.simps(9))
      then show "row_seq ra \<notin> fst ` set (table @ [(row_seq r, r)])" by simp
    qed
  qed (use Cons.prems in simp)
  finally show ?case by (simp add: row_table_def)
qed (simp add: insert_rows_def row_table_def)

lemma numbered_distinct: "numbered lg \<Longrightarrow> distinct (map row_seq lg)"
  unfolding numbered_def by (simp add: distinct_map inj_on_def del: upt_Suc)

lemma insert_rows_all: "logged lg j \<Longrightarrow> insert_rows (rows j) [] = row_table (rows j)"
  using insert_rows_new [of "rows j" "[]"] numbered_distinct [of lg]
  by (simp add: logged_def drop_map [symmetric])

lemma filter_row_table: "filter (\<lambda>(n, _). c < n) (row_table rs) = row_table (filter (\<lambda>r. c < row_seq r) rs)"
  by (induction rs) (simp_all add: row_table_def)

text \<open>The incremental synchronisation of an index that lags behind.\<close>

lemma synced_incremental:
  assumes l: "logged lg j" and l0: "logged lg0 j0" and lg: "lg = lg0 @ new"
    and c: "compacted_through j0 \<le> compacted_through j" and ix: "indexes ix v0 j0"
  shows "insert_rows (drop (nat (max 0 (next_seq j0 - (compacted_through j + 1)))) (rows j))
      (filter (\<lambda>(n, _). compacted_through j < n) (ix_rows ix)) = row_table (rows j)"
proof -
  let ?c = "nat (compacted_through j)"
  have n: "numbered lg" and n0: "numbered lg0" and rw: "rows j = drop ?c lg" and cp: "0 \<le> compacted_through j"
    and r0: "rows j0 = drop (nat (compacted_through j0)) lg0" and c0: "0 \<le> compacted_through j0"
    and nx: "next_seq j0 = int (length lg0) + 1"
    using l l0 by (simp_all add: logged_def)
  have "filter (\<lambda>r. compacted_through j < row_seq r) (rows j0) = drop ?c lg0"
    using rows_behind [OF n0, of "nat (compacted_through j0)" ?c] r0 c c0 cp by simp
  then have kept: "filter (\<lambda>(n, _). compacted_through j < n) (ix_rows ix) = row_table (drop ?c lg0)"
    using ix by (simp add: indexes_def filter_row_table)
  have "nat (max 0 (next_seq j0 - (compacted_through j + 1))) = length lg0 - ?c" using nx cp by simp
  then have rest: "drop (nat (max 0 (next_seq j0 - (compacted_through j + 1)))) (rows j) = drop (?c - length lg0) new"
    using rw lg by (simp add: drop_drop [symmetric] del: drop_drop)
  have split: "rows j = drop ?c lg0 @ drop (?c - length lg0) new" using rw lg by simp
  have "distinct (map row_seq (rows j))" using numbered_distinct [OF n] rw by (simp add: drop_map [symmetric])
  then have d: "distinct (map row_seq (drop ?c lg0 @ drop (?c - length lg0) new))" by (simp only: split)
  have "insert_rows (drop (?c - length lg0) new) (row_table (drop ?c lg0)) =
      row_table (drop ?c lg0) @ row_table (drop (?c - length lg0) new)"
  proof (rule insert_rows_new)
    show "distinct (map row_seq (drop (?c - length lg0) new))" using d by simp
    show "\<forall>r \<in> set (drop (?c - length lg0) new). row_seq r \<notin> fst ` set (row_table (drop ?c lg0))"
      using d by (fastforce simp: row_table_def)
  qed
  then show ?thesis unfolding kept rest by (simp only: split) (simp add: row_table_def)
qed

lemma sync_indexes:
  assumes l: "logged lg j" and lag: "lagging_index ix lg v j"
  shows "\<exists>ix'. sync_journal_index v j ix = Inr ix' \<and> indexes ix' v j"
proof (cases "map_option js_source_version (ix_state ix) = Some v")
  case True
  then have "indexes ix v j" using lag by (auto simp: lagging_index_def indexes_def state_of_def)
  with True logged_contiguous [OF l] show ?thesis by (simp add: sync_journal_index_def)
next
  case False
  have "synced_rows j ix = row_table (rows j)"
  proof (cases "ix_state ix")
    case None
    then show ?thesis using insert_rows_all [OF l] by (simp add: synced_rows_def)
  next
    case (Some s)
    with lag obtain lg0 new j0 v0 where i: "lg = lg0 @ new" "logged lg0 j0"
      "compacted_through j0 \<le> compacted_through j" "indexes ix v0 j0"
      by (auto simp: lagging_index_def)
    then have "s = state_of v0 j0" using Some by (simp add: indexes_def)
    then show ?thesis
      using Some synced_incremental [OF l i(2,1,3,4)] insert_rows_all [OF l]
      by (simp add: synced_rows_def state_of_def Let_def)
  qed
  then show ?thesis
    using logged_contiguous [OF l]
    unfolding sync_journal_index_def indexes_def Let_def if_not_P [OF False] by (simp add: row_table_def)
qed

text \<open>Reading an index that is in step with the document.\<close>

lemma sort_row_table:
  assumes "sorted_wrt (\<lambda>a b. row_seq a < row_seq b) rs"
  shows "sort_key fst (row_table rs) = row_table rs"
proof (rule sort_key_id_if_sorted)
  have "sorted (map row_seq rs)"
    using assms by (simp add: sorted_wrt_map) (metis (mono_tags, lifting) less_imp_le sorted_wrt_mono_rel)
  then show "sorted (map fst (row_table rs))" by (simp add: row_table_def comp_def)
qed

lemma indexed_read:
  assumes l: "logged lg j" and ix: "indexes ix v j"
  shows "journal_read_result ix b cursor limit =
    bindE (check_journal b j) (\<lambda>_.
       let latest = next_seq j - 1; compacted = compacted_through j in
       if latest < cursor then Inl (ValueError ''cursor is ahead of journal'')
       else if cursor < compacted then Inr (resync_page cursor latest compacted)
       else Inr (events_page cursor latest compacted
                   (take (nat limit) (filter (\<lambda>r. cursor < row_seq r) (rows j)))))"
proof -
  have "sorted_wrt (\<lambda>a b. row_seq a < row_seq b) (filter (\<lambda>r. cursor < row_seq r) (rows j))"
    using l numbered_sorted [of lg] by (simp add: logged_def sorted_wrt_filter sorted_wrt_drop)
  then have "map snd (sort_key fst (filter (\<lambda>(n, _). cursor < n) (ix_rows ix))) = filter (\<lambda>r. cursor < row_seq r) (rows j)"
    using ix by (simp add: indexes_def filter_row_table sort_row_table) (simp add: row_table_def comp_def)
  then show ?thesis
    using ix by (auto simp: journal_read_result_def indexes_def state_of_def check_journal_def Let_def)
qed

subsection \<open>A store and the log it holds\<close>

definition stored :: "string \<Rightarrow> event_row list \<Rightarrow> journal_store \<Rightarrow> bool" where
  "stored board lg st \<longleftrightarrow>
     (case st_doc st of
        None \<Rightarrow> lg = [] \<and> st_index st = st_index empty_store
      | Some (j, v) \<Rightarrow> logged lg j \<and> j_board_id j = board \<and> lagging_index (st_index st) lg v j)"

lemma default_logged: "logged [] (default_journal board)"
  by (simp add: logged_def numbered_def default_journal_def)

lemma indexes_lagging: "logged lg j \<Longrightarrow> indexes ix v j \<Longrightarrow> lagging_index ix lg v j"
  unfolding lagging_index_def by (metis append_Nil2 order_refl)

text \<open>The journal of a store: the document, or the default where there is none.\<close>

definition journal_of :: "string \<Rightarrow> journal_store \<Rightarrow> journal" where
  "journal_of board st = (case st_doc st of None \<Rightarrow> default_journal board | Some (j, _) \<Rightarrow> j)"

lemma stored_logged: "stored board lg st \<Longrightarrow> logged lg (journal_of board st)"
  using default_logged by (auto simp: stored_def journal_of_def split: option.split_asm)

text \<open>Reading through the index is reading the document.\<close>

lemma store_read_document:
  assumes s: "stored (strip board) lg st"
  shows "(case store_read_after board cursor limit st of Inl e \<Rightarrow> Inl e | Inr (_, pg) \<Rightarrow> Inr pg)
    = read_after board cursor limit (journal_of (strip board) st)"
proof (cases "check_page_request board cursor limit")
  case (Inr b)
  then have b: "b = strip board" and c0: "0 \<le> cursor" "1 \<le> limit"
    by (auto simp: check_page_request_def require_text_def split: if_split_asm)
  show ?thesis
  proof (cases "st_doc st")
    case None
    then have "st_index st = \<lparr> ix_rows = [], ix_state = None \<rparr>" using s by (simp add: stored_def empty_store_def)
    with None Inr b c0 show ?thesis
      by (auto simp: store_read_after_def journal_read_after_def journal_read_result_def read_after_def journal_of_def
          default_journal_def check_journal_def Let_def)
  next
    case (Some d)
    obtain j v where d: "d = (j, v)" by (cases d)
    have l: "logged lg j" and lag: "lagging_index (st_index st) lg v j" using s Some d by (simp_all add: stored_def)
    show ?thesis
    proof (cases "map_option js_source_version (ix_state (st_index st)) = Some v")
      case True
      then have "indexes (st_index st) v j" using lag by (auto simp: lagging_index_def indexes_def state_of_def)
      from indexed_read [OF l this] have "journal_read_result (st_index st) b cursor limit = read_after board cursor limit j"
        unfolding read_after_def Inr bindE_simps b by simp
      with True Some d Inr show ?thesis
        by (simp add: store_read_after_def journal_read_after_def journal_of_def bindE_def split: sum.split)
    next
      case False
      obtain ix' where ix': "sync_journal_index v j (st_index st) = Inr ix'" "indexes ix' v j"
        using sync_indexes [OF l lag] by blast
      from indexed_read [OF l this(2)] have "journal_read_result ix' b cursor limit = read_after board cursor limit j"
        unfolding read_after_def Inr bindE_simps b by simp
      moreover have "store_read_after board cursor limit st =
          bindE (journal_read_result ix' b cursor limit) (\<lambda>pg. Inr (st\<lparr>st_index := ix'\<rparr>, pg))"
        by (simp only: store_read_after_def journal_read_after_def Some d Inr ix'(1) if_not_P [OF False]
            option.case prod.case bindE_simps)
      ultimately show ?thesis using Some d
        by (cases "read_after board cursor limit j") (simp_all add: journal_of_def)
    qed
  qed
qed (simp add: store_read_after_def read_after_def)

text \<open>Writing: the index never stops a mutation, and stays in step.\<close>

lemma journal_write_stored:
  assumes s: "stored board lg st" and w: "mutate (journal_of board st) = Inr (j, x)"
    and l: "logged (lg @ new) j" and c: "compacted_through (journal_of board st) \<le> compacted_through j"
    and b: "j_board_id j = board" and keep: "j = journal_of board st \<longrightarrow> new = []"
  shows "\<exists>st'. journal_write board mutate st = Inr (st', x) \<and> stored board (lg @ new) st' \<and> journal_of board st' = j"
proof (cases "st_doc st")
  case None
  then have lg: "lg = []" "st_index st = \<lparr> ix_rows = [], ix_state = None \<rparr>"
    using s by (simp_all add: stored_def empty_store_def)
  obtain ix' where ix': "sync_journal_index 1 j (st_index st) = Inr ix'" "indexes ix' 1 j"
    using sync_indexes [OF l, of "st_index st" 1] lg by (auto simp: lagging_index_def)
  with None w b l indexes_lagging [OF l ix'(2)] show ?thesis
    by (auto simp: journal_write_def journal_of_def stored_def)
next
  case (Some d)
  obtain j0 v where d: "d = (j0, v)" by (cases d)
  define v' where "v' = (if j = j0 then v else v + 1)"
  have l0: "logged lg j0" and lag: "lagging_index (st_index st) lg v j0" and b0: "j_board_id j0 = board"
    using s Some d by (simp_all add: stored_def)
  have "lagging_index (st_index st) (lg @ new) v' j"
  proof (cases "j = j0")
    case True
    then show ?thesis using lag keep Some d by (simp add: v'_def journal_of_def)
  next
    case False
    show ?thesis
    proof (cases "ix_state (st_index st) = None")
      case True
      then show ?thesis using lag by (auto simp: lagging_index_def indexes_def)
    next
      case st: False
      with lag obtain lg0 m j1 v1 where i: "lg = lg0 @ m" "logged lg0 j1" "compacted_through j1 \<le> compacted_through j0"
        "j_board_id j1 = j_board_id j0" "indexes (st_index st) v1 j1" "v1 \<le> v" "v1 = v \<longrightarrow> indexes (st_index st) v j0"
        by (auto simp: lagging_index_def)
      have "compacted_through j1 \<le> compacted_through j" "j_board_id j1 = j_board_id j"
        using i(3,4) c b b0 Some d by (simp_all add: journal_of_def)
      moreover have "v1 \<le> v'" "v1 \<noteq> v'" using i(6) False by (simp_all add: v'_def)
      moreover have "lg @ new = lg0 @ (m @ new)" using i(1) by simp
      ultimately show ?thesis unfolding lagging_index_def using i(2,5) by blast
    qed
  qed
  from sync_indexes [OF l this] obtain ix' where ix': "sync_journal_index v' j (st_index st) = Inr ix'" "indexes ix' v' j"
    by blast
  with Some d w b l indexes_lagging [OF l ix'(2)] show ?thesis
    by (auto simp: journal_write_def journal_of_def stored_def v'_def Let_def)
qed

end
