(* ===== verification/Consumer_Cursors.thy ===== *)
theory Consumer_Cursors
  imports Journal_Log Board_State
begin

section \<open>Consumer cursors and the retention sweep\<close>

text \<open>
  \<open>CursorStore\<close> (\<open>cursor.py\<close>): per board, the position each consumer has acknowledged.  \<open>ident\<close> stands for
  the SHA-256 of principal and agent name.  \<open>CentralBoard.journal_sweep\<close> compacts the journal behind
  the oldest cursor of a live consumer.
\<close>

record consumer =
  cn_principal_id :: string
  cn_agent_name :: string
  cn_cursor :: int
  cn_updated_at :: time

record cursors =
  cu_board_id :: string
  consumers :: "(string, consumer) odict"

definition check_cursors :: "string \<Rightarrow> cursors \<Rightarrow> unit result" where
  "check_cursors board c =
     guardE (cu_board_id c = board) (ValueError ''cursor board hash collision or corrupt document'')"

definition cursor_get ::
  "(string \<Rightarrow> string \<Rightarrow> string) \<Rightarrow> string \<Rightarrow> string \<Rightarrow> string \<Rightarrow> cursors \<Rightarrow> int result" where
  "cursor_get ident pid name board c =
     bindE (require_text ''principal_id'' (J_Str pid)) (\<lambda>p.
     bindE (require_text ''agent_name'' (J_Str name)) (\<lambda>n.
     bindE (require_text ''board_id'' (J_Str board)) (\<lambda>b.
     bindE (check_cursors b c) (\<lambda>_.
       Inr (case dget (consumers c) (ident p n) of None \<Rightarrow> 0 | Some e \<Rightarrow> cn_cursor e)))))"

definition cursor_ack ::
  "(string \<Rightarrow> string \<Rightarrow> string) \<Rightarrow> string \<Rightarrow> string \<Rightarrow> string \<Rightarrow> int \<Rightarrow> time \<Rightarrow> cursors
     \<Rightarrow> (cursors \<times> int) result" where
  "cursor_ack ident pid name board cursor now c =
     bindE (require_text ''principal_id'' (J_Str pid)) (\<lambda>p.
     bindE (require_text ''agent_name'' (J_Str name)) (\<lambda>n.
     bindE (require_text ''board_id'' (J_Str board)) (\<lambda>b.
     bindE (guardE (0 \<le> cursor) (ValueError ''cursor must be a non-negative integer'')) (\<lambda>_.
     bindE (check_cursors b c) (\<lambda>_.
       let current = (case dget (consumers c) (ident p n) of None \<Rightarrow> 0 | Some e \<Rightarrow> cn_cursor e);
           acknowledged = max current cursor
       in Inr (c\<lparr>consumers := dset (ident p n)
                  \<lparr> cn_principal_id = p, cn_agent_name = n, cn_cursor = acknowledged, cn_updated_at = now \<rparr>
                  (consumers c)\<rparr>, acknowledged))))))"

text \<open>A consumer that counts: a known principal, and an acknowledgement that is not stale.\<close>

definition live_consumer :: "string list option \<Rightarrow> time option \<Rightarrow> time \<Rightarrow> consumer \<Rightarrow> bool" where
  "live_consumer active stale_after now e \<longleftrightarrow>
     0 \<le> cn_cursor e \<and>
     (case active of None \<Rightarrow> True | Some ps \<Rightarrow> cn_principal_id e \<in> set ps) \<and>
     (case stale_after of None \<Rightarrow> True | Some s \<Rightarrow> now - cn_updated_at e \<le> s)"

definition oldest_live_cursor ::
  "string \<Rightarrow> string list option \<Rightarrow> time option \<Rightarrow> time \<Rightarrow> cursors \<Rightarrow> int option result" where
  "oldest_live_cursor board active stale_after now c =
     bindE (require_text ''board_id'' (J_Str board)) (\<lambda>b.
     bindE (check_cursors b c) (\<lambda>_.
       let cs = map cn_cursor (filter (live_consumer active stale_after now) (dvalues (consumers c)))
       in Inr (if cs = [] then None else Some (Min (set cs)))))"

subsection \<open>The sweep\<close>

text \<open>The settings of the sweep in the config of the board.\<close>

record retention =
  journal_retention_days :: int
  journal_row_cap :: int

definition days :: "int \<Rightarrow> time" where
  "days n = secs (n * 86400)"

definition kept_row :: "int option \<Rightarrow> time \<Rightarrow> event_row \<Rightarrow> bool" where
  "kept_row oldest cutoff r \<longleftrightarrow>
     (case oldest of None \<Rightarrow> False | Some c \<Rightarrow> c \<le> row_seq r) \<or> cutoff \<le> row_occurred_at r"

definition keep_from :: "int option \<Rightarrow> time \<Rightarrow> event_row list \<Rightarrow> nat" where
  "keep_from oldest cutoff rs = length (takeWhile (\<lambda>r. \<not> kept_row oldest cutoff r) rs)"

definition active_principals :: "board \<Rightarrow> string list" where
  "active_principals b = map principal_id (filter (\<lambda>m. lifecycle_status m = ''active'') (dvalues (members b)))"

definition sweep_recipients :: "board \<Rightarrow> string list" where
  "sweep_recipients b =
     map agent_id (filter (\<lambda>m. role m \<in> {''admin'', ''coordinator''}) (dvalues (members b)))"

definition resource_uri :: "string \<Rightarrow> string \<Rightarrow> string \<Rightarrow> string" where
  "resource_uri board kd obj = ''board://'' @ board @ ''/'' @ kd @ ''/'' @ obj"

definition sweep_event :: "(time \<Rightarrow> string) \<Rightarrow> board \<Rightarrow> string \<Rightarrow> time \<Rightarrow> central_compaction \<Rightarrow> event" where
  "sweep_event iso_at b board now c =
     [(''kind'', J_Str ''ticket_archived''), (''actor'', J_Str ''board-journal-compact''),
      (''payload_ref'', J_Str (resource_uri board ''journal'' ''compaction'')),
      (''recipient_identities'', J_List (map J_Str (sweep_recipients b))),
      (''fixture_provenance'', J_Str ''pursers-personal-runtime''),
      (''archived_reason'', J_Str ''journal_compaction''), (''archived_at'', J_Str (iso_at now)),
      (''compacted_through'', J_Int (cp_compacted_through c)), (''removed_rows'', J_Int (cp_removed c)),
      (''retained_rows'', J_Int (cp_retained c)), (''bytes_freed'', J_Int (cp_removed c * 100))]"

definition journal_sweep ::
  "(json \<Rightarrow> string) \<Rightarrow> (string \<Rightarrow> string) \<Rightarrow> (time \<Rightarrow> string) \<Rightarrow> board \<Rightarrow> retention \<Rightarrow> string \<Rightarrow> int \<Rightarrow> time
     \<Rightarrow> cursors \<Rightarrow> journal \<Rightarrow> (journal \<times> int) result" where
  "journal_sweep dumps token iso_at b ret board retention_days now c j =
     (if int (length (rows j)) \<le> MIN_COMPACTION_RETAIN_LAST then Inr (j, 0)
      else bindE (oldest_live_cursor board (Some (active_principals b))
                    (Some (days (stale_after_days (cfg b)))) now c) (\<lambda>oldest.
        let n = int (length (rows j));
            keep = n - int (keep_from oldest (now - days retention_days) (rows j));
            retain = min (max MIN_COMPACTION_RETAIN_LAST keep) (journal_row_cap ret - 1)
        in if n \<le> retain then Inr (j, 0)
           else bindE (journal_compact dumps board retain j) (\<lambda>(j1, comp).
             if cp_removed comp > 0
             then bindE (journal_append token board (sweep_event iso_at b board now comp) now j1) (\<lambda>(j2, _).
                    Inr (j2, cp_removed comp))
             else Inr (j1, cp_removed comp))))"

subsection \<open>Properties of the parts\<close>

lemma keep_from_kept:
  "i < keep_from oldest cutoff rs \<Longrightarrow> \<not> kept_row oldest cutoff (rs ! i)"
  unfolding keep_from_def by (metis nth_mem set_takeWhileD takeWhile_nth)

lemma oldest_live_cursor_le:
  assumes "oldest_live_cursor board active stale now c = Inr o'" and "dget (consumers c) k = Some e"
    and "live_consumer active stale now e"
  shows "\<exists>m. o' = Some m \<and> m \<le> cn_cursor e"
proof -
  have "e \<in> set (dvalues (consumers c))" using assms(2) by (force simp: dvalues_def dest: dget_in_values)
  with assms show ?thesis
    by (auto simp: oldest_live_cursor_def Let_def filter_empty_conv split: if_split_asm)
qed

text \<open>Acknowledgements never move a cursor back, and touch one consumer only.\<close>

lemma cursor_ack_monotone:
  assumes "cursor_ack ident pid name board cur now c = Inr (c', a)"
  shows "a = max (case dget (consumers c) (ident (strip pid) (strip name)) of None \<Rightarrow> 0 | Some e \<Rightarrow> cn_cursor e) cur"
    and "dget (consumers c') (ident (strip pid) (strip name)) =
      Some \<lparr> cn_principal_id = strip pid, cn_agent_name = strip name, cn_cursor = a, cn_updated_at = now \<rparr>"
    and "k \<noteq> ident (strip pid) (strip name) \<Longrightarrow> dget (consumers c') k = dget (consumers c) k"
    and "cu_board_id c' = cu_board_id c"
  using assms by (auto simp: cursor_ack_def require_text_def Let_def split: if_split_asm)

end
