(* ===== verification/Event_Publication.thy ===== *)
theory Event_Publication
  imports Consumer_Cursors Work_Leases
begin

section \<open>Publishing what a transaction released\<close>

text \<open>
  \<open>publish_releases\<close> and \<open>append_and_publish\<close>: every release a mutation reports becomes one journal row.
  Parameters: \<open>iso_at\<close> and \<open>text_json\<close> render instants and stored expiry texts, \<open>activity\<close> is the
  projection of a ticket's activity that is attached to events with a ticket.  Telling the
  subscribed sessions and the timer for an offer's deadline are not modelled.
\<close>

record publication =
  pb_actor :: string
  pb_kind :: string
  pb_ref :: string
  pb_recipients :: "string list"
  pb_fields :: event

definition opt_text :: "string option \<Rightarrow> json" where
  "opt_text v = (case v of None \<Rightarrow> J_Null | Some s \<Rightarrow> J_Str s)"

definition opt_int :: "int option \<Rightarrow> json" where
  "opt_int v = (case v of None \<Rightarrow> J_Null | Some n \<Rightarrow> J_Int n)"

definition kind_text :: "kind \<Rightarrow> string" where
  "kind_text k = (case k of Work \<Rightarrow> ''work'' | Review \<Rightarrow> ''review'')"

definition offer_fields ::
  "string \<Rightarrow> kind \<Rightarrow> string option \<Rightarrow> string option \<Rightarrow> json \<Rightarrow> string option \<Rightarrow> event" where
  "offer_fields tid k a n expires reason =
     [(''ticket_id'', J_Str tid), (''offer_kind'', J_Str (kind_text k)), (''offered_agent_id'', opt_text a),
      (''offered_agent_name'', opt_text n), (''offer_expires_at'', expires), (''dispatch_reason'', opt_text reason)]"

definition dispatch_publication :: "string \<Rightarrow> string \<Rightarrow> string \<Rightarrow> string \<Rightarrow> string list \<Rightarrow> event \<Rightarrow> publication" where
  "dispatch_publication board reaper kd tid rs flds =
     \<lparr> pb_actor = reaper, pb_kind = kd, pb_ref = resource_uri board ''ticket'' tid,
       pb_recipients = filter (\<lambda>r. r \<noteq> []) rs, pb_fields = flds \<rparr>"

text \<open>The branches of the loop, one per kind of release.\<close>

fun release_publication ::
  "(time \<Rightarrow> string) \<Rightarrow> (text_val \<Rightarrow> json) \<Rightarrow> string \<Rightarrow> string \<Rightarrow> release \<Rightarrow> publication" where
  "release_publication iso_at text_json board reaper (Progress_Reset tid attempt prev reason ended rs) =
     \<lparr> pb_actor = reaper, pb_kind = ''ticket_progress_reset'', pb_ref = resource_uri board ''ticket'' tid,
       pb_recipients = rs,
       pb_fields = [(''ticket_id'', J_Str tid), (''attempt'', opt_int attempt), (''previous_revision'', opt_int prev),
                    (''reset_reason'', J_Str reason), (''progress_reset_at'', J_Str (iso_at ended))] \<rparr>"
| "release_publication iso_at text_json board reaper (Agent_Lifecycle actor target name frm to reason rs) =
     \<lparr> pb_actor = actor, pb_kind = ''agent_lifecycle_changed'', pb_ref = resource_uri board ''agent'' target,
       pb_recipients = rs,
       pb_fields = [(''target_agent_id'', J_Str target), (''target_agent_name'', J_Str name),
                    (''lifecycle_status_from'', J_Str frm), (''lifecycle_status_to'', J_Str to),
                    (''lifecycle_reason'', J_Str reason)] \<rparr>"
| "release_publication iso_at text_json board reaper (Offer_Revoked tid k a n expires reason rs) =
     dispatch_publication board reaper ''offer_revoked'' tid rs
       (offer_fields tid k (Some a) (Some n) (J_Str (iso_at expires)) (Some reason))"
| "release_publication iso_at text_json board reaper (Offer_Expired tid k a n expires rs) =
     dispatch_publication board reaper ''offer_expired'' tid rs
       (offer_fields tid k (Some a) (Some n) (J_Str (iso_at expires)) None)"
| "release_publication iso_at text_json board reaper (Offered tid k a n expires ttl rs) =
     dispatch_publication board reaper (if k = Work then ''ticket_offered'' else ''review_offered'') tid rs
       (offer_fields tid k (Some a) (Some n) (J_Str (iso_at expires)) None)"
| "release_publication iso_at text_json board reaper (Unassignable tid k reason rs) =
     dispatch_publication board reaper ''dispatch_unassignable'' tid rs
       (offer_fields tid k None None J_Null (Some reason))"
| "release_publication iso_at text_json board reaper (Review_Released tid a n p expires rs) =
     \<lparr> pb_actor = reaper, pb_kind = ''review_lease_expired'', pb_ref = resource_uri board ''ticket'' tid,
       pb_recipients = rs,
       pb_fields = [(''ticket_id'', J_Str tid), (''status_from'', J_Str ''submitted''), (''status_to'', J_Str ''submitted''),
                    (''reviewer_agent_id'', opt_text a), (''reviewer_agent_name'', opt_text n),
                    (''reviewer_principal_id'', opt_text p), (''review_lease_expires_at'', text_json expires)] \<rparr>"
| "release_publication iso_at text_json board reaper (Work_Released tid frm holder ended n rs) =
     \<lparr> pb_actor = reaper, pb_kind = ''ticket_status_changed'', pb_ref = resource_uri board ''ticket'' tid,
       pb_recipients = rs,
       pb_fields = [(''ticket_id'', J_Str tid), (''status_from'', J_Str frm), (''status_to'', J_Str ''open''),
                    (''last_abandoned_by'', J_Str holder), (''last_reaped_at'', J_Str (iso_at ended)),
                    (''abandoned_count'', J_Int n)] \<rparr>"

text \<open>\<open>append_and_publish\<close>: the event it appends; the activity of the ticket is merged into the fields.\<close>

definition merged :: "event \<Rightarrow> event \<Rightarrow> event" where
  "merged e f = fold (\<lambda>(k, v). dset k v) f e"

definition publication_event :: "(string \<Rightarrow> event) \<Rightarrow> publication \<Rightarrow> event" where
  "publication_event activity p =
     (let act = (case event_get (pb_fields p) ''ticket_id'' of
                   J_Str tid \<Rightarrow> if tid = [] then [] else activity tid | _ \<Rightarrow> [])
      in merged [(''kind'', J_Str (pb_kind p)), (''actor'', J_Str (pb_actor p)),
                 (''payload_ref'', J_Str (pb_ref p)),
                 (''recipient_identities'', J_List (map J_Str (pb_recipients p))),
                 (''fixture_provenance'', J_Str ''pursers-personal-runtime'')]
           (merged (pb_fields p) act))"

definition append_and_publish ::
  "(string \<Rightarrow> string) \<Rightarrow> (string \<Rightarrow> event) \<Rightarrow> string \<Rightarrow> time \<Rightarrow> publication \<Rightarrow> journal
     \<Rightarrow> (journal \<times> event_row) result" where
  "append_and_publish token activity board now p j =
     journal_append token board (publication_event activity p) now j"

definition publish_releases ::
  "(string \<Rightarrow> string) \<Rightarrow> (time \<Rightarrow> string) \<Rightarrow> (text_val \<Rightarrow> json) \<Rightarrow> (string \<Rightarrow> event) \<Rightarrow> string \<Rightarrow> string
     \<Rightarrow> time \<Rightarrow> release list \<Rightarrow> journal \<Rightarrow> (journal \<times> event_row list) result" where
  "publish_releases token iso_at text_json activity board pid now rels j =
     foldE (\<lambda>rel (j, rs).
       bindE (append_and_publish token activity board now
                (release_publication iso_at text_json board (''board-reaper:'' @ pid) rel) j) (\<lambda>(j', r).
         Inr (j', rs @ [r]))) rels (j, [])"

subsection \<open>Every release is journalled\<close>

lemma dget_merged: "dget (merged e f) k = (case dget (rev f) k of Some v \<Rightarrow> Some v | None \<Rightarrow> dget e k)"
proof (induction f rule: rev_induct)
  case (snoc x f)
  then show ?case by (cases x) (simp add: merged_def)
qed (simp add: merged_def)

lemma dget_rev_None: "dget (rev f) k = None \<longleftrightarrow> k \<notin> set (dkeys f)"
  using dget_in_keys [of "rev f" k] by (auto simp: dkeys_def)

lemma event_get_merged: "k \<notin> set (dkeys f) \<Longrightarrow> event_get (merged e f) k = event_get e k"
  by (simp add: event_get_def dget_merged dget_rev_None [THEN iffD2])

definition activity_only :: "(string \<Rightarrow> event) \<Rightarrow> bool" where
  "activity_only activity \<longleftrightarrow> (\<forall>tid. set (dkeys (activity tid)) \<subseteq> set ACTIVITY_EVENT_FIELDS)"

definition header_fields :: "string list" where
  "header_fields = [''kind'', ''actor'', ''payload_ref'', ''recipient_identities'']"

lemma publication_header:
  assumes "activity_only activity" and "set (dkeys (pb_fields p)) \<inter> set header_fields = {}"
  shows "event_get (publication_event activity p) ''kind'' = J_Str (pb_kind p)"
    "event_get (publication_event activity p) ''actor'' = J_Str (pb_actor p)"
    "event_get (publication_event activity p) ''payload_ref'' = J_Str (pb_ref p)"
    "event_get (publication_event activity p) ''recipient_identities'' = J_List (map J_Str (pb_recipients p))"
proof -
  define act where "act = (case event_get (pb_fields p) ''ticket_id'' of
                   J_Str tid \<Rightarrow> if tid = [] then [] else activity tid | _ \<Rightarrow> [])"
  have "set (dkeys act) \<subseteq> set ACTIVITY_EVENT_FIELDS"
    using assms(1) by (auto simp: act_def activity_only_def dkeys_def split: json.split)
  moreover have "set ACTIVITY_EVENT_FIELDS \<inter> set header_fields = {}"
    by (simp add: ACTIVITY_EVENT_FIELDS_def header_fields_def)
  ultimately have a: "k \<notin> set (dkeys act)" if "k \<in> set header_fields" for k using that by blast
  have "dget (merged (pb_fields p) act) k = None" if "k \<in> set header_fields" for k
    using a [OF that] that assms(2) dget_in_keys [of "pb_fields p" k]
    by (auto simp: dget_merged dget_rev_None [THEN iffD2] split: option.split)
  then have n: "k \<notin> set (dkeys (merged (pb_fields p) act))" if "k \<in> set header_fields" for k
    using that dget_in_keys [of "merged (pb_fields p) act" k] by auto
  define base where "base = [(''kind'', J_Str (pb_kind p)), (''actor'', J_Str (pb_actor p)),
                 (''payload_ref'', J_Str (pb_ref p)),
                 (''recipient_identities'', J_List (map J_Str (pb_recipients p))),
                 (''fixture_provenance'', J_Str ''pursers-personal-runtime'')]"
  have "publication_event activity p = merged base (merged (pb_fields p) act)"
    by (simp only: publication_event_def act_def base_def Let_def)
  then have "event_get (publication_event activity p) k = event_get base k" if "k \<in> set header_fields" for k
    using event_get_merged [OF n [OF that]] by simp
  note this [unfolded header_fields_def]
  from this [of "''kind''"] this [of "''actor''"] this [of "''payload_ref''"] this [of "''recipient_identities''"]
  show "event_get (publication_event activity p) ''kind'' = J_Str (pb_kind p)"
    "event_get (publication_event activity p) ''actor'' = J_Str (pb_actor p)"
    "event_get (publication_event activity p) ''payload_ref'' = J_Str (pb_ref p)"
    "event_get (publication_event activity p) ''recipient_identities'' = J_List (map J_Str (pb_recipients p))"
    by (simp_all add: base_def event_get_def)
qed

end
