(* ===== verification/Publication_Facts.thy ===== *)
theory Publication_Facts
  imports Event_Publication
begin

section \<open>Publishing never fails and loses nothing\<close>

definition reaper_publication ::
  "(time \<Rightarrow> string) \<Rightarrow> (text_val \<Rightarrow> json) \<Rightarrow> string \<Rightarrow> string \<Rightarrow> release \<Rightarrow> publication" where
  "reaper_publication iso_at tj board pid rel = release_publication iso_at tj board (''board-reaper:'' @ pid) rel"

lemma dget_append: "dget (xs @ ys) k = (case dget xs k of None \<Rightarrow> dget ys k | Some v \<Rightarrow> Some v)"
  by (simp add: dget_def map_add_def split: option.split)

lemma dget_semantic: "dget (semantic_of fs e) k = (if k \<in> set fs then dget e k else None)"
proof -
  have "dget (concat (map (\<lambda>k. case dget e k of None \<Rightarrow> [] | Some v \<Rightarrow> [(k, v)]) ks)) k =
      (if k \<in> set ks then dget e k else None)" for ks
    by (induction ks) (auto simp: dget_append split: option.split)
  then show ?thesis by (simp add: semantic_of_def)
qed

lemma semantic_of_get:
  "event_get (semantic_of fs e) k = (if k \<in> set fs then event_get e k else J_Null)"
  by (simp add: event_get_def dget_semantic)

lemma semantic_of_keys: "k \<in> set (dkeys (semantic_of fs e)) \<longleftrightarrow> k \<in> set fs \<and> k \<in> set (dkeys e)"
  using dget_in_keys [of "semantic_of fs e" k] dget_in_keys [of e k]
  by (simp add: dget_semantic split: if_split_asm)

lemma put_row_mk: "put_row mk j = Inr (j', r) \<Longrightarrow> \<exists>n. r = mk n"
  by (auto simp: put_row_def Let_def split: if_split_asm)

lemma require_text_strip: "require_text n v = Inr s \<longleftrightarrow> (\<exists>t. v = J_Str t \<and> s = strip t \<and> s \<noteq> [])"
  by (auto simp: require_text_def split: json.split)

text \<open>What a row keeps of its event.\<close>

definition row_from :: "event \<Rightarrow> string list \<Rightarrow> event_row \<Rightarrow> bool" where
  "row_from e fs r \<longleftrightarrow>
     (\<exists>kd. event_get e ''kind'' = J_Str kd \<and> row_kind r = strip kd \<and> row_semantic r = semantic_of fs e)"

lemma put_row_from:
  assumes "require_text n (event_get e ''kind'') = Inr kd"
    and "put_row (new_row token b kd a ref now (semantic_of fs e)) j = Inr (j', r)"
  shows "row_from e fs r"
  using assms put_row_mk [OF assms(2)] by (auto simp: row_from_def require_text_strip new_row_def)

lemma core_append_row:
  assumes "core_append token b e now j = Inr (j', r)"
  shows "row_from e SEMANTIC_FIELDS r"
  using assms unfolding core_append_def bindE_eq_Inr by (elim exE conjE) (rule put_row_from)

lemma journal_append_row:
  assumes "journal_append token b e now j = Inr (j', r)"
  shows "row_from e SEMANTIC_FIELDS r \<or> row_from e central_fields r"
  using assms unfolding journal_append_def bindE_eq_Inr
  by (elim exE conjE) (simp only: bindE_eq_Inr split: if_split_asm; (elim exE conjE)?;
      blast intro: core_append_row put_row_from)

lemma shared_fields:
  "''recipient_identities'' \<in> set SEMANTIC_FIELDS" "''ticket_id'' \<in> set SEMANTIC_FIELDS"
  "set SEMANTIC_FIELDS \<subseteq> set central_fields"
  by (simp_all add: SEMANTIC_FIELDS_def central_fields_def)

lemma row_from_keeps:
  assumes "row_from e SEMANTIC_FIELDS r \<or> row_from e central_fields r" and "k \<in> set SEMANTIC_FIELDS"
  shows "event_get (row_semantic r) k = event_get e k"
  using assms shared_fields(3) by (auto simp: row_from_def semantic_of_get)

definition release_ok :: "release \<Rightarrow> bool" where
  "release_ok rel \<longleftrightarrow> (case rel of Agent_Lifecycle actor _ _ _ _ _ _ \<Rightarrow> strip actor \<noteq> [] | _ \<Rightarrow> True)"

lemma strip_known_kinds:
  "list_all (\<lambda>k. k \<noteq> [] \<and> strip k = k \<and> k \<in> set central_kinds)
     [''ticket_progress_reset'', ''agent_lifecycle_changed'', ''offer_revoked'', ''offer_expired'', ''ticket_offered'',
      ''review_offered'', ''dispatch_unassignable'', ''review_lease_expired'', ''ticket_status_changed'']"
  by code_simp

lemma strip_prefixed: "c # cs = p @ s \<Longrightarrow> \<not> is_space c \<Longrightarrow> strip (p @ s) \<noteq> []"
proof -
  assume a: "c # cs = p @ s" and c: "\<not> is_space c"
  have "c \<in> set (dropWhile is_space (rev (c # cs)))"
  proof (rule ccontr)
    assume "c \<notin> set (dropWhile is_space (rev (c # cs)))"
    then have "dropWhile is_space (rev (c # cs)) = []"
      using c by (auto simp: dropWhile_append split: if_split_asm)
    with c show False by simp
  qed
  then have "strip (c # cs) \<noteq> []" using c by (auto simp: strip_def)
  with a show ?thesis by simp
qed

lemma release_publication_ok:
  assumes "release_ok rel"
  shows "strip (pb_actor (reaper_publication iso_at tj board pid rel)) \<noteq> []"
    "strip (pb_ref (reaper_publication iso_at tj board pid rel)) \<noteq> []"
    "strip (pb_kind (reaper_publication iso_at tj board pid rel)) =
       pb_kind (reaper_publication iso_at tj board pid rel) \<and> pb_kind (reaper_publication iso_at tj board pid rel) \<noteq> []"
    "pb_kind (reaper_publication iso_at tj board pid rel) \<in> set central_kinds"
    "set (dkeys (pb_fields (reaper_publication iso_at tj board pid rel))) \<inter> set header_fields = {}"
proof -
  note [simp] = reaper_publication_def
  have b: "\<not> is_space (CHR ''b'')" by code_simp
  have "strip (''board-reaper:'' @ pid) \<noteq> []" by (rule strip_prefixed [OF _ b]) simp
  moreover have "strip (resource_uri x y z) \<noteq> []" for x y z
    unfolding resource_uri_def by (rule strip_prefixed [OF _ b]) simp
  ultimately show "strip (pb_actor (reaper_publication iso_at tj board pid rel)) \<noteq> []"
    "strip (pb_ref (reaper_publication iso_at tj board pid rel)) \<noteq> []"
    using assms by (cases rel; simp add: release_ok_def dispatch_publication_def)+
  show "strip (pb_kind (reaper_publication iso_at tj board pid rel)) =
       pb_kind (reaper_publication iso_at tj board pid rel) \<and> pb_kind (reaper_publication iso_at tj board pid rel) \<noteq> []"
    "pb_kind (reaper_publication iso_at tj board pid rel) \<in> set central_kinds"
    using strip_known_kinds by (cases rel; simp add: dispatch_publication_def)+
  show "set (dkeys (pb_fields (reaper_publication iso_at tj board pid rel))) \<inter> set header_fields = {}"
    by (cases rel; simp add: dispatch_publication_def dkeys_def offer_fields_def header_fields_def)
qed

text \<open>The row of a release.\<close>

definition row_of :: "publication \<Rightarrow> event_row \<Rightarrow> bool" where
  "row_of p r \<longleftrightarrow> row_kind r = pb_kind p \<and>
     event_get (row_semantic r) ''recipient_identities'' = J_List (map J_Str (pb_recipients p))"

lemma append_and_publish_row:
  assumes l: "logged lg j" and b: "j_board_id j = strip board" "strip board \<noteq> []" and act: "activity_only activity"
    and rel: "release_ok rel"
    and p: "p = reaper_publication iso_at tj board pid rel"
  shows "\<exists>j' r. append_and_publish token activity board now p j = Inr (j', r) \<and>
    extended lg j j' r \<and> row_of p r"
proof -
  note ok = release_publication_ok [OF rel, of iso_at tj board pid, folded p]
  note h = publication_header [OF act ok(5)]
  have "returns (journal_append token board (publication_event activity p) now j)"
    by (rule journal_append_total [OF l b]) (use ok h in \<open>simp_all add: require_text_strip\<close>)
  then obtain j' r where a: "journal_append token board (publication_event activity p) now j = Inr (j', r)"
    by (auto simp: returns_iff)
  note r = journal_append_row [OF a]
  have "row_kind r = pb_kind p" using r h(1) ok(3) by (auto simp: row_from_def)
  then have "row_of p r" using row_from_keeps [OF r shared_fields(1)] h(4) by (simp add: row_of_def)
  with journal_append_extended [OF l a] a show ?thesis by (simp add: append_and_publish_def)
qed

text \<open>Whatever was published is at the end of the log.\<close>

lemma publish_releases_logged:
  assumes "logged lg j" and "publish_releases token iso_at tj activity board pid now rels j = Inr (j', rs)"
  shows "logged (lg @ rs) j' \<and> compacted_through j' = compacted_through j \<and> j_board_id j' = j_board_id j"
  using assms(2)
proof (induction rels arbitrary: j' rs rule: rev_induct)
  case (snoc rel rels)
  then obtain j1 rs1 r where p: "publish_releases token iso_at tj activity board pid now rels j = Inr (j1, rs1)"
    and a: "append_and_publish token activity board now (reaper_publication iso_at tj board pid rel) j1 = Inr (j', r)"
    and rs: "rs = rs1 @ [r]"
    by (auto simp: publish_releases_def reaper_publication_def foldE_append)
  note l = snoc.IH [OF p]
  from journal_append_extended [OF conjunct1 [OF l] a [unfolded append_and_publish_def]] l rs show ?case
    by (simp add: extended_def)
qed (use assms(1) in \<open>simp add: publish_releases_def\<close>)

lemma publish_releases_rows:
  assumes "logged lg j" and "j_board_id j = strip board" "strip board \<noteq> []" and "activity_only activity"
    and "\<forall>rel \<in> set rels. release_ok rel"
  shows "\<exists>j' rs. publish_releases token iso_at tj activity board pid now rels j = Inr (j', rs) \<and>
    logged (lg @ rs) j' \<and> compacted_through j' = compacted_through j \<and> j_board_id j' = j_board_id j \<and>
    list_all2 (\<lambda>rel r. row_of (reaper_publication iso_at tj board pid rel) r) rels rs"
  using assms(5)
proof (induction rels rule: rev_induct)
  case (snoc rel rels)
  then obtain j1 rs where p: "publish_releases token iso_at tj activity board pid now rels j = Inr (j1, rs)"
    and l1: "logged (lg @ rs) j1" "compacted_through j1 = compacted_through j" "j_board_id j1 = j_board_id j"
    and rows: "list_all2 (\<lambda>rel r. row_of (reaper_publication iso_at tj board pid rel) r) rels rs"
    by auto
  from append_and_publish_row [OF l1(1) _ assms(3,4) _ refl, of rel token now iso_at tj pid] l1(3) assms(2) snoc.prems
  obtain j2 r where "append_and_publish token activity board now (reaper_publication iso_at tj board pid rel) j1
      = Inr (j2, r)" "extended (lg @ rs) j1 j2 r" "row_of (reaper_publication iso_at tj board pid rel) r"
    by fastforce
  with p l1 rows show ?case
    by (auto simp: publish_releases_def reaper_publication_def foldE_append extended_def list_all2_appendI)
qed (use assms(1) in \<open>simp add: publish_releases_def\<close>)

end
