(* ===== verification/Board_Catchup.thy ===== *)
theory Board_Catchup
  imports Publication_Facts Ticket_Claims
begin

section \<open>Draining the journal: \<open>board_catchup\<close>\<close>

text \<open>
  The tool a seat calls to read its events: one page of the journal behind its cursor, filtered by what
  it may see, cut to the byte limit, and acknowledged.  The services the tool leans on are the record
  \<open>feed_services\<close>: the two hashes, the JSON size of a reply, ISO times, the ticket activity, and the
  generation fence of the board.
\<close>

record feed =
  fd_world :: world
  fd_journal :: journal
  fd_cursors :: cursors

record catch_reply =
  ct_events :: "event_row list"
  ct_next_cursor :: int
  ct_latest_cursor :: int
  ct_has_more :: bool
  ct_resync_required :: bool
  ct_compacted_through :: int
  ct_reset_cursor :: "int option"
  ct_scan_count :: int
  ct_effective_scan_count :: int
  ct_acknowledged_cursor :: int
  ct_touched :: bool
  ct_release_events :: "event_row list"
  ct_renewed :: "string list"
  ct_total_events :: int
  ct_visible_in_page :: int
  ct_omitted_events :: int
  ct_omitted_visible :: int
  ct_omitted_journal :: int
  ct_truncated :: bool

record feed_services =
  fv_agent_id :: "string \<Rightarrow> string \<Rightarrow> string \<Rightarrow> string"
  fv_identity :: "string \<Rightarrow> string \<Rightarrow> string"
  fv_token :: "string \<Rightarrow> string"
  fv_iso_at :: "time \<Rightarrow> string"
  fv_text_json :: "text_val \<Rightarrow> json"
  fv_parse_iso :: "json \<Rightarrow> text_val"
  fv_activity :: "string \<Rightarrow> event"
  fv_size :: "catch_reply \<Rightarrow> int"
  fv_fence :: "world \<Rightarrow> unit result"

definition MAX_CATCHUP_MAX_EVENTS :: int where "MAX_CATCHUP_MAX_EVENTS = 1000"
definition MIN_CATCHUP_MAX_BYTES :: int where "MIN_CATCHUP_MAX_BYTES = 4096"
definition MAX_CATCHUP_MAX_BYTES :: int where "MAX_CATCHUP_MAX_BYTES = 750000"

subsection \<open>What a seat may see\<close>

definition is_currently_open_ticket_event :: "world \<Rightarrow> event_row \<Rightarrow> bool" where
  "is_currently_open_ticket_event w r \<longleftrightarrow>
     (case event_get (row_semantic r) ''ticket_id'' of
        J_Str tid \<Rightarrow>
          row_kind r \<in> {''ticket_created'', ''ticket_status_changed''} \<and>
          event_get (row_semantic r) ''status_to'' = J_Str ''open'' \<and>
          (case get_ticket w tid of None \<Rightarrow> False | Some t \<Rightarrow> status t = ''open'')
      | _ \<Rightarrow> False)"

definition event_is_unexpired :: "(json \<Rightarrow> text_val) \<Rightarrow> time \<Rightarrow> event_row \<Rightarrow> bool" where
  "event_is_unexpired parse now r \<longleftrightarrow>
     (let v = event_get (row_semantic r) ''expires_at'' in
      v = J_Null \<or> (case parse v of T_Instant e \<Rightarrow> now < e | _ \<Rightarrow> False))"

text \<open>Every writer of a row gives the recipients as a list.\<close>

definition is_recipient :: "string \<Rightarrow> event_row \<Rightarrow> bool" where
  "is_recipient aid r \<longleftrightarrow>
     (case event_get (row_semantic r) ''recipient_identities'' of J_List xs \<Rightarrow> J_Str aid \<in> set xs | _ \<Rightarrow> False)"

definition event_visible ::
  "(json \<Rightarrow> text_val) \<Rightarrow> world \<Rightarrow> seat \<Rightarrow> principal \<Rightarrow> time \<Rightarrow> event_row \<Rightarrow> bool" where
  "event_visible parse w actor p now r \<longleftrightarrow>
     row_actor r \<noteq> agent_id actor \<and> event_is_unexpired parse now r \<and>
     (is_recipient (agent_id actor) r \<or> is_currently_open_ticket_event w r \<or>
      (row_kind r = ''board_state_changed'' \<and> COORDINATOR_SCOPE \<in> set (pr_scopes p)))"

subsection \<open>The reply\<close>

definition effective_cursor :: "int \<Rightarrow> page \<Rightarrow> event_row list \<Rightarrow> event_row list \<Rightarrow> int" where
  "effective_cursor start pg visible evs =
     (if pg_resync_required pg then pg_next_cursor pg
      else if visible = [] \<or> length evs = length visible then pg_next_cursor pg
      else if evs \<noteq> [] then row_seq (last evs)
      else start)"

definition catch_payload ::
  "int \<Rightarrow> page \<Rightarrow> event_row list \<Rightarrow> int \<Rightarrow> bool \<Rightarrow> event_row list \<Rightarrow> string list \<Rightarrow> event_row list \<Rightarrow> catch_reply" where
  "catch_payload start pg visible acked touched released renewed evs =
     (let eff = effective_cursor start pg visible evs;
          latest = pg_latest_cursor pg;
          more = (if pg_resync_required pg then pg_has_more pg else eff < latest);
          omitted = int (length visible) - int (length evs);
          total = max 0 (latest - start)
      in \<lparr> ct_events = evs, ct_next_cursor = eff, ct_latest_cursor = latest, ct_has_more = more,
           ct_resync_required = pg_resync_required pg, ct_compacted_through = pg_compacted_through pg,
           ct_reset_cursor = pg_reset_cursor pg, ct_scan_count = int (length (pg_events pg)),
           ct_effective_scan_count = int (length (filter (\<lambda>r. row_seq r \<le> eff) (pg_events pg))),
           ct_acknowledged_cursor = acked, ct_touched = touched, ct_release_events = released,
           ct_renewed = renewed, ct_total_events = total, ct_visible_in_page = int (length visible),
           ct_omitted_events = max 0 (total - int (length evs)), ct_omitted_visible = omitted,
           ct_omitted_journal = (if pg_resync_required pg then 0 else max 0 (latest - eff)),
           ct_truncated = (more \<or> omitted \<noteq> 0) \<rparr>)"

text \<open>\<open>while serialized_size(result) > max_bytes and returned: returned.pop()\<close>\<close>

function shrink :: "(event_row list \<Rightarrow> int) \<Rightarrow> int \<Rightarrow> event_row list \<Rightarrow> event_row list" where
  "shrink sz max_bytes evs =
     (if sz evs > max_bytes \<and> evs \<noteq> [] then shrink sz max_bytes (butlast evs) else evs)"
  by pat_completeness auto

termination by (relation "measure (\<lambda>(_, _, evs). length evs)") auto

declare shrink.simps [simp del]

definition catch_page ::
  "(catch_reply \<Rightarrow> int) \<Rightarrow> int \<Rightarrow> int \<Rightarrow> page \<Rightarrow> event_row list \<Rightarrow> int \<Rightarrow> bool \<Rightarrow> event_row list \<Rightarrow> string list
     \<Rightarrow> catch_reply result" where
  "catch_page sz max_bytes start pg visible acked touched released renewed =
     (let mk = catch_payload start pg visible acked touched released renewed;
          returned = shrink (\<lambda>evs. sz (mk evs)) max_bytes visible
      in if sz (mk returned) > max_bytes then Inl (ValueError ''max_bytes is too small for catchup metadata'')
         else if visible \<noteq> [] \<and> returned = [] then Inl (ValueError ''max_bytes is too small for one journal event'')
         else Inr (mk returned))"

subsection \<open>The tool\<close>

record catch_request =
  cq_cursor :: "int option"
  cq_limit :: int
  cq_ack :: bool
  cq_touch :: bool
  cq_max_events :: int
  cq_max_bytes :: int

definition catch_prepare ::
  "feed_services \<Rightarrow> principal \<Rightarrow> string \<Rightarrow> string \<Rightarrow> bool \<Rightarrow> time \<Rightarrow> feed
     \<Rightarrow> (feed \<times> event_row list \<times> string list) result" where
  "catch_prepare sv p board name touch now f =
     (if touch \<and> ''board:write'' \<in> set (pr_scopes p)
      then bindE (prepare_board_call (fv_agent_id sv) (fd_world f) p name now) (\<lambda>(w, actor, released, renewed).
           bindE (publish_releases (fv_token sv) (fv_iso_at sv) (fv_text_json sv) (fv_activity sv)
                    board (pr_id p) now released (fd_journal f)) (\<lambda>(j, rs).
             Inr (f\<lparr>fd_world := w, fd_journal := j\<rparr>, rs, renewed)))
      else Inr (f, [], []))"

definition catch_read ::
  "feed_services \<Rightarrow> principal \<Rightarrow> string \<Rightarrow> string \<Rightarrow> catch_request \<Rightarrow> int \<Rightarrow> int \<Rightarrow> time \<Rightarrow> event_row list
     \<Rightarrow> string list \<Rightarrow> feed \<Rightarrow> catch_reply result" where
  "catch_read sv p board name q acked start now rs renewed f =
     bindE (lookup_member (fv_agent_id sv) (fd_world f) p name) (\<lambda>(_, actor).
     bindE (read_after board start (min (cq_limit q) (cq_max_events q)) (fd_journal f)) (\<lambda>pg.
       catch_page (fv_size sv) (cq_max_bytes q) start pg
         (filter (event_visible (fv_parse_iso sv) (fd_world f) actor p now) (pg_events pg))
         acked (cq_touch q) rs renewed))"

definition board_catchup ::
  "feed_services \<Rightarrow> principal \<Rightarrow> string \<Rightarrow> string \<Rightarrow> catch_request \<Rightarrow> time \<Rightarrow> feed \<Rightarrow> (feed \<times> catch_reply) result" where
  "board_catchup sv p board name q now f =
     bindE (guardE (1 \<le> cq_max_events q \<and> cq_max_events q \<le> MAX_CATCHUP_MAX_EVENTS)
              (ValueError ''max_events must be between 1 and 1000'')) (\<lambda>_.
     bindE (guardE (MIN_CATCHUP_MAX_BYTES \<le> cq_max_bytes q \<and> cq_max_bytes q \<le> MAX_CATCHUP_MAX_BYTES)
              (ValueError ''max_bytes must be between 4096 and 750000'')) (\<lambda>_.
     bindE (require_scope p ''board:read'') (\<lambda>_.
     bindE (lookup_member (fv_agent_id sv) (fd_world f) p name) (\<lambda>_.
     bindE (cursor_get (fv_identity sv) (pr_id p) name board (fd_cursors f)) (\<lambda>acked.
       let start = (case cq_cursor q of None \<Rightarrow> acked | Some c \<Rightarrow> c) in
       bindE (read_after board start (cq_limit q) (fd_journal f)) (\<lambda>_.
       bindE (catch_prepare sv p board name (cq_touch q) now f) (\<lambda>(f1, rs, renewed).
       bindE (catch_read sv p board name q acked start now rs renewed f1) (\<lambda>reply.
         if cq_touch q \<and> cq_ack q \<and> \<not> ct_resync_required reply
         then bindE (fv_fence sv (fd_world f1)) (\<lambda>_.
              bindE (cursor_ack (fv_identity sv) (pr_id p) name board (ct_next_cursor reply) now (fd_cursors f1))
                (\<lambda>(c, a). Inr (f1\<lparr>fd_cursors := c\<rparr>, reply\<lparr>ct_acknowledged_cursor := a\<rparr>)))
         else Inr (f1, reply)))))))))"

end
