(* ===== verification/Catchup_Facts.thy ===== *)
theory Catchup_Facts
  imports Board_Catchup "HOL-Library.Sublist"
begin

section \<open>What a catchup delivers\<close>

lemma shrink_take: "\<exists>n. shrink sz m evs = take n evs"
proof (induction sz m evs rule: shrink.induct)
  case (1 sz m evs)
  show ?case
  proof (cases "sz evs > m \<and> evs \<noteq> []")
    case True
    with 1 obtain n where "shrink sz m (butlast evs) = take n (butlast evs)" by blast
    then have "shrink sz m evs = take (min n (length evs - 1)) evs"
      using True by (subst shrink.simps) (simp add: butlast_conv_take min.commute)
    then show ?thesis by blast
  next
    case False
    then have "shrink sz m evs = take (length evs) evs" by (subst shrink.simps) (simp only: if_False take_all order_refl)
    then show ?thesis by blast
  qed
qed

lemma numbered_upto:
  assumes n: "numbered lg" and b: "s \<le> m" "m \<le> s + l"
  shows "filter (\<lambda>r. row_seq r \<le> int m) (take l (drop s lg)) = take (m - s) (drop s lg)"
proof -
  have split: "take l (drop s lg) = take (m - s) (drop s lg) @ take (l - (m - s)) (drop m lg)"
    using b take_add [of "m - s" "l - (m - s)" "drop s lg"] by simp
  have "set (take (m - s) (drop s lg)) \<subseteq> set (take m lg)"
    using b by (simp add: drop_take [symmetric] take_drop [symmetric] set_drop_subset)
  then have "filter (\<lambda>r. row_seq r \<le> int m) (take (m - s) (drop s lg)) = take (m - s) (drop s lg)"
    using numbered_in_take [OF n] by (auto simp: filter_id_conv)
  moreover have "filter (\<lambda>r. row_seq r \<le> int m) (take (l - (m - s)) (drop m lg)) = []"
    using numbered_in_drop [OF n] by (fastforce simp: filter_empty_conv dest: in_set_takeD)
  ultimately show ?thesis by (subst split) (simp only: filter_append append_Nil2)
qed

lemma take_by_last:
  assumes s: "sorted_wrt (\<lambda>a b. row_seq a < row_seq b) v" and k: "0 < k" "k \<le> length v"
  shows "filter (\<lambda>r. row_seq r \<le> row_seq (last (take k v))) v = take k v"
proof -
  have l: "last (take k v) = v ! (k - 1)" using k by (subst last_conv_nth) (auto simp: min_def)
  have "\<forall>r \<in> set (take k v). row_seq r \<le> row_seq (v ! (k - 1))"
  proof
    fix r assume "r \<in> set (take k v)"
    then obtain i where "i < k" "r = v ! i" using k by (auto simp: in_set_conv_nth)
    then have "i = k - 1 \<or> i < k - 1" "k - 1 < length v" using k by auto
    then show "row_seq r \<le> row_seq (v ! (k - 1))"
      using \<open>r = v ! i\<close> sorted_wrt_nth_less [OF s, of i "k - 1"] by (auto intro: less_imp_le)
  qed
  moreover have "\<forall>r \<in> set (drop k v). \<not> row_seq r \<le> row_seq (v ! (k - 1))"
  proof
    fix r assume "r \<in> set (drop k v)"
    then obtain i where "i < length v - k" "r = v ! (k + i)" by (auto simp: in_set_conv_nth)
    moreover from this k have "k - 1 < k + i" "k + i < length v" by simp_all
    ultimately show "\<not> row_seq r \<le> row_seq (v ! (k - 1))"
      using sorted_wrt_nth_less [OF s, of "k - 1" "k + i"] by simp
  qed
  ultimately have "filter (\<lambda>r. row_seq r \<le> row_seq (v ! (k - 1))) (take k v @ drop k v) = take k v"
    by (simp only: filter_append filter_True filter_False append_Nil2)
  then show ?thesis using l by simp
qed

text \<open>One page: the visible events up to the new cursor, all of them, and progress where there is any.\<close>

definition delivers :: "event_row list \<Rightarrow> int \<Rightarrow> (event_row \<Rightarrow> bool) \<Rightarrow> catch_reply \<Rightarrow> bool" where
  "delivers lg start vis r \<longleftrightarrow>
     start \<le> ct_next_cursor r \<and> ct_next_cursor r \<le> int (length lg) \<and>
     ct_events r = filter vis (take (nat (ct_next_cursor r - start)) (drop (nat start) lg)) \<and>
     ct_latest_cursor r = int (length lg) \<and> ct_has_more r = (ct_next_cursor r < int (length lg)) \<and>
     (start < int (length lg) \<longrightarrow> start < ct_next_cursor r)"

lemma log_page_next:
  assumes n: "numbered lg" and c: "flr \<le> c" "0 \<le> c" "c \<le> int (length lg)" and l: "0 < l"
  shows "pg_next_cursor (log_page lg flr c l) = min (c + l) (int (length lg))"
proof (cases "c = int (length lg)")
  case True
  then show ?thesis using c l by (simp add: log_page_def events_page_def Let_def)
next
  case False
  then have "nat c < length lg" "0 < nat l" using c l by simp_all
  from numbered_last_page [OF n this] this show ?thesis
    using c l by (auto simp: log_page_def events_page_def Let_def min_def)
qed

lemma log_page_simps:
  assumes "flr \<le> c"
  shows "pg_events (log_page lg flr c l) = take (nat l) (drop (nat c) lg)"
    "pg_latest_cursor (log_page lg flr c l) = int (length lg)" "\<not> pg_resync_required (log_page lg flr c l)"
  using assms by (simp_all add: log_page_def events_page_def Let_def)

lemma catch_page_delivers:
  assumes n: "numbered lg" and c: "flr \<le> c" "0 \<le> c" "c \<le> int (length lg)" and l: "0 < l"
    and pg: "pg = log_page lg flr c l"
    and r: "catch_page sz mb c pg (filter vis (pg_events pg)) acked touched rel ren = Inr r"
  shows "delivers lg c vis r \<and> \<not> ct_resync_required r"
proof -
  define P where "P = take (nat l) (drop (nat c) lg)"
  define v where "v = filter vis P"
  note pgs = log_page_simps [OF c(1), of lg l, folded pg P_def]
  have nx: "pg_next_cursor pg = min (c + l) (int (length lg))" unfolding pg by (rule log_page_next [OF n c l])
  define mk where "mk = catch_payload c pg v acked touched rel ren"
  define ret where "ret = shrink (\<lambda>evs. sz (mk evs)) mb v"
  from r have rr: "r = mk ret" and ne: "v \<noteq> [] \<Longrightarrow> ret \<noteq> []"
    by (auto simp: catch_page_def pgs v_def [symmetric] mk_def [symmetric] ret_def [symmetric] Let_def split: if_split_asm)
  obtain k0 where "ret = take k0 v" using shrink_take unfolding ret_def by blast
  then obtain k where k: "ret = take k v" "k \<le> length v" by (metis min.cobounded2 take_all_iff take_take min_def linear)
  define m where "m = effective_cursor c pg v ret"
  have rs: "ct_next_cursor r = m" "ct_events r = ret" "ct_latest_cursor r = int (length lg)"
    "ct_has_more r = (m < int (length lg))" "\<not> ct_resync_required r"
    by (simp_all add: rr mk_def m_def catch_payload_def pgs Let_def)
  have prog: "c < int (length lg) \<longrightarrow> c < pg_next_cursor pg" using nx l by simp
  have bound: "c \<le> pg_next_cursor pg" "pg_next_cursor pg \<le> int (length lg)" "pg_next_cursor pg \<le> c + l"
    using nx l c by simp_all
  have seg: "filter (\<lambda>r. row_seq r \<le> m) P = take (nat (m - c)) (drop (nat c) lg)" if "c \<le> m" "m \<le> c + l"
  proof -
    have "nat c \<le> nat m" "nat m \<le> nat c + nat l" "int (nat m) = m" "nat m - nat c = nat (m - c)" using that c l by simp_all
    from numbered_upto [OF n this(1,2)] this(3,4) show ?thesis by (simp add: P_def)
  qed
  have "c \<le> m \<and> m \<le> pg_next_cursor pg \<and> (c < int (length lg) \<longrightarrow> c < m) \<and>
      ret = filter vis (take (nat (m - c)) (drop (nat c) lg))"
  proof (cases "v = [] \<or> length ret = length v")
    case True
    then have m: "m = pg_next_cursor pg" by (simp add: m_def effective_cursor_def pgs)
    have "take (nat (m - c)) (drop (nat c) lg) = P"
    proof (cases "c + l \<le> int (length lg)")
      case False
      then have "P = drop (nat c) lg" using c l by (simp add: P_def)
      moreover have "take (nat (m - c)) (drop (nat c) lg) = drop (nat c) lg" using m nx False c by simp
      ultimately show ?thesis by simp
    qed (use m nx in \<open>simp add: P_def\<close>)
    moreover have "ret = v" using True k by auto
    ultimately show ?thesis using m bound prog by (simp add: v_def)
  next
    case False
    then have m: "m = row_seq (last ret)" and rn: "ret \<noteq> []"
      using ne by (auto simp: m_def effective_cursor_def pgs)
    then have k0: "0 < k" using k by (cases k) auto
    have "last ret \<in> set v" using rn k by (metis in_set_takeD last_in_set)
    then have inP: "last ret \<in> set P" by (simp add: v_def)
    then have "row_seq (last ret) \<in> row_seq ` set (drop (nat c) lg)" by (auto simp: P_def dest: in_set_takeD)
    then have lo: "c < m" using numbered_in_drop [OF n, of _ "nat c"] m c by fastforce
    have "last ret \<in> set (take (nat c + nat l) lg)"
      using inP by (simp add: P_def take_drop [symmetric] drop_take [symmetric] add.commute in_set_dropD)
        (metis add.commute in_set_dropD take_drop)
    then have hi: "m \<le> c + l" using numbered_in_take [OF n, of _ "nat c + nat l"] m c l by fastforce
    have hi2: "m \<le> int (length lg)"
      using numbered_in_take [OF n, of "last ret" "length lg"] inP m by (auto simp: P_def dest: in_set_takeD in_set_dropD)
    have "sorted_wrt (\<lambda>a b. row_seq a < row_seq b) v"
      unfolding v_def P_def by (intro sorted_wrt_filter sorted_wrt_take sorted_wrt_drop numbered_sorted n)
    from take_by_last [OF this k0 k(2)] have "ret = filter (\<lambda>r. row_seq r \<le> m) v" using k m by simp
    also have "\<dots> = filter vis (filter (\<lambda>r. row_seq r \<le> m) P)" by (simp add: v_def conj_commute)
    finally show ?thesis using seg lo hi hi2 nx by simp
  qed
  then show ?thesis using rs bound by (simp add: delivers_def)
qed

end
