(* ===== verification/Journal_Readers.thy ===== *)
theory Journal_Readers
  imports Journal_Index Catchup_Facts
begin

section \<open>What the readers of a journal rely on\<close>

text \<open>
  The interface between the journal and its readers: whatever stores the events, a page is the log
  behind a cursor, and what lies below the floor is forgotten.  Both stores provide it: the document
  alone, and the document with the row index of SQLite.
\<close>

locale event_log =
  fixes holds :: "string \<Rightarrow> event_row list \<Rightarrow> 's \<Rightarrow> bool"
    and flr :: "string \<Rightarrow> 's \<Rightarrow> int"
    and fetch :: "string \<Rightarrow> int \<Rightarrow> int \<Rightarrow> 's \<Rightarrow> page result"
  assumes holds_numbered: "holds b lg s \<Longrightarrow> numbered lg \<and> 0 \<le> flr b s \<and> flr b s \<le> int (length lg)"
    and fetch_log: "holds (strip b) lg s \<Longrightarrow>
      fetch b cursor limit s =
        bindE (check_page_request b cursor limit) (\<lambda>_.
          if int (length lg) < cursor then Inl (ValueError ''cursor is ahead of journal'')
          else Inr (log_page lg (flr (strip b) s) cursor limit))"
begin

lemma fetch_answers:
  assumes "holds (strip b) lg s" and "strip b \<noteq> []" "0 \<le> c" "c \<le> int (length lg)" "1 \<le> l" "l \<le> 1000"
  shows "fetch b c l s = Inr (log_page lg (flr (strip b) s) c l)"
  using assms fetch_log [OF assms(1), of c l] by (simp add: check_page_request_def require_text_def)

lemma fetch_segment:
  assumes "holds (strip b) lg s" and "fetch b c l s = Inr pg" and "\<not> pg_resync_required pg"
  shows "pg_events pg = take (nat l) (drop (nat c) lg) \<and>
    pg_next_cursor pg = min (c + l) (int (length lg)) \<and> pg_latest_cursor pg = int (length lg) \<and>
    flr (strip b) s \<le> c \<and> 0 \<le> c \<and> c \<le> int (length lg) \<and> 1 \<le> l \<and> l \<le> 1000 \<and> strip b \<noteq> []"
proof -
  from assms(1,2) have req: "0 \<le> c" "1 \<le> l" "l \<le> 1000" "c \<le> int (length lg)" "strip b \<noteq> []"
    and pg: "pg = log_page lg (flr (strip b) s) c l"
    by (auto simp: fetch_log check_page_request_def require_text_def split: if_split_asm)
  have f: "flr (strip b) s \<le> c"
    using assms(3) pg by (auto simp: log_page_def resync_page_def split: if_split_asm)
  have "numbered lg" using holds_numbered [OF assms(1)] by simp
  from log_page_next [OF this f req(1,4)] log_page_simps [OF f, of lg l] req f pg show ?thesis by simp
qed

text \<open>Following \<open>next_cursor\<close>, the next page starts where the last one ended.\<close>

lemma pages_tile:
  assumes h: "holds (strip b) lg s" and p: "fetch b c l s = Inr pg" "\<not> pg_resync_required pg"
  shows "\<exists>pg'. fetch b (pg_next_cursor pg) l s = Inr pg' \<and> \<not> pg_resync_required pg' \<and>
    pg_events pg @ pg_events pg' = take (nat (2 * l)) (drop (nat c) lg) \<and>
    (pg_has_more pg \<longleftrightarrow> pg_events pg' \<noteq> [])"
proof -
  note s = fetch_segment [OF h p]
  let ?n = "pg_next_cursor pg"
  have n: "0 \<le> ?n" "?n \<le> int (length lg)" "flr (strip b) s \<le> ?n" using s by (auto simp: min_def)
  have r: "fetch b ?n l s = Inr (log_page lg (flr (strip b) s) ?n l)"
    using fetch_answers [OF h _ n(1,2)] s by blast
  have e: "pg_events (log_page lg (flr (strip b) s) ?n l) = take (nat l) (drop (nat ?n) lg)"
    "\<not> pg_resync_required (log_page lg (flr (strip b) s) ?n l)"
    using log_page_simps [OF n(3)] by simp_all
  have "pg_events pg @ take (nat l) (drop (nat ?n) lg) = take (nat (2 * l)) (drop (nat c) lg)"
  proof (cases "c + l \<le> int (length lg)")
    case True
    then have "nat ?n = nat l + nat c" "nat (2 * l) = nat l + nat l" using s by linarith+
    moreover have "pg_events pg = take (nat l) (drop (nat c) lg)" using s by blast
    ultimately show ?thesis by (simp only: take_add drop_drop)
  next
    case False
    then have "nat ?n = length lg" "length lg \<le> nat c + nat l" "length lg \<le> nat c + nat (2 * l)" using s by linarith+
    then show ?thesis using s by simp
  qed
  moreover have "pg_has_more pg \<longleftrightarrow> pg_events (log_page lg (flr (strip b) s) ?n l) \<noteq> []"
  proof -
    have "pg = log_page lg (flr (strip b) s) c l" using p(1) fetch_answers [OF h, of c l] s by simp
    then have "pg_has_more pg \<longleftrightarrow> ?n < int (length lg)"
      using s by (simp add: log_page_def events_page_def Let_def)
    then show ?thesis unfolding e using n s by auto
  qed
  ultimately show ?thesis using r e by auto
qed

end

subsection \<open>The document\<close>

definition document_holds :: "string \<Rightarrow> event_row list \<Rightarrow> journal \<Rightarrow> bool" where
  "document_holds b lg j \<longleftrightarrow> logged lg j \<and> j_board_id j = b"

lemma document_page:
  assumes "document_holds (strip b) lg j"
  shows "read_after b cursor limit j =
        bindE (check_page_request b cursor limit) (\<lambda>_.
          if int (length lg) < cursor then Inl (ValueError ''cursor is ahead of journal'')
          else Inr (log_page lg (compacted_through j) cursor limit))"
  using assms read_after_logged [of lg j b cursor limit]
  by (auto simp: document_holds_def check_journal_def check_page_request_def require_text_strip
      intro!: bindE_cong split: if_split)

interpretation document: event_log document_holds "\<lambda>_. compacted_through" read_after
  by unfold_locales (auto simp: document_page document_holds_def logged_def)

subsection \<open>The store with an index\<close>

definition store_page :: "string \<Rightarrow> int \<Rightarrow> int \<Rightarrow> journal_store \<Rightarrow> page result" where
  "store_page b cursor limit st =
     (case store_read_after b cursor limit st of Inl e \<Rightarrow> Inl e | Inr (_, pg) \<Rightarrow> Inr pg)"

definition store_floor :: "string \<Rightarrow> journal_store \<Rightarrow> int" where
  "store_floor b st = compacted_through (journal_of b st)"

lemma stored_document: "stored b lg st \<Longrightarrow> document_holds b lg (journal_of b st)"
  using stored_logged [of b lg st]
  by (auto simp: document_holds_def journal_of_def stored_def default_journal_def split: option.split_asm)

interpretation indexed: event_log stored store_floor store_page
proof
  fix b lg st
  assume "stored b lg st"
  then show "numbered lg \<and> 0 \<le> store_floor b st \<and> store_floor b st \<le> int (length lg)"
    using stored_logged [of b lg st] by (simp add: store_floor_def logged_def)
next
  fix b :: string and lg cursor limit st
  assume s: "stored (strip b) lg st"
  show "store_page b cursor limit st =
        bindE (check_page_request b cursor limit) (\<lambda>_.
          if int (length lg) < cursor then Inl (ValueError ''cursor is ahead of journal'')
          else Inr (log_page lg (store_floor (strip b) st) cursor limit))"
    unfolding store_page_def store_floor_def store_read_document [OF s]
    by (rule document_page [OF stored_document [OF s]])
qed

end
