(* ===== verification/Once_Facts.thy ===== *)
theory Once_Facts
  imports Journal_Log Publication_Facts
begin

section \<open>Appending once\<close>

text \<open>The warnings remembered: a new one is added under its key, the oldest are dropped.\<close>

lemma dget_fold_dpop: "dget (fold dpop ks d) k = (if k \<in> set ks then None else dget d k)"
  by (induction ks arbitrary: d) auto

lemma dget_trim: "dget (trim_warnings ws) k \<in> {None, dget ws k}"
  by (simp add: trim_warnings_def Let_def dget_fold_dpop)

lemma remember_warning_gets:
  assumes "remember_warning dumps True r ws = Inr ws'"
  shows "dget ws' k \<in> {None, dget ws k, Some r}"
proof -
  consider "ws' = ws" | "ws' = trim_warnings ws" | key where "ws' = trim_warnings (dset key r ws)"
    using assms by (auto simp: remember_warning_def Let_def split: if_split_asm)
  then show ?thesis
  proof cases
    case 3
    then show ?thesis using dget_trim [of "dset key r ws" k] by (cases "k = key") (simp_all, blast+)
  qed (use dget_trim [of ws k] in \<open>simp_all, blast?\<close>)
qed

lemma remember_warning_total:
  assumes "remember_warning dumps True r ws = Inr ws'"
  shows "\<exists>ws''. remember_warning dumps True r ws1 = Inr ws''"
  using assms by (auto simp: remember_warning_def Let_def split: if_split_asm)

definition unique_texts :: "event \<Rightarrow> string list \<Rightarrow> bool" where
  "unique_texts sem uf \<longleftrightarrow> list_all (\<lambda>f. \<exists>s. event_get sem f = J_Str s) uf"

lemma same_event_self:
  assumes "unique_texts sem uf" and "row_kind r = kd" and "row_semantic r = sem"
  shows "same_event kd sem uf r"
  using assms by (fastforce simp: same_event_def unique_texts_def list_all_iff)

lemma find_snoc: "find P xs = None \<Longrightarrow> P x \<Longrightarrow> find P (xs @ [x]) = Some x"
  by (induction xs) (auto split: if_split_asm)

text \<open>The warning under a key of the event is only ever the row that was returned.\<close>

lemma append_unique_twice:
  assumes a: "append_unique dumps mk kd sem uf j = Inr (j', r, added)"
    and mk: "\<And>n. row_kind (mk n) = kd \<and> row_semantic (mk n) = sem" and u: "unique_texts sem uf"
  shows "\<exists>j''. append_unique dumps mk' kd sem uf j' = Inr (j'', r, False) \<and> rows j'' = rows j' \<and>
    next_seq j'' = next_seq j'"
proof -
  define w where "w \<longleftrightarrow> kd = ''deprecated_tool_warning'' \<and> uf = DEPRECATION_WARNING_UNIQUE_FIELDS"
  define prior where "prior = (\<lambda>j :: journal. if w then dget (warnings j) (warning_key dumps sem) else None)"
  define remember where "remember = (\<lambda>r (j' :: journal). if w
            then bindE (remember_warning dumps True r (warnings j')) (\<lambda>ws. Inr (j'\<lparr>warnings := ws\<rparr>))
            else Inr j')"
  have unfold: "append_unique dumps mk kd sem uf j =
      (case prior j of Some p \<Rightarrow> Inr (j, p, False)
       | None \<Rightarrow>
          (case find (same_event kd sem uf) (rows j) of
             Some r \<Rightarrow> bindE (remember r j) (\<lambda>j'. Inr (j', r, False))
           | None \<Rightarrow> bindE (put_row mk j) (\<lambda>(j1, r). bindE (remember r j1) (\<lambda>j'. Inr (j', r, True)))))" for mk j
    unfolding append_unique_def w_def prior_def remember_def Let_def by (rule refl)
  have rem: "rows j2 = rows j1 \<and> next_seq j2 = next_seq j1 \<and> prior j2 \<in> {None, prior j1, Some r} \<and>
      (\<forall>j3. \<exists>j4. remember r j3 = Inr j4 \<and> rows j4 = rows j3 \<and> next_seq j4 = next_seq j3)"
    if "remember r j1 = Inr j2" for r j1 j2
  proof (cases w)
    case True
    with that obtain ws where ws: "remember_warning dumps True r (warnings j1) = Inr ws" "j2 = j1\<lparr>warnings := ws\<rparr>"
      by (auto simp: remember_def)
    have "\<exists>j4. remember r j3 = Inr j4 \<and> rows j4 = rows j3 \<and> next_seq j4 = next_seq j3" for j3
    proof -
      from remember_warning_total [OF ws(1)] obtain ws' where "remember_warning dumps True r (warnings j3) = Inr ws'" by blast
      then show ?thesis using True by (simp add: remember_def)
    qed
    then show ?thesis
      using remember_warning_gets [OF ws(1), of "warning_key dumps sem"] ws(2) True by (simp add: prior_def)
  next
    case False
    then show ?thesis using that by (simp add: remember_def prior_def)
  qed
  have again: ?thesis
    if p: "prior j' \<in> {None, Some r}" and f: "find (same_event kd sem uf) (rows j') = Some r"
      and t: "\<forall>j3. \<exists>j4. remember r j3 = Inr j4 \<and> rows j4 = rows j3 \<and> next_seq j4 = next_seq j3"
    using p t [rule_format, of j'] by (auto simp: unfold f)
  show ?thesis
  proof (cases "prior j")
    case (Some p)
    then show ?thesis using a by (simp add: unfold)
  next
    case n: None
    show ?thesis
    proof (cases "find (same_event kd sem uf) (rows j)")
      case (Some r0)
      with a n have "remember r j = Inr j'" "r0 = r" by (auto simp: unfold)
      with rem [OF this(1)] n Some show ?thesis by (intro again) auto
    next
      case None
      with a n obtain j1 where p: "put_row mk j = Inr (j1, r)" and m: "remember r j1 = Inr j'"
        by (auto simp: unfold)
      have "rows j1 = rows j @ [r]" "warnings j1 = warnings j" using p by (auto simp: put_row_def Let_def split: if_split_asm)
      moreover have "same_event kd sem uf r" using put_row_mk [OF p] mk u by (auto intro: same_event_self)
      ultimately show ?thesis using rem [OF m] n find_snoc [OF None] by (intro again) (auto simp: prior_def)
    qed
  qed
qed

lemma new_row_fields [simp]:
  "row_kind (new_row token b kd a ref now sem n) = kd" "row_semantic (new_row token b kd a ref now sem n) = sem"
  by (simp_all add: new_row_def)

lemma append_unique_board:
  assumes "append_unique dumps mk kd sem uf j = Inr (j', r, added)"
  shows "j_board_id j' = j_board_id j"
  using assms
  by (auto simp: append_unique_def put_row_def Let_def split: if_split_asm option.split_asm)

lemma append_once_twice:
  assumes a: "append_once dumps token board e uf now j = Inr (j', r, added)"
    and u: "unique_texts (semantic_of central_fields e) uf"
  shows "\<exists>j''. append_once dumps token board e uf later j' = Inr (j'', r, False) \<and> rows j'' = rows j' \<and>
    next_seq j'' = next_seq j'"
proof -
  let ?sem = "semantic_of central_fields e"
  obtain kd b x ref where h: "require_text ''kind'' (event_get e ''kind'') = Inr kd" "kd \<in> set once_kinds" "uf \<noteq> []"
      "require_text ''board_id'' (J_Str board) = Inr b" "require_text ''actor'' (event_get e ''actor'') = Inr x"
      "require_text ''payload_ref'' (event_get e ''payload_ref'') = Inr ref"
      "find (\<lambda>f. f \<notin> set (dkeys ?sem)) uf = None" "check_journal b j = Inr ()"
    and u1: "append_unique dumps (new_row token b kd x ref now ?sem) kd ?sem uf j = Inr (j', r, added)"
    using a unfolding append_once_def Let_def
    by (elim bindE_Inr1E) (simp split: option.split_asm)
  have "check_journal b j' = Inr ()" using h(8) append_unique_board [OF u1] by (simp add: check_journal_def)
  then have "append_once dumps token board e uf later j' =
      append_unique dumps (new_row token b kd x ref later ?sem) kd ?sem uf j'"
    using h by (simp add: append_once_def Let_def)
  with append_unique_twice [OF u1 _ u] show ?thesis by simp
qed

end
