(* ===== verification/Feed_Runs.thy ===== *)
theory Feed_Runs
  imports Catchup_Facts
begin

section \<open>A seat that reads its feed again and again\<close>

subsection \<open>One call\<close>

lemma read_after_page:
  assumes l: "logged lg j" and r: "read_after b c n j = Inr pg"
  shows "pg = log_page lg (compacted_through j) c n \<and> 0 \<le> c \<and> c \<le> int (length lg) \<and> 1 \<le> n"
  using r unfolding read_after_logged [OF l] check_page_request_def
  by (auto split: if_split_asm)

lemma log_page_resync: "pg_resync_required (log_page lg flr c n) \<longleftrightarrow> c < flr"
  by (simp add: log_page_def resync_page_def events_page_def Let_def)

lemma payload_resync [simp]:
  "ct_resync_required (catch_payload c pg v acked t rel ren evs) = pg_resync_required pg"
  by (simp add: catch_payload_def Let_def)

lemma catch_page_payload:
  "catch_page sz mb c pg v acked t rel ren = Inr r \<Longrightarrow> \<exists>evs. r = catch_payload c pg v acked t rel ren evs"
  unfolding catch_page_def Let_def by (simp only: sum.distinct sum.inject split: if_split_asm) blast

lemma resync_reply:
  "pg_resync_required pg \<Longrightarrow> catch_page sz mb c pg v acked t rel ren = Inr r \<Longrightarrow> ct_resync_required r"
  using catch_page_payload by fastforce

lemma catch_prepare_logged:
  assumes l: "logged lg (fd_journal f)"
    and p: "catch_prepare sv p board name touch now f = Inr (f', rs, renewed)"
  shows "logged (lg @ rs) (fd_journal f') \<and> compacted_through (fd_journal f') = compacted_through (fd_journal f) \<and>
    j_board_id (fd_journal f') = j_board_id (fd_journal f) \<and> fd_cursors f' = fd_cursors f"
proof (cases "touch \<and> ''board:write'' \<in> set (pr_scopes p)")
  case True
  with p obtain w actor rels j where
    c: "prepare_board_call (fv_agent_id sv) (fd_world f) p name now = Inr (w, actor, rels, renewed)"
    and pr: "publish_releases (fv_token sv) (fv_iso_at sv) (fv_text_json sv) (fv_activity sv) board (pr_id p) now rels
      (fd_journal f) = Inr (j, rs)"
    and f': "f' = f\<lparr>fd_world := w, fd_journal := j\<rparr>"
    by (auto simp: catch_prepare_def)
  from publish_releases_logged [OF l pr] show ?thesis by (simp add: f')
next
  case False
  with p have "f' = f" "rs = []" unfolding catch_prepare_def if_not_P [OF False] by simp_all
  then show ?thesis using l by simp
qed

text \<open>
  A call of \<open>board_catchup\<close> from the acknowledged cursor that does not ask for a resync: the log grows by
  the events of the releases, the reply delivers the visible events up to its cursor, and that cursor
  is acknowledged.
\<close>

definition acked_cursor :: "feed_services \<Rightarrow> principal \<Rightarrow> string \<Rightarrow> string \<Rightarrow> feed \<Rightarrow> int result" where
  "acked_cursor sv p board name f = cursor_get (fv_identity sv) (pr_id p) name board (fd_cursors f)"

lemma cursor_get_after_ack:
  assumes "cursor_ack ident pid name board cur now c = Inr (c', a)"
  shows "cursor_get ident pid name board c' = Inr a"
  using assms cursor_ack_monotone(2) [OF assms] cursor_ack_monotone(4) [OF assms]
  by (auto simp: cursor_ack_def cursor_get_def require_text_strip check_cursors_def Let_def)

lemma catchup_call:
  assumes call: "board_catchup sv p board name q now f = Inr (f', r)"
    and q: "cq_cursor q = None" "cq_touch q" "cq_ack q" and ns: "\<not> ct_resync_required r"
    and l: "logged lg (fd_journal f)"
  shows "\<exists>start rs w0 actor. acked_cursor sv p board name f = Inr start \<and> 0 \<le> start \<and> start \<le> int (length lg) \<and>
    logged (lg @ rs) (fd_journal f') \<and> compacted_through (fd_journal f') \<le> int (length lg) \<and>
    lookup_member (fv_agent_id sv) (fd_world f') p name = Inr (w0, actor) \<and>
    delivers (lg @ rs) start (event_visible (fv_parse_iso sv) (fd_world f') actor p now) r \<and>
    acked_cursor sv p board name f' = Inr (ct_next_cursor r)"
proof -
  obtain acked pg0 f1 rs renewed where
    g: "cursor_get (fv_identity sv) (pr_id p) name board (fd_cursors f) = Inr acked"
    and rd0: "read_after board acked (cq_limit q) (fd_journal f) = Inr pg0"
    and pp: "catch_prepare sv p board name (cq_touch q) now f = Inr (f1, rs, renewed)"
    and mx: "1 \<le> cq_max_events q"
    and tail: "bindE (catch_read sv p board name q acked acked now rs renewed f1) (\<lambda>reply.
         if cq_touch q \<and> cq_ack q \<and> \<not> ct_resync_required reply
         then bindE (fv_fence sv (fd_world f1)) (\<lambda>_.
              bindE (cursor_ack (fv_identity sv) (pr_id p) name board (ct_next_cursor reply) now (fd_cursors f1))
                (\<lambda>(c, a). Inr (f1\<lparr>fd_cursors := c\<rparr>, reply\<lparr>ct_acknowledged_cursor := a\<rparr>)))
         else Inr (f1, reply)) = Inr (f', r)"
    using call unfolding board_catchup_def Let_def q option.case
    by (elim bindE_Inr1E bindE_Inr3E) simp
  from tail obtain r0 where rd: "catch_read sv p board name q acked acked now rs renewed f1 = Inr r0"
    and tl: "(if \<not> ct_resync_required r0
         then bindE (fv_fence sv (fd_world f1)) (\<lambda>_.
              bindE (cursor_ack (fv_identity sv) (pr_id p) name board (ct_next_cursor r0) now (fd_cursors f1))
                (\<lambda>(c, a). Inr (f1\<lparr>fd_cursors := c\<rparr>, r0\<lparr>ct_acknowledged_cursor := a\<rparr>)))
         else Inr (f1, r0)) = Inr (f', r)"
    by (rule bindE_Inr1E) (simp only: q simp_thms)
  note f1 = catch_prepare_logged [OF l pp]
  from tl ns have ns0: "\<not> ct_resync_required r0" by (auto split: if_split_asm)
  with tl obtain c a where
    ack: "cursor_ack (fv_identity sv) (pr_id p) name board (ct_next_cursor r0) now (fd_cursors f1) = Inr (c, a)"
    and f': "f' = f1\<lparr>fd_cursors := c\<rparr>" and r: "r = r0\<lparr>ct_acknowledged_cursor := a\<rparr>"
    by auto
  from rd obtain w0 actor pg where
    m: "lookup_member (fv_agent_id sv) (fd_world f1) p name = Inr (w0, actor)"
    and pg: "read_after board acked (min (cq_limit q) (cq_max_events q)) (fd_journal f1) = Inr pg"
    and cp: "catch_page (fv_size sv) (cq_max_bytes q) acked pg
         (filter (event_visible (fv_parse_iso sv) (fd_world f1) actor p now) (pg_events pg)) acked (cq_touch q) rs renewed = Inr r0"
    by (auto simp: catch_read_def)
  note pgs = read_after_page [OF conjunct1 [OF f1] pg]
  note a0 = read_after_page [OF l rd0]
  have "\<not> pg_resync_required pg" using resync_reply [OF _ cp] ns0 by blast
  then have flr: "compacted_through (fd_journal f1) \<le> acked" using pgs log_page_resync by simp
  have d: "delivers (lg @ rs) acked (event_visible (fv_parse_iso sv) (fd_world f1) actor p now) r0"
    using catch_page_delivers [OF _ flr _ _ _ conjunct1 [OF pgs] cp] pgs f1 mx a0 by (simp add: logged_def)
  have "a = max acked (ct_next_cursor r0)"
  proof -
    have "(case dget (consumers (fd_cursors f)) (fv_identity sv (strip (pr_id p)) (strip name)) of
        None \<Rightarrow> 0 | Some e \<Rightarrow> cn_cursor e) = acked"
      using g by (auto simp: cursor_get_def require_text_strip)
    then show ?thesis using cursor_ack_monotone(1) [OF ack] f1 by simp
  qed
  then have a: "a = ct_next_cursor r0" using d by (simp add: delivers_def)
  have "delivers (lg @ rs) acked (event_visible (fv_parse_iso sv) (fd_world f') actor p now) r"
    using d by (simp add: delivers_def r f')
  moreover have "acked_cursor sv p board name f' = Inr (ct_next_cursor r)"
    using cursor_get_after_ack [OF ack] by (simp add: acked_cursor_def f' r a)
  ultimately show ?thesis
    using g f1 m a0 l [unfolded logged_def] by (intro exI [of _ acked] exI [of _ rs] exI [of _ w0] exI [of _ actor]) (simp add: acked_cursor_def f')
qed

subsection \<open>A whole run\<close>

text \<open>
  Between the calls of a seat anything may happen that leaves the journal a longer log and the cursor
  of the seat where it is: other tools, other consumers, compaction.  A run records, for every call,
  the board and the actor the reply was filtered with.
\<close>

type_synonym viewing = "world \<times> seat \<times> time"

inductive feed_run ::
  "feed_services \<Rightarrow> principal \<Rightarrow> string \<Rightarrow> string \<Rightarrow> event_row list \<times> feed \<Rightarrow> viewing list \<Rightarrow> event_row list
     \<Rightarrow> event_row list \<times> feed \<Rightarrow> bool"
  for sv :: feed_services and p :: principal and board :: string and name :: string
  where
    start: "logged lg (fd_journal f) \<Longrightarrow> feed_run sv p board name (lg, f) [] [] (lg, f)"
  | others: "feed_run sv p board name s vs es (lg, f) \<Longrightarrow> logged (lg @ new) (fd_journal f') \<Longrightarrow>
      acked_cursor sv p board name f' = acked_cursor sv p board name f \<Longrightarrow>
      feed_run sv p board name s vs es (lg @ new, f')"
  | call: "feed_run sv p board name s vs es (lg, f) \<Longrightarrow> board_catchup sv p board name q now f = Inr (f', r) \<Longrightarrow>
      cq_cursor q = None \<Longrightarrow> cq_touch q \<Longrightarrow> cq_ack q \<Longrightarrow> \<not> ct_resync_required r \<Longrightarrow>
      logged (lg @ new) (fd_journal f') \<Longrightarrow> lookup_member (fv_agent_id sv) (fd_world f') p name = Inr (w0, actor) \<Longrightarrow>
      feed_run sv p board name s (vs @ [(fd_world f', actor, now)]) (es @ ct_events r) (lg @ new, f')"

inductive_cases feed_run_emptyE: "feed_run sv p board name s [] es s'"

text \<open>The events between two cursors.\<close>

definition segment :: "int \<Rightarrow> int \<Rightarrow> event_row list \<Rightarrow> event_row list" where
  "segment a b lg = take (nat (b - a)) (drop (nat a) lg)"

lemma segment_append [simp]: "b \<le> int (length lg) \<Longrightarrow> 0 \<le> a \<Longrightarrow> segment a b (lg @ new) = segment a b lg"
  by (cases "a \<le> b") (simp_all add: segment_def)

lemma segment_join:
  assumes "0 \<le> a" "a \<le> b" "b \<le> c" "c \<le> int (length lg)"
  shows "segment a c lg = segment a b lg @ segment b c lg"
proof -
  have n: "nat (c - a) = nat (b - a) + nat (c - b)" "nat b = nat (b - a) + nat a" using assms by simp_all
  have "take (nat (c - a)) (drop (nat a) lg) =
      take (nat (b - a)) (drop (nat a) lg) @ take (nat (c - b)) (drop (nat (b - a)) (drop (nat a) lg))"
    by (simp only: n(1) take_add)
  then show ?thesis by (simp only: segment_def drop_drop n(2))
qed

lemma logged_extension:
  assumes "logged (lg @ xs) j" and "logged (lg @ ys) j" and "compacted_through j \<le> int (length lg)"
  shows "xs = ys"
  using assms by (simp add: logged_def)

definition sees :: "feed_services \<Rightarrow> principal \<Rightarrow> viewing \<Rightarrow> event_row \<Rightarrow> bool" where
  "sees sv p v r = (case v of (w, a, now) \<Rightarrow> event_visible (fv_parse_iso sv) w a p now r)"

text \<open>
  The invariant: what was delivered lies in order and without repetition among the events between the
  first and the present cursor; each delivered event was visible at some call, and none is missing
  that was visible at every call.
\<close>

definition drained ::
  "feed_services \<Rightarrow> principal \<Rightarrow> string \<Rightarrow> string \<Rightarrow> event_row list \<times> feed \<Rightarrow> viewing list \<Rightarrow> event_row list
     \<Rightarrow> event_row list \<times> feed \<Rightarrow> bool" where
  "drained sv p board name s vs es s' \<longleftrightarrow>
     (\<forall>a. acked_cursor sv p board name (snd s) = Inr a \<longrightarrow> 0 \<le> a \<longrightarrow> a \<le> int (length (fst s)) \<longrightarrow>
        (\<exists>b. acked_cursor sv p board name (snd s') = Inr b \<and> a \<le> b \<and> b \<le> int (length (fst s')) \<and>
           subseq es (segment a b (fst s')) \<and>
           (\<forall>r \<in> set es. \<exists>v \<in> set vs. sees sv p v r) \<and>
           (\<forall>r \<in> set (segment a b (fst s')). (\<forall>v \<in> set vs. sees sv p v r) \<longrightarrow> r \<in> set es)))"

lemma segment_refl [simp]: "segment a a lg = []"
  by (simp add: segment_def)

lemma feed_run_drained: "feed_run sv p board name s vs es s' \<Longrightarrow> drained sv p board name s vs es s'"
proof (induction rule: feed_run.induct)
  case (start lg f)
  then show ?case by (auto simp: drained_def)
next
  case (others s vs es lg f new f')
  then show ?case by (fastforce simp: drained_def)
next
  case (call s vs es lg f q now f' r new w0 actor)
  have l: "logged lg (fd_journal f)" using call.hyps(1) by (cases rule: feed_run.cases) auto
  from catchup_call [OF call.hyps(2-6) l] call.hyps(7,8) obtain c rs w1 actor1 where
    c: "acked_cursor sv p board name f = Inr c" "logged (lg @ rs) (fd_journal f')"
      "compacted_through (fd_journal f') \<le> int (length lg)"
      "lookup_member (fv_agent_id sv) (fd_world f') p name = Inr (w1, actor1)"
    and d1: "delivers (lg @ rs) c (event_visible (fv_parse_iso sv) (fd_world f') actor1 p now) r"
    and n: "acked_cursor sv p board name f' = Inr (ct_next_cursor r)"
    by blast
  have "rs = new" using logged_extension [OF c(2) call.hyps(7) c(3)] .
  moreover have "actor1 = actor" using c(4) call.hyps(8) by simp
  ultimately have d: "delivers (lg @ new) c (event_visible (fv_parse_iso sv) (fd_world f') actor p now) r" using d1 by simp
  let ?v = "(fd_world f', actor, now)"
  have ev: "ct_events r = filter (sees sv p ?v) (segment c (ct_next_cursor r) (lg @ new))"
    and nb: "c \<le> ct_next_cursor r" "ct_next_cursor r \<le> int (length (lg @ new))"
    using d by (auto simp: delivers_def segment_def sees_def [abs_def])
  show ?case
    unfolding drained_def
  proof (intro allI impI)
    fix a assume a: "acked_cursor sv p board name (snd s) = Inr a" "0 \<le> a" "a \<le> int (length (fst s))"
    with call.IH c(1) have i: "a \<le> c" "c \<le> int (length lg)" "subseq es (segment a c lg)"
      "\<forall>r \<in> set es. \<exists>v \<in> set vs. sees sv p v r"
      "\<forall>r \<in> set (segment a c lg). (\<forall>v \<in> set vs. sees sv p v r) \<longrightarrow> r \<in> set es"
      by (auto simp: drained_def)
    have j: "segment a (ct_next_cursor r) (lg @ new) = segment a c lg @ segment c (ct_next_cursor r) (lg @ new)"
      using segment_join [OF a(2) i(1) nb] i(2) a(2) by simp
    have "subseq (es @ ct_events r) (segment a (ct_next_cursor r) (lg @ new))"
      unfolding j ev by (intro list_emb_append_mono i(3)) simp
    moreover have "\<forall>x \<in> set (es @ ct_events r). \<exists>v \<in> set (vs @ [?v]). sees sv p v x"
      using i(4) ev by auto
    moreover have "\<forall>x \<in> set (segment a (ct_next_cursor r) (lg @ new)).
        (\<forall>v \<in> set (vs @ [?v]). sees sv p v x) \<longrightarrow> x \<in> set (es @ ct_events r)"
      unfolding j ev using i(5) by auto
    ultimately show "\<exists>b. acked_cursor sv p board name (snd (lg @ new, f')) = Inr b \<and> a \<le> b \<and>
           b \<le> int (length (fst (lg @ new, f'))) \<and>
           subseq (es @ ct_events r) (segment a b (fst (lg @ new, f'))) \<and>
           (\<forall>x \<in> set (es @ ct_events r). \<exists>v \<in> set (vs @ [?v]). sees sv p v x) \<and>
           (\<forall>x \<in> set (segment a b (fst (lg @ new, f'))). (\<forall>v \<in> set (vs @ [?v]). sees sv p v x) \<longrightarrow> x \<in> set (es @ ct_events r))"
      using n nb i(1) by (intro exI [of _ "ct_next_cursor r"]) simp
  qed
qed

end
