(* ===== verification/Sweep_Facts.thy ===== *)
theory Sweep_Facts
  imports Publication_Facts
begin

section \<open>The sweep keeps what live consumers have not read\<close>

lemma journal_compact_drops:
  assumes "journal_compact dumps board retain j = Inr (j', c)"
  shows "\<exists>ws. fst (drop_rows retain (j\<lparr>warnings := ws\<rparr>)) = j' \<and> MIN_COMPACTION_RETAIN_LAST \<le> retain \<and>
    cp_removed c = int (length (rows j) - length (rows j'))"
  using assms
  by (auto simp: journal_compact_def check_retain_def compaction.extend_def Let_def drop_rows_def split: prod.split_asm)

lemma warnings_logged [simp]: "logged lg (j\<lparr>warnings := ws\<rparr>) = logged lg j"
  by (simp add: logged_def)

lemma journal_compact_logged:
  assumes l: "logged lg j" and c: "journal_compact dumps b retain j = Inr (j', c)"
  shows "logged lg j' \<and> compacted_through j' = max (compacted_through j) (int (length lg) - retain)"
proof -
  from journal_compact_drops [OF c] obtain ws c1 where
    "drop_rows retain (j\<lparr>warnings := ws\<rparr>) = (j', c1)" "MIN_COMPACTION_RETAIN_LAST \<le> retain"
    by (metis prod.collapse)
  with drop_rows_logged [OF _ _ this(1), of lg] l show ?thesis by (simp add: MIN_COMPACTION_RETAIN_LAST_def)
qed

text \<open>What a sweep does to a logged journal: nothing, or a compaction and one more event.\<close>

definition swept :: "retention \<Rightarrow> int \<Rightarrow> event_row list \<Rightarrow> journal \<Rightarrow> journal \<Rightarrow> int \<Rightarrow> bool" where
  "swept ret keep lg j j' retain \<longleftrightarrow>
     retain = min (max MIN_COMPACTION_RETAIN_LAST keep) (journal_row_cap ret - 1) \<and>
     (\<exists>r. logged (lg @ [r]) j' \<and> compacted_through j' = max (compacted_through j) (int (length lg) - retain))"

lemma journal_sweep_cases:
  assumes l: "logged lg j"
    and s: "journal_sweep dumps token iso_at b ret board rd now c j = Inr (j', n)"
  obtains (quiet) "j' = j" "int (length (rows j)) \<le> max MIN_COMPACTION_RETAIN_LAST (journal_row_cap ret - 1)"
  | (compacted) oldest retain where
      "oldest_live_cursor board (Some (active_principals b)) (Some (days (stale_after_days (cfg b)))) now c = Inr oldest"
      "swept ret (int (length (rows j)) - int (keep_from oldest (now - days rd) (rows j))) lg j j' retain"
      "retain < int (length (rows j))"
proof (cases "int (length (rows j)) \<le> MIN_COMPACTION_RETAIN_LAST")
  case True
  with s quiet show ?thesis by (simp add: journal_sweep_def)
next
  case F: False
  with s obtain oldest where o: "oldest_live_cursor board (Some (active_principals b))
      (Some (days (stale_after_days (cfg b)))) now c = Inr oldest"
    by (auto simp: journal_sweep_def)
  define keep where "keep = int (length (rows j)) - int (keep_from oldest (now - days rd) (rows j))"
  define retain where "retain = min (max MIN_COMPACTION_RETAIN_LAST keep) (journal_row_cap ret - 1)"
  note s1 = s [unfolded journal_sweep_def Let_def if_not_P [OF F] o bindE_simps
      keep_def [symmetric] retain_def [symmetric]]
  show ?thesis
  proof (cases "int (length (rows j)) \<le> retain")
    case True
    with s1 have "j' = j" by simp
    moreover have "int (length (rows j)) \<le> max MIN_COMPACTION_RETAIN_LAST (journal_row_cap ret - 1)"
      using True by (simp add: retain_def max_def split: if_split_asm)
    ultimately show ?thesis by (rule quiet)
  next
    case False
    with s1 obtain j1 comp where
      jc: "journal_compact dumps board retain j = Inr (j1, comp)" and
      more: "(if cp_removed comp > 0
        then bindE (journal_append token board (sweep_event iso_at b board now comp) now j1) (\<lambda>(j2, _). Inr (j2, cp_removed comp))
        else Inr (j1, cp_removed comp)) = Inr (j', n)"
      unfolding if_not_P [OF False] bindE_eq_Inr by (elim exE conjE) (simp only: split_paired_all prod.case)
    from journal_compact_drops [OF jc] obtain ws where
      d: "fst (drop_rows retain (j\<lparr>warnings := ws\<rparr>)) = j1" and m: "MIN_COMPACTION_RETAIN_LAST \<le> retain"
      and rm: "cp_removed comp = int (length (rows j) - length (rows j1))" by blast
    have r: "0 < retain" using m by (simp add: MIN_COMPACTION_RETAIN_LAST_def)
    obtain c1 where d1: "drop_rows retain (j\<lparr>warnings := ws\<rparr>) = (j1, c1)" using d by (cases "drop_rows retain (j\<lparr>warnings := ws\<rparr>)") auto
    have j1: "logged lg j1" "compacted_through j1 = max (compacted_through j) (int (length lg) - retain)"
      using drop_rows_logged [OF _ r d1, of lg] l by simp_all
    have len: "length (rows x) = length lg - nat (compacted_through x)" if "logged lg x" for x
      using that by (simp add: logged_def)
    have "0 < cp_removed comp"
      using rm False len [OF l] len [OF j1(1)] j1 l r by (auto simp: logged_def)
    with more obtain x where a: "journal_append token board (sweep_event iso_at b board now comp) now j1 = Inr (j', x)"
      by auto
    have "swept ret keep lg j j' retain"
      using journal_append_extended [OF j1(1) a] j1(2) by (auto simp: swept_def extended_def retain_def)
    with o False compacted show ?thesis by (simp add: keep_def)
  qed
qed

lemma rows_before_kept:
  assumes l: "logged lg j" and k: "0 < keep_from (Some m) cutoff (rows j)"
  shows "compacted_through j + int (keep_from (Some m) cutoff (rows j)) < m"
proof -
  let ?k = "keep_from (Some m) cutoff (rows j)"
  have "?k \<le> length (rows j)" by (simp add: keep_from_def length_takeWhile_le)
  then have i: "?k - 1 < length (rows j)" using k by simp
  have rw: "rows j = drop (nat (compacted_through j)) lg" "numbered lg" "0 \<le> compacted_through j"
    "compacted_through j \<le> int (length lg)" using l by (simp_all add: logged_def)
  have "row_seq (rows j ! (?k - 1)) < m"
    using keep_from_kept [of "?k - 1" "Some m" cutoff "rows j"] k by (auto simp: kept_row_def)
  moreover have "rows j ! (?k - 1) = lg ! (nat (compacted_through j) + (?k - 1))" using i rw by simp
  moreover have "nat (compacted_through j) + (?k - 1) < length lg" using i rw by simp
  ultimately show ?thesis using numbered_nth [OF rw(2)] k rw(3) by simp
qed

lemma sweep_spares:
  assumes l: "logged lg j" and s: "journal_sweep dumps token iso_at b ret board rd now c j = Inr (j', n)"
    and e: "dget (consumers c) k = Some e"
      "live_consumer (Some (active_principals b)) (Some (days (stale_after_days (cfg b)))) now e"
    and unread: "compacted_through j \<le> cn_cursor e" "int (length lg) - cn_cursor e < journal_row_cap ret"
  shows "\<exists>lg'. (lg' = lg \<or> (\<exists>r. lg' = lg @ [r])) \<and> logged lg' j' \<and> compacted_through j' \<le> cn_cursor e"
  using l s
proof (cases rule: journal_sweep_cases)
  case quiet
  with l unread show ?thesis by blast
next
  case (compacted oldest retain)
  from oldest_live_cursor_le [OF compacted(1) e] obtain m where m: "oldest = Some m" "m \<le> cn_cursor e" by blast
  let ?k = "keep_from oldest (now - days rd) (rows j)"
  have len: "int (length (rows j)) = int (length lg) - compacted_through j" by (rule logged_length [OF l])
  have "int (length lg) - retain \<le> cn_cursor e"
  proof (cases "retain = journal_row_cap ret - 1")
    case True
    with unread(2) show ?thesis by simp
  next
    case False
    then have "int (length (rows j)) - int ?k \<le> retain"
      using compacted(2) by (auto simp: swept_def min_def max_def split: if_split_asm)
    then have "int (length lg) - retain \<le> compacted_through j + int ?k" using len by simp
    moreover have "compacted_through j + int ?k \<le> cn_cursor e"
    proof (cases "?k = 0")
      case False
      then have "0 < keep_from (Some m) (now - days rd) (rows j)" using m(1) by simp
      from rows_before_kept [OF l this] m show ?thesis by simp
    qed (use unread(1) in simp)
    ultimately show ?thesis by simp
  qed
  with compacted(2) unread(1) show ?thesis by (auto simp: swept_def)
qed

lemma sweep_bounds:
  assumes l: "logged lg j" and s: "journal_sweep dumps token iso_at b ret board rd now c j = Inr (j', n)"
    and cap: "MIN_COMPACTION_RETAIN_LAST < journal_row_cap ret"
  shows "int (length (rows j')) \<le> journal_row_cap ret"
  using l s
proof (cases rule: journal_sweep_cases)
  case (compacted oldest retain)
  then obtain r where r: "logged (lg @ [r]) j'" "compacted_through j' = max (compacted_through j) (int (length lg) - retain)"
    by (auto simp: swept_def)
  have "retain \<le> journal_row_cap ret - 1" using compacted(2) by (simp add: swept_def)
  with r logged_length [OF r(1)] show ?thesis by simp
qed (use cap in auto)

text \<open>A sweep of a sound journal returns.\<close>

lemma remember_other_kinds:
  "\<forall>r \<in> set rs. row_kind r \<noteq> ''deprecated_tool_warning'' \<Longrightarrow> foldE (remember_warning dumps trim) rs ws = Inr ws"
  by (induction rs) (auto simp: remember_warning_def)

lemma journal_compact_returns:
  assumes "j_board_id j = strip board" "strip board \<noteq> []" and "MIN_COMPACTION_RETAIN_LAST \<le> retain"
    and "\<forall>r \<in> set (rows j). row_kind r \<noteq> ''deprecated_tool_warning''"
  shows "\<exists>j' c. journal_compact dumps board retain j = Inr (j', c)"
  using assms remember_other_kinds [OF assms(4), of dumps False]
  by (simp add: journal_compact_def check_retain_def require_text_def check_journal_def Let_def split: prod.split)

lemma sweep_event_appends:
  assumes l: "logged lg j" and b: "j_board_id j = strip board" "strip board \<noteq> []"
  shows "returns (journal_append token board (sweep_event iso_at bd board now c) now j)"
proof (rule journal_append_total [OF l b])
  let ?e = "sweep_event iso_at bd board now c"
  have k: "event_get ?e ''kind'' = J_Str ''ticket_archived''" "event_get ?e ''actor'' = J_Str ''board-journal-compact''"
    "event_get ?e ''payload_ref'' = J_Str (resource_uri board ''journal'' ''compaction'')"
    by (simp_all add: sweep_event_def event_get_def)
  show "require_text ''kind'' (event_get ?e ''kind'') = Inr ''ticket_archived''"
    unfolding k by (simp add: require_text_def) (code_simp; simp?)
  show "''ticket_archived'' \<in> set central_kinds" by code_simp
  show "require_text ''actor'' (event_get ?e ''actor'') = Inr ''board-journal-compact''"
    unfolding k by (simp add: require_text_def) (code_simp; simp?)
  have "\<not> is_space (CHR ''b'')" by code_simp
  then have "strip (resource_uri board ''journal'' ''compaction'') \<noteq> []"
    unfolding resource_uri_def by (rule strip_prefixed [rotated]) simp
  then show "require_text ''payload_ref'' (event_get ?e ''payload_ref'')
      = Inr (strip (resource_uri board ''journal'' ''compaction''))"
    unfolding k by (simp add: require_text_def)
qed

lemma journal_sweep_returns:
  assumes l: "logged lg j" and b: "j_board_id j = strip board" "strip board \<noteq> []" "cu_board_id c = strip board"
    and w: "\<forall>r \<in> set (rows j). row_kind r \<noteq> ''deprecated_tool_warning''"
    and cap: "MIN_COMPACTION_RETAIN_LAST < journal_row_cap ret"
  shows "\<exists>j' n. journal_sweep dumps token iso_at bd ret board rd now c j = Inr (j', n)"
proof -
  obtain oldest where o: "oldest_live_cursor board (Some (active_principals bd))
      (Some (days (stale_after_days (cfg bd)))) now c = Inr oldest"
    using b by (simp add: oldest_live_cursor_def require_text_def check_cursors_def Let_def)
  define retain where "retain = min (max MIN_COMPACTION_RETAIN_LAST
      (int (length (rows j)) - int (keep_from oldest (now - days rd) (rows j)))) (journal_row_cap ret - 1)"
  have m: "MIN_COMPACTION_RETAIN_LAST \<le> retain" using cap by (simp add: retain_def)
  obtain j1 comp where jc: "journal_compact dumps board retain j = Inr (j1, comp)"
    using journal_compact_returns [OF b(1,2) m w] by blast
  from journal_compact_drops [OF jc] obtain ws c1 where "drop_rows retain (j\<lparr>warnings := ws\<rparr>) = (j1, c1)"
    by (metis prod.collapse)
  with drop_rows_logged [OF _ _ this, of lg] l m b have "logged lg j1" "j_board_id j1 = strip board"
    by (simp_all add: MIN_COMPACTION_RETAIN_LAST_def)
  from sweep_event_appends [OF this b(2), of token iso_at bd now comp] obtain j2 x where
    "journal_append token board (sweep_event iso_at bd board now comp) now j1 = Inr (j2, x)"
    by (auto simp: returns_iff)
  then show ?thesis
    unfolding journal_sweep_def Let_def o bindE_simps retain_def [symmetric] jc by simp
qed

end
