(* ===== verification/Journal_Properties.thy ===== *)
theory Journal_Properties
  imports Journal_Readers Once_Facts Feed_Runs Sweep_Facts Sample_Board
begin

section \<open>Properties of the event journal\<close>

subsection \<open>Reading a feed\<close>


definition sample_services :: feed_services where
  "sample_services = \<lparr> fv_agent_id = (\<lambda>_ _ n. n), fv_identity = (\<lambda>p n. p @ ''/'' @ n), fv_token = (\<lambda>b. b),
     fv_iso_at = (\<lambda>_. ''now''), fv_text_json = (\<lambda>_. J_Null), fv_parse_iso = (\<lambda>_. T_Null), fv_activity = (\<lambda>_. []),
     fv_size = (\<lambda>_. 0), fv_fence = (\<lambda>_. Inr ()) \<rparr>"

definition sample_row :: "nat \<Rightarrow> event_row" where
  "sample_row n = \<lparr> row_id = ''EV'', row_seq = int n, row_board = ''b'', row_kind = ''ticket_status_changed'',
     row_actor = ''coordinator'', row_payload_ref = ''x'', row_occurred_at = 0,
     row_semantic = [(''recipient_identities'', J_List [J_Str ''w1''])] \<rparr>"

definition sample_log :: "nat \<Rightarrow> event_row list" where
  "sample_log n = map sample_row [1..<Suc n]"

definition sample_journal :: "nat \<Rightarrow> journal" where
  "sample_journal n = \<lparr> j_board_id = ''b'', next_seq = int n + 1, compacted_through = 0, rows = sample_log n, warnings = [] \<rparr>"

lemma sample_logged: "logged (sample_log n) (sample_journal n)"
  by (simp add: logged_def sample_journal_def numbered_def sample_log_def sample_row_def comp_def)

definition sample_principal :: principal where
  "sample_principal = \<lparr> pr_id = ''p1'', pr_scopes = [''board:read''] \<rparr>"

definition sample_feed :: feed where
  "sample_feed = \<lparr> fd_world = board_one, fd_journal = sample_journal 3,
     fd_cursors = \<lparr> cu_board_id = ''b'', consumers = [] \<rparr> \<rparr>"

definition sample_request :: catch_request where
  "sample_request = \<lparr> cq_cursor = None, cq_limit = 2, cq_ack = True, cq_touch = True, cq_max_events = 100,
     cq_max_bytes = 5000 \<rparr>"

definition sample_call :: "(feed \<times> catch_reply) result" where
  "sample_call = board_catchup sample_services sample_principal ''b'' ''w1'' sample_request 5 sample_feed"

lemma sample_call_result:
  "case sample_call of Inl e \<Rightarrow> False | Inr (f', r) \<Rightarrow>
     map row_seq (ct_events r) = [1, 2] \<and> ct_next_cursor r = 2 \<and> \<not> ct_resync_required r"
  by code_simp

lemma sample_acked: "acked_cursor sample_services sample_principal ''b'' ''w1'' sample_feed = Inr 0"
  by code_simp


subsection \<open>Retention\<close>

text \<open>
  C18: the retention sweep spares live consumers. A consumer of an active principal whose
  acknowledgement is not stale, that had not fallen behind the journal already and has fewer unread events than the
  cap on rows, is not cut off by a sweep: the journal is still the same log, with at most the event of
  the sweep behind it, and nothing the consumer has not read was forgotten.
\<close>

theorem sweep_spares_live_consumers:
  assumes "logged lg j" and "journal_sweep dumps token iso_at b ret board rd now c j = Inr (j', n)"
    and "dget (consumers c) k = Some e"
    and "live_consumer (Some (active_principals b)) (Some (days (stale_after_days (cfg b)))) now e"
    and "compacted_through j \<le> cn_cursor e" and "int (length lg) - cn_cursor e < journal_row_cap ret"
  shows "\<exists>lg'. (lg' = lg \<or> (\<exists>r. lg' = lg @ [r])) \<and> logged lg' j' \<and> compacted_through j' \<le> cn_cursor e"
  using assms by (rule sweep_spares)

text \<open>
  The cap on rows. After a sweep the journal holds at most the configured number of rows, the
  event of the sweep included, whatever its consumers have read.
\<close>

theorem sweep_respects_row_cap:
  assumes "logged lg j" and "journal_sweep dumps token iso_at b ret board rd now c j = Inr (j', n)"
    and "MIN_COMPACTION_RETAIN_LAST < journal_row_cap ret"
  shows "int (length (rows j')) \<le> journal_row_cap ret"
  using assms by (rule sweep_bounds)

text \<open>A sweep of six hundred events, fifty of which the only consumer has read.\<close>

definition sample_cursors :: cursors where
  "sample_cursors = \<lparr> cu_board_id = ''b'',
     consumers = [(''p1/w1'', \<lparr> cn_principal_id = ''p1'', cn_agent_name = ''w1'', cn_cursor = 50, cn_updated_at = 0 \<rparr>)] \<rparr>"

definition sample_sweep :: "int \<Rightarrow> (journal \<times> int) result" where
  "sample_sweep cap = journal_sweep (\<lambda>_. []) (\<lambda>b. b) (\<lambda>_. ''t'') (brd board_one)
     \<lparr> journal_retention_days = 1, journal_row_cap = cap \<rparr> ''b'' 1 (days 2) sample_cursors (sample_journal 600)"

lemma sample_sweep_returns:
  assumes "MIN_COMPACTION_RETAIN_LAST < cap" shows "\<exists>j' n. sample_sweep cap = Inr (j', n)"
  unfolding sample_sweep_def
proof (rule journal_sweep_returns [OF sample_logged])
  have s: "strip ''b'' = ''b''" by code_simp
  show "j_board_id (sample_journal 600) = strip ''b''" "strip ''b'' \<noteq> []" "cu_board_id sample_cursors = strip ''b''"
    by (simp_all only: s) (simp_all add: sample_journal_def sample_cursors_def)
  show "\<forall>r \<in> set (rows (sample_journal 600)). row_kind r \<noteq> ''deprecated_tool_warning''"
    by (auto simp: sample_journal_def sample_log_def sample_row_def)
qed (use assms in simp)

lemma sample_live:
  "live_consumer (Some (active_principals (brd board_one))) (Some (days (stale_after_days (cfg (brd board_one))))) (days 2)
     \<lparr> cn_principal_id = ''p1'', cn_agent_name = ''w1'', cn_cursor = 50, cn_updated_at = 0 \<rparr>"
  by code_simp

theorem sweep_spares_live_consumers_witness:
  "\<exists>j' n. sample_sweep 1000 = Inr (j', n) \<and> compacted_through j' \<le> 50"
proof -
  obtain j' n where s: "sample_sweep 1000 = Inr (j', n)"
    using sample_sweep_returns [of 1000] by (auto simp: MIN_COMPACTION_RETAIN_LAST_def)
  from sweep_spares_live_consumers [OF sample_logged s [unfolded sample_sweep_def] _ sample_live, of "''p1/w1''"] s
  have "compacted_through j' \<le> 50" by (simp add: sample_cursors_def sample_journal_def sample_log_def) blast
  with s show ?thesis by blast
qed

theorem sweep_respects_row_cap_witness:
  "\<exists>j' n. sample_sweep 550 = Inr (j', n) \<and> length (rows j') \<le> 550"
proof -
  obtain j' n where s: "sample_sweep 550 = Inr (j', n)"
    using sample_sweep_returns [of 550] by (auto simp: MIN_COMPACTION_RETAIN_LAST_def)
  from sweep_respects_row_cap [OF sample_logged s [unfolded sample_sweep_def]] s
  show ?thesis by (simp add: MIN_COMPACTION_RETAIN_LAST_def)
qed

subsection \<open>The log\<close>

text \<open>
  C19: the journal implements an append-only log. On a journal that holds a log, an append puts one
  event with the next number at its end, a compaction changes nothing of the log and forgets exactly a
  prefix, and a page is the part of the log behind the cursor, or the request to resynchronise when
  that part has been forgotten.
\<close>

theorem journal_refines_log:
  assumes l: "logged lg j"
  shows "(\<forall>j' r. journal_append token b e now j = Inr (j', r) \<longrightarrow>
      logged (lg @ [r]) j' \<and> row_seq r = int (length lg) + 1 \<and> compacted_through j' = compacted_through j) \<and>
    (\<forall>j' c. journal_compact dumps b retain j = Inr (j', c) \<longrightarrow>
      logged lg j' \<and> compacted_through j' = max (compacted_through j) (int (length lg) - retain)) \<and>
    read_after b cursor limit j =
      bindE (check_page_request b cursor limit) (\<lambda>b'. bindE (check_journal b' j) (\<lambda>_.
        if int (length lg) < cursor then Inl (ValueError ''cursor is ahead of journal'')
        else Inr (log_page lg (compacted_through j) cursor limit)))"
proof (intro conjI allI impI)
  fix j' c assume "journal_compact dumps b retain j = Inr (j', c)"
  note journal_compact_logged [OF l this]
  then show "logged lg j'" "compacted_through j' = max (compacted_through j) (int (length lg) - retain)" by simp_all
qed (use journal_append_extended [OF l] read_after_logged [OF l] in \<open>auto simp: extended_def\<close>)

definition sample_event :: event where
  "sample_event = [(''kind'', J_Str ''ticket_created''), (''actor'', J_Str ''w1''), (''payload_ref'', J_Str ''x'')]"

theorem journal_refines_log_witness:
  "\<exists>j' r. journal_append (\<lambda>b. b) ''b'' sample_event 7 (sample_journal 2) = Inr (j', r) \<and>
     logged (sample_log 2 @ [r]) j' \<and> row_seq r = 3 \<and>
     (\<exists>j'' c. journal_compact (\<lambda>_. []) ''b'' 500 (sample_journal 600) = Inr (j'', c) \<and> compacted_through j'' = 100) \<and>
     read_after ''b'' 1 1 (sample_journal 2) = Inr (log_page (sample_log 2) 0 1 1)"
proof -
  have "case journal_append (\<lambda>b. b) ''b'' sample_event 7 (sample_journal 2) of Inl _ \<Rightarrow> False | Inr _ \<Rightarrow> True" by code_simp
  then obtain j' r where a: "journal_append (\<lambda>b. b) ''b'' sample_event 7 (sample_journal 2) = Inr (j', r)"
    by (auto split: sum.split_asm)
  have s: "strip ''b'' = ''b''" by code_simp
  obtain j'' c where c: "journal_compact (\<lambda>_. []) ''b'' 500 (sample_journal 600) = Inr (j'', c)"
    using journal_compact_returns [of "sample_journal 600" "''b''" 500 "\<lambda>_. []"] s
    by (auto simp: sample_journal_def sample_log_def sample_row_def MIN_COMPACTION_RETAIN_LAST_def)
  have "compacted_through j'' = 100"
    using conjunct1 [OF conjunct2 [OF journal_refines_log [OF sample_logged]], rule_format, OF c]
    by (simp add: sample_journal_def sample_log_def)
  moreover have "read_after ''b'' 1 1 (sample_journal 2) = Inr (log_page (sample_log 2) 0 1 1)"
    using conjunct2 [OF conjunct2 [OF journal_refines_log [OF sample_logged [of 2]]], of "''b''" 1 1] s
    by (simp add: check_page_request_def require_text_def check_journal_def sample_journal_def sample_log_def)
  moreover have "logged (sample_log 2 @ [r]) j' \<and> row_seq r = 3"
    using conjunct1 [OF journal_refines_log [OF sample_logged], rule_format, OF a] by (simp add: sample_log_def)
  ultimately show ?thesis using a c by blast
qed

text \<open>
  Every release is journalled. For any list of releases a transaction reports, publishing them succeeds
  on a journal of the board and adds one event per release, in the same order, each with the kind and
  the recipients of its release, to the end of the log.
\<close>

theorem releases_are_journalled:
  assumes "logged lg j" and "j_board_id j = strip board" "strip board \<noteq> []" and "activity_only activity"
    and "\<forall>rel \<in> set rels. release_ok rel"
  shows "\<exists>j' rs. publish_releases token iso_at tj activity board pid now rels j = Inr (j', rs) \<and>
    logged (lg @ rs) j' \<and> compacted_through j' = compacted_through j \<and>
    list_all2 (\<lambda>rel r. row_of (reaper_publication iso_at tj board pid rel) r) rels rs"
  using publish_releases_rows [OF assms, of token iso_at tj pid now] by blast

theorem releases_are_journalled_witness:
  "\<exists>j' rs. publish_releases (\<lambda>b. b) (\<lambda>_. ''t'') (\<lambda>_. J_Null) (\<lambda>_. []) ''b'' ''p1'' 7
      [Unassignable ''T1'' Work ''no_candidate'' [''w1''], Work_Released ''T1'' ''claimed'' ''w1'' 5 1 [''w1'']]
      (sample_journal 2) = Inr (j', rs) \<and>
     map row_kind rs = [''dispatch_unassignable'', ''ticket_status_changed''] \<and> logged (sample_log 2 @ rs) j'"
proof -
  have s: "strip ''b'' = ''b''" by code_simp
  have "j_board_id (sample_journal 2) = strip ''b''" "strip ''b'' \<noteq> []" "activity_only (\<lambda>_. [])"
    by (simp_all add: s sample_journal_def activity_only_def dkeys_def)
  from releases_are_journalled [OF sample_logged this,
      of "[Unassignable ''T1'' Work ''no_candidate'' [''w1''], Work_Released ''T1'' ''claimed'' ''w1'' 5 1 [''w1'']]"
        "\<lambda>b. b" "\<lambda>_. ''t''" "\<lambda>_. J_Null" "''p1''" 7]
  show ?thesis
    by (fastforce simp: release_ok_def list_all2_Cons1 row_of_def reaper_publication_def dispatch_publication_def)
qed

subsection \<open>The row index\<close>

definition sample_store :: journal_store where
  "sample_store = \<lparr> st_doc = Some (sample_journal 3, 4),
     st_index = \<lparr> ix_rows = row_table (sample_log 2), ix_state = Some (state_of 2 (sample_journal 2)) \<rparr> \<rparr>"

lemma sample_stored: "stored (strip ''b'') (sample_log 3) sample_store"
proof -
  have s: "strip ''b'' = ''b''" by code_simp
  have "indexes (st_index sample_store) 2 (sample_journal 2)"
    by (simp add: indexes_def sample_store_def sample_journal_def)
  moreover have "sample_log 3 = sample_log 2 @ [sample_row 3]" by (simp add: sample_log_def eval_nat_numeral)
  ultimately have "lagging_index (st_index sample_store) (sample_log 3) 4 (sample_journal 3)"
    unfolding lagging_index_def using sample_logged [of 2]
    by (intro disjI2 exI conjI) (assumption | simp add: sample_journal_def)+
  then show ?thesis using sample_logged [of 3] by (simp add: stored_def s) (simp add: sample_store_def sample_journal_def)
qed

text \<open>
  C20: reading through the row index of the SQLite store, brought up to date first where it lags behind
  the document, gives the page or the error that reading the document would give, for every cursor and limit.
\<close>

theorem indexed_read_is_document_read:
  assumes "stored (strip board) lg st"
  shows "store_page board cursor limit st = read_after board cursor limit (journal_of (strip board) st)"
  unfolding store_page_def by (rule store_read_document [OF assms])

theorem indexed_read_is_document_read_witness:
  "store_page ''b'' 1 5 sample_store = read_after ''b'' 1 5 (sample_journal 3)"
  using indexed_read_is_document_read [OF sample_stored, of 1 5] by (simp add: journal_of_def sample_store_def)

text \<open>
  The row index never stops an append. Whenever the append succeeds on the document, the write to the
  store succeeds, its index is in step with the new document, and following \<open>next_cursor\<close> from any
  page gives the log without gap or overlap.
\<close>

theorem indexed_append:
  assumes s: "stored (strip b) lg st" and a: "journal_append token b e now (journal_of (strip b) st) = Inr (j, r)"
  shows "\<exists>st'. journal_write (strip b) (journal_append token b e now) st = Inr (st', r) \<and>
    stored (strip b) (lg @ [r]) st' \<and>
    (\<forall>c l pg. store_page b c l st' = Inr pg \<longrightarrow> \<not> pg_resync_required pg \<longrightarrow>
      (\<exists>pg'. store_page b (pg_next_cursor pg) l st' = Inr pg' \<and>
        pg_events pg @ pg_events pg' = take (nat (2 * l)) (drop (nat c) (lg @ [r]))))"
proof -
  have d: "logged lg (journal_of (strip b) st)" "j_board_id (journal_of (strip b) st) = strip b"
    using stored_document [OF s] by (simp_all add: document_holds_def)
  have x: "extended lg (journal_of (strip b) st) j r" using journal_append_extended [OF d(1) a] by simp
  then have "j \<noteq> journal_of (strip b) st" using d(1) by (auto simp: extended_def logged_def)
  with journal_write_stored [where mutate = "journal_append token b e now" and new = "[r]", OF s a] x d(2) obtain st' where
    "journal_write (strip b) (journal_append token b e now) st = Inr (st', r)" "stored (strip b) (lg @ [r]) st'"
    by (auto simp: extended_def)
  with indexed.pages_tile [OF this(2)] show ?thesis by blast
qed

theorem indexed_append_witness:
  "\<exists>st' r. journal_write (strip ''b'') (journal_append (\<lambda>b. b) ''b'' sample_event 7) sample_store = Inr (st', r) \<and>
     stored (strip ''b'') (sample_log 3 @ [r]) st'"
proof -
  have "case journal_append (\<lambda>b. b) ''b'' sample_event 7 (sample_journal 3) of Inl _ \<Rightarrow> False | Inr _ \<Rightarrow> True" by code_simp
  then obtain j r where "journal_append (\<lambda>b. b) ''b'' sample_event 7 (sample_journal 3) = Inr (j, r)"
    by (auto split: sum.split_asm)
  then have "journal_append (\<lambda>b. b) ''b'' sample_event 7 (journal_of (strip ''b'') sample_store) = Inr (j, r)"
    by (simp add: journal_of_def sample_store_def)
  from indexed_append [OF sample_stored this] show ?thesis by blast
qed

subsection \<open>Appending once\<close>

text \<open>
  \<open>append_once\<close> is idempotent. Calling it again with the same event and the same identifying fields, at any
  later time, appends nothing and returns the same row, for warnings even where the row was found in the
  warnings that outlive compaction.
\<close>

theorem append_once_is_idempotent:
  assumes "append_once dumps token board e uf now j = Inr (j', r, added)"
    and "unique_texts (semantic_of central_fields e) uf"
  shows "\<exists>j''. append_once dumps token board e uf later j' = Inr (j'', r, False) \<and> rows j'' = rows j' \<and>
    next_seq j'' = next_seq j'"
  using assms by (rule append_once_twice)

definition sample_warning :: event where
  "sample_warning = [(''kind'', J_Str ''deprecated_tool_warning''), (''actor'', J_Str ''w1''), (''payload_ref'', J_Str ''x'')]
     @ map (\<lambda>f. (f, J_Str ''v'')) DEPRECATION_WARNING_UNIQUE_FIELDS"

definition first_text :: "json \<Rightarrow> string" where
  "first_text v = (case v of J_List (J_Str s # _) \<Rightarrow> s | _ \<Rightarrow> [])"

theorem append_once_is_idempotent_witness:
  "\<exists>j' r j''. append_once first_text (\<lambda>b. b) ''b'' sample_warning DEPRECATION_WARNING_UNIQUE_FIELDS 7 (sample_journal 1)
      = Inr (j', r, True) \<and>
     append_once first_text (\<lambda>b. b) ''b'' sample_warning DEPRECATION_WARNING_UNIQUE_FIELDS 9 j' = Inr (j'', r, False) \<and>
     rows j'' = rows j'"
proof -
  have known: "set DEPRECATION_WARNING_UNIQUE_FIELDS \<subseteq> set central_fields" "''deprecated_tool_warning'' \<in> set once_kinds"
    by (simp_all add: DEPRECATION_WARNING_UNIQUE_FIELDS_def central_fields_def DEPRECATION_EVENT_FIELDS_def
        once_kinds_def DEPRECATION_EVENT_KINDS_def)
  have texts: "event_get (semantic_of central_fields sample_warning) f = J_Str ''v''"
    if "f \<in> set DEPRECATION_WARNING_UNIQUE_FIELDS" for f
    using that known(1) by (auto simp: event_get_def dget_semantic sample_warning_def DEPRECATION_WARNING_UNIQUE_FIELDS_def)
  then have u: "unique_texts (semantic_of central_fields sample_warning) DEPRECATION_WARNING_UNIQUE_FIELDS"
    by (simp add: unique_texts_def list_all_iff)
  have s: "strip ''b'' = ''b''" "strip ''deprecated_tool_warning'' = ''deprecated_tool_warning''"
    "strip ''w1'' = ''w1''" "strip ''x'' = ''x''" by code_simp+
  have f: "find (\<lambda>f. f \<notin> set (dkeys (semantic_of central_fields sample_warning))) DEPRECATION_WARNING_UNIQUE_FIELDS = None"
    using texts by (fastforce simp: find_None_iff dget_in_keys [symmetric] event_get_def split: option.split_asm)
  have h: "event_get sample_warning ''kind'' = J_Str ''deprecated_tool_warning''"
    "event_get sample_warning ''actor'' = J_Str ''w1''" "event_get sample_warning ''payload_ref'' = J_Str ''x''"
    by (simp_all add: sample_warning_def event_get_def)
  have t: "list_all (text_field (semantic_of central_fields sample_warning)) DEPRECATION_WARNING_UNIQUE_FIELDS"
    using texts by (simp add: list_all_iff text_field_def)
  obtain j' r where a: "append_once first_text (\<lambda>b. b) ''b'' sample_warning DEPRECATION_WARNING_UNIQUE_FIELDS 7
      (sample_journal 1) = Inr (j', r, True)"
    using known(2) t by (simp add: append_once_def h s f require_text_def check_journal_def sample_journal_def sample_log_def
        DEPRECATION_WARNING_UNIQUE_FIELDS_def [THEN arg_cong [of _ _ "\<lambda>x. x = []"]]
        append_unique_def same_event_def sample_row_def put_row_def remember_warning_def Let_def)
  from append_once_is_idempotent [OF a u] a show ?thesis by blast
qed

end
