(* ===== verification/Project_Workflow.thy ===== *)
theory Project_Workflow
  imports Submission_Evidence
begin

section \<open>Project workflows\<close>

text \<open>
  \<open>project_workflow.py\<close> of the client: the parser of a sealed workflow (a graph of tickets with
  prerequisites), its activation, the reconciliation that releases tickets whose prerequisites are
  accepted, and the packet of evidence for the final validation.  \<open>digest\<close> stands for the SHA-256 of the
  canonical JSON of a value, \<open>dumps\<close> for the JSON encoder.
\<close>

definition name_char :: "char \<Rightarrow> bool" where
  "name_char c \<longleftrightarrow> alnum_char c \<or> c \<in> set ''._-''"

definition lower_hex :: "char \<Rightarrow> bool" where
  "lower_hex c = (let n = of_char c :: nat in (48 \<le> n \<and> n \<le> 57) \<or> (97 \<le> n \<and> n \<le> 102))"

definition wf_id_ok :: "string \<Rightarrow> bool" where
  "wf_id_ok s \<longleftrightarrow> s \<noteq> [] \<and> length s \<le> 80 \<and> list_all name_char s"

definition wf_sha_ok :: "string \<Rightarrow> bool" where
  "wf_sha_ok s \<longleftrightarrow> length s = 40 \<and> list_all lower_hex s"

definition wf_digest_ok :: "string \<Rightarrow> bool" where
  "wf_digest_ok s \<longleftrightarrow> length s = 64 \<and> list_all lower_hex s"

record wf_node =
  nd_id :: string
  nd_ticket :: string
  nd_requires :: "string list"
  nd_checks :: "string list"

record workflow =
  wf_id :: string
  wf_project :: string
  wf_board :: string
  wf_cohort :: string
  wf_nodes :: "(string, wf_node) odict"
  wf_title :: string
  wf_checks :: "string list"

definition has_fields :: "json \<Rightarrow> string list \<Rightarrow> bool" where
  "has_fields v ks \<longleftrightarrow> is_obj v \<and> j_keys v = set ks"

definition texts_of :: "json \<Rightarrow> string list" where
  "texts_of v = List.map_filter j_str (j_list v)"

subsection \<open>The nodes\<close>

definition id_text :: "json \<Rightarrow> string \<Rightarrow> string result" where
  "id_text v what =
     (case v of
        J_Str s \<Rightarrow> if wf_id_ok s then Inr s else Inl (ValueError (''butler_workflow '' @ what @ '' is invalid''))
      | _ \<Rightarrow> Inl (ValueError (''butler_workflow '' @ what @ '' is invalid'')))"

definition checks_ok :: "json \<Rightarrow> bool" where
  "checks_ok v \<longleftrightarrow> is_list v \<and> j_list v \<noteq> [] \<and> length (j_list v) \<le> 30 \<and>
     list_all (\<lambda>c. case c of J_Str s \<Rightarrow> strip s \<noteq> [] \<and> length s \<le> 1000 | _ \<Rightarrow> False) (j_list v)"

definition requires_ok :: "string \<Rightarrow> json \<Rightarrow> bool" where
  "requires_ok nid v \<longleftrightarrow> is_list v \<and> length (j_list v) \<le> 100 \<and>
     list_all (\<lambda>d. case d of J_Str s \<Rightarrow> wf_id_ok s | _ \<Rightarrow> False) (j_list v) \<and>
     distinct (texts_of v) \<and> nid \<notin> set (texts_of v)"

definition add_node :: "json \<Rightarrow> (string, wf_node) odict \<times> string list \<Rightarrow> ((string, wf_node) odict \<times> string list) result" where
  "add_node raw acc =
     (case acc of (nodes, tids) \<Rightarrow>
       bindE (guardE (has_fields raw [''node_id'', ''ticket_id'', ''requires'', ''acceptance_checks''])
                (ValueError ''butler_workflow node is partial or contains unsupported fields'')) (\<lambda>_.
       bindE (id_text (j_get raw ''node_id'') ''node_id'') (\<lambda>nid.
       bindE (id_text (j_get raw ''ticket_id'') ''ticket_id'') (\<lambda>tid.
       bindE (guardE (nid \<notin> set (dkeys nodes) \<and> tid \<notin> set tids)
                (ValueError ''butler_workflow node and ticket membership must be unique'')) (\<lambda>_.
       bindE (guardE (requires_ok nid (j_get raw ''requires''))
                (ValueError ''butler_workflow prerequisites are invalid'')) (\<lambda>_.
       bindE (guardE (checks_ok (j_get raw ''acceptance_checks''))
                (ValueError ''butler_workflow acceptance_checks must be meaningful'')) (\<lambda>_.
         Inr (dset nid \<lparr> nd_id = nid, nd_ticket = tid, nd_requires = texts_of (j_get raw ''requires''),
                         nd_checks = texts_of (j_get raw ''acceptance_checks'') \<rparr> nodes,
              tids @ [tid]))))))))"

subsection \<open>The search for a cycle\<close>

definition unvisited :: "(string, wf_node) odict \<Rightarrow> string list \<Rightarrow> nat" where
  "unvisited nodes visiting = card (set (dkeys nodes) - set visiting)"

lemma unvisited_less:
  assumes "dget nodes n = Some nd" and "n \<notin> set visiting"
  shows "unvisited nodes (n # visiting) < unvisited nodes visiting"
proof -
  have "n \<in> set (dkeys nodes)" using assms(1) dget_in_keys [of nodes n] by simp
  with assms(2) show ?thesis unfolding unvisited_def by (intro psubset_card_mono) auto
qed

text \<open>
  \<open>visit\<close>: the depth-first search over the prerequisites.  \<open>visiting\<close> is the path to the node, \<open>visited\<close> the
  nodes that are done, the last one first.  A lookup outside the graph would raise \<open>KeyError\<close>.
\<close>

function visit :: "(string, wf_node) odict \<Rightarrow> string list \<Rightarrow> string list \<Rightarrow> string \<Rightarrow> string list result"
  and visit_all :: "(string, wf_node) odict \<Rightarrow> string list \<Rightarrow> string list \<Rightarrow> string list \<Rightarrow> string list result"
  where
  "visit nodes visiting visited n =
     (if n \<in> set visiting then Inl (ValueError ''butler_workflow prerequisite graph contains a cycle'')
      else if n \<in> set visited then Inr visited
      else case dget nodes n of
        None \<Rightarrow> Inl (KeyError n)
      | Some nd \<Rightarrow> bindE (visit_all nodes (n # visiting) visited (nd_requires nd)) (\<lambda>vis. Inr (n # vis)))"
| "visit_all nodes visiting visited [] = Inr visited"
| "visit_all nodes visiting visited (d # ds) =
     bindE (visit nodes visiting visited d) (\<lambda>vis. visit_all nodes visiting vis ds)"
  by pat_completeness auto

termination
  by (relation "inv_image (less_than <*lex*> less_than)
        (\<lambda>x. case x of Inl (nodes, visiting, visited, n) \<Rightarrow> (unvisited nodes visiting, 0)
             | Inr (nodes, visiting, visited, ds) \<Rightarrow> (unvisited nodes visiting, Suc (length ds)))")
    (auto simp: unvisited_less)

declare visit.simps [simp del]

subsection \<open>The workflow\<close>

definition wf_text_ok :: "json \<Rightarrow> bool" where
  "wf_text_ok v = (case v of J_Str s \<Rightarrow> s \<noteq> [] \<and> strip s = s \<and> length s \<le> 200 | _ \<Rightarrow> False)"

definition final_ok :: "json \<Rightarrow> bool" where
  "final_ok v \<longleftrightarrow> has_fields v [''title'', ''acceptance_checks''] \<and>
     (case j_get v ''title'' of J_Str s \<Rightarrow> strip s \<noteq> [] \<and> length s \<le> 300 | _ \<Rightarrow> False) \<and>
     checks_ok (j_get v ''acceptance_checks'')"

definition text_of :: "json \<Rightarrow> string" where
  "text_of v = (case v of J_Str s \<Rightarrow> s | _ \<Rightarrow> [])"

definition parse_nodes :: "json \<Rightarrow> (string, wf_node) odict result" where
  "parse_nodes raw =
     bindE (guardE (is_list raw \<and> j_list raw \<noteq> [] \<and> length (j_list raw) \<le> 100)
              (ValueError ''butler_workflow.nodes must be a complete bounded non-empty list'')) (\<lambda>_.
     bindE (foldE add_node (j_list raw) ([], [])) (\<lambda>(nodes, _).
     bindE (guardE (list_all (\<lambda>nd. list_all (\<lambda>d. d \<in> set (dkeys nodes)) (nd_requires nd)) (dvalues nodes))
              (ValueError ''butler_workflow prerequisite is outside its sealed cohort'')) (\<lambda>_.
     bindE (visit_all nodes [] [] (dkeys nodes)) (\<lambda>_. Inr nodes))))"

definition parse_project_workflow :: "json \<Rightarrow> string \<Rightarrow> string \<Rightarrow> workflow result" where
  "parse_project_workflow v project board =
     bindE (guardE (has_fields v [''schema_version'', ''workflow_id'', ''project_id'', ''board_id'', ''cohort_id'',
                                  ''sealed'', ''nodes'', ''final_validation''])
              (ValueError ''butler_workflow is partial or contains unsupported fields'')) (\<lambda>_.
     bindE (guardE (j_get v ''schema_version'' = J_Int 1)
              (ValueError ''butler_workflow.schema_version is unsupported'')) (\<lambda>_.
     bindE (foldE (\<lambda>name _. guardE (wf_text_ok (j_get v name)) (ValueError (''butler_workflow.'' @ name @ '' is invalid'')))
              [''workflow_id'', ''project_id'', ''board_id'', ''cohort_id''] ()) (\<lambda>_.
     bindE (guardE (j_get v ''project_id'' = J_Str project \<and> j_get v ''board_id'' = J_Str board)
              (ValueError ''butler_workflow project/board route mismatch'')) (\<lambda>_.
     bindE (guardE (j_get v ''sealed'' = J_Bool True)
              (ValueError ''butler_workflow cohort is not explicitly sealed'')) (\<lambda>_.
     bindE (parse_nodes (j_get v ''nodes'')) (\<lambda>nodes.
     bindE (guardE (final_ok (j_get v ''final_validation''))
              (ValueError ''butler_workflow.final_validation is incomplete'')) (\<lambda>_.
       Inr \<lparr> wf_id = text_of (j_get v ''workflow_id''), wf_project = project, wf_board = board,
             wf_cohort = text_of (j_get v ''cohort_id''), wf_nodes = nodes,
             wf_title = text_of (j_get (j_get v ''final_validation'') ''title''),
             wf_checks = texts_of (j_get (j_get v ''final_validation'') ''acceptance_checks'') \<rparr>)))))))"

subsection \<open>Activation\<close>

definition node_json :: "wf_node \<Rightarrow> json" where
  "node_json nd = J_Obj [(''node_id'', J_Str (nd_id nd)), (''ticket_id'', J_Str (nd_ticket nd)),
     (''requires'', J_List (map J_Str (nd_requires nd))), (''acceptance_checks'', J_List (map J_Str (nd_checks nd)))]"

definition workflow_json :: "workflow \<Rightarrow> json" where
  "workflow_json w = J_Obj [(''schema_version'', J_Int 1), (''workflow_id'', J_Str (wf_id w)),
     (''project_id'', J_Str (wf_project w)), (''board_id'', J_Str (wf_board w)), (''cohort_id'', J_Str (wf_cohort w)),
     (''sealed'', J_Bool True), (''nodes'', J_Obj (map (\<lambda>(k, nd). (k, node_json nd)) (wf_nodes w))),
     (''final_validation'', J_Obj [(''title'', J_Str (wf_title w)),
        (''acceptance_checks'', J_List (map J_Str (wf_checks w)))])]"

record activation =
  av_digest :: string
  av_id :: string

definition parse_workflow_activation :: "(json \<Rightarrow> string) \<Rightarrow> json \<Rightarrow> workflow \<Rightarrow> activation option result" where
  "parse_workflow_activation digest v w =
     (if v = J_Null then Inr None
      else
        bindE (guardE (has_fields v [''schema_version'', ''state'', ''policy_sha256'', ''activation_id''])
                 (ValueError ''butler_workflow_activation has unsupported or missing fields'')) (\<lambda>_.
        bindE (guardE (j_get v ''schema_version'' = J_Int 1)
                 (ValueError ''butler_workflow_activation schema_version is unsupported'')) (\<lambda>_.
        bindE (guardE (j_get v ''state'' = J_Str ''active'')
                 (ValueError ''butler_workflow_activation must explicitly be active'')) (\<lambda>_.
        bindE (guardE (case j_get v ''policy_sha256'' of
                  J_Str d \<Rightarrow> wf_digest_ok d \<and> d = digest (workflow_json w) | _ \<Rightarrow> False)
                 (ValueError ''butler_workflow_activation does not pin the effective workflow'')) (\<lambda>_.
        bindE (guardE (case j_get v ''activation_id'' of
                  J_Str a \<Rightarrow> strip a \<noteq> [] \<and> length a \<le> 128 | _ \<Rightarrow> False)
                 (ValueError ''butler_workflow_activation.activation_id is invalid'')) (\<lambda>_.
          Inr (Some \<lparr> av_digest = text_of (j_get v ''policy_sha256''), av_id = text_of (j_get v ''activation_id'') \<rparr>)))))))"

definition final_validation_ticket_id :: "(json \<Rightarrow> string) \<Rightarrow> workflow \<Rightarrow> string" where
  "final_validation_ticket_id digest w =
     ''TK-wf-'' @ take 32 (digest (J_List [J_Str (wf_board w), J_Str (wf_project w), J_Str (wf_id w), J_Str (wf_cohort w)]))"

end
