(* ===== verification/Workflow_Graph.thy ===== *)
theory Workflow_Graph
  imports Project_Workflow
begin

section \<open>The prerequisites of a workflow\<close>

definition prereqs :: "(string, wf_node) odict \<Rightarrow> (string \<times> string) set" where
  "prereqs nodes = {(n, d). \<exists>nd. dget nodes n = Some nd \<and> d \<in> set (nd_requires nd)}"

definition closed_graph :: "(string, wf_node) odict \<Rightarrow> bool" where
  "closed_graph nodes \<longleftrightarrow> (\<forall>n d. (n, d) \<in> prereqs nodes \<longrightarrow> d \<in> set (dkeys nodes))"

text \<open>The visited nodes are in topological order: what a node requires was visited before it.\<close>

fun topological :: "(string, wf_node) odict \<Rightarrow> string list \<Rightarrow> bool" where
  "topological nodes [] = True"
| "topological nodes (n # vis) =
     (n \<notin> set vis \<and> (\<forall>d. (n, d) \<in> prereqs nodes \<longrightarrow> d \<in> set vis) \<and> topological nodes vis)"

lemma topological_closed:
  assumes "topological nodes vis" and "x \<in> set vis" and "(x, y) \<in> (prereqs nodes)\<^sup>+"
  shows "y \<in> set vis"
proof -
  have step: "x \<in> set vis \<Longrightarrow> (x, y) \<in> prereqs nodes \<Longrightarrow> y \<in> set vis" for x y
    using assms(1) by (induction vis) auto
  from assms(3) show ?thesis by (induction rule: trancl_induct) (use assms(2) step in blast)+
qed

lemma topological_acyclic: "topological nodes vis \<Longrightarrow> x \<in> set vis \<Longrightarrow> (x, x) \<notin> (prereqs nodes)\<^sup>+"
proof (induction vis)
  case (Cons n vis)
  show ?case
  proof
    assume c: "(x, x) \<in> (prereqs nodes)\<^sup>+"
    show False
    proof (cases "x \<in> set vis")
      case True
      with Cons c show ?thesis by simp
    next
      case False
      with Cons.prems have "x = n" by simp
      with c obtain d where d: "(n, d) \<in> prereqs nodes" "d = n \<or> (d, n) \<in> (prereqs nodes)\<^sup>+"
        by (metis tranclD2 tranclD rtranclD)
      then have "d \<in> set vis" using Cons.prems by simp
      with d(2) topological_closed [of nodes vis d n] Cons.prems False \<open>x = n\<close> show ?thesis by auto
    qed
  qed
qed simp

text \<open>What the search returns, and why it raises.\<close>

lemma visit_topological:
  "visit nodes visiting visited n = Inr vis \<Longrightarrow> topological nodes visited \<Longrightarrow>
     topological nodes vis \<and> insert n (set visited) \<subseteq> set vis \<and> set vis \<inter> set visiting \<subseteq> set visited"
  "visit_all nodes visiting visited ds = Inr vis \<Longrightarrow> topological nodes visited \<Longrightarrow>
     topological nodes vis \<and> set ds \<union> set visited \<subseteq> set vis \<and> set vis \<inter> set visiting \<subseteq> set visited"
proof (induction nodes visiting visited n and nodes visiting visited ds arbitrary: vis and vis rule: visit_visit_all.induct)
  case (1 nodes visiting visited n)
  show ?case
  proof (cases "n \<in> set visited")
    case True
    then show ?thesis using "1.prems" by (simp add: visit.simps(1) split: if_split_asm)
  next
    case False
    with "1.prems"(1) obtain nd vis1 where n: "n \<notin> set visiting" "dget nodes n = Some nd"
      and v: "visit_all nodes (n # visiting) visited (nd_requires nd) = Inr vis1" "vis = n # vis1"
      by (auto simp: visit.simps(1) split: if_split_asm option.split_asm)
    from "1.IH" [OF n(1) False n(2) v(1) "1.prems"(2)] False
    have i: "topological nodes vis1" "set (nd_requires nd) \<union> set visited \<subseteq> set vis1"
      "set vis1 \<inter> set (n # visiting) \<subseteq> set visited" by auto
    then have "n \<notin> set vis1" using False by auto
    moreover have "\<forall>d. (n, d) \<in> prereqs nodes \<longrightarrow> d \<in> set vis1" using i(2) n(2) by (auto simp: prereqs_def)
    ultimately show ?thesis using i v(2) n(1) by auto
  qed
next
  case (2 nodes visiting visited)
  then show ?case by simp
next
  case (3 nodes visiting visited d ds)
  then obtain vis1 where v: "visit nodes visiting visited d = Inr vis1" "visit_all nodes visiting vis1 ds = Inr vis"
    by (auto simp: visit_all.simps(2))
  from "3.IH"(1) [OF v(1) "3.prems"(2)] "3.IH"(2) [OF v] show ?case by auto
qed

lemma visit_cycle:
  "visit nodes visiting visited n = Inl e \<Longrightarrow> \<forall>v \<in> set visiting. (v, n) \<in> (prereqs nodes)\<^sup>+ \<Longrightarrow>
     n \<in> set (dkeys nodes) \<Longrightarrow> closed_graph nodes \<Longrightarrow> \<not> acyclic (prereqs nodes)"
  "visit_all nodes visiting visited ds = Inl e \<Longrightarrow> \<forall>v \<in> set visiting. \<forall>d \<in> set ds. (v, d) \<in> (prereqs nodes)\<^sup>+ \<Longrightarrow>
     set ds \<subseteq> set (dkeys nodes) \<Longrightarrow> closed_graph nodes \<Longrightarrow> \<not> acyclic (prereqs nodes)"
proof (induction nodes visiting visited n and nodes visiting visited ds rule: visit_visit_all.induct)
  case (1 nodes visiting visited n)
  show ?case
  proof (cases "n \<in> set visiting")
    case True
    then show ?thesis using "1.prems"(2) by (auto simp: acyclic_def)
  next
    case False
    with "1.prems" have nv: "n \<notin> set visited" by (auto simp: visit.simps(1))
    obtain nd where nd: "dget nodes n = Some nd" using "1.prems"(3) dget_in_keys [of nodes n] by auto
    have v: "visit_all nodes (n # visiting) visited (nd_requires nd) = Inl e"
      using "1.prems"(1) False nv nd by (simp add: visit.simps(1) bindE_eq_Inl)
    have e: "(n, d) \<in> prereqs nodes" if "d \<in> set (nd_requires nd)" for d using that nd by (auto simp: prereqs_def)
    have "\<forall>v \<in> set (n # visiting). \<forall>d \<in> set (nd_requires nd). (v, d) \<in> (prereqs nodes)\<^sup>+"
      using e "1.prems"(2) by (auto intro: trancl_into_trancl)
    moreover have "set (nd_requires nd) \<subseteq> set (dkeys nodes)"
      using e "1.prems"(4) by (auto simp: closed_graph_def)
    ultimately show ?thesis using "1.IH" [OF False nv nd v] "1.prems"(4) by simp
  qed
next
  case (2 nodes visiting visited)
  then show ?case by simp
next
  case (3 nodes visiting visited d ds)
  then show ?case by (auto simp: visit_all.simps(2) bindE_eq_Inl)
qed

theorem search_finds_cycles:
  assumes "closed_graph nodes"
  shows "(\<exists>vis. visit_all nodes [] [] (dkeys nodes) = Inr vis) \<longleftrightarrow> acyclic (prereqs nodes)"
proof
  assume "\<exists>vis. visit_all nodes [] [] (dkeys nodes) = Inr vis"
  then obtain vis where t: "topological nodes vis" "set (dkeys nodes) \<subseteq> set vis"
    using visit_topological(2) [of nodes "[]" "[]"] by fastforce
  show "acyclic (prereqs nodes)"
    unfolding acyclic_def
  proof (intro allI notI)
    fix x assume c: "(x, x) \<in> (prereqs nodes)\<^sup>+"
    then obtain y where "(x, y) \<in> prereqs nodes" by (meson tranclD)
    then have "x \<in> set (dkeys nodes)" using dget_in_keys [of nodes x] by (auto simp: prereqs_def)
    with t topological_acyclic [of nodes vis x] c show False by blast
  qed
next
  assume a: "acyclic (prereqs nodes)"
  show "\<exists>vis. visit_all nodes [] [] (dkeys nodes) = Inr vis"
  proof (cases "visit_all nodes [] [] (dkeys nodes)")
    case (Inl e)
    from visit_cycle(2) [OF this] assms a show ?thesis by simp
  qed simp
qed

subsection \<open>The parsed graph\<close>

text \<open>The loop over the nodes keeps node and ticket identifiers unique and the nodes well formed.\<close>

definition node_ok :: "string \<times> wf_node \<Rightarrow> bool" where
  "node_ok p \<longleftrightarrow> nd_id (snd p) = fst p \<and> wf_id_ok (fst p) \<and> wf_id_ok (nd_ticket (snd p)) \<and>
     distinct (nd_requires (snd p)) \<and> fst p \<notin> set (nd_requires (snd p)) \<and> nd_checks (snd p) \<noteq> []"

definition nodes_ok :: "(string, wf_node) odict \<times> string list \<Rightarrow> bool" where
  "nodes_ok acc \<longleftrightarrow> dict_ok (fst acc) \<and> list_all node_ok (fst acc) \<and>
     map nd_ticket (dvalues (fst acc)) = snd acc \<and> distinct (snd acc)"

lemma texts_of_nonempty: "checks_ok v \<Longrightarrow> texts_of v \<noteq> []"
  by (cases "j_list v") (auto simp: checks_ok_def texts_of_def List.map_filter_def split: json.split_asm)

lemma dset_fresh: "k \<notin> set (dkeys d) \<Longrightarrow> dset k v d = d @ [(k, v)]"
  unfolding dset_def dkeys_def by (induction d) auto

lemma add_node_ok:
  assumes a: "add_node raw acc = Inr acc'" and ok: "nodes_ok acc"
  shows "nodes_ok acc'"
proof -
  obtain nodes tids where acc: "acc = (nodes, tids)" by (cases acc)
  obtain nid tid where i: "id_text (j_get raw ''node_id'') ''node_id'' = Inr nid"
      "id_text (j_get raw ''ticket_id'') ''ticket_id'' = Inr tid"
    and new: "nid \<notin> set (dkeys nodes)" "tid \<notin> set tids"
    and r: "requires_ok nid (j_get raw ''requires'')" and c: "checks_ok (j_get raw ''acceptance_checks'')"
    and acc': "acc' = (dset nid \<lparr> nd_id = nid, nd_ticket = tid, nd_requires = texts_of (j_get raw ''requires''),
                         nd_checks = texts_of (j_get raw ''acceptance_checks'') \<rparr> nodes, tids @ [tid])"
    using a unfolding add_node_def acc prod.case
    by (elim bindE_Inr1E) (simp only: guardE_eq_Inr sum.inject, blast)
  have "wf_id_ok nid" "wf_id_ok tid" using i by (auto simp: id_text_def split: json.split_asm if_split_asm)
  with ok new r texts_of_nonempty [OF c] show ?thesis
    by (simp add: acc acc' nodes_ok_def dset_fresh node_ok_def dict_ok_def dkeys_def dvalues_def requires_ok_def)
qed

lemma parse_nodes_ok:
  assumes "parse_nodes raw = Inr nodes"
  shows "dict_ok nodes \<and> list_all node_ok nodes \<and> distinct (map nd_ticket (dvalues nodes)) \<and> nodes \<noteq> [] \<and>
    closed_graph nodes \<and> acyclic (prereqs nodes)"
proof -
  obtain tids vis where ne: "is_list raw" "j_list raw \<noteq> []"
    and f: "foldE add_node (j_list raw) ([], []) = Inr (nodes, tids)"
    and cl: "list_all (\<lambda>nd. list_all (\<lambda>d. d \<in> set (dkeys nodes)) (nd_requires nd)) (dvalues nodes)"
    and v: "visit_all nodes [] [] (dkeys nodes) = Inr vis"
    using assms unfolding parse_nodes_def by (elim bindE_Inr1E bindE_Inr2E) simp
  have ok: "nodes_ok (nodes, tids)"
    by (rule foldE_invariant [OF f, of nodes_ok])
      (simp add: nodes_ok_def dict_ok_def dkeys_def dvalues_def, rule add_node_ok)
  have closed: "closed_graph nodes"
    using cl by (fastforce simp: closed_graph_def prereqs_def list_all_iff dvalues_def dest: dget_in_values)
  moreover have "acyclic (prereqs nodes)" using search_finds_cycles [OF closed] v by blast
  moreover have "nodes \<noteq> []"
  proof
    assume "nodes = []"
    then have "tids = []" using ok by (simp add: nodes_ok_def dvalues_def)
    moreover obtain x xs where "j_list raw = x # xs" using ne by (cases "j_list raw") auto
    moreover have "snd acc' \<noteq> []" if "foldE add_node xs acc = Inr acc'" "snd acc \<noteq> []" for xs acc acc'
      by (rule foldE_invariant [OF that(1), of "\<lambda>a. snd a \<noteq> []"])
        (use that(2) in \<open>auto simp: add_node_def split: prod.split_asm\<close>)
    ultimately show False using f by (fastforce simp: add_node_def)
  qed
  ultimately show ?thesis using ok by (auto simp: nodes_ok_def)
qed

end
