(* ===== verification/Workflow_Reconcile.thy ===== *)
theory Workflow_Reconcile
  imports Workflow_Graph
begin

section \<open>Reconciling a workflow with its tickets\<close>

text \<open>
  \<open>accepted_candidate\<close>, \<open>_live_ticket_ownership\<close> and \<open>reconcile\<close> of \<open>project_workflow.py\<close>, on tickets as
  the JSON documents Central returns.  \<open>number\<close> is \<open>float\<close> on a text: the number it denotes, when it does.
\<close>

subsection \<open>Values of a ticket\<close>

fun json_true :: "json \<Rightarrow> bool" where
  "json_true J_Null = False"
| "json_true (J_Bool b) = b"
| "json_true (J_Int n) = (n \<noteq> 0)"
| "json_true (J_Float q) = (q \<noteq> 0)"
| "json_true (J_Nonfinite _) = True"
| "json_true (J_Str s) = (s \<noteq> [])"
| "json_true (J_List xs) = (xs \<noteq> [])"
| "json_true (J_Obj xs) = (xs \<noteq> [])"

text \<open>\<open>v in {...}\<close> on a set of texts: a list or an object has no hash.\<close>

fun among :: "json \<Rightarrow> string list \<Rightarrow> bool result" where
  "among (J_List _) _ = Inl (TypeError ''unhashable type'')"
| "among (J_Obj _) _ = Inl (TypeError ''unhashable type'')"
| "among (J_Str s) ks = Inr (s \<in> set ks)"
| "among _ _ = Inr False"

subsection \<open>Acceptance\<close>

definition human_settled :: "json \<Rightarrow> bool result" where
  "human_settled t =
     (let human = j_get t ''human_request''; res = j_get human ''resolution'' in
      if \<not> is_obj human then Inr True
      else if \<not> is_obj res then Inr False
      else among (j_get res ''action'') [''accept'', ''resolve'', ''dismiss''])"

text \<open>
  The evidence of a stored submission.  A value that is neither a text nor null names nothing: it reads
  as the empty text, which is no branch and no commit.
\<close>

definition evidence_text :: "json \<Rightarrow> string option" where
  "evidence_text v = (case v of J_Null \<Rightarrow> None | J_Str s \<Rightarrow> Some s | _ \<Rightarrow> Some [])"

definition json_identity :: "json \<Rightarrow> string \<times> string" where
  "json_identity s =
     (let notes = j_get s ''notes''; proof = j_get s ''submission_preflight'' in
      if json_true notes \<and> \<not> is_str notes then no_identity
      else submission_identity
        \<lparr> ev_preflight = (if is_obj proof then Some (text_of (j_get proof ''branch''), text_of (j_get proof ''commit'')) else None),
          ev_branch = evidence_text (j_get s ''branch''), ev_commit = evidence_text (j_get s ''commit_hash''),
          ev_notes = (if json_true notes then j_str notes else None) \<rparr>)"

definition review_verdict_of :: "json \<Rightarrow> json \<Rightarrow> json" where
  "review_verdict_of t review = (if j_has review ''verdict'' then j_get review ''verdict'' else j_get t ''review_verdict'')"

definition accepted_candidate :: "json \<Rightarrow> (bool \<times> string option) result" where
  "accepted_candidate t =
     (if \<not> is_obj t \<or> j_get t ''status'' \<noteq> J_Str ''closed'' then Inr (False, None)
      else bindE (human_settled t) (\<lambda>settled.
        if \<not> settled then Inr (False, None)
        else let submission = j_get t ''latest_submission''; review = j_get t ''latest_verdict'' in
          if \<not> is_obj submission \<or> \<not> is_obj review then Inr (False, None)
          else let sha = snd (json_identity submission);
                   submitter = j_get submission ''submitted_by_principal_id'';
                   reviewer = j_get review ''reviewed_by_principal_id'' in
            if sha = [] \<or> \<not> wf_sha_ok sha \<or>
               review_verdict_of t review \<noteq> J_Str ''approve'' \<or>
               j_get review ''status_to'' \<noteq> J_Str ''closed'' \<or>
               j_get review ''submission_commit'' \<noteq> J_Str sha \<or>
               \<not> is_str submitter \<or> submitter = J_Str [] \<or>
               \<not> is_str reviewer \<or> reviewer = J_Str [] \<or> reviewer = submitter
            then Inr (False, None)
            else Inr (True, Some sha)))"

subsection \<open>Ownership\<close>

text \<open>
  \<open>float(expiry) > now\<close> where a value \<open>float\<close> refuses counts as later: only \<open>TypeError\<close> and
  \<open>ValueError\<close> are caught, not the \<open>OverflowError\<close> of an integer beyond the range of floats.
\<close>

definition FLOAT_LIMIT :: int where
  "FLOAT_LIMIT = 2 ^ 1024 - 2 ^ 970"

fun may_be_live :: "(string \<Rightarrow> json option) \<Rightarrow> rat \<Rightarrow> json \<Rightarrow> bool result" where
  "may_be_live number now (J_Bool b) = Inr (now < (if b then 1 else 0))"
| "may_be_live number now (J_Int n) =
     (if FLOAT_LIMIT \<le> \<bar>n\<bar> then Inl (OverflowError ''int too large to convert to float'') else Inr (now < of_int n))"
| "may_be_live number now (J_Float q) = Inr (now < q)"
| "may_be_live number now (J_Nonfinite s) = Inr (s = ''inf'')"
| "may_be_live number now (J_Str s) =
     (case number s of
        Some (J_Float q) \<Rightarrow> Inr (now < q)
      | Some (J_Nonfinite x) \<Rightarrow> Inr (x = ''inf'')
      | _ \<Rightarrow> Inr True)"
| "may_be_live number now _ = Inr True"

definition live_ticket_ownership :: "(string \<Rightarrow> json option) \<Rightarrow> rat \<Rightarrow> json \<Rightarrow> bool result" where
  "live_ticket_ownership number now t =
     bindE (among (j_get t ''status'') [''claimed'', ''in_progress'', ''creating_report'']) (\<lambda>active.
       let holder = j_get t ''claimed_by_agent_id''; expiry = j_get t ''lease_expires_at_epoch'';
           lease = j_get t ''review_lease'' in
       if active \<and> expiry = J_Null then Inr True
       else
         bindE (if json_true holder \<and> expiry \<noteq> J_Null then may_be_live number now expiry else Inr False) (\<lambda>held.
         if held then Inr True
         else bindE (if active \<and> expiry \<noteq> J_Null then may_be_live number now expiry else Inr False) (\<lambda>working.
         if working then Inr True
         else if \<not> is_obj lease then Inr False
         else if j_get lease ''expires_at_epoch'' = J_Null then Inr True
         else may_be_live number now (j_get lease ''expires_at_epoch''))))"

subsection \<open>Releases and the final task\<close>

record final_task =
  ft_ticket :: string
  ft_title :: string
  ft_revision :: string
  ft_members :: "(string, string) odict"
  ft_checks :: "string list"

record reconciliation =
  rc_releases :: "string list"
  rc_all_accepted :: bool
  rc_members :: "(string, string) odict"
  rc_final :: "final_task option"

type_synonym acceptance = "(string, bool \<times> string option) odict"

definition node_accepted :: "acceptance \<Rightarrow> string \<Rightarrow> bool" where
  "node_accepted acc n = (case dget acc n of None \<Rightarrow> False | Some (ok, _) \<Rightarrow> ok)"

definition candidate_ticket :: "(string, json) odict \<Rightarrow> wf_node \<Rightarrow> json" where
  "candidate_ticket ts nd = (case dget ts (nd_ticket nd) of None \<Rightarrow> J_Null | Some t \<Rightarrow> t)"

definition acceptances :: "(string, wf_node) odict \<Rightarrow> (string, json) odict \<Rightarrow> acceptance result" where
  "acceptances nodes ts =
     foldE (\<lambda>(n, nd) acc. bindE (accepted_candidate (candidate_ticket ts nd)) (\<lambda>r. Inr (acc @ [(n, r)]))) nodes []"

definition released_node ::
  "(string \<Rightarrow> json option) \<Rightarrow> rat \<Rightarrow> (string, json) odict \<Rightarrow> acceptance \<Rightarrow> wf_node \<Rightarrow> bool result" where
  "released_node number now ts acc nd =
     (let t = (case dget ts (nd_ticket nd) of None \<Rightarrow> J_Obj [] | Some t \<Rightarrow> t) in
      if j_get t ''status'' \<noteq> J_Str ''open'' \<or> j_get t ''parked'' \<noteq> J_Bool True then Inr False
      else bindE (human_settled t) (\<lambda>settled.
        if \<not> settled then Inr False
        else bindE (live_ticket_ownership number now t) (\<lambda>owned.
          if owned then Inr False
          else Inr (nd_requires nd \<noteq> [] \<and> list_all (node_accepted acc) (nd_requires nd)))))"

definition accepted_members :: "(string, wf_node) odict \<Rightarrow> acceptance \<Rightarrow> (string, string) odict" where
  "accepted_members nodes acc =
     sort_key fst (fold (\<lambda>(n, ok, sha) d.
       case (dget nodes n, sha) of
         (Some nd, Some s) \<Rightarrow> if ok \<and> s \<noteq> [] then dset (nd_ticket nd) s d else d
       | _ \<Rightarrow> d) acc [])"

definition reconcile ::
  "(json \<Rightarrow> string) \<Rightarrow> (string \<Rightarrow> json option) \<Rightarrow> workflow \<Rightarrow> (string, json) odict \<Rightarrow> string option \<Rightarrow> bool \<Rightarrow> rat
     \<Rightarrow> reconciliation result" where
  "reconcile digest number w ts combined final_exists now =
     bindE (acceptances (wf_nodes w) ts) (\<lambda>acc.
     bindE (filterE (released_node number now ts acc) (dvalues (wf_nodes w))) (\<lambda>nds.
       let all_ok = list_all (\<lambda>(_, ok, _). ok) acc;
           members = accepted_members (wf_nodes w) acc;
           final = (case combined of
               Some revn \<Rightarrow>
                 if all_ok \<and> \<not> final_exists \<and> wf_sha_ok revn
                 then Some \<lparr> ft_ticket = final_validation_ticket_id digest w, ft_title = wf_title w, ft_revision = revn,
                             ft_members = members, ft_checks = wf_checks w \<rparr>
                 else None
             | None \<Rightarrow> None)
       in Inr \<lparr> rc_releases = sort (map nd_ticket nds), rc_all_accepted = all_ok, rc_members = members, rc_final = final \<rparr>))"

end
