(* ===== verification/Workflow_Facts.thy ===== *)
theory Workflow_Facts
  imports Workflow_Reconcile
begin

section \<open>What a reconciliation releases\<close>

lemma foldE_pairs:
  assumes "foldE (\<lambda>(n, nd) acc. bindE (f nd) (\<lambda>r. Inr (acc @ [(n, r)]))) xs acc0 = Inr acc"
  shows "\<exists>rs. acc = acc0 @ rs \<and> map fst rs = map fst xs \<and> list_all2 (\<lambda>(n, nd) (n', r). n = n' \<and> f nd = Inr r) xs rs"
  using assms
proof (induction xs arbitrary: acc0)
  case (Cons x xs)
  obtain n nd where x: "x = (n, nd)" by (cases x)
  with Cons.prems obtain r where r: "f nd = Inr r"
    and rest: "foldE (\<lambda>(n, nd) acc. bindE (f nd) (\<lambda>r. Inr (acc @ [(n, r)]))) xs (acc0 @ [(n, r)]) = Inr acc"
    by auto
  from Cons.IH [OF rest] obtain rs where "acc = (acc0 @ [(n, r)]) @ rs" "map fst rs = map fst xs"
    "list_all2 (\<lambda>(n, nd) (n', r). n = n' \<and> f nd = Inr r) xs rs" by blast
  with x r show ?case by (intro exI [of _ "(n, r) # rs"]) simp
qed simp

lemma acceptances_get:
  assumes "acceptances nodes ts = Inr acc" and "dict_ok nodes"
  shows "map fst acc = dkeys nodes \<and>
    (\<forall>n nd. dget nodes n = Some nd \<longrightarrow> (\<exists>r. dget acc n = Some r \<and> accepted_candidate (candidate_ticket ts nd) = Inr r))"
proof -
  from foldE_pairs [OF assms(1) [unfolded acceptances_def]] obtain keys: "map fst acc = map fst nodes"
    and rel: "list_all2 (\<lambda>(n, nd) (n', r). n = n' \<and> accepted_candidate (candidate_ticket ts nd) = Inr r) nodes acc"
    by auto
  have "\<exists>r. dget acc n = Some r \<and> accepted_candidate (candidate_ticket ts nd) = Inr r" if "dget nodes n = Some nd" for n nd
  proof -
    from that have "(n, nd) \<in> set nodes" by (rule dget_in_values)
    then obtain i where i: "i < length nodes" "nodes ! i = (n, nd)" by (metis in_set_conv_nth)
    obtain m r where mr: "acc ! i = (m, r)" by (cases "acc ! i")
    have "m = n" and r2: "accepted_candidate (candidate_ticket ts nd) = Inr r"
      using list_all2_nthD [OF rel i(1)] i(2) mr by simp_all
    moreover have "acc ! i \<in> set acc" using list_all2_lengthD [OF rel] i(1) by simp
    ultimately have r: "(n, r) \<in> set acc" "accepted_candidate (candidate_ticket ts nd) = Inr r" using mr by simp_all
    have "dict_ok acc" using keys assms(2) by (simp add: dict_ok_def dkeys_def)
    from dict_ok_lookup [OF this r(1)] r(2) show ?thesis by blast
  qed
  with keys show ?thesis by (auto simp: dkeys_def)
qed

text \<open>A ticket that counts as accepted: closed with an approval of exactly its commit by another principal.\<close>

definition soundly_accepted :: "json \<Rightarrow> string \<Rightarrow> bool" where
  "soundly_accepted t sha \<longleftrightarrow>
     j_get t ''status'' = J_Str ''closed'' \<and> wf_sha_ok sha \<and>
     snd (json_identity (j_get t ''latest_submission'')) = sha \<and>
     j_get (j_get t ''latest_verdict'') ''submission_commit'' = J_Str sha \<and>
     review_verdict_of t (j_get t ''latest_verdict'') = J_Str ''approve'' \<and>
     j_get (j_get t ''latest_verdict'') ''reviewed_by_principal_id'' \<noteq>
       j_get (j_get t ''latest_submission'') ''submitted_by_principal_id''"

lemma accepted_candidate_sound:
  assumes "accepted_candidate t = Inr (True, s)"
  shows "\<exists>sha. s = Some sha \<and> sha \<noteq> [] \<and> soundly_accepted t sha"
  using assms unfolding accepted_candidate_def soundly_accepted_def Let_def
  by (auto split: if_split_asm)

lemma accepted_candidate_shape:
  "accepted_candidate t = Inr (ok, s) \<Longrightarrow> ok \<or> s = None"
  unfolding accepted_candidate_def Let_def
  by (auto split: if_split_asm)

definition releasable :: "(string \<Rightarrow> json option) \<Rightarrow> rat \<Rightarrow> (string, json) odict \<Rightarrow> wf_node \<Rightarrow> bool" where
  "releasable number now ts nd \<longleftrightarrow>
     (\<exists>t. dget ts (nd_ticket nd) = Some t \<and> j_get t ''status'' = J_Str ''open'' \<and> j_get t ''parked'' = J_Bool True \<and>
        human_settled t = Inr True \<and> live_ticket_ownership number now t = Inr False)"

lemma released_node_True:
  "released_node number now ts acc nd = Inr True \<longleftrightarrow>
     releasable number now ts nd \<and> nd_requires nd \<noteq> [] \<and> list_all (node_accepted acc) (nd_requires nd)"
proof (cases "dget ts (nd_ticket nd)")
  case (Some t)
  then show ?thesis
    by (auto simp: released_node_def releasable_def Let_def split: if_split_asm)
qed (simp add: released_node_def releasable_def)

lemma reconcile_unfold:
  assumes "reconcile digest number w ts combined fe now = Inr rc"
  shows "\<exists>acc nds. acceptances (wf_nodes w) ts = Inr acc \<and>
    filterE (released_node number now ts acc) (dvalues (wf_nodes w)) = Inr nds \<and>
    rc_releases rc = sort (map nd_ticket nds) \<and> rc_all_accepted rc = list_all (\<lambda>(_, ok, _). ok) acc \<and>
    rc_members rc = accepted_members (wf_nodes w) acc \<and>
    (rc_final rc \<noteq> None \<longrightarrow> rc_all_accepted rc \<and> \<not> fe \<and> (\<exists>revn. combined = Some revn \<and> wf_sha_ok revn \<and>
       rc_final rc = Some \<lparr> ft_ticket = final_validation_ticket_id digest w, ft_title = wf_title w, ft_revision = revn,
                             ft_members = rc_members rc, ft_checks = wf_checks w \<rparr>))"
  using assms unfolding reconcile_def Let_def
  by (elim bindE_Inr1E) (auto split: option.splits if_splits)

lemma node_acceptedD:
  assumes a: "acceptances nodes ts = Inr acc" "dict_ok nodes" and n: "node_accepted acc n"
  shows "\<exists>nd sha. dget nodes n = Some nd \<and> soundly_accepted (candidate_ticket ts nd) sha"
proof -
  from n obtain s where s: "dget acc n = Some (True, s)" by (auto simp: node_accepted_def split: option.split_asm)
  then have "n \<in> set (map fst acc)" using dget_in_keys [of acc n] by (simp add: dkeys_def)
  then obtain nd where nd: "dget nodes n = Some nd"
    using acceptances_get [OF a] dget_in_keys [of nodes n] by auto
  with acceptances_get [OF a] s have "accepted_candidate (candidate_ticket ts nd) = Inr (True, s)" by fastforce
  from accepted_candidate_sound [OF this] nd show ?thesis by blast
qed

text \<open>What is released may be: the ticket is parked and free, and all that it requires is accepted.\<close>

lemma releases_are_safe:
  assumes r: "reconcile digest number w ts combined fe now = Inr rc" and ok: "dict_ok (wf_nodes w)"
    and tid: "tid \<in> set (rc_releases rc)"
  shows "\<exists>nd. nd \<in> set (dvalues (wf_nodes w)) \<and> nd_ticket nd = tid \<and> releasable number now ts nd \<and>
    (\<forall>d \<in> set (nd_requires nd). \<exists>nd' sha. dget (wf_nodes w) d = Some nd' \<and> soundly_accepted (candidate_ticket ts nd') sha)"
proof -
  from reconcile_unfold [OF r] obtain acc nds where a: "acceptances (wf_nodes w) ts = Inr acc"
    and f: "filterE (released_node number now ts acc) (dvalues (wf_nodes w)) = Inr nds"
    and rl: "rc_releases rc = sort (map nd_ticket nds)" by blast
  from tid rl obtain nd where nd: "nd \<in> set nds" "nd_ticket nd = tid" by auto
  from filterE_set [OF f nd(1)] have "nd \<in> set (dvalues (wf_nodes w))" "releasable number now ts nd"
    "list_all (node_accepted acc) (nd_requires nd)" by (simp_all add: released_node_True)
  with nd(2) node_acceptedD [OF a ok] show ?thesis by (auto simp: list_all_iff)
qed

text \<open>
  A workflow cannot block itself: while something is not accepted, there is a node that is not accepted
  although everything it requires is, and it is released as soon as its ticket is parked and free.
\<close>

lemma open_front:
  assumes "acyclic (prereqs nodes)" and "closed_graph nodes" and "n \<in> set (dkeys nodes)" and "\<not> P n"
  shows "\<exists>m \<in> set (dkeys nodes). \<not> P m \<and> (\<forall>d. (m, d) \<in> prereqs nodes \<longrightarrow> P d)"
proof -
  have fin: "finite (prereqs nodes)"
  proof (rule finite_subset)
    show "prereqs nodes \<subseteq> set (dkeys nodes) \<times> set (dkeys nodes)"
      using assms(2) dget_in_keys [of nodes] by (fastforce simp: prereqs_def closed_graph_def)
  qed simp
  have "wf ((prereqs nodes)\<inverse>)" using finite_acyclic_wf_converse [OF fin assms(1)] .
  then obtain m where m: "m \<in> {x \<in> set (dkeys nodes). \<not> P x}"
    "\<And>d. (d, m) \<in> (prereqs nodes)\<inverse> \<Longrightarrow> d \<notin> {x \<in> set (dkeys nodes). \<not> P x}"
    using wfE_min [of "(prereqs nodes)\<inverse>" n "{x \<in> set (dkeys nodes). \<not> P x}"] assms(3,4) by auto
  then show ?thesis using assms(2) by (auto simp: closed_graph_def)
qed

lemma workflow_progresses:
  assumes r: "reconcile digest number w ts combined fe now = Inr rc" and ok: "dict_ok (wf_nodes w)"
    and g: "closed_graph (wf_nodes w)" "acyclic (prereqs (wf_nodes w))" and na: "\<not> rc_all_accepted rc"
  shows "\<exists>n nd. dget (wf_nodes w) n = Some nd \<and> (\<exists>s. accepted_candidate (candidate_ticket ts nd) = Inr (False, s)) \<and>
    (\<forall>d \<in> set (nd_requires nd). \<exists>nd' sha. dget (wf_nodes w) d = Some nd' \<and> soundly_accepted (candidate_ticket ts nd') sha) \<and>
    (nd_requires nd \<noteq> [] \<and> releasable number now ts nd \<longrightarrow> nd_ticket nd \<in> set (rc_releases rc))"
proof -
  from reconcile_unfold [OF r] obtain acc nds where a: "acceptances (wf_nodes w) ts = Inr acc"
    and f: "filterE (released_node number now ts acc) (dvalues (wf_nodes w)) = Inr nds"
    and rl: "rc_releases rc = sort (map nd_ticket nds)" "rc_all_accepted rc = list_all (\<lambda>(_, ok, _). ok) acc" by blast
  note get = acceptances_get [OF a ok]
  from na rl(2) have "\<exists>p \<in> set acc. \<not> fst (snd p)" by (simp add: list_all_iff case_prod_unfold)
  then obtain n s where "(n, False, s) \<in> set acc" by auto
  moreover have "dict_ok acc" using get ok by (simp add: dict_ok_def dkeys_def)
  ultimately have n: "dget acc n = Some (False, s)" "n \<in> set (dkeys (wf_nodes w))"
    using get by (auto intro: dict_ok_lookup simp: image_iff simp flip: get [THEN conjunct1])
      (metis fst_conv list.set_map rev_image_eqI)
  then have "\<not> node_accepted acc n" by (simp add: node_accepted_def)
  from open_front [OF g(2,1) n(2), of "node_accepted acc", OF this] obtain m where
    m: "m \<in> set (dkeys (wf_nodes w))" "\<not> node_accepted acc m" "\<forall>d. (m, d) \<in> prereqs (wf_nodes w) \<longrightarrow> node_accepted acc d"
    by blast
  then obtain nd where nd: "dget (wf_nodes w) m = Some nd" using dget_in_keys [of "wf_nodes w" m] by auto
  with get obtain ok' s' where "dget acc m = Some (ok', s')" "accepted_candidate (candidate_ticket ts nd) = Inr (ok', s')"
    by (metis surj_pair)
  with m(2) have na': "accepted_candidate (candidate_ticket ts nd) = Inr (False, s')" by (simp add: node_accepted_def)
  have req: "list_all (node_accepted acc) (nd_requires nd)"
    using m(3) nd by (auto simp: prereqs_def list_all_iff)
  have "nd_ticket nd \<in> set (rc_releases rc)" if "nd_requires nd \<noteq> [] \<and> releasable number now ts nd"
  proof -
    have "released_node number now ts acc nd = Inr True" using that req by (simp add: released_node_True)
    moreover have "nd \<in> set (dvalues (wf_nodes w))" using nd by (force simp: dvalues_def dest: dget_in_values)
    ultimately have "nd \<in> set nds" using filterE_complete [OF f, of nd] by auto
    then show ?thesis using rl(1) by simp
  qed
  moreover have "\<forall>d \<in> set (nd_requires nd). \<exists>nd' sha. dget (wf_nodes w) d = Some nd' \<and>
      soundly_accepted (candidate_ticket ts nd') sha"
    using req node_acceptedD [OF a ok] by (simp add: list_all_iff)
  ultimately show ?thesis using nd na' by blast
qed

end
