(* ===== verification/Workflow_Packet.thy ===== *)
theory Workflow_Packet
  imports Workflow_Reconcile
begin

section \<open>The evidence packet of the final validation\<close>

text \<open>
  \<open>final_validation_packet\<close> writes a packet as a description (the index) and pages of bounded size;
  \<open>parse_final_validation_packet_index\<close> and the page reader of \<open>final_validation_workspace_identity\<close>
  put it together again.  \<open>dumps\<close> is \<open>json.dumps\<close> with sorted keys, the compact separators and
  \<open>ensure_ascii\<close>, so that its texts are their own UTF-8 bytes; \<open>loads\<close> is \<open>json.loads\<close> (\<open>None\<close>: malformed);
  \<open>sha\<close> is the hexadecimal SHA-256.
\<close>

definition FINAL_PACKET_CHARS :: nat where "FINAL_PACKET_CHARS = 3600"
definition FINAL_PACKET_MAX_ANNOTATIONS :: nat where "FINAL_PACKET_MAX_ANNOTATIONS = 50"
definition NL :: char where "NL = CHR 0x0A"

definition FINAL_PACKET_FRAME :: string where
  "FINAL_PACKET_FRAME = ''Butler workflow final-validation evidence index v1'' @ [NL]"

definition PAGE_PREFIX :: string where
  "PAGE_PREFIX = ''butler-workflow-packet:v1:''"

definition PAGE_ENCODING :: string where
  "PAGE_ENCODING = ''utf-8-json-text; ordered ticket evidence annotations''"

subsection \<open>Bytes that decode\<close>

text \<open>Strict UTF-8, as \<open>bytes.decode\<close> checks it.\<close>

definition tail_byte :: "nat \<Rightarrow> bool" where
  "tail_byte b \<longleftrightarrow> 128 \<le> b \<and> b < 192"

fun utf8_bytes :: "nat list \<Rightarrow> bool" where
  "utf8_bytes [] = True"
| "utf8_bytes (b # bs) =
     (if b < 128 then utf8_bytes bs
      else case bs of
        [] \<Rightarrow> False
      | c # cs \<Rightarrow>
          if 194 \<le> b \<and> b \<le> 223 then tail_byte c \<and> utf8_bytes cs
          else case cs of
            [] \<Rightarrow> False
          | d # ds \<Rightarrow>
              if 224 \<le> b \<and> b \<le> 239
              then tail_byte c \<and> tail_byte d \<and> (b = 224 \<longrightarrow> 160 \<le> c) \<and> (b = 237 \<longrightarrow> c < 160) \<and> utf8_bytes ds
              else case ds of
                [] \<Rightarrow> False
              | e # es \<Rightarrow>
                  240 \<le> b \<and> b \<le> 244 \<and> tail_byte c \<and> tail_byte d \<and> tail_byte e \<and>
                  (b = 240 \<longrightarrow> 144 \<le> c) \<and> (b = 244 \<longrightarrow> c < 144) \<and> utf8_bytes es)"

definition decodes :: "string \<Rightarrow> bool" where
  "decodes s = utf8_bytes (map of_char s)"

subsection \<open>Writing\<close>

text \<open>\<open>while end > offset\<close>: the longest prefix of at most \<open>n\<close> bytes that decodes.\<close>

fun chunk_length :: "string \<Rightarrow> nat \<Rightarrow> nat" where
  "chunk_length s 0 = 0"
| "chunk_length s (Suc n) = (if decodes (take (Suc n) s) then Suc n else chunk_length s n)"

lemma chunk_length_le: "chunk_length s n \<le> n"
  by (induction n) simp_all

function slices :: "string \<Rightarrow> string list result" where
  "slices s =
     (if s = [] then Inr []
      else let n = chunk_length s (min FINAL_PACKET_CHARS (length s)) in
        if n = 0 then Inl (ValueError ''final-validation packet contains an invalid UTF-8 boundary'')
        else bindE (slices (drop n s)) (\<lambda>rest. Inr (take n s # rest)))"
  by pat_completeness auto

termination by (relation "measure length") (auto simp: Let_def)

declare slices.simps [simp del]

definition escape_spaces :: "string \<Rightarrow> string" where
  "escape_spaces s = concat (map (\<lambda>c. if c = CHR '' '' then CHR 0x5C # ''u0020'' else [c]) s)"

definition attestation_ok :: "string \<Rightarrow> bool" where
  "attestation_ok a \<longleftrightarrow> starts_with ''workflow_delivery_sha256: '' a \<and>
     wf_digest_ok (drop (length ''workflow_delivery_sha256: '') a)"

definition qa_instructions :: "string \<Rightarrow> json" where
  "qa_instructions a = J_Obj
     [(''worker'', J_Str (''Run every listed check on the exact combined_revision. Submit the actual combined SHA '' @
        ''and copy this line exactly once into submission notes: '' @ a)),
      (''reviewer'', J_Str (''Independently inspect the complete paged packet, member sources, and test evidence. '' @
        ''Approve only this exact combined SHA; copy this line exactly once into review_notes: '' @ a))]"

definition packet_payload ::
  "workflow \<Rightarrow> final_task \<Rightarrow> json option \<Rightarrow> (string, json) odict option \<Rightarrow> string option \<Rightarrow> json" where
  "packet_payload w f delivery evidence attestation = J_Obj
     ([(''schema_version'', J_Int 1), (''workflow_id'', J_Str (wf_id w)), (''cohort_id'', J_Str (wf_cohort w)),
       (''project_id'', J_Str (wf_project w)), (''board_id'', J_Str (wf_board w)),
       (''combined_revision'', J_Str (ft_revision f)),
       (''members'', J_Obj (map (\<lambda>(t, s). (t, J_Str s)) (sort_key fst (ft_members f)))),
       (''acceptance_checks'', J_List (map J_Str (ft_checks f))), (''customer_final_merge'', J_Str ''manual'')] @
      (case delivery of None \<Rightarrow> [] | Some d \<Rightarrow> [(''workflow_delivery'', d)]) @
      (case attestation of None \<Rightarrow> []
       | Some a \<Rightarrow> [(''workflow_delivery_attestation'', J_Str a), (''qa_instructions'', qa_instructions a)]) @
      (case evidence of None \<Rightarrow> [] | Some e \<Rightarrow> [(''member_evidence'', J_Obj (sort_key fst e))]))"

definition packet_index :: "workflow \<Rightarrow> final_task \<Rightarrow> string \<Rightarrow> nat \<Rightarrow> json" where
  "packet_index w f digest n = J_Obj
     [(''workflow_id'', J_Str (wf_id w)), (''cohort_id'', J_Str (wf_cohort w)), (''project_id'', J_Str (wf_project w)),
      (''board_id'', J_Str (wf_board w)), (''combined_revision'', J_Str (ft_revision f)),
      (''evidence_packet'', J_Obj [(''schema_version'', J_Int 1), (''sha256'', J_Str digest),
         (''chunks'', J_Int (int n)), (''encoding'', J_Str PAGE_ENCODING)]),
      (''customer_final_merge'', J_Str ''manual'')]"

definition packet_page :: "string \<Rightarrow> nat \<Rightarrow> nat \<Rightarrow> string \<Rightarrow> string" where
  "packet_page digest n i chunk = PAGE_PREFIX @ digest @ '':'' @ decimal i @ ''/'' @ decimal n @ '':'' @ chunk"

definition packet_pages :: "string \<Rightarrow> string list \<Rightarrow> string list" where
  "packet_pages digest cs = map (\<lambda>i. packet_page digest (length cs) (i + 1) (cs ! i)) [0..<length cs]"

definition packet_text ::
  "(json \<Rightarrow> string) \<Rightarrow> workflow \<Rightarrow> final_task \<Rightarrow> json option \<Rightarrow> (string, json) odict option \<Rightarrow> string option \<Rightarrow> string" where
  "packet_text dumps w f delivery evidence attestation =
     escape_spaces (dumps (packet_payload w f delivery evidence attestation))"

text \<open>The storage limits of the board: the number of annotations, the description and each page.\<close>

definition bounded_packet ::
  "(json \<Rightarrow> string) \<Rightarrow> workflow \<Rightarrow> final_task \<Rightarrow> string \<Rightarrow> string list \<Rightarrow> (string \<times> string list) result" where
  "bounded_packet dumps w f digest cs =
     bindE (guardE (length cs \<le> FINAL_PACKET_MAX_ANNOTATIONS)
              (ValueError ''complete final-validation evidence exceeds Central annotation capacity'')) (\<lambda>_.
       let description = FINAL_PACKET_FRAME @ dumps (packet_index w f digest (length cs));
           pages = packet_pages digest cs
       in if length description > 5000 \<or> list_ex (\<lambda>p. length p > 4000) pages
          then Inl (AssertionError ''workflow QA packet exceeds Central storage limits'')
          else Inr (description, pages))"

definition final_validation_packet ::
  "(json \<Rightarrow> string) \<Rightarrow> (string \<Rightarrow> string) \<Rightarrow> workflow \<Rightarrow> final_task \<Rightarrow> json option \<Rightarrow> (string, json) odict option
     \<Rightarrow> string option \<Rightarrow> (string \<times> string list) result" where
  "final_validation_packet dumps sha w f delivery evidence attestation =
     bindE (guardE (case attestation of None \<Rightarrow> True | Some a \<Rightarrow> attestation_ok a)
              (ValueError ''final-validation delivery attestation is malformed'')) (\<lambda>_.
       let body = packet_text dumps w f delivery evidence attestation in
       bindE (slices body) (\<lambda>cs. bounded_packet dumps w f (sha body) (if cs = [] then [[]] else cs)))"

subsection \<open>Reading the index\<close>

definition index_text_ok :: "json \<Rightarrow> bool" where
  "index_text_ok v = (case v of J_Str s \<Rightarrow> s \<noteq> [] | _ \<Rightarrow> False)"

text \<open>\<open>fullmatch\<close> on a value that is present but no text raises \<open>TypeError\<close>.\<close>

definition full_match :: "(string \<Rightarrow> bool) \<Rightarrow> json \<Rightarrow> bool result" where
  "full_match p v = (case v of J_Str s \<Rightarrow> Inr (p s) | _ \<Rightarrow> Inl (TypeError ''expected string or bytes-like object''))"

definition parse_final_validation_packet_index :: "(string \<Rightarrow> json option) \<Rightarrow> json \<Rightarrow> json result" where
  "parse_final_validation_packet_index loads description =
     (case description of
        J_Str d \<Rightarrow>
          if \<not> starts_with FINAL_PACKET_FRAME d
          then Inl (ValueError ''final-validation description has an unsupported evidence frame'')
          else (case loads (drop (length FINAL_PACKET_FRAME) d) of
             None \<Rightarrow> Inl (ValueError ''final-validation evidence frame is malformed'')
           | Some v \<Rightarrow>
               bindE (guardE (has_fields v [''workflow_id'', ''cohort_id'', ''project_id'', ''board_id'', ''combined_revision'',
                                            ''evidence_packet'', ''customer_final_merge''])
                        (ValueError ''final-validation evidence index is incomplete or ambiguous'')) (\<lambda>_.
               bindE (guardE (list_all (\<lambda>k. index_text_ok (j_get v k)) [''workflow_id'', ''cohort_id'', ''project_id'', ''board_id''])
                        (ValueError ''final-validation evidence index has invalid identity'')) (\<lambda>_.
               bindE (full_match wf_sha_ok (j_get v ''combined_revision'')) (\<lambda>rev_ok.
               bindE (guardE (rev_ok \<and> j_get v ''customer_final_merge'' = J_Str ''manual'')
                        (ValueError ''final-validation evidence index has invalid identity'')) (\<lambda>_.
                 let p = j_get v ''evidence_packet'' in
                 bindE (guardE (has_fields p [''schema_version'', ''sha256'', ''chunks'', ''encoding''] \<and>
                                j_get p ''schema_version'' = J_Int 1)
                          (ValueError ''final-validation evidence packet index is invalid'')) (\<lambda>_.
                 bindE (full_match wf_digest_ok (j_get p ''sha256'')) (\<lambda>digest_ok.
                 bindE (guardE (digest_ok \<and> is_int_counter 1 (int FINAL_PACKET_MAX_ANNOTATIONS) (j_get p ''chunks'') \<and>
                                j_get p ''encoding'' = J_Str PAGE_ENCODING)
                          (ValueError ''final-validation evidence packet index is invalid'')) (\<lambda>_.
                   Inr v))))))))
      | _ \<Rightarrow> Inl (ValueError ''final-validation description has an unsupported evidence frame''))"

subsection \<open>Reading the pages\<close>

definition digit_char :: "char \<Rightarrow> bool" where
  "digit_char c = (let n = of_char c :: nat in 48 \<le> n \<and> n \<le> 57)"

definition digits_value :: "string \<Rightarrow> nat" where
  "digits_value s = foldl (\<lambda>n c. 10 * n + (of_char c - 48)) 0 s"

text \<open>\<open>butler-workflow-packet:v1:([0-9a-f]{64}):(\d+)/(\d+):(.*)\<close>, with the dot matching everything.\<close>

definition number_until :: "char \<Rightarrow> string \<Rightarrow> (nat \<times> string) option" where
  "number_until stop s =
     (let ds = takeWhile digit_char s in
      case dropWhile digit_char s of
        c # rest \<Rightarrow> if ds \<noteq> [] \<and> c = stop then Some (digits_value ds, rest) else None
      | [] \<Rightarrow> None)"

definition parse_page :: "string \<Rightarrow> (string \<times> nat \<times> nat \<times> string) option" where
  "parse_page text =
     (let s = drop (length PAGE_PREFIX) text; digest = take 64 s in
      if \<not> starts_with PAGE_PREFIX text \<or> \<not> wf_digest_ok digest then None
      else case drop 64 s of
        [] \<Rightarrow> None
      | c # s1 \<Rightarrow>
          if c \<noteq> CHR '':'' then None
          else case number_until (CHR ''/'') s1 of
            None \<Rightarrow> None
          | Some (i, s2) \<Rightarrow>
              (case number_until (CHR '':'') s2 of
                 None \<Rightarrow> None
               | Some (n, chunk) \<Rightarrow> Some (digest, i, n, chunk)))"

text \<open>The loop over the annotations: foreign rows are skipped, a wrong page ends it with \<open>None\<close>.\<close>

definition page_row :: "json \<Rightarrow> string option" where
  "page_row row =
     (if is_obj row \<and> j_get row ''kind'' = J_Str ''evidence''
      then (case j_get row ''text'' of J_Str t \<Rightarrow> if starts_with PAGE_PREFIX t then Some t else None | _ \<Rightarrow> None)
      else None)"

fun collect_pages :: "string \<Rightarrow> nat \<Rightarrow> json list \<Rightarrow> (nat, string) odict \<Rightarrow> (nat, string) odict option" where
  "collect_pages digest pcount [] pages = Some pages"
| "collect_pages digest pcount (row # rows) pages =
     (case page_row row of
        None \<Rightarrow> collect_pages digest pcount rows pages
      | Some t \<Rightarrow>
          (case parse_page t of
             None \<Rightarrow> None
           | Some (d, i, n, chunk) \<Rightarrow>
               if d \<noteq> digest \<or> i \<in> set (dkeys pages) \<or> n \<noteq> pcount \<or> i < 1 \<or> pcount < i then None
               else collect_pages digest pcount rows (dset i chunk pages)))"

definition reassemble :: "(string \<Rightarrow> string) \<Rightarrow> string \<Rightarrow> nat \<Rightarrow> json list \<Rightarrow> string option" where
  "reassemble sha digest pcount rows =
     (case collect_pages digest pcount rows [] of
        None \<Rightarrow> None
      | Some pages \<Rightarrow>
          if set (dkeys pages) \<noteq> set [1..<pcount + 1] then None
          else let text = concat (map (\<lambda>i. case dget pages i of None \<Rightarrow> [] | Some c \<Rightarrow> c) [1..<pcount + 1])
               in if sha text = digest then Some text else None)"

end
