(* ===== verification/Packet_Facts.thy ===== *)
theory Packet_Facts
  imports Workflow_Packet "HOL-Library.Multiset"
begin

section \<open>The packet survives the round trip\<close>

subsection \<open>Decimal numbers\<close>

lemma digit_code: "n < 10 \<Longrightarrow> of_char (char_of (48 + n) :: char) = (48 + n :: nat)"
  by (simp add: of_char_of)

lemma digits_value_snoc: "digits_value (s @ [c]) = 10 * digits_value s + (of_char c - 48)"
  by (simp add: digits_value_def)

lemma decimal_digits: "digits_value (decimal n) = n \<and> list_all digit_char (decimal n) \<and> decimal n \<noteq> []"
proof (induction n rule: decimal.induct)
  case (1 n)
  show ?case
  proof (cases "n < 10")
    case True
    then show ?thesis by (subst (1 2 3) decimal.simps) (simp add: digits_value_def digit_char_def digit_code Let_def)
  next
    case False
    have "digit_char (char_of (48 + n mod 10))" by (simp add: digit_char_def digit_code Let_def)
    moreover have "digits_value (decimal (n div 10) @ [char_of (48 + n mod 10)]) = n"
      using 1 [OF False] by (simp add: digits_value_snoc digit_code)
    ultimately show ?thesis using 1 [OF False] False by (subst (1 2 3) decimal.simps) simp
  qed
qed

lemma number_until_decimal:
  assumes "\<not> digit_char stop"
  shows "number_until stop (decimal n @ stop # rest) = Some (n, rest)"
proof -
  note d = decimal_digits [of n]
  have "takeWhile digit_char (decimal n @ stop # rest) = decimal n" "dropWhile digit_char (decimal n @ stop # rest) = stop # rest"
    using d assms by (simp_all add: takeWhile_append dropWhile_append list_all_iff)
  then show ?thesis using d by (simp add: number_until_def)
qed

lemma decimal_short: "n \<le> 99 \<Longrightarrow> length (decimal n) \<le> 2"
  by (subst decimal.simps) (auto, subst decimal.simps, auto)

subsection \<open>Pages\<close>

lemma parse_packet_page:
  assumes "wf_digest_ok d"
  shows "parse_page (packet_page d n i chunk) = Some (d, i, n, chunk)"
proof -
  have l: "length d = 64" using assms by (simp add: wf_digest_ok_def)
  have "\<not> digit_char (CHR ''/'')" "\<not> digit_char (CHR '':'')" by code_simp+
  note nu = number_until_decimal [OF this(1)] number_until_decimal [OF this(2)]
  have "take 64 (d @ xs) = d" "drop 64 (d @ xs) = xs" for xs using l by simp_all
  then show ?thesis using assms
    by (simp add: parse_page_def packet_page_def starts_with_def nu)
qed

lemma page_has_prefix: "starts_with PAGE_PREFIX (packet_page d n i chunk)"
  by (simp add: starts_with_def packet_page_def)

definition evidence_row :: "string \<Rightarrow> json \<Rightarrow> bool" where
  "evidence_row t row \<longleftrightarrow> page_row row = Some t"

text \<open>What the loop collects: the pages of the annotations, whatever stands between them.\<close>

definition numbered_pages :: "string \<Rightarrow> nat \<Rightarrow> (nat, string) odict \<Rightarrow> string list" where
  "numbered_pages d n ps = map (\<lambda>(i, c). packet_page d n i c) ps"

lemma collect_pages_all:
  assumes "wf_digest_ok d" and "List.map_filter page_row rows = numbered_pages d n ps"
    and "distinct (map fst (acc @ ps))" and "\<forall>i \<in> fst ` set ps. 1 \<le> i \<and> i \<le> n"
  shows "collect_pages d n rows acc = Some (acc @ ps)"
  using assms(2-4)
proof (induction rows arbitrary: acc ps)
  case Nil
  then show ?case by (simp add: List.map_filter_def numbered_pages_def)
next
  case (Cons row rows)
  show ?case
  proof (cases "page_row row")
    case None
    with Cons show ?thesis by (simp add: List.map_filter_simps)
  next
    case (Some t)
    with Cons.prems(1) obtain i c ps' where ps: "ps = (i, c) # ps'" and t: "t = packet_page d n i c"
      and rest: "List.map_filter page_row rows = numbered_pages d n ps'"
      by (cases ps) (auto simp: List.map_filter_simps numbered_pages_def)
    have new: "i \<notin> set (dkeys acc)" "1 \<le> i" "i \<le> n" using Cons.prems(2,3) ps by (auto simp: dkeys_def)
    then have "dset i c acc = acc @ [(i, c)]" by (rule_tac dset_fresh)
    with new Some t Cons.IH [OF rest, of "acc @ [(i, c)]"] Cons.prems(2,3) ps show ?thesis
      by (simp add: parse_packet_page [OF assms(1)])
  qed
qed

subsection \<open>Slices\<close>

lemma slices_concat: "slices s = Inr cs \<Longrightarrow> concat cs = s \<and> list_all (\<lambda>c. c \<noteq> [] \<and> length c \<le> FINAL_PACKET_CHARS) cs"
proof (induction s arbitrary: cs rule: slices.induct)
  case (1 s)
  show ?case
  proof (cases "s = []")
    case True
    with "1.prems" show ?thesis by (subst (asm) slices.simps) simp
  next
    case False
    define n where "n = chunk_length s (min FINAL_PACKET_CHARS (length s))"
    from "1.prems" False have n: "n \<noteq> 0" and "bindE (slices (drop n s)) (\<lambda>rest. Inr (take n s # rest)) = Inr cs"
      by (subst (asm) slices.simps, simp add: n_def Let_def split: if_split_asm)+
    then obtain rest where r: "slices (drop n s) = Inr rest" "cs = take n s # rest" by auto
    have le: "n \<le> FINAL_PACKET_CHARS" "n \<le> length s"
      using chunk_length_le [of s "min FINAL_PACKET_CHARS (length s)"] by (simp_all add: n_def)
    from "1.IH" [OF False n_def n r(1)] r(2) n le False show ?thesis by auto
  qed
qed

lemma decodes_ascii: "list_all (\<lambda>c. of_char c < (128 :: nat)) s \<Longrightarrow> decodes s"
  by (induction s) (simp_all add: decodes_def)

lemma chunk_length_ascii:
  assumes "list_all (\<lambda>c. of_char c < (128 :: nat)) s"
  shows "chunk_length s n = n"
proof (cases n)
  case (Suc m)
  have "decodes (take n s)" using assms by (intro decodes_ascii) (auto simp: list_all_iff dest: in_set_takeD)
  with Suc show ?thesis by simp
qed simp

lemma slices_ascii: "list_all (\<lambda>c. of_char c < (128 :: nat)) s \<Longrightarrow> \<exists>cs. slices s = Inr cs"
proof (induction s rule: slices.induct)
  case (1 s)
  show ?case
  proof (cases "s = []")
    case True
    then show ?thesis by (subst slices.simps) simp
  next
    case False
    have n: "chunk_length s (min FINAL_PACKET_CHARS (length s)) = min FINAL_PACKET_CHARS (length s)"
      by (rule chunk_length_ascii [OF "1.prems"])
    moreover have nz: "min FINAL_PACKET_CHARS (length s) \<noteq> 0" using False by (simp add: FINAL_PACKET_CHARS_def)
    moreover have "list_all (\<lambda>c. of_char c < (128 :: nat)) (drop (min FINAL_PACKET_CHARS (length s)) s)"
      using "1.prems" by (auto simp: list_all_iff dest: in_set_dropD)
    ultimately obtain cs where "slices (drop (min FINAL_PACKET_CHARS (length s)) s) = Inr cs"
      using "1.IH" [OF False refl] by auto
    then show ?thesis using n nz by (subst slices.simps) (simp add: Let_def)
  qed
qed

subsection \<open>Together\<close>

definition page_table :: "string list \<Rightarrow> (nat, string) odict" where
  "page_table cs = map (\<lambda>i. (i + 1, cs ! i)) [0..<length cs]"

lemma packet_pages_table: "packet_pages d cs = numbered_pages d (length cs) (page_table cs)"
  by (simp add: packet_pages_def numbered_pages_def page_table_def)

lemma page_table_keys: "map fst (page_table cs) = [1..<length cs + 1]"
proof -
  have "map fst (page_table cs) = map (\<lambda>i. i + 1) [0..<length cs]" by (simp only: page_table_def map_map comp_def fst_conv)
  then show ?thesis by (simp only: map_add_upt add_0)
qed

lemma mset_preimage: "mset xs = image_mset f M \<Longrightarrow> \<exists>ys. mset ys = M \<and> xs = map f ys"
proof (induction xs arbitrary: M)
  case (Cons x xs)
  then obtain N a where "M = add_mset a N" "f a = x" "image_mset f N = mset xs"
    using msed_map_invR [of f M x "mset xs"] by (metis mset.simps(2))
  with Cons.IH [of N] show ?case by (metis list.simps(9) mset.simps(2))
qed simp

lemma reassemble_pages:
  assumes d: "wf_digest_ok d" "sha (concat cs) = d"
    and rows: "mset (List.map_filter page_row rows) = mset (packet_pages d cs)"
  shows "reassemble sha d (length cs) rows = Some (concat cs)"
proof -
  from rows obtain ps where ps: "List.map_filter page_row rows = numbered_pages d (length cs) ps"
    and m: "mset ps = mset (page_table cs)"
  proof -
    have "mset (List.map_filter page_row rows) = image_mset (\<lambda>(i, c). packet_page d (length cs) i c) (mset (page_table cs))"
      using rows by (simp add: packet_pages_table numbered_pages_def)
    from mset_preimage [OF this] show ?thesis using that by (auto simp: numbered_pages_def)
  qed
  have keys: "mset (map fst ps) = mset [1..<length cs + 1]"
    using m page_table_keys [of cs] by (metis mset_map)
  then have dist: "distinct (map fst ps)" and ks: "set (map fst ps) = set [1..<length cs + 1]"
    by (metis distinct_upt mset_eq_imp_distinct_iff, metis mset_eq_setD)
  have c: "collect_pages d (length cs) rows [] = Some ps"
  proof -
    have "\<forall>i \<in> fst ` set ps. 1 \<le> i \<and> i \<le> length cs" using ks by (simp only: set_map set_upt) auto
    with collect_pages_all [OF d(1) ps, of "[]"] dist show ?thesis by simp
  qed
  have get: "dget ps i = Some (cs ! (i - 1))" if "i \<in> set [1..<length cs + 1]" for i
  proof -
    have "(i, cs ! (i - 1)) \<in> set (page_table cs)" using that by (auto simp: page_table_def intro!: image_eqI [of _ _ "i - 1"])
    then have "(i, cs ! (i - 1)) \<in> set ps" using m by (metis set_mset_mset)
    then show ?thesis using dist by (intro dict_ok_lookup) (simp_all add: dict_ok_def dkeys_def)
  qed
  have "map (\<lambda>i. case dget ps i of None \<Rightarrow> [] | Some c \<Rightarrow> c) [1..<length cs + 1] = map (\<lambda>i. cs ! (i - 1)) [1..<length cs + 1]"
    by (rule map_cong) (simp_all add: get del: upt_Suc)
  also have "\<dots> = cs"
    by (rule nth_equalityI) (simp_all del: upt_Suc)
  finally show ?thesis using c ks d(2) by (simp add: reassemble_def dkeys_def del: upt_Suc)
qed

lemma bounded_packet_limits:
  assumes "bounded_packet dumps w f d cs = Inr (description, pages)"
  shows "length cs \<le> FINAL_PACKET_MAX_ANNOTATIONS" "pages = packet_pages d cs"
    "length description \<le> 5000" "list_all (\<lambda>p. length p \<le> 4000) pages"
  using assms by (auto simp: bounded_packet_def Let_def list_ex_iff list_all_iff not_less split: if_split_asm)

end
