(* ===== verification/Workflow_Properties.thy ===== *)
theory Workflow_Properties
  imports Workflow_Facts Packet_Facts
begin

section \<open>Properties of project workflows\<close>

subsection \<open>The graph\<close>

text \<open>
  C24: an accepted workflow is well formed. What \<open>parse_project_workflow\<close> returns has at least one node;
  its node and ticket identifiers are valid and unique, each node has acceptance checks and distinct
  prerequisites, all of them nodes of the workflow, and no node requires itself, directly or through others.
\<close>

theorem accepted_workflow_is_well_formed:
  assumes "parse_project_workflow v project board = Inr w"
  shows "wf_nodes w \<noteq> [] \<and> dict_ok (wf_nodes w) \<and> list_all node_ok (wf_nodes w) \<and>
    distinct (map nd_ticket (dvalues (wf_nodes w))) \<and> closed_graph (wf_nodes w) \<and> acyclic (prereqs (wf_nodes w)) \<and>
    wf_project w = project \<and> wf_board w = board"
proof -
  obtain nodes where "parse_nodes (j_get v ''nodes'') = Inr nodes" "wf_nodes w = nodes"
    "wf_project w = project" "wf_board w = board"
    using assms unfolding parse_project_workflow_def by (elim bindE_Inr1E) auto
  with parse_nodes_ok show ?thesis by blast
qed

definition sample_node :: "string \<Rightarrow> string list \<Rightarrow> json" where
  "sample_node n ds = J_Obj [(''node_id'', J_Str n), (''ticket_id'', J_Str (''T-'' @ n)),
     (''requires'', J_List (map J_Str ds)), (''acceptance_checks'', J_List [J_Str ''ok''])]"

definition sample_workflow :: "json list \<Rightarrow> json" where
  "sample_workflow ns = J_Obj [(''schema_version'', J_Int 1), (''workflow_id'', J_Str ''w''), (''project_id'', J_Str ''p''),
     (''board_id'', J_Str ''b''), (''cohort_id'', J_Str ''c''), (''sealed'', J_Bool True), (''nodes'', J_List ns),
     (''final_validation'', J_Obj [(''title'', J_Str ''t''), (''acceptance_checks'', J_List [J_Str ''ok''])])]"

definition two_nodes :: json where
  "two_nodes = sample_workflow [sample_node ''a'' [], sample_node ''d'' [''a'']]"

definition parsed_two :: workflow where
  "parsed_two = \<lparr> wf_id = ''w'', wf_project = ''p'', wf_board = ''b'', wf_cohort = ''c'',
     wf_nodes = [(''a'', \<lparr> nd_id = ''a'', nd_ticket = ''T-a'', nd_requires = [], nd_checks = [''ok''] \<rparr>),
                 (''d'', \<lparr> nd_id = ''d'', nd_ticket = ''T-d'', nd_requires = [''a''], nd_checks = [''ok''] \<rparr>)],
     wf_title = ''t'', wf_checks = [''ok''] \<rparr>"

lemma two_nodes_parsed: "parse_project_workflow two_nodes ''p'' ''b'' = Inr parsed_two"
  by code_simp

theorem accepted_workflow_is_well_formed_witness:
  "parse_project_workflow two_nodes ''p'' ''b'' = Inr parsed_two \<and> acyclic (prereqs (wf_nodes parsed_two))"
  using accepted_workflow_is_well_formed [OF two_nodes_parsed] two_nodes_parsed by blast

text \<open>
  The search for cycles is exact. On a graph whose prerequisites are nodes, the depth-first search
  over all nodes returns exactly when the graph has no cycle.
\<close>

theorem cycle_search_is_exact:
  assumes "closed_graph nodes"
  shows "(\<exists>vis. visit_all nodes [] [] (dkeys nodes) = Inr vis) \<longleftrightarrow> acyclic (prereqs nodes)"
  using assms by (rule search_finds_cycles)

definition ring :: "(string, wf_node) odict" where
  "ring = [(''a'', \<lparr> nd_id = ''a'', nd_ticket = ''T-a'', nd_requires = [''d''], nd_checks = [''ok''] \<rparr>),
           (''d'', \<lparr> nd_id = ''d'', nd_ticket = ''T-d'', nd_requires = [''a''], nd_checks = [''ok''] \<rparr>)]"

theorem cycle_search_is_exact_witness:
  "\<not> acyclic (prereqs ring) \<and> parse_project_workflow (sample_workflow [sample_node ''a'' [''d''], sample_node ''d'' [''a'']])
     ''p'' ''b'' = Inl (ValueError ''butler_workflow prerequisite graph contains a cycle'')"
proof -
  have "closed_graph ring"
    by (auto simp: closed_graph_def prereqs_def ring_def dkeys_def split: if_split_asm)
  moreover have "visit_all ring [] [] (dkeys ring) = Inl (ValueError ''butler_workflow prerequisite graph contains a cycle'')"
    by code_simp
  ultimately have "\<not> acyclic (prereqs ring)" using cycle_search_is_exact [of ring] by simp
  moreover have "parse_project_workflow (sample_workflow [sample_node ''a'' [''d''], sample_node ''d'' [''a'']])
     ''p'' ''b'' = Inl (ValueError ''butler_workflow prerequisite graph contains a cycle'')" by code_simp
  ultimately show ?thesis by blast
qed

subsection \<open>Releases\<close>

text \<open>
  C21: only what may be released is. Every ticket a reconciliation releases is one of the workflow, open
  and parked, has no question to a human pending and no lease that may be live, and everything it
  requires is closed with an approval, by another principal, of exactly the commit that was submitted.
\<close>

theorem releases_respect_prerequisites:
  assumes "parse_project_workflow v project board = Inr w"
    and "reconcile digest number w ts combined fe now = Inr rc" and "tid \<in> set (rc_releases rc)"
  shows "\<exists>nd. nd \<in> set (dvalues (wf_nodes w)) \<and> nd_ticket nd = tid \<and> releasable number now ts nd \<and>
    (\<forall>d \<in> set (nd_requires nd). \<exists>nd' sha. dget (wf_nodes w) d = Some nd' \<and> soundly_accepted (candidate_ticket ts nd') sha)"
proof -
  obtain nodes where "parse_nodes (j_get v ''nodes'') = Inr nodes" "wf_nodes w = nodes"
    using assms(1) unfolding parse_project_workflow_def by (elim bindE_Inr1E) auto
  with parse_nodes_ok have "dict_ok (wf_nodes w)" by blast
  from releases_are_safe [OF assms(2) this assms(3)] show ?thesis .
qed

definition accepted_ticket :: json where
  "accepted_ticket = J_Obj [(''status'', J_Str ''closed''),
     (''latest_submission'', J_Obj [(''branch'', J_Str ''b''), (''commit_hash'', J_Str (replicate 40 CHR ''a'')),
        (''submitted_by_principal_id'', J_Str ''p1'')]),
     (''latest_verdict'', J_Obj [(''verdict'', J_Str ''approve''), (''status_to'', J_Str ''closed''),
        (''submission_commit'', J_Str (replicate 40 CHR ''a'')), (''reviewed_by_principal_id'', J_Str ''p2'')])]"

definition parked_ticket :: json where
  "parked_ticket = J_Obj [(''status'', J_Str ''open''), (''parked'', J_Bool True)]"

definition sample_tickets :: "(string, json) odict" where
  "sample_tickets = [(''T-a'', accepted_ticket), (''T-d'', parked_ticket)]"

lemma sample_reconciled:
  "reconcile (\<lambda>_. []) (\<lambda>_. None) parsed_two sample_tickets None False 5 =
     Inr \<lparr> rc_releases = [''T-d''], rc_all_accepted = False, rc_members = [(''T-a'', replicate 40 CHR ''a'')], rc_final = None \<rparr>"
  by code_simp

theorem releases_respect_prerequisites_witness:
  "\<exists>rc. reconcile (\<lambda>_. []) (\<lambda>_. None) parsed_two sample_tickets None False 5 = Inr rc \<and> rc_releases rc = [''T-d''] \<and>
     (\<exists>nd. nd_ticket nd = ''T-d'' \<and> releasable (\<lambda>_. None) 5 sample_tickets nd)"
  using releases_respect_prerequisites [OF two_nodes_parsed sample_reconciled, of "''T-d''"] sample_reconciled by fastforce



subsection \<open>The evidence packet\<close>

text \<open>
  C23: the evidence packet survives the board. Whatever order its pages come back in, and whatever other
  annotations stand between them, the reader puts together exactly the text that was written; and no
  page and no number of pages is beyond what the board stores. (\<open>sha\<close> yields 64 lower-case hexadecimal digits.)
\<close>

theorem packet_round_trip:
  assumes "final_validation_packet dumps sha w f delivery evidence attestation = Inr (description, pages)"
    and "\<forall>s. wf_digest_ok (sha s)" and "mset (List.map_filter page_row rows) = mset pages"
  shows "reassemble sha (sha (packet_text dumps w f delivery evidence attestation)) (length pages) rows
      = Some (packet_text dumps w f delivery evidence attestation) \<and>
    length pages \<le> FINAL_PACKET_MAX_ANNOTATIONS \<and> list_all (\<lambda>p. length p \<le> 4000) pages \<and> length description \<le> 5000"
proof -
  define body where "body = packet_text dumps w f delivery evidence attestation"
  obtain cs0 where s: "slices body = Inr cs0"
    and rest: "bounded_packet dumps w f (sha body) (if cs0 = [] then [[]] else cs0) = Inr (description, pages)"
    using assms(1) unfolding final_validation_packet_def body_def [symmetric] Let_def
    by (elim bindE_Inr1E) blast
  define cs where "cs = (if cs0 = [] then [[]] else cs0)"
  note le = bounded_packet_limits [OF rest, folded cs_def]
  have "concat cs = body" using slices_concat [OF s] by (auto simp: cs_def)
  moreover have "length pages = length cs" by (simp add: le packet_pages_def)
  ultimately show ?thesis
    using reassemble_pages [of "sha body" sha cs rows] assms(2,3) le
    by (auto simp: body_def [symmetric])
qed

definition sample_final :: final_task where
  "sample_final = \<lparr> ft_ticket = ''T-f'', ft_title = ''t'', ft_revision = replicate 40 CHR ''a'',
     ft_members = [(''T-a'', ''x'')], ft_checks = [''ok''] \<rparr>"

definition sample_digest :: "string \<Rightarrow> string" where
  "sample_digest s = replicate 64 CHR ''0''"

definition evidence_annotation :: "string \<Rightarrow> json" where
  "evidence_annotation t = J_Obj [(''kind'', J_Str ''evidence''), (''text'', J_Str t)]"

theorem packet_round_trip_witness:
  "\<exists>description pages. final_validation_packet (\<lambda>_. ''a long text'') sample_digest parsed_two sample_final None None None
      = Inr (description, pages) \<and>
     reassemble sample_digest (sample_digest []) (length pages) (J_Null # map evidence_annotation (rev pages))
      = Some (escape_spaces ''a long text'')"
proof -
  have "case final_validation_packet (\<lambda>_. ''a long text'') sample_digest parsed_two sample_final None None None of
      Inl _ \<Rightarrow> False | Inr (_, pages) \<Rightarrow> list_all (starts_with PAGE_PREFIX) pages" by code_simp
  then obtain description pages where
    p: "final_validation_packet (\<lambda>_. ''a long text'') sample_digest parsed_two sample_final None None None = Inr (description, pages)"
    and pre: "list_all (starts_with PAGE_PREFIX) pages"
    by (auto split: sum.split_asm)
  have d: "\<forall>s. wf_digest_ok (sample_digest s)" by (simp add: sample_digest_def) code_simp
  have "List.map_filter page_row (map evidence_annotation ps) = ps" if "list_all (starts_with PAGE_PREFIX) ps" for ps
    using that by (induction ps) (simp_all add: List.map_filter_simps page_row_def evidence_annotation_def)
  with pre have "mset (List.map_filter page_row (J_Null # map evidence_annotation (rev pages))) = mset pages"
    by (simp add: List.map_filter_simps page_row_def)
  from packet_round_trip [OF p d this] p show ?thesis
    by (simp add: packet_text_def sample_digest_def [of "[]"] sample_digest_def [of "escape_spaces s" for s])
qed

end
