(* ===== verification/Delivery_Policy.thy ===== *)
theory Delivery_Policy
  imports Workflow_Packet
begin

section \<open>Delivery policies\<close>

text \<open>
  \<open>delivery_workflow.py\<close> of the client: the validation of one policy layer, the built-in policy, the
  merge of the layers, the checks on the effective policy, activation and readiness.  A policy is a
  dictionary of JSON values, as in the source.  \<open>known_zone\<close> is whether \<open>ZoneInfo\<close> knows a time zone,
  \<open>digest\<close> the SHA-256 of the canonical JSON of a value.
\<close>

type_synonym policy_dict = "(string, json) odict"

definition DELIVERY_STAGES :: "(string, string) odict" where
  "DELIVERY_STAGES =
     [(''pr_pending'', ''PR pending''), (''pr_blocked'', ''Delivery blocked''),
      (''pr_uncertain'', ''Delivery unconfirmed''), (''pr_created'', ''PR opened''),
      (''integration_pending'', ''Awaiting integration''), (''integration_blocked'', ''Integration blocked''),
      (''integration_merged'', ''Ready for your team''), (''delivery_recorded'', ''Delivery recorded'')]"

definition DELIVERY_POLICY_MODES :: "string list" where
  "DELIVERY_POLICY_MODES = [''per_ticket_pr'', ''batch_pr'', ''branch_only'']"

definition DELIVERY_RELEASE_TRIGGERS :: "string list" where
  "DELIVERY_RELEASE_TRIGGERS = [''ready'', ''manual'', ''scheduled'']"

definition DELIVERY_POLICY_FIELDS :: "string list" where
  "DELIVERY_POLICY_FIELDS =
     [''mode'', ''mapped_base'', ''integration_branch'', ''snapshot_branch_prefix'', ''final_pr_target'',
      ''release_trigger'', ''pr_update'', ''auto_integrate'', ''final_merge'', ''validation'',
      ''conflict_policy'', ''collection_paused'']"

subsection \<open>Cron fields\<close>

text \<open>\<open>str.partition\<close> and \<open>str.isdigit\<close> (on the characters a field may have); \<open>words\<close> is \<open>str.split()\<close>.\<close>

definition partition_at :: "char \<Rightarrow> string \<Rightarrow> string \<times> bool \<times> string" where
  "partition_at c s = (takeWhile (\<lambda>x. x \<noteq> c) s, c \<in> set s, drop 1 (dropWhile (\<lambda>x. x \<noteq> c) s))"

definition is_digits :: "string \<Rightarrow> bool" where
  "is_digits s \<longleftrightarrow> s \<noteq> [] \<and> list_all digit_char s"

definition cron_char :: "char \<Rightarrow> bool" where
  "cron_char c \<longleftrightarrow> digit_char c \<or> c \<in> set ''*/?,-''"

definition cron_step_ok :: "nat \<Rightarrow> nat \<Rightarrow> bool \<Rightarrow> string \<Rightarrow> bool" where
  "cron_step_ok lo hi sep step \<longleftrightarrow> sep \<longrightarrow> is_digits step \<and> 1 \<le> digits_value step \<and> digits_value step \<le> hi - lo + 1"

definition cron_base_ok :: "nat \<Rightarrow> nat \<Rightarrow> string \<Rightarrow> bool" where
  "cron_base_ok lo hi base \<longleftrightarrow>
     (if base = ''*'' then True
      else if CHR ''-'' \<in> set base
      then (case partition_at (CHR ''-'') base of
              (a, _, b) \<Rightarrow> CHR ''-'' \<notin> set b \<and> is_digits a \<and> is_digits b \<and>
                 lo \<le> digits_value a \<and> digits_value a \<le> digits_value b \<and> digits_value b \<le> hi)
      else is_digits base \<and> lo \<le> digits_value base \<and> digits_value base \<le> hi)"

definition cron_field :: "string \<Rightarrow> nat \<Rightarrow> nat \<Rightarrow> bool" where
  "cron_field value lo hi \<longleftrightarrow>
     value \<noteq> [] \<and> list_all cron_char value \<and> CHR ''?'' \<notin> set value \<and>
     list_all (\<lambda>item. item \<noteq> [] \<and>
       (case partition_at (CHR ''/'') item of (base, sep, step) \<Rightarrow>
          cron_step_ok lo hi sep step \<and> cron_base_ok lo hi base))
       (split_at (CHR '','') value)"

subsection \<open>Names\<close>

definition forbidden_ref_char :: "char \<Rightarrow> bool" where
  "forbidden_ref_char c \<longleftrightarrow>
     (of_char c :: nat) \<le> 32 \<or> (of_char c :: nat) = 127 \<or> c \<in> set ''~^:?*['' \<or> c = CHR 0x5C"

definition git_branch :: "string \<Rightarrow> bool" where
  "git_branch s \<longleftrightarrow>
     1 \<le> length s \<and> length s \<le> 200 \<and>
     \<not> starts_with ''-'' s \<and> \<not> starts_with ''/'' s \<and> \<not> starts_with ''refs/'' s \<and>
     \<not> ends_with ''/'' s \<and> \<not> ends_with ''.'' s \<and> s \<noteq> ''@'' \<and>
     \<not> contains_text ''..'' s \<and> \<not> contains_text [CHR ''@'', CHR 0x7B] s \<and> \<not> list_ex forbidden_ref_char s \<and>
     \<not> list_ex (\<lambda>p. p = [] \<or> starts_with ''.'' p \<or> ends_with ''.lock'' p) (split_at (CHR ''/'') s)"

definition branch_name :: "json \<Rightarrow> string \<Rightarrow> json result" where
  "branch_name v field =
     (case v of
        J_Str s \<Rightarrow> if git_branch s then Inr v else Inl (ValueError (field @ '' must be a valid short Git branch name''))
      | _ \<Rightarrow> Inl (ValueError (field @ '' must be a valid short Git branch name'')))"

definition group_ok :: "string \<Rightarrow> bool" where
  "group_ok s \<longleftrightarrow> (case s of [] \<Rightarrow> False | c # cs \<Rightarrow> alnum_char c \<and> length cs \<le> 79 \<and> list_all name_char cs)"

definition delivery_group_name :: "json \<Rightarrow> string result" where
  "delivery_group_name v =
     (case v of
        J_Str s \<Rightarrow> if group_ok s then Inr s
                   else Inl (ValueError ''delivery_policy_group must use 1-80 letters, numbers, dot, underscore or dash'')
      | _ \<Rightarrow> Inl (ValueError ''delivery_policy_group must use 1-80 letters, numbers, dot, underscore or dash''))"

definition optional_branch :: "json \<Rightarrow> string \<Rightarrow> json result" where
  "optional_branch v field = (if v = J_Null then Inr J_Null else branch_name v field)"

definition branch_prefix :: "json \<Rightarrow> json result" where
  "branch_prefix v =
     (case v of
        J_Str s \<Rightarrow>
          if s = [] \<or> ends_with ''/'' s
          then Inl (ValueError ''delivery_policy.snapshot_branch_prefix must be a non-empty branch prefix'')
          else bindE (branch_name (J_Str (s @ ''/example'')) ''delivery_policy.snapshot_branch_prefix'') (\<lambda>_. Inr v)
      | _ \<Rightarrow> Inl (ValueError ''delivery_policy.snapshot_branch_prefix must be a non-empty branch prefix''))"

subsection \<open>The release trigger\<close>

definition cron_limits :: "(nat \<times> nat) list" where
  "cron_limits = [(0, 59), (0, 23), (1, 31), (1, 12), (0, 7)]"

definition schedule_ok :: "json \<Rightarrow> bool" where
  "schedule_ok v =
     (case v of
        J_Str s \<Rightarrow> strip s = s \<and> length (words s) = 5 \<and>
          list_all2 (\<lambda>f (lo, hi). cron_field f lo hi) (words s) cron_limits
      | _ \<Rightarrow> False)"

definition release_trigger :: "(string \<Rightarrow> bool) \<Rightarrow> json \<Rightarrow> json result" where
  "release_trigger known_zone v =
     bindE (guardE (is_obj v \<and> j_keys v \<subseteq> set [''kind'', ''timezone'', ''schedule''])
              (ValueError ''delivery_policy.release_trigger contains unsupported fields'')) (\<lambda>_.
     bindE (among (j_get v ''kind'') DELIVERY_RELEASE_TRIGGERS) (\<lambda>known.
     bindE (guardE known (ValueError ''delivery_policy.release_trigger.kind must be ready, manual or scheduled'')) (\<lambda>_.
       let zone = j_get v ''timezone''; sched = j_get v ''schedule'' in
       if j_get v ''kind'' \<noteq> J_Str ''scheduled''
       then if zone \<noteq> J_Null \<or> sched \<noteq> J_Null
            then Inl (ValueError ''only scheduled release triggers accept timezone and schedule'')
            else Inr (J_Obj [(''kind'', j_get v ''kind'')])
       else
         bindE (guardE (case zone of J_Str z \<Rightarrow> z \<noteq> [] \<and> strip z = z | _ \<Rightarrow> False)
                  (ValueError ''scheduled release trigger requires a trimmed IANA timezone'')) (\<lambda>_.
         bindE (guardE (known_zone (text_of zone))
                  (ValueError ''scheduled release trigger timezone is not recognized'')) (\<lambda>_.
         bindE (guardE (schedule_ok sched)
                  (ValueError ''scheduled release trigger requires a five-field numeric cron schedule'')) (\<lambda>_.
           Inr (J_Obj [(''kind'', j_get v ''kind''), (''timezone'', zone), (''schedule'', sched)])))))))"

subsection \<open>The validation policy\<close>

fun first_occurrences :: "'a list \<Rightarrow> 'a list" where
  "first_occurrences [] = []"
| "first_occurrences (x # xs) = x # filter (\<lambda>y. y \<noteq> x) (first_occurrences xs)"

definition command_ok :: "json \<Rightarrow> bool" where
  "command_ok v =
     (case v of
        J_Str s \<Rightarrow> s \<noteq> [] \<and> strip s = s \<and> length s \<le> 500 \<and> list_all (\<lambda>c. 32 \<le> (of_char c :: nat)) s
      | _ \<Rightarrow> False)"

definition test_commands :: "json \<Rightarrow> json result" where
  "test_commands v =
     bindE (guardE (is_list v \<and> length (j_list v) \<le> 20 \<and> list_all command_ok (j_list v))
              (ValueError ''delivery_policy.validation.test_commands must be up to 20 trimmed commands'')) (\<lambda>_.
       Inr (J_List (first_occurrences (j_list v))))"

definition required_reviewers :: "json \<Rightarrow> json result" where
  "required_reviewers v =
     bindE (guardE (is_int_counter 1 10 v) (ValueError ''delivery_policy.validation.required_reviewers must be 1-10'')) (\<lambda>_. Inr v)"

definition always_true :: "string \<Rightarrow> json \<Rightarrow> json result" where
  "always_true key v =
     bindE (guardE (v = J_Bool True) (ValueError (''delivery_policy.validation.'' @ key @ '' cannot weaken required policy''))) (\<lambda>_. Inr v)"

text \<open>The branches \<open>if key in value: ... result[key] = ...\<close>, in their order.\<close>

definition parse_fields :: "(string \<times> (json \<Rightarrow> json result)) list \<Rightarrow> json \<Rightarrow> policy_dict result" where
  "parse_fields ps v =
     foldE (\<lambda>(k, p) d. if j_has v k then bindE (p (j_get v k)) (\<lambda>x. Inr (dset k x d)) else Inr d) ps []"

definition validation_parsers :: "(string \<times> (json \<Rightarrow> json result)) list" where
  "validation_parsers =
     [(''test_commands'', test_commands), (''required_reviewers'', required_reviewers),
      (''independent_review'', always_true ''independent_review''),
      (''require_upstream_policies'', always_true ''require_upstream_policies'')]"

definition setdefault :: "string \<Rightarrow> json \<Rightarrow> policy_dict \<Rightarrow> policy_dict" where
  "setdefault k v d = (if k \<in> set (dkeys d) then d else dset k v d)"

definition validation_defaults :: "policy_dict \<Rightarrow> policy_dict" where
  "validation_defaults d =
     setdefault ''require_upstream_policies'' (J_Bool True) (setdefault ''independent_review'' (J_Bool True)
       (setdefault ''required_reviewers'' (J_Int 1) (setdefault ''test_commands'' (J_List []) d)))"

definition validation_policy :: "bool \<Rightarrow> json \<Rightarrow> json result" where
  "validation_policy partial v =
     bindE (guardE (is_obj v \<and> j_keys v \<subseteq> set (map fst validation_parsers))
              (ValueError ''delivery_policy.validation contains unsupported fields'')) (\<lambda>_.
     bindE (parse_fields validation_parsers v) (\<lambda>d.
       Inr (J_Obj (if partial then d else validation_defaults d))))"

subsection \<open>A policy layer\<close>

definition one_of :: "string list \<Rightarrow> string \<Rightarrow> json \<Rightarrow> json result" where
  "one_of ks msg v = bindE (among v ks) (\<lambda>ok. bindE (guardE ok (ValueError msg)) (\<lambda>_. Inr v))"

definition boolean_field :: "string \<Rightarrow> json \<Rightarrow> json result" where
  "boolean_field msg v = (case v of J_Bool _ \<Rightarrow> Inr v | _ \<Rightarrow> Inl (ValueError msg))"

definition required_branch :: "string \<Rightarrow> json \<Rightarrow> json result" where
  "required_branch key v =
     bindE (optional_branch v (''delivery_policy.'' @ key)) (\<lambda>b.
     bindE (guardE (b \<noteq> J_Null) (ValueError (''delivery_policy.'' @ key @ '' cannot be null''))) (\<lambda>_. Inr b))"

definition manual_merge :: "json \<Rightarrow> json result" where
  "manual_merge v =
     bindE (guardE (v = J_Str ''manual'') (ValueError ''delivery_policy.final_merge must remain manual'')) (\<lambda>_. Inr v)"

definition policy_parsers :: "(string \<Rightarrow> bool) \<Rightarrow> bool \<Rightarrow> (string \<times> (json \<Rightarrow> json result)) list" where
  "policy_parsers known_zone partial =
     [(''mode'', one_of DELIVERY_POLICY_MODES ''delivery_policy.mode must be per_ticket_pr, batch_pr or branch_only''),
      (''mapped_base'', required_branch ''mapped_base''),
      (''integration_branch'', required_branch ''integration_branch''),
      (''final_pr_target'', \<lambda>v. optional_branch v ''delivery_policy.final_pr_target''),
      (''snapshot_branch_prefix'', branch_prefix),
      (''release_trigger'', release_trigger known_zone),
      (''pr_update'', one_of [''rolling'', ''freeze_on_ready''] ''delivery_policy.pr_update must be rolling or freeze_on_ready''),
      (''auto_integrate'', boolean_field ''delivery_policy.auto_integrate must be boolean''),
      (''collection_paused'', boolean_field ''delivery_policy.collection_paused must be boolean''),
      (''final_merge'', manual_merge),
      (''validation'', validation_policy partial),
      (''conflict_policy'', one_of [''repair_then_review'', ''pause'']
         ''delivery_policy.conflict_policy must be repair_then_review or pause'')]"

text \<open>
  \<open>_validate_effective_policy\<close>, on a policy with all fields.  \<open>.casefold()\<close> of a missing final target
  raises \<open>AttributeError\<close>: the check for \<open>batch_pr\<close> comes before the check that there is one.
\<close>

definition policy_text :: "policy_dict \<Rightarrow> string \<Rightarrow> string" where
  "policy_text d k = (case dget d k of Some (J_Str s) \<Rightarrow> s | _ \<Rightarrow> [])"

definition policy_target :: "policy_dict \<Rightarrow> string option" where
  "policy_target d = (case dget d ''final_pr_target'' of Some (J_Str s) \<Rightarrow> Some s | _ \<Rightarrow> None)"

definition policy_branches :: "policy_dict \<Rightarrow> string list" where
  "policy_branches d =
     policy_text d ''mapped_base'' #
     (if policy_text d ''mode'' \<in> {''branch_only'', ''batch_pr''} then [policy_text d ''integration_branch''] else [])"

definition all_branches :: "policy_dict \<Rightarrow> string list" where
  "all_branches d =
     policy_branches d @
     (case policy_target d of
        None \<Rightarrow> []
      | Some t \<Rightarrow> if casefold t \<in> casefold ` set (policy_branches d) then [] else [t])"

definition namespace_clash :: "string \<Rightarrow> string \<Rightarrow> bool" where
  "namespace_clash prefix b \<longleftrightarrow> b = prefix \<or> starts_with (prefix @ ''/'') b \<or> starts_with (b @ ''/'') prefix"

definition validate_effective_policy :: "policy_dict \<Rightarrow> unit result" where
  "validate_effective_policy d =
     (let mode = policy_text d ''mode''; target = policy_target d; base = policy_text d ''mapped_base'';
          folded = map casefold (all_branches d); prefix = casefold (policy_text d ''snapshot_branch_prefix'') in
      bindE (guardE (case target of None \<Rightarrow> True | Some t \<Rightarrow>
                 \<not> list_ex (\<lambda>b. casefold t = casefold b \<and> t \<noteq> b \<and> mode = ''batch_pr'') (policy_branches d))
               (ValueError ''batch_pr branch aliases differing only by case are ambiguous'')) (\<lambda>_.
      bindE (guardE (distinct folded)
               (ValueError ''delivery policy branches must be distinct, including case differences'')) (\<lambda>_.
      bindE (guardE (\<not> list_ex (namespace_clash prefix) folded)
               (ValueError ''snapshot branch prefix conflicts with a configured branch namespace'')) (\<lambda>_.
      bindE (guardE (\<not> (mode = ''branch_only'' \<and> target \<noteq> None))
               (ValueError ''branch_only delivery requires final_pr_target null'')) (\<lambda>_.
      bindE (guardE (\<not> (mode = ''batch_pr'' \<and> target = None))
               (AttributeError ''NoneType object has no attribute casefold'')) (\<lambda>_.
      bindE (guardE (\<not> (mode = ''batch_pr'' \<and> map_option casefold target = Some (casefold (policy_text d ''integration_branch''))))
               (ValueError ''batch_pr final_pr_target must be distinct from the owned integration branch'')) (\<lambda>_.
      bindE (guardE (\<not> (mode \<in> {''per_ticket_pr'', ''batch_pr''} \<and> target = None))
               (ValueError (mode @ '' delivery requires final_pr_target''))) (\<lambda>_.
      bindE (guardE (\<not> (mode = ''per_ticket_pr'' \<and> dget d ''auto_integrate'' = Some (J_Bool True)))
               (ValueError ''per_ticket_pr cannot auto-integrate into a customer-owned target'')) (\<lambda>_.
        guardE (\<not> (mode = ''per_ticket_pr'' \<and> map_option casefold target \<noteq> Some (casefold base)))
          (ValueError ''per_ticket_pr final_pr_target must equal mapped_base''))))))))))"

definition parse_delivery_policy :: "(string \<Rightarrow> bool) \<Rightarrow> bool \<Rightarrow> json \<Rightarrow> policy_dict option result" where
  "parse_delivery_policy known_zone partial v =
     (if v = J_Null then Inr None
      else
        bindE (guardE (is_obj v \<and> j_keys v \<subseteq> set DELIVERY_POLICY_FIELDS)
                 (ValueError ''delivery_policy contains unsupported fields'')) (\<lambda>_.
        bindE (parse_fields (policy_parsers known_zone partial) v) (\<lambda>d.
          if partial then Inr (Some d)
          else
            bindE (guardE (set DELIVERY_POLICY_FIELDS \<subseteq> set (dkeys d))
                     (ValueError ''delivery_policy is missing required fields'')) (\<lambda>_.
            bindE (validate_effective_policy d) (\<lambda>_. Inr (Some d))))))"

end
