(* ===== verification/Delivery_Layers.thy ===== *)
theory Delivery_Layers
  imports Delivery_Policy
begin

section \<open>The layers of a delivery policy\<close>

text \<open>
  The rest of \<open>delivery_workflow.py\<close>: the legacy setting and the built-in policy made from it, the merge
  of the global, group and repository layers with its provenance, the revision of the effective policy,
  its activation record, and what the deployed runtime supports.  Messages leave out the values a format
  string prints, where they are not texts of a known form.
\<close>

subsection \<open>The legacy setting\<close>

text \<open>\<open>parse_delivery_workflow\<close>; the integration branch and its two switches come out as a record.\<close>

record integration =
  in_branch :: string
  in_base :: string
  in_auto :: bool
  in_paused :: bool

datatype legacy = Direct | Integration integration

definition parse_delivery_workflow :: "json \<Rightarrow> legacy option result" where
  "parse_delivery_workflow v =
     (if v = J_Null then Inr None
      else
        bindE (guardE (is_obj v \<and> j_keys v \<subseteq> set [''mode'', ''integration_branch'', ''base_branch'', ''auto_integrate'', ''collection_paused''])
                 (ValueError ''delivery_workflow contains unsupported fields'')) (\<lambda>_.
        bindE (one_of [''direct'', ''integration''] ''delivery_workflow.mode must be direct or integration'' (j_get v ''mode'')) (\<lambda>mode.
        if mode = J_Str ''direct''
        then bindE (guardE (j_keys v = {''mode''}) (ValueError ''direct delivery does not accept integration settings'')) (\<lambda>_.
               Inr (Some Direct))
        else
          bindE (branch_name (get_or v ''integration_branch'' (J_Str ''pursers-integration'')) ''integration_branch'') (\<lambda>br.
          bindE (branch_name (get_or v ''base_branch'' J_Null) ''base_branch'') (\<lambda>base.
          bindE (guardE (casefold (text_of br) \<noteq> casefold (text_of base))
                   (ValueError ''Delivery branch must be distinct from the mapped base branch'')) (\<lambda>_.
          bindE (boolean_field ''delivery_workflow.auto_integrate must be boolean'' (get_or v ''auto_integrate'' (J_Bool False))) (\<lambda>auto.
          bindE (boolean_field ''delivery_workflow.collection_paused must be boolean'' (get_or v ''collection_paused'' (J_Bool False))) (\<lambda>paused.
            Inr (Some (Integration \<lparr> in_branch = text_of br, in_base = text_of base, in_auto = j_true auto,
                                     in_paused = j_true paused \<rparr>))))))))))"

definition integration_policy :: "json \<Rightarrow> integration option result" where
  "integration_policy project =
     bindE (parse_delivery_workflow (j_get project ''delivery_workflow'')) (\<lambda>p.
       Inr (case p of Some (Integration i) \<Rightarrow> Some i | _ \<Rightarrow> None))"

definition delivery_target :: "json \<Rightarrow> string result" where
  "delivery_target project =
     bindE (parse_delivery_workflow (j_get project ''delivery_workflow'')) (\<lambda>p.
       case p of
         Some (Integration i) \<Rightarrow> Inr (in_branch i)
       | _ \<Rightarrow>
           (case get_or project ''integration_ref'' (J_Str ''main'') of
              J_Str ref \<Rightarrow>
                if ref \<noteq> [] \<and> strip ref = ref then Inr ref
                else Inl (ValueError ''integration_ref must be a non-empty, trimmed ref'')
            | _ \<Rightarrow> Inl (ValueError ''integration_ref must be a non-empty, trimmed ref'')))"

definition delivery_stage :: "string \<Rightarrow> string" where
  "delivery_stage state = (case dget DELIVERY_STAGES state of Some s \<Rightarrow> s | None \<Rightarrow> ''Delivery unconfirmed'')"

subsection \<open>The built-in policy\<close>

definition builtin_validation :: policy_dict where
  "builtin_validation =
     [(''test_commands'', J_List []), (''required_reviewers'', J_Int 1), (''independent_review'', J_Bool True),
      (''require_upstream_policies'', J_Bool True)]"

definition builtin_fields :: "integration option \<Rightarrow> json \<Rightarrow> policy_dict" where
  "builtin_fields i base =
     [(''mode'', J_Str (if i = None then ''per_ticket_pr'' else ''branch_only'')), (''mapped_base'', base),
      (''integration_branch'', J_Str (case i of None \<Rightarrow> ''pursers-integration'' | Some l \<Rightarrow> in_branch l)),
      (''snapshot_branch_prefix'', J_Str ''codex''),
      (''final_pr_target'', if i = None then base else J_Null),
      (''release_trigger'', J_Obj [(''kind'', J_Str ''ready'')]), (''pr_update'', J_Str ''rolling''),
      (''auto_integrate'', J_Bool (case i of None \<Rightarrow> False | Some l \<Rightarrow> in_auto l)),
      (''final_merge'', J_Str ''manual''), (''validation'', J_Obj builtin_validation),
      (''conflict_policy'', J_Str ''pause''),
      (''collection_paused'', J_Bool (case i of None \<Rightarrow> False | Some l \<Rightarrow> in_paused l))]"

definition builtin_policy :: "json \<Rightarrow> policy_dict result" where
  "builtin_policy project =
     bindE (integration_policy project) (\<lambda>i.
     bindE (branch_name (case i of Some l \<Rightarrow> J_Str (in_base l) | None \<Rightarrow> get_or project ''integration_ref'' (J_Str ''main''))
              ''delivery_policy.mapped_base'') (\<lambda>base.
       Inr (builtin_fields i base)))"

subsection \<open>The merge\<close>

text \<open>
  \<open>_merge_policy\<close> on the pair of the policy and its provenance: commands accumulate, the number of
  reviewers is the maximum, the two switches once on stay on; every other field is replaced.
\<close>

definition from_source :: "policy_dict \<Rightarrow> string \<Rightarrow> string \<Rightarrow> json" where
  "from_source prov path source =
     (case dget prov path of
        Some p \<Rightarrow> if json_true p \<and> p \<noteq> J_Str source then J_List [p, J_Str source] else J_Str source
      | None \<Rightarrow> J_Str source)"

definition merge_nested :: "string \<Rightarrow> string \<times> json \<Rightarrow> policy_dict \<times> policy_dict \<Rightarrow> policy_dict \<times> policy_dict" where
  "merge_nested source entry acc =
     (case (entry, acc) of ((nested, selected), (val, prov)) \<Rightarrow>
        let path = ''validation.'' @ nested in
        if nested = ''test_commands'' then
          let before = (case dget val nested of Some b \<Rightarrow> j_list b | None \<Rightarrow> []);
              new = first_occurrences (before @ j_list selected) in
          (dset nested (J_List new) val, if new \<noteq> before then dset path (from_source prov path source) prov else prov)
        else if nested = ''required_reviewers'' then
          let before = (case dget val nested of Some b \<Rightarrow> j_int b | None \<Rightarrow> 1); new = max before (j_int selected) in
          (dset nested (J_Int new) val, if new \<noteq> before then dset path (J_Str source) prov else prov)
        else
          let before = (case dget val nested of Some b \<Rightarrow> json_true b | None \<Rightarrow> False); new = (before \<or> json_true selected) in
          (dset nested (J_Bool new) val, if new \<noteq> before then dset path (J_Str source) prov else prov))"

definition merge_entry :: "string \<Rightarrow> string \<times> json \<Rightarrow> policy_dict \<times> policy_dict \<Rightarrow> policy_dict \<times> policy_dict" where
  "merge_entry source entry acc =
     (case (entry, acc) of ((key, v), (target, prov)) \<Rightarrow>
        if key \<noteq> ''validation'' then (dset key v target, dset key (J_Str source) prov)
        else
          let val = (case dget target ''validation'' of Some d \<Rightarrow> j_items d | None \<Rightarrow> []) in
          (case fold (merge_nested source) (j_items v) (val, prov) of
             (val', prov') \<Rightarrow> (dset ''validation'' (J_Obj val') target, prov')))"

definition merge_policy :: "string \<Rightarrow> policy_dict \<Rightarrow> policy_dict \<times> policy_dict \<Rightarrow> policy_dict \<times> policy_dict" where
  "merge_policy source layer acc = fold (merge_entry source) layer acc"

subsection \<open>Revision and activation\<close>

definition delivery_policy_revision :: "(string \<Rightarrow> bool) \<Rightarrow> (json \<Rightarrow> string) \<Rightarrow> json \<Rightarrow> string result" where
  "delivery_policy_revision known_zone digest policy =
     bindE (parse_delivery_policy known_zone False policy) (\<lambda>p.
       case p of
         None \<Rightarrow> Inl (AssertionError [])
       | Some d \<Rightarrow> Inr (take 40 (digest (J_Obj d))))"

definition activation_id_ok :: "string \<Rightarrow> bool" where
  "activation_id_ok s \<longleftrightarrow>
     (case s of [] \<Rightarrow> False
      | c # cs \<Rightarrow> alnum_char c \<and> length cs \<le> 127 \<and> list_all (\<lambda>x. name_char x \<or> x = CHR '':'') cs)"

definition activation_record :: "string \<Rightarrow> string \<Rightarrow> json" where
  "activation_record revision aid =
     J_Obj [(''schema_version'', J_Int 1), (''state'', J_Str ''active''), (''policy_revision'', J_Str revision),
            (''activation_id'', J_Str aid)]"

definition parse_delivery_policy_activation :: "json \<Rightarrow> json result" where
  "parse_delivery_policy_activation v =
     (if v = J_Null then Inr J_Null
      else
        bindE (guardE (has_fields v [''schema_version'', ''state'', ''policy_revision'', ''activation_id''])
                 (ValueError ''delivery_policy_activation contains unsupported or missing fields'')) (\<lambda>_.
        bindE (guardE (py_eq (j_get v ''schema_version'') (J_Int 1) \<and> py_eq (j_get v ''state'') (J_Str ''active''))
                 (ValueError ''delivery_policy_activation must be an active schema_version 1 record'')) (\<lambda>_.
        bindE (guardE (case j_get v ''policy_revision'' of J_Str s \<Rightarrow> wf_sha_ok s | _ \<Rightarrow> False)
                 (ValueError ''delivery_policy_activation.policy_revision must be 40 lowercase hex characters'')) (\<lambda>_.
        bindE (guardE (case j_get v ''activation_id'' of J_Str s \<Rightarrow> activation_id_ok s | _ \<Rightarrow> False)
                 (ValueError ''delivery_policy_activation.activation_id is invalid'')) (\<lambda>_.
          Inr (activation_record (text_of (j_get v ''policy_revision'')) (text_of (j_get v ''activation_id''))))))))"

definition activate_delivery_policy :: "(string \<Rightarrow> bool) \<Rightarrow> (json \<Rightarrow> string) \<Rightarrow> json \<Rightarrow> json result" where
  "activate_delivery_policy known_zone digest policy =
     bindE (delivery_policy_revision known_zone digest policy) (\<lambda>revision.
       Inr (activation_record revision (''policy:'' @ revision)))"

subsection \<open>What the deployed runtime supports\<close>

definition blocked_if :: "bool \<Rightarrow> string \<Rightarrow> string list" where
  "blocked_if b msg = (if b then [msg] else [])"

definition trigger_kind :: "policy_dict \<Rightarrow> string" where
  "trigger_kind d = (case dget d ''release_trigger'' of Some t \<Rightarrow> text_of (j_get t ''kind'') | None \<Rightarrow> [])"

definition fleet_clone :: "json \<Rightarrow> json" where
  "fleet_clone project =
     (let clone = j_get project ''fleet_clone_dir'' in
      if clone = J_Null \<and> py_eq (j_get project ''work_dir_owner'') (J_Str ''fleet'') then j_get project ''work_dir'' else clone)"

definition batch_blockers :: "policy_dict \<Rightarrow> json option \<Rightarrow> string list" where
  "batch_blockers d project =
     (let mode = policy_text d ''mode'' in
      (case project of
         None \<Rightarrow> []
       | Some p \<Rightarrow> blocked_if (\<not> is_str (j_get p ''repository_url'')) (mode @ '' requires a mapped repository'') @
           blocked_if (\<not> is_str (fleet_clone p)) (mode @ '' requires a fleet-owned clone'')) @
      blocked_if (trigger_kind d \<noteq> ''ready'') (trigger_kind d @ '' resident release path is not installed'') @
      blocked_if (mode = ''branch_only'' \<and> policy_text d ''pr_update'' \<noteq> ''freeze_on_ready'')
        ''branch_only requires freeze_on_ready snapshots'')"

definition ticket_blockers :: "policy_dict \<Rightarrow> string list" where
  "ticket_blockers d =
     blocked_if (trigger_kind d \<noteq> ''ready'') (trigger_kind d @ '' release trigger is not installed'') @
     blocked_if (policy_text d ''pr_update'' \<noteq> ''rolling'') ''freeze_on_ready PR updates are not installed'' @
     blocked_if (policy_text d ''snapshot_branch_prefix'' \<noteq> ''codex'') ''custom snapshot branch prefixes are not installed''"

definition policy_validation :: "policy_dict \<Rightarrow> policy_dict" where
  "policy_validation d = (case dget d ''validation'' of Some v \<Rightarrow> j_items v | None \<Rightarrow> [])"

definition policy_commands :: "policy_dict \<Rightarrow> json list" where
  "policy_commands d = (case dget (policy_validation d) ''test_commands'' of Some v \<Rightarrow> j_list v | None \<Rightarrow> [])"

definition delivery_blockers :: "policy_dict \<Rightarrow> json option \<Rightarrow> string list" where
  "delivery_blockers d project =
     (if policy_text d ''mode'' \<in> {''batch_pr'', ''branch_only''} then batch_blockers d project else ticket_blockers d) @
     blocked_if (policy_text d ''mode'' = ''per_ticket_pr'' \<and> policy_commands d \<noteq> [])
       ''custom validation test commands are not installed'' @
     blocked_if (dget (policy_validation d) ''required_reviewers'' \<noteq> Some (J_Int 1))
       ''multiple required reviewers are not installed'' @
     blocked_if (policy_text d ''conflict_policy'' \<noteq> ''pause'') ''automatic conflict repair is not installed''"

definition delivery_ready :: "policy_dict \<Rightarrow> json option \<Rightarrow> bool" where
  "delivery_ready d project \<longleftrightarrow> delivery_blockers d project = []"

subsection \<open>Resolution\<close>

record resolved =
  rp_policy :: policy_dict
  rp_provenance :: policy_dict
  rp_group :: "string option"
  rp_overrides :: policy_dict
  rp_blockers :: "string list"

definition builtin_provenance :: policy_dict where
  "builtin_provenance =
     map (\<lambda>k. (k, J_Str ''built-in''))
       (filter (\<lambda>k. k \<noteq> ''validation'') DELIVERY_POLICY_FIELDS @ map (\<lambda>k. ''validation.'' @ k) (dkeys builtin_validation))"

definition group_layer :: "json \<Rightarrow> json \<Rightarrow> (string option \<times> (string \<times> json) list) result" where
  "group_layer registry project =
     (let raw = j_get project ''delivery_policy_group''; groups = j_get registry ''delivery_policy_groups'' in
      if raw = J_Null then Inr (None, [])
      else
        bindE (delivery_group_name raw) (\<lambda>g.
        bindE (guardE (is_obj groups \<and> j_has groups g)
                 (ValueError (''delivery policy group '' @ [CHR 0x27] @ g @ [CHR 0x27] @ '' is not defined''))) (\<lambda>_.
          Inr (Some g, [(''group:'' @ g, j_get groups g)]))))"

definition merge_layer :: "(string \<Rightarrow> bool) \<Rightarrow> string \<times> json \<Rightarrow> policy_dict \<times> policy_dict \<Rightarrow> (policy_dict \<times> policy_dict) result" where
  "merge_layer known_zone layer acc =
     bindE (parse_delivery_policy known_zone True (snd layer)) (\<lambda>p.
       Inr (case p of None \<Rightarrow> acc | Some d \<Rightarrow> merge_policy (fst layer) d acc))"

definition policy_layers :: "json \<Rightarrow> string \<Rightarrow> (string \<times> json) list \<Rightarrow> (string \<times> json) list" where
  "policy_layers registry name middle =
     (''global'', j_get registry ''delivery_policy_defaults'') # middle @
     [(''repository:'' @ name, j_get (j_get (j_get registry ''projects'') name) ''delivery_policy'')]"

definition or_empty :: "policy_dict option \<Rightarrow> policy_dict" where
  "or_empty p = (case p of None \<Rightarrow> [] | Some d \<Rightarrow> d)"

definition resolve_delivery_policy :: "(string \<Rightarrow> bool) \<Rightarrow> json \<Rightarrow> string \<Rightarrow> resolved result" where
  "resolve_delivery_policy known_zone registry name =
     (let projects = j_get registry ''projects''; project = j_get projects name in
      bindE (guardE (is_obj projects \<and> is_obj project) (ValueError ''project is not registered'')) (\<lambda>_.
      bindE (builtin_policy project) (\<lambda>effective.
      bindE (group_layer registry project) (\<lambda>(g, middle).
      bindE (foldE (merge_layer known_zone) (policy_layers registry name middle) (effective, builtin_provenance)) (\<lambda>(merged, prov).
      bindE (parse_delivery_policy known_zone False (J_Obj merged)) (\<lambda>final.
      bindE (parse_delivery_policy known_zone True (j_get project ''delivery_policy'')) (\<lambda>own.
        Inr \<lparr> rp_policy = or_empty final, rp_provenance = prov, rp_group = g, rp_overrides = or_empty own,
              rp_blockers = delivery_blockers (or_empty final) (Some project) \<rparr>)))))))"

definition compile_delivery_workflow :: "(string \<Rightarrow> bool) \<Rightarrow> json \<Rightarrow> (json \<times> json) result" where
  "compile_delivery_workflow known_zone policy =
     bindE (parse_delivery_policy known_zone False policy) (\<lambda>p.
       case p of
         None \<Rightarrow> Inl (AssertionError [])
       | Some d \<Rightarrow>
           bindE (guardE (delivery_ready d None)
                    (ValueError (''delivery policy is configuration-only: '' @ joined ''; '' (delivery_blockers d None)))) (\<lambda>_.
           bindE (guardE (policy_text d ''mode'' = ''per_ticket_pr'')
                    (ValueError ''batch delivery activates through delivery_policy_activation'')) (\<lambda>_.
             Inr (J_Obj [(''mode'', J_Str ''direct'')], j_get (J_Obj d) ''mapped_base''))))"

end
