(* ===== verification/Delivery_Facts.thy ===== *)
theory Delivery_Facts
  imports Delivery_Layers
begin

section \<open>Facts about delivery policies\<close>

text \<open>
  What a parsed dictionary holds, parsing as a normal form, and layered merges: the locale \<open>strengthening\<close>
  is the contract of a merge that never goes back on what an earlier layer asked for.
\<close>

subsection \<open>Parsed dictionaries\<close>

lemma dset_absent: "k \<notin> set (dkeys d) \<Longrightarrow> dset k v d = d @ [(k, v)]"
  by (induction d) (auto simp: dset_def dkeys_def)

lemma dkeys_append [simp]: "dkeys (d @ e) = dkeys d @ dkeys e" "dkeys [] = []" "dkeys (p # d) = fst p # dkeys d"
  by (simp_all add: dkeys_def)

definition parsed :: "(string \<times> (json \<Rightarrow> json result)) list \<Rightarrow> json \<Rightarrow> policy_dict" where
  "parsed ps v = map (\<lambda>(k, p). (k, projr (p (j_get v k)))) (filter (\<lambda>(k, _). j_has v k) ps)"

lemma parse_loop:
  "distinct (map fst ps) \<Longrightarrow> set (map fst ps) \<inter> set (dkeys acc) = {} \<Longrightarrow>
   foldE (\<lambda>(k, p) d. if j_has v k then bindE (p (j_get v k)) (\<lambda>x. Inr (dset k x d)) else Inr d) ps acc = Inr d \<longleftrightarrow>
     (\<forall>(k, p) \<in> set ps. j_has v k \<longrightarrow> returns (p (j_get v k))) \<and> d = acc @ parsed ps v"
proof (induction ps arbitrary: acc)
  case (Cons kp ps)
  obtain k p where kp: "kp = (k, p)" by (cases kp)
  show ?case
  proof (cases "j_has v k")
    case False
    with Cons kp show ?thesis by (simp add: parsed_def)
  next
    case True
    show ?thesis
    proof (cases "p (j_get v k)")
      case (Inl e)
      with True kp show ?thesis by simp
    next
      case (Inr x)
      have new: "dset k x acc = acc @ [(k, x)]"
        using Cons.prems kp by (intro dset_absent) auto
      have "foldE (\<lambda>(k, p) d. if j_has v k then bindE (p (j_get v k)) (\<lambda>x. Inr (dset k x d)) else Inr d) ps (acc @ [(k, x)]) = Inr d \<longleftrightarrow>
        (\<forall>(k, p) \<in> set ps. j_has v k \<longrightarrow> returns (p (j_get v k))) \<and> d = (acc @ [(k, x)]) @ parsed ps v"
        using Cons.prems kp by (intro Cons.IH) auto
      then show ?thesis using True Inr kp new by (simp add: parsed_def)
    qed
  qed
qed (auto simp: parsed_def)

lemma parse_fields_iff:
  "distinct (map fst ps) \<Longrightarrow> parse_fields ps v = Inr d \<longleftrightarrow>
     (\<forall>(k, p) \<in> set ps. j_has v k \<longrightarrow> returns (p (j_get v k))) \<and> d = parsed ps v"
  unfolding parse_fields_def using parse_loop [of ps "[]" v d] by simp

lemma parsed_keys: "dkeys (parsed ps v) = filter (j_has v) (map fst ps)"
  by (induction ps) (auto simp: parsed_def)

lemma parsed_get:
  "distinct (map fst ps) \<Longrightarrow> (k, p) \<in> set ps \<Longrightarrow>
     dget (parsed ps v) k = (if j_has v k then Some (projr (p (j_get v k))) else None)"
proof (induction ps)
  case (Cons a ps)
  have "dget (parsed ps v) k = None" if "k \<notin> set (map fst ps)"
    using that dget_in_keys [of "parsed ps v" k] by (auto simp: parsed_keys)
  with Cons show ?case by (auto simp: parsed_def)
qed simp

lemma j_has_obj: "j_has (J_Obj d) k \<longleftrightarrow> dget d k \<noteq> None"
  using dget_in_keys [of d k] by (simp add: dkeys_def)

lemma j_get_obj: "j_get (J_Obj d) k = (case dget d k of None \<Rightarrow> J_Null | Some x \<Rightarrow> x)"
  by (simp add: dget_def)

declare j_has.simps(1) [simp del] j_get.simps(1) [simp del]

text \<open>Parsers that return normal forms make a dictionary parser that does.\<close>

lemma parse_fields_normal:
  assumes "distinct (map fst ps)" and "parse_fields ps v = Inr d"
    and "\<And>k p v x. (k, p) \<in> set ps \<Longrightarrow> p v = Inr x \<Longrightarrow> p x = Inr x"
  shows "parse_fields ps (J_Obj d) = Inr d"
proof -
  have d: "d = parsed ps v" and ret: "\<And>k p. (k, p) \<in> set ps \<Longrightarrow> j_has v k \<Longrightarrow> returns (p (j_get v k))"
    using assms(1,2) by (auto simp: parse_fields_iff)
  have same: "j_has (J_Obj d) k = j_has v k \<and> (j_has v k \<longrightarrow> p (j_get (J_Obj d) k) = p (j_get v k) )"
    if kp: "(k, p) \<in> set ps" for k p
    using parsed_get [OF assms(1) kp, of v] ret [OF kp] assms(3) [OF kp]
    by (auto simp: j_has_obj j_get_obj d returns_iff)
  have "parsed ps (J_Obj d) = parsed ps v"
    unfolding parsed_def using same by (intro map_cong filter_cong) (force intro!: arg_cong [where f = projr])+
  moreover have "returns (p (j_get (J_Obj d) k))" if kp: "(k, p) \<in> set ps" "j_has (J_Obj d) k" for k p
    using same [OF kp(1)] ret [OF kp(1)] kp(2) by simp
  ultimately show ?thesis by (auto simp: parse_fields_iff [OF assms(1)] d)
qed


subsection \<open>Layers are normal forms\<close>

lemma first_occurrences_set [simp]: "set (first_occurrences xs) = set xs"
  by (induction xs) auto

lemma first_occurrences_distinct: "distinct xs \<Longrightarrow> first_occurrences xs = xs"
  by (induction xs) (auto simp: filter_id_conv)

lemma distinct_first_occurrences: "distinct (first_occurrences xs)"
  by (induction xs) auto

lemma length_first_occurrences: "length (first_occurrences xs) \<le> length xs"
proof (induction xs)
  case (Cons x xs)
  from order_trans [OF length_filter_le Cons.IH] show ?case by simp
qed simp

lemma policy_keys: "map fst (policy_parsers kz partial) =
    [''mode'', ''mapped_base'', ''integration_branch'', ''final_pr_target'', ''snapshot_branch_prefix'', ''release_trigger'',
     ''pr_update'', ''auto_integrate'', ''collection_paused'', ''final_merge'', ''validation'', ''conflict_policy'']"
  by (simp add: policy_parsers_def)

lemma policy_keys_distinct [simp]: "distinct (map fst (policy_parsers kz partial))"
  unfolding policy_keys by code_simp

lemma validation_keys_distinct [simp]: "distinct (map fst validation_parsers)"
  by code_simp

lemma one_of_Inr: "one_of ks msg v = Inr x \<longleftrightarrow> x = v \<and> among v ks = Inr True"
  by (auto simp: one_of_def)

lemma branch_name_Inr: "branch_name v f = Inr x \<longleftrightarrow> x = v \<and> (\<exists>s. v = J_Str s \<and> git_branch s)"
  by (cases v) (auto simp: branch_name_def)

lemma optional_branch_Inr: "optional_branch v f = Inr x \<longleftrightarrow> x = v \<and> (v = J_Null \<or> (\<exists>s. v = J_Str s \<and> git_branch s))"
  by (auto simp: optional_branch_def branch_name_Inr)

lemma required_branch_Inr: "required_branch k v = Inr x \<longleftrightarrow> x = v \<and> (\<exists>s. v = J_Str s \<and> git_branch s)"
  by (auto simp: required_branch_def optional_branch_Inr)

lemma branch_prefix_Inr: "branch_prefix v = Inr x \<Longrightarrow> x = v"
  by (cases v) (auto simp: branch_prefix_def split: if_split_asm)

lemma branch_prefix_normal: "branch_prefix v = Inr x \<Longrightarrow> branch_prefix x = Inr x"
  using branch_prefix_Inr by blast

lemma boolean_field_Inr: "boolean_field msg v = Inr x \<longleftrightarrow> x = v \<and> (\<exists>b. v = J_Bool b)"
  by (cases v) (auto simp: boolean_field_def)

lemma manual_merge_Inr: "manual_merge v = Inr x \<longleftrightarrow> x = v \<and> v = J_Str ''manual''"
  by (auto simp: manual_merge_def)

lemma always_true_Inr: "always_true k v = Inr x \<longleftrightarrow> x = v \<and> v = J_Bool True"
  by (auto simp: always_true_def)

lemma required_reviewers_Inr: "required_reviewers v = Inr x \<longleftrightarrow> x = v \<and> (\<exists>n. v = J_Int n \<and> 1 \<le> n \<and> n \<le> 10)"
  by (auto simp: required_reviewers_def is_int_counter_iff)

lemma test_commands_Inr: "test_commands v = Inr x \<longleftrightarrow>
    (\<exists>cs. v = J_List cs \<and> length cs \<le> 20 \<and> list_all command_ok cs \<and> x = J_List (first_occurrences cs))"
  by (cases v) (auto simp: test_commands_def)

lemma test_commands_normal: "test_commands v = Inr x \<Longrightarrow> test_commands x = Inr x"
  using length_first_occurrences
  by (force simp: test_commands_Inr list_all_iff first_occurrences_distinct [OF distinct_first_occurrences] intro: order_trans)

lemma release_trigger_normal:
  assumes "release_trigger kz v = Inr x"
  shows "release_trigger kz x = Inr x"
proof -
  from assms obtain k where k: "j_get v ''kind'' = J_Str k" "among (J_Str k) DELIVERY_RELEASE_TRIGGERS = Inr True"
    unfolding release_trigger_def Let_def
    by (elim bindE_Inr1E) (cases "j_get v ''kind''"; auto)
  with assms show ?thesis
    by (auto simp: release_trigger_def Let_def j_keys_def j_get.simps split: if_split_asm)
qed

lemmas parser_Inr = one_of_Inr optional_branch_Inr required_branch_Inr boolean_field_Inr manual_merge_Inr
  always_true_Inr required_reviewers_Inr

lemma validation_parsers_normal: "(k, p) \<in> set validation_parsers \<Longrightarrow> p v = Inr x \<Longrightarrow> p x = Inr x"
  by (auto simp: validation_parsers_def parser_Inr test_commands_normal)

lemma validation_policy_Inr: "validation_policy partial v = Inr x \<longleftrightarrow>
    (\<exists>d. is_obj v \<and> j_keys v \<subseteq> set (map fst validation_parsers) \<and> parse_fields validation_parsers v = Inr d \<and>
      x = J_Obj (if partial then d else validation_defaults d))"
  by (auto simp: validation_policy_def)

lemma parse_fields_keys: "distinct (map fst ps) \<Longrightarrow> parse_fields ps v = Inr d \<Longrightarrow> set (dkeys d) \<subseteq> set (map fst ps)"
  by (auto simp: parse_fields_iff parsed_keys)

lemma validation_policy_normal:
  assumes "validation_policy True v = Inr x"
  shows "validation_policy True x = Inr x"
proof -
  obtain d where d: "parse_fields validation_parsers v = Inr d" "x = J_Obj d"
    using assms by (auto simp: validation_policy_Inr)
  moreover have "j_keys x \<subseteq> set (map fst validation_parsers)"
    using parse_fields_keys [OF _ d(1)] d(2) by (simp add: j_keys_def dkeys_def)
  moreover have "parse_fields validation_parsers (J_Obj d) = Inr d"
    by (rule parse_fields_normal [OF _ d(1)]) (auto intro: validation_parsers_normal)
  ultimately show ?thesis by (simp add: validation_policy_Inr)
qed

lemma policy_parsers_normal:
  "(k, p) \<in> set (policy_parsers kz True) \<Longrightarrow> p v = Inr x \<Longrightarrow> p x = Inr x"
  by (auto simp: policy_parsers_def parser_Inr dest: branch_prefix_normal release_trigger_normal validation_policy_normal)

lemma policy_fields_keys: "set DELIVERY_POLICY_FIELDS = set (map fst (policy_parsers kz partial))"
  unfolding policy_keys DELIVERY_POLICY_FIELDS_def by auto

lemma parse_layer_Inr: "parse_delivery_policy kz partial v = Inr (Some d) \<longleftrightarrow>
    is_obj v \<and> j_keys v \<subseteq> set DELIVERY_POLICY_FIELDS \<and> parse_fields (policy_parsers kz partial) v = Inr d \<and>
    (partial \<or> set DELIVERY_POLICY_FIELDS \<subseteq> set (dkeys d) \<and> validate_effective_policy d = Inr ())"
  by (cases v; cases partial) (auto simp: parse_delivery_policy_def split: if_split_asm)

lemma parse_layer_normal:
  assumes "parse_delivery_policy kz True v = Inr (Some d)"
  shows "parse_delivery_policy kz True (J_Obj d) = Inr (Some d)"
proof -
  have d: "parse_fields (policy_parsers kz True) v = Inr d" using assms by (simp add: parse_layer_Inr)
  have "parse_fields (policy_parsers kz True) (J_Obj d) = Inr d"
    by (rule parse_fields_normal [OF _ d]) (auto intro: policy_parsers_normal)
  with parse_fields_keys [OF _ d] show ?thesis
    by (simp add: parse_layer_Inr j_keys_def dkeys_def policy_fields_keys [of kz True])
qed

end
