(* ===== verification/Delivery_Merge.thy ===== *)
theory Delivery_Merge
  imports Delivery_Facts
begin

section \<open>What survives the merge of the layers\<close>

text \<open>
  Requirements only accumulate.  The locale \<open>strengthening\<close> is the contract of one merge step: the state
  after it is no weaker than before and meets what the step asked for; a sequence of steps then meets
  what each of them asked for.  It is interpreted on the three levels of the source's merge: one entry of
  the validation settings, one entry of a layer, one layer.
\<close>

locale strengthening =
  fixes merge :: "'l \<Rightarrow> 's \<Rightarrow> 's"
    and weaker :: "'s \<Rightarrow> 's \<Rightarrow> bool"
    and met :: "'l \<Rightarrow> 's \<Rightarrow> bool"
  assumes weaker_refl: "weaker s s"
    and weaker_trans: "weaker s t \<Longrightarrow> weaker t u \<Longrightarrow> weaker s u"
    and grows: "weaker s (merge l s)"
    and meets: "met l (merge l s)"
    and met_mono: "met l s \<Longrightarrow> weaker s t \<Longrightarrow> met l t"
begin

lemma fold_grows: "weaker s (fold merge ls s)"
  by (induction ls arbitrary: s) (auto intro: weaker_refl weaker_trans [OF grows])

lemma fold_meets: "l \<in> set ls \<Longrightarrow> met l (fold merge ls s)"
  by (induction ls arbitrary: s) (auto intro: met_mono [OF meets fold_grows])

end

subsection \<open>The validation settings\<close>

definition asked_commands :: "policy_dict \<Rightarrow> json list" where
  "asked_commands val = (case dget val ''test_commands'' of Some v \<Rightarrow> j_list v | None \<Rightarrow> [])"

definition asked_reviewers :: "policy_dict \<Rightarrow> int" where
  "asked_reviewers val = (case dget val ''required_reviewers'' of Some v \<Rightarrow> j_int v | None \<Rightarrow> 1)"

definition no_weaker :: "policy_dict \<Rightarrow> policy_dict \<Rightarrow> bool" where
  "no_weaker val val' \<longleftrightarrow>
     set (asked_commands val) \<subseteq> set (asked_commands val') \<and> asked_reviewers val \<le> asked_reviewers val'"

definition item_met :: "string \<times> json \<Rightarrow> policy_dict \<Rightarrow> bool" where
  "item_met item val \<longleftrightarrow>
     (fst item = ''test_commands'' \<longrightarrow> set (j_list (snd item)) \<subseteq> set (asked_commands val)) \<and>
     (fst item = ''required_reviewers'' \<longrightarrow> j_int (snd item) \<le> asked_reviewers val)"

lemma no_weaker_refl: "no_weaker a a"
  by (simp add: no_weaker_def)

lemma no_weaker_trans: "no_weaker a b \<Longrightarrow> no_weaker b c \<Longrightarrow> no_weaker a c"
  by (auto simp: no_weaker_def)

lemma item_met_mono: "item_met i a \<Longrightarrow> no_weaker a b \<Longrightarrow> item_met i b"
  by (auto simp: item_met_def no_weaker_def)

lemma merge_nested_commands:
  "fst (merge_nested source (''test_commands'', sel) acc) =
     dset ''test_commands'' (J_List (first_occurrences (asked_commands (fst acc) @ j_list sel))) (fst acc)"
  by (cases acc) (simp add: merge_nested_def Let_def asked_commands_def)

lemma merge_nested_reviewers:
  "fst (merge_nested source (''required_reviewers'', sel) acc) =
     dset ''required_reviewers'' (J_Int (max (asked_reviewers (fst acc)) (j_int sel))) (fst acc)"
  by (cases acc) (simp add: merge_nested_def Let_def asked_reviewers_def)

lemma merge_nested_switch:
  assumes "k \<noteq> ''test_commands''" and "k \<noteq> ''required_reviewers''"
  shows "\<exists>b. fst (merge_nested source (k, sel) acc) = dset k (J_Bool b) (fst acc)"
  using assms by (cases acc) (simp add: merge_nested_def Let_def, blast)

lemma asked_dset:
  "asked_commands (dset k v val) = (if k = ''test_commands'' then j_list v else asked_commands val)"
  "asked_reviewers (dset k v val) = (if k = ''required_reviewers'' then j_int v else asked_reviewers val)"
  by (simp_all add: asked_commands_def asked_reviewers_def)

lemma merge_nested_step:
  "no_weaker (fst acc) (fst (merge_nested source (k, sel) acc)) \<and> item_met (k, sel) (fst (merge_nested source (k, sel) acc))"
proof (cases "k = ''test_commands''")
  case True
  then show ?thesis by (simp add: merge_nested_commands asked_dset no_weaker_def item_met_def)
next
  case commands: False
  show ?thesis
  proof (cases "k = ''required_reviewers''")
    case True
    then show ?thesis by (simp add: merge_nested_reviewers asked_dset no_weaker_def item_met_def)
  next
    case False
    from merge_nested_switch [OF commands False] obtain b
      where "fst (merge_nested source (k, sel) acc) = dset k (J_Bool b) (fst acc)" by blast
    with commands False show ?thesis by (simp add: asked_dset no_weaker_def item_met_def)
  qed
qed

lemma merge_nested_grows: "no_weaker (fst acc) (fst (merge_nested source i acc))"
  using merge_nested_step by (cases i) simp

lemma merge_nested_meets: "item_met i (fst (merge_nested source i acc))"
  using merge_nested_step by (cases i) simp

interpretation nested: strengthening "merge_nested source" "\<lambda>s t. no_weaker (fst s) (fst t)" "\<lambda>i s. item_met i (fst s)"
  for source
  by unfold_locales
    (auto intro: no_weaker_refl no_weaker_trans item_met_mono merge_nested_grows merge_nested_meets)

subsection \<open>One entry of a layer\<close>

definition entry_met :: "string \<times> json \<Rightarrow> policy_dict \<Rightarrow> bool" where
  "entry_met e target \<longleftrightarrow>
     (fst e = ''validation'' \<longrightarrow> (\<forall>i \<in> set (j_items (snd e)). item_met i (policy_validation target)))"

lemma merge_entry_validation:
  "policy_validation (fst (merge_entry source (''validation'', v) (t, prov))) =
     fst (fold (merge_nested source) (j_items v) (policy_validation t, prov))"
  by (simp add: merge_entry_def policy_validation_def Let_def split: prod.split)

lemma merge_entry_other:
  "k \<noteq> ''validation'' \<Longrightarrow> merge_entry source (k, v) (t, prov) = (dset k v t, dset k (J_Str source) prov)"
  by (simp add: merge_entry_def)

lemma policy_validation_dset: "k \<noteq> ''validation'' \<Longrightarrow> policy_validation (dset k v t) = policy_validation t"
  by (simp add: policy_validation_def)

lemma merge_entry_grows:
  "no_weaker (policy_validation (fst acc)) (policy_validation (fst (merge_entry source e acc)))"
proof (cases e; cases acc)
  fix k v t prov
  assume "e = (k, v)" "acc = (t, prov)"
  then show ?thesis
    using nested.fold_grows [of "(policy_validation t, prov)" source "j_items v"]
    by (cases "k = ''validation''") (simp_all add: merge_entry_validation merge_entry_other policy_validation_dset no_weaker_refl)
qed

lemma merge_entry_meets: "entry_met e (fst (merge_entry source e acc))"
proof (cases e; cases acc)
  fix k v t prov
  assume "e = (k, v)" "acc = (t, prov)"
  then show ?thesis
    using nested.fold_meets [of _ "j_items v" source "(policy_validation t, prov)"]
    by (auto simp: entry_met_def merge_entry_validation)
qed

interpretation entry: strengthening "merge_entry source"
    "\<lambda>s t. no_weaker (policy_validation (fst s)) (policy_validation (fst t))" "\<lambda>e s. entry_met e (fst s)"
  for source
proof unfold_locales
  show "entry_met e (fst (merge_entry source e s))" for e s by (rule merge_entry_meets)
  show "entry_met e (fst s) \<Longrightarrow> no_weaker (policy_validation (fst s)) (policy_validation (fst t)) \<Longrightarrow> entry_met e (fst t)"
    for e and s t :: "policy_dict \<times> policy_dict"
    by (auto simp: entry_met_def intro: item_met_mono)
qed (auto intro: no_weaker_refl no_weaker_trans merge_entry_grows)

subsection \<open>One layer\<close>

definition layer_met :: "policy_dict \<Rightarrow> policy_dict \<Rightarrow> bool" where
  "layer_met d target \<longleftrightarrow>
     set (asked_commands (policy_validation d)) \<subseteq> set (asked_commands (policy_validation target)) \<and>
     (dget (policy_validation d) ''required_reviewers'' \<noteq> None \<longrightarrow>
        asked_reviewers (policy_validation d) \<le> asked_reviewers (policy_validation target))"

lemma layer_met_if_entries:
  assumes "\<forall>e \<in> set d. entry_met e target"
  shows "layer_met d target"
proof (cases "dget d ''validation''")
  case None
  then show ?thesis by (simp add: layer_met_def policy_validation_def asked_commands_def)
next
  case (Some v)
  then have "entry_met (''validation'', v) target" using assms dget_in_values by fast
  then have items: "item_met i (policy_validation target)" if "i \<in> set (policy_validation d)" for i
    using that Some by (simp add: entry_met_def policy_validation_def)
  have "item_met (k, x) (policy_validation target)" if "dget (policy_validation d) k = Some x" for k x
    using items dget_in_values [OF that] by blast
  note met = this
  have "set (asked_commands (policy_validation d)) \<subseteq> set (asked_commands (policy_validation target))"
    using met [of "''test_commands''"]
    by (cases "dget (policy_validation d) ''test_commands''") (simp_all add: item_met_def asked_commands_def [of "policy_validation d"])
  moreover have "asked_reviewers (policy_validation d) \<le> asked_reviewers (policy_validation target)"
    if "dget (policy_validation d) ''required_reviewers'' \<noteq> None"
    using that met [of "''required_reviewers''"]
    by (auto simp: item_met_def asked_reviewers_def [of "policy_validation d"])
  ultimately show ?thesis by (simp add: layer_met_def)
qed

definition merge_labelled :: "string \<times> policy_dict \<Rightarrow> policy_dict \<times> policy_dict \<Rightarrow> policy_dict \<times> policy_dict" where
  "merge_labelled l acc = merge_policy (fst l) (snd l) acc"

interpretation layer: strengthening merge_labelled
    "\<lambda>s t. no_weaker (policy_validation (fst s)) (policy_validation (fst t))" "\<lambda>l s. layer_met (snd l) (fst s)"
proof unfold_locales
  show "layer_met (snd l) (fst (merge_labelled l s))" for l s
    unfolding merge_labelled_def merge_policy_def by (intro layer_met_if_entries ballI entry.fold_meets)
  show "no_weaker (policy_validation (fst s)) (policy_validation (fst (merge_labelled l s)))" for l s
    unfolding merge_labelled_def merge_policy_def by (rule entry.fold_grows)
qed (auto simp: layer_met_def no_weaker_def)

subsection \<open>The nearest layer wins\<close>

fun prevails :: "(string \<times> policy_dict) list \<Rightarrow> string \<Rightarrow> (json \<times> string) option" where
  "prevails [] k = None"
| "prevails ((source, d) # ls) k =
     (case prevails ls k of Some r \<Rightarrow> Some r | None \<Rightarrow> map_option (\<lambda>v. (v, source)) (dget d k))"

definition plain_key :: "string \<Rightarrow> bool" where
  "plain_key k \<longleftrightarrow> k \<noteq> ''validation'' \<and> \<not> starts_with ''validation.'' k"

lemma plain_key_path: "plain_key k \<Longrightarrow> ''validation.'' @ n \<noteq> k"
  unfolding plain_key_def starts_with_def by (metis append_eq_conv_conj)

lemma merge_nested_path:
  "snd (merge_nested source i acc) = snd acc \<or> (\<exists>x. snd (merge_nested source i acc) = dset (''validation.'' @ fst i) x (snd acc))"
  unfolding merge_nested_def Let_def
  by (cases i; cases acc) (simp only: prod.case fst_conv snd_conv split: if_split; blast)

lemma merge_nested_provenance:
  "plain_key k \<Longrightarrow> dget (snd (merge_nested source i acc)) k = dget (snd acc) k"
  using merge_nested_path [of source i acc] plain_key_path [of k "fst i"] by auto

lemma fold_nested_provenance:
  "plain_key k \<Longrightarrow> dget (snd (fold (merge_nested source) is acc)) k = dget (snd acc) k"
  by (induction "is" arbitrary: acc) (simp_all add: merge_nested_provenance)

lemma merge_entry_get:
  assumes "plain_key k"
  shows "dget (fst (merge_entry source e acc)) k = (if fst e = k then Some (snd e) else dget (fst acc) k) \<and>
    dget (snd (merge_entry source e acc)) k = (if fst e = k then Some (J_Str source) else dget (snd acc) k)"
proof (cases "fst e = ''validation''")
  case True
  with assms have "fst e \<noteq> k" "k \<noteq> ''validation''" by (auto simp: plain_key_def)
  with True fold_nested_provenance [OF assms] show ?thesis
    by (cases e; cases acc) (auto simp: merge_entry_def Let_def split: prod.split, metis snd_conv)
next
  case False
  then show ?thesis by (cases e; cases acc) (simp add: merge_entry_other)
qed

lemma merge_policy_get:
  assumes "plain_key k" and "dict_ok d"
  shows "dget (fst (merge_policy source d acc)) k = (case dget d k of Some v \<Rightarrow> Some v | None \<Rightarrow> dget (fst acc) k) \<and>
    dget (snd (merge_policy source d acc)) k = (case dget d k of Some v \<Rightarrow> Some (J_Str source) | None \<Rightarrow> dget (snd acc) k)"
  using assms(2)
proof (induction d arbitrary: acc)
  case (Cons e d)
  have "dget d (fst e) = None" using Cons.prems dget_in_keys [of d "fst e"] by (auto simp: dict_ok_def)
  moreover have "dict_ok d" using Cons.prems by (simp add: dict_ok_def)
  ultimately show ?case
    using Cons.IH [of "merge_entry source e acc"]
    by (cases e) (auto simp: merge_policy_def merge_entry_get [OF assms(1)] split: option.split)
qed (simp add: merge_policy_def)

lemma prevails_merge:
  assumes "plain_key k" and "\<forall>(source, d) \<in> set ls. dict_ok d"
  shows "dget (fst (fold merge_labelled ls acc)) k = (case prevails ls k of Some (v, source) \<Rightarrow> Some v | None \<Rightarrow> dget (fst acc) k) \<and>
    dget (snd (fold merge_labelled ls acc)) k = (case prevails ls k of Some (v, source) \<Rightarrow> Some (J_Str source) | None \<Rightarrow> dget (snd acc) k)"
  using assms(2)
proof (induction ls arbitrary: acc)
  case (Cons l ls)
  then show ?case
    using Cons.IH [of "merge_labelled l acc"] merge_policy_get [OF assms(1), of "snd l" "fst l" acc]
    by (cases l) (auto simp: merge_labelled_def split: option.split)
qed simp

end
