(* ===== verification/Delivery_Resolution.thy ===== *)
theory Delivery_Resolution
  imports Delivery_Merge
begin

section \<open>The resolved policy\<close>

text \<open>
  What the last parse keeps of the merged policy, and how the layers that \<open>resolve_delivery_policy\<close> reads
  show in its result.
\<close>

definition layer_dict :: "(string \<Rightarrow> bool) \<Rightarrow> string \<times> json \<Rightarrow> string \<times> policy_dict \<Rightarrow> bool" where
  "layer_dict kz raw l \<longleftrightarrow> fst l = fst raw \<and> (\<exists>p. parse_delivery_policy kz True (snd raw) = Inr p \<and> snd l = or_empty p)"

definition resolution_layers :: "json \<Rightarrow> string \<Rightarrow> (string \<times> json) list" where
  "resolution_layers registry name =
     (case group_layer registry (j_get (j_get registry ''projects'') name) of
        Inl _ \<Rightarrow> [] | Inr (_, middle) \<Rightarrow> policy_layers registry name middle)"

lemma merge_layer_Inr: "merge_layer kz raw acc = Inr acc' \<longleftrightarrow> (\<exists>l. layer_dict kz raw l \<and> acc' = merge_labelled l acc)"
proof
  assume "merge_layer kz raw acc = Inr acc'"
  then obtain p where p: "parse_delivery_policy kz True (snd raw) = Inr p"
    "acc' = (case p of None \<Rightarrow> acc | Some d \<Rightarrow> merge_policy (fst raw) d acc)"
    by (auto simp: merge_layer_def)
  then have "layer_dict kz raw (fst raw, or_empty p) \<and> acc' = merge_labelled (fst raw, or_empty p) acc"
    by (auto simp: layer_dict_def or_empty_def merge_labelled_def merge_policy_def split: option.split)
  then show "\<exists>l. layer_dict kz raw l \<and> acc' = merge_labelled l acc" by blast
next
  assume "\<exists>l. layer_dict kz raw l \<and> acc' = merge_labelled l acc"
  then show "merge_layer kz raw acc = Inr acc'"
    by (auto simp: merge_layer_def layer_dict_def or_empty_def merge_labelled_def merge_policy_def split: option.split)
qed

lemma merge_layers: "foldE (merge_layer kz) raws acc = Inr acc' \<longleftrightarrow>
    (\<exists>ls. list_all2 (layer_dict kz) raws ls \<and> acc' = fold merge_labelled ls acc)"
proof (induction raws arbitrary: acc)
  case (Cons raw raws)
  have "foldE (merge_layer kz) (raw # raws) acc = Inr acc' \<longleftrightarrow>
    (\<exists>l. layer_dict kz raw l \<and> (\<exists>ls. list_all2 (layer_dict kz) raws ls \<and> acc' = fold merge_labelled (l # ls) acc))"
    unfolding foldE.simps bindE_eq_Inr merge_layer_Inr Cons.IH fold_simps by blast
  then show ?case unfolding list_all2_Cons1 by blast
qed auto

subsection \<open>The last parse\<close>

lemma effective_get:
  assumes "parse_delivery_policy kz False v = Inr (Some d)" and "(k, p) \<in> set (policy_parsers kz False)"
  shows "\<exists>x. j_has v k \<and> p (j_get v k) = Inr x \<and> dget d k = Some x"
proof -
  have "k \<in> set (map fst (policy_parsers kz False))" using assms(2) by force
  then have "k \<in> set (dkeys d)" using assms(1) by (auto simp: parse_layer_Inr policy_fields_keys [of kz False])
  then have "dget d k \<noteq> None" using dget_in_keys by fast
  moreover have d: "d = parsed (policy_parsers kz False) v"
    and ret: "\<forall>(k, p) \<in> set (policy_parsers kz False). j_has v k \<longrightarrow> returns (p (j_get v k))"
    using assms(1) by (simp_all add: parse_layer_Inr parse_fields_iff)
  ultimately have "j_has v k" using parsed_get [OF _ assms(2), of v] by (auto split: if_split_asm)
  with ret assms(2) obtain x where "p (j_get v k) = Inr x" by (auto simp: returns_iff)
  with \<open>j_has v k\<close> show ?thesis using parsed_get [OF _ assms(2), of v] by (simp add: d)
qed

lemma setdefault_get: "dget (setdefault k x d) k' = (if k' = k \<and> dget d k = None then Some x else dget d k')"
  using dget_in_keys [of d k] by (auto simp: setdefault_def)

lemma validation_defaults_get:
  "dget (validation_defaults d) ''test_commands'' = Some (case dget d ''test_commands'' of Some x \<Rightarrow> x | None \<Rightarrow> J_List [])"
  "dget (validation_defaults d) ''required_reviewers'' = Some (case dget d ''required_reviewers'' of Some x \<Rightarrow> x | None \<Rightarrow> J_Int 1)"
  "dget (validation_defaults d) ''independent_review'' = Some (case dget d ''independent_review'' of Some x \<Rightarrow> x | None \<Rightarrow> J_Bool True)"
  "dget (validation_defaults d) ''require_upstream_policies'' = Some (case dget d ''require_upstream_policies'' of Some x \<Rightarrow> x | None \<Rightarrow> J_Bool True)"
  by (simp_all add: validation_defaults_def setdefault_get split: option.split)

lemma validation_parsed_get:
  assumes "parse_fields validation_parsers v = Inr d" and "(k, p) \<in> set validation_parsers"
  shows "case dget d k of None \<Rightarrow> \<not> j_has v k | Some x \<Rightarrow> j_has v k \<and> p (j_get v k) = Inr x"
proof -
  have d: "d = parsed validation_parsers v" and "j_has v k \<longrightarrow> returns (p (j_get v k))"
    using assms by (auto simp: parse_fields_iff)
  with parsed_get [OF _ assms(2), of v] show ?thesis by (auto simp: returns_iff)
qed

lemma has_item: "j_has v k \<longleftrightarrow> dget (j_items v) k \<noteq> None" "j_has v k \<Longrightarrow> dget (j_items v) k = Some (j_get v k)"
  by (cases v; auto simp: j_has.simps(1) j_get.simps(1) dget_def map_of_eq_None_iff split: option.split)+

lemma effective_validation:
  assumes "validation_policy False v = Inr x"
  shows "set (asked_commands (j_items x)) = set (asked_commands (j_items v)) \<and>
    asked_reviewers (j_items x) = asked_reviewers (j_items v) \<and>
    dget (j_items x) ''independent_review'' = Some (J_Bool True) \<and>
    dget (j_items x) ''require_upstream_policies'' = Some (J_Bool True)"
proof -
  obtain d where d: "parse_fields validation_parsers v = Inr d" and x: "x = J_Obj (validation_defaults d)"
    using assms by (auto simp: validation_policy_Inr)
  note get = validation_parsed_get [OF d]
  have "set (asked_commands (validation_defaults d)) = set (asked_commands (j_items v))"
    using get [of "''test_commands''" test_commands] has_item [of v "''test_commands''"]
    by (auto simp: validation_parsers_def asked_commands_def validation_defaults_get test_commands_Inr split: option.splits)
  moreover have "asked_reviewers (validation_defaults d) = asked_reviewers (j_items v)"
    using get [of "''required_reviewers''" required_reviewers] has_item [of v "''required_reviewers''"]
    by (auto simp: validation_parsers_def asked_reviewers_def validation_defaults_get required_reviewers_Inr split: option.splits)
  moreover have "dget (validation_defaults d) ''independent_review'' = Some (J_Bool True)"
    using get [of "''independent_review''" "always_true ''independent_review''"]
    by (auto simp: validation_parsers_def validation_defaults_get always_true_Inr split: option.splits)
  moreover have "dget (validation_defaults d) ''require_upstream_policies'' = Some (J_Bool True)"
    using get [of "''require_upstream_policies''" "always_true ''require_upstream_policies''"]
    by (auto simp: validation_parsers_def validation_defaults_get always_true_Inr split: option.splits)
  ultimately show ?thesis by (simp add: x)
qed

text \<open>No field of the validation settings gets lost in a policy, whatever the layers.\<close>

lemma effective_policy:
  assumes "parse_delivery_policy kz False (J_Obj m) = Inr (Some d)"
  shows "dget d ''final_merge'' = Some (J_Str ''manual'') \<and>
    dget (policy_validation d) ''independent_review'' = Some (J_Bool True) \<and>
    dget (policy_validation d) ''require_upstream_policies'' = Some (J_Bool True) \<and>
    (\<forall>l. layer_met l m \<longrightarrow> layer_met l d)"
proof -
  have "dget d ''final_merge'' = Some (J_Str ''manual'')"
    using effective_get [OF assms, of "''final_merge''" manual_merge] by (auto simp: policy_parsers_def manual_merge_Inr)
  moreover obtain x where x: "validation_policy False (j_get (J_Obj m) ''validation'') = Inr x" "dget d ''validation'' = Some x"
    using effective_get [OF assms, of "''validation''" "validation_policy False"] by (auto simp: policy_parsers_def)
  moreover have "j_items (j_get (J_Obj m) ''validation'') = policy_validation m" "j_items x = policy_validation d"
    using x(2) by (simp_all add: j_get_obj policy_validation_def split: option.split)
  ultimately show ?thesis
    using effective_validation [OF x(1)] by (simp add: layer_met_def)
qed

subsection \<open>Resolution\<close>

lemma parse_object: "parse_delivery_policy kz partial (J_Obj m) = Inr p \<Longrightarrow> \<exists>d. p = Some d"
  by (cases p) (auto simp: parse_delivery_policy_def split: if_split_asm)

lemma resolve_Inr:
  assumes "resolve_delivery_policy kz registry name = Inr r"
  shows "\<exists>b ls m. builtin_policy (j_get (j_get registry ''projects'') name) = Inr b \<and>
    list_all2 (layer_dict kz) (resolution_layers registry name) ls \<and>
    fold merge_labelled ls (b, builtin_provenance) = (m, rp_provenance r) \<and>
    parse_delivery_policy kz False (J_Obj m) = Inr (Some (rp_policy r))"
proof -
  let ?p = "j_get (j_get registry ''projects'') name"
  from assms obtain b g middle m prov final where
    b: "builtin_policy ?p = Inr b" and g: "group_layer registry ?p = Inr (g, middle)"
    and f: "foldE (merge_layer kz) (policy_layers registry name middle) (b, builtin_provenance) = Inr (m, prov)"
    and final: "parse_delivery_policy kz False (J_Obj m) = Inr final"
    and r: "rp_policy r = or_empty final" "rp_provenance r = prov"
    unfolding resolve_delivery_policy_def Let_def
    by (elim bindE_Inr1E bindE_Inr2E) auto
  obtain d where d: "final = Some d" using parse_object [OF final] by blast
  obtain ls where ls: "list_all2 (layer_dict kz) (policy_layers registry name middle) ls"
    "fold merge_labelled ls (b, builtin_provenance) = (m, prov)"
    using f unfolding merge_layers by metis
  show ?thesis
    using b g final d r ls
    by (intro exI [of _ b] exI [of _ ls] exI [of _ m]) (simp add: resolution_layers_def or_empty_def)
qed

lemma layer_get:
  assumes "parse_delivery_policy kz True v = Inr (Some d)" and "(k, p) \<in> set (policy_parsers kz True)"
    and "dget d k = Some x"
  shows "p x = Inr x"
proof -
  have d: "d = parsed (policy_parsers kz True) v"
    and ret: "\<forall>(k, p) \<in> set (policy_parsers kz True). j_has v k \<longrightarrow> returns (p (j_get v k))"
    using assms(1) by (simp_all add: parse_layer_Inr parse_fields_iff)
  have "j_has v k" "x = projr (p (j_get v k))"
    using assms(3) parsed_get [OF _ assms(2), of v] by (auto simp: d split: if_split_asm)
  with ret assms(2) have "p (j_get v k) = Inr x" by (auto simp: returns_iff)
  with policy_parsers_normal [OF assms(2)] show ?thesis .
qed

lemma layer_dict_ok: "layer_dict kz raw l \<Longrightarrow> dict_ok (snd l)"
  by (auto simp: layer_dict_def or_empty_def parse_layer_Inr parse_fields_iff parsed_keys dict_ok_def split: option.split)

lemma prevails_from: "prevails ls k = Some (v, source) \<Longrightarrow> \<exists>d. (source, d) \<in> set ls \<and> dget d k = Some v"
  by (induction ls k rule: prevails.induct) (auto split: option.split_asm)

lemma builtin_shape: "builtin_policy project = Inr b \<Longrightarrow> \<exists>i base. b = builtin_fields i base"
  unfolding builtin_policy_def by (elim bindE_Inr1E) auto

lemma plain_fields:
  assumes "k \<in> set DELIVERY_POLICY_FIELDS" and "k \<noteq> ''validation''"
  shows "plain_key k"
proof -
  have "list_all (\<lambda>k. k = ''validation'' \<or> plain_key k) DELIVERY_POLICY_FIELDS" by code_simp
  with assms show ?thesis by (auto simp: list_all_iff)
qed

lemma builtin_complete:
  assumes "k \<in> set DELIVERY_POLICY_FIELDS"
  shows "dget (builtin_fields i base) k \<noteq> None \<and> (k \<noteq> ''validation'' \<longrightarrow> dget builtin_provenance k = Some (J_Str ''built-in''))"
proof -
  have "list_all (\<lambda>k. k = ''validation'' \<or> dget builtin_provenance k = Some (J_Str ''built-in'')) DELIVERY_POLICY_FIELDS"
    by code_simp
  moreover have "set (dkeys (builtin_fields i base)) = set DELIVERY_POLICY_FIELDS"
    unfolding builtin_fields_def DELIVERY_POLICY_FIELDS_def by (simp add: insert_commute)
  ultimately show ?thesis
    using assms dget_in_keys [of "builtin_fields i base" k] by (simp only: list_all_iff) blast
qed

text \<open>A trigger that came from a layer parses to itself.\<close>

lemma merged_trigger:
  assumes "list_all2 (layer_dict kz) raws ls" and "prevails ((src, builtin_fields i base) # ls) ''release_trigger'' = Some (t, source)"
  shows "release_trigger kz t = Inr t"
proof -
  obtain d where d: "(source, d) \<in> set ((src, builtin_fields i base) # ls)" "dget d ''release_trigger'' = Some t"
    using prevails_from [OF assms(2)] by blast
  show ?thesis
  proof (cases "d = builtin_fields i base")
    case True
    with d(2) have "t = J_Obj [(''kind'', J_Str ''ready'')]" by (simp add: builtin_fields_def)
    then show ?thesis
      by (simp add: release_trigger_def Let_def j_keys_def j_get.simps DELIVERY_RELEASE_TRIGGERS_def)
  next
    case False
    with d(1) obtain n where n: "n < length ls" "ls ! n = (source, d)" by (auto simp: in_set_conv_nth)
    with assms(1) have "layer_dict kz (raws ! n) (source, d)" using list_all2_nthD2 by fastforce
    with d(2) obtain v where "parse_delivery_policy kz True v = Inr (Some d)"
      by (auto simp: layer_dict_def or_empty_def split: option.splits)
    from layer_get [OF this _ d(2)] show ?thesis by (simp add: policy_parsers_def)
  qed
qed

lemma field_normal:
  assumes "(k, p) \<in> set (policy_parsers kz False)" and "k \<noteq> ''validation''" and "p v = Inr x"
    and "k = ''release_trigger'' \<longrightarrow> release_trigger kz v = Inr v"
  shows "x = v"
  using assms unfolding policy_parsers_def
  by (simp only: list.set insert_iff empty_iff prod.inject simp_thms) (elim disjE conjE; auto simp: parser_Inr dest: branch_prefix_Inr)

end
