(* ===== verification/Delivery_Properties.thy ===== *)
theory Delivery_Properties
  imports Delivery_Resolution
begin

section \<open>Properties of delivery policies\<close>

definition sample_registry :: json where
  "sample_registry = J_Obj
     [(''projects'', J_Obj [(''p'', J_Obj [(''delivery_policy_group'', J_Str ''g''),
         (''delivery_policy'', J_Obj [(''validation'', J_Obj [(''required_reviewers'', J_Int 2)])])])]),
      (''delivery_policy_defaults'', J_Obj [(''pr_update'', J_Str ''freeze_on_ready'')]),
      (''delivery_policy_groups'', J_Obj [(''g'', J_Obj [(''pr_update'', J_Str ''rolling''),
         (''validation'', J_Obj [(''test_commands'', J_List [J_Str ''make''])])])])]"

definition any_zone :: "string \<Rightarrow> bool" where
  "any_zone z = True"

definition sample_resolved :: resolved where
  "sample_resolved = projr (resolve_delivery_policy any_zone sample_registry ''p'')"

lemma sample_evaluated:
  "case resolve_delivery_policy any_zone sample_registry ''p'' of
     Inl _ \<Rightarrow> False
   | Inr r \<Rightarrow> policy_commands (rp_policy r) = [J_Str ''make''] \<and>
       dget (rp_policy r) ''pr_update'' = Some (J_Str ''rolling'') \<and>
       dget (rp_provenance r) ''pr_update'' = Some (J_Str ''group:g'')"
  by code_simp

lemma sample_resolves:
  "resolve_delivery_policy any_zone sample_registry ''p'' = Inr sample_resolved"
  "policy_commands (rp_policy sample_resolved) = [J_Str ''make'']"
  "dget (rp_policy sample_resolved) ''pr_update'' = Some (J_Str ''rolling'')"
  "dget (rp_provenance sample_resolved) ''pr_update'' = Some (J_Str ''group:g'')"
  using sample_evaluated by (auto simp: sample_resolved_def split: sum.splits)

subsection \<open>Layers\<close>

text \<open>
  C25: layers only strengthen what a policy demands. Whatever the global, group and repository layers say,
  the resolved policy merges by hand, demands an independent review and honours upstream policies; and it
  runs every test command and has at least the number of reviewers that any single layer asks for.
\<close>

theorem layers_only_strengthen:
  assumes "resolve_delivery_policy kz registry name = Inr r"
  shows "dget (rp_policy r) ''final_merge'' = Some (J_Str ''manual'') \<and>
    dget (policy_validation (rp_policy r)) ''independent_review'' = Some (J_Bool True) \<and>
    dget (policy_validation (rp_policy r)) ''require_upstream_policies'' = Some (J_Bool True) \<and>
    (\<forall>(source, raw) \<in> set (resolution_layers registry name). \<forall>d.
       parse_delivery_policy kz True raw = Inr (Some d) \<longrightarrow> layer_met d (rp_policy r))"
proof -
  obtain b ls m where ls: "list_all2 (layer_dict kz) (resolution_layers registry name) ls"
    "fold merge_labelled ls (b, builtin_provenance) = (m, rp_provenance r)"
    "parse_delivery_policy kz False (J_Obj m) = Inr (Some (rp_policy r))"
    using resolve_Inr [OF assms] by blast
  note eff = effective_policy [OF ls(3)]
  have "layer_met d (rp_policy r)"
    if raw: "(source, raw) \<in> set (resolution_layers registry name)" and d: "parse_delivery_policy kz True raw = Inr (Some d)"
    for source raw d
  proof -
    obtain l where "l \<in> set ls" "layer_dict kz (source, raw) l"
      using raw ls(1) by (metis in_set_conv_nth list_all2_conv_all_nth)
    then have "(source, d) \<in> set ls" using d by (auto simp: layer_dict_def or_empty_def)
    from layer.fold_meets [OF this, of "(b, builtin_provenance)"] eff ls(2) show ?thesis by simp
  qed
  with eff show ?thesis by blast
qed

theorem layers_only_strengthen_witness:
  "policy_commands (rp_policy sample_resolved) = [J_Str ''make''] \<and>
   layer_met [(''validation'', J_Obj [(''required_reviewers'', J_Int 2)])] (rp_policy sample_resolved)"
proof -
  have "parse_delivery_policy any_zone True (J_Obj [(''validation'', J_Obj [(''required_reviewers'', J_Int 2)])])
      = Inr (Some [(''validation'', J_Obj [(''required_reviewers'', J_Int 2)])])" by code_simp
  moreover have "(''repository:p'', J_Obj [(''validation'', J_Obj [(''required_reviewers'', J_Int 2)])])
      \<in> set (resolution_layers sample_registry ''p'')" by code_simp
  ultimately have "layer_met [(''validation'', J_Obj [(''required_reviewers'', J_Int 2)])] (rp_policy sample_resolved)"
    using layers_only_strengthen [OF sample_resolves(1)] by blast
  with sample_resolves(2) show ?thesis by blast
qed

text \<open>
  The nearest layer wins, and the provenance says which. Every field of the resolved policy but the
  validation settings has the value of the last of built-in, global, group and repository that sets it,
  and its provenance names that layer.
\<close>

theorem nearest_layer_wins:
  assumes "resolve_delivery_policy kz registry name = Inr r"
    and "k \<in> set DELIVERY_POLICY_FIELDS" and "k \<noteq> ''validation''"
  shows "\<exists>b ls v source. builtin_policy (j_get (j_get registry ''projects'') name) = Inr b \<and>
    list_all2 (layer_dict kz) (resolution_layers registry name) ls \<and>
    prevails ((''built-in'', b) # ls) k = Some (v, source) \<and>
    dget (rp_policy r) k = Some v \<and> dget (rp_provenance r) k = Some (J_Str source)"
proof -
  obtain b ls m where b: "builtin_policy (j_get (j_get registry ''projects'') name) = Inr b"
    and ls: "list_all2 (layer_dict kz) (resolution_layers registry name) ls"
    and m: "fold merge_labelled ls (b, builtin_provenance) = (m, rp_provenance r)"
    and final: "parse_delivery_policy kz False (J_Obj m) = Inr (Some (rp_policy r))"
    using resolve_Inr [OF assms(1)] by blast
  obtain i base where shape: "b = builtin_fields i base" using builtin_shape [OF b] by blast
  note base = builtin_complete [OF assms(2), of i base, folded shape]
  obtain v source where v: "prevails ((''built-in'', b) # ls) k = Some (v, source)"
    using base by (cases "prevails ls k") auto
  have "dict_ok (snd l)" if "l \<in> set ls" for l
    using that ls layer_dict_ok by (metis in_set_conv_nth list_all2_conv_all_nth)
  then have "\<forall>(source, d) \<in> set ls. dict_ok d" by force
  from prevails_merge [OF plain_fields [OF assms(2,3)] this, of "(b, builtin_provenance)"] m v base assms(3)
  have "dget m k = Some v" "dget (rp_provenance r) k = Some (J_Str source)"
    by (auto split: option.split_asm)
  moreover from assms(2) obtain p where p: "(k, p) \<in> set (policy_parsers kz False)"
    unfolding policy_fields_keys [of kz False] by auto
  moreover obtain x where "p v = Inr x" "dget (rp_policy r) k = Some x"
    using effective_get [OF final p] calculation(1) by (auto simp: j_get_obj)
  moreover have "k = ''release_trigger'' \<longrightarrow> release_trigger kz v = Inr v"
    using v merged_trigger [OF ls, of "''built-in''" i base v source] by (auto simp: shape)
  ultimately have "dget (rp_policy r) k = Some v"
    using field_normal [OF p assms(3)] by blast
  with b ls v \<open>dget (rp_provenance r) k = Some (J_Str source)\<close> show ?thesis by blast
qed

theorem nearest_layer_wins_witness:
  "dget (rp_policy sample_resolved) ''pr_update'' = Some (J_Str ''rolling'') \<and>
   dget (rp_provenance sample_resolved) ''pr_update'' = Some (J_Str ''group:g'') \<and>
   (\<exists>ls. prevails ls ''pr_update'' = Some (J_Str ''rolling'', ''group:g''))"
proof -
  have "''pr_update'' \<in> set DELIVERY_POLICY_FIELDS" by code_simp
  from nearest_layer_wins [OF sample_resolves(1) this] sample_resolves(3,4) show ?thesis
    by (simp del: prevails.simps) blast
qed

text \<open>
  C26: a validated layer is a normal form. What \<open>parse_delivery_policy\<close> returns for a layer is accepted
  again and returned unchanged, so storing a layer and reading it back does not alter it.
\<close>

theorem layer_parse_is_normal:
  assumes "parse_delivery_policy kz True v = Inr (Some d)"
  shows "parse_delivery_policy kz True (J_Obj d) = Inr (Some d)"
  using assms by (rule parse_layer_normal)

definition sample_layer :: json where
  "sample_layer = J_Obj [(''validation'', J_Obj [(''test_commands'', J_List [J_Str ''make'', J_Str ''make''])]),
     (''release_trigger'', J_Obj [(''schedule'', J_Str ''*/5 0 1-7 * *''), (''kind'', J_Str ''scheduled''), (''timezone'', J_Str ''UTC'')])]"

theorem layer_parse_is_normal_witness:
  "\<exists>d. parse_delivery_policy any_zone True sample_layer = Inr (Some d) \<and> J_Obj d \<noteq> sample_layer \<and>
     parse_delivery_policy any_zone True (J_Obj d) = Inr (Some d)"
proof -
  have "case parse_delivery_policy any_zone True sample_layer of Inr (Some d) \<Rightarrow> J_Obj d \<noteq> sample_layer | _ \<Rightarrow> False" by code_simp
  then obtain d where "parse_delivery_policy any_zone True sample_layer = Inr (Some d)" "J_Obj d \<noteq> sample_layer"
    by (auto split: sum.splits option.splits)
  with layer_parse_is_normal show ?thesis by blast
qed

subsection \<open>Errors\<close>


definition batch_defaults :: json where
  "batch_defaults = J_Obj
     [(''projects'', J_Obj [(''p'', J_Obj [(''delivery_workflow'', J_Obj [(''mode'', J_Str ''integration''), (''base_branch'', J_Str ''main'')])])]),
      (''delivery_policy_defaults'', J_Obj [(''mode'', J_Str ''batch_pr'')])]"


subsection \<open>Activation and compilation\<close>

lemma space_forbidden: "is_space c \<Longrightarrow> forbidden_ref_char c"
  unfolding is_space_def forbidden_ref_char_def Let_def by linarith

lemma dropWhile_none: "(\<And>c. c \<in> set xs \<Longrightarrow> \<not> P c) \<Longrightarrow> dropWhile P xs = xs"
  by (cases xs) auto

text \<open>
  What activation writes, the reader accepts. The record \<open>activate_delivery_policy\<close> makes is one that
  \<open>parse_delivery_policy_activation\<close> returns unchanged, and it names the revision of the policy.
  (\<open>digest\<close> yields 64 lower-case hexadecimal digits.)
\<close>

theorem activation_round_trip:
  assumes "\<forall>j. wf_digest_ok (digest j)" and "activate_delivery_policy kz digest policy = Inr rec"
  shows "parse_delivery_policy_activation rec = Inr rec \<and>
    (\<exists>rev. delivery_policy_revision kz digest policy = Inr rev \<and> j_get rec ''policy_revision'' = J_Str rev)"
proof -
  obtain rev d where r: "delivery_policy_revision kz digest policy = Inr rev" "rec = activation_record rev (''policy:'' @ rev)"
    "rev = take 40 (digest d)"
    using assms(2) by (auto simp: activate_delivery_policy_def delivery_policy_revision_def split: option.splits)
  then have sha: "wf_sha_ok rev"
    using assms(1) by (auto simp: wf_digest_ok_def wf_sha_ok_def list_all_iff dest: in_set_takeD)
  then have "list_all name_char rev" "length rev = 40"
    by (auto simp: wf_sha_ok_def list_all_iff name_char_def alnum_char_def lower_hex_def Let_def)
  moreover have "list_all (\<lambda>x. name_char x \<or> x = CHR '':'') ''olicy:''" "alnum_char (CHR ''p'')" by code_simp+
  ultimately have "activation_id_ok (''policy:'' @ rev)"
    by (auto simp: activation_id_ok_def list_all_iff)
  with sha r show ?thesis
    by (auto simp: parse_delivery_policy_activation_def activation_record_def has_fields_def j_keys_def j_get.simps text_of_def)
qed

definition ticket_policy :: json where
  "ticket_policy = J_Obj (builtin_fields None (J_Str ''main''))"

definition zero_digest :: "json \<Rightarrow> string" where
  "zero_digest j = replicate 64 CHR ''0''"

theorem activation_round_trip_witness:
  "parse_delivery_policy_activation (activation_record (replicate 40 CHR ''0'') (''policy:'' @ replicate 40 CHR ''0'')) =
     Inr (activation_record (replicate 40 CHR ''0'') (''policy:'' @ replicate 40 CHR ''0''))"
proof -
  have "\<forall>j. wf_digest_ok (zero_digest j)" by (simp add: zero_digest_def) code_simp
  moreover have "activate_delivery_policy any_zone zero_digest ticket_policy =
      Inr (activation_record (replicate 40 CHR ''0'') (''policy:'' @ replicate 40 CHR ''0''))" by code_simp
  ultimately show ?thesis using activation_round_trip by blast
qed

text \<open>
  A compiled policy delivers where it says. The legacy setting \<open>compile_delivery_workflow\<close> makes of a
  policy, with the base it returns as the project's ref, is accepted; the project's delivery target is
  that base, and its built-in policy is the ticket-by-ticket policy on that base.
\<close>

theorem compiled_workflow_targets_base:
  assumes "compile_delivery_workflow kz policy = Inr (w, base)"
  shows "\<exists>s. base = J_Str s \<and> git_branch s \<and>
    delivery_target (J_Obj [(''delivery_workflow'', w), (''integration_ref'', base)]) = Inr s \<and>
    builtin_policy (J_Obj [(''delivery_workflow'', w), (''integration_ref'', base)]) = Inr (builtin_fields None base)"
proof -
  obtain d where d: "parse_delivery_policy kz False policy = Inr (Some d)"
    and w: "w = J_Obj [(''mode'', J_Str ''direct'')]" "base = j_get (J_Obj d) ''mapped_base''"
    using assms by (auto simp: compile_delivery_workflow_def split: option.splits)
  obtain s where s: "base = J_Str s" "git_branch s"
    using effective_get [OF d, of "''mapped_base''" "required_branch ''mapped_base''"] w(2)
    by (auto simp: policy_parsers_def required_branch_Inr j_get_obj)
  have direct: "parse_delivery_workflow w = Inr (Some Direct)"
    using w(1) by (simp add: parse_delivery_workflow_def one_of_def j_keys_def j_get.simps)
  have "\<not> list_ex forbidden_ref_char s" using s(2) by (simp add: git_branch_def)
  then have "\<not> is_space c" if "c \<in> set s" for c using that space_forbidden by (auto simp: list_ex_iff)
  then have "dropWhile is_space s = s" "dropWhile is_space (rev s) = rev s"
    by (auto intro: dropWhile_none)
  then have "strip s = s" "s \<noteq> []" using s(2) by (auto simp: strip_def git_branch_def)
  with direct s show ?thesis
    by (simp add: delivery_target_def builtin_policy_def integration_policy_def get_or_def j_get.simps j_has.simps branch_name_def)
qed

theorem compiled_workflow_targets_base_witness:
  "compile_delivery_workflow any_zone ticket_policy = Inr (J_Obj [(''mode'', J_Str ''direct'')], J_Str ''main'') \<and>
   delivery_target (J_Obj [(''delivery_workflow'', J_Obj [(''mode'', J_Str ''direct'')]), (''integration_ref'', J_Str ''main'')])
     = Inr ''main''"
proof -
  have "compile_delivery_workflow any_zone ticket_policy = Inr (J_Obj [(''mode'', J_Str ''direct'')], J_Str ''main'')" by code_simp
  from this compiled_workflow_targets_base [OF this] show ?thesis by auto
qed

end
