(* ===== verification/Seat_Facts.thy ===== *)
theory Seat_Facts
  imports Admin_Contracts
begin

section \<open>Seats that nothing is offered to\<close>

text \<open>
  A seat that is retired or has reported itself not ready is offered nothing by any pass over the queue:
  the passes change of a seat only when it was last offered a ticket, and a new offer goes to a seat that
  fits.
\<close>

definition barred :: "time \<Rightarrow> string \<Rightarrow> world \<Rightarrow> bool" where
  "barred now a w \<longleftrightarrow>
     (\<exists>m. get_member w a = Some m \<and> (lifecycle_status m \<noteq> ''active'' \<or> \<not> member_dispatch_ready m now))"

definition unoffer :: "seat \<Rightarrow> seat" where
  "unoffer m = m\<lparr>last_offered_at := None\<rparr>"

definition same_seats :: "world \<Rightarrow> world \<Rightarrow> bool" where
  "same_seats w w' \<longleftrightarrow> (\<forall>k. map_option unoffer (get_member w' k) = map_option unoffer (get_member w k))"

lemma unoffer_fields:
  assumes "unoffer m' = unoffer m"
  shows "lifecycle_status m' = lifecycle_status m" "member_dispatch_ready m' now = member_dispatch_ready m now"
    "seat_readiness m' = seat_readiness m" "agent_id m' = agent_id m" "caps m' = caps m"
proof -
  have "m' = m\<lparr>last_offered_at := last_offered_at m'\<rparr>"
    using assms by (cases m; cases m') (simp add: unoffer_def)
  then obtain x where "m' = m\<lparr>last_offered_at := x\<rparr>" by blast
  then show "lifecycle_status m' = lifecycle_status m" "member_dispatch_ready m' now = member_dispatch_ready m now"
    "seat_readiness m' = seat_readiness m" "agent_id m' = agent_id m" "caps m' = caps m"
    by (simp_all add: member_dispatch_ready_def)
qed

lemma same_seats_get:
  assumes "same_seats w w'" "get_member w k = Some m"
  obtains m' where "get_member w' k = Some m'" "unoffer m' = unoffer m"
proof -
  have "map_option unoffer (get_member w' k) = Some (unoffer m)" using assms by (simp add: same_seats_def)
  then show thesis using that by auto
qed

lemma same_seats_refl [simp]: "same_seats w w" and same_seats_trans: "same_seats a b \<Longrightarrow> same_seats b c \<Longrightarrow> same_seats a c"
  by (simp_all add: same_seats_def)

lemma same_seats_members: "members (brd w') = members (brd w) \<Longrightarrow> same_seats w w'"
  by (simp add: same_seats_def get_member_def)

lemma barred_kept:
  assumes "same_seats w w'" "barred now a w"
  shows "barred now a w'"
proof -
  obtain m where m: "get_member w a = Some m" "lifecycle_status m \<noteq> ''active'' \<or> \<not> member_dispatch_ready m now"
    using assms(2) by (auto simp: barred_def)
  obtain m' where "get_member w' a = Some m'" "unoffer m' = unoffer m" by (rule same_seats_get [OF assms(1) m(1)])
  moreover from this(2) m(2) have "lifecycle_status m' \<noteq> ''active'' \<or> \<not> member_dispatch_ready m' now"
    using unoffer_fields(1,2) [of m' m] by simp
  ultimately show ?thesis unfolding barred_def by blast
qed

text \<open>What a pass may do to a ticket as the barred seat sees it.\<close>

definition calmer :: "string \<Rightarrow> ticket \<Rightarrow> ticket \<Rightarrow> bool" where
  "calmer a t t' \<longleftrightarrow>
     status t' = status t \<and> review_lease t' = review_lease t \<and> (work t' = work t \<or> work t' = no_work_lease) \<and>
     (\<forall>k off. offers t' k = Some off \<longrightarrow> o_agent_id off = a \<longrightarrow> offers t k = Some off)"

lemma calmer_refl [simp]: "calmer a t t"
  by (simp add: calmer_def)

lemma calmer_trans: "calmer a t t1 \<Longrightarrow> calmer a t1 t2 \<Longrightarrow> calmer a t t2"
  unfolding calmer_def by metis

definition calm :: "time \<Rightarrow> string \<Rightarrow> world \<Rightarrow> world \<Rightarrow> bool" where
  "calm now a w w' \<longleftrightarrow>
     (board_ok w \<longrightarrow> barred now a w \<longrightarrow>
        board_ok w' \<and> same_seats w w' \<and>
        (\<forall>k t'. get_ticket w' k = Some t' \<longrightarrow> (\<exists>t. get_ticket w k = Some t \<and> calmer a t t')))"

lemma calm_refl [simp]: "calm now a w w"
  by (auto simp: calm_def)

lemma calm_trans:
  assumes "calm now a w w1" "calm now a w1 w2"
  shows "calm now a w w2"
proof (cases "board_ok w \<and> barred now a w")
  case True
  then have 1: "board_ok w1" "same_seats w w1"
    and t1: "get_ticket w1 k = Some t1 \<Longrightarrow> \<exists>t. get_ticket w k = Some t \<and> calmer a t t1" for k t1
    using assms(1) by (simp_all add: calm_def)
  from True 1 have "barred now a w1" by (blast intro: barred_kept)
  with 1 have 2: "board_ok w2" "same_seats w1 w2"
    and t2: "get_ticket w2 k = Some t2 \<Longrightarrow> \<exists>t. get_ticket w1 k = Some t \<and> calmer a t t2" for k t2
    using assms(2) by (simp_all add: calm_def)
  have "\<exists>t. get_ticket w k = Some t \<and> calmer a t t2" if "get_ticket w2 k = Some t2" for k t2
    using t2 [OF that] t1 calmer_trans by blast
  with 1 2 same_seats_trans show ?thesis unfolding calm_def by blast
qed (auto simp: calm_def)

lemma dispatched_seats:
  assumes "board_ok w" "dispatched now k w t w' t'"
  shows "same_seats w w'"
proof (cases "members (brd w') = members (brd w)")
  case True
  then show ?thesis by (rule same_seats_members)
next
  case False
  with assms(2) obtain key m where m: "(key, m) \<in> set (members (brd w))"
    "members (brd w') = dset key (m\<lparr>last_offered_at := Some now\<rparr>) (members (brd w))"
    unfolding dispatched_def by blast
  have "get_member w key = Some m"
    using assms(1) dict_ok_lookup [OF _ m(1)] by (simp add: board_ok_def get_member_def)
  moreover have "get_member w' j = (if j = key then Some (m\<lparr>last_offered_at := Some now\<rparr>) else get_member w j)" for j
    by (simp add: get_member_def m(2))
  ultimately show ?thesis by (simp add: same_seats_def unoffer_def)
qed

lemma dispatched_calmer:
  assumes ok: "board_ok w" and b: "barred now a w" and d: "dispatched now k w t w' t'"
  shows "calmer a t t'"
proof -
  have "offers t j = Some off" if o: "offers t' j = Some off" "o_agent_id off = a" for j off
  proof (cases "offers t' j = offers t j")
    case False
    with d have "j = k" by (auto simp: dispatched_def)
    with False d obtain key m c where m: "(key, m) \<in> set (members (brd w))" "fits w t' now k m"
      and off: "offers t' k = Some (new_offer w t now k m\<lparr>o_cycle := c\<rparr>)"
      unfolding dispatched_def by blast
    have g: "get_member w key = Some m"
      using ok dict_ok_lookup [OF _ m(1)] by (simp add: board_ok_def get_member_def)
    have "agent_id m = a" using o off \<open>j = k\<close> by (auto simp: new_offer_def)
    moreover have "agent_id m = key" using ok g by (simp add: board_ok_def)
    ultimately have "get_member w a = Some m" using g by simp
    with b m(2) show ?thesis by (auto simp: barred_def fits_def matches_requirements_iff)
  qed (use o in simp)
  with d show ?thesis by (simp add: calmer_def dispatched_def same_ticket_def)
qed

lemma calm_store:
  assumes g: "get_ticket w key = Some t" and tk: "tickets (brd w') = tickets (brd w)"
    and c: "board_ok w \<Longrightarrow> barred now a w \<Longrightarrow> board_ok w' \<and> same_seats w w' \<and> calmer a t t' \<and> ticket_id t' = ticket_id t"
  shows "calm now a w (put_ticket key t' w')"
proof (cases "board_ok w \<and> barred now a w")
  case True
  with c have ok: "board_ok w'" "same_seats w w'" "calmer a t t'" "ticket_id t' = ticket_id t" by simp_all
  have "ticket_id t' = key" using True g ok(4) by (simp add: board_ok_def)
  moreover have "get_member (put_ticket key t' w') j = get_member w' j" for j by simp
  ultimately show ?thesis using ok g get_ticket_tickets [OF tk]
    by (auto simp: calm_def same_seats_def)
qed (auto simp: calm_def)

lemma dispatched_calm:
  assumes "get_ticket w key = Some t" and d: "dispatched now k w t w' t'"
  shows "calm now a w (put_ticket key t' w')"
proof (rule calm_store [OF assms(1)])
  show "tickets (brd w') = tickets (brd w)" using d by (simp add: dispatched_def)
  show "board_ok w' \<and> same_seats w w' \<and> calmer a t t' \<and> ticket_id t' = ticket_id t" if "board_ok w" "barred now a w"
    using that dispatched_seats [OF that(1) d] dispatched_calmer [OF that d] dispatched_moved [OF d] d
    by (simp add: moved_def dispatched_def same_ticket_def same_record_def)
qed

subsection \<open>The passes over the queue\<close>

locale calm_sweep =
  fixes doc :: "'s \<Rightarrow> world" and step :: "time \<Rightarrow> string \<Rightarrow> 's \<Rightarrow> 's result"
  assumes step_calm: "step now key s = Inr s' \<Longrightarrow> calm now a (doc s) (doc s')"
begin

lemma sweep_calm: "foldE (step now) ks s = Inr s' \<Longrightarrow> calm now a (doc s) (doc s')"
  by (erule foldE_invariant [where P = "\<lambda>x. calm now a (doc s) (doc x)"]) (auto intro: calm_trans step_calm)

end

lemma dispatch_stored_calm: "dispatch_stored now k p key s = Inr s' \<Longrightarrow> calm now a (fst s) (fst s')"
  using dispatched_calm [OF _ dispatch_ticket_dispatched] by (auto simp: dispatch_stored_def split: option.split_asm)

lemma redispatch_key_calm: "redispatch_key now key s = Inr s' \<Longrightarrow> calm now a (fst s) (fst s')"
  using dispatch_stored_calm by (auto simp: redispatch_key_def split: option.split_asm if_split_asm)

interpretation redispatch_calm: calm_sweep fst redispatch_key
  by unfold_locales (rule redispatch_key_calm)

lemma check_offer_calmer:
  "check_offer now k (w, t, res, evs) = (w', t', res', evs') \<Longrightarrow> w' = w \<and> calmer a t t' \<and> ticket_id t' = ticket_id t"
  by (auto simp: check_offer_def calmer_def withdraw_offer_def split: option.split_asm if_split_asm)

lemma check_ticket_offers_calm: "calm now a (fst s) (fst (check_ticket_offers now key s))"
proof -
  obtain w res evs where s: "s = (w, res, evs)" by (metis prod_cases3)
  show ?thesis
  proof (cases "get_ticket w key")
    case None
    then show ?thesis by (simp add: check_ticket_offers_def s)
  next
    case (Some t)
    obtain w1 t1 where r: "reconcile_inactive_work_ownership now (w, t) = (w1, t1)" by fastforce
    obtain w2 t2 r2 e2 where c1: "check_offer now Work (w1, t1, res, evs) = (w2, t2, r2, e2)"
      by (metis prod_cases4)
    obtain w3 t3 r3 e3 where c2: "check_offer now Review (w2, t2, r2, e2) = (w3, t3, r3, e3)"
      by (metis prod_cases4)
    have d: "dispatched now Work w t w1 t1" using reconcile_quiet [of w t now] r quiet_dispatched by simp
    have "calm now a w (put_ticket key t3 w1)"
    proof (rule calm_store [OF Some])
      show "tickets (brd w1) = tickets (brd w)" using d by (simp add: dispatched_def)
      show "board_ok w1 \<and> same_seats w w1 \<and> calmer a t t3 \<and> ticket_id t3 = ticket_id t"
        if "board_ok w" "barred now a w"
        using dispatched_seats [OF that(1) d] dispatched_calmer [OF that d] dispatched_moved [OF d] that d
          check_offer_calmer [OF c1, of a] check_offer_calmer [OF c2, of a]
        by (auto simp: moved_def dispatched_def same_ticket_def same_record_def intro: calmer_trans)
    qed
    moreover have "w2 = w1" "w3 = w1"
      using check_offer_calmer [OF c1, of a] check_offer_calmer [OF c2, of a] by simp_all
    ultimately show ?thesis
      using c2 by (simp add: check_ticket_offers_def Some s r c1)
  qed
qed

interpretation check_calm: calm_sweep fst "\<lambda>now key s. Inr (check_ticket_offers now key s)"
  by unfold_locales (metis check_ticket_offers_calm sum.inject(2))

lemma retry_waiting_calm: "calm now a w (retry_waiting key w)"
  by (auto simp: retry_waiting_def calmer_def intro!: calm_store split: option.split)

interpretation retry_calm: calm_sweep id "\<lambda>now key w. Inr (retry_waiting key w)"
  by unfold_locales (metis retry_waiting_calm id_apply sum.inject(2))

lemma reconcile_invalid_calm: "calm now a w (fst (reconcile_invalid_dispatch_offers w now))"
proof -
  let ?ks = "queue_order w"
  obtain w1 res evs where f: "fold (check_ticket_offers now) ?ks (w, [], []) = (w1, res, evs)"
    by (metis prod_cases3)
  have "calm now a w w1"
    using check_calm.sweep_calm [where now = now and ks = ?ks and s = "(w, [], [])" and a = a] f by (simp add: foldE_Inr)
  moreover have "calm now a w1 (fold retry_waiting ?ks w1)"
    using retry_calm.sweep_calm [where now = now and ks = ?ks and s = w1 and a = a] by (simp add: foldE_Inr)
  ultimately show ?thesis
    using f calm_trans by (auto simp: reconcile_invalid_dispatch_offers_def Let_def)
qed

lemma redispatch_queue_calm:
  assumes "redispatch_queue w now = Inr (w', evs)"
  shows "calm now a w w'"
proof -
  obtain w1 e1 where r: "reconcile_invalid_dispatch_offers w now = (w1, e1)" by fastforce
  have 1: "calm now a w w1" using reconcile_invalid_calm [of now a w] r by simp
  show ?thesis
  proof (cases "dispatch_enabled (brd w1)")
    case False
    with assms r 1 show ?thesis by (simp add: redispatch_queue_def)
  next
    case True
    with assms r have "foldE (redispatch_key now) (queue_order w1) (w1, e1) = Inr (w', evs)"
      by (simp add: redispatch_queue_def)
    from calm_trans [OF 1] redispatch_calm.sweep_calm [OF this] show ?thesis by simp
  qed
qed

subsection \<open>Withdrawing every offer of a seat\<close>

text \<open>No ticket offers the seat anything that its status allows; none offers it anything at all.\<close>

definition unoffered :: "string \<Rightarrow> ticket \<Rightarrow> bool" where
  "unoffered a t \<longleftrightarrow> (\<forall>k off. offers t k = Some off \<longrightarrow> o_agent_id off \<noteq> a)"

definition not_awaited :: "string \<Rightarrow> ticket \<Rightarrow> bool" where
  "not_awaited a t \<longleftrightarrow>
     (\<forall>k off. offerable_kind t = Some k \<longrightarrow> offers t k = Some off \<longrightarrow> o_agent_id off \<noteq> a)"

lemma calmer_unoffered: "calmer a t t' \<Longrightarrow> unoffered a t \<Longrightarrow> unoffered a t'"
  unfolding calmer_def unoffered_def by blast

lemma calmer_not_awaited:
  assumes "calmer a t t'" "not_awaited a t"
  shows "not_awaited a t'"
proof -
  have "offerable_kind t' = offerable_kind t" using assms(1) by (simp add: calmer_def offerable_kind_def)
  with assms show ?thesis unfolding calmer_def not_awaited_def by metis
qed

lemma calm_tickets:
  assumes "calm now a w w'" "board_ok w" "barred now a w" "get_ticket w' k = Some t'"
  obtains t where "get_ticket w k = Some t" "calmer a t t'"
  using assms unfolding calm_def by blast

lemma withdraw_unready_done:
  assumes "get_ticket (fst (withdraw_unready m key s)) key = Some t"
  shows "not_awaited (agent_id m) t"
  using assms
  by (auto simp: withdraw_unready_def not_awaited_def own_offer_def offerable_kind_def split: option.split_asm if_split_asm)

lemma withdraw_all_done:
  assumes "dict_ok (tickets (brd w))" and "get_ticket (fst (fold (withdraw_unready m) (dkeys (tickets (brd w))) (w, []))) k = Some t"
  shows "not_awaited (agent_id m) t"
proof -
  let ?ks = "dkeys (tickets (brd w))" and ?w' = "fst (fold (withdraw_unready m) (dkeys (tickets (brd w))) (w, []))"
  have f: "foldE (\<lambda>key s. Inr (withdraw_unready m key s)) ?ks (w, []) = Inr (fold (withdraw_unready m) ?ks (w, []))"
    by (rule foldE_Inr)
  show ?thesis
  proof (cases "k \<in> set ?ks")
    case True
    have "\<forall>t. get_ticket ?w' k = Some t \<longrightarrow> not_awaited (agent_id m) t"
      by (rule unready.sweep_establishes [OF f _ True, where I = "\<lambda>_. True"
            and Q = "\<lambda>x. \<forall>t. x = Some t \<longrightarrow> not_awaited (agent_id m) t"])
        (use assms(1) withdraw_unready_done in \<open>auto simp: dict_ok_def\<close>)
    with assms(2) show ?thesis by blast
  next
    case False
    with unready.sweep_local [OF f False] assms(2) dget_in_keys [of "tickets (brd w)" k] show ?thesis
      by (simp add: get_ticket_def)
  qed
qed

lemma revoke_offer_one:
  "offers (fst (revoke_offer m now reason k s)) j = Some off \<Longrightarrow>
     offers (fst s) j = Some off \<and> (j = k \<longrightarrow> o_agent_id off \<noteq> agent_id m)"
  by (auto simp: revoke_offer_def split: option.split_asm if_split_asm)

lemma revoke_both: "unoffered (agent_id m) (fst (revoke_offer m now reason Review (revoke_offer m now reason Work s)))"
  unfolding unoffered_def
proof (intro allI impI)
  fix k off
  assume o: "offers (fst (revoke_offer m now reason Review (revoke_offer m now reason Work s))) k = Some off"
  show "o_agent_id off \<noteq> agent_id m"
    using revoke_offer_one [OF o] revoke_offer_one [OF conjunct1 [OF revoke_offer_one [OF o]]] by (cases k) simp_all
qed

lemma revoke_done:
  assumes "get_ticket (fst (revoke_ticket_offers m now reason key s)) key = Some t"
  shows "unoffered (agent_id m) t"
proof -
  obtain u where "t = fst (revoke_offer m now reason Review (revoke_offer m now reason Work u))"
    using assms by (auto simp: revoke_ticket_offers_def case_prod_unfold Let_def split: option.split_asm)
  with revoke_both show ?thesis by simp
qed

lemma revoke_all_done:
  assumes "dict_ok (tickets (brd w))" and "get_ticket (fst (revoke_agent_offers w m now reason)) k = Some t"
  shows "unoffered (agent_id m) t"
proof -
  let ?ks = "dkeys (tickets (brd w))" and ?w' = "fst (revoke_agent_offers w m now reason)"
  have f: "foldE (\<lambda>key s. Inr (revoke_ticket_offers m now reason key s)) ?ks (w, []) =
      Inr (fold (revoke_ticket_offers m now reason) ?ks (w, []))"
    by (rule foldE_Inr)
  show ?thesis
  proof (cases "k \<in> set ?ks")
    case True
    have "\<forall>t. get_ticket ?w' k = Some t \<longrightarrow> unoffered (agent_id m) t"
      unfolding revoke_agent_offers_def
      by (rule revoke.sweep_establishes [OF f _ True, where I = "\<lambda>_. True"
            and Q = "\<lambda>x. \<forall>t. x = Some t \<longrightarrow> unoffered (agent_id m) t"])
        (use assms(1) revoke_done in \<open>auto simp: dict_ok_def\<close>)
    with assms(2) show ?thesis by blast
  next
    case False
    with revoke.sweep_local [OF f False] assms(2) dget_in_keys [of "tickets (brd w)" k] show ?thesis
      by (simp add: get_ticket_def revoke_agent_offers_def)
  qed
qed

subsection \<open>Leases\<close>

text \<open>The leases a pass leaves on a ticket are among those it had.\<close>

lemma calmer_lease:
  assumes "calmer b t t'" and "work_commitment t' a now" and "epoch_may_be_live (lease_expires_at_epoch (work t')) now"
  shows "work_commitment t a now \<and> work t' = work t"
proof -
  have "claimed_by_agent_id (work t') \<noteq> None" using assms(2) by (simp add: work_commitment_def)
  then have "work t' = work t" using assms(1) by (auto simp: calmer_def no_work_lease_def)
  with assms work_commitment_cong [of t' t] show ?thesis by (simp add: calmer_def)
qed

definition calmer_tickets :: "string \<Rightarrow> world \<Rightarrow> world \<Rightarrow> bool" where
  "calmer_tickets b w w' \<longleftrightarrow>
     (\<forall>k t'. get_ticket w' k = Some t' \<longrightarrow> (\<exists>t. get_ticket w k = Some t \<and> calmer b t t'))"

lemma calmer_tickets_refl [simp]: "calmer_tickets b w w"
  by (simp add: calmer_tickets_def)

lemma calmer_tickets_trans: "calmer_tickets b w w1 \<Longrightarrow> calmer_tickets b w1 w2 \<Longrightarrow> calmer_tickets b w w2"
  unfolding calmer_tickets_def by (meson calmer_trans)

lemma calm_calmer_tickets: "calm now b w w' \<Longrightarrow> board_ok w \<Longrightarrow> barred now b w \<Longrightarrow> calmer_tickets b w w'"
  by (simp add: calm_def calmer_tickets_def)

lemma revoke_calmer_tickets: "calmer_tickets b w (fst (revoke_agent_offers w m now reason))"
proof -
  have one: "calmer_tickets b (fst s) (fst (revoke_ticket_offers m now reason key s))" for key s
  proof (cases "get_ticket (fst s) key")
    case (Some t)
    have o: "calmer b (fst u) (fst (revoke_offer m now reason k u))" for k u
      by (auto simp: revoke_offer_def calmer_def split: option.split)
    have "calmer b t (fst (revoke_offer m now reason Review (revoke_offer m now reason Work (t, snd s))))"
      using calmer_trans [OF o [of "(t, snd s)"] o] by simp
    with Some show ?thesis by (simp add: calmer_tickets_def revoke_ticket_offers_def case_prod_unfold Let_def)
  qed (simp add: revoke_ticket_offers_def)
  have "calmer_tickets b (fst s) (fst (fold (revoke_ticket_offers m now reason) ks s))" for ks s
  proof (induction ks arbitrary: s)
    case (Cons k ks)
    from calmer_tickets_trans [OF one Cons.IH] show ?case by simp
  qed simp
  then show ?thesis by (metis fst_conv revoke_agent_offers_def)
qed

lemma calmer_tickets_leases:
  assumes c: "calmer_tickets b w w'" and ok': "board_ok w'" and l: "member_has_live_lease w' a now"
  shows "member_has_live_lease w a now"
proof -
  obtain t' where t': "t' \<in> set (dvalues (tickets (brd w')))" and h: "(work_commitment t' a now \<and> epoch_may_be_live (lease_expires_at_epoch (work t')) now) \<or>
        (status t' = ''submitted'' \<and>
         (case review_lease t' of
            RS_Lease l \<Rightarrow> reviewer_agent_id l = Some a \<and>
              epoch_may_be_live (case expires_at_epoch l of None \<Rightarrow> E_Null | Some e \<Rightarrow> e) now
          | _ \<Rightarrow> False))"
    using l by (auto simp: member_has_live_lease_def list_ex_iff)
  obtain k where "(k, t') \<in> set (tickets (brd w'))" using t' by (auto simp: dvalues_def)
  then have "get_ticket w' k = Some t'"
    using ok' dict_ok_lookup [of "tickets (brd w')"] by (simp add: board_ok_def get_ticket_def)
  then obtain t where t: "get_ticket w k = Some t" "calmer b t t'" using c unfolding calmer_tickets_def by blast
  have "t \<in> set (dvalues (tickets (brd w)))"
    using dget_in_values [of "tickets (brd w)" k t] t(1) by (force simp: get_ticket_def dvalues_def)
  moreover have "(work_commitment t a now \<and> epoch_may_be_live (lease_expires_at_epoch (work t)) now) \<or>
        (status t = ''submitted'' \<and>
         (case review_lease t of
            RS_Lease l \<Rightarrow> reviewer_agent_id l = Some a \<and>
              epoch_may_be_live (case expires_at_epoch l of None \<Rightarrow> E_Null | Some e \<Rightarrow> e) now
          | _ \<Rightarrow> False))"
    using h calmer_lease [OF t(2)] t(2) by (auto simp: calmer_def)
  ultimately show ?thesis by (auto simp: member_has_live_lease_def list_ex_iff)
qed

subsection \<open>Seats across the passes, barred or not\<close>

lemma dispatch_stored_seats:
  "dispatch_stored now k p key s = Inr s' \<Longrightarrow> board_ok (fst s) \<Longrightarrow> same_seats (fst s) (fst s')"
  using dispatched_seats [OF _ dispatch_ticket_dispatched]
  by (auto simp: dispatch_stored_def same_seats_def split: option.split_asm)

lemma redispatch_keys_seats:
  assumes "foldE (redispatch_key now) ks s = Inr s'" "board_ok (fst s)"
  shows "board_ok (fst s') \<and> same_seats (fst s) (fst s')"
proof (rule foldE_invariant [OF assms(1)])
  fix x u u'
  assume i: "board_ok (fst u) \<and> same_seats (fst s) (fst u)" and st: "redispatch_key now x u = Inr u'"
  have "same_seats (fst u) (fst u')"
    using st i dispatch_stored_seats by (auto simp: redispatch_key_def split: option.split_asm if_split_asm)
  moreover have "board_ok (fst u')" using redispatch.step_safe [OF st] i by (simp add: safe_world_def)
  ultimately show "board_ok (fst u') \<and> same_seats (fst s) (fst u')" using i same_seats_trans by blast
qed (use assms(2) in simp)

lemma check_ticket_offers_members: "members (brd (fst (check_ticket_offers now key s))) = members (brd (fst s))"
proof -
  obtain w res evs where s: "s = (w, res, evs)" by (metis prod_cases3)
  show ?thesis
  proof (cases "get_ticket w key")
    case (Some t)
    obtain w1 t1 where r: "reconcile_inactive_work_ownership now (w, t) = (w1, t1)" by fastforce
    obtain w2 t2 r2 e2 where c1: "check_offer now Work (w1, t1, res, evs) = (w2, t2, r2, e2)" by (metis prod_cases4)
    obtain w3 t3 r3 e3 where c2: "check_offer now Review (w2, t2, r2, e2) = (w3, t3, r3, e3)" by (metis prod_cases4)
    have "brd w1 = brd w" using r by (metis fst_conv reconcile_frame(1))
    moreover have "w2 = w1" "w3 = w2" using check_offer_calmer [OF c1] check_offer_calmer [OF c2] by simp_all
    ultimately show ?thesis using c2 by (simp add: check_ticket_offers_def Some s r c1)
  qed (simp add: check_ticket_offers_def s)
qed

lemma fold_members:
  "(\<And>k s. members (brd (doc (f k s))) = members (brd (doc s))) \<Longrightarrow> members (brd (doc (fold f ks s))) = members (brd (doc s))"
  by (induction ks arbitrary: s) simp_all

lemma reconcile_invalid_members: "members (brd (fst (reconcile_invalid_dispatch_offers w now))) = members (brd w)"
proof -
  obtain w1 res evs where f: "fold (check_ticket_offers now) (queue_order w) (w, [], []) = (w1, res, evs)"
    by (metis prod_cases3)
  have 1: "members (brd w1) = members (brd w)"
    using fold_members [of fst "check_ticket_offers now" "queue_order w" "(w, [], [])", OF check_ticket_offers_members] f
    by simp
  have "members (brd (fold retry_waiting ks u)) = members (brd u)" for ks u
    by (rule fold_members [where doc = "\<lambda>x. x"]) (simp add: retry_waiting_def split: option.split)
  with 1 f show ?thesis by (simp add: reconcile_invalid_dispatch_offers_def Let_def)
qed

lemma redispatch_queue_seats:
  assumes q: "redispatch_queue w now = Inr (w', evs)" and ok: "board_ok w"
  shows "same_seats w w'"
proof -
  obtain w1 e1 where r: "reconcile_invalid_dispatch_offers w now = (w1, e1)" by fastforce
  have 1: "same_seats w w1" using reconcile_invalid_members [of w now] r by (simp add: same_seats_members)
  have ok1: "board_ok w1" using reconcile_invalid_safe [of now w] r ok by (simp add: safe_world_def)
  show ?thesis
  proof (cases "dispatch_enabled (brd w1)")
    case False
    with q r 1 show ?thesis by (simp add: redispatch_queue_def)
  next
    case True
    with q r have "foldE (redispatch_key now) (queue_order w1) (w1, e1) = Inr (w', evs)"
      by (simp add: redispatch_queue_def)
    from redispatch_keys_seats [OF this] ok1 1 same_seats_trans show ?thesis by simp
  qed
qed

lemma withdraw_members: "members (brd (fst (fold (withdraw_unready m) ks s))) = members (brd (fst s))"
  by (rule fold_members) (simp add: withdraw_unready_def split: option.split)

lemma revoke_members: "members (brd (fst (revoke_agent_offers w m now reason))) = members (brd w)"
proof -
  have "members (brd (fst (fold (revoke_ticket_offers m now reason) ks s))) = members (brd (fst s))" for ks s
    by (rule fold_members) (simp add: revoke_ticket_offers_def case_prod_unfold Let_def split: option.split)
  then show ?thesis by (simp add: revoke_agent_offers_def)
qed

end
