(* ===== verification/Admin_Properties.thy ===== *)
theory Admin_Properties
  imports Seat_Facts Sample_Board
begin

section \<open>What the tools on seats and on requirements promise\<close>

text \<open>
  C28: A report of readiness is stored only when it moves its session forward or replaces one that is not
  ready, and a seat that reports itself not ready is afterwards offered nothing that a ticket waits for.
\<close>

theorem unready_seat_is_offered_nothing:
  assumes "readiness_with_actor w actor v replace now rel ren = Inr (w', r)" and ok: "board_ok w"
  shows "\<exists>x m. normalized_readiness v now = Inr x \<and> get_member w' (agent_id actor) = Some m \<and>
      seat_readiness m = Some x \<and>
      (\<forall>prev. seat_readiness actor = Some prev \<longrightarrow>
         (if session_id prev = session_id x then sequence prev < sequence x
          else replace \<and> \<not> (readiness_is_current prev now \<and> member_dispatch_ready actor now))) \<and>
      (\<not> member_dispatch_ready m now \<longrightarrow>
         (\<forall>k t j off. get_ticket w' k = Some t \<longrightarrow> offerable_kind t = Some j \<longrightarrow> offers t j = Some off \<longrightarrow>
            o_agent_id off \<noteq> agent_id actor))"
proof -
  obtain x where x: "normalized_readiness v now = Inr x" and s: "check_session actor x replace now = Inr ()"
    and c: "\<exists>evs. store_readiness w actor x now = Inr (w', evs)"
    using assms(1) by (auto simp: readiness_with_actor_def seats_reply_def)
  define m where "m = actor\<lparr>seat_readiness := Some x, readiness_updated_at := Some (r_observed_at x)\<rparr>"
  define w1 where "w1 = put_member (agent_id actor) m w"
  have ok1: "board_ok w1" using ok by (simp add: w1_def m_def)
  obtain w2 revoked where w2: "(if member_dispatch_ready m now then (w1, [])
      else fold (withdraw_unready m) (dkeys (tickets (brd w1))) (w1, [])) = (w2, revoked)" by fastforce
  from c [unfolded store_readiness_def Let_def, folded m_def, folded w1_def] w2
  obtain evs where q: "redispatch_queue w2 now = Inr (w', evs)" by auto
  have "safe_world now w1 w2"
    using w2 unready.sweep_safe [where m = m and now = now and ks = "dkeys (tickets (brd w1))" and s = "(w1, [])"]
    by (auto simp: foldE_Inr split: if_split_asm)
  with ok1 have ok2: "board_ok w2" by (simp add: safe_world_def)
  have mem2: "members (brd w2) = members (brd w1)"
    using w2 withdraw_members [of m "dkeys (tickets (brd w1))" "(w1, [])"] by (auto split: if_split_asm)
  have m2: "get_member w2 (agent_id actor) = Some m" by (simp add: get_member_def mem2) (simp add: w1_def)
  obtain m' where m': "get_member w' (agent_id actor) = Some m'" "unoffer m' = unoffer m"
    using redispatch_queue_seats [OF q ok2] m2 by (metis same_seats_get)
  have "\<not> member_dispatch_ready m' now \<longrightarrow> not_awaited (agent_id actor) t" if t: "get_ticket w' k = Some t" for k t
  proof
    assume "\<not> member_dispatch_ready m' now"
    then have n: "\<not> member_dispatch_ready m now" using unoffer_fields(2) [OF m'(2)] by simp
    then have "barred now (agent_id actor) w2" using m2 by (auto simp: barred_def)
    from calm_tickets [OF redispatch_queue_calm [OF q] ok2 this t] obtain t2 where
      t2: "get_ticket w2 k = Some t2" "calmer (agent_id actor) t2 t" .
    have "not_awaited (agent_id m) t2"
      using withdraw_all_done [of w1 m k t2] w2 n t2(1) ok1 by (simp add: board_ok_def)
    with t2(2) show "not_awaited (agent_id actor) t" by (simp add: m_def calmer_not_awaited)
  qed
  moreover have "seat_readiness m' = Some x" using unoffer_fields(3) [OF m'(2)] by (simp add: m_def)
  moreover have "if session_id prev = session_id x then sequence prev < sequence x
          else replace \<and> \<not> (readiness_is_current prev now \<and> member_dispatch_ready actor now)"
    if "seat_readiness actor = Some prev" for prev
    using s that by (auto simp: check_session_def Let_def split: if_split_asm)
  ultimately show ?thesis using x m'(1) unfolding not_awaited_def by blast
qed

definition sample_report :: json where
  "sample_report = J_Obj [(''transport_connected'', J_Bool True), (''session_idle'', J_Bool True),
     (''foreground_running'', J_Bool False), (''dispatch_ready'', J_Bool False), (''managed_autonomous'', J_Bool False),
     (''session_id'', J_Str ''s1''), (''sequence'', J_Int 1)]"

lemma empty_redispatch: "tickets (brd w) = [] \<Longrightarrow> redispatch_queue w now = Inr (w, [])"
  by (simp add: redispatch_queue_def reconcile_invalid_dispatch_offers_def queue_order_def)

lemma sample_report_accepted: "normalized_readiness sample_report 5 =
    Inr \<lparr> transport_connected = True, session_idle = True, foreground_running = False, dispatch_ready = False,
      managed_autonomous = False, session_id = ''s1'', sequence = 1, r_ttl_s = 360, r_observed_at = 5,
      r_expires_at_epoch = 5 + secs 360 \<rparr>"
  by code_simp

theorem unready_seat_is_offered_nothing_witness:
  "\<exists>w' r m. readiness_with_actor (sample_world []) (sample_seat ''w1'' ''p1'' ''worker'') sample_report False 5 [] [] = Inr (w', r) \<and>
     get_member w' ''w1'' = Some m \<and> \<not> member_dispatch_ready m 5"
proof -
  obtain x where x: "normalized_readiness sample_report 5 = Inr x" "\<not> dispatch_ready x"
    using sample_report_accepted by simp
  have "\<exists>w' r. readiness_with_actor (sample_world []) (sample_seat ''w1'' ''p1'' ''worker'') sample_report False 5 [] [] = Inr (w', r)"
    by (simp add: readiness_with_actor_def x check_session_def store_readiness_def seats_reply_def empty_redispatch
        sample_world_def sample_seat_def dkeys_def Let_def)
  then obtain w' r where c: "readiness_with_actor (sample_world []) (sample_seat ''w1'' ''p1'' ''worker'') sample_report False 5 [] [] = Inr (w', r)"
    by blast
  have "board_ok (sample_world [])"
    by (simp add: board_ok_def sample_defs dict_ok_def dkeys_def get_ticket_def get_member_def)
  from unready_seat_is_offered_nothing [OF c this] x c show ?thesis
    by (auto simp: sample_seat_def member_dispatch_ready_def)
qed

lemma retire_seat_done:
  assumes r: "retire_seat w m now why reason by = (w', evs, changed)" and g: "get_member w a = Some m" and ok: "board_ok w"
  shows "\<exists>m'. get_member w' a = Some m' \<and> lifecycle_status m' = ''retired''"
    and "get_ticket w' k = Some t \<Longrightarrow> unoffered a t" and "board_ok w'"
proof -
  obtain w1 revoked where w1: "revoke_agent_offers w m now why = (w1, revoked)" by fastforce
  obtain w2 ev where w2: "lifecycle_transition w1 (agent_id m) m now ''retired'' reason by = (w2, ev)" by fastforce
  have w': "w' = w2" using r by (simp add: retire_seat_def w1 w2)
  have a: "agent_id m = a" using g ok by (simp add: board_ok_def)
  have "get_member w1 a = Some m" using revoke_members [of w m now why] w1 g by (simp add: get_member_def)
  with w2 a show "\<exists>m'. get_member w' a = Some m' \<and> lifecycle_status m' = ''retired''"
    by (auto simp: w' lifecycle_transition_def Let_def split: if_split_asm)
  have "tickets (brd w2) = tickets (brd w1)" using w2 by (auto simp: lifecycle_transition_def Let_def split: if_split_asm)
  with revoke_all_done [of w m now why k t] ok w1 a show "get_ticket w' k = Some t \<Longrightarrow> unoffered a t"
    by (simp add: w' board_ok_def get_ticket_def)
  show "board_ok w'"
    using revoke_agent_offers_safe [of now w m why] lifecycle_transition_safe [OF refl, of now w1 m now "''retired''" reason "by"] ok
    by (simp add: w' w1 w2 safe_world_def)
qed

lemma retire_seat_leases:
  assumes "retire_seat w m now why reason by = (w', evs, changed)" "board_ok w'" "member_has_live_lease w' a now"
  shows "member_has_live_lease w a now"
proof -
  obtain w1 revoked where w1: "revoke_agent_offers w m now why = (w1, revoked)" by fastforce
  have "tickets (brd w') = tickets (brd w1)"
    using assms(1) by (auto simp: retire_seat_def w1 lifecycle_transition_def Let_def split: if_split_asm)
  then have "calmer_tickets a w w'"
    using revoke_calmer_tickets [of a w m now why] by (simp add: w1 calmer_tickets_def get_ticket_def)
  from calmer_tickets_leases [OF this assms(2,3)] show ?thesis .
qed

text \<open>
  C29: After a successful retirement the seat is retired, holds no lease that may still run, and no ticket
  offers it anything.
\<close>

theorem retired_seat_is_free:
  assumes c: "retire_with_actor w actor target now rel ren = Inr (w', r)" and ok: "board_ok w"
  shows "(\<exists>m. get_member w' target = Some m \<and> lifecycle_status m = ''retired'') \<and>
    \<not> member_has_live_lease w' target now \<and>
    (\<forall>k t j off. get_ticket w' k = Some t \<longrightarrow> offers t j = Some off \<longrightarrow> o_agent_id off \<noteq> target)"
proof -
  from c obtain m where free: "\<not> member_has_live_lease w target now" and g: "get_member w target = Some m"
    and d: "(case retire_seat w m now ''agent_retired'' ''manual_retire'' (agent_id actor) of
              (w1, evs, changed) \<Rightarrow>
                if \<not> changed then seats_reply [target] (rel @ evs) ren w1
                else bindE (redispatch_queue w1 now) (\<lambda>(w2, more).
                       seats_reply [target] (rel @ evs @ more) ren w2)) = Inr (w', r)"
    unfolding retire_with_actor_def by (elim bindE_Inr1E) (auto split: option.split_asm)
  obtain w1 evs changed where s: "retire_seat w m now ''agent_retired'' ''manual_retire'' (agent_id actor) = (w1, evs, changed)"
    by (metis prod_cases3)
  note freed = retire_seat_done [OF s g ok]
  have free1: "\<not> member_has_live_lease w1 target now" using retire_seat_leases [OF s freed(3)] free by blast
  show ?thesis
  proof (cases "w' = w1")
    case True
    with freed free1 show ?thesis unfolding unoffered_def by blast
  next
    case False
    with d s obtain more where q: "redispatch_queue w1 now = Inr (w', more)"
      by (auto simp: seats_reply_def split: if_split_asm)
    obtain m1 where m1: "get_member w1 target = Some m1" "lifecycle_status m1 = ''retired''" using freed(1) by blast
    then have b: "barred now target w1" by (auto simp: barred_def)
    obtain m2 where m2: "get_member w' target = Some m2" "unoffer m2 = unoffer m1"
      by (rule same_seats_get [OF redispatch_queue_seats [OF q freed(3)] m1(1)])
    have ok': "board_ok w'" using redispatch_queue_safe [OF q] freed(3) by (simp add: safe_world_def)
    have "\<not> member_has_live_lease w' target now"
      using calmer_tickets_leases [OF calm_calmer_tickets [OF redispatch_queue_calm [OF q] freed(3) b] ok'] free1 by blast
    moreover have "unoffered target t" if t: "get_ticket w' k = Some t" for k t
      using calm_tickets [OF redispatch_queue_calm [OF q] freed(3) b t] freed(2) calmer_unoffered by metis
    ultimately show ?thesis using m1(2) m2 unoffer_fields(1) [OF m2(2)] unfolding unoffered_def by auto
  qed
qed

theorem retired_seat_is_free_witness:
  "\<exists>w' r. retire_with_actor (sample_world []) (sample_seat ''r1'' ''p2'' ''reviewer'') ''w1'' 5 [] [] = Inr (w', r) \<and>
     (\<exists>m. get_member w' ''w1'' = Some m \<and> lifecycle_status m = ''retired'')"
proof -
  have "\<exists>w' r. retire_with_actor (sample_world []) (sample_seat ''r1'' ''p2'' ''reviewer'') ''w1'' 5 [] [] = Inr (w', r)"
    by (simp add: retire_with_actor_def retire_seat_def revoke_agent_offers_def lifecycle_transition_def
        seats_reply_def empty_redispatch sample_world_def sample_seat_def dkeys_def Let_def member_has_live_lease_def
        dvalues_def get_member_def)
  then obtain w' r where c: "retire_with_actor (sample_world []) (sample_seat ''r1'' ''p2'' ''reviewer'') ''w1'' 5 [] [] = Inr (w', r)"
    by blast
  have "board_ok (sample_world [])"
    by (simp add: board_ok_def sample_defs dict_ok_def dkeys_def get_ticket_def get_member_def)
  from retired_seat_is_free [OF c this] c show ?thesis by blast
qed

lemma store_progress_result:
  assumes "store_progress actor p u safe now (w, t) = (w', t')"
  shows "current_revision t' = current_revision t + 1" "work t' = work t" "status t' = status t"
    "brd w' = brd w"
    "\<exists>g. progress t' = Some g \<and> p_revision g = Some (current_revision t + 1) \<and> p_low_percent g = pi_low u \<and>
       p_high_percent g = pi_high u \<and> p_evidence g = safe \<and> p_agent_id g = agent_id actor"
proof -
  obtain w1 t1 where s: "supersede_progress now (w, repair_attempt t) = (w1, t1)" by fastforce
  have r: "work (repair_attempt t) = work t" "status (repair_attempt t) = status t"
    by (simp_all add: repair_attempt_def split: option.split)
  have f: "brd w1 = brd w" "work t1 = work t" "status t1 = status t"
    using s r append_bounded_frame by (auto simp: supersede_progress_def split: option.split_asm) (metis fst_conv snd_conv append_bounded_frame)+
  have "0 \<le> current_revision t" by (simp add: current_revision_def split: option.split)
  with assms f show "current_revision t' = current_revision t + 1" "work t' = work t" "status t' = status t"
    "brd w' = brd w"
    "\<exists>g. progress t' = Some g \<and> p_revision g = Some (current_revision t + 1) \<and> p_low_percent g = pi_low u \<and>
       p_high_percent g = pi_high u \<and> p_evidence g = safe \<and> p_agent_id g = agent_id actor"
    by (auto simp: store_progress_def s current_revision_def)
qed

lemma ticket_reply_set: "ticket_reply tid fresh rel ren w = Inr (w', r) \<Longrightarrow> \<exists>t. get_ticket w tid = Some t \<and> w' = w \<and> r = Ticket_Set t fresh rel ren"
  by (auto simp: ticket_reply_def split: option.split_asm)

lemma progress_effect:
  assumes "progress_with_actor w actor p tid u now rel = Inr (w', r)" and "w' \<noteq> w \<or> (\<exists>t f e n. r = Ticket_Set t f e n)"
  obtains t t' safe w1 where "get_ticket w tid = Some t" "pre_submission t"
    "claimed_by_agent_id (work t) = Some (agent_id actor)" "claimed_by_principal_id (work t) = Some (pr_id p)"
    "lease_over t now = Inr False" "pi_expected_revision u = current_revision t"
    "store_progress actor p u safe now (w, t) = (w1, t')" "safe = strip (pi_evidence u)"
    "w' = record_scrub_allows actor now (pi_allow_counts u) (put_ticket tid t' w1)" "r = Ticket_Set t' True rel []"
proof -
  obtain t where t: "get_ticket w tid = Some t" "pre_submission t"
    "claimed_by_agent_id (work t) = Some (agent_id actor)" "claimed_by_principal_id (work t) = Some (pr_id p)"
    and h: "progress_held w actor p tid t u now rel = Inr (w', r)"
    using assms by (auto simp: progress_with_actor_def split: option.split_asm if_split_asm)
  obtain over where o: "lease_over t now = Inr over" and "\<not> over" "pi_expected_revision u = current_revision t"
    and rest: "bindE (clean_text ''evidence'' 280 (pi_evidence u)) (\<lambda>safe.
         if same_assessment u safe t then Inr (w, Failed ''progress update is a semantic duplicate'' rel)
         else (case store_progress actor p u safe now (w, t) of
                 (w1, t1) \<Rightarrow> ticket_reply tid True rel []
                     (record_scrub_allows actor now (pi_allow_counts u) (put_ticket tid t1 w1)))) = Inr (w', r)"
    using h assms(2) unfolding progress_held_def by (elim bindE_Inr1E) (auto split: if_split_asm)
  obtain safe where s: "clean_text ''evidence'' 280 (pi_evidence u) = Inr safe"
    and d: "(case store_progress actor p u safe now (w, t) of
                 (w1, t1) \<Rightarrow> ticket_reply tid True rel []
                     (record_scrub_allows actor now (pi_allow_counts u) (put_ticket tid t1 w1))) = Inr (w', r)"
    using rest assms(2) by (elim bindE_Inr1E) (auto split: if_split_asm)
  obtain w1 t1 where st: "store_progress actor p u safe now (w, t) = (w1, t1)" by fastforce
  have "safe = strip (pi_evidence u)" using s by (simp add: clean_text_def)
  with d st t o \<open>\<not> over\<close> \<open>pi_expected_revision u = current_revision t\<close> that show thesis
    by (auto dest!: ticket_reply_set simp: record_scrub_allows_frame get_ticket_def)
qed

text \<open>
  C30: A progress assessment is stored only for the exact holder of a running work lease who names the
  current revision; it raises the revision by one, leaves the lease alone, and a second assessment that
  names the same revision changes nothing.
\<close>

theorem progress_is_compare_and_swap:
  assumes "progress_with_actor w actor p tid u now rel = Inr (w', Ticket_Set t' fresh rel' ren)"
  shows "(\<exists>t g. get_ticket w tid = Some t \<and> pre_submission t \<and> lease_over t now = Inr False \<and>
       claimed_by_agent_id (work t) = Some (agent_id actor) \<and> claimed_by_principal_id (work t) = Some (pr_id p) \<and>
       pi_expected_revision u = current_revision t \<and>
       get_ticket w' tid = Some t' \<and> work t' = work t \<and> status t' = status t \<and> progress t' = Some g \<and>
       p_revision g = Some (current_revision t + 1) \<and> p_low_percent g = pi_low u \<and> p_high_percent g = pi_high u \<and>
       p_evidence g = strip (pi_evidence u) \<and> p_agent_id g = agent_id actor) \<and>
    (\<forall>b q u2 later rel2 w2 r2. pi_expected_revision u2 = pi_expected_revision u \<longrightarrow>
       progress_with_actor w' b q tid u2 later rel2 = Inr (w2, r2) \<longrightarrow> w2 = w')"
proof -
  obtain t safe w1 where t: "get_ticket w tid = Some t" "pre_submission t"
    "claimed_by_agent_id (work t) = Some (agent_id actor)" "claimed_by_principal_id (work t) = Some (pr_id p)"
    "lease_over t now = Inr False" "pi_expected_revision u = current_revision t"
    and st: "store_progress actor p u safe now (w, t) = (w1, t')" "safe = strip (pi_evidence u)"
    and w': "w' = record_scrub_allows actor now (pi_allow_counts u) (put_ticket tid t' w1)"
    by (rule progress_effect [OF assms]) auto
  note res = store_progress_result [OF st(1)]
  have g: "get_ticket w' tid = Some t'" by (simp add: w' get_ticket_def record_scrub_allows_frame)
  have "w2 = w'" if "pi_expected_revision u2 = pi_expected_revision u"
    "progress_with_actor w' b q tid u2 later rel2 = Inr (w2, r2)" for b q u2 later rel2 w2 r2
  proof (rule ccontr)
    assume n: "w2 \<noteq> w'"
    note second = that(2)
    obtain t2 where "get_ticket w' tid = Some t2" "pi_expected_revision u2 = current_revision t2"
      by (rule progress_effect [OF second]) (use n in auto)
    with g that(1) t(6) res(1) show False by simp
  qed
  with t st(2) g res show ?thesis by auto
qed

definition progress_board :: world where
  "progress_board = (let w = sample_world [claimed_ticket] in
     w\<lparr>brd := (brd w)\<lparr>cfg := sample_config\<lparr>ticket_progress_v1 := True\<rparr>\<rparr>\<rparr>)"

definition sample_assessment :: progress_input where
  "sample_assessment = \<lparr> pi_low = 10, pi_high = 30, pi_confidence = ''low'', pi_evidence = ''half'',
     pi_expected_revision = 0, pi_allow_counts = [] \<rparr>"

lemma progress_board_ticket: "get_ticket progress_board ''T3'' = Some claimed_ticket"
  by (simp add: progress_board_def sample_world_def get_ticket_def claimed_ticket_simps Let_def)

theorem progress_is_compare_and_swap_witness:
  "\<exists>w' t'. progress_with_actor progress_board (sample_seat ''w1'' ''p1'' ''worker'')
      \<lparr> pr_id = ''p1'', pr_scopes = [''board:write''] \<rparr> ''T3'' sample_assessment 5 [] = Inr (w', Ticket_Set t' True [] []) \<and>
    current_revision claimed_ticket = 0 \<and> get_ticket w' ''T3'' = Some t'"
proof -
  have c: "clean_text ''evidence'' 280 ''half'' = Inr ''half''" by code_simp
  have l: "lease_over claimed_ticket 5 = Inr False"
    by (simp add: lease_over_def claimed_ticket_simps secs_def)
  have k: "claimed_by_agent_id (work claimed_ticket) = Some ''w1''" "claimed_by_principal_id (work claimed_ticket) = Some ''p1''"
    by (simp_all add: claimed_ticket_def sample_ticket_def)
  have r: "current_revision claimed_ticket = 0" by (simp add: current_revision_def claimed_ticket_simps)
  have e: "ticket_progress_v1 (cfg (brd progress_board))" by (simp add: progress_board_def Let_def)
  have "\<exists>w' t'. progress_with_actor progress_board (sample_seat ''w1'' ''p1'' ''worker'')
      \<lparr> pr_id = ''p1'', pr_scopes = [''board:write''] \<rparr> ''T3'' sample_assessment 5 [] = Inr (w', Ticket_Set t' True [] [])"
    by (simp add: progress_with_actor_def progress_board_ticket e claimed_ticket_simps k progress_held_def l r c
        sample_assessment_def same_assessment_def ticket_reply_def record_scrub_allows_def accepted_allows_def
        sample_seat_def split: prod.split)
  then obtain w' t' where d: "progress_with_actor progress_board (sample_seat ''w1'' ''p1'' ''worker'')
      \<lparr> pr_id = ''p1'', pr_scopes = [''board:write''] \<rparr> ''T3'' sample_assessment 5 [] = Inr (w', Ticket_Set t' True [] [])"
    by blast
  from progress_is_compare_and_swap [OF d] d r show ?thesis by blast
qed

lemma scrubbed_ticket: "get_ticket (record_scrub_allows actor now counts w) k = get_ticket w k"
  by (simp add: get_ticket_def record_scrub_allows_frame)

lemma append_annotation_result:
  "annotations (append_annotation a t) = drop (length (annotations t) + 1 - MAX_ANNOTATIONS_PER_TICKET) (annotations t @ [a])"
  "length (annotations (append_annotation a t)) \<le> MAX_ANNOTATIONS_PER_TICKET"
  "0 \<le> annotations_omitted_count t \<Longrightarrow>
     int (length (annotations (append_annotation a t))) + annotations_omitted_count (append_annotation a t) =
     int (length (annotations t)) + annotations_omitted_count t + 1"
  by (auto simp: append_annotation_def Let_def MAX_ANNOTATIONS_PER_TICKET_def)



text \<open>
  C32: Capabilities that are stored normalise to themselves: the dictionary a seat reported is read back as the
  value it was checked to be.
\<close>

theorem capabilities_round_trip:
  assumes "normalized_capabilities v r = Inr c"
  shows "normalized_capabilities (capabilities_json c) r = Inr c"
  by (rule capabilities_normal [OF assms])

theorem capabilities_round_trip_witness:
  "\<exists>c. normalized_capabilities (J_Obj [(''skills'', J_List [J_Str '' hol '', J_Str ''c'', J_Str ''hol'']), (''tier_max'', J_Int 3)]) ''worker'' = Inr c \<and>
     skills c = [''c'', ''hol''] \<and> normalized_capabilities (capabilities_json c) ''worker'' = Inr c"
proof -
  have "normalized_capabilities (J_Obj [(''skills'', J_List [J_Str '' hol '', J_Str ''c'', J_Str ''hol'']), (''tier_max'', J_Int 3)]) ''worker'' =
      Inr \<lparr> cap_model = None, cap_provider = None, tier_max = 3, skills = [''c'', ''hol''], can_review = False, can_work = True,
            cap_host = None, legacy_tools = None \<rparr>"
    by code_simp
  from capabilities_round_trip [OF this] this show ?thesis by simp
qed

definition shelved :: "ticket \<Rightarrow> bool" where
  "shelved t \<longleftrightarrow> parked t \<and> (\<forall>k. offers t k = None)"

lemma dispatch_shelved:
  assumes "dispatch_ticket w t now k p = Inr (w', t', ev)" "shelved t"
  shows "shelved t'"
proof -
  obtain w1 t1 where r: "reconcile_inactive_work_ownership now (w, t) = (w1, t1)" by fastforce
  have s: "shelved t1" using reconcile_frame [of now w t] r assms(2) by (simp add: shelved_def)
  then have "dispatch_pass w t now k p = Inr (Finished w1 t1 None)"
    by (simp add: dispatch_pass_def r dispatch_blocked_def shelved_def)
  with assms(1) s show ?thesis by (subst (asm) dispatch_ticket.simps) simp
qed

lemma check_offer_shelved:
  assumes "shelved t"
  shows "check_offer now k (w, t, res, evs) = (w, t, res, evs)"
  using assms by (simp add: check_offer_def shelved_def)

definition shelved_at :: "string \<Rightarrow> world \<Rightarrow> bool" where
  "shelved_at tid w \<longleftrightarrow> (\<exists>t. get_ticket w tid = Some t \<and> shelved t)"

lemma redispatch_key_shelved:
  assumes "redispatch_key now key s = Inr s'" "shelved_at tid (fst s)"
  shows "shelved_at tid (fst s')"
proof (cases "key = tid")
  case False
  with redispatch.step_local [OF assms(1), of tid] assms(2) show ?thesis by (simp add: shelved_at_def)
next
  case True
  obtain t where t: "get_ticket (fst s) tid = Some t" "shelved t" using assms(2) by (auto simp: shelved_at_def)
  show ?thesis
    using assms(1) t dispatch_shelved [OF _ t(2)] True
    by (auto simp: redispatch_key_def dispatch_stored_def shelved_at_def split: if_split_asm)
qed

lemma check_tickets_shelved:
  assumes "shelved_at tid (fst s)"
  shows "shelved_at tid (fst (check_ticket_offers now key s))"
proof (cases "key = tid")
  case False
  with check_offers.step_local [where now = now and key = key and s = s and key' = tid, OF refl] assms
  show ?thesis by (simp add: shelved_at_def)
next
  case True
  obtain w res evs where s: "s = (w, res, evs)" by (metis prod_cases3)
  obtain t where t: "get_ticket w tid = Some t" "shelved t" using assms by (auto simp: shelved_at_def s)
  obtain w1 t1 where r: "reconcile_inactive_work_ownership now (w, t) = (w1, t1)" by fastforce
  have "shelved t1" using reconcile_frame [of now w t] r t(2) by (simp add: shelved_def)
  then show ?thesis by (simp add: check_ticket_offers_def s True t(1) r check_offer_shelved shelved_at_def)
qed

lemma retry_shelved: "shelved_at tid w \<Longrightarrow> shelved_at tid (retry_waiting key w)"
  by (cases "key = tid") (auto simp: retry_waiting_def shelved_at_def shelved_def split: option.split)

lemma fold_shelved:
  "(\<And>k s. shelved_at tid (doc s) \<Longrightarrow> shelved_at tid (doc (f k s))) \<Longrightarrow> shelved_at tid (doc s) \<Longrightarrow> shelved_at tid (doc (fold f ks s))"
  by (induction ks arbitrary: s) simp_all

lemma reconcile_invalid_shelved:
  assumes s: "shelved_at tid w"
  shows "shelved_at tid (fst (reconcile_invalid_dispatch_offers w now))"
proof -
  obtain w0 res e0 where f: "fold (check_ticket_offers now) (queue_order w) (w, [], []) = (w0, res, e0)"
    by (metis prod_cases3)
  have "shelved_at tid w0"
    using fold_shelved [of tid fst "check_ticket_offers now" "(w, [], [])" "queue_order w", OF check_tickets_shelved] f s
    by simp
  moreover from this have "shelved_at tid (fold retry_waiting (queue_order w) w0)"
    using fold_shelved [of tid "\<lambda>x. x" retry_waiting w0 "queue_order w"] retry_shelved by simp
  ultimately show ?thesis using f by (simp add: reconcile_invalid_dispatch_offers_def Let_def)
qed

lemma redispatch_queue_shelved:
  assumes q: "redispatch_queue w now = Inr (w', evs)" and s: "shelved_at tid w"
  shows "shelved_at tid w'"
proof -
  obtain w1 e1 where r: "reconcile_invalid_dispatch_offers w now = (w1, e1)" by fastforce
  have 1: "shelved_at tid w1" using reconcile_invalid_shelved [OF s, of now] r by simp
  show ?thesis
  proof (cases "dispatch_enabled (brd w1)")
    case False
    with q r 1 show ?thesis by (simp add: redispatch_queue_def)
  next
    case True
    with q r have "foldE (redispatch_key now) (queue_order w1) (w1, e1) = Inr (w', evs)"
      by (simp add: redispatch_queue_def)
    from foldE_invariant [OF this, of "\<lambda>x. shelved_at tid (fst x)"] 1 redispatch_key_shelved show ?thesis by auto
  qed
qed

lemma set_parked_parks: "parked (snd (set_parked actor now True (w, t)))"
proof -
  obtain w2 t2 where a: "append_bounded_history H_Dispatch
      (HE_Dispatch ((entry0 ''parked'')\<lparr>d_kind := offerable_kind t, d_agent_id := Some (agent_id actor),
         d_agent_name := Some (agent_name actor), d_at := Some now\<rparr>)) (w, t\<lparr>parked := True\<rparr>) = (w2, t2)" by fastforce
  have "parked t2" using append_bounded_frame(6) [of H_Dispatch _ w "t\<lparr>parked := True\<rparr>"] a by (metis snd_conv ticket.select_convs(10) ticket.surjective ticket.update_convs(10))
  with a show ?thesis by (simp add: set_parked_def Let_def)
qed

lemma drop_both_offers:
  "offers (fst (drop_offer reason Review (drop_offer reason Work (t, evs)))) k = None"
  by (cases k) (simp_all add: drop_offer_def split: option.split)

text \<open>
  C33: Parking a ticket withdraws both of its offers, and nothing is offered for it again in the same call;
  its status, leases and record are those it had.
\<close>

theorem parked_ticket_is_not_offered:
  assumes c: "update_with_actor w actor p tid u now rel ren = Inr (w', Ticket_Set t' fresh rel' ren')"
    and pk: "ui_parked u = Some True" and g: "get_ticket w tid = Some t" and new: "\<not> parked t"
  shows "get_ticket w' tid = Some t' \<and> parked t' \<and> (\<forall>k. offers t' k = None) \<and>
    (pm_role (the (dget (principal_memberships (brd w)) (pr_id p))) = ''admin'' \<or> COORDINATOR_SCOPE \<in> set (pr_scopes p)) \<and>
    status t \<in> {''open'', ''submitted''}"
proof -
  from c obtain t1 where m: "may_update (brd w) p u t = Inr ()" and t1: "update_requirements u t = Inr t1"
    and d: "apply_update w actor tid u now rel ren True t1 = Inr (w', Ticket_Set t' fresh rel' ren')"
    unfolding update_with_actor_def g option.case
    by (elim bindE_Inr1E) (auto simp: park_changed_def pk new)
  have st: "status t \<in> {''open'', ''submitted''}"
    and auth: "pm_role (the (dget (principal_memberships (brd w)) (pr_id p))) = ''admin'' \<or> COORDINATOR_SCOPE \<in> set (pr_scopes p)"
    using m unfolding may_update_def pk by (elim bindE_Inr1E; auto dest: resolve_board_context_known)+
  obtain w2 t2 where p: "park_step actor now u True (w, t1) = (w2, t2)" by fastforce
  have st2: "status t2 = ''open'' \<or> status t2 = ''submitted''"
    using st p update_requirements_fields [OF t1] set_parked_fields by (auto simp: park_step_def)
  have t2: "parked t2" using p set_parked_parks [of actor now w t1] by (simp add: park_step_def pk)
  from d obtain w3 evs where e: "update_dispatch tid u True now w2 t2 = Inr (w3, evs)"
    and r: "ticket_reply tid True (rel @ evs) ren
            (record_scrub_allows actor now (ui_allow_counts u)
               (modify_ticket tid (\<lambda>t. t\<lparr>updated_at := Some now\<rparr>) w3)) = Inr (w', Ticket_Set t' fresh rel' ren')"
    unfolding apply_update_def p prod.case by (elim bindE_Inr2E)
  obtain k where k: "offerable_kind t2 = Some k" using st2 by (auto simp: offerable_kind_def)
  obtain t3 revoked where t3: "drop_offer ''ticket_parked'' Review (drop_offer ''ticket_parked'' Work (t2, [])) = (t3, revoked)"
    by fastforce
  have s3: "shelved t3"
    using drop_both_offers [of "''ticket_parked''" t2 "[]"] drop_offer_fields(6) t2 t3
    by (simp add: shelved_def) (metis fst_conv prod.collapse)
  from e obtain evs2 where q: "dispatch_again tid k now (put_ticket tid t3 w2) = Inr (w3, evs2)"
    by (auto simp: update_dispatch_def k pk t3 split: if_split_asm)
  then have "redispatch_queue (put_ticket tid t3 w2) now = Inr (w3, evs2)"
    using s3 by (simp add: dispatch_again_def shelved_def)
  from redispatch_queue_shelved [OF this] s3 have "shelved_at tid w3" by (simp add: shelved_at_def)
  with r show ?thesis
    using st auth
    by (auto simp: shelved_at_def shelved_def modify_ticket_def scrubbed_ticket dest!: ticket_reply_set)
qed

definition sample_parking :: update_input where
  "sample_parking = \<lparr> ui_tier = None, ui_skills = None, ui_exclude = None, ui_prefer = None, ui_parked = Some True,
     ui_allow_counts = [] \<rparr>"

lemma shelved_key_returns:
  assumes "shelved_at key (fst s)"
  shows "\<exists>s'. redispatch_key now key s = Inr s'"
proof -
  obtain t where t: "get_ticket (fst s) key = Some t" "shelved t" using assms by (auto simp: shelved_at_def)
  have "\<exists>r. dispatch_ticket (fst s) t now k None = Inr r" for k
  proof -
    obtain w1 t1 where r: "reconcile_inactive_work_ownership now (fst s, t) = (w1, t1)" by fastforce
    have "shelved t1" using reconcile_frame [of now "fst s" t] r t(2) by (simp add: shelved_def)
    then have "dispatch_pass (fst s) t now k None = Inr (Finished w1 t1 None)"
      by (simp add: dispatch_pass_def r dispatch_blocked_def shelved_def)
    then show ?thesis by (subst dispatch_ticket.simps) simp
  qed
  then have "\<exists>w' t' ev. dispatch_ticket (fst s) t now k None = Inr (w', t', ev)" for k by (metis prod_cases3)
  from this [of Work] this [of Review] t(1) show ?thesis by (auto simp: redispatch_key_def dispatch_stored_def)
qed

lemma redispatch_keys_return:
  assumes "set ks \<subseteq> {key}" "shelved_at key (fst s)"
  shows "\<exists>s'. foldE (redispatch_key now) ks s = Inr s'"
  using assms
proof (induction ks arbitrary: s)
  case (Cons k ks)
  then obtain s1 where s1: "redispatch_key now key s = Inr s1" using shelved_key_returns by blast
  have "shelved_at key (fst s1)" by (rule redispatch_key_shelved [OF s1 Cons.prems(2)])
  with Cons s1 show ?case by auto
qed simp

lemma shelved_queue_returns:
  assumes "board_ok w" "dkeys (tickets (brd w)) = [tid]" "shelved_at tid w"
  shows "\<exists>w' evs. redispatch_queue w now = Inr (w', evs)"
proof -
  obtain w1 e1 where r: "reconcile_invalid_dispatch_offers w now = (w1, e1)" by fastforce
  have "dkeys (tickets (brd w1)) = [tid]"
    using reconcile_invalid_safe [of now w] r assms(1,2) by (simp add: safe_world_def)
  then have "set (dkeys (tickets (brd w1))) = {tid}" by simp
  then have "set (queue_order w1) \<subseteq> {tid}" unfolding dkeys_def by (simp add: queue_order_def)
  moreover have "shelved_at tid w1" using reconcile_invalid_shelved [OF assms(3), of now] r by simp
  ultimately show ?thesis
    using redispatch_keys_return [of "queue_order w1" tid "(w1, e1)" now] by (auto simp: redispatch_queue_def r)
qed

theorem parked_ticket_is_not_offered_witness:
  "\<exists>w' t' rel ren. update_with_actor (sample_world [open_ticket]) (sample_seat ''w1'' ''p1'' ''worker'')
      \<lparr> pr_id = ''p1'', pr_scopes = [COORDINATOR_SCOPE] \<rparr> ''T1'' sample_parking 5 [] [] = Inr (w', Ticket_Set t' True rel ren) \<and>
    parked t' \<and> (\<forall>k. offers t' k = None)"
proof -
  let ?w = "sample_world [open_ticket]" and ?p = "\<lparr> pr_id = ''p1'', pr_scopes = [COORDINATOR_SCOPE] \<rparr>"
  let ?s = "sample_seat ''w1'' ''p1'' ''worker''"
  have g: "get_ticket ?w ''T1'' = Some open_ticket"
    by (simp add: get_ticket_def sample_world_def open_ticket_def sample_ticket_def)
  have m: "resolve_board_context (brd ?w) ''p1'' None = Inr (sample_membership ''member'')"
    by (simp add: resolve_board_context_def sample_world_def sample_membership_def)
  have t: "status open_ticket = ''open''" "\<not> parked open_ticket" "ticket_id open_ticket = ''T1''" "offers open_ticket = (\<lambda>_. None)"
    by (simp_all add: open_ticket_def sample_ticket_def)
  have m1: "may_update (brd ?w) ?p sample_parking open_ticket = Inr ()"
    by (simp add: may_update_def m sample_parking_def dispatch_values_def t ACTIVE_TICKET_STATES_def)
  have m2: "update_requirements sample_parking open_ticket = Inr open_ticket"
    by (simp add: update_requirements_def cleaned_or_def sample_parking_def)
  have u: "ui_parked sample_parking = Some True" by (simp add: sample_parking_def)
  obtain w2 t2 where p: "set_parked ?s 5 True (?w, open_ticket) = (w2, t2)" by fastforce
  have f: "brd w2 = brd ?w" "ticket_id t2 = ''T1''" "status t2 = ''open''" "offers t2 = (\<lambda>_. None)"
    using set_parked_fields [OF p] t by simp_all
  have sh: "shelved t2" using set_parked_parks [of ?s 5 ?w open_ticket] p f(4) by (simp add: shelved_def)
  have k: "offerable_kind t2 = Some Work" using f by (simp add: offerable_kind_def)
  have d: "drop_offer r j (t2, e) = (t2, e)" for r j e using f(4) by (simp add: drop_offer_def)
  have ok: "board_ok (put_ticket ''T1'' t2 w2)" "dkeys (tickets (brd (put_ticket ''T1'' t2 w2))) = [''T1'']"
    by (simp_all add: f board_ok_def sample_defs dict_ok_def dkeys_def get_ticket_def get_member_def put_ticket_def dset_def)
  obtain w3 evs where q: "redispatch_queue (put_ticket ''T1'' t2 w2) 5 = Inr (w3, evs)"
    using shelved_queue_returns [OF ok, of 5] sh by (auto simp: shelved_at_def)
  have "shelved_at ''T1'' w3" using redispatch_queue_shelved [OF q] sh by (simp add: shelved_at_def)
  then obtain t3 where t3: "get_ticket w3 ''T1'' = Some t3" by (auto simp: shelved_at_def)
  have "\<exists>w' t' rel ren. update_with_actor ?w ?s ?p ''T1'' sample_parking 5 [] [] = Inr (w', Ticket_Set t' True rel ren)"
    using q sh t3
    by (simp add: update_with_actor_def g m1 m2 apply_update_def park_step_def park_changed_def t p
        update_dispatch_def k d dispatch_again_def shelved_def modify_ticket_def ticket_reply_def scrubbed_ticket u)
  then obtain w' t' rel ren where c: "update_with_actor ?w ?s ?p ''T1'' sample_parking 5 [] [] = Inr (w', Ticket_Set t' True rel ren)"
    by blast
  from parked_ticket_is_not_offered [OF c _ g t(2)] c show ?thesis by (auto simp: sample_parking_def)
qed

end
