(* ===== verification/Butler_Commands.thy ===== *)
theory Butler_Commands
  imports Seat_Reports Delivery_Policy
begin

section \<open>Commands to the board butler\<close>

text \<open>
  \<open>butler_commands.py\<close>, first half: the identifiers, the parameters each intent takes, the results a
  command may end with, the state machine of commands and the order of the queue.  Timestamps are read by
  \<open>datetime.fromisoformat\<close>, a parameter here; its three outcomes are those of \<open>iso_time\<close>.
\<close>

datatype iso_time = Iso_Bad | Iso_Naive | Iso_At time

subsection \<open>Identifiers and bounded values\<close>

text \<open>JSON without repeated keys, which is what \<open>json.loads\<close> produces.\<close>

fun json_ok :: "json \<Rightarrow> bool" where
  "json_ok (J_Obj xs) \<longleftrightarrow> distinct (map fst xs) \<and> (\<forall>p \<in> set xs. json_ok (snd p))"
| "json_ok (J_List xs) \<longleftrightarrow> (\<forall>x \<in> set xs. json_ok x)"
| "json_ok _ \<longleftrightarrow> True"

definition id_char :: "char \<Rightarrow> bool" where
  "id_char c \<longleftrightarrow> alnum_char c \<or> c \<in> set ''._:-''"

definition identifier_ok :: "string \<Rightarrow> bool" where
  "identifier_ok s \<longleftrightarrow> s \<noteq> [] \<and> alnum_char (hd s) \<and> list_all id_char (tl s) \<and> length s \<le> 160"

definition lower_alpha :: "char \<Rightarrow> bool" where
  "lower_alpha c = (let n = of_char c :: nat in 97 \<le> n \<and> n \<le> 122)"

definition reason_ok :: "string \<Rightarrow> bool" where
  "reason_ok s \<longleftrightarrow> s \<noteq> [] \<and> lower_alpha (hd s) \<and>
     list_all (\<lambda>c. lower_alpha c \<or> digit_char c \<or> c = CHR ''_'') (tl s) \<and> length s \<le> 80"

definition sha256_ok :: "json \<Rightarrow> bool" where
  "sha256_ok v = (case v of J_Str s \<Rightarrow> length s = 64 \<and> list_all lower_hex s | _ \<Rightarrow> False)"

definition require_identifier :: "string \<Rightarrow> json \<Rightarrow> string result" where
  "require_identifier field v =
     (case v of
        J_Str s \<Rightarrow> if identifier_ok s then Inr s else Inl (ValueError (field @ '' must be a bounded identifier''))
      | _ \<Rightarrow> Inl (ValueError (field @ '' must be a bounded identifier'')))"

definition require_reason :: "string \<Rightarrow> json \<Rightarrow> string result" where
  "require_reason field v =
     (case v of
        J_Str s \<Rightarrow> if reason_ok s then Inr s else Inl (ValueError (field @ '' must be a bounded reason code''))
      | _ \<Rightarrow> Inl (ValueError (field @ '' must be a bounded reason code'')))"

definition utc_suffix :: "string \<Rightarrow> string" where
  "utc_suffix s = concat (map (\<lambda>c. if c = CHR ''Z'' then ''+00:00'' else [c]) s)"

definition parse_time :: "(string \<Rightarrow> iso_time) \<Rightarrow> string \<Rightarrow> json \<Rightarrow> time result" where
  "parse_time rdt field v =
     (case v of
        J_Str s \<Rightarrow>
          if 64 < length s then Inl (ValueError (field @ '' must be an RFC 3339 timestamp''))
          else (case rdt (utc_suffix s) of
                  Iso_Bad \<Rightarrow> Inl (ValueError (field @ '' must be an RFC 3339 timestamp''))
                | Iso_Naive \<Rightarrow> Inl (ValueError (field @ '' must include a timezone''))
                | Iso_At t \<Rightarrow> Inr t)
      | _ \<Rightarrow> Inl (ValueError (field @ '' must be an RFC 3339 timestamp'')))"

definition strict_object :: "string \<Rightarrow> string list \<Rightarrow> string list \<Rightarrow> json \<Rightarrow> unit result" where
  "strict_object field required optional v =
     bindE (guardE (is_obj v) (ValueError (field @ '' must be an object''))) (\<lambda>_.
       let missing = sort (filter (\<lambda>k. \<not> j_has v k) required); unknown = unknown_fields (required @ optional) v in
       bindE (guardE (missing = []) (ValueError (field @ '' is missing '' @ hd missing))) (\<lambda>_.
         guardE (unknown = []) (ValueError (field @ '' contains unsupported field '' @ hd unknown))))"

definition bounded_int :: "string \<Rightarrow> json \<Rightarrow> int \<Rightarrow> int \<Rightarrow> int result" where
  "bounded_int field v lo hi =
     (if is_int_counter lo hi v then Inr (j_int v)
      else Inl (ValueError (field @ '' must be an integer between '' @ decimal (nat lo) @ '' and '' @ decimal (nat hi))))"

definition MAX_REVISION :: int where "MAX_REVISION = 2 ^ 63 - 1"

text \<open>\<open>x in {...}\<close> for a set of strings: a list or a dict cannot be hashed.\<close>

definition member_of :: "json \<Rightarrow> string list \<Rightarrow> bool result" where
  "member_of v xs =
     (if is_list v \<or> is_obj v then Inl (TypeError ''unhashable type'') else Inr (list_ex (\<lambda>s. v = J_Str s) xs))"

definition one_of_texts :: "json \<Rightarrow> string list \<Rightarrow> string \<Rightarrow> unit result" where
  "one_of_texts v xs msg = bindE (member_of v xs) (\<lambda>b. guardE b (ValueError msg))"

text \<open>A check of a field that may be absent.\<close>

definition if_present :: "json \<Rightarrow> string \<Rightarrow> (json \<Rightarrow> 'a result) \<Rightarrow> unit result" where
  "if_present v k check = (if j_has v k then bindE (check (j_get v k)) (\<lambda>_. Inr ()) else Inr ())"

subsection \<open>Intents, states, priorities\<close>

definition COMMAND_INTENTS :: "string list" where
  "COMMAND_INTENTS = [''set_desired_state'', ''set_host_seat_cap'', ''reconcile_now'', ''drain_seat'', ''retire_seat'',
     ''enable_connector'', ''disable_connector'', ''veto_action'', ''kill'', ''resume'']"

definition COMMAND_STATES :: "string list" where
  "COMMAND_STATES = [''accepted'', ''validating'', ''pending'', ''applying'', ''succeeded'', ''rejected'', ''failed'', ''cancelled'']"

definition TERMINAL_COMMAND_STATES :: "string list" where
  "TERMINAL_COMMAND_STATES = [''succeeded'', ''rejected'', ''failed'', ''cancelled'']"

definition COMMAND_TRANSITIONS :: "string \<Rightarrow> string list" where
  "COMMAND_TRANSITIONS s =
     (if s = ''accepted'' then [''validating'', ''cancelled'']
      else if s = ''validating'' then [''pending'', ''rejected'', ''failed'']
      else if s = ''pending'' then [''applying'', ''rejected'', ''failed'', ''cancelled'']
      else if s = ''applying'' then [''succeeded'', ''failed'', ''cancelled''] else [])"

definition transition_allowed :: "string \<Rightarrow> string \<Rightarrow> bool" where
  "transition_allowed current target \<longleftrightarrow> target \<in> set (COMMAND_TRANSITIONS current)"

definition COMMAND_PRIORITIES :: "(string, int) odict" where
  "COMMAND_PRIORITIES = [(''low'', 0), (''normal'', 1), (''high'', 2), (''emergency'', 3)]"

definition RESULT_COMMIT_STATES :: "string list" where
  "RESULT_COMMIT_STATES = [''not_started'', ''not_reached'', ''reached'', ''unknown'']"

definition PARAMETER_FIELDS :: "string \<Rightarrow> string list" where
  "PARAMETER_FIELDS i =
     (if i = ''set_desired_state'' then [''desired_revision'', ''desired_digest_sha256'']
      else if i = ''set_host_seat_cap'' then [''host_seat_cap'']
      else if i = ''drain_seat'' \<or> i = ''retire_seat'' then [''seat_id'', ''seat_generation'']
      else if i = ''enable_connector'' \<or> i = ''disable_connector'' then [''connector_id'']
      else if i = ''veto_action'' then [''action_id'', ''reason_code'']
      else if i = ''kill'' \<or> i = ''resume'' then [''reason_code''] else [])"

text \<open>The bigger comes first: a human before an agent, then priority, then kill, then age.\<close>

definition command_rank :: "string \<Rightarrow> string \<Rightarrow> string \<Rightarrow> int \<times> int \<times> int" where
  "command_rank channel prio intent =
     (if channel = ''human'' then - 1 else 0,
      - (case dget COMMAND_PRIORITIES prio of None \<Rightarrow> - 1 | Some n \<Rightarrow> n),
      if intent = ''kill'' then - 1 else 0)"

subsection \<open>Parameters and results\<close>

definition validate_command_parameters :: "string \<Rightarrow> json \<Rightarrow> json result" where
  "validate_command_parameters intent v =
     bindE (guardE (intent \<in> set COMMAND_INTENTS) (ValueError ''intent is not allowlisted'')) (\<lambda>_.
     bindE (strict_object ''parameters'' (PARAMETER_FIELDS intent) [] v) (\<lambda>_.
     bindE (foldE (\<lambda>f _. if_present v f (require_identifier f)) [''seat_id'', ''connector_id'', ''action_id''] ()) (\<lambda>_.
     bindE (if_present v ''reason_code'' (require_reason ''parameters.reason_code'')) (\<lambda>_.
     bindE (if_present v ''seat_generation'' (\<lambda>x. bounded_int ''parameters.seat_generation'' x 1 MAX_REVISION)) (\<lambda>_.
     bindE (if_present v ''desired_revision'' (\<lambda>x. bounded_int ''parameters.desired_revision'' x 1 MAX_REVISION)) (\<lambda>_.
     bindE (if_present v ''host_seat_cap'' (\<lambda>x. bounded_int ''parameters.host_seat_cap'' x 2 100)) (\<lambda>_.
     bindE (if_present v ''desired_digest_sha256'' (\<lambda>x. guardE (sha256_ok x)
              (ValueError ''parameters.desired_digest_sha256 must be lowercase SHA-256''))) (\<lambda>_.
       Inr v))))))))"

definition validate_command_result :: "json \<Rightarrow> json result" where
  "validate_command_result v =
     bindE (strict_object ''result'' [''outcome'', ''reason_code'', ''commit_state'']
              [''effect_observation_ref'', ''config_revision'', ''result_digest_sha256''] v) (\<lambda>_.
     bindE (one_of_texts (j_get v ''outcome'') TERMINAL_COMMAND_STATES ''result.outcome must be a terminal command state'') (\<lambda>_.
     bindE (require_reason ''result.reason_code'' (j_get v ''reason_code'')) (\<lambda>_.
     bindE (one_of_texts (j_get v ''commit_state'') RESULT_COMMIT_STATES ''result.commit_state is invalid'') (\<lambda>_.
     bindE (if_present v ''effect_observation_ref'' (require_identifier ''result.effect_observation_ref'')) (\<lambda>_.
     bindE (if_present v ''config_revision'' (\<lambda>x. bounded_int ''result.config_revision'' x 1 MAX_REVISION)) (\<lambda>_.
     bindE (if_present v ''result_digest_sha256'' (\<lambda>x. guardE (sha256_ok x)
              (ValueError ''result.result_digest_sha256 must be lowercase SHA-256''))) (\<lambda>_.
       Inr v)))))))"

end
