(* ===== verification/Butler_Config.thy ===== *)
theory Butler_Config
  imports Butler_Commands
begin

section \<open>The configuration of the board butler\<close>

text \<open>
  \<open>validate_config\<close> of \<open>butler_commands.py\<close>, one definition per block of the function.  The digest of
  canonical JSON is a parameter.
\<close>

definition ROLES :: "string list" where
  "ROLES = [''worker'', ''reviewer'', ''acp_worker'']"

definition sub :: "string \<Rightarrow> string \<Rightarrow> string" where
  "sub field k = field @ ''.'' @ k"

subsection \<open>Capacity and budget\<close>

record role_count =
  rc_min :: int
  rc_target :: int
  rc_max :: int

definition validate_role_count :: "string \<Rightarrow> json \<Rightarrow> role_count result" where
  "validate_role_count field v =
     bindE (strict_object field [''min'', ''target'', ''max''] [] v) (\<lambda>_.
     bindE (bounded_int (sub field ''min'') (j_get v ''min'') 0 100) (\<lambda>lo.
     bindE (bounded_int (sub field ''target'') (j_get v ''target'') 0 100) (\<lambda>mid.
     bindE (bounded_int (sub field ''max'') (j_get v ''max'') 0 100) (\<lambda>hi.
     bindE (guardE (lo \<le> mid \<and> mid \<le> hi) (ValueError (field @ '' must satisfy min <= target <= max''))) (\<lambda>_.
       Inr \<lparr> rc_min = lo, rc_target = mid, rc_max = hi \<rparr>)))))"

definition BUDGET_LIMITS :: "(string \<times> int) list" where
  "BUDGET_LIMITS = [(''max_tokens'', 1000000000), (''max_cost_microunits'', 1000000000000), (''max_external_calls'', 1000000)]"

text \<open>A cap is an amount or, when it is null, absent.\<close>

definition budget_cap :: "string \<Rightarrow> json \<Rightarrow> string \<Rightarrow> int \<Rightarrow> int option result" where
  "budget_cap field v k limit =
     (if j_get v k = J_Null then Inr None else bindE (bounded_int (sub field k) (j_get v k) 0 limit) (\<lambda>n. Inr (Some n)))"

record budget =
  bg_period :: string
  bg_caps :: "(string, int option) odict"

definition validate_budget :: "string \<Rightarrow> json \<Rightarrow> budget result" where
  "validate_budget field v =
     bindE (strict_object field (''period'' # map fst BUDGET_LIMITS) [] v) (\<lambda>_.
     bindE (one_of_texts (j_get v ''period'') [''hour'', ''day'', ''month''] (sub field ''period is invalid'')) (\<lambda>_.
     bindE (foldE (\<lambda>(k, limit) caps. bindE (budget_cap field v k limit) (\<lambda>c. Inr (dset k c caps))) BUDGET_LIMITS []) (\<lambda>caps.
       Inr \<lparr> bg_period = text_of (j_get v ''period''), bg_caps = caps \<rparr>)))"

definition within_cap :: "budget \<Rightarrow> budget \<Rightarrow> string \<Rightarrow> bool" where
  "within_cap want limit k =
     (case dget (bg_caps limit) k of
        Some (Some n) \<Rightarrow> (case dget (bg_caps want) k of Some (Some m) \<Rightarrow> m \<le> n | _ \<Rightarrow> False)
      | _ \<Rightarrow> True)"

subsection \<open>Connectors\<close>

definition revision_date_ok :: "json \<Rightarrow> bool" where
  "revision_date_ok v =
     (case v of
        J_Str s \<Rightarrow> length s = 10 \<and> take 2 s = ''20'' \<and> s ! 4 = CHR ''-'' \<and> s ! 7 = CHR ''-'' \<and>
          list_all (\<lambda>i. digit_char (s ! i)) [2, 3, 5, 6, 8, 9]
      | _ \<Rightarrow> False)"

definition validate_connector_tool :: "string \<Rightarrow> json \<Rightarrow> unit result" where
  "validate_connector_tool field v =
     bindE (strict_object field [''name'', ''effect'', ''replay'', ''stable_call_id_field''] [] v) (\<lambda>_.
     bindE (require_identifier (sub field ''name'') (j_get v ''name'')) (\<lambda>_.
     bindE (one_of_texts (j_get v ''effect'') [''read_only'', ''mutating''] (sub field ''effect is invalid'')) (\<lambda>_.
     bindE (one_of_texts (j_get v ''replay'') [''safe_with_stable_call_id'', ''never''] (sub field ''replay is invalid'')) (\<lambda>_.
     bindE (if j_get v ''replay'' = J_Str ''safe_with_stable_call_id''
            then bindE (require_identifier (sub field ''stable_call_id_field'') (j_get v ''stable_call_id_field'')) (\<lambda>_. Inr ())
            else guardE (j_get v ''stable_call_id_field'' = J_Null) (ValueError (sub field ''stable_call_id_field must be null''))) (\<lambda>_.
       guardE (\<not> (j_get v ''effect'' = J_Str ''read_only'' \<and> j_get v ''replay'' \<noteq> J_Str ''safe_with_stable_call_id''))
         (ValueError (field @ '' read-only replay must be safe'')))))))"

definition CONNECTOR_LIMITS :: "(string \<times> int \<times> int) list" where
  "CONNECTOR_LIMITS =
     [(''timeout_ms'', 100, 600000), (''max_input_bytes'', 1, 1048576), (''max_output_bytes'', 1, 4194304),
      (''max_concurrency'', 1, 32), (''calls_per_minute'', 1, 1000)]"

definition resource_ok :: "json \<Rightarrow> bool" where
  "resource_ok v = (case v of J_Str s \<Rightarrow> s \<noteq> [] \<and> length s \<le> 300 | _ \<Rightarrow> False)"

definition bounded_list :: "json \<Rightarrow> nat \<Rightarrow> string \<Rightarrow> unit result" where
  "bounded_list v n msg = guardE (is_list v \<and> length (j_list v) \<le> n) (ValueError msg)"

definition validate_connector :: "string \<Rightarrow> json \<Rightarrow> string result" where
  "validate_connector field v =
     bindE (strict_object field [''connector_id'', ''enabled'', ''transport'', ''protocol_revision'', ''endpoint_ref'',
              ''secret_ref'', ''tools'', ''resources'', ''limits''] [''risky_tools''] v) (\<lambda>_.
     bindE (require_identifier (sub field ''connector_id'') (j_get v ''connector_id'')) (\<lambda>cid.
     bindE (guardE (is_bool (j_get v ''enabled'')) (ValueError (sub field ''enabled must be boolean''))) (\<lambda>_.
     bindE (one_of_texts (j_get v ''transport'') [''stdio'', ''streamable_http''] (sub field ''transport is invalid'')) (\<lambda>_.
     bindE (guardE (revision_date_ok (j_get v ''protocol_revision'')) (ValueError (sub field ''protocol_revision is invalid''))) (\<lambda>_.
     bindE (require_identifier (sub field ''endpoint_ref'') (j_get v ''endpoint_ref'')) (\<lambda>_.
     bindE (if j_get v ''secret_ref'' = J_Null then Inr []
            else require_identifier (sub field ''secret_ref'') (j_get v ''secret_ref'')) (\<lambda>_.
     bindE (bounded_list (j_get v ''resources'') 100 (sub field ''resources is invalid'')) (\<lambda>_.
     bindE (guardE (list_all resource_ok (j_list (j_get v ''resources''))) (ValueError (sub field ''resources is invalid''))) (\<lambda>_.
     bindE (bounded_list (j_get v ''tools'') 100 (sub field ''tools is invalid'')) (\<lambda>_.
     bindE (foldE (\<lambda>(i, t) _. validate_connector_tool (sub field (''tools.'' @ decimal i)) t)
              (List.enumerate 0 (j_list (j_get v ''tools''))) ()) (\<lambda>_.
     bindE (strict_object (sub field ''limits'') (map fst CONNECTOR_LIMITS) [] (j_get v ''limits'')) (\<lambda>_.
     bindE (foldE (\<lambda>(k, lo, hi) _. bindE (bounded_int (sub field (''limits.'' @ k)) (j_get (j_get v ''limits'') k) lo hi) (\<lambda>_. Inr ()))
              CONNECTOR_LIMITS ()) (\<lambda>_.
     bindE (bounded_list (get_or v ''risky_tools'' (J_List [])) 100 (sub field ''risky_tools is invalid'')) (\<lambda>_.
     bindE (foldE (\<lambda>t _. bindE (require_identifier (sub field ''risky_tools'') t) (\<lambda>_. Inr ()))
              (j_list (get_or v ''risky_tools'' (J_List []))) ()) (\<lambda>_.
       Inr cid)))))))))))))))"

subsection \<open>The blocks of a configuration\<close>

definition check_host_runtime :: "(string \<Rightarrow> iso_time) \<Rightarrow> json \<Rightarrow> int result" where
  "check_host_runtime rdt h =
     (let f = ''config.host_runtime'' in
      bindE (strict_object f [''host_ref'', ''revision'', ''agent_process_ceiling'', ''control_plane_processes'',
               ''total_process_ceiling'', ''configured_by'', ''configured_at''] [] h) (\<lambda>_.
      bindE (require_identifier (sub f ''host_ref'') (j_get h ''host_ref'')) (\<lambda>_.
      bindE (require_identifier (sub f ''configured_by'') (j_get h ''configured_by'')) (\<lambda>_.
      bindE (parse_time rdt (sub f ''configured_at'') (j_get h ''configured_at'')) (\<lambda>_.
      bindE (bounded_int (sub f ''revision'') (j_get h ''revision'') 1 MAX_REVISION) (\<lambda>_.
      bindE (bounded_int (sub f ''agent_process_ceiling'') (j_get h ''agent_process_ceiling'') 1 256) (\<lambda>agents.
      bindE (bounded_int (sub f ''control_plane_processes'') (j_get h ''control_plane_processes'') 0 64) (\<lambda>control.
      bindE (bounded_int (sub f ''total_process_ceiling'') (j_get h ''total_process_ceiling'') 1 320) (\<lambda>all.
      bindE (guardE (agents + control \<le> all) (ValueError ''host runtime process ceilings are inconsistent'')) (\<lambda>_.
        Inr agents))))))))))"

record desired_state =
  ds_counts :: "(string, role_count) odict"
  ds_host :: int
  ds_board :: int
  ds_budget :: budget
  ds_connectors :: "string list"

definition role_counts :: "string \<Rightarrow> json \<Rightarrow> (string, role_count) odict result" where
  "role_counts field v =
     foldE (\<lambda>r acc. bindE (validate_role_count (sub field r) (j_get v r)) (\<lambda>c. Inr (acc @ [(r, c)]))) ROLES []"

definition check_cooldowns :: "json \<Rightarrow> unit result" where
  "check_cooldowns c =
     (let f = ''config.desired.cooldowns'' in
      bindE (strict_object f [''scale_up_s'', ''scale_down_s'', ''failure_backoff_s''] [] c) (\<lambda>_.
      bindE (bounded_int (sub f ''scale_up_s'') (j_get c ''scale_up_s'') 0 604800) (\<lambda>_.
      bindE (bounded_int (sub f ''scale_down_s'') (j_get c ''scale_down_s'') 0 604800) (\<lambda>_.
      bindE (bounded_int (sub f ''failure_backoff_s'') (j_get c ''failure_backoff_s'') 1 86400) (\<lambda>_. Inr ())))))"

definition check_connectors :: "json \<Rightarrow> string list result" where
  "check_connectors v =
     bindE (bounded_list v 32 ''config.desired.connectors is invalid'') (\<lambda>_.
     bindE (foldE (\<lambda>(i, c) ids. bindE (validate_connector (''config.desired.connectors.'' @ decimal i) c) (\<lambda>x. Inr (ids @ [x])))
              (List.enumerate 0 (j_list v)) []) (\<lambda>ids.
     bindE (guardE (distinct ids) (ValueError ''config.desired.connectors contains duplicate connector_id'')) (\<lambda>_. Inr ids)))"

definition check_desired :: "json \<Rightarrow> desired_state result" where
  "check_desired d =
     (let f = ''config.desired'' in
      bindE (strict_object f [''mode'', ''runner'', ''capacity'', ''host_concurrency'', ''board_concurrency'', ''cooldowns'',
               ''budget'', ''connectors''] [] d) (\<lambda>_.
      bindE (one_of_texts (j_get d ''mode'') [''shadow'', ''autonomous''] ''config.desired.mode is invalid'') (\<lambda>_.
      bindE (one_of_texts (j_get d ''runner'') [''direct_api'', ''acp''] ''config.desired.runner is invalid'') (\<lambda>_.
      bindE (strict_object (sub f ''capacity'') ROLES [] (j_get d ''capacity'')) (\<lambda>_.
      bindE (role_counts (sub f ''capacity'') (j_get d ''capacity'')) (\<lambda>counts.
      bindE (bounded_int (sub f ''host_concurrency'') (j_get d ''host_concurrency'') 1 256) (\<lambda>host.
      bindE (bounded_int (sub f ''board_concurrency'') (j_get d ''board_concurrency'') 1 256) (\<lambda>board.
      bindE (check_cooldowns (j_get d ''cooldowns'')) (\<lambda>_.
      bindE (validate_budget (sub f ''budget'') (j_get d ''budget'')) (\<lambda>bg.
      bindE (check_connectors (j_get d ''connectors'')) (\<lambda>ids.
        Inr \<lparr> ds_counts = counts, ds_host = host, ds_board = board, ds_budget = bg, ds_connectors = ids \<rparr>)))))))))))"

text \<open>Duplicates in a list: building the set hashes every item, and compares with \<open>==\<close>.\<close>

fun has_duplicates :: "json list \<Rightarrow> bool" where
  "has_duplicates [] = False"
| "has_duplicates (x # xs) \<longleftrightarrow> list_ex (py_eq x) xs \<or> has_duplicates xs"

definition check_approved :: "json \<Rightarrow> string \<Rightarrow> nat \<Rightarrow> unit result" where
  "check_approved e k limit =
     (let v = j_get e k; msg = ''config.envelope.'' @ k @ '' is invalid'' in
      bindE (bounded_list v limit msg) (\<lambda>_.
      bindE (guardE (list_all (\<lambda>x. \<not> is_list x \<and> \<not> is_obj x) (j_list v)) (TypeError ''unhashable type'')) (\<lambda>_.
      bindE (guardE (\<not> has_duplicates (j_list v)) (ValueError msg)) (\<lambda>_.
      bindE (guardE (k = ''approved_template_ids'' \<longrightarrow> j_list v \<noteq> [])
               (ValueError ''config.envelope.approved_template_ids must not be empty'')) (\<lambda>_.
        foldE (\<lambda>x _. bindE (require_identifier (''config.envelope.'' @ k) x) (\<lambda>_. Inr ())) (j_list v) ())))))"

record envelope =
  en_capacity :: "(string, int) odict"
  en_host :: int
  en_seat_cap :: "int option"
  en_board :: int
  en_budget :: budget

definition without :: "string \<Rightarrow> json \<Rightarrow> json" where
  "without k v = J_Obj (filter (\<lambda>(k', _). k' \<noteq> k) (j_items v))"

definition check_fingerprint :: "(json \<Rightarrow> string) \<Rightarrow> json \<Rightarrow> unit result" where
  "check_fingerprint digest e =
     bindE (guardE (sha256_ok (j_get e ''fingerprint_sha256'')) (ValueError ''config.envelope.fingerprint_sha256 is invalid'')) (\<lambda>_.
       guardE (j_get e ''fingerprint_sha256'' = J_Str (digest (without ''fingerprint_sha256'' e)))
         (ValueError ''config.envelope.fingerprint_sha256 does not match the envelope''))"

definition capacity_limits :: "json \<Rightarrow> (string, int) odict result" where
  "capacity_limits v =
     bindE (strict_object ''config.envelope.max_capacity'' ROLES [] v) (\<lambda>_.
       foldE (\<lambda>r acc. bindE (bounded_int (''config.envelope.max_capacity.'' @ r) (j_get v r) 0 100) (\<lambda>n. Inr (acc @ [(r, n)]))) ROLES [])"

definition seat_cap :: "json \<Rightarrow> int \<Rightarrow> int option result" where
  "seat_cap e agents =
     (if j_get e ''host_seat_cap'' = J_Null then Inr None
      else bindE (bounded_int ''config.envelope.host_seat_cap'' (j_get e ''host_seat_cap'') 2 100) (\<lambda>n.
           bindE (guardE (n = agents) (ValueError ''host seat cap does not match the host runtime ceiling'')) (\<lambda>_. Inr (Some n))))"

definition check_envelope :: "(string \<Rightarrow> iso_time) \<Rightarrow> (json \<Rightarrow> string) \<Rightarrow> json \<Rightarrow> int \<Rightarrow> envelope result" where
  "check_envelope rdt digest e agents =
     (let f = ''config.envelope'' in
      bindE (strict_object f [''fingerprint_sha256'', ''approved_template_ids'', ''approved_connector_ids'', ''max_capacity'',
               ''max_host_concurrency'', ''max_board_concurrency'', ''max_budget'', ''created_by'', ''created_at'']
               [''host_seat_cap''] e) (\<lambda>_.
      bindE (check_fingerprint digest e) (\<lambda>_.
      bindE (require_identifier (sub f ''created_by'') (j_get e ''created_by'')) (\<lambda>_.
      bindE (parse_time rdt (sub f ''created_at'') (j_get e ''created_at'')) (\<lambda>_.
      bindE (check_approved e ''approved_template_ids'' 100) (\<lambda>_.
      bindE (check_approved e ''approved_connector_ids'' 32) (\<lambda>_.
      bindE (capacity_limits (j_get e ''max_capacity'')) (\<lambda>limits.
      bindE (bounded_int (sub f ''max_host_concurrency'') (j_get e ''max_host_concurrency'') 1 256) (\<lambda>host.
      bindE (seat_cap e agents) (\<lambda>cap.
      bindE (bounded_int (sub f ''max_board_concurrency'') (j_get e ''max_board_concurrency'') 1 256) (\<lambda>board.
      bindE (validate_budget (sub f ''max_budget'') (j_get e ''max_budget'')) (\<lambda>bg.
        Inr \<lparr> en_capacity = limits, en_host = host, en_seat_cap = cap, en_board = board, en_budget = bg \<rparr>))))))))))))"

subsection \<open>The whole\<close>

definition within_envelope :: "int \<Rightarrow> json \<Rightarrow> desired_state \<Rightarrow> envelope \<Rightarrow> unit result" where
  "within_envelope agents approved d e =
     bindE (guardE (list_all (\<lambda>(r, c). case dget (en_capacity e) r of None \<Rightarrow> False | Some n \<Rightarrow> rc_max c \<le> n) (ds_counts d))
              (ValueError ''desired capacity exceeds immutable envelope'')) (\<lambda>_.
     bindE (case en_seat_cap e of
              None \<Rightarrow> guardE (sum_list (map (\<lambda>(_, c). rc_max c) (ds_counts d)) \<le> agents)
                        (ValueError ''desired role maxima exceed the host agent-process ceiling'')
            | Some cap \<Rightarrow> guardE (sum_list (map (\<lambda>(_, c). rc_min c) (ds_counts d)) \<le> cap)
                        (ValueError ''desired role floors exceed the host seat cap'')) (\<lambda>_.
     bindE (guardE (ds_host d \<le> en_host e \<and> ds_board d \<le> en_board e)
              (ValueError ''desired concurrency exceeds immutable envelope'')) (\<lambda>_.
     bindE (guardE (bg_period (ds_budget d) = bg_period (en_budget e) \<and>
                list_all (\<lambda>(k, _). within_cap (ds_budget d) (en_budget e) k) BUDGET_LIMITS)
              (ValueError ''desired budget exceeds immutable envelope'')) (\<lambda>_.
       guardE (list_all (\<lambda>c. J_Str c \<in> set (j_list approved)) (ds_connectors d))
         (ValueError ''desired connector is outside the immutable envelope'')))))"

definition check_authorization :: "(string \<Rightarrow> iso_time) \<Rightarrow> json \<Rightarrow> unit result" where
  "check_authorization rdt c =
     (let auth = j_get c ''authorization''; mode = j_get (j_get c ''desired'') ''mode'' in
      bindE (guardE (mode = J_Str ''autonomous'' \<longrightarrow> j_get c ''enabled'' = J_Bool True \<and> auth \<noteq> J_Null)
               (ValueError ''autonomous mode requires enabled=true and authorization'')) (\<lambda>_.
      bindE (guardE (j_get c ''enabled'' = J_Bool False \<longrightarrow> mode = J_Str ''shadow'') (ValueError ''enabled=false requires shadow mode'')) (\<lambda>_.
      if auth = J_Null then Inr ()
      else
        bindE (strict_object ''config.authorization'' [''authorization_id'', ''config_revision'', ''envelope_fingerprint_sha256'',
                 ''expires_at''] [] auth) (\<lambda>_.
        bindE (require_identifier ''config.authorization.authorization_id'' (j_get auth ''authorization_id'')) (\<lambda>_.
        bindE (bounded_int ''config.authorization.config_revision'' (j_get auth ''config_revision'') 1 MAX_REVISION) (\<lambda>n.
        bindE (guardE (n \<le> j_int (j_get c ''revision'')) (ValueError ''authorization config_revision cannot be in the future'')) (\<lambda>_.
        bindE (guardE (py_eq (j_get auth ''envelope_fingerprint_sha256'') (j_get (j_get c ''envelope'') ''fingerprint_sha256''))
                 (ValueError ''authorization does not match envelope fingerprint'')) (\<lambda>_.
        bindE (parse_time rdt ''config.authorization.expires_at'' (j_get auth ''expires_at'')) (\<lambda>_. Inr ())))))))))"

definition CONFIG_REQUIRED :: "string list" where
  "CONFIG_REQUIRED = [''schema'', ''schema_version'', ''board_id'', ''revision'', ''enabled'', ''host_runtime'', ''desired'', ''envelope'']"

definition validate_config :: "(string \<Rightarrow> iso_time) \<Rightarrow> (json \<Rightarrow> string) \<Rightarrow> json \<Rightarrow> string \<Rightarrow> json result" where
  "validate_config rdt digest c board =
     bindE (strict_object ''config'' CONFIG_REQUIRED [''authorization''] c) (\<lambda>_.
     bindE (guardE (j_get c ''schema'' = J_Str ''autonomous_butler_config_v1'' \<and> py_eq (j_get c ''schema_version'') (J_Int 1))
              (ValueError ''config schema/version is unsupported'')) (\<lambda>_.
     bindE (guardE (j_get c ''board_id'' = J_Str board) (ValueError ''config board_id does not match the target board'')) (\<lambda>_.
     bindE (bounded_int ''config.revision'' (j_get c ''revision'') 1 MAX_REVISION) (\<lambda>_.
     bindE (guardE (is_bool (j_get c ''enabled'')) (ValueError ''config.enabled must be boolean'')) (\<lambda>_.
     bindE (check_host_runtime rdt (j_get c ''host_runtime'')) (\<lambda>agents.
     bindE (check_desired (j_get c ''desired'')) (\<lambda>d.
     bindE (check_envelope rdt digest (j_get c ''envelope'') agents) (\<lambda>e.
     bindE (within_envelope agents (j_get (j_get c ''envelope'') ''approved_connector_ids'') d e) (\<lambda>_.
     bindE (check_authorization rdt c) (\<lambda>_.
       Inr c))))))))))"

end
