(* ===== verification/Butler_Authority.thy ===== *)
theory Butler_Authority
  imports Butler_Config
begin

section \<open>Who may change what in a configuration\<close>

text \<open>
  \<open>changed_paths\<close> and the two authority checks of \<open>butler_commands.py\<close>.  The paths an agent may change
  are matched by the scanner \<open>a2a_path\<close>, one alternative per regular expression of \<open>A2A_CONFIG_PATHS\<close>.
\<close>

subsection \<open>The paths at which two values differ\<close>

definition child :: "string \<Rightarrow> string \<Rightarrow> string" where
  "child prefix k = (if prefix = [] then k else prefix @ ''.'' @ k)"

definition all_keys :: "(string \<times> json) list \<Rightarrow> (string \<times> json) list \<Rightarrow> string list" where
  "all_keys xs ys = sort (remdups (map fst xs @ map fst ys))"

lemma lookup_smaller: "map_of xs k = Some v \<Longrightarrow> size v < Suc (size_list (size_prod (\<lambda>_. 0) size) xs)"
  by (induction xs) (auto split: if_split_asm)

lemma nth_smaller: "i < length xs \<Longrightarrow> size (xs ! i) < Suc (size_list size xs)"
  using size_list_estimation' [of "xs ! i" xs "size (xs ! i)" size] by (simp add: less_Suc_eq_le)

function changed_paths :: "json \<Rightarrow> json \<Rightarrow> string \<Rightarrow> string list" where
  "changed_paths a b prefix =
     (case (a, b) of
        (J_Obj xs, J_Obj ys) \<Rightarrow>
          concat (map (\<lambda>k. case (map_of xs k, map_of ys k) of
                         (Some x, Some y) \<Rightarrow> changed_paths x y (child prefix k)
                       | _ \<Rightarrow> [child prefix k]) (all_keys xs ys))
      | (J_List xs, J_List ys) \<Rightarrow>
          concat (map (\<lambda>i. if i < length xs \<and> i < length ys
                         then changed_paths (xs ! i) (ys ! i) (prefix @ ''.'' @ decimal i)
                         else [prefix @ ''.'' @ decimal i]) [0..<max (length xs) (length ys)])
      | _ \<Rightarrow> if py_eq a b then [] else [prefix])"
  by pat_completeness auto

termination
  by (relation "measure (\<lambda>(a, _, _). size a)") (auto dest: lookup_smaller [OF sym] nth_smaller)

declare changed_paths.simps [simp del]

text \<open>What both authority checks look at: every changed path but the revision.\<close>

definition changes :: "json \<Rightarrow> json \<Rightarrow> string list" where
  "changes a b = filter (\<lambda>p. p \<noteq> ''revision'') (changed_paths a b [])"

subsection \<open>Agents and people\<close>

definition connector_switch :: "string \<Rightarrow> bool" where
  "connector_switch s \<longleftrightarrow>
     (let p = ''desired.connectors.''; q = ''.enabled'' in
      starts_with p s \<and> ends_with q s \<and> is_digits (take (length s - length p - length q) (drop (length p) s)))"

definition A2A_CONFIG_PATHS :: "string list" where
  "A2A_CONFIG_PATHS =
     [''desired.runner'', ''desired.capacity.worker.target'', ''desired.capacity.reviewer.target'',
      ''desired.capacity.acp_worker.target'', ''desired.host_concurrency'', ''desired.board_concurrency'',
      ''desired.cooldowns.scale_up_s'', ''desired.cooldowns.scale_down_s'', ''desired.cooldowns.failure_backoff_s'',
      ''desired.budget.period'', ''desired.budget.max_tokens'', ''desired.budget.max_cost_microunits'',
      ''desired.budget.max_external_calls'']"

definition a2a_path :: "string \<Rightarrow> bool" where
  "a2a_path s \<longleftrightarrow> s \<in> set A2A_CONFIG_PATHS \<or> connector_switch s"

definition validate_config_authority :: "json option \<Rightarrow> json \<Rightarrow> string \<Rightarrow> string list result" where
  "validate_config_authority before after channel =
     bindE (guardE (channel \<in> {''human'', ''a2a''}) (ValueError ''sender_channel must be human or a2a'')) (\<lambda>_.
       case before of
         None \<Rightarrow> bindE (guardE (channel = ''human'')
                    (PermissionError ''only a human-admin command may initialize Butler config'')) (\<lambda>_.
                  Inr (sort (remdups (map fst (j_items after)))))
       | Some b \<Rightarrow>
           let paths = changes b after; denied = filter (\<lambda>p. \<not> a2a_path p) paths in
           bindE (guardE (channel = ''a2a'' \<longrightarrow> denied = []) (PermissionError (''A2A authority cannot mutate '' @ hd denied))) (\<lambda>_.
             Inr paths))"

subsection \<open>Commands, and the one grant a command can carry\<close>

record sender_info =
  cs_principal_id :: string
  cs_agent_id :: string
  cs_agent_name :: string
  cs_channel :: string
  cs_membership_role :: string
  cs_seat_role :: string

record transition =
  tr_prior :: int
  tr_current :: int
  tr_actor_id :: string
  tr_reason :: string
  tr_audit_id :: string
  tr_at :: time

record command =
  c_id :: string
  c_project :: string
  c_sender :: sender_info
  c_intent :: string
  c_parameters :: json
  c_expected :: int
  c_expires_at :: string
  c_priority :: string
  c_digest :: string
  c_status :: string
  c_revision :: int
  c_transition :: transition
  c_history :: "transition list"
  c_result :: "json option"
  c_created_at :: time
  c_updated_at :: time

definition command_sort_key :: "command \<Rightarrow> (int \<times> int \<times> int) \<times> time" where
  "command_sort_key c = (command_rank (cs_channel (c_sender c)) (c_priority c) (c_intent c), c_created_at c)"

definition GRANT_PATHS :: "string list" where
  "GRANT_PATHS =
     [''enabled'', ''desired.mode'', ''host_runtime.revision'', ''host_runtime.agent_process_ceiling'',
      ''host_runtime.configured_by'', ''host_runtime.configured_at'', ''envelope.host_seat_cap'',
      ''envelope.fingerprint_sha256'', ''authorization'']"

definition grant_path :: "string \<Rightarrow> bool" where
  "grant_path s \<longleftrightarrow>
     s \<in> set GRANT_PATHS \<or>
     (starts_with ''authorization.'' s \<and> drop 14 s \<noteq> [] \<and> CHR 0x0A \<notin> set (drop 14 s))"

definition is_cap_grant :: "json \<Rightarrow> command \<Rightarrow> bool" where
  "is_cap_grant before c \<longleftrightarrow>
     c_intent c = ''set_host_seat_cap'' \<and> c_status c = ''applying'' \<and> cs_channel (c_sender c) = ''human'' \<and>
     is_obj (c_parameters c) \<and> py_eq (J_Int (c_expected c)) (j_get before ''revision'')"

definition grant_matches :: "json \<Rightarrow> json \<Rightarrow> command \<Rightarrow> int \<Rightarrow> bool" where
  "grant_matches before after c cap \<longleftrightarrow>
     (let auth = j_get after ''authorization'' in
      py_eq (J_Int (j_int (j_get before ''revision'') + 1)) (j_get after ''revision'') \<and>
      j_get after ''enabled'' = J_Bool True \<and>
      j_get (j_get after ''desired'') ''mode'' = J_Str ''autonomous'' \<and>
      py_eq (J_Int cap) (j_get (j_get after ''host_runtime'') ''agent_process_ceiling'') \<and>
      py_eq (J_Int cap) (j_get (j_get after ''envelope'') ''host_seat_cap'') \<and>
      is_obj auth \<and> j_get auth ''authorization_id'' = J_Str (c_id c) \<and>
      py_eq (j_get auth ''config_revision'') (j_get after ''revision'') \<and>
      py_eq (j_get auth ''envelope_fingerprint_sha256'') (j_get (j_get after ''envelope'') ''fingerprint_sha256'') \<and>
      j_get auth ''expires_at'' = J_Str (c_expires_at c))"

definition validate_host_seat_cap_command_authority :: "json option \<Rightarrow> json \<Rightarrow> command \<Rightarrow> string list result" where
  "validate_host_seat_cap_command_authority before after c =
     (case before of
        None \<Rightarrow> Inl (PermissionError ''host seat cap command requires an existing Butler config'')
      | Some b \<Rightarrow>
          bindE (guardE (is_cap_grant b c) (PermissionError ''host seat cap command is not an applying human grant'')) (\<lambda>_.
          bindE (bounded_int ''parameters.host_seat_cap'' (j_get (c_parameters c) ''host_seat_cap'') 2 100) (\<lambda>cap.
          bindE (guardE (grant_matches b after c cap) (PermissionError ''host seat cap command does not match the config grant'')) (\<lambda>_.
            let paths = changes b after; denied = filter (\<lambda>p. \<not> grant_path p) paths in
            bindE (guardE (denied = []) (PermissionError (''host seat cap command cannot mutate '' @ hd denied))) (\<lambda>_.
              Inr paths)))))"

end
