(* ===== verification/Butler_Control.thy ===== *)
theory Butler_Control
  imports Butler_Authority Admin_Contracts
begin

section \<open>The control surface of the board butler\<close>

text \<open>
  The \<open>butler_*\<close> tools of \<open>central.py\<close>.  The part of the document they write is the record \<open>control\<close>; a
  tool runs on the board and this record.  \<open>bs_reads\<close> is \<open>datetime.fromisoformat\<close>, \<open>bs_writes\<close> is
  \<open>datetime.isoformat\<close>, \<open>bs_digest\<close> the SHA-256 of canonical JSON and \<open>bs_size\<close> the length of the encoded
  JSON.  A tool reads the clock twice: \<open>now\<close> before the transaction and \<open>clock\<close> within it.
\<close>

record butler_services =
  bs_agent_id :: "string \<Rightarrow> string \<Rightarrow> string \<Rightarrow> string"
  bs_reads :: "string \<Rightarrow> iso_time"
  bs_writes :: "time \<Rightarrow> string"
  bs_digest :: "json \<Rightarrow> string"
  bs_size :: "json \<Rightarrow> nat"

record audit =
  au_id :: string
  au_seq :: int
  au_at :: time
  au_actor_id :: string
  au_principal_id :: string
  au_category :: string
  au_action :: string
  au_outcome :: string
  au_reason :: string
  au_policy_digest :: string
  au_command_id :: "string option"
  au_config_revision :: "int option"
  au_prior :: int
  au_current :: int

record config_record =
  cr_mutation_id :: string
  cr_digest :: string
  cr_prior :: int
  cr_current :: int
  cr_prior_digest :: "string option"
  cr_current_digest :: string
  cr_paths :: "string list"
  cr_actor_id :: string
  cr_channel :: string
  cr_audit_id :: string
  cr_at :: time
  cr_config :: json
  cr_prior_config :: "json option"

record control =
  ct_commands :: "(string, command) odict"
  ct_audit :: "audit list"
  ct_next_audit :: int
  ct_config :: "json option"
  ct_history :: "config_record list"
  ct_mutations :: "(string, config_record) odict"

type_synonym desk = "world \<times> control"

datatype butler_reply =
    Command_Reply command bool "release list" "string list" \<comment> \<open>the command, and whether this was a replay\<close>
  | Config_Reply config_record bool "release list" "string list"

subsection \<open>Identities\<close>

definition is_butler :: "seat \<Rightarrow> bool" where
  "is_butler m \<longleftrightarrow> role m = ''coordinator'' \<and>
     (case caps m of None \<Rightarrow> False | Some c \<Rightarrow> \<not> can_work c \<and> \<not> can_review c)"

definition require_butler_actor ::
  "butler_services \<Rightarrow> world \<Rightarrow> principal \<Rightarrow> string \<Rightarrow> world result" where
  "require_butler_actor sv w p name =
     bindE (lookup_member (bs_agent_id sv) w p name) (\<lambda>(w1, actor).
     bindE (resolve_board_context (brd w1) (pr_id p) None) (\<lambda>pm.
     bindE (guardE (pm_role pm = ''admin'' \<and> is_butler actor)
              (PermissionError ''operation requires the board-owned non-working coordinator identity'')) (\<lambda>_.
     bindE (guardE (lifecycle_status actor = ''active'') (PermissionError ''Board Butler identity is not active'')) (\<lambda>_.
       Inr w1))))"

definition butler_call_actor ::
  "butler_services \<Rightarrow> world \<Rightarrow> principal \<Rightarrow> string \<Rightarrow> time \<Rightarrow> (world \<times> seat \<times> release list \<times> string list) result" where
  "butler_call_actor sv w p name now =
     (if ''board:write'' \<in> set (pr_scopes p) then prepare_board_call (bs_agent_id sv) w p name now
      else bindE (coordinator_actor (bs_agent_id sv) w p name) (\<lambda>(w1, actor). Inr (w1, actor, [], [])))"

definition butler_sender :: "world \<Rightarrow> principal \<Rightarrow> seat \<Rightarrow> string \<Rightarrow> sender_info result" where
  "butler_sender w p actor channel =
     bindE (guardE (channel \<in> {''human'', ''a2a''}) (ValueError ''sender_channel must be human or a2a'')) (\<lambda>_.
     bindE (resolve_board_context (brd w) (pr_id p) None) (\<lambda>pm.
     bindE (guardE (channel = ''human'' \<longrightarrow> pm_role pm = ''admin'')
              (PermissionError ''human command channel requires board-admin membership'')) (\<lambda>_.
     bindE (guardE (\<not> (channel = ''human'' \<and> is_butler actor))
              (PermissionError ''board-owned Butler identity cannot assert human authority'')) (\<lambda>_.
       Inr \<lparr> cs_principal_id = pr_id p, cs_agent_id = agent_id actor, cs_agent_name = agent_name actor,
             cs_channel = channel, cs_membership_role = pm_role pm, cs_seat_role = role actor \<rparr>))))"

subsection \<open>The audit\<close>

definition policy_digest :: "butler_services \<Rightarrow> control \<Rightarrow> string" where
  "policy_digest sv ct =
     (case ct_config ct of
        Some c \<Rightarrow> if c = J_Obj [] then replicate 64 (CHR ''0'') else bs_digest sv c
      | None \<Rightarrow> replicate 64 (CHR ''0''))"

definition append_butler_audit ::
  "butler_services \<Rightarrow> control \<Rightarrow> seat \<Rightarrow> string \<Rightarrow> string \<Rightarrow> string \<Rightarrow> string \<Rightarrow> time
     \<Rightarrow> string option \<Rightarrow> int option \<Rightarrow> int \<Rightarrow> int \<Rightarrow> control \<times> audit" where
  "append_butler_audit sv ct actor category action outcome reason now cid crev prior current =
     (let n = ct_next_audit ct;
          a = \<lparr> au_id = ''BA-'' @ zero_padded 12 (nat n), au_seq = n, au_at = now, au_actor_id = agent_id actor,
                au_principal_id = principal_id actor, au_category = category, au_action = action, au_outcome = outcome,
                au_reason = reason, au_policy_digest = policy_digest sv ct, au_command_id = cid,
                au_config_revision = crev, au_prior = prior, au_current = current \<rparr>
      in (ct\<lparr>ct_next_audit := n + 1, ct_audit := ct_audit ct @ [a]\<rparr>, a))"

subsection \<open>Transitions of commands\<close>

definition transition_outcome :: "string \<Rightarrow> string" where
  "transition_outcome target =
     (if target \<in> {''validating'', ''pending'', ''applying''} then ''started''
      else if target = ''rejected'' then ''denied'' else target)"

definition transition_command ::
  "butler_services \<Rightarrow> control \<Rightarrow> command \<Rightarrow> seat \<Rightarrow> string \<Rightarrow> string \<Rightarrow> time \<Rightarrow> json option \<Rightarrow> (control \<times> command) result" where
  "transition_command sv ct c actor target reason now res =
     bindE (guardE (target \<in> set COMMAND_STATES) (ValueError ''target_status is invalid'')) (\<lambda>_.
     bindE (guardE (transition_allowed (c_status c) target)
              (ValueError (''command transition '' @ c_status c @ ''->'' @ target @ '' is not allowed''))) (\<lambda>_.
       case append_butler_audit sv ct actor ''command'' (''command_'' @ target) (transition_outcome target) reason now
              (Some (c_id c)) None (c_revision c) (c_revision c + 1) of
         (ct1, a) \<Rightarrow>
           let tr = \<lparr> tr_prior = c_revision c, tr_current = c_revision c + 1, tr_actor_id = agent_id actor,
                      tr_reason = reason, tr_audit_id = au_id a, tr_at = now \<rparr>;
               c' = c\<lparr>c_status := target, c_revision := c_revision c + 1, c_updated_at := now, c_transition := tr,
                      c_history := c_history c @ [tr],
                      c_result := (case res of None \<Rightarrow> c_result c | Some r \<Rightarrow> Some r)\<rparr>
           in Inr (ct1\<lparr>ct_commands := dset (c_id c) c' (ct_commands ct1)\<rparr>, c')))"

subsection \<open>Submitting\<close>

record command_input =
  ci_request_id :: json
  ci_project_id :: json
  ci_channel :: string
  ci_intent :: string
  ci_parameters :: json
  ci_expected :: int
  ci_expires_at :: json
  ci_priority :: string

definition sender_json :: "sender_info \<Rightarrow> json" where
  "sender_json s = J_Obj
     [(''principal_id'', J_Str (cs_principal_id s)), (''agent_id'', J_Str (cs_agent_id s)),
      (''agent_name'', J_Str (cs_agent_name s)), (''channel'', J_Str (cs_channel s)),
      (''membership_role'', J_Str (cs_membership_role s)), (''seat_role'', J_Str (cs_seat_role s))]"

definition immutable_json :: "string \<Rightarrow> string \<Rightarrow> string \<Rightarrow> sender_info \<Rightarrow> command_input \<Rightarrow> json \<Rightarrow> string \<Rightarrow> json" where
  "immutable_json rid board project s inp params expires = J_Obj
     [(''request_id'', J_Str rid), (''board_id'', J_Str board), (''project_id'', J_Str project),
      (''sender'', sender_json s), (''intent'', J_Str (ci_intent inp)), (''parameters'', params),
      (''expected_config_revision'', J_Int (ci_expected inp)), (''expires_at'', J_Str expires),
      (''priority'', J_Str (ci_priority inp))]"

definition config_revision :: "control \<Rightarrow> int" where
  "config_revision ct = (case ct_config ct of None \<Rightarrow> 0 | Some c \<Rightarrow> j_int (get_or c ''revision'' (J_Int 0)))"

definition channel_permits ::
  "butler_services \<Rightarrow> world \<Rightarrow> principal \<Rightarrow> string \<Rightarrow> command_input \<Rightarrow> world result" where
  "channel_permits sv w p name inp =
     bindE (guardE (\<not> (ci_channel inp = ''a2a'' \<and> ci_priority inp = ''emergency''))
              (PermissionError ''emergency priority is reserved for human-admin commands'')) (\<lambda>_.
     bindE (guardE (ci_intent inp = ''set_host_seat_cap'' \<longrightarrow> ci_channel inp = ''human'')
              (PermissionError ''host seat cap grants require human-admin authority'')) (\<lambda>_.
     bindE (guardE (ci_intent inp = ''resume'' \<longrightarrow> ci_channel inp = ''human'')
              (PermissionError ''resume requires human-admin authority'')) (\<lambda>_.
       if ci_channel inp = ''a2a'' \<and> ci_intent inp \<notin> {''reconcile_now'', ''veto_action'', ''kill''}
       then require_butler_actor sv w p name else Inr w)))"

definition MAX_COMMANDS :: nat where "MAX_COMMANDS = 10000"

definition may_create :: "control \<Rightarrow> command_input \<Rightarrow> time \<Rightarrow> time \<Rightarrow> unit result" where
  "may_create ct inp expiry clock =
     bindE (guardE (clock < expiry \<and> expiry - clock \<le> secs 604800)
              (ValueError ''expires_at must be in the future and no more than 7 days away'')) (\<lambda>_.
     bindE (guardE (config_revision ct = ci_expected inp) (ValueError ''Butler command config precondition failed'')) (\<lambda>_.
     bindE (guardE (ct_config ct = None \<longrightarrow> ci_intent inp \<in> {''kill'', ''veto_action''})
              (ValueError ''Butler config is absent; only kill or veto_action is accepted'')) (\<lambda>_.
       guardE (length (ct_commands ct) < MAX_COMMANDS) (ValueError ''Butler command store reached its bounded limit''))))"

definition create_command ::
  "butler_services \<Rightarrow> control \<Rightarrow> seat \<Rightarrow> string \<Rightarrow> string \<Rightarrow> sender_info \<Rightarrow> command_input \<Rightarrow> json \<Rightarrow> string \<Rightarrow> string
     \<Rightarrow> time \<Rightarrow> control \<times> command" where
  "create_command sv ct actor rid project s inp params expires digest now =
     (case append_butler_audit sv ct actor ''command'' ''command_submit'' ''started'' ''command_accepted'' now
             (Some rid) None 0 1 of
        (ct1, a) \<Rightarrow>
          let tr = \<lparr> tr_prior = 0, tr_current = 1, tr_actor_id = agent_id actor, tr_reason = ''command_accepted'',
                     tr_audit_id = au_id a, tr_at = now \<rparr>;
              c = \<lparr> c_id = rid, c_project = project, c_sender = s, c_intent = ci_intent inp, c_parameters = params,
                    c_expected = ci_expected inp, c_expires_at = expires, c_priority = ci_priority inp,
                    c_digest = digest, c_status = ''accepted'', c_revision = 1, c_transition = tr, c_history = [tr],
                    c_result = None, c_created_at = now, c_updated_at = now \<rparr>
          in (ct1\<lparr>ct_commands := dset rid c (ct_commands ct1)\<rparr>, c))"

definition command_submit_with_actor ::
  "butler_services \<Rightarrow> desk \<Rightarrow> seat \<Rightarrow> principal \<Rightarrow> string \<Rightarrow> string \<Rightarrow> string \<Rightarrow> json \<Rightarrow> time \<Rightarrow> command_input
     \<Rightarrow> time \<Rightarrow> time \<Rightarrow> release list \<Rightarrow> string list \<Rightarrow> (desk \<times> butler_reply) result" where
  "command_submit_with_actor sv d actor p name rid project params expiry inp now clock released renewed =
     (case d of (w, ct) \<Rightarrow>
       bindE (butler_sender w p actor (ci_channel inp)) (\<lambda>s.
       bindE (channel_permits sv w p name inp) (\<lambda>w1.
         let expires = bs_writes sv expiry;
             digest = bs_digest sv (immutable_json rid (board_id (brd w)) project s inp params expires) in
         (case dget (ct_commands ct) rid of
            Some c \<Rightarrow>
              if c_digest c \<noteq> digest then Inl (ValueError ''request_id was reused with different canonical bytes'')
              else Inr ((w1, ct), Command_Reply c True released renewed)
          | None \<Rightarrow>
              bindE (may_create ct inp expiry clock) (\<lambda>_.
                case create_command sv ct actor rid project s inp params expires digest now of
                  (ct1, c) \<Rightarrow> Inr ((w1, ct1), Command_Reply c False released renewed))))))"

definition butler_command_submit ::
  "butler_services \<Rightarrow> desk \<Rightarrow> principal \<Rightarrow> string \<Rightarrow> command_input \<Rightarrow> time \<Rightarrow> time \<Rightarrow> (desk \<times> butler_reply) result" where
  "butler_command_submit sv d p name inp now clock =
     bindE (require_identifier ''request_id'' (ci_request_id inp)) (\<lambda>rid.
     bindE (require_identifier ''project_id'' (ci_project_id inp)) (\<lambda>project.
     bindE (validate_command_parameters (ci_intent inp) (ci_parameters inp)) (\<lambda>params.
     bindE (guardE (dget COMMAND_PRIORITIES (ci_priority inp) \<noteq> None)
              (ValueError ''priority must be low, normal, high, or emergency'')) (\<lambda>_.
     bindE (guardE (0 \<le> ci_expected inp) (ValueError ''expected_config_revision must be non-negative'')) (\<lambda>_.
     bindE (parse_time (bs_reads sv) ''expires_at'' (ci_expires_at inp)) (\<lambda>expiry.
     bindE (require_board_write_or_coordinate p) (\<lambda>_.
     bindE (butler_call_actor sv (fst d) p name now) (\<lambda>(w1, actor, released, renewed).
       command_submit_with_actor sv (w1, snd d) actor p name rid project params expiry inp now clock released renewed))))))))"

subsection \<open>Acknowledging, cancelling, finishing\<close>

definition existing_command :: "control \<Rightarrow> string \<Rightarrow> int \<Rightarrow> command result" where
  "existing_command ct cid expected =
     (case dget (ct_commands ct) cid of
        None \<Rightarrow> Inl (ValueError ''Butler command not found'')
      | Some c \<Rightarrow> if c_revision c \<noteq> expected then Inl (ValueError ''Butler command CAS conflict'') else Inr c)"

definition acknowledge_with_actor ::
  "butler_services \<Rightarrow> desk \<Rightarrow> seat \<Rightarrow> principal \<Rightarrow> string \<Rightarrow> string \<Rightarrow> int \<Rightarrow> string \<Rightarrow> string \<Rightarrow> time \<Rightarrow> time
     \<Rightarrow> release list \<Rightarrow> string list \<Rightarrow> (desk \<times> butler_reply) result" where
  "acknowledge_with_actor sv d actor p name cid expected target reason now clock released renewed =
     bindE (require_butler_actor sv (fst d) p name) (\<lambda>w1.
     bindE (existing_command (snd d) cid expected) (\<lambda>c.
     bindE (parse_time (bs_reads sv) ''expires_at'' (J_Str (c_expires_at c))) (\<lambda>expiry.
     bindE (guardE (clock < expiry) (ValueError ''Butler command has expired'')) (\<lambda>_.
     bindE (transition_command sv (snd d) c actor target reason now None) (\<lambda>(ct1, c1).
       Inr ((w1, ct1), Command_Reply c1 False released renewed))))))"

definition butler_command_acknowledge ::
  "butler_services \<Rightarrow> desk \<Rightarrow> principal \<Rightarrow> string \<Rightarrow> json \<Rightarrow> int \<Rightarrow> string \<Rightarrow> json \<Rightarrow> time \<Rightarrow> time
     \<Rightarrow> (desk \<times> butler_reply) result" where
  "butler_command_acknowledge sv d p name cid expected target reason now clock =
     bindE (require_identifier ''command_id'' cid) (\<lambda>k.
     bindE (require_reason ''reason_code'' reason) (\<lambda>why.
     bindE (guardE (target \<in> {''validating'', ''pending'', ''applying''})
              (ValueError ''acknowledge target_status must be validating, pending, or applying'')) (\<lambda>_.
     bindE (guardE (1 \<le> expected) (ValueError ''expected_revision must be a positive integer'')) (\<lambda>_.
     bindE (require_board_write_or_coordinate p) (\<lambda>_.
     bindE (butler_call_actor sv (fst d) p name now) (\<lambda>(w1, actor, released, renewed).
       acknowledge_with_actor sv (w1, snd d) actor p name k expected target why now clock released renewed))))))"

definition may_cancel ::
  "butler_services \<Rightarrow> world \<Rightarrow> principal \<Rightarrow> string \<Rightarrow> string \<Rightarrow> command \<Rightarrow> world result" where
  "may_cancel sv w p name channel c =
     (if channel \<noteq> ''a2a'' then Inr w
      else if cs_channel (c_sender c) = ''human'' then Inl (PermissionError ''A2A authority cannot cancel a human command'')
      else if cs_principal_id (c_sender c) \<noteq> pr_id p then require_butler_actor sv w p name else Inr w)"

definition cancel_result :: "string \<Rightarrow> string \<Rightarrow> json" where
  "cancel_result reason commit = J_Obj
     [(''outcome'', J_Str ''cancelled''), (''reason_code'', J_Str reason), (''commit_state'', J_Str commit)]"

definition command_cancel_with_actor ::
  "butler_services \<Rightarrow> desk \<Rightarrow> seat \<Rightarrow> principal \<Rightarrow> string \<Rightarrow> string \<Rightarrow> int \<Rightarrow> string \<Rightarrow> string \<Rightarrow> string \<Rightarrow> time
     \<Rightarrow> release list \<Rightarrow> string list \<Rightarrow> (desk \<times> butler_reply) result" where
  "command_cancel_with_actor sv d actor p name cid expected channel reason commit now released renewed =
     bindE (butler_sender (fst d) p actor channel) (\<lambda>_.
     bindE (existing_command (snd d) cid expected) (\<lambda>c.
     bindE (may_cancel sv (fst d) p name channel c) (\<lambda>w1.
     bindE (guardE (\<not> (c_status c = ''applying'' \<and> commit = ''not_started''))
              (ValueError ''applying cancellation requires an explicit commit_state'')) (\<lambda>_.
     bindE (guardE (c_status c \<notin> set TERMINAL_COMMAND_STATES) (ValueError ''terminal command cannot be cancelled'')) (\<lambda>_.
     bindE (transition_command sv (snd d) c actor ''cancelled'' reason now (Some (cancel_result reason commit))) (\<lambda>(ct1, c1).
       Inr ((w1, ct1), Command_Reply c1 False released renewed)))))))"

definition butler_command_cancel ::
  "butler_services \<Rightarrow> desk \<Rightarrow> principal \<Rightarrow> string \<Rightarrow> json \<Rightarrow> int \<Rightarrow> string \<Rightarrow> json \<Rightarrow> string \<Rightarrow> time
     \<Rightarrow> (desk \<times> butler_reply) result" where
  "butler_command_cancel sv d p name cid expected channel reason commit now =
     bindE (require_identifier ''command_id'' cid) (\<lambda>k.
     bindE (require_reason ''reason_code'' reason) (\<lambda>why.
     bindE (guardE (commit \<in> set RESULT_COMMIT_STATES) (ValueError ''commit_state is invalid'')) (\<lambda>_.
     bindE (guardE (1 \<le> expected) (ValueError ''expected_revision must be a positive integer'')) (\<lambda>_.
     bindE (require_board_write_or_coordinate p) (\<lambda>_.
     bindE (butler_call_actor sv (fst d) p name now) (\<lambda>(w1, actor, released, renewed).
       command_cancel_with_actor sv (w1, snd d) actor p name k expected channel why commit now released renewed))))))"

definition result_with_actor ::
  "butler_services \<Rightarrow> desk \<Rightarrow> seat \<Rightarrow> principal \<Rightarrow> string \<Rightarrow> string \<Rightarrow> int \<Rightarrow> json \<Rightarrow> time
     \<Rightarrow> release list \<Rightarrow> string list \<Rightarrow> (desk \<times> butler_reply) result" where
  "result_with_actor sv d actor p name cid expected res now released renewed =
     bindE (require_butler_actor sv (fst d) p name) (\<lambda>w1.
     bindE (existing_command (snd d) cid expected) (\<lambda>c.
     bindE (guardE (j_get res ''config_revision'' \<noteq> J_Null \<longrightarrow> j_int (j_get res ''config_revision'') = config_revision (snd d))
              (ValueError ''result config_revision does not match current config'')) (\<lambda>_.
     bindE (transition_command sv (snd d) c actor (text_of (j_get res ''outcome'')) (text_of (j_get res ''reason_code'')) now (Some res))
       (\<lambda>(ct1, c1). Inr ((w1, ct1), Command_Reply c1 False released renewed)))))"

definition butler_command_result ::
  "butler_services \<Rightarrow> desk \<Rightarrow> principal \<Rightarrow> string \<Rightarrow> json \<Rightarrow> int \<Rightarrow> json \<Rightarrow> time \<Rightarrow> (desk \<times> butler_reply) result" where
  "butler_command_result sv d p name cid expected v now =
     bindE (require_identifier ''command_id'' cid) (\<lambda>k.
     bindE (validate_command_result v) (\<lambda>res.
     bindE (guardE (\<not> (j_get res ''outcome'' = J_Str ''succeeded'' \<and> \<not> j_has res ''effect_observation_ref''))
              (ValueError ''succeeded result requires product-produced effect_observation_ref'')) (\<lambda>_.
     bindE (guardE (1 \<le> expected) (ValueError ''expected_revision must be a positive integer'')) (\<lambda>_.
     bindE (require_board_write_or_coordinate p) (\<lambda>_.
     bindE (butler_call_actor sv (fst d) p name now) (\<lambda>(w1, actor, released, renewed).
       result_with_actor sv (w1, snd d) actor p name k expected res now released renewed))))))"

end
