(* ===== verification/Butler_Desk.thy ===== *)
theory Butler_Desk
  imports Butler_Control
begin

section \<open>Writing and reading the configuration, runs of the control surface\<close>

subsection \<open>\<open>butler_config_set\<close>\<close>

record config_input =
  gi_mutation_id :: json
  gi_channel :: string
  gi_config :: json
  gi_expected :: int
  gi_command_id :: "json option"

definition mutation_json :: "string \<Rightarrow> config_input \<Rightarrow> string option \<Rightarrow> json" where
  "mutation_json mid inp cid = J_Obj
     [(''mutation_id'', J_Str mid), (''sender_channel'', J_Str (gi_channel inp)),
      (''expected_revision'', J_Int (gi_expected inp)), (''config'', gi_config inp),
      (''authorization_command_id'', opt_text cid)]"

definition config_channel ::
  "butler_services \<Rightarrow> world \<Rightarrow> principal \<Rightarrow> string \<Rightarrow> seat \<Rightarrow> string \<Rightarrow> world result" where
  "config_channel sv w p name actor channel =
     bindE (resolve_board_context (brd w) (pr_id p) None) (\<lambda>pm.
       if channel = ''human''
       then bindE (guardE (pm_role pm = ''admin'' \<and> ''board:write'' \<in> set (pr_scopes p))
                     (PermissionError ''human config channel requires board-admin write authorization'')) (\<lambda>_.
            bindE (guardE (\<not> is_butler actor) (PermissionError ''board-owned Butler identity cannot assert human authority'')) (\<lambda>_.
              Inr w))
       else if channel = ''a2a'' then require_butler_actor sv w p name
       else Inl (ValueError ''sender_channel must be human or a2a''))"

definition config_paths :: "control \<Rightarrow> config_input \<Rightarrow> string option \<Rightarrow> string list result" where
  "config_paths ct inp cid =
     (case cid of
        None \<Rightarrow> validate_config_authority (ct_config ct) (gi_config inp) (gi_channel inp)
      | Some k \<Rightarrow>
          bindE (guardE (gi_channel inp = ''a2a'') (PermissionError ''delegated config authority requires the A2A channel'')) (\<lambda>_.
            case dget (ct_commands ct) k of
              None \<Rightarrow> Inl (PermissionError ''host seat cap authorization command was not found'')
            | Some c \<Rightarrow> validate_host_seat_cap_command_authority (ct_config ct) (gi_config inp) c))"

definition MAX_CONFIG_HISTORY :: nat where "MAX_CONFIG_HISTORY = 256"
definition MAX_CONFIG_MUTATIONS :: nat where "MAX_CONFIG_MUTATIONS = 1024"

definition last_entries :: "nat \<Rightarrow> 'a list \<Rightarrow> 'a list" where
  "last_entries n xs = drop (length xs - n) xs"

definition prune_mutations :: "(string, config_record) odict \<Rightarrow> (string, config_record) odict" where
  "prune_mutations ms =
     fold dpop (take (length ms - MAX_CONFIG_MUTATIONS) (map fst (sort_key (\<lambda>(k, r). (cr_at r, k)) ms))) ms"

definition commit_config ::
  "butler_services \<Rightarrow> control \<Rightarrow> seat \<Rightarrow> string \<Rightarrow> string \<Rightarrow> config_input \<Rightarrow> string list \<Rightarrow> time \<Rightarrow> control \<times> config_record" where
  "commit_config sv ct actor mid digest inp paths now =
     (let rev = j_int (j_get (gi_config inp) ''revision''); prior = config_revision ct in
      case append_butler_audit sv ct actor ''config'' ''config_set'' ''succeeded'' ''config_cas_committed'' now None (Some rev) prior rev of
        (ct1, a) \<Rightarrow>
          let r = \<lparr> cr_mutation_id = mid, cr_digest = digest, cr_prior = prior, cr_current = rev,
                    cr_prior_digest = map_option (bs_digest sv) (ct_config ct), cr_current_digest = bs_digest sv (gi_config inp),
                    cr_paths = paths, cr_actor_id = agent_id actor, cr_channel = gi_channel inp, cr_audit_id = au_id a,
                    cr_at = now, cr_config = gi_config inp, cr_prior_config = ct_config ct \<rparr>
          in (ct1\<lparr>ct_config := Some (gi_config inp), ct_history := last_entries MAX_CONFIG_HISTORY (ct_history ct1 @ [r]),
                  ct_mutations := prune_mutations (dset mid r (ct_mutations ct1))\<rparr>, r))"

definition config_with_actor ::
  "butler_services \<Rightarrow> desk \<Rightarrow> seat \<Rightarrow> principal \<Rightarrow> string \<Rightarrow> string \<Rightarrow> string option \<Rightarrow> config_input \<Rightarrow> time
     \<Rightarrow> release list \<Rightarrow> string list \<Rightarrow> (desk \<times> butler_reply) result" where
  "config_with_actor sv d actor p name mid cid inp now released renewed =
     (case d of (w, ct) \<Rightarrow>
       let digest = bs_digest sv (mutation_json mid inp cid) in
       bindE (config_channel sv w p name actor (gi_channel inp)) (\<lambda>w1.
         case dget (ct_mutations ct) mid of
           Some r \<Rightarrow>
             if cr_digest r \<noteq> digest then Inl (ValueError ''mutation_id was reused with different canonical bytes'')
             else Inr ((w1, ct), Config_Reply r True released renewed)
         | None \<Rightarrow>
             bindE (guardE (config_revision ct = gi_expected inp) (ValueError ''Butler config CAS conflict'')) (\<lambda>_.
             bindE (guardE (py_eq (J_Int (gi_expected inp + 1)) (j_get (gi_config inp) ''revision''))
                      (ValueError ''config revision must advance exactly one'')) (\<lambda>_.
             bindE (config_paths ct inp cid) (\<lambda>paths.
               case commit_config sv ct actor mid digest inp paths now of
                 (ct1, r) \<Rightarrow> Inr ((w1, ct1), Config_Reply r False released renewed))))))"

definition MAX_CONFIG_BYTES :: nat where "MAX_CONFIG_BYTES = 262144"

definition butler_config_set ::
  "butler_services \<Rightarrow> desk \<Rightarrow> principal \<Rightarrow> string \<Rightarrow> config_input \<Rightarrow> time \<Rightarrow> (desk \<times> butler_reply) result" where
  "butler_config_set sv d p name inp now =
     bindE (require_identifier ''mutation_id'' (gi_mutation_id inp)) (\<lambda>mid.
     bindE (case gi_command_id inp of None \<Rightarrow> Inr None
            | Some v \<Rightarrow> bindE (require_identifier ''authorization_command_id'' v) (\<lambda>k. Inr (Some k))) (\<lambda>cid.
     bindE (guardE (0 \<le> gi_expected inp) (ValueError ''expected_revision must be a non-negative integer'')) (\<lambda>_.
     bindE (guardE (bs_size sv (gi_config inp) \<le> MAX_CONFIG_BYTES) (ValueError ''config exceeds 262144 bytes'')) (\<lambda>_.
     bindE (validate_config (bs_reads sv) (bs_digest sv) (gi_config inp) (board_id (brd (fst d)))) (\<lambda>_.
     bindE (require_board_write_or_coordinate p) (\<lambda>_.
     bindE (butler_call_actor sv (fst d) p name now) (\<lambda>(w1, actor, released, renewed).
       config_with_actor sv (w1, snd d) actor p name mid cid inp now released renewed)))))))"

subsection \<open>Reading\<close>

text \<open>The mode the host may act on: what the configuration asks for, while its authorization is valid.\<close>

definition authorization_valid :: "butler_services \<Rightarrow> json option \<Rightarrow> time \<Rightarrow> bool result" where
  "authorization_valid sv selected clock =
     (case selected of
        None \<Rightarrow> Inr False
      | Some c \<Rightarrow>
          let auth = j_get c ''authorization'' in
          if is_obj auth \<and> py_eq (j_get auth ''config_revision'') (j_get c ''revision'') \<and>
             py_eq (j_get auth ''envelope_fingerprint_sha256'') (j_get (j_get c ''envelope'') ''fingerprint_sha256'')
          then bindE (parse_time (bs_reads sv) ''authorization.expires_at'' (j_get auth ''expires_at'')) (\<lambda>t. Inr (clock < t))
          else Inr False)"

definition effective_mode :: "butler_services \<Rightarrow> json option \<Rightarrow> time \<Rightarrow> json result" where
  "effective_mode sv selected clock =
     bindE (authorization_valid sv selected clock) (\<lambda>valid.
       Inr (case selected of
              None \<Rightarrow> J_Str ''shadow''
            | Some c \<Rightarrow> if j_get c ''enabled'' = J_Bool True \<and> valid
                        then get_or (j_get c ''desired'') ''mode'' (J_Str ''shadow'') else J_Str ''shadow''))"

definition selected_config :: "control \<Rightarrow> int option \<Rightarrow> json option result" where
  "selected_config ct revision =
     (case revision of
        None \<Rightarrow> Inr (ct_config ct)
      | Some n \<Rightarrow>
          if n = 0 then Inr None
          else if (case ct_config ct of None \<Rightarrow> False | Some c \<Rightarrow> py_eq (J_Int n) (j_get c ''revision'')) then Inr (ct_config ct)
          else (case find (\<lambda>r. cr_current r = n) (ct_history ct) of
                  None \<Rightarrow> Inl (ValueError ''Butler config revision not found'')
                | Some r \<Rightarrow> Inr (Some (cr_config r))))"

text \<open>Which commands a principal sees, and the order of the queue.\<close>

definition sees_command :: "membership \<Rightarrow> principal \<Rightarrow> command \<Rightarrow> bool" where
  "sees_command pm p c \<longleftrightarrow> pm_role pm = ''admin'' \<or> cs_principal_id (c_sender c) = pr_id p"

definition visible_butler_command ::
  "butler_services \<Rightarrow> desk \<Rightarrow> principal \<Rightarrow> string \<Rightarrow> string \<Rightarrow> time \<Rightarrow> (command \<times> bool) result" where
  "visible_butler_command sv d p name cid clock =
     bindE (lookup_member (bs_agent_id sv) (fst d) p name) (\<lambda>_.
       case dget (ct_commands (snd d)) cid of
         None \<Rightarrow> Inl (ValueError ''Butler command not found'')
       | Some c \<Rightarrow>
           bindE (resolve_board_context (brd (fst d)) (pr_id p) None) (\<lambda>pm.
           bindE (guardE (sees_command pm p c) (PermissionError ''Butler command is not visible to this principal'')) (\<lambda>_.
             if c_status c \<in> set TERMINAL_COMMAND_STATES then Inr (c, False)
             else bindE (parse_time (bs_reads sv) ''expires_at'' (J_Str (c_expires_at c))) (\<lambda>t. Inr (c, t \<le> clock)))))"

definition command_queue :: "control \<Rightarrow> membership \<Rightarrow> principal \<Rightarrow> string option \<Rightarrow> command list" where
  "command_queue ct pm p st =
     sort_key command_sort_key
       (filter (\<lambda>c. sees_command pm p c \<and> (case st of None \<Rightarrow> True | Some s \<Rightarrow> c_status c = s)) (dvalues (ct_commands ct)))"

subsection \<open>Runs\<close>

text \<open>
  One step is a tool that returned, or any change of the board by another tool (which leaves the control
  surface alone).  A configuration that reaches the server was parsed, so no object of it repeats a key.
\<close>

datatype butler_call =
    Submit_Command command_input
  | Acknowledge json int string json
  | Cancel_Command json int string json string
  | Commit_Result json int json
  | Set_Config config_input

definition run_butler ::
  "butler_services \<Rightarrow> butler_call \<Rightarrow> desk \<Rightarrow> principal \<Rightarrow> string \<Rightarrow> time \<Rightarrow> time \<Rightarrow> (desk \<times> butler_reply) result" where
  "run_butler sv c d p name now clock =
     (case c of
        Submit_Command inp \<Rightarrow> butler_command_submit sv d p name inp now clock
      | Acknowledge cid n target why \<Rightarrow> butler_command_acknowledge sv d p name cid n target why now clock
      | Cancel_Command cid n channel why commit \<Rightarrow> butler_command_cancel sv d p name cid n channel why commit now
      | Commit_Result cid n v \<Rightarrow> butler_command_result sv d p name cid n v now
      | Set_Config inp \<Rightarrow> butler_config_set sv d p name inp now)"

definition parsed_call :: "butler_call \<Rightarrow> bool" where
  "parsed_call c = (case c of Set_Config inp \<Rightarrow> json_ok (gi_config inp) | _ \<Rightarrow> True)"

inductive desk_step :: "butler_services \<Rightarrow> desk \<Rightarrow> desk \<Rightarrow> bool" for sv where
  call: "parsed_call c \<Longrightarrow> run_butler sv c d p name now clock = Inr (d', r) \<Longrightarrow> desk_step sv d d'"
| other: "desk_step sv (w, ct) (w', ct)"

inductive desk_run :: "butler_services \<Rightarrow> desk \<Rightarrow> desk \<Rightarrow> bool" for sv where
  start: "desk_run sv d d"
| step: "desk_run sv d d' \<Longrightarrow> desk_step sv d' d'' \<Longrightarrow> desk_run sv d d''"

definition empty_control :: control where
  "empty_control = \<lparr> ct_commands = [], ct_audit = [], ct_next_audit = 1, ct_config = None, ct_history = [], ct_mutations = [] \<rparr>"

end
