(* ===== verification/Butler_Facts.thy ===== *)
theory Butler_Facts
  imports Butler_Desk
begin

section \<open>Paths and what they say\<close>

subsection \<open>Differing paths\<close>

lemma json_ok_lookup: "json_ok (J_Obj xs) \<Longrightarrow> map_of xs k = Some v \<Longrightarrow> json_ok v"
  by (auto dest: map_of_SomeD)

lemma all_keys_set [simp]: "set (all_keys xs ys) = fst ` set xs \<union> fst ` set ys"
  by (simp add: all_keys_def)

lemma py_eq_obj:
  assumes "distinct (map fst xs)" "distinct (map fst ys)"
  shows "py_eq (J_Obj xs) (J_Obj ys) \<longleftrightarrow>
    (\<forall>k \<in> fst ` set xs \<union> fst ` set ys. \<exists>x y. map_of xs k = Some x \<and> map_of ys k = Some y \<and> py_eq x y)"
    (is "?l \<longleftrightarrow> ?r")
proof
  assume l: ?l
  then have len: "length xs = length ys" by simp
  have e: "\<exists>y. map_of ys (fst p) = Some y \<and> py_eq (snd p) y" if "p \<in> set xs" for p
    using l that by (auto simp: list_all_iff split: option.split_asm)
  have xs: "\<exists>x y. map_of xs k = Some x \<and> map_of ys k = Some y \<and> py_eq x y" if k: "k \<in> fst ` set xs" for k
  proof -
    obtain x where x: "(k, x) \<in> set xs" using k by auto
    with e [OF x] map_of_is_SomeI [OF assms(1) x] show ?thesis by simp
  qed
  have "fst ` set xs \<subseteq> fst ` set ys"
  proof
    fix k assume "k \<in> fst ` set xs"
    from xs [OF this] show "k \<in> fst ` set ys" by (metis map_of_eq_None_iff option.distinct(1))
  qed
  moreover have "card (fst ` set xs) = card (fst ` set ys)"
    using distinct_card [OF assms(1)] distinct_card [OF assms(2)] len by simp
  ultimately have "fst ` set xs = fst ` set ys" by (simp add: card_subset_eq)
  then show ?r using xs by blast
next
  assume r: ?r
  have "fst ` set xs = fst ` set ys"
  proof
    show "fst ` set xs \<subseteq> fst ` set ys"
    proof
      fix k assume "k \<in> fst ` set xs"
      with r have "map_of ys k \<noteq> None" by blast
      then show "k \<in> fst ` set ys" by (simp add: map_of_eq_None_iff)
    qed
    show "fst ` set ys \<subseteq> fst ` set xs"
    proof
      fix k assume "k \<in> fst ` set ys"
      with r have "map_of xs k \<noteq> None" by blast
      then show "k \<in> fst ` set xs" by (simp add: map_of_eq_None_iff)
    qed
  qed
  then have "length xs = length ys" using distinct_card [OF assms(1)] distinct_card [OF assms(2)] by simp
  moreover have "\<exists>y. map_of ys (fst p) = Some y \<and> py_eq (snd p) y" if p: "p \<in> set xs" for p
  proof -
    have "map_of xs (fst p) = Some (snd p)" using map_of_is_SomeI [OF assms(1)] p by simp
    moreover obtain x y where "map_of xs (fst p) = Some x \<and> map_of ys (fst p) = Some y \<and> py_eq x y"
      using r p by blast
    ultimately show ?thesis by auto
  qed
  then have "list_all (\<lambda>p. case map_of ys (fst p) of None \<Rightarrow> False | Some w \<Rightarrow> py_eq (snd p) w) xs"
    unfolding list_all_iff by (metis (no_types, lifting) option.simps(5))
  ultimately show ?l by simp
qed

lemma changed_paths_obj: "changed_paths (J_Obj xs) (J_Obj ys) p =
    concat (map (\<lambda>k. case (map_of xs k, map_of ys k) of
                       (Some x, Some y) \<Rightarrow> changed_paths x y (child p k) | _ \<Rightarrow> [child p k]) (all_keys xs ys))"
  by (simp add: changed_paths.simps [of "J_Obj xs"])

lemma changed_paths_list: "changed_paths (J_List xs) (J_List ys) p =
    concat (map (\<lambda>i. if i < length xs \<and> i < length ys then changed_paths (xs ! i) (ys ! i) (p @ ''.'' @ decimal i)
                     else [p @ ''.'' @ decimal i]) [0..<max (length xs) (length ys)])"
  by (simp add: changed_paths.simps [of "J_List xs"])

lemma changed_paths_leaf:
  "\<not> (is_obj a \<and> is_obj b) \<Longrightarrow> \<not> (is_list a \<and> is_list b) \<Longrightarrow> changed_paths a b p = (if py_eq a b then [] else [p])"
  by (cases a; cases b) (simp_all add: changed_paths.simps)

lemma concat_map_Nil: "concat (map f [0..<n]) = [] \<longleftrightarrow> (\<forall>i < n. f i = [])"
  by auto

lemma below_both:
  fixes m n :: nat
  shows "(\<forall>i < max m n. i < m \<and> i < n \<and> P i) \<longleftrightarrow> m = n \<and> (\<forall>i < m. P i)"
proof (cases "m = n")
  case False
  then have "min m n < max m n" "\<not> (min m n < m \<and> min m n < n)" by simp_all
  with False show ?thesis by blast
qed simp

lemma changed_paths_empty:
  "json_ok a \<Longrightarrow> json_ok b \<Longrightarrow> changed_paths a b p = [] \<longleftrightarrow> py_eq a b"
proof (induction "size a" arbitrary: a b p rule: less_induct)
  case less
  consider xs ys where "a = J_Obj xs" "b = J_Obj ys" | xs ys where "a = J_List xs" "b = J_List ys"
    | "\<not> (is_obj a \<and> is_obj b)" "\<not> (is_list a \<and> is_list b)"
    by (cases a; cases b) auto
  then show ?case
  proof cases
    case (1 xs ys)
    have ih: "changed_paths x y (child p k) = [] \<longleftrightarrow> py_eq x y"
      if x: "map_of xs k = Some x" and y: "map_of ys k = Some y" for k x y
    proof (rule less.hyps)
      show "size x < size a" using lookup_smaller [OF x] by (simp add: 1)
      show "json_ok x" "json_ok y" using json_ok_lookup x y less.prems 1 by blast+
    qed
    have "changed_paths a b p = [] \<longleftrightarrow>
        (\<forall>k \<in> fst ` set xs \<union> fst ` set ys. \<exists>x y. map_of xs k = Some x \<and> map_of ys k = Some y \<and> changed_paths x y (child p k) = [])"
    proof -
      have "(case (map_of xs k, map_of ys k) of (Some x, Some y) \<Rightarrow> changed_paths x y (child p k) | _ \<Rightarrow> [child p k]) = [] \<longleftrightarrow>
          (\<exists>x y. map_of xs k = Some x \<and> map_of ys k = Some y \<and> changed_paths x y (child p k) = [])" for k
        by (cases "map_of xs k"; cases "map_of ys k") simp_all
      then show ?thesis unfolding 1 changed_paths_obj concat_eq_Nil_conv set_map all_keys_set by simp
    qed
    also have "\<dots> \<longleftrightarrow> (\<forall>k \<in> fst ` set xs \<union> fst ` set ys. \<exists>x y. map_of xs k = Some x \<and> map_of ys k = Some y \<and> py_eq x y)"
      using ih by metis
    also have "\<dots> \<longleftrightarrow> py_eq a b"
      using py_eq_obj [of xs ys] less.prems by (simp add: 1)
    finally show ?thesis .
  next
    case (2 xs ys)
    have ih: "changed_paths (xs ! i) (ys ! i) q = [] \<longleftrightarrow> py_eq (xs ! i) (ys ! i)"
      if "i < length xs" "i < length ys" for i q
    proof (rule less.hyps)
      show "size (xs ! i) < size a" using nth_smaller [OF that(1)] by (simp add: 2)
      show "json_ok (xs ! i)" "json_ok (ys ! i)" using that less.prems 2 by simp_all
    qed
    have "changed_paths a b p = [] \<longleftrightarrow>
        (\<forall>i < max (length xs) (length ys). i < length xs \<and> i < length ys \<and> py_eq (xs ! i) (ys ! i))"
    proof -
      have "(if i < length xs \<and> i < length ys then changed_paths (xs ! i) (ys ! i) (p @ ''.'' @ decimal i)
             else [p @ ''.'' @ decimal i]) = [] \<longleftrightarrow> i < length xs \<and> i < length ys \<and> py_eq (xs ! i) (ys ! i)" for i
        by (auto simp: ih)
      then show ?thesis unfolding 2 changed_paths_list concat_map_Nil by (simp only:)
    qed
    also have "\<dots> \<longleftrightarrow> length xs = length ys \<and> (\<forall>i < length xs. py_eq (xs ! i) (ys ! i))"
      by (rule below_both)
    also have "\<dots> \<longleftrightarrow> py_eq a b" by (auto simp: 2 list_all2_conv_all_nth)
    finally show ?thesis .
  qed (simp add: changed_paths_leaf)
qed

text \<open>A path lies at or below the place where the comparison started.\<close>

definition under :: "string \<Rightarrow> string \<Rightarrow> bool" where
  "under q s \<longleftrightarrow> s = q \<or> starts_with (q @ ''.'') s"

lemma starts_with_iff: "starts_with p s \<longleftrightarrow> (\<exists>r. s = p @ r)"
proof
  assume "starts_with p s"
  then have "s = p @ drop (length p) s" by (metis append_take_drop_id starts_with_def)
  then show "\<exists>r. s = p @ r" ..
qed (auto simp: starts_with_def)

lemma under_child: "under (p @ ''.'' @ k) s \<Longrightarrow> under p s"
  by (auto simp: under_def starts_with_iff)

lemma changed_paths_under:
  "p \<noteq> [] \<Longrightarrow> s \<in> set (changed_paths a b p) \<Longrightarrow> under p s"
proof (induction "size a" arbitrary: a b p rule: less_induct)
  case less
  consider xs ys where "a = J_Obj xs" "b = J_Obj ys" | xs ys where "a = J_List xs" "b = J_List ys"
    | "\<not> (is_obj a \<and> is_obj b)" "\<not> (is_list a \<and> is_list b)"
    by (cases a; cases b) auto
  then show ?case
  proof cases
    case (1 xs ys)
    obtain k where k: "s \<in> set (case (map_of xs k, map_of ys k) of
        (Some x, Some y) \<Rightarrow> changed_paths x y (child p k) | _ \<Rightarrow> [child p k])"
      using less.prems(2) unfolding 1 changed_paths_obj set_concat set_map by blast
    have "under (child p k) s"
    proof (cases "\<exists>x y. map_of xs k = Some x \<and> map_of ys k = Some y")
      case True
      then obtain x y where xy: "map_of xs k = Some x" "map_of ys k = Some y" by blast
      show ?thesis
      proof (rule less.hyps)
        show "size x < size a" using lookup_smaller [OF xy(1)] by (simp add: 1)
        show "child p k \<noteq> []" using less.prems(1) by (simp add: child_def)
        show "s \<in> set (changed_paths x y (child p k))" using k xy by simp
      qed
    next
      case False
      with k show ?thesis by (cases "map_of xs k"; cases "map_of ys k") (auto simp: under_def)
    qed
    then show ?thesis using less.prems(1) under_child [of p k s] by (simp add: child_def)
  next
    case (2 xs ys)
    obtain i where i: "s \<in> set (if i < length xs \<and> i < length ys
        then changed_paths (xs ! i) (ys ! i) (p @ ''.'' @ decimal i) else [p @ ''.'' @ decimal i])"
      using less.prems(2) unfolding 2 changed_paths_list set_concat set_map by blast
    have "under (p @ ''.'' @ decimal i) s"
    proof (cases "i < length xs \<and> i < length ys")
      case True
      show ?thesis
      proof (rule less.hyps)
        show "size (xs ! i) < size a" using nth_smaller [of i xs] True by (simp add: 2)
        show "s \<in> set (changed_paths (xs ! i) (ys ! i) (p @ ''.'' @ decimal i))" using i True by simp
      qed simp
    next
      case False
      with i show ?thesis by (auto simp: under_def)
    qed
    then show ?thesis by (rule under_child)
  qed (use less.prems in \<open>simp add: changed_paths_leaf under_def split: if_split_asm\<close>)
qed

text \<open>
  If no changed path lies at or below an entry, the entry is the same on both sides: absent, or equal.
\<close>

definition same_at :: "json \<Rightarrow> json \<Rightarrow> string \<Rightarrow> bool" where
  "same_at a b k \<longleftrightarrow>
     (case (map_of (j_items a) k, map_of (j_items b) k) of
        (None, None) \<Rightarrow> True | (Some x, Some y) \<Rightarrow> py_eq x y | _ \<Rightarrow> False)"

lemma sub_paths:
  assumes "is_obj a" "is_obj b" "map_of (j_items a) k = Some x" "map_of (j_items b) k = Some y"
  shows "set (changed_paths x y (child p k)) \<subseteq> set (changed_paths a b p)"
proof -
  obtain xs ys where ab: "a = J_Obj xs" "b = J_Obj ys" using assms(1,2) by (cases a; cases b) auto
  have "k \<in> set (all_keys xs ys)" using assms(3) by (auto simp: ab dest!: map_of_SomeD intro: rev_image_eqI)
  then show ?thesis using assms(3,4) by (force simp: ab changed_paths_obj)
qed

lemma unchanged_entry:
  assumes ok: "json_ok a" "json_ok b" "is_obj a" "is_obj b" and ne: "child p k \<noteq> []"
    and none: "\<And>s. s \<in> set (changed_paths a b p) \<Longrightarrow> \<not> under (child p k) s"
  shows "same_at a b k"
proof -
  obtain xs ys where ab: "a = J_Obj xs" "b = J_Obj ys" using ok(3,4) by (cases a; cases b) auto
  show ?thesis
  proof (cases "k \<in> set (all_keys xs ys)")
    case False
    then have "map_of xs k = None" "map_of ys k = None" by (auto simp: map_of_eq_None_iff)
    then show ?thesis by (simp add: same_at_def ab)
  next
    case True
    have in_paths: "set (case (map_of xs k, map_of ys k) of
        (Some x, Some y) \<Rightarrow> changed_paths x y (child p k) | _ \<Rightarrow> [child p k]) \<subseteq> set (changed_paths a b p)"
      unfolding ab changed_paths_obj set_concat set_map using True by blast
    obtain x y where xy: "map_of xs k = Some x" "map_of ys k = Some y"
      using in_paths none [of "child p k"] by (cases "map_of xs k"; cases "map_of ys k") (auto simp: under_def)
    have "changed_paths x y (child p k) = []"
    proof (rule ccontr)
      assume "changed_paths x y (child p k) \<noteq> []"
      then obtain s where s: "s \<in> set (changed_paths x y (child p k))" by (metis last_in_set)
      from none [of s] in_paths s changed_paths_under [OF ne s] show False by (simp add: xy) blast
    qed
    then have "py_eq x y" using changed_paths_empty json_ok_lookup ok(1,2) xy ab by metis
    then show ?thesis by (simp add: same_at_def ab xy)
  qed
qed

end
