(* ===== verification/Butler_Frame.thy ===== *)
theory Butler_Frame
  imports Butler_Facts Packet_Facts
begin

section \<open>What a validated configuration looks like, and what an agent's change of it leaves alone\<close>

subsection \<open>The shape of a validated configuration\<close>

lemma foldE_each:
  "foldE f xs s = Inr s' \<Longrightarrow> x \<in> set xs \<Longrightarrow> \<exists>u v. f x u = Inr v"
  by (induction xs arbitrary: s) auto

lemma foldE_collects:
  assumes "foldE (\<lambda>(i, x) ys. bindE (g i x) (\<lambda>y. Inr (ys @ [y]))) ps s = Inr s'" "(i, x) \<in> set ps"
  shows "\<exists>y. g i x = Inr y"
  using foldE_each [OF assms] by auto

lemma strict_object_obj: "strict_object field req opt v = Inr u \<Longrightarrow> is_obj v"
  by (auto simp: strict_object_def)

lemma bounded_int_Inr [simp]:
  "bounded_int field v lo hi = Inr n \<longleftrightarrow> v = J_Int n \<and> lo \<le> n \<and> n \<le> hi"
  by (auto simp: bounded_int_def is_int_counter_iff)

lemma one_of_texts_Inr: "one_of_texts v xs msg = Inr u \<longleftrightarrow> (\<exists>s \<in> set xs. v = J_Str s)"
  by (auto simp: one_of_texts_def member_of_def list_ex_iff split: if_split_asm)

lemma validate_config_parts:
  assumes "validate_config rdt dg c b = Inr g"
  obtains n agents d e u v where "g = c" "is_obj c" "j_get c ''board_id'' = J_Str b" "j_get c ''revision'' = J_Int n"
    "1 \<le> n" "n \<le> MAX_REVISION" "is_bool (j_get c ''enabled'')"
    "check_host_runtime rdt (j_get c ''host_runtime'') = Inr agents"
    "check_desired (j_get c ''desired'') = Inr d"
    "check_envelope rdt dg (j_get c ''envelope'') agents = Inr e"
    "within_envelope agents (j_get (j_get c ''envelope'') ''approved_connector_ids'') d e = Inr u"
    "check_authorization rdt c = Inr v"
  using assms unfolding validate_config_def
  by (simp only: bindE_eq_Inr guardE_eq_Inr bounded_int_Inr sum.inject) (blast dest: strict_object_obj intro: that)

lemma check_desired_parts:
  assumes "check_desired d = Inr s"
  obtains s1 u v counts b ids where "is_obj d" "j_get d ''mode'' = J_Str s1" "s1 \<in> {''shadow'', ''autonomous''}"
    "strict_object (sub ''config.desired'' ''capacity'') ROLES [] (j_get d ''capacity'') = Inr u"
    "role_counts (sub ''config.desired'' ''capacity'') (j_get d ''capacity'') = Inr counts"
    "j_get d ''host_concurrency'' = J_Int (ds_host s)" "j_get d ''board_concurrency'' = J_Int (ds_board s)"
    "validate_budget (sub ''config.desired'' ''budget'') (j_get d ''budget'') = Inr b"
    "check_connectors (j_get d ''connectors'') = Inr ids"
    "ds_counts s = counts" "ds_budget s = b" "ds_connectors s = ids"
  using assms unfolding check_desired_def Let_def
  by (simp only: bindE_eq_Inr bounded_int_Inr sum.inject one_of_texts_Inr)
    (auto dest!: strict_object_obj intro: that)

lemma role_counts_Inr:
  assumes "role_counts f v = Inr cs"
  obtains w r a where "cs = [(''worker'', w), (''reviewer'', r), (''acp_worker'', a)]"
    "validate_role_count (sub f ''worker'') (j_get v ''worker'') = Inr w"
    "validate_role_count (sub f ''reviewer'') (j_get v ''reviewer'') = Inr r"
    "validate_role_count (sub f ''acp_worker'') (j_get v ''acp_worker'') = Inr a"
  using assms by (auto simp: role_counts_def ROLES_def intro: that)

lemma validate_role_count_Inr:
  assumes "validate_role_count f v = Inr c"
  shows "is_obj v" "j_get v ''min'' = J_Int (rc_min c)" "j_get v ''target'' = J_Int (rc_target c)"
    "j_get v ''max'' = J_Int (rc_max c)" "0 \<le> rc_min c" "rc_min c \<le> rc_target c" "rc_target c \<le> rc_max c" "rc_max c \<le> 100"
  using assms by (auto simp: validate_role_count_def dest: strict_object_obj)

lemma validate_connector_obj: "validate_connector f v = Inr u \<Longrightarrow> is_obj v"
  unfolding validate_connector_def by (erule bindE_Inr1E) (rule strict_object_obj)

lemma check_connectors_Inr:
  assumes "check_connectors v = Inr ids"
  shows "is_list v" "length (j_list v) \<le> 32" "distinct ids" "c \<in> set (j_list v) \<Longrightarrow> is_obj c"
proof -
  show "is_list v" "length (j_list v) \<le> 32" "distinct ids"
    using assms by (auto simp: check_connectors_def bounded_list_def)
  assume "c \<in> set (j_list v)"
  then obtain i where "i < length (j_list v)" "j_list v ! i = c" unfolding in_set_conv_nth by blast
  then have "(i, c) \<in> set (List.enumerate 0 (j_list v))" by (simp add: in_set_enumerate_eq)
  moreover obtain xs where "foldE (\<lambda>(i, c) ids. bindE (validate_connector (''config.desired.connectors.'' @ decimal i) c)
      (\<lambda>x. Inr (ids @ [x]))) (List.enumerate 0 (j_list v)) [] = Inr xs"
    using assms by (auto simp: check_connectors_def)
  ultimately obtain u where "validate_connector (''config.desired.connectors.'' @ decimal i) c = Inr u"
    using foldE_collects [where g = "\<lambda>i. validate_connector (''config.desired.connectors.'' @ decimal i)"] by metis
  then show "is_obj c" by (rule validate_connector_obj)
qed

lemma capacity_limits_Inr:
  "capacity_limits v = Inr cs \<Longrightarrow> \<exists>w r a. cs = [(''worker'', w), (''reviewer'', r), (''acp_worker'', a)] \<and>
    j_get v ''worker'' = J_Int w \<and> j_get v ''reviewer'' = J_Int r \<and> j_get v ''acp_worker'' = J_Int a \<and> w \<le> 100 \<and> r \<le> 100 \<and> a \<le> 100"
  by (auto simp: capacity_limits_def ROLES_def)

lemma check_envelope_parts:
  assumes "check_envelope rdt dg e agents = Inr s"
  obtains limits where "j_get e ''fingerprint_sha256'' = J_Str (dg (without ''fingerprint_sha256'' e))"
    "capacity_limits (j_get e ''max_capacity'') = Inr limits" "en_capacity s = limits"
    "j_get e ''max_host_concurrency'' = J_Int (en_host s)" "j_get e ''max_board_concurrency'' = J_Int (en_board s)"
  using assms unfolding check_envelope_def Let_def check_fingerprint_def
  by (simp only: bindE_eq_Inr guardE_eq_Inr bounded_int_Inr sum.inject) (auto intro: that)

lemma foldE_collected:
  assumes "foldE (\<lambda>(i, x) ys. bindE (g i x) (\<lambda>y. Inr (ys @ [y]))) ps s = Inr s'"
  shows "set s \<subseteq> set s'" "(i, x) \<in> set ps \<Longrightarrow> \<exists>y \<in> set s'. g i x = Inr y"
  using assms by (induction ps arbitrary: s) fastforce+

lemma require_identifier_Inr: "require_identifier field v = Inr s \<Longrightarrow> v = J_Str s"
  by (auto simp: require_identifier_def split: json.split_asm if_split_asm)

lemma validate_connector_id:
  "validate_connector f v = Inr cid \<Longrightarrow> j_get v ''connector_id'' = J_Str cid"
  unfolding validate_connector_def
  by (elim bindE_Inr1E) (drule require_identifier_Inr, simp only: sum.inject)

text \<open>What the desired state may be, read off a validated configuration.\<close>

definition role_within :: "json \<Rightarrow> json \<Rightarrow> string \<Rightarrow> bool" where
  "role_within capacity limits r \<longleftrightarrow>
     (\<exists>lo mid hi top. j_get (j_get capacity r) ''min'' = J_Int lo \<and> j_get (j_get capacity r) ''target'' = J_Int mid \<and>
        j_get (j_get capacity r) ''max'' = J_Int hi \<and> j_get limits r = J_Int top \<and>
        0 \<le> lo \<and> lo \<le> mid \<and> mid \<le> hi \<and> hi \<le> top \<and> top \<le> 100)"

definition int_within :: "json \<Rightarrow> json \<Rightarrow> bool" where
  "int_within v limit \<longleftrightarrow> (\<exists>n top. v = J_Int n \<and> limit = J_Int top \<and> n \<le> top)"

lemma validated_within:
  assumes "validate_config rdt dg c b = Inr g" "r \<in> set ROLES"
  shows "role_within (j_get (j_get c ''desired'') ''capacity'') (j_get (j_get c ''envelope'') ''max_capacity'') r"
    "int_within (j_get (j_get c ''desired'') ''host_concurrency'') (j_get (j_get c ''envelope'') ''max_host_concurrency'')"
    "int_within (j_get (j_get c ''desired'') ''board_concurrency'') (j_get (j_get c ''envelope'') ''max_board_concurrency'')"
    "j_get (j_get c ''envelope'') ''fingerprint_sha256'' = J_Str (dg (without ''fingerprint_sha256'' (j_get c ''envelope'')))"
proof -
  from assms(1) obtain agents d e u where d: "check_desired (j_get c ''desired'') = Inr d"
    and e: "check_envelope rdt dg (j_get c ''envelope'') agents = Inr e"
    and within: "within_envelope agents (j_get (j_get c ''envelope'') ''approved_connector_ids'') d e = Inr u"
    by (rule validate_config_parts)
  from e obtain limits where fp: "j_get (j_get c ''envelope'') ''fingerprint_sha256'' =
        J_Str (dg (without ''fingerprint_sha256'' (j_get c ''envelope'')))"
    and limits: "capacity_limits (j_get (j_get c ''envelope'') ''max_capacity'') = Inr limits" "en_capacity e = limits"
    and ns: "j_get (j_get c ''envelope'') ''max_host_concurrency'' = J_Int (en_host e)"
      "j_get (j_get c ''envelope'') ''max_board_concurrency'' = J_Int (en_board e)"
    by (rule check_envelope_parts)
  show "j_get (j_get c ''envelope'') ''fingerprint_sha256'' = J_Str (dg (without ''fingerprint_sha256'' (j_get c ''envelope'')))"
    by (rule fp)
  from d obtain counts where counts: "role_counts (sub ''config.desired'' ''capacity'') (j_get (j_get c ''desired'') ''capacity'') = Inr counts"
    "ds_counts d = counts"
    and ms: "j_get (j_get c ''desired'') ''host_concurrency'' = J_Int (ds_host d)"
      "j_get (j_get c ''desired'') ''board_concurrency'' = J_Int (ds_board d)"
    by (rule check_desired_parts)
  have le: "ds_host d \<le> en_host e" "ds_board d \<le> en_board e"
    and caps: "list_all (\<lambda>(r, c). case dget limits r of None \<Rightarrow> False | Some n \<Rightarrow> rc_max c \<le> n) counts"
    using within by (simp_all add: within_envelope_def limits(2) counts(2))
  show "int_within (j_get (j_get c ''desired'') ''host_concurrency'') (j_get (j_get c ''envelope'') ''max_host_concurrency'')"
    "int_within (j_get (j_get c ''desired'') ''board_concurrency'') (j_get (j_get c ''envelope'') ''max_board_concurrency'')"
    using ms ns le by (simp_all add: int_within_def)
  from counts(1) obtain w v a where cs: "counts = [(''worker'', w), (''reviewer'', v), (''acp_worker'', a)]"
    "validate_role_count (sub (sub ''config.desired'' ''capacity'') ''worker'') (j_get (j_get (j_get c ''desired'') ''capacity'') ''worker'') = Inr w"
    "validate_role_count (sub (sub ''config.desired'' ''capacity'') ''reviewer'') (j_get (j_get (j_get c ''desired'') ''capacity'') ''reviewer'') = Inr v"
    "validate_role_count (sub (sub ''config.desired'' ''capacity'') ''acp_worker'') (j_get (j_get (j_get c ''desired'') ''capacity'') ''acp_worker'') = Inr a"
    by (rule role_counts_Inr)
  show "role_within (j_get (j_get c ''desired'') ''capacity'') (j_get (j_get c ''envelope'') ''max_capacity'') r"
    using assms(2) capacity_limits_Inr [OF limits(1)] caps validate_role_count_Inr [OF cs(2)]
      validate_role_count_Inr [OF cs(3)] validate_role_count_Inr [OF cs(4)]
    by (auto simp: ROLES_def role_within_def cs(1))
qed

lemma validated_connectors:
  assumes "validate_config rdt dg c b = Inr g" "x \<in> set (j_list (j_get (j_get c ''desired'') ''connectors''))"
  shows "j_get x ''connector_id'' \<in> set (j_list (j_get (j_get c ''envelope'') ''approved_connector_ids''))"
proof -
  from assms(1) obtain agents d e u where d: "check_desired (j_get c ''desired'') = Inr d"
    and within: "within_envelope agents (j_get (j_get c ''envelope'') ''approved_connector_ids'') d e = Inr u"
    by (rule validate_config_parts)
  from d obtain ids where ids: "check_connectors (j_get (j_get c ''desired'') ''connectors'') = Inr ids" "ds_connectors d = ids"
    by (rule check_desired_parts)
  obtain i where "(i, x) \<in> set (List.enumerate 0 (j_list (j_get (j_get c ''desired'') ''connectors'')))"
  proof -
    from assms(2) obtain i where "i < length (j_list (j_get (j_get c ''desired'') ''connectors''))"
      "j_list (j_get (j_get c ''desired'') ''connectors'') ! i = x" unfolding in_set_conv_nth by blast
    then show thesis by (intro that [of i]) (simp add: in_set_enumerate_eq)
  qed
  moreover have "foldE (\<lambda>(i, c) ids. bindE (validate_connector (''config.desired.connectors.'' @ decimal i) c)
      (\<lambda>x. Inr (ids @ [x]))) (List.enumerate 0 (j_list (j_get (j_get c ''desired'') ''connectors''))) [] = Inr ids"
    using ids(1) by (auto simp: check_connectors_def)
  ultimately obtain y where "y \<in> set ids" "validate_connector (''config.desired.connectors.'' @ decimal i) x = Inr y"
    using foldE_collected(2) [where g = "\<lambda>i. validate_connector (''config.desired.connectors.'' @ decimal i)"] by metis
  with within show ?thesis
    using validate_connector_id by (auto simp: within_envelope_def ids(2) list_all_iff split: option.split_asm)
qed

subsection \<open>Changes confined to permitted paths\<close>

lemma present: "j_get a k \<noteq> J_Null \<Longrightarrow> is_obj a \<and> map_of (j_items a) k = Some (j_get a k)"
  by (cases a) (auto split: option.split_asm)

lemma json_ok_j_get: "json_ok a \<Longrightarrow> json_ok (j_get a k)"
  by (cases a) (auto simp: json_ok_lookup split: option.split)

lemma obj_not_null [simp]: "is_obj v \<Longrightarrow> v \<noteq> J_Null" "is_list v \<Longrightarrow> v \<noteq> J_Null"
  by auto

text \<open>
  A policy says which paths a change may touch.  A change between two values obeys it at a path when
  every differing path is permitted.
\<close>

locale path_policy =
  fixes permitted :: "string \<Rightarrow> bool"
  assumes somewhere: "permitted s \<Longrightarrow> s \<noteq> []"
begin

definition obeys :: "json \<Rightarrow> json \<Rightarrow> string \<Rightarrow> bool" where
  "obeys a b p \<longleftrightarrow> (\<forall>s \<in> set (changed_paths a b p). permitted s)"

lemma entry_kept:
  assumes "obeys a b p" "json_ok a" "json_ok b" "is_obj a" "is_obj b" "child p k \<noteq> []"
    and "\<And>s. permitted s \<Longrightarrow> \<not> under (child p k) s"
  shows "same_at a b k"
  using assms by (intro unchanged_entry [where p = p]) (auto simp: obeys_def)

lemma obeys_entry:
  "obeys a b p \<Longrightarrow> j_get a k \<noteq> J_Null \<Longrightarrow> j_get b k \<noteq> J_Null \<Longrightarrow> obeys (j_get a k) (j_get b k) (child p k)"
  using sub_paths present unfolding obeys_def by (metis subsetD)

lemma obeys_list:
  assumes r: "obeys (J_List xs) (J_List ys) p" and item: "\<And>i. \<not> permitted (p @ ''.'' @ decimal i)"
  shows "length xs = length ys" "i < length xs \<Longrightarrow> obeys (xs ! i) (ys ! i) (p @ ''.'' @ decimal i)"
proof -
  have each: "permitted s" if "i < max (length xs) (length ys)"
    "s \<in> set (if i < length xs \<and> i < length ys then changed_paths (xs ! i) (ys ! i) (p @ ''.'' @ decimal i)
               else [p @ ''.'' @ decimal i])" for i s
  proof -
    have "i \<in> set [0..<max (length xs) (length ys)]" using that(1) by simp
    with that(2) have "s \<in> set (changed_paths (J_List xs) (J_List ys) p)"
      unfolding changed_paths_list set_concat set_map image_image by (rule UN_I [rotated])
    with r show ?thesis by (simp add: obeys_def)
  qed
  have inside: "i < length xs \<and> i < length ys" if "i < max (length xs) (length ys)" for i
  proof (rule ccontr)
    assume n: "\<not> (i < length xs \<and> i < length ys)"
    have "permitted (p @ ''.'' @ decimal i)" using that by (rule each) (simp only: n if_False list.set_intros)
    with item show False by blast
  qed
  show len: "length xs = length ys"
  proof (rule ccontr)
    assume "length xs \<noteq> length ys"
    then show False using inside [of "min (length xs) (length ys)"] by linarith
  qed
  show "obeys (xs ! i) (ys ! i) (p @ ''.'' @ decimal i)" if "i < length xs"
    using each [of i] that len by (simp add: obeys_def)
qed

end

definition agent_may :: "string \<Rightarrow> bool" where
  "agent_may s \<longleftrightarrow> s = ''revision'' \<or> a2a_path s"

definition grant_may :: "string \<Rightarrow> bool" where
  "grant_may s \<longleftrightarrow> s = ''revision'' \<or> grant_path s"

lemma a2a_path_desired: "a2a_path s \<Longrightarrow> starts_with ''desired.'' s"
  by (auto simp: a2a_path_def A2A_CONFIG_PATHS_def connector_switch_def Let_def starts_with_iff)

lemma grant_path_cases: "grant_path s \<Longrightarrow> s \<in> set GRANT_PATHS \<or> starts_with ''authorization.'' s"
  by (auto simp: grant_path_def)

interpretation agent: path_policy agent_may
  by unfold_locales (use a2a_path_desired in \<open>fastforce simp: agent_may_def starts_with_iff\<close>)

interpretation grant: path_policy grant_may
  by unfold_locales (use grant_path_cases in \<open>fastforce simp: grant_may_def GRANT_PATHS_def starts_with_iff\<close>)

lemma agent_obeys:
  "validate_config_authority (Some b) a ''a2a'' = Inr ps \<Longrightarrow> agent.obeys b a []"
  by (auto simp: validate_config_authority_def agent.obeys_def agent_may_def changes_def filter_empty_conv Let_def)

lemma grant_obeys:
  "validate_host_seat_cap_command_authority (Some b) a c = Inr ps \<Longrightarrow> grant.obeys b a []"
  by (auto simp: validate_host_seat_cap_command_authority_def grant.obeys_def grant_may_def changes_def
      filter_empty_conv Let_def)

subsection \<open>What an agent's change leaves alone\<close>

lemma agent_not_under:
  assumes "agent_may s" "k \<in> {''schema'', ''schema_version'', ''board_id'', ''enabled'', ''host_runtime'', ''envelope'', ''authorization''}"
  shows "\<not> under k s"
proof -
  consider "s = ''revision''" | r where "s = ''desired.'' @ r"
    using assms(1) a2a_path_desired by (auto simp: agent_may_def starts_with_iff)
  then show ?thesis using assms(2) by cases (auto simp: under_def starts_with_def)
qed

lemma agent_not_under_desired:
  "agent_may s \<Longrightarrow> r \<in> set ROLES \<Longrightarrow> k \<in> {''min'', ''max''} \<Longrightarrow> \<not> under (''desired.capacity.'' @ r @ ''.'' @ k) s"
  "agent_may s \<Longrightarrow> \<not> under ''desired.mode'' s"
  by (auto simp: agent_may_def a2a_path_def A2A_CONFIG_PATHS_def connector_switch_def Let_def starts_with_iff under_def
      ROLES_def)

lemma ends_with_iff: "ends_with q s \<longleftrightarrow> (\<exists>u. s = u @ q)"
proof
  assume "ends_with q s"
  then obtain r where "rev s = rev q @ r" unfolding ends_with_def starts_with_iff by blast
  then have "s = rev r @ q" by (metis rev_append rev_rev_ident)
  then show "\<exists>u. s = u @ q" by blast
qed (auto simp: ends_with_def starts_with_iff)

lemma long_suffix: "p @ r = u @ q \<Longrightarrow> length q < length r \<Longrightarrow> \<exists>v. u = p @ v \<and> r = v @ q"
  by (auto simp: append_eq_append_conv2)

lemma connector_switch_iff:
  "connector_switch s \<longleftrightarrow> (\<exists>m. s = ''desired.connectors.'' @ m @ ''.enabled'' \<and> is_digits m)"
proof
  let ?p = "''desired.connectors.''" and ?q = "''.enabled''"
  assume c: "connector_switch s"
  define m where "m = take (length s - length ?p - length ?q) (drop (length ?p) s)"
  have m: "is_digits m" and e: "ends_with ?q s" using c by (simp_all only: connector_switch_def Let_def m_def)
  obtain r where r: "s = ?p @ r" using c by (auto simp only: connector_switch_def Let_def starts_with_iff)
  have "m \<noteq> []" using m by (simp add: is_digits_def)
  then have long: "length ?q < length r" unfolding m_def r by simp
  obtain u where u: "?p @ r = u @ ?q" using e unfolding r ends_with_iff by blast
  obtain v where v: "u = ?p @ v \<and> r = v @ ?q" using long_suffix [OF u long] by blast
  then have "m = v" unfolding m_def r by simp
  with v r m show "\<exists>m. s = ?p @ m @ ?q \<and> is_digits m" by blast
qed (auto simp: connector_switch_def Let_def starts_with_def ends_with_def)

lemma same_digits:
  assumes "list_all digit_char a" "list_all digit_char b" "a @ CHR ''.'' # x = b @ CHR ''.'' # y"
  shows "x = y"
proof -
  have "takeWhile digit_char (c @ CHR ''.'' # z) = c" if "list_all digit_char c" for c z
    using that by (subst takeWhile_append2) (auto simp: list_all_iff digit_char_def)
  then have "a = b" using assms by metis
  then show ?thesis using assms(3) by simp
qed

lemma agent_connector_path:
  assumes "agent_may s" "under (''desired.connectors.'' @ decimal i @ ''.'' @ k) s"
  shows "k = ''enabled''"
proof -
  obtain t where t: "s = ''desired.connectors.'' @ decimal i @ ''.'' @ k @ t" "t = [] \<or> CHR ''.'' \<in> set t"
    using assms(2) by (auto simp: under_def starts_with_iff)
  then have "connector_switch s" using assms(1) by (auto simp: agent_may_def a2a_path_def A2A_CONFIG_PATHS_def)
  then obtain m where m: "is_digits m" "decimal i @ CHR ''.'' # (k @ t) = m @ CHR ''.'' # ''enabled''"
    using t by (auto simp: connector_switch_iff)
  have kt: "k @ t = ''enabled''"
    using same_digits [OF _ _ m(2)] m(1) decimal_digits by (simp add: is_digits_def)
  then have "set t \<subseteq> set ''enabled''" by (metis Un_upper2 set_append)
  with t(2) kt show ?thesis by auto
qed

lemma agent_not_whole_connector: "\<not> agent_may (''desired.connectors.'' @ decimal i)"
proof
  assume "agent_may (''desired.connectors.'' @ decimal i)"
  then obtain m where "decimal i = m @ ''.enabled''"
    by (auto simp: agent_may_def a2a_path_def A2A_CONFIG_PATHS_def connector_switch_iff)
  then have "list_all digit_char ''.enabled''" using decimal_digits [of i] by simp
  then show False by (simp add: digit_char_def)
qed

text \<open>The objects inside two validated configurations.\<close>

lemma desired_objects:
  assumes "validate_config rdt dg c b = Inr g"
  shows "is_obj c" "is_obj (j_get c ''desired'')" "is_obj (j_get (j_get c ''desired'') ''capacity'')"
    "r \<in> set ROLES \<Longrightarrow> is_obj (j_get (j_get (j_get c ''desired'') ''capacity'') r)"
    "is_list (j_get (j_get c ''desired'') ''connectors'')"
    "x \<in> set (j_list (j_get (j_get c ''desired'') ''connectors'')) \<Longrightarrow> is_obj x"
proof -
  from assms obtain d where c: "is_obj c" and d: "check_desired (j_get c ''desired'') = Inr d"
    by (rule validate_config_parts)
  show "is_obj c" by (rule c)
  from d show "is_obj (j_get c ''desired'')" by (rule check_desired_parts)
  from d obtain u where "strict_object (sub ''config.desired'' ''capacity'') ROLES [] (j_get (j_get c ''desired'') ''capacity'') = Inr u"
    by (rule check_desired_parts)
  then show "is_obj (j_get (j_get c ''desired'') ''capacity'')" by (rule strict_object_obj)
  from d obtain cs where cs: "role_counts (sub ''config.desired'' ''capacity'') (j_get (j_get c ''desired'') ''capacity'') = Inr cs"
    by (rule check_desired_parts)
  show "is_obj (j_get (j_get (j_get c ''desired'') ''capacity'') r)" if "r \<in> set ROLES"
    using cs by (rule role_counts_Inr) (use that in \<open>auto simp: ROLES_def dest: validate_role_count_Inr(1)\<close>)
  from d obtain ids where ids: "check_connectors (j_get (j_get c ''desired'') ''connectors'') = Inr ids"
    by (rule check_desired_parts)
  show "is_list (j_get (j_get c ''desired'') ''connectors'')" by (rule check_connectors_Inr(1) [OF ids])
  show "is_obj x" if "x \<in> set (j_list (j_get (j_get c ''desired'') ''connectors''))"
    by (rule check_connectors_Inr(4) [OF ids that])
qed

lemma py_eq_num: "j_num x = Some q \<Longrightarrow> py_eq x y \<longleftrightarrow> j_num y = Some q"
  by (cases x) auto

lemma same_object_entry:
  assumes "json_ok x" "json_ok y" "py_eq x y" "is_obj y"
  shows "is_obj x" "same_at x y k"
proof -
  show o: "is_obj x" using assms(3,4) by (cases y; cases x) auto
  obtain xs ys where xy: "x = J_Obj xs" "y = J_Obj ys" using o assms(4) by (cases x; cases y) auto
  have each: "\<forall>k \<in> fst ` set xs \<union> fst ` set ys. \<exists>u v. map_of xs k = Some u \<and> map_of ys k = Some v \<and> py_eq u v"
    using py_eq_obj [of xs ys] assms(1-3) by (simp only: xy json_ok.simps)
  show "same_at x y k"
  proof (cases "k \<in> fst ` set xs \<union> fst ` set ys")
    case True
    with each obtain u v where "map_of xs k = Some u" "map_of ys k = Some v" "py_eq u v" by blast
    then show ?thesis by (simp add: same_at_def xy)
  next
    case False
    then have "map_of xs k = None" "map_of ys k = None" by (simp_all add: map_of_eq_None_iff)
    then show ?thesis by (simp add: same_at_def xy)
  qed
qed

text \<open>
  A change the agents' channel may make, entry by entry: at the top, inside \<open>desired\<close>, the roles of the
  capacity, the connectors.
\<close>

definition agent_change :: "json \<Rightarrow> json \<Rightarrow> bool" where
  "agent_change b a \<longleftrightarrow>
     json_ok b \<and> json_ok a \<and> agent.obeys b a [] \<and>
     (\<exists>rdt dg bid b'. validate_config rdt dg b bid = Inr b') \<and> (\<exists>rdt dg aid a'. validate_config rdt dg a aid = Inr a')"

lemma agent_changeI:
  "validate_config rdt dg b bid = Inr b' \<Longrightarrow> json_ok b \<Longrightarrow> validate_config rdt dg a aid = Inr a' \<Longrightarrow> json_ok a \<Longrightarrow>
    validate_config_authority (Some b) a ''a2a'' = Inr paths \<Longrightarrow> agent_change b a"
  unfolding agent_change_def using agent_obeys by blast

lemma agent_change_objects:
  assumes "agent_change b a"
  shows "is_obj b" "is_obj a" "is_obj (j_get b ''desired'')" "is_obj (j_get a ''desired'')"
    "is_obj (j_get (j_get b ''desired'') ''capacity'')" "is_obj (j_get (j_get a ''desired'') ''capacity'')"
    "r \<in> set ROLES \<Longrightarrow> is_obj (j_get (j_get (j_get b ''desired'') ''capacity'') r)"
    "r \<in> set ROLES \<Longrightarrow> is_obj (j_get (j_get (j_get a ''desired'') ''capacity'') r)"
    "is_list (j_get (j_get b ''desired'') ''connectors'')" "is_list (j_get (j_get a ''desired'') ''connectors'')"
    "x \<in> set (j_list (j_get (j_get b ''desired'') ''connectors'')) \<Longrightarrow> is_obj x"
    "x \<in> set (j_list (j_get (j_get a ''desired'') ''connectors'')) \<Longrightarrow> is_obj x"
proof -
  obtain rdt dg bid b' where b: "validate_config rdt dg b bid = Inr b'" using assms unfolding agent_change_def by blast
  obtain rdt' dg' aid a' where a: "validate_config rdt' dg' a aid = Inr a'" using assms unfolding agent_change_def by blast
  show "is_obj b" "is_obj a" "is_obj (j_get b ''desired'')" "is_obj (j_get a ''desired'')"
    "is_obj (j_get (j_get b ''desired'') ''capacity'')" "is_obj (j_get (j_get a ''desired'') ''capacity'')"
    "r \<in> set ROLES \<Longrightarrow> is_obj (j_get (j_get (j_get b ''desired'') ''capacity'') r)"
    "r \<in> set ROLES \<Longrightarrow> is_obj (j_get (j_get (j_get a ''desired'') ''capacity'') r)"
    "is_list (j_get (j_get b ''desired'') ''connectors'')" "is_list (j_get (j_get a ''desired'') ''connectors'')"
    "x \<in> set (j_list (j_get (j_get b ''desired'') ''connectors'')) \<Longrightarrow> is_obj x"
    "x \<in> set (j_list (j_get (j_get a ''desired'') ''connectors'')) \<Longrightarrow> is_obj x"
    by (rule desired_objects [OF b] desired_objects [OF a], assumption?)+
qed

lemma agent_change_ok:
  "agent_change b a \<Longrightarrow> json_ok b" "agent_change b a \<Longrightarrow> json_ok a" "agent_change b a \<Longrightarrow> agent.obeys b a []"
  by (simp_all add: agent_change_def)

lemma agent_keeps_top:
  assumes c: "agent_change b a" and k: "k \<in> {''schema'', ''schema_version'', ''board_id'', ''enabled'', ''host_runtime'', ''envelope'', ''authorization''}"
  shows "same_at b a k"
  by (rule agent.entry_kept [OF agent_change_ok(3,1,2) [OF c] agent_change_objects(1,2) [OF c]])
    (use k agent_not_under in \<open>auto simp: child_def\<close>)

lemma agent_desired:
  assumes "agent_change b a"
  shows "agent.obeys (j_get b ''desired'') (j_get a ''desired'') ''desired''"
  using agent.obeys_entry [OF agent_change_ok(3) [OF assms] obj_not_null(1) [OF agent_change_objects(3) [OF assms]]
      obj_not_null(1) [OF agent_change_objects(4) [OF assms]]] by (simp add: child_def)

lemma agent_keeps_mode:
  assumes c: "agent_change b a"
  shows "same_at (j_get b ''desired'') (j_get a ''desired'') ''mode''"
  by (rule agent.entry_kept [OF agent_desired [OF c] _ _ agent_change_objects(3,4) [OF c]])
    (simp_all add: agent_change_ok [OF c] json_ok_j_get child_def agent_not_under_desired)

lemma agent_keeps_roles:
  assumes c: "agent_change b a" and rk: "r \<in> set ROLES" "k \<in> {''min'', ''max''}"
  shows "same_at (j_get (j_get (j_get b ''desired'') ''capacity'') r) (j_get (j_get (j_get a ''desired'') ''capacity'') r) k"
proof -
  note o = agent_change_objects [OF c]
  have "agent.obeys (j_get (j_get b ''desired'') ''capacity'') (j_get (j_get a ''desired'') ''capacity'') ''desired.capacity''"
    using agent.obeys_entry [OF agent_desired [OF c] obj_not_null(1) [OF o(5)] obj_not_null(1) [OF o(6)]]
    by (simp add: child_def)
  from agent.obeys_entry [OF this obj_not_null(1) [OF o(7) [OF rk(1)]] obj_not_null(1) [OF o(8) [OF rk(1)]]]
  have "agent.obeys (j_get (j_get (j_get b ''desired'') ''capacity'') r) (j_get (j_get (j_get a ''desired'') ''capacity'') r)
      (''desired.capacity.'' @ r)" by (simp add: child_def)
  then show ?thesis
  proof (rule agent.entry_kept [OF _ _ _ o(7) [OF rk(1)] o(8) [OF rk(1)]])
    show "\<not> under (child (''desired.capacity.'' @ r) k) s" if "agent_may s" for s
      using agent_not_under_desired(1) [OF that rk] by (simp add: child_def)
  qed (simp_all add: agent_change_ok [OF c] json_ok_j_get child_def)
qed

lemma list_items: "is_list v \<Longrightarrow> J_List (j_list v) = v"
  by (cases v) simp_all

lemma agent_keeps_connectors:
  fixes b a defines "xs \<equiv> j_list (j_get (j_get b ''desired'') ''connectors'')"
    and "ys \<equiv> j_list (j_get (j_get a ''desired'') ''connectors'')"
  assumes c: "agent_change b a"
  shows "length xs = length ys" "i < length xs \<Longrightarrow> k \<noteq> ''enabled'' \<Longrightarrow> same_at (xs ! i) (ys ! i) k"
proof -
  note o = agent_change_objects [OF c]
  have lists: "J_List xs = j_get (j_get b ''desired'') ''connectors''" "J_List ys = j_get (j_get a ''desired'') ''connectors''"
    unfolding xs_def ys_def by (rule list_items [OF o(9)]) (rule list_items [OF o(10)])
  have con: "agent.obeys (J_List xs) (J_List ys) ''desired.connectors''"
    using agent.obeys_entry [OF agent_desired [OF c] obj_not_null(2) [OF o(9)] obj_not_null(2) [OF o(10)]]
    unfolding lists by (simp add: child_def)
  have whole: "\<not> agent_may (''desired.connectors'' @ ''.'' @ decimal i)" for i
    using agent_not_whole_connector [of i] by simp
  show len: "length xs = length ys" by (rule agent.obeys_list(1) [OF con whole])
  have ok: "json_ok (J_List xs)" "json_ok (J_List ys)"
    unfolding lists by (intro json_ok_j_get agent_change_ok [OF c])+
  assume i: "i < length xs" and k: "k \<noteq> ''enabled''"
  have one: "agent.obeys (xs ! i) (ys ! i) (''desired.connectors.'' @ decimal i)"
    using agent.obeys_list(2) [OF con whole i] by simp
  show "same_at (xs ! i) (ys ! i) k"
  proof (rule agent.entry_kept [OF one])
    show "is_obj (xs ! i)" unfolding xs_def by (rule o(11)) (rule nth_mem [OF i [unfolded xs_def]])
    show "is_obj (ys ! i)" unfolding ys_def by (rule o(12)) (rule nth_mem [OF i [unfolded len ys_def]])
    show "json_ok (xs ! i)" "json_ok (ys ! i)" using ok i len by simp_all
    show "\<not> under (child (''desired.connectors.'' @ decimal i) k) s" if "agent_may s" for s
      using agent_connector_path [OF that, of i k] k by (auto simp: child_def)
  qed (simp add: child_def)
qed

end
