(* ===== verification/Butler_Runs.thy ===== *)
theory Butler_Runs
  imports Butler_Frame "HOL-Library.Sublist"
begin

section \<open>What a tool does to the control surface\<close>

text \<open>
  Every tool that returns leaves the control record alone, creates a command, moves a command, or commits
  a configuration.  The locale \<open>control_relation\<close> lifts a relation that each of the four keeps to runs; it is
  interpreted on the order of the commands with their audit trail, and on the soundness of the configuration.
\<close>

subsection \<open>The four steps\<close>

definition sender_ok :: "sender_info \<Rightarrow> bool" where
  "sender_ok s \<longleftrightarrow> cs_channel s \<in> {''human'', ''a2a''} \<and> (cs_channel s = ''human'' \<longrightarrow> cs_membership_role s = ''admin'')"

text \<open>What only people may ask for.\<close>

definition permit_ok :: "string \<Rightarrow> string \<Rightarrow> string \<Rightarrow> bool" where
  "permit_ok channel intent prio \<longleftrightarrow>
     (intent \<in> {''set_host_seat_cap'', ''resume''} \<or> prio = ''emergency'' \<longrightarrow> channel = ''human'')"

inductive control_step :: "butler_services \<Rightarrow> control \<Rightarrow> control \<Rightarrow> bool" for sv where
  idle: "control_step sv ct ct"
| created: "dget (ct_commands ct) rid = None \<Longrightarrow> sender_ok s \<Longrightarrow>
    permit_ok (cs_channel s) (ci_intent inp) (ci_priority inp) \<Longrightarrow>
    dget COMMAND_PRIORITIES (ci_priority inp) \<noteq> None \<Longrightarrow>
    create_command sv ct actor rid project s inp params expires digest now = (ct', c) \<Longrightarrow> control_step sv ct ct'"
| changed: "dget (ct_commands ct) cid = Some c \<Longrightarrow>
    transition_command sv ct c actor target reason now res = Inr (ct', c') \<Longrightarrow> control_step sv ct ct'"
| committed: "json_ok (gi_config inp) \<Longrightarrow>
    validate_config (bs_reads sv) (bs_digest sv) (gi_config inp) b = Inr g \<Longrightarrow>
    py_eq (J_Int (config_revision ct + 1)) (j_get (gi_config inp) ''revision'') \<Longrightarrow>
    config_paths ct inp cid = Inr paths \<Longrightarrow>
    commit_config sv ct actor mid digest inp paths now = (ct', r) \<Longrightarrow> control_step sv ct ct'"

lemma butler_sender_Inr:
  "butler_sender w p actor ch = Inr s \<Longrightarrow> sender_ok s \<and> cs_channel s = ch \<and> cs_principal_id s = pr_id p"
  by (auto simp: butler_sender_def sender_ok_def)

lemma channel_permits_Inr:
  "channel_permits sv w p name inp = Inr w' \<Longrightarrow> ci_channel inp \<in> {''human'', ''a2a''} \<Longrightarrow>
    permit_ok (ci_channel inp) (ci_intent inp) (ci_priority inp)"
  by (auto simp: channel_permits_def permit_ok_def)

lemma submit_step:
  assumes "command_submit_with_actor sv (w, ct) actor p name rid project params expiry inp now clock rel ren = Inr ((w', ct'), r)"
    and known: "dget COMMAND_PRIORITIES (ci_priority inp) \<noteq> None"
  shows "control_step sv ct ct'"
proof -
  obtain s where s: "butler_sender w p actor (ci_channel inp) = Inr s"
    using assms(1) by (auto simp: command_submit_with_actor_def)
  then have ok: "sender_ok s" "cs_channel s = ci_channel inp" using butler_sender_Inr by auto
  obtain w1 where "channel_permits sv w p name inp = Inr w1" using assms(1) by (auto simp: command_submit_with_actor_def)
  then have grant: "permit_ok (cs_channel s) (ci_intent inp) (ci_priority inp)"
    using channel_permits_Inr ok by (auto simp: sender_ok_def)
  show ?thesis
  proof (cases "dget (ct_commands ct) rid")
    case None
    let ?e = "bs_writes sv expiry"
    let ?d = "bs_digest sv (immutable_json rid (board_id (brd w)) project s inp params ?e)"
    obtain ct1 c where cc: "create_command sv ct actor rid project s inp params ?e ?d now = (ct1, c)" by fastforce
    then have "ct' = ct1" using assms(1) s None by (auto simp: command_submit_with_actor_def Let_def)
    with cc control_step.created [OF None ok(1) grant known] show ?thesis by blast
  next
    case (Some c)
    then have "ct' = ct" using assms(1) by (auto simp: command_submit_with_actor_def Let_def split: if_split_asm)
    then show ?thesis by (simp add: idle)
  qed
qed

lemma existing_command_Inr: "existing_command ct cid n = Inr c \<longleftrightarrow> dget (ct_commands ct) cid = Some c \<and> c_revision c = n"
  by (auto simp: existing_command_def split: option.split)

lemma acknowledge_step:
  "acknowledge_with_actor sv (w, ct) actor p name k n target why now clock rel ren = Inr ((w', ct'), r) \<Longrightarrow> control_step sv ct ct'"
  unfolding acknowledge_with_actor_def
  by (elim bindE_Inr1E bindE_Inr2E) (auto simp: existing_command_Inr intro: changed)

lemma cancel_step:
  "command_cancel_with_actor sv (w, ct) actor p name k n ch why commit now rel ren = Inr ((w', ct'), r) \<Longrightarrow> control_step sv ct ct'"
  unfolding command_cancel_with_actor_def
  by (elim bindE_Inr1E bindE_Inr2E) (auto simp: existing_command_Inr intro: changed)

lemma result_step:
  "result_with_actor sv (w, ct) actor p name k n v now rel ren = Inr ((w', ct'), r) \<Longrightarrow> control_step sv ct ct'"
  unfolding result_with_actor_def
  by (elim bindE_Inr1E bindE_Inr2E) (auto simp: existing_command_Inr intro: changed)

lemma config_step:
  assumes "config_with_actor sv (w, ct) actor p name mid cid inp now rel ren = Inr ((w', ct'), r)"
    and "json_ok (gi_config inp)" "validate_config (bs_reads sv) (bs_digest sv) (gi_config inp) b = Inr g"
  shows "control_step sv ct ct'"
proof (cases "dget (ct_mutations ct) mid")
  case None
  then obtain paths where paths: "config_paths ct inp cid = Inr paths" and "config_revision ct = gi_expected inp"
    "py_eq (J_Int (gi_expected inp + 1)) (j_get (gi_config inp) ''revision'')"
    using assms(1) by (auto simp: config_with_actor_def Let_def)
  moreover obtain ct1 r1 where cc: "commit_config sv ct actor mid (bs_digest sv (mutation_json mid inp cid)) inp paths now = (ct1, r1)"
    by fastforce
  moreover have "ct' = ct1" using assms(1) None paths cc by (auto simp: config_with_actor_def Let_def)
  ultimately show ?thesis using committed [OF assms(2,3)] by metis
next
  case (Some c)
  then have "ct' = ct" using assms(1) by (auto simp: config_with_actor_def Let_def split: if_split_asm)
  then show ?thesis by (simp add: idle)
qed

lemma run_butler_step:
  assumes "parsed_call c" "run_butler sv c (w, ct) p name now clock = Inr ((w', ct'), r)"
  shows "control_step sv ct ct'"
proof (cases c)
  case (Submit_Command inp)
  with assms(2) have "butler_command_submit sv (w, ct) p name inp now clock = Inr ((w', ct'), r)" by (simp add: run_butler_def)
  then show ?thesis unfolding butler_command_submit_def by (auto dest!: submit_step simp del: not_None_eq)
next
  case (Acknowledge cid n target why)
  with assms(2) have "butler_command_acknowledge sv (w, ct) p name cid n target why now clock = Inr ((w', ct'), r)"
    by (simp add: run_butler_def)
  then show ?thesis unfolding butler_command_acknowledge_def by (auto dest!: acknowledge_step)
next
  case (Cancel_Command cid n ch why commit)
  with assms(2) have "butler_command_cancel sv (w, ct) p name cid n ch why commit now = Inr ((w', ct'), r)"
    by (simp add: run_butler_def)
  then show ?thesis unfolding butler_command_cancel_def by (auto dest!: cancel_step)
next
  case (Commit_Result cid n v)
  with assms(2) have "butler_command_result sv (w, ct) p name cid n v now = Inr ((w', ct'), r)" by (simp add: run_butler_def)
  then show ?thesis unfolding butler_command_result_def by (auto dest!: result_step)
next
  case (Set_Config inp)
  with assms have "butler_config_set sv (w, ct) p name inp now = Inr ((w', ct'), r)" "json_ok (gi_config inp)"
    by (simp_all add: run_butler_def parsed_call_def)
  then show ?thesis unfolding butler_config_set_def by (auto dest!: config_step)
qed

locale control_relation =
  fixes sv :: butler_services and related :: "control \<Rightarrow> control \<Rightarrow> bool"
  assumes same: "related ct ct"
    and chain: "related ct ct1 \<Longrightarrow> related ct1 ct2 \<Longrightarrow> related ct ct2"
    and step: "control_step sv ct ct' \<Longrightarrow> related ct ct'"
begin

lemma desk_step_related: "desk_step sv d d' \<Longrightarrow> related (snd d) (snd d')"
  by (cases d; cases d') (auto elim!: desk_step.cases intro: same step run_butler_step)

lemma run_related: "desk_run sv d d' \<Longrightarrow> related (snd d) (snd d')"
  by (induction rule: desk_run.induct) (blast intro: same chain desk_step_related)+

end

subsection \<open>Commands move along their state machine and leave a trail\<close>

definition same_order :: "command \<Rightarrow> command \<Rightarrow> bool" where
  "same_order c c' \<longleftrightarrow>
     c_id c' = c_id c \<and> c_project c' = c_project c \<and> c_sender c' = c_sender c \<and> c_intent c' = c_intent c \<and>
     c_parameters c' = c_parameters c \<and> c_expected c' = c_expected c \<and> c_expires_at c' = c_expires_at c \<and>
     c_priority c' = c_priority c \<and> c_digest c' = c_digest c \<and> c_created_at c' = c_created_at c"

definition develops :: "command \<Rightarrow> command \<Rightarrow> bool" where
  "develops c c' \<longleftrightarrow>
     same_order c c' \<and> transition_allowed\<^sup>*\<^sup>* (c_status c) (c_status c') \<and> prefix (c_history c) (c_history c') \<and>
     (c_status c \<in> set TERMINAL_COMMAND_STATES \<longrightarrow> c' = c)"

definition history_ok :: "command \<Rightarrow> bool" where
  "history_ok c \<longleftrightarrow>
     c_revision c = int (length (c_history c)) \<and>
     (\<forall>i < length (c_history c). tr_prior (c_history c ! i) = int i \<and> tr_current (c_history c ! i) = int i + 1)"

definition traces :: "command \<Rightarrow> transition \<Rightarrow> audit \<Rightarrow> bool" where
  "traces c tr a \<longleftrightarrow>
     au_id a = tr_audit_id tr \<and> au_category a = ''command'' \<and> au_command_id a = Some (c_id c) \<and>
     au_actor_id a = tr_actor_id tr \<and> au_reason a = tr_reason tr \<and> au_at a = tr_at tr \<and>
     au_prior a = tr_prior tr \<and> au_current a = tr_current tr"

definition order_ok :: "audit list \<Rightarrow> command \<Rightarrow> bool" where
  "order_ok aus c \<longleftrightarrow>
     history_ok c \<and> (\<forall>tr \<in> set (c_history c). \<exists>a \<in> set aus. traces c tr a) \<and>
     sender_ok (c_sender c) \<and> permit_ok (cs_channel (c_sender c)) (c_intent c) (c_priority c) \<and>
     dget COMMAND_PRIORITIES (c_priority c) \<noteq> None"

definition orderly :: "control \<Rightarrow> bool" where
  "orderly ct \<longleftrightarrow>
     dict_ok (ct_commands ct) \<and> ct_next_audit ct = int (length (ct_audit ct)) + 1 \<and>
     (\<forall>i < length (ct_audit ct). au_seq (ct_audit ct ! i) = int i + 1) \<and>
     (\<forall>k c. dget (ct_commands ct) k = Some c \<longrightarrow> c_id c = k \<and> order_ok (ct_audit ct) c)"

definition advances :: "control \<Rightarrow> control \<Rightarrow> bool" where
  "advances ct ct' \<longleftrightarrow>
     (orderly ct \<longrightarrow> orderly ct' \<and> prefix (ct_audit ct) (ct_audit ct') \<and>
        (\<forall>k c. dget (ct_commands ct) k = Some c \<longrightarrow> (\<exists>c'. dget (ct_commands ct') k = Some c' \<and> develops c c')))"

lemma develops_refl [simp]: "develops c c"
  by (simp add: develops_def same_order_def)

lemma develops_trans: "develops c c1 \<Longrightarrow> develops c1 c2 \<Longrightarrow> develops c c2"
  unfolding develops_def by (auto simp: same_order_def intro: rtranclp_trans prefix_order.trans)

lemma advances_trans: "advances ct ct1 \<Longrightarrow> advances ct1 ct2 \<Longrightarrow> advances ct ct2"
  unfolding advances_def by (meson develops_trans prefix_order.trans)

lemma audit_appended:
  assumes "append_butler_audit sv ct actor cat act out why now cid crev prior cur = (ct1, a)"
  shows "ct_audit ct1 = ct_audit ct @ [a]" "ct_next_audit ct1 = ct_next_audit ct + 1"
    "ct_commands ct1 = ct_commands ct" "ct_config ct1 = ct_config ct"
    "au_seq a = ct_next_audit ct" "au_category a = cat" "au_command_id a = cid" "au_actor_id a = agent_id actor"
    "au_reason a = why" "au_at a = now" "au_prior a = prior" "au_current a = cur"
  using assms by (auto simp: append_butler_audit_def Let_def)

lemma order_ok_more: "order_ok aus c \<Longrightarrow> order_ok (aus @ bs) c"
  unfolding order_ok_def by auto

lemma orderly_dict: "orderly ct \<Longrightarrow> dict_ok (ct_commands ct)"
  by (simp add: orderly_def)

text \<open>One audit entry, and at most one command stored under its own name.\<close>

lemma orderly_append:
  assumes "orderly ct" "ct_audit ct' = ct_audit ct @ [a]" "ct_next_audit ct' = ct_next_audit ct + 1"
    "au_seq a = ct_next_audit ct" "dict_ok (ct_commands ct')"
    and "\<And>k c. dget (ct_commands ct') k = Some c \<Longrightarrow>
      dget (ct_commands ct) k = Some c \<or> (c_id c = k \<and> order_ok (ct_audit ct') c)"
  shows "orderly ct'"
  unfolding orderly_def
proof (intro conjI)
  show "dict_ok (ct_commands ct')" by (rule assms(5))
  show "ct_next_audit ct' = int (length (ct_audit ct')) + 1"
    "\<forall>i < length (ct_audit ct'). au_seq (ct_audit ct' ! i) = int i + 1"
    using assms(1-4) by (auto simp: orderly_def nth_append less_Suc_eq)
  show "\<forall>k c. dget (ct_commands ct') k = Some c \<longrightarrow> c_id c = k \<and> order_ok (ct_audit ct') c"
    using assms(1,6) order_ok_more unfolding orderly_def assms(2) by blast
qed

lemma created_advances:
  assumes new: "dget (ct_commands ct) rid = None" and s: "sender_ok s"
    and grant: "permit_ok (cs_channel s) (ci_intent inp) (ci_priority inp)"
    and known: "dget COMMAND_PRIORITIES (ci_priority inp) \<noteq> None"
    and c: "create_command sv ct actor rid project s inp params expires digest now = (ct', c)"
  shows "advances ct ct'"
proof -
  obtain ct1 a where au: "append_butler_audit sv ct actor ''command'' ''command_submit'' ''started'' ''command_accepted'' now
      (Some rid) None 0 1 = (ct1, a)" by fastforce
  have ct': "ct_audit ct' = ct_audit ct @ [a]" "ct_next_audit ct' = ct_next_audit ct + 1"
    "ct_commands ct' = dset rid c (ct_commands ct)"
    using c audit_appended [OF au] by (auto simp: create_command_def au Let_def)
  have "c_id c = rid" "order_ok (ct_audit ct') c"
    using c s grant known audit_appended [OF au] unfolding ct'
    by (auto simp: create_command_def au Let_def order_ok_def history_ok_def traces_def)
  with new show ?thesis
    unfolding advances_def by (auto simp: ct' orderly_def [of ct] audit_appended [OF au] intro!: orderly_append [of ct ct' a] split: if_split_asm)
qed

lemma final_state: "transition_allowed s s' \<Longrightarrow> s \<notin> set TERMINAL_COMMAND_STATES"
  by (auto simp: TERMINAL_COMMAND_STATES_def transition_allowed_def COMMAND_TRANSITIONS_def)

lemma changed_advances:
  assumes c: "dget (ct_commands ct) cid = Some c"
    and t: "transition_command sv ct c actor target reason now res = Inr (ct', c')"
  shows "advances ct ct'"
proof -
  have allowed: "transition_allowed (c_status c) target" using t by (auto simp: transition_command_def)
  obtain ct1 a where au: "append_butler_audit sv ct actor ''command'' (''command_'' @ target) (transition_outcome target) reason
      now (Some (c_id c)) None (c_revision c) (c_revision c + 1) = (ct1, a)" by fastforce
  define tr where "tr = \<lparr> tr_prior = c_revision c, tr_current = c_revision c + 1, tr_actor_id = agent_id actor,
    tr_reason = reason, tr_audit_id = au_id a, tr_at = now \<rparr>"
  have ct': "ct_audit ct' = ct_audit ct @ [a]" "ct_next_audit ct' = ct_next_audit ct + 1"
    "ct_commands ct' = dset (c_id c) c' (ct_commands ct)"
    and c': "same_order c c'" "c_status c' = target" "c_history c' = c_history c @ [tr]" "c_revision c' = c_revision c + 1"
  proof -
    have "ct' = ct1\<lparr>ct_commands := dset (c_id c) c' (ct_commands ct1)\<rparr> \<and>
        c' = c\<lparr>c_status := target, c_revision := c_revision c + 1, c_updated_at := now, c_transition := tr,
               c_history := c_history c @ [tr], c_result := (case res of None \<Rightarrow> c_result c | Some r \<Rightarrow> Some r)\<rparr>"
      using t by (simp only: transition_command_def au prod.case Let_def bindE_eq_Inr sum.inject prod.inject tr_def) blast
    then show "ct_audit ct' = ct_audit ct @ [a]" "ct_next_audit ct' = ct_next_audit ct + 1"
      "ct_commands ct' = dset (c_id c) c' (ct_commands ct)" "same_order c c'" "c_status c' = target"
      "c_history c' = c_history c @ [tr]" "c_revision c' = c_revision c + 1"
      using audit_appended [OF au] by (simp_all add: same_order_def)
  qed
  have dev: "develops c c'" using allowed final_state [of "c_status c"] by (auto simp: develops_def c')
  show ?thesis unfolding advances_def
  proof (intro impI conjI)
    assume o: "orderly ct"
    then have id: "c_id c = cid" and ok: "order_ok (ct_audit ct) c" using c by (auto simp: orderly_def)
    have "traces c' tr a" using c'(1) audit_appended [OF au] by (simp add: traces_def tr_def same_order_def)
    moreover have "traces c' u b = traces c u b" for u b using c'(1) by (simp add: traces_def same_order_def)
    ultimately have "order_ok (ct_audit ct') c'"
      using ok c'(1) unfolding order_ok_def history_ok_def c' ct'
      by (auto simp: same_order_def nth_append less_Suc_eq tr_def)
    then show "orderly ct'"
      using o id c'(1) by (intro orderly_append [of ct ct' a]) (auto simp: ct' audit_appended [OF au] same_order_def orderly_dict split: if_split_asm)
    show "prefix (ct_audit ct) (ct_audit ct')" by (simp add: ct')
    show "\<forall>k d. dget (ct_commands ct) k = Some d \<longrightarrow> (\<exists>d'. dget (ct_commands ct') k = Some d' \<and> develops d d')"
      using c id dev by (auto simp: ct')
  qed
qed

lemma committed_audit:
  assumes "commit_config sv ct actor mid digest inp paths now = (ct', r)"
  obtains a where "ct_audit ct' = ct_audit ct @ [a]" "ct_next_audit ct' = ct_next_audit ct + 1"
    "au_seq a = ct_next_audit ct" "ct_commands ct' = ct_commands ct" "ct_config ct' = Some (gi_config inp)"
proof -
  let ?rev = "j_int (j_get (gi_config inp) ''revision'')"
  obtain ct1 a where au: "append_butler_audit sv ct actor ''config'' ''config_set'' ''succeeded'' ''config_cas_committed'' now
      None (Some ?rev) (config_revision ct) ?rev = (ct1, a)" by fastforce
  show thesis
    using that assms audit_appended [OF au] by (auto simp: commit_config_def au Let_def)
qed

lemma control_step_advances: "control_step sv ct ct' \<Longrightarrow> advances ct ct'"
proof (induction rule: control_step.induct)
  case (committed inp b g ct cid paths actor mid digest now ct' r)
  from committed(5) obtain a where a: "ct_audit ct' = ct_audit ct @ [a]" "ct_next_audit ct' = ct_next_audit ct + 1"
    "au_seq a = ct_next_audit ct" "ct_commands ct' = ct_commands ct" by (rule committed_audit)
  then show ?case using orderly_append [of ct ct' a] orderly_dict by (auto simp: advances_def)
qed (use created_advances changed_advances in \<open>auto simp: advances_def\<close>)

interpretation commands: control_relation sv advances for sv
  by unfold_locales (auto simp: advances_def [of ct ct for ct] intro: advances_trans control_step_advances)

subsection \<open>The stored configuration was accepted\<close>

definition sound_config :: "butler_services \<Rightarrow> control \<Rightarrow> bool" where
  "sound_config sv ct \<longleftrightarrow>
     (case ct_config ct of
        None \<Rightarrow> True
      | Some c \<Rightarrow> json_ok c \<and> (\<exists>b g. validate_config (bs_reads sv) (bs_digest sv) c b = Inr g))"

lemma created_config: "create_command sv ct actor rid project s inp params expires digest now = (ct', c) \<Longrightarrow> ct_config ct' = ct_config ct"
  by (auto simp: create_command_def append_butler_audit_def Let_def)

lemma transition_config: "transition_command sv ct c actor target reason now res = Inr (ct', c') \<Longrightarrow> ct_config ct' = ct_config ct"
  by (auto simp: transition_command_def append_butler_audit_def Let_def)

lemma control_step_sound: "control_step sv ct ct' \<Longrightarrow> sound_config sv ct \<Longrightarrow> sound_config sv ct'"
proof (induction rule: control_step.induct)
  case (committed inp b g ct cid paths actor mid digest now ct' r)
  from committed(5) have "ct_config ct' = Some (gi_config inp)" by (rule committed_audit)
  with committed(1,2) show ?case by (auto simp: sound_config_def)
qed (auto simp: sound_config_def dest: created_config transition_config)

interpretation configs: control_relation sv "\<lambda>ct ct'. sound_config sv ct \<longrightarrow> sound_config sv ct'" for sv
  by unfold_locales (auto intro: control_step_sound)

lemma empty_control_ok: "orderly empty_control" "sound_config sv empty_control"
  by (simp_all add: empty_control_def orderly_def sound_config_def dict_ok_def dkeys_def)

subsection \<open>A configuration that was written\<close>

lemma config_with_actor_new:
  assumes "config_with_actor sv (w, ct) actor p name mid cid inp now rel ren = Inr ((w', ct'), Config_Reply r False rel' ren')"
  obtains paths where "config_channel sv w p name actor (gi_channel inp) = Inr w'"
    "py_eq (J_Int (config_revision ct + 1)) (j_get (gi_config inp) ''revision'')" "config_paths ct inp cid = Inr paths"
    "ct_config ct' = Some (gi_config inp)"
proof -
  have new: "dget (ct_mutations ct) mid = None"
  proof (cases "dget (ct_mutations ct) mid")
    case (Some c)
    with assms show ?thesis by (auto simp: config_with_actor_def Let_def split: if_split_asm)
  qed
  then obtain paths where paths: "config_paths ct inp cid = Inr paths" "config_revision ct = gi_expected inp"
    "py_eq (J_Int (gi_expected inp + 1)) (j_get (gi_config inp) ''revision'')"
    using assms by (auto simp: config_with_actor_def Let_def)
  obtain ct1 r1 where cc: "commit_config sv ct actor mid (bs_digest sv (mutation_json mid inp cid)) inp paths now = (ct1, r1)"
    by fastforce
  have "config_channel sv w p name actor (gi_channel inp) = Inr w'" "ct' = ct1"
    using assms new paths(1) cc by (auto simp: config_with_actor_def Let_def)
  moreover from cc have "ct_config ct1 = Some (gi_config inp)" by (rule committed_audit)
  ultimately show thesis using that paths by simp
qed

lemma config_set_new:
  assumes "butler_config_set sv (w, ct) p name inp now = Inr ((w', ct'), Config_Reply r False rel ren)"
  obtains w1 actor cid b g paths where "config_channel sv w1 p name actor (gi_channel inp) = Inr w'"
    "validate_config (bs_reads sv) (bs_digest sv) (gi_config inp) b = Inr g"
    "py_eq (J_Int (config_revision ct + 1)) (j_get (gi_config inp) ''revision'')" "config_paths ct inp cid = Inr paths"
    "ct_config ct' = Some (gi_config inp)" "\<forall>k. cid = Some k \<longrightarrow> gi_command_id inp = Some (J_Str k)"
proof -
  obtain mid cid b g w1 actor rel1 ren1 where
    v: "validate_config (bs_reads sv) (bs_digest sv) (gi_config inp) b = Inr g"
    and cid: "(case gi_command_id inp of None \<Rightarrow> Inr None
        | Some v \<Rightarrow> bindE (require_identifier ''authorization_command_id'' v) (\<lambda>k. Inr (Some k))) = Inr cid"
    and a: "config_with_actor sv (w1, ct) actor p name mid cid inp now rel1 ren1 = Inr ((w', ct'), Config_Reply r False rel ren)"
    using assms unfolding butler_config_set_def fst_conv snd_conv
    by (elim bindE_Inr1E) (auto elim!: bindE_Inr1E bindE_Inr2E)
  have "gi_command_id inp = Some (J_Str k)" if "cid = Some k" for k
    using cid that by (auto simp: require_identifier_def split: option.split_asm json.split_asm if_split_asm)
  with a v show thesis by (rule_tac config_with_actor_new [OF a]) (rule that, assumption+, blast)
qed

lemma config_channel_human:
  assumes "config_channel sv w p name actor ''human'' = Inr w'"
  shows "''board:write'' \<in> set (pr_scopes p)"
    "\<exists>pm. resolve_board_context (brd w') (pr_id p) None = Inr pm \<and> pm_role pm = ''admin''"
  using assms by (auto simp: config_channel_def)

lemma config_channel_known: "config_channel sv w p name actor ch = Inr w' \<Longrightarrow> ch = ''human'' \<or> ch = ''a2a''"
  by (auto simp: config_channel_def split: if_split_asm)

end
