(* ===== verification/Butler_Sample.thy ===== *)
theory Butler_Sample
  imports Butler_Desk Sample_Board
begin

section \<open>A small control surface for the witnesses\<close>

text \<open>
  A board with the owner's seat and the butler's, a configuration in shadow mode and one that is autonomous,
  and the calls that write them.
\<close>

definition sample_control_services :: butler_services where
  "sample_control_services =
     \<lparr> bs_agent_id = (\<lambda>_ _ n. n), bs_reads = (\<lambda>_. Iso_At (secs 100)), bs_writes = (\<lambda>_. ''2030''),
       bs_digest = (\<lambda>_. replicate 64 (CHR ''a'')), bs_size = (\<lambda>_. 0) \<rparr>"

definition sample_owner :: principal where
  "sample_owner = \<lparr> pr_id = ''p0'', pr_scopes = [''board:write''] \<rparr>"

definition sample_no_caps :: capabilities where
  "sample_no_caps = (default_capabilities ''coordinator'')"

definition butler_world :: world where
  "butler_world = sample_world [] \<lparr>brd := (brd (sample_world []))
     \<lparr>members := [(''h'', sample_seat ''h'' ''p0'' ''worker''),
                  (''k'', (sample_seat ''k'' ''p0'' ''coordinator'')\<lparr>caps := Some sample_no_caps\<rparr>)],
      principal_memberships := [(''p0'', sample_membership ''admin'')]\<rparr>\<rparr>"

definition sample_count :: json where
  "sample_count = J_Obj [(''min'', J_Int 0), (''target'', J_Int 1), (''max'', J_Int 2)]"

definition sample_budget :: json where
  "sample_budget = J_Obj [(''period'', J_Str ''day''), (''max_tokens'', J_Int 10), (''max_cost_microunits'', J_Null),
     (''max_external_calls'', J_Int 5)]"

definition sample_connector :: "bool \<Rightarrow> json" where
  "sample_connector on = J_Obj
     [(''connector_id'', J_Str ''c1''), (''enabled'', J_Bool on), (''transport'', J_Str ''stdio''),
      (''protocol_revision'', J_Str ''2025-06-18''), (''endpoint_ref'', J_Str ''e1''), (''secret_ref'', J_Null),
      (''resources'', J_List []), (''tools'', J_List []),
      (''limits'', J_Obj [(''timeout_ms'', J_Int 1000), (''max_input_bytes'', J_Int 10), (''max_output_bytes'', J_Int 10),
                        (''max_concurrency'', J_Int 1), (''calls_per_minute'', J_Int 1)])]"

definition sample_runtime :: json where
  "sample_runtime = J_Obj
     [(''host_ref'', J_Str ''host''), (''revision'', J_Int 1), (''agent_process_ceiling'', J_Int 10),
      (''control_plane_processes'', J_Int 2), (''total_process_ceiling'', J_Int 12), (''configured_by'', J_Str ''p0''),
      (''configured_at'', J_Str ''2026'')]"

definition sample_desired :: "string \<Rightarrow> string \<Rightarrow> bool \<Rightarrow> json" where
  "sample_desired mode runner on = J_Obj
     [(''mode'', J_Str mode), (''runner'', J_Str runner),
      (''capacity'', J_Obj [(''worker'', sample_count), (''reviewer'', sample_count), (''acp_worker'', sample_count)]),
      (''host_concurrency'', J_Int 2), (''board_concurrency'', J_Int 2),
      (''cooldowns'', J_Obj [(''scale_up_s'', J_Int 1), (''scale_down_s'', J_Int 1), (''failure_backoff_s'', J_Int 1)]),
      (''budget'', sample_budget), (''connectors'', J_List [sample_connector on])]"

definition sample_envelope :: json where
  "sample_envelope = J_Obj
     [(''fingerprint_sha256'', J_Str (replicate 64 (CHR ''a''))), (''approved_template_ids'', J_List [J_Str ''t1'']),
      (''approved_connector_ids'', J_List [J_Str ''c1'']),
      (''max_capacity'', J_Obj [(''worker'', J_Int 3), (''reviewer'', J_Int 3), (''acp_worker'', J_Int 3)]),
      (''max_host_concurrency'', J_Int 4), (''max_board_concurrency'', J_Int 4), (''max_budget'', sample_budget),
      (''created_by'', J_Str ''p0''), (''created_at'', J_Str ''2026'')]"

definition sample_authorization :: json where
  "sample_authorization = J_Obj
     [(''authorization_id'', J_Str ''A1''), (''config_revision'', J_Int 1),
      (''envelope_fingerprint_sha256'', J_Str (replicate 64 (CHR ''a''))), (''expires_at'', J_Str ''2030'')]"

definition sample_configuration :: "int \<Rightarrow> string \<Rightarrow> bool \<Rightarrow> json" where
  "sample_configuration n runner on = J_Obj
     [(''schema'', J_Str ''autonomous_butler_config_v1''), (''schema_version'', J_Int 1), (''board_id'', J_Str ''b''),
      (''revision'', J_Int n), (''enabled'', J_Bool True), (''host_runtime'', sample_runtime),
      (''desired'', sample_desired ''autonomous'' runner on), (''envelope'', sample_envelope),
      (''authorization'', sample_authorization)]"

definition sample_setting :: config_input where
  "sample_setting = \<lparr> gi_mutation_id = J_Str ''m1'', gi_channel = ''human'', gi_config = sample_configuration 1 ''direct_api'' True,
     gi_expected = 0, gi_command_id = None \<rparr>"

definition sample_kill :: command_input where
  "sample_kill = \<lparr> ci_request_id = J_Str ''q1'', ci_project_id = J_Str ''pr'', ci_channel = ''human'', ci_intent = ''kill'',
     ci_parameters = J_Obj [(''reason_code'', J_Str ''stop'')], ci_expected = 0, ci_expires_at = J_Str ''2030'',
     ci_priority = ''emergency'' \<rparr>"

lemma sample_valid:
  "validate_config (bs_reads sample_control_services) (bs_digest sample_control_services)
     (sample_configuration 1 ''direct_api'' True) ''b'' = Inr (sample_configuration 1 ''direct_api'' True)"
  by code_simp

lemma sample_actor:
  obtains w a where "butler_call_actor sample_control_services butler_world sample_owner ''h'' 0 = Inr (w, a, [], [])"
    "config_channel sample_control_services w sample_owner ''h'' a ''human'' = Inr w" "board_id (brd w) = ''b''"
proof -
  have "case butler_call_actor sample_control_services butler_world sample_owner ''h'' 0 of
      Inr (w, a, x, y) \<Rightarrow> x = [] \<and> y = [] \<and> board_id (brd w) = ''b'' \<and>
        (case config_channel sample_control_services w sample_owner ''h'' a ''human'' of Inr w' \<Rightarrow> True | _ \<Rightarrow> False)
    | _ \<Rightarrow> False"
    by code_simp
  then show thesis using that
    by (auto simp: config_channel_def split: sum.split_asm if_split_asm)
qed

lemma sample_set:
  obtains w ct r where "butler_config_set sample_control_services (butler_world, empty_control) sample_owner ''h'' sample_setting 0 =
      Inr ((w, ct), Config_Reply r False [] [])" "ct_config ct = Some (sample_configuration 1 ''direct_api'' True)"
proof -
  obtain w a where w: "butler_call_actor sample_control_services butler_world sample_owner ''h'' 0 = Inr (w, a, [], [])"
    "config_channel sample_control_services w sample_owner ''h'' a ''human'' = Inr w" by (rule sample_actor)
  obtain ps where ps: "config_paths empty_control sample_setting None = Inr ps"
  proof -
    have "case config_paths empty_control sample_setting None of Inr ps \<Rightarrow> True | _ \<Rightarrow> False" by code_simp
    then show thesis using that by (auto split: sum.split_asm)
  qed
  define d where "d = bs_digest sample_control_services (mutation_json ''m1'' sample_setting None)"
  obtain ct r where ct: "commit_config sample_control_services empty_control a ''m1'' d sample_setting ps 0 = (ct, r)" by fastforce
  have "ct_config ct = Some (sample_configuration 1 ''direct_api'' True)"
    using ct by (auto simp: commit_config_def append_butler_audit_def Let_def sample_setting_def)
  moreover have "py_eq (J_Int 1) (j_get (sample_configuration 1 ''direct_api'' True) ''revision'')" by code_simp
  moreover have "require_identifier ''mutation_id'' (J_Str ''m1'') = Inr ''m1''" by code_simp
  moreover have "board_id (brd butler_world) = ''b''" "config_revision empty_control = 0" by code_simp+
  moreover have "bs_size sample_control_services v = 0" for v by (simp add: sample_control_services_def)
  ultimately have "butler_config_set sample_control_services (butler_world, empty_control) sample_owner ''h'' sample_setting 0 =
      Inr ((w, ct), Config_Reply r False [] [])"
    using w ps ct sample_valid
    by (simp add: butler_config_set_def config_with_actor_def sample_setting_def empty_control_def d_def Let_def
        sample_owner_def require_board_write_or_coordinate_def)
  with \<open>ct_config ct = _\<close> show thesis using that by blast
qed

lemma sample_submit:
  obtains w ct c where "butler_command_submit sample_control_services (butler_world, empty_control) sample_owner ''h'' sample_kill 0 0 =
      Inr ((w, ct), Command_Reply c False [] [])" "dget (ct_commands ct) ''q1'' = Some c" "c_status c = ''accepted''"
    "c_priority c = ''emergency''"
proof -
  have "case butler_command_submit sample_control_services (butler_world, empty_control) sample_owner ''h'' sample_kill 0 0 of
      Inr ((w, ct), Command_Reply c b rel ren) \<Rightarrow> \<not> b \<and> rel = [] \<and> ren = [] \<and> c_status c = ''accepted'' \<and>
        c_priority c = ''emergency'' \<and> dget (ct_commands ct) ''q1'' = Some c
    | _ \<Rightarrow> False"
    by code_simp
  then show thesis
  proof (cases "butler_command_submit sample_control_services (butler_world, empty_control) sample_owner ''h'' sample_kill 0 0")
    case (Inr x)
    obtain w ct y where x: "x = ((w, ct), y)" by (metis prod.collapse)
    from that \<open>case _ of Inr _ \<Rightarrow> _ | _ \<Rightarrow> False\<close> show thesis unfolding Inr x by (cases y) auto
  qed simp
qed

end
