(* ===== verification/Butler_Properties.thy ===== *)
theory Butler_Properties
  imports Butler_Runs Butler_Sample
begin

section \<open>Properties of the control surface\<close>

subsection \<open>An agent's own change\<close>

lemma agent_change_is_shadow:
  assumes b: "validate_config rdt dg b bid = Inr b'" "json_ok b" and a: "validate_config rdt dg a aid = Inr a'" "json_ok a"
    and auth: "validate_config_authority (Some b) a ''a2a'' = Inr ps"
    and rev: "py_eq (J_Int (j_int (j_get b ''revision'') + 1)) (j_get a ''revision'')"
  shows "authorization_valid sv (Some a) clock = Inr False"
proof -
  let ?v = "\<lambda>c. j_get c ''authorization''"
  from b(1) obtain n v where n: "j_get b ''revision'' = J_Int n" and ab: "check_authorization rdt b = Inr v"
    by (rule validate_config_parts)
  from a(1) obtain m where m: "j_get a ''revision'' = J_Int m" by (rule validate_config_parts)
  have mn: "m = n + 1" using rev n m by simp
  have "\<not> (is_obj (?v a) \<and> py_eq (j_get (?v a) ''config_revision'') (j_get a ''revision''))"
  proof
    assume o: "is_obj (?v a) \<and> py_eq (j_get (?v a) ''config_revision'') (j_get a ''revision'')"
    have same: "same_at b a ''authorization''"
      by (rule agent.entry_kept [OF agent_obeys [OF auth] b(2) a(2) desired_objects(1) [OF b(1)] desired_objects(1) [OF a(1)]])
        (simp_all add: child_def agent_not_under)
    have pa: "map_of (j_items a) ''authorization'' = Some (?v a)" using o present [of a] by simp
    then obtain x where x: "map_of (j_items b) ''authorization'' = Some x" "py_eq x (?v a)"
      using same by (auto simp: same_at_def split: option.split_asm)
    then have xb: "x = ?v b" using desired_objects(1) [OF b(1)] by (cases b) auto
    have ob: "is_obj (?v b)" and entry: "same_at (?v b) (?v a) ''config_revision''"
      using same_object_entry [of "?v b" "?v a"] x(2) o json_ok_j_get b(2) a(2) unfolding xb by blast+
    obtain k where k: "j_get (?v b) ''config_revision'' = J_Int k" "k \<le> n"
      using ab ob n by (auto simp: check_authorization_def Let_def)
    then have "map_of (j_items (?v b)) ''config_revision'' = Some (J_Int k)" using present [of "?v b"] by simp
    then obtain y where "map_of (j_items (?v a)) ''config_revision'' = Some y" "py_eq (J_Int k) y"
      using entry by (auto simp: same_at_def split: option.split_asm)
    moreover from this have "j_get (?v a) ''config_revision'' = y" using o by (cases "?v a") auto
    ultimately have "j_num (j_get (?v a) ''config_revision'') = Some (of_int k)" by simp
    then show False using o m mn k(2) by (auto simp: py_eq_num)
  qed
  then show ?thesis by (auto simp: authorization_valid_def Let_def)
qed



lemma j_get_has: "j_get v k \<noteq> J_Null \<Longrightarrow> j_has v k"
  by (cases v) (auto split: option.split_asm dest: map_of_SomeD intro: rev_image_eqI)

lemma own_change_is_shadow:
  assumes "sound_config sv ct" "json_ok a" "validate_config (bs_reads sv) (bs_digest sv) a aid = Inr a'"
    and "py_eq (J_Int (config_revision ct + 1)) (j_get a ''revision'')"
    and "validate_config_authority (ct_config ct) a ''a2a'' = Inr paths"
  shows "authorization_valid sv (Some a) clock = Inr False"
proof (cases "ct_config ct")
  case None
  with assms(5) show ?thesis by (simp add: validate_config_authority_def)
next
  case (Some b)
  with assms(1) obtain bid b' where b: "json_ok b" "validate_config (bs_reads sv) (bs_digest sv) b bid = Inr b'"
    by (auto simp: sound_config_def)
  from b(2) obtain n where "is_obj b" "j_get b ''revision'' = J_Int n" by (rule validate_config_parts)
  then have "config_revision ct = j_int (j_get b ''revision'')"
    using j_get_has [of b "''revision''"] by (simp add: config_revision_def Some get_or_def)
  then show ?thesis using agent_change_is_shadow [OF b(2,1) assms(3,2) assms(5) [unfolded Some]] assms(4) by simp
qed

lemma grant_needs_command:
  assumes "validate_host_seat_cap_command_authority before a c = Inr paths"
  shows "c_intent c = ''set_host_seat_cap''" "c_status c = ''applying''" "cs_channel (c_sender c) = ''human''"
    "py_eq (j_get (c_parameters c) ''host_seat_cap'') (j_get (j_get a ''envelope'') ''host_seat_cap'')"
  using assms
  by (auto simp: validate_host_seat_cap_command_authority_def is_cap_grant_def grant_matches_def Let_def py_eq_num
      split: option.split_asm)

text \<open>C35: autonomy comes from people. On every run from an empty control record, a configuration that is
  written and after which the butler's effective mode is anything but \<open>shadow\<close> was written either by a board
  admin on the human channel who is not the butler, or by the butler in execution of a command to set the seat cap that a
  board admin gave and that is being applied.\<close>

theorem autonomy_is_granted_by_people:
  assumes run: "desk_run sv (w0, empty_control) (w, ct)" and parsed: "json_ok (gi_config inp)"
    and set: "butler_config_set sv (w, ct) p name inp now = Inr ((w', ct'), Config_Reply r False rel ren)"
    and mode: "effective_mode sv (ct_config ct') clock = Inr m" "m \<noteq> J_Str ''shadow''"
  shows "(gi_channel inp = ''human'' \<and> ''board:write'' \<in> set (pr_scopes p) \<and>
        (\<exists>pm. resolve_board_context (brd w') (pr_id p) None = Inr pm \<and> pm_role pm = ''admin'')) \<or>
      (gi_channel inp = ''a2a'' \<and> (\<exists>k c. gi_command_id inp = Some (J_Str k) \<and> dget (ct_commands ct) k = Some c \<and>
        c_intent c = ''set_host_seat_cap'' \<and> c_status c = ''applying'' \<and>
        cs_channel (c_sender c) = ''human'' \<and> cs_membership_role (c_sender c) = ''admin'' \<and>
        py_eq (j_get (c_parameters c) ''host_seat_cap'') (j_get (j_get (gi_config inp) ''envelope'') ''host_seat_cap'')))"
proof -
  obtain w1 actor cid b g paths where ch: "config_channel sv w1 p name actor (gi_channel inp) = Inr w'"
    and valid: "validate_config (bs_reads sv) (bs_digest sv) (gi_config inp) b = Inr g"
    and rev: "py_eq (J_Int (config_revision ct + 1)) (j_get (gi_config inp) ''revision'')"
    and paths: "config_paths ct inp cid = Inr paths" and stored: "ct_config ct' = Some (gi_config inp)"
    and cid: "\<forall>k. cid = Some k \<longrightarrow> gi_command_id inp = Some (J_Str k)"
    using config_set_new [OF set] by metis
  have kept: "orderly ct" "sound_config sv ct"
    using commands.run_related [OF run] configs.run_related [OF run] empty_control_ok by (simp_all add: advances_def)
  show ?thesis
  proof (cases "gi_channel inp = ''human''")
    case True
    with ch config_channel_human show ?thesis by metis
  next
    case False
    then have a2a: "gi_channel inp = ''a2a''" using config_channel_known [OF ch] by simp
    show ?thesis
    proof (cases cid)
      case None
      then have auth: "validate_config_authority (ct_config ct) (gi_config inp) ''a2a'' = Inr paths"
        using paths a2a by (simp add: config_paths_def)
      have "authorization_valid sv (Some (gi_config inp)) clock = Inr False"
        by (rule own_change_is_shadow [OF kept(2) parsed valid rev auth])
      then have "m = J_Str ''shadow''" using mode(1) by (simp add: effective_mode_def stored)
      with mode(2) show ?thesis by simp
    next
      case (Some k)
      with paths obtain c where c: "dget (ct_commands ct) k = Some c"
        "validate_host_seat_cap_command_authority (ct_config ct) (gi_config inp) c = Inr paths"
        by (auto simp: config_paths_def split: option.split_asm)
      have "sender_ok (c_sender c)" using kept(1) c(1) by (simp add: orderly_def order_ok_def)
      with c grant_needs_command [OF c(2)] a2a cid Some show ?thesis by (auto simp: sender_ok_def)
    qed
  qed
qed

theorem autonomy_is_granted_by_people_witness:
  "\<exists>w' ct' r. butler_config_set sample_control_services (butler_world, empty_control) sample_owner ''h'' sample_setting 0 =
      Inr ((w', ct'), Config_Reply r False [] []) \<and>
    (\<exists>pm. resolve_board_context (brd w') ''p0'' None = Inr pm \<and> pm_role pm = ''admin'')"
proof -
  obtain w ct r where set: "butler_config_set sample_control_services (butler_world, empty_control) sample_owner ''h'' sample_setting 0 =
      Inr ((w, ct), Config_Reply r False [] [])" and ct: "ct_config ct = Some (sample_configuration 1 ''direct_api'' True)"
    by (rule sample_set)
  have "case effective_mode sample_control_services (Some (sample_configuration 1 ''direct_api'' True)) 0 of
      Inr m \<Rightarrow> m = J_Str ''autonomous'' | _ \<Rightarrow> False" by code_simp
  then have mode: "effective_mode sample_control_services (ct_config ct) 0 = Inr (J_Str ''autonomous'')"
    by (simp add: ct split: sum.split_asm)
  have parsed: "json_ok (gi_config sample_setting)" by code_simp
  from autonomy_is_granted_by_people [OF desk_run.start parsed set mode] set show ?thesis
    by (auto simp: sample_setting_def sample_owner_def)
qed

text \<open>The run on which the owner submits a command.\<close>

lemma sample_submitted:
  obtains d c where "desk_run sample_control_services (butler_world, empty_control) d" "dget (ct_commands (snd d)) ''q1'' = Some c"
    "c_priority c = ''emergency''"
proof -
  obtain w ct c where s: "butler_command_submit sample_control_services (butler_world, empty_control) sample_owner ''h'' sample_kill 0 0 =
      Inr ((w, ct), Command_Reply c False [] [])" "dget (ct_commands ct) ''q1'' = Some c" "c_priority c = ''emergency''"
    by (rule sample_submit)
  have "desk_step sample_control_services (butler_world, empty_control) (w, ct)"
    by (rule desk_step.call [where c = "Submit_Command sample_kill"]) (use s(1) in \<open>simp_all add: run_butler_def parsed_call_def\<close>)
  from desk_run.step [OF desk_run.start this] s(2,3) show thesis using that [of "(w, ct)" c] by simp
qed

text \<open>C37: commands move along their state machine. From any state of the control record that a run from
  the empty one reaches, every command stays in the store on every further run, with what was asked, by whom
  and until when unchanged; its status follows the table of transitions, its history only grows, and a
  command in a final state never changes.\<close>

theorem commands_only_advance:
  assumes "desk_run sv (w0, empty_control) d" "desk_run sv d d'" "dget (ct_commands (snd d)) k = Some c"
  shows "\<exists>c'. dget (ct_commands (snd d')) k = Some c' \<and> same_order c c' \<and>
    transition_allowed\<^sup>*\<^sup>* (c_status c) (c_status c') \<and> prefix (c_history c) (c_history c') \<and>
    (c_status c \<in> set TERMINAL_COMMAND_STATES \<longrightarrow> c' = c)"
proof -
  have "orderly (snd d)" using commands.run_related [OF assms(1)] empty_control_ok by (simp add: advances_def)
  then obtain c' where "dget (ct_commands (snd d')) k = Some c'" "develops c c'"
    using commands.run_related [OF assms(2)] assms(3) unfolding advances_def by blast
  then show ?thesis by (auto simp: develops_def)
qed

theorem commands_only_advance_witness:
  "\<exists>d c. desk_run sample_control_services (butler_world, empty_control) d \<and> dget (ct_commands (snd d)) ''q1'' = Some c \<and>
    (\<exists>c'. dget (ct_commands (snd d)) ''q1'' = Some c' \<and> same_order c c')"
proof -
  obtain d c where d: "desk_run sample_control_services (butler_world, empty_control) d" "dget (ct_commands (snd d)) ''q1'' = Some c"
    by (rule sample_submitted)
  from commands_only_advance [OF d(1) desk_run.start d(2)] d show ?thesis by blast
qed

text \<open>C38: every move is on record. On every run from an empty control record the audit entries carry the numbers 1, 2,
  3 and so on; a command's revision is the length of its history, whose entries lead from one revision to the
  next, and for each there is an audit entry with the same actor, reason, time and revisions.\<close>

theorem every_move_is_audited:
  assumes "desk_run sv (w0, empty_control) (w, ct)"
  shows "map au_seq (ct_audit ct) = map int [1..<Suc (length (ct_audit ct))] \<and>
    (\<forall>k c. dget (ct_commands ct) k = Some c \<longrightarrow>
      c_id c = k \<and> c_revision c = int (length (c_history c)) \<and>
      (\<forall>i < length (c_history c).
        tr_prior (c_history c ! i) = int i \<and> tr_current (c_history c ! i) = int i + 1 \<and>
        (\<exists>a \<in> set (ct_audit ct). traces c (c_history c ! i) a)))"
proof -
  have o: "orderly ct" using commands.run_related [OF assms] empty_control_ok by (simp add: advances_def)
  then have "\<forall>i < length (ct_audit ct). au_seq (ct_audit ct ! i) = int i + 1" by (simp add: orderly_def)
  then have "map au_seq (ct_audit ct) = map int [1..<Suc (length (ct_audit ct))]"
    by (intro nth_equalityI) (auto simp del: upt_Suc)
  with o show ?thesis by (auto simp: orderly_def order_ok_def history_ok_def)
qed

theorem every_move_is_audited_witness:
  "\<exists>d c. desk_run sample_control_services (butler_world, empty_control) d \<and> dget (ct_commands (snd d)) ''q1'' = Some c \<and>
    c_revision c = int (length (c_history c))"
proof -
  obtain d c where d: "desk_run sample_control_services (butler_world, empty_control) d" "dget (ct_commands (snd d)) ''q1'' = Some c"
    by (rule sample_submitted)
  obtain w ct where e: "d = (w, ct)" by fastforce
  have "c_revision c = int (length (c_history c))"
    using every_move_is_audited [OF d(1) [unfolded e]] d(2) by (simp add: e)
  with d show ?thesis by blast
qed

lemma cancelled_command:
  assumes "butler_command_cancel sv (w, ct) p name (J_Str k) n ''a2a'' why commit now = Inr (d', r)"
  shows "\<exists>c. dget (ct_commands ct) k = Some c \<and> cs_channel (c_sender c) \<noteq> ''human''"
proof -
  obtain w1 actor rel ren why' where
    "command_cancel_with_actor sv (w1, ct) actor p name k n ''a2a'' why' commit now rel ren = Inr (d', r)"
    using assms unfolding butler_command_cancel_def fst_conv snd_conv
    by (elim bindE_Inr1E) (auto simp: require_identifier_def split: if_split_asm)
  then show ?thesis unfolding command_cancel_with_actor_def fst_conv snd_conv
    by (elim bindE_Inr1E) (auto simp: existing_command_Inr may_cancel_def split: if_split_asm)
qed

text \<open>C39: agents never overrule people. A cancellation on the agents' channel that succeeds was of a command an
  agent gave; and on every run from an empty control record each stored command to set the seat cap or to
  resume, and each of emergency priority, was given on the human channel by a board admin.\<close>

theorem agents_never_overrule_people:
  assumes "desk_run sv (w0, empty_control) (w, ct)"
  shows "(butler_command_cancel sv (w, ct) p name (J_Str k) n ''a2a'' why commit now = Inr (d', r) \<longrightarrow>
        (\<exists>c. dget (ct_commands ct) k = Some c \<and> cs_channel (c_sender c) = ''a2a'')) \<and>
    (dget (ct_commands ct) j = Some c \<and>
        (c_intent c \<in> {''set_host_seat_cap'', ''resume''} \<or> c_priority c = ''emergency'') \<longrightarrow>
        cs_channel (c_sender c) = ''human'' \<and> cs_membership_role (c_sender c) = ''admin'')"
proof -
  have o: "orderly ct" using commands.run_related [OF assms] empty_control_ok by (simp add: advances_def)
  then have ok: "sender_ok (c_sender c) \<and> permit_ok (cs_channel (c_sender c)) (c_intent c) (c_priority c)"
    if "dget (ct_commands ct) j = Some c" for j c
    using that by (simp add: orderly_def order_ok_def)
  have "\<exists>c. dget (ct_commands ct) k = Some c \<and> cs_channel (c_sender c) = ''a2a''"
    if "butler_command_cancel sv (w, ct) p name (J_Str k) n ''a2a'' why commit now = Inr (d', r)"
  proof -
    from cancelled_command [OF that] obtain c where "dget (ct_commands ct) k = Some c" "cs_channel (c_sender c) \<noteq> ''human''"
      by blast
    with ok show ?thesis by (auto simp: sender_ok_def)
  qed
  with ok show ?thesis by (auto simp: sender_ok_def permit_ok_def)
qed

theorem agents_never_overrule_people_witness:
  "\<exists>d c. desk_run sample_control_services (butler_world, empty_control) d \<and> dget (ct_commands (snd d)) ''q1'' = Some c \<and>
    c_priority c = ''emergency'' \<and> cs_channel (c_sender c) = ''human''"
proof -
  obtain d c where d: "desk_run sample_control_services (butler_world, empty_control) d" "dget (ct_commands (snd d)) ''q1'' = Some c"
    "c_priority c = ''emergency''"
    by (rule sample_submitted)
  obtain w ct where e: "d = (w, ct)" by fastforce
  have "cs_channel (c_sender c) = ''human''"
    using agents_never_overrule_people [OF d(1) [unfolded e], where j = "''q1''" and c = c] d(2,3) by (simp add: e)
  with d show ?thesis by blast
qed

lemma distinct_commands:
  assumes "orderly ct"
  shows "distinct (dvalues (ct_commands ct))"
proof -
  have d: "distinct (map fst (ct_commands ct))" using orderly_dict [OF assms] by (simp add: dict_ok_def dkeys_def)
  have "c_id (snd q) = fst q" if "q \<in> set (ct_commands ct)" for q
    using assms dict_ok_lookup [OF orderly_dict [OF assms], of "fst q" "snd q"] that by (simp add: orderly_def)
  then have "map c_id (dvalues (ct_commands ct)) = map fst (ct_commands ct)" by (simp add: dvalues_def)
  with d show ?thesis by (metis distinct_map)
qed

lemma stored_commands:
  assumes "orderly ct"
  shows "set (dvalues (ct_commands ct)) = {c. dget (ct_commands ct) (c_id c) = Some c}"
proof (intro equalityI subsetI)
  fix c assume "c \<in> set (dvalues (ct_commands ct))"
  then obtain k where "(k, c) \<in> set (ct_commands ct)" by (auto simp: dvalues_def)
  then have k: "dget (ct_commands ct) k = Some c" by (rule dict_ok_lookup [OF orderly_dict [OF assms]])
  moreover from this have "c_id c = k" using assms by (simp add: orderly_def)
  ultimately show "c \<in> {c. dget (ct_commands ct) (c_id c) = Some c}" by simp
next
  fix c assume "c \<in> {c. dget (ct_commands ct) (c_id c) = Some c}"
  then have "(c_id c, c) \<in> set (ct_commands ct)" by (intro dget_in_values) simp
  then show "c \<in> set (dvalues (ct_commands ct))" by (force simp: dvalues_def)
qed

lemma first_le: "(a :: 'a :: order, b :: 'b :: order) \<le> (c, d) \<Longrightarrow> a \<le> c"
  by (auto simp: less_eq_prod_def)

lemma rank_order:
  assumes "dget COMMAND_PRIORITIES pa = Some m" "dget COMMAND_PRIORITIES pb = Some n" "command_rank ca pa ia \<le> command_rank cb pb ib"
  shows "(cb = ''human'' \<longrightarrow> ca = ''human'') \<and> ((ca = ''human'' \<longleftrightarrow> cb = ''human'') \<longrightarrow> n \<le> m)"
  using assms by (auto simp: command_rank_def split: if_split_asm)

text \<open>C40: people are served first. On every run from an empty control record, the queue a principal reads consists of
  the stored commands it may see, each once; no command of an agent stands before one of a human, and among
  commands of the same channel the higher priority comes first.\<close>

theorem people_are_served_first:
  assumes run: "desk_run sv (w0, empty_control) (w, ct)"
  shows "distinct (command_queue ct pm p st) \<and>
    set (command_queue ct pm p st) =
      {c. dget (ct_commands ct) (c_id c) = Some c \<and> sees_command pm p c \<and> (st = None \<or> st = Some (c_status c))} \<and>
    (\<forall>i j. i < j \<and> j < length (command_queue ct pm p st) \<longrightarrow>
      (let a = command_queue ct pm p st ! i; b = command_queue ct pm p st ! j in
       (cs_channel (c_sender b) = ''human'' \<longrightarrow> cs_channel (c_sender a) = ''human'') \<and>
       ((cs_channel (c_sender a) = ''human'' \<longleftrightarrow> cs_channel (c_sender b) = ''human'') \<longrightarrow>
          the (dget COMMAND_PRIORITIES (c_priority b)) \<le> the (dget COMMAND_PRIORITIES (c_priority a)))))"
proof -
  let ?q = "command_queue ct pm p st"
  have o: "orderly ct" using commands.run_related [OF run] empty_control_ok by (simp add: advances_def)
  have set: "set ?q = {c. dget (ct_commands ct) (c_id c) = Some c \<and> sees_command pm p c \<and> (st = None \<or> st = Some (c_status c))}"
    unfolding command_queue_def set_sort set_filter stored_commands [OF o] by (cases st) auto
  have "distinct (dvalues (ct_commands ct))" by (rule distinct_commands [OF o])
  then have "distinct ?q" by (simp add: command_queue_def)
  moreover have "(cs_channel (c_sender (?q ! j)) = ''human'' \<longrightarrow> cs_channel (c_sender (?q ! i)) = ''human'') \<and>
      ((cs_channel (c_sender (?q ! i)) = ''human'' \<longleftrightarrow> cs_channel (c_sender (?q ! j)) = ''human'') \<longrightarrow>
        the (dget COMMAND_PRIORITIES (c_priority (?q ! j))) \<le> the (dget COMMAND_PRIORITIES (c_priority (?q ! i))))"
    if ij: "i < j" "j < length ?q" for i j
  proof -
    have known: "dget COMMAND_PRIORITIES (c_priority (?q ! n)) \<noteq> None" if "n < length ?q" for n
    proof -
      have "dget (ct_commands ct) (c_id (?q ! n)) = Some (?q ! n)" using nth_mem [OF that] unfolding set by simp
      with o have "order_ok (ct_audit ct) (?q ! n)" unfolding orderly_def by metis
      then show ?thesis unfolding order_ok_def by blast
    qed
    obtain x y where xy: "dget COMMAND_PRIORITIES (c_priority (?q ! i)) = Some x" "dget COMMAND_PRIORITIES (c_priority (?q ! j)) = Some y"
      using known [of i] known [of j] ij by auto
    have "sorted (map command_sort_key ?q)" by (simp add: command_queue_def)
    then have "command_sort_key (?q ! i) \<le> command_sort_key (?q ! j)" using ij by (simp add: sorted_iff_nth_mono)
    then have "command_rank (cs_channel (c_sender (?q ! i))) (c_priority (?q ! i)) (c_intent (?q ! i)) \<le>
        command_rank (cs_channel (c_sender (?q ! j))) (c_priority (?q ! j)) (c_intent (?q ! j))"
      unfolding command_sort_key_def by (rule first_le)
    from rank_order [OF xy this] xy show ?thesis by simp
  qed
  ultimately show ?thesis using set unfolding Let_def by blast
qed

theorem people_are_served_first_witness:
  "\<exists>d c. desk_run sample_control_services (butler_world, empty_control) d \<and> dget (ct_commands (snd d)) ''q1'' = Some c \<and>
    distinct (command_queue (snd d) (sample_membership ''admin'') sample_owner None)"
proof -
  obtain d c where d: "desk_run sample_control_services (butler_world, empty_control) d" "dget (ct_commands (snd d)) ''q1'' = Some c"
    by (rule sample_submitted)
  obtain w ct where e: "d = (w, ct)" by fastforce
  have "distinct (command_queue ct (sample_membership ''admin'') sample_owner None)"
    using people_are_served_first [OF d(1) [unfolded e]] by blast
  with d show ?thesis by (auto simp: e)
qed

text \<open>C36: the configuration stays within its envelope. On every run from an empty control record the stored configuration
  keeps, for every role, floor, target and maximum in order and below the envelope's limit, both concurrencies below
  theirs, names only approved connectors, carries the fingerprint of the envelope it was accepted with, and is
  autonomous only when it is enabled and names an authorization.\<close>

theorem configuration_stays_in_its_envelope:
  assumes run: "desk_run sv (w0, empty_control) (w, ct)" and c: "ct_config ct = Some c"
  shows "(\<forall>r \<in> set ROLES. role_within (j_get (j_get c ''desired'') ''capacity'') (j_get (j_get c ''envelope'') ''max_capacity'') r) \<and>
    int_within (j_get (j_get c ''desired'') ''host_concurrency'') (j_get (j_get c ''envelope'') ''max_host_concurrency'') \<and>
    int_within (j_get (j_get c ''desired'') ''board_concurrency'') (j_get (j_get c ''envelope'') ''max_board_concurrency'') \<and>
    (\<forall>x \<in> set (j_list (j_get (j_get c ''desired'') ''connectors'')).
       j_get x ''connector_id'' \<in> set (j_list (j_get (j_get c ''envelope'') ''approved_connector_ids''))) \<and>
    j_get (j_get c ''envelope'') ''fingerprint_sha256'' = J_Str (bs_digest sv (without ''fingerprint_sha256'' (j_get c ''envelope''))) \<and>
    (j_get (j_get c ''desired'') ''mode'' = J_Str ''autonomous'' \<longrightarrow>
       j_get c ''enabled'' = J_Bool True \<and> j_get c ''authorization'' \<noteq> J_Null)"
proof -
  have "sound_config sv ct" using configs.run_related [OF run] empty_control_ok by simp
  then obtain b g where v: "validate_config (bs_reads sv) (bs_digest sv) c b = Inr g" by (auto simp: sound_config_def c)
  from v obtain u where "check_authorization (bs_reads sv) c = Inr u" by (rule validate_config_parts)
  then have "j_get (j_get c ''desired'') ''mode'' = J_Str ''autonomous'' \<longrightarrow>
      j_get c ''enabled'' = J_Bool True \<and> j_get c ''authorization'' \<noteq> J_Null"
    by (simp add: check_authorization_def Let_def)
  moreover have "''worker'' \<in> set ROLES" by (simp add: ROLES_def)
  ultimately show ?thesis using validated_within [OF v] validated_connectors [OF v] by blast
qed

theorem configuration_stays_in_its_envelope_witness:
  "\<exists>w ct c. desk_run sample_control_services (butler_world, empty_control) (w, ct) \<and> ct_config ct = Some c \<and>
    int_within (j_get (j_get c ''desired'') ''host_concurrency'') (j_get (j_get c ''envelope'') ''max_host_concurrency'')"
proof -
  obtain w ct r where set: "butler_config_set sample_control_services (butler_world, empty_control) sample_owner ''h'' sample_setting 0 =
      Inr ((w, ct), Config_Reply r False [] [])" and ct: "ct_config ct = Some (sample_configuration 1 ''direct_api'' True)"
    by (rule sample_set)
  have "parsed_call (Set_Config sample_setting)" by code_simp
  moreover have "run_butler sample_control_services (Set_Config sample_setting) (butler_world, empty_control) sample_owner ''h'' 0 0 =
      Inr ((w, ct), Config_Reply r False [] [])" using set by (simp add: run_butler_def)
  ultimately have run: "desk_run sample_control_services (butler_world, empty_control) (w, ct)"
    by (intro desk_run.step [OF desk_run.start desk_step.call])
  from configuration_stays_in_its_envelope [OF run ct] run ct show ?thesis by blast
qed

end
