(* ===== verification/Spec2Isabelle.thy ===== *)
theory Spec2Isabelle
  imports Queue_Properties Review_Properties Journal_Properties Workflow_Properties Delivery_Properties Admin_Properties Butler_Properties
begin

text \<open>
  Pursers is a ticket board for agents.  Its server, Pursers Central
  (\<^verbatim>\<open>src/packages/central/src/pursers_central\<close>), keeps one document per board and offers tools over MCP;
  its client library (\<^verbatim>\<open>src/packages/client/src/pursers_client\<close>) holds the rules that seats and operators
  share.  This development is a model of the server's core and of three client modules, with the properties
  that make them correct.

  \<^bold>\<open>How the program works, and how it is modelled.\<close>  A seat (an agent of a principal) joins a board.  Tickets
  are offered to seats, claimed under a lease, submitted, reviewed under a review lease by somebody else, and
  closed or sent back.  Every mutating tool is one transaction on the document: it first runs the reaper, which
  releases what has lapsed, then resolves and touches the caller, then does its work, then dispatches the
  queue again.  A tool is a function from the document (\<open>world\<close>) to an error (\<open>Inl\<close>: the transaction is rolled
  back) or a new document with a reply (\<open>Inr\<close>: committed, refusals included).  Exceptions of Python are values,
  also those nobody meant to raise (\<open>TypeError\<close>, \<open>KeyError\<close>, \<open>AttributeError\<close>).  Times are integers
  (microseconds), Python integers are \<open>int\<close>, dictionaries are association lists in insertion order where order
  shows, unvalidated input is the datatype \<open>json\<close>.

  \<^bold>\<open>Theories and sources.\<close>
  \<^item> \<open>Pursers_Prelude\<close>, \<open>Json_Values\<close>: results, folds that may raise, dictionaries, strings; JSON with Python's
    equality.
  \<^item> \<open>Board_State\<close>, \<open>Seats\<close>, \<open>Work_Leases\<close>, \<open>Dispatch\<close>, \<open>Dispatch_Queue\<close>, \<open>Reaper\<close> (\<open>central.py\<close>): the document;
    what a seat can do; leases and bounded histories; \<open>dispatch_ticket\<close> and its checks; offers, their expiry and
    the queue; the reaper and the preamble of a call.
  \<^item> \<open>Model_Usage\<close>, \<open>Ticket_Claims\<close>, \<open>Submission_Evidence\<close>, \<open>Ticket_Review\<close>, \<open>Human_Schema\<close>, \<open>Ticket_Human\<close>:
    usage accounting; claim, unclaim, renew, reap; the identity of a submission
    (\<open>submission_evidence.py\<close>); submit, review, cancel; questions to people and their schemas.
  \<^item> \<open>Seat_Reports\<close>, \<open>Seat_Tools\<close>, \<open>Ticket_Admin\<close>: what seats report of themselves and the tools that store it;
    retirement; requirements, parking, annotations, assignment, progress.
  \<^item> \<open>Event_Kinds\<close>, \<open>Event_Journal\<close>, \<open>Journal_Index\<close>, \<open>Consumer_Cursors\<close>, \<open>Event_Publication\<close>, \<open>Board_Catchup\<close>
    (\<open>events.py\<close>, \<open>journal.py\<close>, \<open>sqlite_store.py\<close>, \<open>cursor.py\<close>, \<open>central.py\<close>): the journal, its row index, the
    readers' cursors and the sweep that compacts behind them, publication, and the feed a seat reads.
  \<^item> \<open>Project_Workflow\<close>, \<open>Workflow_Reconcile\<close>, \<open>Workflow_Packet\<close> (\<open>project_workflow.py\<close>): graphs of tickets, the
    release of tickets whose prerequisites are accepted, the packet for final validation.
  \<^item> \<open>Delivery_Policy\<close>, \<open>Delivery_Layers\<close> (\<open>delivery_workflow.py\<close>): delivery policies and the merge of their layers.
  \<^item> \<open>Butler_Commands\<close>, \<open>Butler_Config\<close>, \<open>Butler_Authority\<close>, \<open>Butler_Control\<close>, \<open>Butler_Desk\<close>
    (\<open>butler_commands.py\<close>, \<open>central.py\<close>): commands to the board butler and their state machine, its
    configuration with the envelope people set, who may change which path of it, and the audit.
  \<^item> \<open>Board_Steps\<close>: the server as a transition system, one step per tool or pass of the timer; \<open>desk_run\<close> in
    \<open>Butler_Desk\<close> is the same for the control surface, \<open>feed_run\<close> in \<open>Feed_Runs\<close> for a reader of the journal.

  \<^bold>\<open>Interfaces.\<close>  Locales state what a component relies on, and are interpreted on the model: \<open>safe_sweep\<close>,
  \<open>local_sweep\<close>, \<open>stored_sweep\<close> and \<open>calm_sweep\<close> (loop bodies of the dispatcher), \<open>ticket_promise\<close> (facts
  dispatching keeps), the contract of a handler behind the preamble (\<open>Tool_Contracts\<close>, one interpretation per
  tool), \<open>event_log\<close> (whatever stores the journal), \<open>strengthening\<close> (one merge step of policies), \<open>path_policy\<close>
  (which paths a change may touch) and \<open>control_relation\<close> (what each step of the control surface keeps).

  \<^bold>\<open>What is shown.\<close>
  \<^item> \<open>Dispatch_Properties\<close>, \<open>Reaper_Properties\<close>, \<open>Queue_Properties\<close>: an offer goes to a free seat that fits; the
    diagnostics agree with the decision; the reaper always returns and frees what has lapsed; the read-only
    predictor is sound; bounded histories conserve entries.
  \<^item> \<open>Board_Properties\<close>, \<open>Tool_Properties\<close>, \<open>Review_Properties\<close>, \<open>Schema_Properties\<close>: over whole runs no seat is
    booked twice (where claims go through offers), closed tickets were reviewed by somebody else, terminal
    tickets never change, the document stays well formed; what a claim needs and when it succeeds; what a
    submission and a verdict do; answers to accepted schemas never crash.
  \<^item> \<open>Admin_Properties\<close>: a seat that reports itself not ready, or is retired, is offered nothing; progress is a
    compare-and-swap; annotations keep the latest fifty; normalised capabilities are a fixed point; a parked
    ticket is not offered.
  \<^item> \<open>Journal_Properties\<close>: the feed loses nothing; the sweep spares live consumers; both stores refine one log.
  \<^item> \<open>Workflow_Properties\<close>, \<open>Delivery_Properties\<close>: releases respect prerequisites and never block; packets round
    trip; layers only strengthen a policy.
  \<^item> \<open>Butler_Properties\<close>: an agent cannot change what people fixed; autonomy is granted by people only; the
    configuration stays in its envelope; commands move along their table, with a complete audit; people are
    served first.

  \<^bold>\<open>Parameters.\<close>  Code that is not under \<^verbatim>\<open>src\<close>, or that only transports bytes, is an argument: the hashes (agent
  identifiers, consumer identities, digests of canonical JSON), the JSON encoder, \<open>float\<close> on texts,
  \<open>datetime.fromisoformat\<close> and \<open>isoformat\<close>, \<open>ZoneInfo\<close>, the proof of a remote tip, the scrubber on texts, the
  check of URLs.  Where a property relies on one of them, the hypothesis says so and its witness instantiates it.

  \<^bold>\<open>Bounds and termination.\<close>  No operation of the model has fuel.  Loops over the document are folds over the keys
  that the source snapshots.  \<open>dispatch_ticket\<close> calls itself only after a pin was released, \<open>changed_paths\<close> and the
  schema walks go down the size of a value, the cycle search of a workflow goes down the unvisited nodes.

  \<^bold>\<open>Not modelled.\<close>  Storage backends and locks (a transaction is taken as atomic), sessions, subscriptions and the
  waiting tools (I/O), authentication, the projections of the reading tools other than those named above, the
  joining of boards, memories and coordinator questions, the archive of old tickets, and the programs around the
  server: dashboard, board butler process, wait bridge, coordinator process, runtimes of seats, importers and
  release tools.  They are listed with the reason in the manifest.
\<close>

end
